(* ===== verification/Prelude.thy ===== *)
theory Prelude
  imports Complex_Main "HOL-Library.Char_ord" "HOL-Library.List_Lexorder"
begin

section \<open>Prelude: text, effects and shared automation\<close>

text \<open>
  What every component shares: the model of Go text (\<open>strings.TrimSpace\<close>, case mapping,
  substring search, splitting), the effect type of the store operations (SQL calls that may fail,
  transactions that roll back), the error values, and the proof rules over them.

  A model character stands for one Unicode code point of the range U+0000 to U+00FF, so
  \<open>length\<close> is \<open>utf8.RuneCountInString\<close>. The em dash, which the code uses as a
  placeholder, lies outside that range and is written \<open>em_dash\<close> (the C1 control U+0097, which
  the code never uses); likewise \<open>ellipsis\<close>.
\<close>

named_theorems op_defs \<open>the definitions of the effect combinators\<close>
named_theorems readonly_intros \<open>operations that leave the tables alone\<close>
named_theorems atomic_intros \<open>operations that leave the tables alone when they fail\<close>
named_theorems keeps_intros \<open>operations that keep an invariant of the tables\<close>

subsection \<open>Text\<close>

definition em_dash :: string where
  "em_dash = [CHR 0x97]"

definition ellipsis :: string where
  \<comment> \<open>U+2026, written as the C1 control U+0096\<close>
  "ellipsis = [CHR 0x96]"

definition arrow :: string where
  \<comment> \<open>U+2192, written as the C1 control U+0095\<close>
  "arrow = [CHR 0x95]"

definition mid_dot :: string where
  "mid_dot = [CHR 0xB7]"

definition is_space :: "char \<Rightarrow> bool" where
  \<comment> \<open>unicode.IsSpace on U+0000..U+00FF\<close>
  "is_space c \<longleftrightarrow> c \<in> {CHR '' '', CHR 0x09, CHR 0x0A, CHR 0x0B, CHR 0x0C, CHR 0x0D, CHR 0x85, CHR 0xA0}"

definition trim_right :: "string \<Rightarrow> string" where
  "trim_right s = rev (dropWhile is_space (rev s))"

definition trim :: "string \<Rightarrow> string" where
  \<comment> \<open>strings.TrimSpace\<close>
  "trim s = trim_right (dropWhile is_space s)"

definition btrim :: "string \<Rightarrow> string" where
  \<comment> \<open>PostgreSQL BTRIM and TRIM: spaces only\<close>
  "btrim s = rev (dropWhile (\<lambda>c. c = CHR '' '') (rev (dropWhile (\<lambda>c. c = CHR '' '') s)))"

definition char_code :: "char \<Rightarrow> nat" where
  "char_code c = of_char c"

definition lower_char :: "char \<Rightarrow> char" where
  "lower_char c = (let n = char_code c in
     if (65 \<le> n \<and> n \<le> 90) \<or> (192 \<le> n \<and> n \<le> 222 \<and> n \<noteq> 215) then char_of (n + 32) else c)"

definition upper_char :: "char \<Rightarrow> char" where
  "upper_char c = (let n = char_code c in
     if (97 \<le> n \<and> n \<le> 122) \<or> (224 \<le> n \<and> n \<le> 254 \<and> n \<noteq> 247) then char_of (n - 32) else c)"

definition to_lower :: "string \<Rightarrow> string" where
  "to_lower = map lower_char"

definition to_upper :: "string \<Rightarrow> string" where
  "to_upper = map upper_char"

definition equal_fold :: "string \<Rightarrow> string \<Rightarrow> bool" where
  \<comment> \<open>strings.EqualFold\<close>
  "equal_fold a b \<longleftrightarrow> to_lower a = to_lower b"

definition is_digit :: "char \<Rightarrow> bool" where
  "is_digit c \<longleftrightarrow> 48 \<le> char_code c \<and> char_code c \<le> 57"

definition is_ascii_letter :: "char \<Rightarrow> bool" where
  "is_ascii_letter c \<longleftrightarrow> (97 \<le> char_code c \<and> char_code c \<le> 122) \<or> (65 \<le> char_code c \<and> char_code c \<le> 90)"

fun has_prefix :: "string \<Rightarrow> string \<Rightarrow> bool" where
  \<comment> \<open>\<open>has_prefix s p\<close> is strings.HasPrefix(s, p)\<close>
  "has_prefix s [] = True"
| "has_prefix [] (p # ps) = False"
| "has_prefix (c # cs) (p # ps) = (c = p \<and> has_prefix cs ps)"

fun contains :: "string \<Rightarrow> string \<Rightarrow> bool" where
  \<comment> \<open>\<open>contains s p\<close> is strings.Contains(s, p)\<close>
  "contains [] p = (p = [])"
| "contains (c # cs) p = (has_prefix (c # cs) p \<or> contains cs p)"

fun split_on :: "char \<Rightarrow> string \<Rightarrow> string list" where
  \<comment> \<open>strings.Split(s, sep) with a one-character separator\<close>
  "split_on d [] = [[]]"
| "split_on d (c # cs) =
     (if c = d then [] # split_on d cs
      else (case split_on d cs of [] \<Rightarrow> [[c]] | w # ws \<Rightarrow> (c # w) # ws))"

fun join :: "string \<Rightarrow> string list \<Rightarrow> string" where
  \<comment> \<open>strings.Join\<close>
  "join sep [] = []"
| "join sep [w] = w"
| "join sep (w # w' # ws) = w @ sep @ join sep (w' # ws)"

lemma trim_right_Nil [simp]: "trim_right [] = []"
  by (simp add: trim_right_def)

lemma trim_Nil [simp]: "trim [] = []"
  by (simp add: trim_def)

lemma set_trim: "set (trim s) \<subseteq> set s"
  unfolding trim_def trim_right_def by (metis set_dropWhileD set_rev subsetI)

lemma dropWhile_idem: "dropWhile P (dropWhile P xs) = dropWhile P xs"
  by (simp add: dropWhile_eq_self_iff hd_dropWhile)

lemma trim_right_prefix: "\<exists>zs. s = trim_right s @ zs \<and> (\<forall>z \<in> set zs. is_space z)"
proof -
  have "rev s = takeWhile is_space (rev s) @ dropWhile is_space (rev s)" by simp
  then have "s = trim_right s @ rev (takeWhile is_space (rev s))"
    by (metis rev_append rev_rev_ident trim_right_def)
  moreover have "\<forall>z \<in> set (rev (takeWhile is_space (rev s))). is_space z"
    by (auto dest: set_takeWhileD)
  ultimately show ?thesis by blast
qed

lemma trim_right_idem: "trim_right (trim_right s) = trim_right s"
  by (simp add: trim_right_def dropWhile_idem)

lemma hd_trim: "trim s \<noteq> [] \<Longrightarrow> \<not> is_space (hd (trim s))"
proof -
  assume ne: "trim s \<noteq> []"
  let ?d = "dropWhile is_space s"
  obtain zs where z: "?d = trim_right ?d @ zs" using trim_right_prefix by blast
  have "trim_right ?d \<noteq> []" using ne by (simp add: trim_def)
  then have "hd (trim s) = hd ?d" using z by (metis hd_append2 trim_def)
  moreover have "?d \<noteq> []" using \<open>trim_right ?d \<noteq> []\<close> trim_right_Nil by metis
  ultimately show ?thesis by (simp add: hd_dropWhile)
qed

lemma trim_idem [simp]: "trim (trim s) = trim s"
proof (cases "trim s = []")
  case False
  then have "dropWhile is_space (trim s) = trim s"
    by (simp add: dropWhile_eq_self_iff hd_trim)
  then have "trim (trim s) = trim_right (trim s)" by (simp add: trim_def)
  then show ?thesis by (simp add: trim_def trim_right_idem)
qed simp

lemma trim_no_space: "\<forall>c \<in> set s. \<not> is_space c \<Longrightarrow> trim s = s"
proof -
  assume n: "\<forall>c \<in> set s. \<not> is_space c"
  have "dropWhile is_space xs = xs" if "set xs = set s" for xs
    using n that by (cases xs) auto
  then show ?thesis unfolding trim_def trim_right_def by simp
qed

lemma equal_fold_refl [simp]: "equal_fold a a"
  by (simp add: equal_fold_def)

lemma length_to_lower [simp]: "length (to_lower s) = length s"
  by (simp add: to_lower_def)

lemma length_to_upper [simp]: "length (to_upper s) = length s"
  by (simp add: to_upper_def)

definition deref :: "string option \<Rightarrow> string" where
  \<comment> \<open>derefString (users.go): the pointed-to text, or the empty string\<close>
  "deref p = (case p of None \<Rightarrow> [] | Some s \<Rightarrow> s)"

definition trimmed :: "string option \<Rightarrow> string" where
  \<comment> \<open>the text behind a pointer, trimmed; empty when the pointer is nil\<close>
  "trimmed p = trim (deref p)"

definition non_empty :: "string \<Rightarrow> string option" where
  "non_empty s = (if trim s = [] then None else Some (trim s))"

lemma trimmed_simps [simp]: "trimmed None = []" "trimmed (Some s) = trim s"
  by (simp_all add: trimmed_def deref_def)

lemma deref_simps [simp]: "deref None = []" "deref (Some s) = s"
  by (simp_all add: deref_def)

subsection \<open>Duplicate-free identifier lists\<close>

fun clean_ids :: "string list \<Rightarrow> string list \<Rightarrow> string list" where
  \<comment> \<open>the loop "trim, drop the empty, drop what was seen" of AssignLeads, LeadNameBriefs and
      mergeRecipientIDs; the first argument is the map \<open>seen\<close>\<close>
  "clean_ids seen [] = []"
| "clean_ids seen (x # xs) =
     (let i = trim x in
      if i = [] then clean_ids seen xs
      else if i \<in> set seen then clean_ids seen xs
      else i # clean_ids (i # seen) xs)"

lemma clean_ids_set: "set (clean_ids seen xs) = {trim x |x. x \<in> set xs \<and> trim x \<noteq> []} - set seen"
proof (induction xs arbitrary: seen)
  case (Cons x xs)
  show ?case by (auto simp: Let_def Cons.IH)
qed simp

lemma clean_ids_distinct: "distinct (clean_ids seen xs)"
proof (induction xs arbitrary: seen)
  case (Cons x xs)
  then show ?case by (auto simp: Let_def clean_ids_set)
qed simp

lemma clean_ids_trimmed: "i \<in> set (clean_ids seen xs) \<Longrightarrow> trim i = i \<and> i \<noteq> []"
  by (auto simp: clean_ids_set)

lemma clean_ids_length: "length (clean_ids seen xs) \<le> length xs"
  by (induction xs arbitrary: seen) (auto simp: Let_def le_SucI)

subsection \<open>Tables\<close>

definition upd_where :: "('a \<Rightarrow> bool) \<Rightarrow> ('a \<Rightarrow> 'a) \<Rightarrow> 'a list \<Rightarrow> 'a list" where
  \<comment> \<open>UPDATE ... SET f WHERE P\<close>
  "upd_where P f xs = map (\<lambda>x. if P x then f x else x) xs"

definition del_where :: "('a \<Rightarrow> bool) \<Rightarrow> 'a list \<Rightarrow> 'a list" where
  \<comment> \<open>DELETE ... WHERE P\<close>
  "del_where P xs = filter (\<lambda>x. \<not> P x) xs"

definition count_where :: "('a \<Rightarrow> bool) \<Rightarrow> 'a list \<Rightarrow> nat" where
  "count_where P xs = length (filter P xs)"

definition first_by :: "('a \<Rightarrow> int) \<Rightarrow> 'a list \<Rightarrow> 'a option" where
  \<comment> \<open>ORDER BY key ASC LIMIT 1; ties go to the earlier row of the table\<close>
  "first_by key xs = (case sort_key key xs of [] \<Rightarrow> None | x # _ \<Rightarrow> Some x)"

lemma length_upd_where [simp]: "length (upd_where P f xs) = length xs"
  by (simp add: upd_where_def)

lemma upd_where_Nil [simp]: "upd_where P f [] = []"
  by (simp add: upd_where_def)

lemma set_upd_where: "set (upd_where P f xs) = (\<lambda>x. if P x then f x else x) ` set xs"
  by (simp add: upd_where_def)

lemma in_upd_where: "y \<in> set (upd_where P f xs) \<longleftrightarrow> (\<exists>x \<in> set xs. y = (if P x then f x else x))"
  by (auto simp: set_upd_where)

lemma map_upd_where: "(\<And>x. P x \<Longrightarrow> k (f x) = k x) \<Longrightarrow> map k (upd_where P f xs) = map k xs"
  by (simp add: upd_where_def)

lemma upd_where_id: "(\<And>x. x \<in> set xs \<Longrightarrow> \<not> P x) \<Longrightarrow> upd_where P f xs = xs"
  by (simp add: upd_where_def map_idI)

lemma count_where_0: "count_where P xs = 0 \<longleftrightarrow> (\<forall>x \<in> set xs. \<not> P x)"
  by (auto simp: count_where_def filter_empty_conv)

lemma first_by_in: "first_by key xs = Some x \<Longrightarrow> x \<in> set xs"
  by (metis first_by_def list.set_intros(1) list.simps(4,5) neq_Nil_conv option.distinct(1)
      option.inject set_sort)

lemma first_by_None: "first_by key xs = None \<longleftrightarrow> xs = []"
proof
  assume "first_by key xs = None"
  then have "sort_key key xs = []" by (simp add: first_by_def split: list.splits)
  then show "xs = []" by (metis length_0_conv length_sort)
qed (simp add: first_by_def)

lemma distinct_key_inj:
  "distinct (map k xs) \<Longrightarrow> x \<in> set xs \<Longrightarrow> y \<in> set xs \<Longrightarrow> k x = k y \<Longrightarrow> x = y"
  by (induction xs) (auto simp: image_iff)

lemma filter_upd_where:
  "(\<And>x. P x \<Longrightarrow> \<not> Q x \<and> \<not> Q (f x)) \<Longrightarrow> filter Q (upd_where P f xs) = filter Q xs"
  by (induction xs) (auto simp: upd_where_def)

subsection \<open>Decimal numerals\<close>

fun dec_digits :: "nat \<Rightarrow> string" where
  "dec_digits n = (if n < 10 then [char_of (48 + n)] else dec_digits (n div 10) @ [char_of (48 + n mod 10)])"

declare dec_digits.simps [simp del]

lemma find_None_ex: "find P xs = None \<longleftrightarrow> \<not> list_ex P xs"
  by (induction xs) auto

lemma find_append: "find P (xs @ ys) = (case find P xs of None \<Rightarrow> find P ys | Some x \<Rightarrow> Some x)"
  by (induction xs) auto

lemma find_upd_where: "(\<And>x. P x \<Longrightarrow> k (f x) = k x) \<Longrightarrow>
    find (\<lambda>x. k x = v) (upd_where P f xs) = map_option (\<lambda>x. if P x then f x else x) (find (\<lambda>x. k x = v) xs)"
  by (induction xs) (auto simp: upd_where_def)

lemma find_del_where: "(\<And>x. k x = v \<Longrightarrow> \<not> P x) \<Longrightarrow> find (\<lambda>x. k x = v) (del_where P xs) = find (\<lambda>x. k x = v) xs"
  by (induction xs) (auto simp: del_where_def)

definition format_int :: "int \<Rightarrow> string" where
  \<comment> \<open>strconv.FormatInt(n, 10)\<close>
  "format_int n = (if n < 0 then CHR ''-'' # dec_digits (nat (- n)) else dec_digits (nat n))"

fun dec_value :: "nat \<Rightarrow> string \<Rightarrow> nat option" where
  "dec_value acc [] = Some acc"
| "dec_value acc (c # cs) = (if is_digit c then dec_value (10 * acc + (char_code c - 48)) cs else None)"

definition atoi :: "string \<Rightarrow> int option" where
  \<comment> \<open>strconv.Atoi on a 64-bit platform\<close>
  "atoi s =
     (let (neg, ds) = (case s of c # cs \<Rightarrow> if c = CHR ''-'' then (True, cs) else if c = CHR ''+'' then (False, cs) else (False, s)
                       | [] \<Rightarrow> (False, s)) in
      if ds = [] then None
      else case dec_value 0 ds of None \<Rightarrow> None
      | Some n \<Rightarrow> if neg then (if n \<le> 2 ^ 63 then Some (- int n) else None)
                 else (if n < 2 ^ 63 then Some (int n) else None))"

end
