(* ===== verification/Hub.thy ===== *)
theory Hub
  imports Prelude
begin

section \<open>The realtime hub (realtime.go)\<close>

text \<open>
  The fan-out of server-sent events. The hub keeps the registered clients; every client owns a
  buffered Go channel of capacity 64 whose pending messages and closedness are modelled, because a
  send on a closed channel and a second close both panic. Every operation therefore returns an
  option, \<open>None\<close> being the panic. A payload is the event it encodes (\<open>json.Marshal\<close> of the
  event record cannot fail). Go iterates its map in an unspecified order; here the order is that
  of the list, and no theorem below depends on it except through the choice of team and role that
  \<open>Snapshot\<close> makes for a user with several connections.
\<close>

record presence_info =
  pi_user :: string
  pi_team :: string
  pi_role :: string

record realtime_event =
  ev_type :: string
  ev_lead :: string
  ev_user :: string
  ev_team :: string
  ev_role :: string
  ev_users :: "presence_info list"
  ev_actor :: string
  ev_session :: string
  ev_at :: int

record sse_client =
  c_id :: string
  c_user :: string
  c_role :: string
  c_team :: string
  c_sid :: string

record chan =
  ch_buf :: "realtime_event list"
  ch_closed :: bool

record hub =
  clients :: "sse_client list"
  chans :: "string \<rightharpoonup> chan"

abbreviation EvtLeadCreated :: string where "EvtLeadCreated \<equiv> ''lead.created''"
abbreviation EvtLeadUpdated :: string where "EvtLeadUpdated \<equiv> ''lead.updated''"
abbreviation EvtLeadDeleted :: string where "EvtLeadDeleted \<equiv> ''lead.deleted''"
abbreviation EvtUserCreated :: string where "EvtUserCreated \<equiv> ''user.created''"
abbreviation EvtUserUpdated :: string where "EvtUserUpdated \<equiv> ''user.updated''"
abbreviation EvtUserDeleted :: string where "EvtUserDeleted \<equiv> ''user.deleted''"
abbreviation EvtPresenceOnline :: string where "EvtPresenceOnline \<equiv> ''presence.online''"
abbreviation EvtPresenceOffline :: string where "EvtPresenceOffline \<equiv> ''presence.offline''"
abbreviation EvtPresenceSync :: string where "EvtPresenceSync \<equiv> ''presence.sync''"
abbreviation EvtAuthSessionReplaced :: string where "EvtAuthSessionReplaced \<equiv> ''auth.session_replaced''"

definition blank_event :: realtime_event where
  \<comment> \<open>the zero value a composite literal starts from\<close>
  "blank_event = \<lparr>ev_type = [], ev_lead = [], ev_user = [], ev_team = [], ev_role = [],
     ev_users = [], ev_actor = [], ev_session = [], ev_at = 0\<rparr>"

definition new_hub :: hub where
  "new_hub = \<lparr>clients = [], chans = Map.empty\<rparr>"

subsection \<open>Registration\<close>

definition chan_cap :: nat where
  "chan_cap = 64"

definition hub_add :: "sse_client \<Rightarrow> hub \<Rightarrow> hub \<times> nat \<times> bool" where
  "hub_add c h =
     (let firstForUser = \<not> list_ex (\<lambda>existing. c_user existing = c_user c) (clients h);
          cs = filter (\<lambda>x. c_id x \<noteq> c_id c) (clients h) @ [c]
      in (h\<lparr>clients := cs\<rparr>, length cs, firstForUser))"

definition hub_open :: "sse_client \<Rightarrow> hub \<Rightarrow> hub" where
  \<comment> \<open>the \<open>make(chan []byte, 64)\<close> of the client literal in handleEvents\<close>
  "hub_open c h = h\<lparr>chans := (chans h)(c_id c \<mapsto> \<lparr>ch_buf = [], ch_closed = False\<rparr>)\<rparr>"

definition chan_close :: "string \<Rightarrow> hub \<Rightarrow> hub option" where
  "chan_close i h = (case chans h i of
       None \<Rightarrow> None
     | Some c \<Rightarrow> if ch_closed c then None
                 else Some (h\<lparr>chans := (chans h)(i \<mapsto> c\<lparr>ch_closed := True\<rparr>)\<rparr>))"

definition hub_remove :: "string \<Rightarrow> hub \<Rightarrow> (hub \<times> presence_info \<times> bool) option" where
  "hub_remove i h = (case find (\<lambda>c. c_id c = i) (clients h) of
       None \<Rightarrow> Some (h, \<lparr>pi_user = [], pi_team = [], pi_role = []\<rparr>, False)
     | Some c \<Rightarrow>
         (let h' = h\<lparr>clients := filter (\<lambda>x. c_id x \<noteq> i) (clients h)\<rparr>;
              info = \<lparr>pi_user = c_user c, pi_team = c_team c, pi_role = c_role c\<rparr>;
              lastForUser = \<not> list_ex (\<lambda>existing. c_user existing = c_user c) (clients h')
          in case chan_close i h' of None \<Rightarrow> None | Some h'' \<Rightarrow> Some (h'', info, lastForUser)))"

definition client_count :: "hub \<Rightarrow> nat" where
  "client_count h = length (clients h)"

subsection \<open>Presence\<close>

definition is_online :: "string \<Rightarrow> hub \<Rightarrow> bool" where
  "is_online user h = (let u = trim user in
     if u = [] then False else list_ex (\<lambda>c. c_user c = u) (clients h))"

fun snapshot_loop :: "string list \<Rightarrow> sse_client list \<Rightarrow> presence_info list" where
  "snapshot_loop seen [] = []"
| "snapshot_loop seen (c # cs) =
     (if c_user c \<in> set seen then snapshot_loop seen cs
      else \<lparr>pi_user = c_user c, pi_team = c_team c, pi_role = c_role c\<rparr>
             # snapshot_loop (c_user c # seen) cs)"

definition snapshot :: "hub \<Rightarrow> presence_info list" where
  "snapshot h = snapshot_loop [] (clients h)"

definition online_count :: "string \<Rightarrow> hub \<Rightarrow> nat" where
  "online_count team h =
     (let t = trim team; t = (if t = ''none'' then [] else t)
      in length (filter (\<lambda>p. t = [] \<or> pi_team p = t) (snapshot h)))"

subsection \<open>Delivery\<close>

definition chan_send :: "string \<Rightarrow> realtime_event \<Rightarrow> hub \<Rightarrow> hub option" where
  \<comment> \<open>\<open>select { case c.ch <- payload: default: }\<close>: drop when the buffer is full, panic when closed\<close>
  "chan_send i e h = (case chans h i of
       None \<Rightarrow> None
     | Some c \<Rightarrow> if ch_closed c then None
                 else if length (ch_buf c) < chan_cap
                      then Some (h\<lparr>chans := (chans h)(i \<mapsto> c\<lparr>ch_buf := ch_buf c @ [e]\<rparr>)\<rparr>)
                      else Some h)"

definition stamp :: "int \<Rightarrow> realtime_event \<Rightarrow> realtime_event" where
  "stamp now e = (if ev_at e = 0 then e\<lparr>ev_at := now\<rparr> else e)"

fun send_each :: "string list \<Rightarrow> realtime_event \<Rightarrow> hub \<Rightarrow> hub option" where
  "send_each [] e h = Some h"
| "send_each (i # is) e h = (case chan_send i e h of None \<Rightarrow> None | Some h' \<Rightarrow> send_each is e h')"

definition send_to :: "int \<Rightarrow> string \<Rightarrow> realtime_event \<Rightarrow> hub \<Rightarrow> hub option" where
  "send_to now i e h = chan_send i (stamp now e) h"

definition broadcast :: "int \<Rightarrow> realtime_event \<Rightarrow> hub \<Rightarrow> hub option" where
  "broadcast now e h = send_each (map c_id (clients h)) (stamp now e) h"

definition broadcast_to_user :: "int \<Rightarrow> string \<Rightarrow> realtime_event \<Rightarrow> hub \<Rightarrow> hub option" where
  "broadcast_to_user now user e h =
     (let u = trim user in
      if u = [] then Some h
      else send_each (map c_id (filter (\<lambda>c. c_user c = u) (clients h))) (stamp now e) h)"

fun remove_each :: "string list \<Rightarrow> hub \<Rightarrow> hub option" where
  "remove_each [] h = Some h"
| "remove_each (i # is) h =
     (case hub_remove i h of None \<Rightarrow> None | Some (h', _) \<Rightarrow> remove_each is h')"

definition drop_user_except :: "string \<Rightarrow> string \<Rightarrow> hub \<Rightarrow> hub option" where
  "drop_user_except user keepSID h =
     (let u = trim user; keep = trim keepSID in
      if u = [] then Some h
      else remove_each
             (map c_id (filter (\<lambda>c. c_user c = u \<and> \<not> (keep \<noteq> [] \<and> c_sid c = keep)) (clients h))) h)"

definition drop_user :: "string \<Rightarrow> hub \<Rightarrow> hub option" where
  "drop_user user h = drop_user_except user [] h"

subsection \<open>The hub invariant\<close>

definition hub_ok :: "hub \<Rightarrow> bool" where
  \<comment> \<open>identifiers are unique and every registered client has an open channel within its capacity\<close>
  "hub_ok h \<longleftrightarrow> distinct (map c_id (clients h)) \<and>
     (\<forall>c \<in> set (clients h). \<exists>ch. chans h (c_id c) = Some ch \<and> \<not> ch_closed ch) \<and>
     (\<forall>i ch. chans h i = Some ch \<longrightarrow> length (ch_buf ch) \<le> chan_cap)"

definition open_at :: "string \<Rightarrow> hub \<Rightarrow> bool" where
  "open_at i h \<longleftrightarrow> (\<exists>ch. chans h i = Some ch \<and> \<not> ch_closed ch)"

lemma hub_okI:
  assumes "distinct (map c_id (clients h))"
    and "\<And>c. c \<in> set (clients h) \<Longrightarrow> open_at (c_id c) h"
    and "\<And>i ch. chans h i = Some ch \<Longrightarrow> length (ch_buf ch) \<le> chan_cap"
  shows "hub_ok h"
  using assms by (auto simp: hub_ok_def open_at_def)

lemma hub_ok_distinct: "hub_ok h \<Longrightarrow> distinct (map c_id (clients h))"
  by (simp add: hub_ok_def)

lemma hub_ok_open: "hub_ok h \<Longrightarrow> c \<in> set (clients h) \<Longrightarrow> open_at (c_id c) h"
  by (simp add: hub_ok_def open_at_def)

lemma hub_ok_cap: "hub_ok h \<Longrightarrow> chans h i = Some ch \<Longrightarrow> length (ch_buf ch) \<le> chan_cap"
  by (simp add: hub_ok_def)

lemma hub_ok_new: "hub_ok new_hub"
  by (simp add: hub_ok_def new_hub_def)

lemma hub_ok_add:
  assumes "hub_ok h"
  shows "hub_ok (fst (hub_add c (hub_open c h)))"
proof (rule hub_okI)
  show "distinct (map c_id (clients (fst (hub_add c (hub_open c h)))))"
    using hub_ok_distinct [OF assms]
    by (auto simp: hub_add_def hub_open_def Let_def distinct_map_filter)
next
  fix x assume "x \<in> set (clients (fst (hub_add c (hub_open c h))))"
  then show "open_at (c_id x) (fst (hub_add c (hub_open c h)))"
    using hub_ok_open [OF assms, of x]
    by (auto simp: hub_add_def hub_open_def Let_def open_at_def)
next
  fix i ch assume "chans (fst (hub_add c (hub_open c h))) i = Some ch"
  then show "length (ch_buf ch) \<le> chan_cap"
    using hub_ok_cap [OF assms]
    by (auto simp: hub_add_def hub_open_def Let_def split: if_splits)
qed

lemma chan_send_open:
  assumes "hub_ok h" "open_at i h"
  shows "\<exists>h'. chan_send i e h = Some h' \<and> hub_ok h' \<and> clients h' = clients h \<and>
           (\<forall>j. open_at j h' = open_at j h)"
  using assms
  by (auto simp: chan_send_def open_at_def hub_ok_def)

lemma send_each_open:
  assumes "hub_ok h" "\<forall>i \<in> set is. open_at i h"
  shows "\<exists>h'. send_each is e h = Some h' \<and> hub_ok h' \<and> clients h' = clients h"
  using assms
proof (induction "is" arbitrary: h)
  case (Cons i "is")
  obtain h1 where h1: "chan_send i e h = Some h1" "hub_ok h1" "clients h1 = clients h"
    "\<forall>j. open_at j h1 = open_at j h"
    using chan_send_open [OF Cons.prems(1)] Cons.prems(2) by (metis list.set_intros(1))
  obtain h2 where "send_each is e h1 = Some h2" "hub_ok h2" "clients h2 = clients h1"
    using Cons.IH [OF h1(2)] Cons.prems(2) h1(4) by auto
  with h1 show ?case by simp
qed simp

lemma broadcast_ok:
  assumes "hub_ok h"
  shows "\<exists>h'. broadcast now e h = Some h' \<and> hub_ok h' \<and> clients h' = clients h"
  unfolding broadcast_def
  by (rule send_each_open [OF assms]) (auto intro: hub_ok_open [OF assms])

lemma broadcast_to_user_ok:
  assumes "hub_ok h"
  shows "\<exists>h'. broadcast_to_user now u e h = Some h' \<and> hub_ok h' \<and> clients h' = clients h"
proof (cases "trim u = []")
  case True
  then show ?thesis using assms by (simp add: broadcast_to_user_def)
next
  case False
  then show ?thesis
    unfolding broadcast_to_user_def Let_def
    by (simp only: if_False) (rule send_each_open [OF assms], auto intro: hub_ok_open [OF assms])
qed

lemma find_client_None: "find (\<lambda>c. c_id c = i) cs = None \<Longrightarrow> filter (\<lambda>c. c_id c \<noteq> i) cs = cs"
  by (auto simp: find_None_iff filter_id_conv)

lemma hub_remove_ok:
  assumes "hub_ok h"
  shows "\<exists>h' info l. hub_remove i h = Some (h', info, l) \<and> hub_ok h' \<and>
           clients h' = filter (\<lambda>c. c_id c \<noteq> i) (clients h)"
proof (cases "find (\<lambda>c. c_id c = i) (clients h)")
  case None
  then show ?thesis using assms by (auto simp: hub_remove_def find_client_None)
next
  case (Some c)
  then have c: "c \<in> set (clients h)" "c_id c = i" by (auto simp: find_Some_iff)
  then obtain ch where ch: "chans h i = Some ch" "\<not> ch_closed ch"
    using hub_ok_open [OF assms] by (auto simp: open_at_def)
  let ?h = "h\<lparr>clients := filter (\<lambda>x. c_id x \<noteq> i) (clients h),
             chans := (chans h)(i \<mapsto> ch\<lparr>ch_closed := True\<rparr>)\<rparr>"
  have "hub_ok ?h"
  proof (rule hub_okI)
    show "distinct (map c_id (clients ?h))"
      using hub_ok_distinct [OF assms] by (simp add: distinct_map_filter)
  next
    fix x assume "x \<in> set (clients ?h)"
    then show "open_at (c_id x) ?h"
      using hub_ok_open [OF assms, of x] by (auto simp: open_at_def)
  next
    fix j k assume "chans ?h j = Some k"
    then show "length (ch_buf k) \<le> chan_cap"
      using hub_ok_cap [OF assms] ch by (auto split: if_splits)
  qed
  then show ?thesis using Some ch by (simp add: hub_remove_def Let_def chan_close_def)
qed

lemma remove_each_ok:
  assumes "hub_ok h"
  shows "\<exists>h'. remove_each is h = Some h' \<and> hub_ok h' \<and>
           clients h' = filter (\<lambda>c. c_id c \<notin> set is) (clients h)"
  using assms
proof (induction "is" arbitrary: h)
  case (Cons i "is")
  obtain h1 info l where h1: "hub_remove i h = Some (h1, info, l)" "hub_ok h1"
    "clients h1 = filter (\<lambda>c. c_id c \<noteq> i) (clients h)"
    using hub_remove_ok [OF Cons.prems] by blast
  obtain h2 where h2: "remove_each is h1 = Some h2" "hub_ok h2"
    "clients h2 = filter (\<lambda>c. c_id c \<notin> set is) (clients h1)"
    using Cons.IH [OF h1(2)] by blast
  have "clients h2 = filter (\<lambda>c. c_id c \<notin> set (i # is)) (clients h)"
    by (auto simp: h1(3) h2(3) intro: filter_cong)
  with h1 h2 show ?case by simp
qed simp

lemma drop_user_except_ok:
  assumes "hub_ok h" "trim u \<noteq> []"
  shows "\<exists>h'. drop_user_except u s h = Some h' \<and> hub_ok h' \<and>
     clients h' = filter (\<lambda>c. c_user c \<noteq> trim u \<or> (trim s \<noteq> [] \<and> c_sid c = trim s)) (clients h)"
proof -
  let ?P = "\<lambda>c. c_user c = trim u \<and> \<not> (trim s \<noteq> [] \<and> c_sid c = trim s)"
  let ?is = "map c_id (filter ?P (clients h))"
  obtain h' where h': "remove_each ?is h = Some h'" "hub_ok h'"
    "clients h' = filter (\<lambda>c. c_id c \<notin> set ?is) (clients h)"
    using remove_each_ok [OF assms(1)] by blast
  have "c_id c \<in> set ?is \<longleftrightarrow> ?P c" if "c \<in> set (clients h)" for c
    using distinct_key_inj [OF hub_ok_distinct [OF assms(1)] that] that by auto
  then have "clients h' = filter (\<lambda>c. c_user c \<noteq> trim u \<or> (trim s \<noteq> [] \<and> c_sid c = trim s)) (clients h)"
    unfolding h'(3) by (intro filter_cong) auto
  with h' assms(2) show ?thesis by (simp add: drop_user_except_def Let_def)
qed

end
