(* ===== verification/Sse.thy ===== *)
theory Sse
  imports Hub
begin

section \<open>The event stream handler and its interleavings (handleEvents in realtime.go)\<close>

text \<open>
  One goroutine per connection runs handleEvents; other requests broadcast and drop connections
  between its steps. A phase is the handler's program point. The hub's mutex makes each hub
  operation one step; the call to \<open>sendTo\<close> uses the client's channel without the mutex, which is
  why it is a step of its own.
\<close>

datatype phase =
    Registered bool   \<comment> \<open>after \<open>hub.add\<close>; the flag is \<open>first\<close>\<close>
  | Greeted           \<comment> \<open>the online event is out, \<open>sendTo\<close> of the snapshot is next\<close>
  | Streaming         \<comment> \<open>the select loop\<close>
  | Leaving           \<comment> \<open>returned or panicked: the deferred function is next\<close>
  | Gone

record sse_state =
  sh :: hub
  pcs :: "string \<rightharpoonup> phase"
  conn :: "string \<rightharpoonup> sse_client"
  panicked :: "string set"
  offline_sent :: "string list"

definition sse_init :: sse_state where
  "sse_init = \<lparr>sh = new_hub, pcs = Map.empty, conn = Map.empty, panicked = {}, offline_sent = []\<rparr>"

definition online_event :: "sse_client \<Rightarrow> realtime_event" where
  "online_event c = blank_event\<lparr>ev_type := EvtPresenceOnline, ev_user := c_user c,
     ev_team := c_team c, ev_role := c_role c\<rparr>"

definition offline_event :: "presence_info \<Rightarrow> realtime_event" where
  "offline_event p = blank_event\<lparr>ev_type := EvtPresenceOffline, ev_user := pi_user p,
     ev_team := pi_team p, ev_role := pi_role p\<rparr>"

definition sync_event :: "hub \<Rightarrow> realtime_event" where
  "sync_event h = blank_event\<lparr>ev_type := EvtPresenceSync, ev_users := snapshot h\<rparr>"

definition leave_hub :: "int \<Rightarrow> string \<Rightarrow> hub \<Rightarrow> (hub \<times> string list) option" where
  \<comment> \<open>the deferred function: remove, and announce offline for the user's last connection\<close>
  "leave_hub now i h = (case hub_remove i h of
       None \<Rightarrow> None
     | Some (h', info, lastForUser) \<Rightarrow>
         if lastForUser \<and> pi_user info \<noteq> [] then
           (case broadcast now (offline_event info) h' of
              None \<Rightarrow> None | Some h'' \<Rightarrow> Some (h'', [pi_user info]))
         else Some (h', []))"

inductive sse_step :: "sse_state \<Rightarrow> sse_state \<Rightarrow> bool" where
  connect:
    "pcs s (c_id c) = None \<Longrightarrow>
     hub_add c (hub_open c (sh s)) = (h', n, isfirst) \<Longrightarrow>
     sse_step s (s\<lparr>sh := h', pcs := (pcs s)(c_id c \<mapsto> Registered isfirst),
                  conn := (conn s)(c_id c \<mapsto> c)\<rparr>)"
| greet_first:
    "pcs s i = Some (Registered True) \<Longrightarrow> conn s i = Some c \<Longrightarrow>
     broadcast now (online_event c) (sh s) = Some h' \<Longrightarrow>
     sse_step s (s\<lparr>sh := h', pcs := (pcs s)(i \<mapsto> Greeted)\<rparr>)"
| greet_again:
    "pcs s i = Some (Registered False) \<Longrightarrow>
     sse_step s (s\<lparr>pcs := (pcs s)(i \<mapsto> Greeted)\<rparr>)"
| sync:
    "pcs s i = Some Greeted \<Longrightarrow> send_to now i (sync_event (sh s)) (sh s) = Some h' \<Longrightarrow>
     sse_step s (s\<lparr>sh := h', pcs := (pcs s)(i \<mapsto> Streaming)\<rparr>)"
| sync_panic:
    "pcs s i = Some Greeted \<Longrightarrow> send_to now i (sync_event (sh s)) (sh s) = None \<Longrightarrow>
     sse_step s (s\<lparr>pcs := (pcs s)(i \<mapsto> Leaving), panicked := insert i (panicked s)\<rparr>)"
| deliver:
    "pcs s i = Some Streaming \<Longrightarrow> chans (sh s) i = Some ch \<Longrightarrow> ch_buf ch = m # ms \<Longrightarrow>
     sse_step s (s\<lparr>sh := (sh s)\<lparr>chans := (chans (sh s))(i \<mapsto> ch\<lparr>ch_buf := ms\<rparr>)\<rparr>\<rparr>)"
| stop:
    \<comment> \<open>the request context ends, a write fails, or the closed channel is drained\<close>
    "pcs s i = Some Streaming \<Longrightarrow> sse_step s (s\<lparr>pcs := (pcs s)(i \<mapsto> Leaving)\<rparr>)"
| leave:
    "pcs s i = Some Leaving \<Longrightarrow> leave_hub now i (sh s) = Some (h', offs) \<Longrightarrow>
     sse_step s (s\<lparr>sh := h', pcs := (pcs s)(i \<mapsto> Gone), offline_sent := offline_sent s @ offs\<rparr>)"
| emit:
    "broadcast now e (sh s) = Some h' \<Longrightarrow> sse_step s (s\<lparr>sh := h'\<rparr>)"
| emit_user:
    "broadcast_to_user now u e (sh s) = Some h' \<Longrightarrow> sse_step s (s\<lparr>sh := h'\<rparr>)"
| kick:
    "drop_user_except u keep (sh s) = Some h' \<Longrightarrow> sse_step s (s\<lparr>sh := h'\<rparr>)"

inductive sse_reach :: "sse_state \<Rightarrow> bool" where
  start: "sse_reach sse_init"
| step: "sse_reach s \<Longrightarrow> sse_step s t \<Longrightarrow> sse_reach t"

inductive_cases sse_stepE: "sse_step s t"

subsection \<open>The invariant of all interleavings\<close>

definition sse_inv :: "sse_state \<Rightarrow> bool" where
  \<comment> \<open>the hub invariant; registered clients belong to a live handler; a channel that is not
      registered any more but was opened is closed\<close>
  "sse_inv s \<longleftrightarrow> hub_ok (sh s) \<and>
     (\<forall>c \<in> set (clients (sh s)). pcs s (c_id c) \<notin> {None, Some Gone}) \<and>
     (\<forall>i. chans (sh s) i = None \<longleftrightarrow> pcs s i = None) \<and>
     (\<forall>i. open_at i (sh s) \<longrightarrow> i \<in> c_id ` set (clients (sh s)))"

lemma chan_send_frame:
  assumes "chan_send i e h = Some h'"
  shows "clients h' = clients h" "\<And>j. open_at j h' = open_at j h"
    "\<And>j. chans h' j = None \<longleftrightarrow> chans h j = None"
  using assms by (auto simp: chan_send_def open_at_def split: option.splits if_splits)

lemma chan_send_was_open: "chan_send i e h = Some h' \<Longrightarrow> open_at i h"
  by (auto simp: chan_send_def open_at_def split: option.splits if_splits)

lemma send_each_frame:
  assumes "send_each is e h = Some h'"
  shows "clients h' = clients h \<and> (\<forall>j. open_at j h' = open_at j h) \<and>
    (\<forall>j. chans h' j = None \<longleftrightarrow> chans h j = None)"
  using assms
proof (induction "is" arbitrary: h)
  case (Cons i "is")
  then obtain h1 where h1: "chan_send i e h = Some h1" "send_each is e h1 = Some h'"
    by (auto split: option.splits)
  show ?case using Cons.IH [OF h1(2)] chan_send_frame [OF h1(1)] by simp
qed simp

lemma broadcast_frame:
  "broadcast now e h = Some h' \<Longrightarrow>
     clients h' = clients h \<and> (\<forall>j. open_at j h' = open_at j h) \<and>
     (\<forall>j. chans h' j = None \<longleftrightarrow> chans h j = None)"
  unfolding broadcast_def by (rule send_each_frame)

lemma broadcast_to_user_frame:
  "broadcast_to_user now u e h = Some h' \<Longrightarrow>
     clients h' = clients h \<and> (\<forall>j. open_at j h' = open_at j h) \<and>
     (\<forall>j. chans h' j = None \<longleftrightarrow> chans h j = None)"
  by (auto simp: broadcast_to_user_def Let_def split: if_splits dest: send_each_frame)

lemma hub_remove_frame:
  assumes "hub_ok h" "hub_remove i h = Some (h', info, l)"
  shows "clients h' = filter (\<lambda>c. c_id c \<noteq> i) (clients h) \<and>
    (\<forall>j. open_at j h' \<longrightarrow> open_at j h \<and> (i \<in> c_id ` set (clients h) \<longrightarrow> j \<noteq> i)) \<and>
    (\<forall>j. chans h' j = None \<longleftrightarrow> chans h j = None)"
  using assms
  by (auto simp: hub_remove_def chan_close_def open_at_def Let_def find_client_None find_None_iff
           split: option.splits if_splits)

lemma remove_each_frame:
  assumes "hub_ok h" "remove_each is h = Some h'"
    "\<forall>j. open_at j h \<longrightarrow> j \<in> c_id ` set (clients h)"
  shows "clients h' = filter (\<lambda>c. c_id c \<notin> set is) (clients h) \<and>
    (\<forall>j. open_at j h' \<longrightarrow> j \<in> c_id ` set (clients h')) \<and>
    (\<forall>j. chans h' j = None \<longleftrightarrow> chans h j = None)"
  using assms
proof (induction "is" arbitrary: h)
  case (Cons i "is")
  then obtain h1 info l where h1: "hub_remove i h = Some (h1, info, l)" "remove_each is h1 = Some h'"
    by (auto split: option.splits)
  have ok1: "hub_ok h1" using hub_remove_ok [OF Cons.prems(1), of i] h1(1) by auto
  note fr = hub_remove_frame [OF Cons.prems(1) h1(1)]
  have op: "\<forall>j. open_at j h1 \<longrightarrow> j \<in> c_id ` set (clients h1)"
    using fr Cons.prems(3) by (auto simp: image_iff) metis
  have "clients h' = filter (\<lambda>c. c_id c \<notin> set is) (clients h1) \<and>
    (\<forall>j. open_at j h' \<longrightarrow> j \<in> c_id ` set (clients h')) \<and>
    (\<forall>j. chans h' j = None \<longleftrightarrow> chans h1 j = None)"
    by (rule Cons.IH [OF ok1 h1(2) op])
  moreover have "filter (\<lambda>c. c_id c \<notin> set is) (clients h1) = filter (\<lambda>c. c_id c \<notin> set (i # is)) (clients h)"
    using fr by (auto intro: filter_cong)
  ultimately show ?case using fr by (metis (no_types, lifting))
qed simp

lemma sse_inv_init: "sse_inv sse_init"
  by (simp add: sse_inv_def sse_init_def hub_ok_new) (simp add: new_hub_def open_at_def)

text \<open>A step that changes neither the registered clients nor which channels are open.\<close>

lemma sse_inv_frame:
  assumes "sse_inv s" "hub_ok h'" "clients h' = clients (sh s)"
    "\<forall>j. open_at j h' = open_at j (sh s)" "\<forall>j. chans h' j = None \<longleftrightarrow> chans (sh s) j = None"
    "sh t = h'" "\<forall>j. pcs t j = None \<longleftrightarrow> pcs s j = None"
    "\<forall>j. pcs t j = Some Gone \<longleftrightarrow> pcs s j = Some Gone"
  shows "sse_inv t"
  using assms by (auto simp: sse_inv_def)

lemma hub_add_clients:
  "hub_add c (hub_open c h) = (h', n, f) \<Longrightarrow>
     clients h' = filter (\<lambda>x. c_id x \<noteq> c_id c) (clients h) @ [c] \<and> chans h' = chans (hub_open c h)"
  by (auto simp: hub_add_def hub_open_def Let_def)

lemma sse_inv_connect:
  assumes inv: "sse_inv s" and pc: "pcs s (c_id c) = None"
    and add: "hub_add c (hub_open c (sh s)) = (h', n, f)"
  shows "sse_inv (s\<lparr>sh := h', pcs := (pcs s)(c_id c \<mapsto> Registered f), conn := (conn s)(c_id c \<mapsto> c)\<rparr>)"
proof -
  have "hub_ok h'" using hub_ok_add [of "sh s" c] inv add by (simp add: sse_inv_def)
  then show ?thesis
    using inv hub_add_clients [OF add] pc
    by (auto simp: sse_inv_def hub_open_def open_at_def image_iff)
qed

lemma sse_inv_deliver:
  assumes inv: "sse_inv s" and ch: "chans (sh s) i = Some ch" "ch_buf ch = m # ms"
  shows "sse_inv (s\<lparr>sh := (sh s)\<lparr>chans := (chans (sh s))(i \<mapsto> ch\<lparr>ch_buf := ms\<rparr>)\<rparr>\<rparr>)"
proof (rule sse_inv_frame [OF inv])
  have "length (m # ms) \<le> chan_cap" using inv ch by (metis hub_ok_cap sse_inv_def)
  then show "hub_ok ((sh s)\<lparr>chans := (chans (sh s))(i \<mapsto> ch\<lparr>ch_buf := ms\<rparr>)\<rparr>)"
    using inv ch by (auto simp: sse_inv_def hub_ok_def)
qed (use ch in \<open>auto simp: open_at_def\<close>)

lemma sse_inv_leave:
  assumes inv: "sse_inv s" and pc: "pcs s i = Some Leaving"
    and lv: "leave_hub now i (sh s) = Some (h', offs)"
  shows "sse_inv (s\<lparr>sh := h', pcs := (pcs s)(i \<mapsto> Gone), offline_sent := offline_sent s @ offs\<rparr>)"
proof -
  have ok: "hub_ok (sh s)" using inv by (simp add: sse_inv_def)
  obtain h1 info l where h1: "hub_remove i (sh s) = Some (h1, info, l)" "hub_ok h1"
    using hub_remove_ok [OF ok, of i] by blast
  note fr = hub_remove_frame [OF ok h1(1)]
  have "hub_ok h' \<and> clients h' = clients h1 \<and> (\<forall>j. open_at j h' = open_at j h1) \<and>
      (\<forall>j. chans h' j = None \<longleftrightarrow> chans h1 j = None)"
  proof (cases "l \<and> pi_user info \<noteq> []")
    case True
    then have b: "broadcast now (offline_event info) h1 = Some h'"
      using lv h1(1) by (auto simp: leave_hub_def split: option.splits)
    then show ?thesis
      using broadcast_ok [OF h1(2), of now "offline_event info"] broadcast_frame [OF b] by auto
  next
    case False
    then show ?thesis using lv h1 by (auto simp: leave_hub_def)
  qed
  then have h': "hub_ok h'" "clients h' = filter (\<lambda>c. c_id c \<noteq> i) (clients (sh s))"
      "\<And>j. chans h' j = None \<longleftrightarrow> chans (sh s) j = None"
      "\<And>j. open_at j h' \<Longrightarrow> open_at j (sh s) \<and> (i \<in> c_id ` set (clients (sh s)) \<longrightarrow> j \<noteq> i)"
    using fr by auto
  have inv': "\<And>c. c \<in> set (clients (sh s)) \<Longrightarrow> pcs s (c_id c) \<notin> {None, Some Gone}"
      "\<And>j. chans (sh s) j = None \<longleftrightarrow> pcs s j = None"
      "\<And>j. open_at j (sh s) \<Longrightarrow> j \<in> c_id ` set (clients (sh s))"
    using inv by (auto simp: sse_inv_def)
  let ?t = "s\<lparr>sh := h', pcs := (pcs s)(i \<mapsto> Gone), offline_sent := offline_sent s @ offs\<rparr>"
  have "j \<in> c_id ` set (clients h')" if "open_at j h'" for j
    using h'(4) [OF that] inv'(3) [of j] by (auto simp: h'(2))
  moreover have "pcs ?t (c_id c) \<notin> {None, Some Gone}" if "c \<in> set (clients h')" for c
    using that inv'(1) [of c] by (auto simp: h'(2))
  ultimately show ?thesis
    using h'(1,3) inv'(2) pc by (simp add: sse_inv_def)
qed

lemma sse_inv_kick:
  assumes inv: "sse_inv s" and k: "drop_user_except u keep (sh s) = Some h'"
  shows "sse_inv (s\<lparr>sh := h'\<rparr>)"
proof (cases "trim u = []")
  case True
  then have "h' = sh s" using k by (simp add: drop_user_except_def)
  then show ?thesis using inv by (simp add: sse_inv_def)
next
  case False
  have ok: "hub_ok (sh s)" and op: "\<forall>j. open_at j (sh s) \<longrightarrow> j \<in> c_id ` set (clients (sh s))"
    using inv by (simp_all add: sse_inv_def)
  obtain "is" where "remove_each is (sh s) = Some h'"
    using k False by (auto simp: drop_user_except_def Let_def)
  moreover have "hub_ok h'" using drop_user_except_ok [OF ok False, of keep] k by auto
  ultimately obtain "is" where r: "remove_each is (sh s) = Some h'" "hub_ok h'" by blast
  note fr = remove_each_frame [OF ok r(1) op]
  have "clients h' \<noteq> clients (sh s) \<longrightarrow> set (clients h') \<subseteq> set (clients (sh s))" using fr by auto
  then show ?thesis using inv r(2) fr unfolding sse_inv_def by auto
qed

lemma sse_inv_step:
  assumes "sse_step s t" "sse_inv s"
  shows "sse_inv t"
proof -
have ok: "hub_ok (sh s)" using assms(2) by (simp add: sse_inv_def)
show ?thesis
  using assms(1)
proof cases
  case (connect c h' n isfirst)
  then show ?thesis using sse_inv_connect [OF assms(2)] by simp
next
  case (greet_first i c now h')
  then have "hub_ok h'" using broadcast_ok [of "sh s" now "online_event c"] ok by simp
  with greet_first show ?thesis
    using sse_inv_frame [OF assms(2), of h' t] broadcast_frame [OF greet_first(4)] by simp
next
  case (greet_again i)
  then show ?thesis using sse_inv_frame [OF assms(2) ok, of t] by simp
next
  case (sync i now h')
  then have snd: "chan_send i (stamp now (sync_event (sh s))) (sh s) = Some h'"
    by (simp add: send_to_def)
  then have "hub_ok h'" using chan_send_open [OF ok chan_send_was_open [OF snd]] by (metis option.inject)
  with sync show ?thesis
    using sse_inv_frame [OF assms(2), of h' t] chan_send_frame [OF snd] by simp
next
  case (sync_panic i now)
  then show ?thesis using sse_inv_frame [OF assms(2) ok, of t] by simp
next
  case (deliver i ch m ms)
  then show ?thesis using sse_inv_deliver [OF assms(2)] by simp
next
  case (stop i)
  then show ?thesis using sse_inv_frame [OF assms(2) ok, of t] by simp
next
  case (leave i now h' offs)
  then show ?thesis using sse_inv_leave [OF assms(2)] by simp
next
  case (emit now e h')
  then have "hub_ok h'" using broadcast_ok [of "sh s" now e] ok by simp
  with emit show ?thesis
    using sse_inv_frame [OF assms(2), of h' t] broadcast_frame [OF emit(2)] by simp
next
  case (emit_user now u e h')
  then have "hub_ok h'" using broadcast_to_user_ok [of "sh s" now u e] ok by simp
  with emit_user show ?thesis
    using sse_inv_frame [OF assms(2), of h' t] broadcast_to_user_frame [OF emit_user(2)] by simp
next
  case (kick u keep h')
  then show ?thesis using sse_inv_kick [OF assms(2)] by simp
qed
qed

lemma sse_reach_inv: "sse_reach s \<Longrightarrow> sse_inv s"
  by (induction rule: sse_reach.induct) (auto intro: sse_inv_init sse_inv_step)

subsection \<open>What holds in every interleaving\<close>

lemma reach_hub_ok: "sse_reach s \<Longrightarrow> hub_ok (sh s)"
  using sse_reach_inv by (auto simp: sse_inv_def)

lemma leave_hub_ok:
  assumes "hub_ok h"
  shows "\<exists>h' offs. leave_hub now i h = Some (h', offs) \<and> hub_ok h'"
proof -
  obtain h1 info l where h1: "hub_remove i h = Some (h1, info, l)" "hub_ok h1"
    using hub_remove_ok [OF assms, of i] by blast
  then show ?thesis
    using broadcast_ok [OF h1(2), of now "offline_event info"] by (auto simp: leave_hub_def)
qed

lemma drop_user_except_total:
  assumes "hub_ok h"
  shows "\<exists>h'. drop_user_except u k h = Some h' \<and> hub_ok h'"
proof (cases "trim u = []")
  case True
  then show ?thesis using assms by (simp add: drop_user_except_def)
next
  case False
  then show ?thesis using drop_user_except_ok [OF assms] by blast
qed

lemma send_to_panic_iff:
  assumes "sse_inv s" "pcs s i = Some Greeted"
  shows "send_to now i e (sh s) = None \<longleftrightarrow> i \<notin> c_id ` set (clients (sh s))"
proof -
  have iff: "open_at i (sh s) \<longleftrightarrow> i \<in> c_id ` set (clients (sh s))"
    using assms(1) hub_ok_open [of "sh s"] by (auto simp: sse_inv_def)
  have ok: "hub_ok (sh s)" using assms(1) by (simp add: sse_inv_def)
  show ?thesis
  proof (cases "open_at i (sh s)")
    case True
    then show ?thesis using chan_send_open [OF ok True] iff by (auto simp: send_to_def)
  next
    case False
    then have "chan_send i (stamp now e) (sh s) = None"
      by (metis chan_send_was_open not_Some_eq)
    then show ?thesis using False iff by (simp add: send_to_def)
  qed
qed

lemma snapshot_loop_set:
  "pi_user ` set (snapshot_loop seen cs) = c_user ` set cs - set seen"
  by (induction cs arbitrary: seen) auto

lemma snapshot_loop_distinct: "distinct (map pi_user (snapshot_loop seen cs))"
proof (induction cs arbitrary: seen)
  case (Cons c cs)
  have "c_user c \<notin> pi_user ` set (snapshot_loop (c_user c # seen) cs)"
    by (simp add: snapshot_loop_set)
  then show ?case using Cons by simp
qed simp

subsection \<open>Properties\<close>


definition alice_conn :: sse_client where
  "alice_conn = \<lparr>c_id = ''k1'', c_user = ''alice'', c_role = ''sales_exec'', c_team = ''t1'', c_sid = ''s1''\<rparr>"

definition alice_connected :: sse_state where
  "alice_connected = sse_init\<lparr>sh := fst (hub_add alice_conn (hub_open alice_conn new_hub)),
     pcs := [''k1'' \<mapsto> Registered True], conn := [''k1'' \<mapsto> alice_conn]\<rparr>"

lemma alice_connected_reach: "sse_reach alice_connected"
proof -
  have "sse_step sse_init alice_connected"
    using sse_step.connect [of sse_init alice_conn "sh alice_connected" 1 True]
    by (simp add: alice_connected_def sse_init_def alice_conn_def hub_add_def hub_open_def new_hub_def)
  then show ?thesis using sse_reach.step [OF sse_reach.start] by blast
qed


text \<open>The one unlocked send, the initial presence snapshot, panics exactly when the client
  has been unregistered (by a logout or a replaced session) between registration and that send.\<close>

theorem initial_sync_panics_iff_dropped:
  assumes "sse_reach s" "pcs s i = Some Greeted"
  shows "send_to now i (sync_event (sh s)) (sh s) = None \<longleftrightarrow>
    i \<notin> c_id ` set (clients (sh s))"
  by (rule send_to_panic_iff [OF sse_reach_inv [OF assms(1)] assms(2)])

definition alice_greeted :: sse_state where
  "alice_greeted = alice_connected\<lparr>
     sh := the (broadcast 7 (online_event alice_conn) (sh alice_connected)),
     pcs := [''k1'' \<mapsto> Greeted]\<rparr>"

definition alice_kicked :: sse_state where
  "alice_kicked = alice_greeted\<lparr>sh := the (drop_user_except ''alice'' [] (sh alice_greeted))\<rparr>"

lemma alice_greeted_reach: "sse_reach alice_greeted"
proof -
  obtain h' where h': "broadcast 7 (online_event alice_conn) (sh alice_connected) = Some h'"
    using broadcast_ok [OF reach_hub_ok [OF alice_connected_reach]] by blast
  have "sse_step alice_connected (alice_connected\<lparr>sh := h', pcs := (pcs alice_connected)(''k1'' \<mapsto> Greeted)\<rparr>)"
    by (rule sse_step.greet_first [OF _ _ h']) (simp_all add: alice_connected_def)
  then have "sse_step alice_connected alice_greeted"
    using h' by (simp add: alice_greeted_def alice_connected_def)
  then show ?thesis using sse_reach.step [OF alice_connected_reach] by blast
qed

lemma alice_kicked_reach: "sse_reach alice_kicked"
proof -
  obtain h' where h': "drop_user_except ''alice'' [] (sh alice_greeted) = Some h'"
    using drop_user_except_total [OF reach_hub_ok [OF alice_greeted_reach]] by blast
  have "sse_step alice_greeted (alice_greeted\<lparr>sh := h'\<rparr>)" by (rule sse_step.kick [OF h'])
  then show ?thesis
    using h' sse_reach.step [OF alice_greeted_reach] by (simp add: alice_kicked_def)
qed

lemma alice_kicked_gone: "clients (sh alice_kicked) = []"
proof -
  obtain h where h: "broadcast 7 (online_event alice_conn) (sh alice_connected) = Some h" "hub_ok h"
      "clients h = clients (sh alice_connected)"
    using broadcast_ok [OF reach_hub_ok [OF alice_connected_reach]] by blast
  have "trim ''alice'' = ''alice''" by code_simp
  then obtain h' where "drop_user_except ''alice'' [] h = Some h'"
      "clients h' = filter (\<lambda>c. c_user c \<noteq> ''alice'') (clients h)"
    using drop_user_except_ok [OF h(2), of "''alice''" "[]"] by auto
  then show ?thesis
    using h by (simp add: alice_kicked_def alice_greeted_def alice_connected_def alice_conn_def
        hub_add_def hub_open_def new_hub_def)
qed

theorem initial_sync_panics_iff_dropped_witness:
  "send_to 9 ''k1'' (sync_event (sh alice_kicked)) (sh alice_kicked) = None"
  using initial_sync_panics_iff_dropped [OF alice_kicked_reach, of "''k1''" 9] alice_kicked_gone
  by (simp add: alice_kicked_def alice_greeted_def)

text \<open>C8. The panic of the initial send is reachable: connect, greet, be logged out, send.\<close>

theorem initial_sync_panic_reachable: "\<exists>s. sse_reach s \<and> panicked s \<noteq> {}"
proof -
  have p: "pcs alice_kicked ''k1'' = Some Greeted"
    by (simp add: alice_kicked_def alice_greeted_def)
  have n: "send_to 9 ''k1'' (sync_event (sh alice_kicked)) (sh alice_kicked) = None"
    using send_to_panic_iff [OF sse_reach_inv [OF alice_kicked_reach] p] alice_kicked_gone by simp
  show ?thesis
    using sse_reach.step [OF alice_kicked_reach sse_step.sync_panic [OF p n]] by force
qed

text \<open>DropUserExcept unregisters exactly the user's connections of other sessions, and the
  deferred removal of a dropped connection then announces nothing: after a logout no
  presence.offline event is broadcast for the user.\<close>

theorem dropped_connections_leave_silently:
  assumes "sse_reach s" "trim u \<noteq> []" "drop_user_except u k (sh s) = Some h'"
  shows "set (clients h') = {c \<in> set (clients (sh s)). c_user c \<noteq> trim u \<or> (trim k \<noteq> [] \<and> c_sid c = trim k)} \<and>
    (\<forall>c \<in> set (clients (sh s)). c \<notin> set (clients h') \<longrightarrow> leave_hub now (c_id c) h' = Some (h', []))"
proof -
  note ok = reach_hub_ok [OF assms(1)]
  have cl: "clients h' = filter (\<lambda>c. c_user c \<noteq> trim u \<or> (trim k \<noteq> [] \<and> c_sid c = trim k)) (clients (sh s))"
    using drop_user_except_ok [OF ok assms(2), of k] assms(3) by auto
  have "leave_hub now (c_id c) h' = Some (h', [])"
    if "c \<in> set (clients (sh s))" "c \<notin> set (clients h')" for c
  proof -
    have "x \<in> set (clients h') \<Longrightarrow> c_id x \<noteq> c_id c" for x
      using distinct_key_inj [OF hub_ok_distinct [OF ok], of x c] that cl by auto
    then have "find (\<lambda>x. c_id x = c_id c) (clients h') = None" by (auto simp: find_None_iff)
    then show ?thesis by (simp add: leave_hub_def hub_remove_def)
  qed
  then show ?thesis using cl by auto
qed

theorem dropped_connections_leave_silently_witness:
  "\<exists>h'. drop_user_except ''alice'' [] (sh alice_connected) = Some h' \<and>
     leave_hub 9 ''k1'' h' = Some (h', [])"
proof -
  obtain h' where h': "drop_user_except ''alice'' [] (sh alice_connected) = Some h'"
    using drop_user_except_total [OF reach_hub_ok [OF alice_connected_reach]] by blast
  have t: "trim ''alice'' = ''alice''" by code_simp
  have "alice_conn \<in> set (clients (sh alice_connected))"
    by (simp add: alice_connected_def alice_conn_def hub_add_def hub_open_def new_hub_def)
  then show ?thesis
    using dropped_connections_leave_silently [OF alice_connected_reach _ h', of 9] t h'
    by (auto simp: alice_conn_def)
qed

text \<open>The presence snapshot lists every connected user exactly once.\<close>

theorem snapshot_lists_each_user_once:
  "distinct (map pi_user (snapshot h)) \<and> pi_user ` set (snapshot h) = c_user ` set (clients h)"
  by (simp add: snapshot_def snapshot_loop_distinct snapshot_loop_set)

end
