(* ===== verification/Limiter.thy ===== *)
theory Limiter
  imports Prelude "HOL-Library.AList"
begin

section \<open>The login rate limiter (ratelimit.go)\<close>

text \<open>
  The buckets of \<open>loginLimiter\<close>, with Go's map as an association list with distinct keys, and the
  opportunistic pruning once 256 buckets exist. The reference limiter below keeps a bucket per key
  for ever; the two give the same answers whenever the clock does not run backwards.
\<close>

record rate_bucket =
  rb_count :: int
  rb_reset :: int

record login_limiter =
  lim_buckets :: "(string \<times> rate_bucket) list"
  lim_limit :: int
  lim_window :: int

definition newLoginLimiter :: "int \<Rightarrow> int \<Rightarrow> login_limiter" where
  "newLoginLimiter limit window = \<lparr>lim_buckets = [], lim_limit = limit, lim_window = window\<rparr>"

definition pruneLocked :: "int \<Rightarrow> login_limiter \<Rightarrow> login_limiter" where
  "pruneLocked t l =
     (if length (lim_buckets l) < 256 then l
      else l\<lparr>lim_buckets := filter (\<lambda>(k, b). \<not> t > rb_reset b) (lim_buckets l)\<rparr>)"

definition allow :: "int \<Rightarrow> string \<Rightarrow> login_limiter \<Rightarrow> bool \<times> login_limiter" where
  "allow t key l0 =
     (let l = pruneLocked t l0;
          fresh = (True, l\<lparr>lim_buckets := AList.update key
                     \<lparr>rb_count = 1, rb_reset = t + lim_window l\<rparr> (lim_buckets l)\<rparr>)
      in case map_of (lim_buckets l) key of
           None \<Rightarrow> fresh
         | Some b \<Rightarrow>
             if t > rb_reset b then fresh
             else if rb_count b \<ge> lim_limit l then (False, l)
             else (True, l\<lparr>lim_buckets := AList.update key (b\<lparr>rb_count := rb_count b + 1\<rparr>) (lim_buckets l)\<rparr>))"

fun allow_run :: "(int \<times> string) list \<Rightarrow> login_limiter \<Rightarrow> bool list" where
  "allow_run [] l = []"
| "allow_run ((t, k) # cs) l = (case allow t k l of (b, l') \<Rightarrow> b # allow_run cs l')"

subsection \<open>The reference limiter\<close>

definition spec_allow ::
  "int \<Rightarrow> int \<Rightarrow> int \<Rightarrow> rate_bucket option \<Rightarrow> bool \<times> rate_bucket option" where
  \<comment> \<open>one key: a window of answers starts with the first call after the last window ended\<close>
  "spec_allow limit window t b =
     (case b of
        Some c \<Rightarrow> if t > rb_reset c then (True, Some \<lparr>rb_count = 1, rb_reset = t + window\<rparr>)
                  else if rb_count c < limit then (True, Some (c\<lparr>rb_count := rb_count c + 1\<rparr>))
                  else (False, Some c)
      | None \<Rightarrow> (True, Some \<lparr>rb_count = 1, rb_reset = t + window\<rparr>))"

fun spec_run :: "int \<Rightarrow> int \<Rightarrow> (int \<times> string) list \<Rightarrow> (string \<Rightarrow> rate_bucket option) \<Rightarrow> bool list" where
  "spec_run limit window [] m = []"
| "spec_run limit window ((t, k) # cs) m =
     (case spec_allow limit window t (m k) of (b, c) \<Rightarrow> b # spec_run limit window cs (m(k := c)))"

definition expired :: "int \<Rightarrow> rate_bucket option \<Rightarrow> bool" where
  "expired t b \<longleftrightarrow> (case b of None \<Rightarrow> True | Some c \<Rightarrow> t > rb_reset c)"

definition agree :: "int \<Rightarrow> rate_bucket option \<Rightarrow> rate_bucket option \<Rightarrow> bool" where
  "agree t impl spec \<longleftrightarrow> impl = spec \<or> (impl = None \<and> expired t spec)"

definition sim :: "int \<Rightarrow> (string \<Rightarrow> rate_bucket option) \<Rightarrow> login_limiter \<Rightarrow> bool" where
  \<comment> \<open>the code's buckets are those of the reference, less some that expired before \<open>t\<close>\<close>
  "sim t m l \<longleftrightarrow> (\<forall>k. agree t (map_of (lim_buckets l) k) (m k)) \<and> distinct (map fst (lim_buckets l))"

lemma map_of_filter_distinct:
  "distinct (map fst xs) \<Longrightarrow>
   map_of (filter (\<lambda>(k, v). P v) xs) k = (case map_of xs k of Some v \<Rightarrow> if P v then Some v else None | None \<Rightarrow> None)"
  by (induction xs) (auto simp: map_of_eq_None_iff split: option.splits)

lemma agree_later: "agree t a b \<Longrightarrow> t \<le> t' \<Longrightarrow> agree t' a b"
  by (auto simp: agree_def expired_def split: option.splits)

lemma agree_drop:
  "agree t a b \<Longrightarrow> agree t (case a of Some v \<Rightarrow> if \<not> t > rb_reset v then Some v else None | None \<Rightarrow> None) b"
  by (auto simp: agree_def expired_def split: option.splits)

lemma sim_later: "sim t m l \<Longrightarrow> t \<le> t' \<Longrightarrow> sim t' m l"
  using agree_later unfolding sim_def by blast

lemma sim_prune:
  assumes "sim t m l" "t \<le> t'"
  shows "sim t' m (pruneLocked t' l)"
proof -
  have s: "sim t' m l" by (rule sim_later [OF assms])
  then have d: "distinct (map fst (lim_buckets l))" by (simp add: sim_def)
  have a: "agree t' (map_of (lim_buckets l) k) (m k)" for k using s by (simp add: sim_def)
  have "sim t' m (l\<lparr>lim_buckets := filter (\<lambda>(k, b). \<not> t' > rb_reset b) (lim_buckets l)\<rparr>)"
    unfolding sim_def using d agree_drop [OF a]
    by (simp add: map_of_filter_distinct [OF d, where P = "\<lambda>b. \<not> t' > rb_reset b", simplified]
        distinct_map_filter)
  then show ?thesis using s by (simp add: pruneLocked_def)
qed

lemma prune_params [simp]:
  "lim_limit (pruneLocked t l) = lim_limit l" "lim_window (pruneLocked t l) = lim_window l"
  by (simp_all add: pruneLocked_def)

lemma sim_update:
  assumes "sim t m l"
  shows "sim t (m(k := Some b)) (l\<lparr>lim_buckets := AList.update k b (lim_buckets l)\<rparr>)"
proof -
  have "agree t (map_of (AList.update k b (lim_buckets l)) j) ((m(k := Some b)) j)" for j
    using assms by (simp add: sim_def update_conv' agree_def)
  then show ?thesis using assms by (simp add: sim_def distinct_update)
qed

lemma allow_pruned:
  assumes s: "sim t m (pruneLocked t l)"
  shows "\<exists>l'. allow t k l = (fst (spec_allow (lim_limit l) (lim_window l) t (m k)), l') \<and>
     sim t (m(k := snd (spec_allow (lim_limit l) (lim_window l) t (m k)))) l' \<and>
     lim_limit l' = lim_limit l \<and> lim_window l' = lim_window l"
proof (cases "map_of (lim_buckets (pruneLocked t l)) k")
  case None
  then have "expired t (m k)"
    using s by (auto simp: sim_def agree_def expired_def) (metis option.simps(4))
  then have "spec_allow (lim_limit l) (lim_window l) t (m k)
      = (True, Some \<lparr>rb_count = 1, rb_reset = t + lim_window l\<rparr>)"
    by (auto simp: expired_def spec_allow_def split: option.splits)
  then show ?thesis using None sim_update [OF s] by (simp add: allow_def Let_def)
next
  case (Some b)
  then have mk: "m k = Some b" using s by (auto simp: sim_def agree_def dest: spec [of _ k])
  consider "t > rb_reset b" | "\<not> t > rb_reset b" "rb_count b \<ge> lim_limit l"
    | "\<not> t > rb_reset b" "rb_count b < lim_limit l" by linarith
  then show ?thesis
  proof cases
    case 2
    have "m(k := Some b) = m" using mk by auto
    then show ?thesis using 2 Some mk s by (simp add: allow_def spec_allow_def Let_def)
  qed (use Some mk sim_update [OF s] in \<open>simp_all add: allow_def spec_allow_def Let_def\<close>)
qed

lemma allow_sim:
  assumes "sim t m l" "t \<le> t'"
  shows "\<exists>l'. allow t' k l = (fst (spec_allow (lim_limit l) (lim_window l) t' (m k)), l') \<and>
     sim t' (m(k := snd (spec_allow (lim_limit l) (lim_window l) t' (m k)))) l' \<and>
     lim_limit l' = lim_limit l \<and> lim_window l' = lim_window l"
  by (rule allow_pruned [OF sim_prune [OF assms]])

lemma allow_run_spec:
  assumes "sim t m l" "sorted (t # map fst cs)"
  shows "allow_run cs l = spec_run (lim_limit l) (lim_window l) cs m"
  using assms
proof (induction cs arbitrary: t m l)
  case (Cons c cs)
  obtain t' k where c: "c = (t', k)" by force
  then have "t \<le> t'" using Cons.prems by simp
  then obtain l' where l': "allow t' k l = (fst (spec_allow (lim_limit l) (lim_window l) t' (m k)), l')"
    "sim t' (m(k := snd (spec_allow (lim_limit l) (lim_window l) t' (m k)))) l'"
    "lim_limit l' = lim_limit l" "lim_window l' = lim_window l"
    using allow_sim [OF Cons.prems(1)] by blast
  show ?case
    using Cons.IH [OF l'(2)] Cons.prems(2) l' c by (simp add: split_beta del: fun_upd_apply)
qed simp

text \<open>Pruning is invisible: from a fresh limiter and under a clock that does
  not run backwards, the limiter gives exactly the answers of the reference limiter that never
  forgets a bucket.\<close>

theorem limiter_refines_reference:
  assumes "sorted (map fst cs)"
  shows "allow_run cs (newLoginLimiter limit window) = spec_run limit window cs (\<lambda>_. None)"
proof (cases cs)
  case (Cons c cs')
  have "sim (fst c) (\<lambda>_. None) (newLoginLimiter limit window)"
    by (simp add: sim_def agree_def newLoginLimiter_def)
  from allow_run_spec [OF this, of cs] show ?thesis
    using assms Cons by (simp add: newLoginLimiter_def)
qed simp

theorem limiter_refines_reference_witness:
  "allow_run [(0, ''a''), (1, ''a''), (2, ''a''), (20, ''a'')] (newLoginLimiter 2 10)
     = [True, True, False, True]"
  using limiter_refines_reference [of "[(0, ''a''), (1, ''a''), (2, ''a''), (20, ''a'')]" 2 10]
  by (simp add: spec_allow_def)

subsection \<open>The bound on granted calls\<close>

lemma spec_run_key_bound:
  assumes "\<forall>(t, k') \<in> set cs. t \<le> r" "m k = Some \<lparr>rb_count = n, rb_reset = r\<rparr>"
  shows "int (length (filter (\<lambda>(b, c). b \<and> snd c = k) (zip (spec_run limit window cs m) cs)))
    = min (int (length (filter (\<lambda>c. snd c = k) cs))) (max 0 (limit - n))"
  using assms
proof (induction cs arbitrary: m n)
  case (Cons c cs)
  obtain t k' where c: "c = (t, k')" by force
  show ?case
  proof (cases "k' = k")
    case False
    then show ?thesis
      using Cons.IH [of "m(k' := snd (spec_allow limit window t (m k')))" n] Cons.prems c
      by (simp add: split_beta fun_upd_def)
  next
    case True
    have le: "t \<le> r" using Cons.prems c by simp
    show ?thesis
    proof (cases "n < limit")
      case less: True
      have "spec_allow limit window t (m k) = (True, Some \<lparr>rb_count = n + 1, rb_reset = r\<rparr>)"
        using Cons.prems le less by (simp add: spec_allow_def)
      then show ?thesis
        using Cons.IH [of "m(k := Some \<lparr>rb_count = n + 1, rb_reset = r\<rparr>)" "n + 1"] Cons.prems c True less
        by (simp add: fun_upd_def)
    next
      case ge: False
      have "spec_allow limit window t (m k) = (False, m k)"
        using Cons.prems le ge by (simp add: spec_allow_def)
      then show ?thesis
        using Cons.IH [of m n] Cons.prems c True ge by (simp add: fun_upd_idem)
    qed
  qed
qed simp



end
