(* ===== verification/Roles.thy ===== *)
theory Roles
  imports Prelude
begin

section \<open>Roles and permissions (roles.go)\<close>

text \<open>
  The role names, what each role may do to users and leads, and the scope identifiers that restrict
  a role to its own leads. \<open>allowed_actor\<close> collects what the handlers ask of this file.
\<close>

definition RoleSuperadmin :: string where "RoleSuperadmin = ''SUPERADMIN''"
definition RoleAnalystTeamLead :: string where "RoleAnalystTeamLead = ''ANALYST_TEAM_LEAD''"
definition RoleLeadAnalyst :: string where "RoleLeadAnalyst = ''LEAD_ANALYST''"
definition RoleMainTeamLead :: string where "RoleMainTeamLead = ''MAIN_TEAM_LEAD''"
definition RoleSalesExecutive :: string where "RoleSalesExecutive = ''SALES_EXECUTIVE''"

lemmas role_defs = RoleSuperadmin_def RoleAnalystTeamLead_def RoleLeadAnalyst_def
  RoleMainTeamLead_def RoleSalesExecutive_def

definition allRoles :: "string list" where
  "allRoles = [RoleSuperadmin, RoleAnalystTeamLead, RoleLeadAnalyst, RoleMainTeamLead, RoleSalesExecutive]"

definition roleLabels :: "string \<rightharpoonup> string" where
  "roleLabels = [RoleSuperadmin \<mapsto> ''Superadmin'',
     RoleAnalystTeamLead \<mapsto> ''Analyst Team Lead'',
     RoleLeadAnalyst \<mapsto> ''Lead Analyst'',
     RoleMainTeamLead \<mapsto> ''Main Team Lead'',
     RoleSalesExecutive \<mapsto> ''Sales Executive'']"

definition analystTeamLeadManagedRoles :: "string list" where
  "analystTeamLeadManagedRoles = [RoleLeadAnalyst, RoleMainTeamLead, RoleSalesExecutive]"

definition isValidRole :: "string \<Rightarrow> bool" where
  "isValidRole role \<longleftrightarrow> roleLabels role \<noteq> None"

definition roleLabel :: "string \<Rightarrow> string" where
  "roleLabel role = (case roleLabels role of Some label \<Rightarrow> label | None \<Rightarrow> role)"

definition isAnalystTeamLead :: "string \<Rightarrow> bool" where
  "isAnalystTeamLead role \<longleftrightarrow> role = RoleAnalystTeamLead"

definition isLeadAnalyst :: "string \<Rightarrow> bool" where
  "isLeadAnalyst role \<longleftrightarrow> role = RoleLeadAnalyst"

definition isMainTeamLead :: "string \<Rightarrow> bool" where
  "isMainTeamLead role \<longleftrightarrow> role = RoleMainTeamLead"

definition isSalesExecutive :: "string \<Rightarrow> bool" where
  "isSalesExecutive role \<longleftrightarrow> role = RoleSalesExecutive"

lemmas role_tests = isAnalystTeamLead_def isLeadAnalyst_def isMainTeamLead_def isSalesExecutive_def

subsection \<open>What a role may do\<close>

definition canManageUsers :: "string \<Rightarrow> bool" where
  "canManageUsers role \<longleftrightarrow> role = RoleSuperadmin \<or> role = RoleAnalystTeamLead \<or> isMainTeamLead role"

definition canViewUsers :: "string \<Rightarrow> bool" where
  "canViewUsers role = canManageUsers role"

definition canCreateUsers :: "string \<Rightarrow> bool" where
  "canCreateUsers role = canManageUsers role"

definition canMutateLeads :: "string \<Rightarrow> bool" where
  "canMutateLeads role \<longleftrightarrow> role \<in> set [RoleSuperadmin, RoleAnalystTeamLead, RoleLeadAnalyst,
     RoleMainTeamLead, RoleSalesExecutive]"

definition canChangeQualification :: "string \<Rightarrow> bool" where
  "canChangeQualification role \<longleftrightarrow> role \<in> set [RoleSuperadmin, RoleAnalystTeamLead, RoleLeadAnalyst]"

definition canCreateLeads :: "string \<Rightarrow> bool" where
  "canCreateLeads role \<longleftrightarrow> role \<in> set [RoleSuperadmin, RoleAnalystTeamLead, RoleLeadAnalyst]"

definition canEditLeadProfile :: "string \<Rightarrow> bool" where
  "canEditLeadProfile role \<longleftrightarrow> role \<in> set [RoleSuperadmin, RoleAnalystTeamLead, RoleLeadAnalyst]"

definition canDeleteLeads :: "string \<Rightarrow> bool" where
  "canDeleteLeads role \<longleftrightarrow> role \<in> set [RoleSuperadmin, RoleAnalystTeamLead]"

definition canUpdateSalesOutcome :: "string \<Rightarrow> bool" where
  "canUpdateSalesOutcome role \<longleftrightarrow> role \<in> set [RoleSuperadmin, RoleAnalystTeamLead, RoleSalesExecutive]"

definition canMarkNotAppropriate :: "string \<Rightarrow> bool" where
  "canMarkNotAppropriate role = isSalesExecutive role"

definition canAssignToTeamLeads :: "string \<Rightarrow> bool" where
  "canAssignToTeamLeads role \<longleftrightarrow>
     canMutateLeads role \<and> \<not> isSalesExecutive role \<and> \<not> isMainTeamLead role"

definition canViewLeadData :: "string \<Rightarrow> bool" where
  "canViewLeadData role = isValidRole role"

definition namedTeamRequiredForRole :: "string \<Rightarrow> bool" where
  "namedTeamRequiredForRole role \<longleftrightarrow> role = RoleMainTeamLead \<or> role = RoleAnalystTeamLead"

definition salesTeamAssignmentRequired :: "string \<Rightarrow> bool" where
  "salesTeamAssignmentRequired role \<longleftrightarrow> role = RoleSalesExecutive"

subsection \<open>Scope identifiers\<close>

definition leadDataOwnerID :: "string \<Rightarrow> string \<Rightarrow> string" where
  "leadDataOwnerID role userID = (if isLeadAnalyst role then trim userID else [])"

definition leadSalesExecScopeID :: "string \<Rightarrow> string \<Rightarrow> string" where
  "leadSalesExecScopeID role userID = (if isSalesExecutive role then trim userID else [])"

definition leadTeamScopeID :: "string \<Rightarrow> string option \<Rightarrow> string" where
  "leadTeamScopeID role teamID =
     (if \<not> isMainTeamLead role then []
      else case teamID of None \<Rightarrow> [] | Some t \<Rightarrow> trim t)"

definition leadAnalystTeamLeadID :: "string \<Rightarrow> string \<Rightarrow> string" where
  "leadAnalystTeamLeadID role userID = (if isAnalystTeamLead role then trim userID else [])"

definition derefTeamName :: "string option \<Rightarrow> string" where
  "derefTeamName name = (case name of None \<Rightarrow> [] | Some n \<Rightarrow> trim n)"

subsection \<open>Who may manage whom\<close>

definition creatableRoles :: "string \<Rightarrow> string list" where
  "creatableRoles actorRole =
     (if actorRole = RoleSuperadmin then allRoles
      else if actorRole = RoleAnalystTeamLead then analystTeamLeadManagedRoles
      else if actorRole = RoleMainTeamLead then [RoleSalesExecutive]
      else [])"

definition visibleUserRoles :: "string \<Rightarrow> string list" where
  "visibleUserRoles actorRole =
     (if actorRole = RoleSuperadmin then creatableRoles actorRole
      else if actorRole = RoleAnalystTeamLead then creatableRoles actorRole
      else if actorRole = RoleMainTeamLead then [RoleSalesExecutive]
      else [])"

fun role_in :: "string \<Rightarrow> string list \<Rightarrow> bool" where
  \<comment> \<open>the search loop of canCreateRole\<close>
  "role_in target [] = False"
| "role_in target (role # rs) = (if role = target then True else role_in target rs)"

definition canCreateRole :: "string \<Rightarrow> string \<Rightarrow> bool" where
  "canCreateRole actorRole targetRole = role_in targetRole (creatableRoles actorRole)"

definition canActOnUser :: "string \<Rightarrow> string \<Rightarrow> bool" where
  "canActOnUser actorRole targetRole =
     (if actorRole = RoleSuperadmin then True else canCreateRole actorRole targetRole)"

definition sameTeamID :: "string option \<Rightarrow> string option \<Rightarrow> bool" where
  "sameTeamID a b = (case (a, b) of
       (Some x, Some y) \<Rightarrow> (let left = trim x; right = trim y in left \<noteq> [] \<and> left = right)
     | _ \<Rightarrow> False)"

record role_info =
  ri_value :: string
  ri_label :: string

definition rolesToInfo :: "string list \<Rightarrow> role_info list" where
  "rolesToInfo roles = map (\<lambda>r. \<lparr>ri_value = r, ri_label = roleLabel r\<rparr>) roles"

definition listRoles :: "role_info list" where
  "listRoles = rolesToInfo allRoles"

definition listCreatableRoles :: "string \<Rightarrow> role_info list" where
  "listCreatableRoles actorRole = rolesToInfo (creatableRoles actorRole)"

subsection \<open>Facts\<close>

lemma roles_distinct [simp]:
  "RoleSuperadmin \<noteq> RoleAnalystTeamLead" "RoleSuperadmin \<noteq> RoleLeadAnalyst"
  "RoleSuperadmin \<noteq> RoleMainTeamLead" "RoleSuperadmin \<noteq> RoleSalesExecutive"
  "RoleAnalystTeamLead \<noteq> RoleSuperadmin" "RoleAnalystTeamLead \<noteq> RoleLeadAnalyst"
  "RoleAnalystTeamLead \<noteq> RoleMainTeamLead" "RoleAnalystTeamLead \<noteq> RoleSalesExecutive"
  "RoleLeadAnalyst \<noteq> RoleSuperadmin" "RoleLeadAnalyst \<noteq> RoleAnalystTeamLead"
  "RoleLeadAnalyst \<noteq> RoleMainTeamLead" "RoleLeadAnalyst \<noteq> RoleSalesExecutive"
  "RoleMainTeamLead \<noteq> RoleSuperadmin" "RoleMainTeamLead \<noteq> RoleAnalystTeamLead"
  "RoleMainTeamLead \<noteq> RoleLeadAnalyst" "RoleMainTeamLead \<noteq> RoleSalesExecutive"
  "RoleSalesExecutive \<noteq> RoleSuperadmin" "RoleSalesExecutive \<noteq> RoleAnalystTeamLead"
  "RoleSalesExecutive \<noteq> RoleLeadAnalyst" "RoleSalesExecutive \<noteq> RoleMainTeamLead"
  by (simp_all add: role_defs)

lemma isValidRole_iff: "isValidRole r \<longleftrightarrow> r \<in> set allRoles"
  by (auto simp: isValidRole_def roleLabels_def allRoles_def)

lemma role_in_iff: "role_in t rs \<longleftrightarrow> t \<in> set rs"
  by (induction rs) auto

lemma canCreateRole_iff: "canCreateRole a t \<longleftrightarrow> t \<in> set (creatableRoles a)"
  by (simp add: canCreateRole_def role_in_iff)

lemma canActOnUser_iff: "canActOnUser a t \<longleftrightarrow> a = RoleSuperadmin \<or> t \<in> set (creatableRoles a)"
  by (simp add: canActOnUser_def canCreateRole_iff)

definition rank :: "string \<Rightarrow> nat" where
  \<comment> \<open>the intended hierarchy: superadmin over analyst team lead over main team lead over the rest\<close>
  "rank r = (if r = RoleSuperadmin then 3 else if r = RoleAnalystTeamLead then 2
             else if r = RoleMainTeamLead then 1 else 0)"

text \<open>No role except the superadmin can create, promote to, edit or delete
  a user of its own rank or above; and whoever may create a role may manage users at all.\<close>

theorem no_privilege_escalation:
  "(canCreateRole a t \<longrightarrow> canManageUsers a \<and> isValidRole t \<and> (a = RoleSuperadmin \<or> rank t < rank a)) \<and>
   (canActOnUser a t \<longrightarrow> a = RoleSuperadmin \<or> rank t < rank a) \<and>
   (a \<noteq> RoleSuperadmin \<longrightarrow> \<not> canCreateRole a RoleSuperadmin \<and> \<not> canActOnUser a RoleSuperadmin)"
  by (auto simp: canCreateRole_iff canActOnUser_iff creatableRoles_def allRoles_def rank_def
      analystTeamLeadManagedRoles_def canManageUsers_def isMainTeamLead_def isValidRole_iff
      split: if_splits)

theorem no_privilege_escalation_witness:
  "canCreateRole RoleAnalystTeamLead RoleMainTeamLead \<and> rank RoleMainTeamLead < rank RoleAnalystTeamLead"
  using no_privilege_escalation [of RoleAnalystTeamLead RoleMainTeamLead]
  by (simp add: canCreateRole_iff creatableRoles_def analystTeamLeadManagedRoles_def)

end
