(* ===== verification/Validate.thy ===== *)
theory Validate
  imports Roles "HOL-Library.Word"
begin

section \<open>Request validation\<close>

text \<open>
  \<open>validate.go\<close>. A \<open>ValidationError\<close> is the list of the field errors recorded so far; the
  checking functions return the cleaned value with the extended list. Go's \<open>int\<close> is a
  64-bit word where its width matters (\<open>itoa\<close>).
\<close>

record field_error =
  fe_field :: string
  fe_message :: string

type_synonym validation = "field_error list"

definition Add :: "string \<Rightarrow> string \<Rightarrow> validation \<Rightarrow> validation" where
  "Add field msg v = v @ [\<lparr>fe_field = field, fe_message = msg\<rparr>]"

definition HasErrors :: "validation \<Rightarrow> bool" where
  "HasErrors v \<longleftrightarrow> length v > 0"

subsection \<open>Decimal rendering in a twelve byte buffer\<close>

fun itoa_loop :: "nat \<Rightarrow> int \<Rightarrow> string \<Rightarrow> (nat \<times> string) option" where
  \<comment> \<open>\<open>i\<close> is the index into the buffer; below 0 the store panics\<close>
  "itoa_loop 0 n acc = (if n > 0 then None else Some (0, acc))"
| "itoa_loop (Suc i) n acc =
     (if n > 0 then itoa_loop i (n div 10) (char_of (48 + nat (n mod 10)) # acc) else Some (Suc i, acc))"

definition itoa :: "64 word \<Rightarrow> string option" where
  "itoa n =
     (if n = 0 then Some ''0''
      else let neg = n <s 0; m = (if neg then - n else n) in
        case itoa_loop 12 (sint m) [] of
          None \<Rightarrow> None
        | Some (i, acc) \<Rightarrow>
            if neg then (case i of 0 \<Rightarrow> None | Suc j \<Rightarrow> Some (CHR ''-'' # acc)) else Some acc)"

lemma dec_digits_ne: "dec_digits n \<noteq> []"
  by (subst dec_digits.simps) simp

lemma len_digits: "n < 10 ^ i \<Longrightarrow> 0 < i \<Longrightarrow> length (dec_digits n) \<le> i"
proof (induction i arbitrary: n)
  case (Suc i)
  show ?case
  proof (cases "n < 10")
    case False
    have "n div 10 < 10 ^ i" using Suc.prems(1) by (simp add: less_mult_imp_div_less mult.commute)
    moreover have "0 < i" using Suc.prems(1) False by (cases i) auto
    ultimately have "length (dec_digits (n div 10)) \<le> i" by (rule Suc.IH)
    then show ?thesis using False by (subst dec_digits.simps) simp
  qed (subst dec_digits.simps, simp)
qed simp

lemma itoa_loop_done: "n \<le> 0 \<Longrightarrow> itoa_loop i n acc = Some (i, acc)"
  by (cases i) auto

lemma itoa_loop_ok:
  "n < 10 ^ i \<Longrightarrow> 0 < n \<Longrightarrow>
     itoa_loop i (int n) acc = Some (i - length (dec_digits n), dec_digits n @ acc)"
proof (induction i arbitrary: n acc)
  case (Suc i)
  have m: "nat (int n mod 10) = n mod 10" "int n div 10 = int (n div 10)" by (simp_all add: nat_mod_distrib zdiv_int)
  show ?case
  proof (cases "n < 10")
    case True
    have z: "itoa_loop i 0 a = Some (i, a)" for a by (cases i) auto
    have d: "dec_digits n = [char_of (48 + n)]" using True by (subst dec_digits.simps) simp
    have "int n div 10 = 0" "nat (int n mod 10) = n" using True by simp_all
    then show ?thesis using Suc.prems by (simp only: itoa_loop.simps z d) simp
  next
    case False
    have b: "n div 10 < 10 ^ i" using Suc.prems(1) by (simp add: less_mult_imp_div_less mult.commute)
    have d: "dec_digits n = dec_digits (n div 10) @ [char_of (48 + n mod 10)]"
      using False by (subst dec_digits.simps) simp
    have "itoa_loop i (int (n div 10)) (char_of (48 + n mod 10) # acc)
        = Some (i - length (dec_digits (n div 10)), dec_digits (n div 10) @ char_of (48 + n mod 10) # acc)"
      using Suc.IH[OF b, of "char_of (48 + n mod 10) # acc"] False by simp
    then show ?thesis using False m by (simp add: d)
  qed
qed simp

lemma itoa_loop_panic: "10 ^ i \<le> n \<Longrightarrow> itoa_loop i (int n) acc = None"
proof (induction i arbitrary: n acc)
  case (Suc i)
  have "10 ^ i \<le> n div 10" using Suc.prems by (simp add: less_eq_div_iff_mult_less_eq mult.commute)
  moreover have "int n div 10 = int (n div 10)" by (simp add: zdiv_int)
  moreover have "n > 0" using Suc.prems by (metis gr0I not_less_eq_eq power_eq_0_iff le_zero_eq zero_neq_numeral)
  ultimately show ?case using Suc.IH by simp
qed simp

lemma pos_lt_len: "n < 10 ^ 11 \<Longrightarrow> length (dec_digits n) \<le> 11"
  using len_digits[of n 11] by simp

lemma len_ge: "10 ^ i \<le> n \<Longrightarrow> i < length (dec_digits n)"
proof (induction i arbitrary: n)
  case 0
  then show ?case using dec_digits_ne[of n] by simp
next
  case (Suc i)
  have "10 ^ i \<le> n div 10" using Suc.prems by (simp add: less_eq_div_iff_mult_less_eq mult.commute)
  then have "i < length (dec_digits (n div 10))" by (rule Suc.IH)
  moreover have "\<not> n < 10" using Suc.prems by (metis add.commute le_trans less_le_not_le mult_le_mono2 nat_mult_1_right one_le_numeral one_le_power power_Suc)
  ultimately show ?case by (subst dec_digits.simps) simp
qed

lemma sint_neg: "sint n \<noteq> - (2 ^ 63) \<Longrightarrow> sint (- n) = - sint (n :: 64 word)"
proof -
  assume a: "sint n \<noteq> - (2 ^ 63)"
  have r: "- (2 ^ 63) \<le> sint n" "sint n < 2 ^ 63"
    using sint_greater_eq[of n] sint_less[of n] by simp_all
  have "sint (- n) = signed_take_bit 63 (- sint n)"
    by (simp add: sint_word_minus)
  moreover have "signed_take_bit 63 (- sint n) = - sint n"
    using a r by (intro signed_take_bit_int_eq_self) auto
  ultimately show ?thesis by simp
qed

lemma itoa_pos:
  assumes "0 < sint n"
  shows "itoa n = (if sint n < 10 ^ 12 then Some (format_int (sint n)) else None)"
proof -
  obtain k where k: "sint n = int k" "0 < k" using assms by (metis pos_int_cases)
  have n: "n \<noteq> 0" "\<not> n <s 0" using assms by (auto simp: word_sless_alt)
  show ?thesis
  proof (cases "k < 10 ^ 12")
    case True
    then have "itoa_loop 12 (sint n) [] = Some (12 - length (dec_digits k), dec_digits k)"
      using itoa_loop_ok[OF True k(2), of "[]"] by (simp add: k(1))
    then show ?thesis using True n k(1) by (simp add: itoa_def format_int_def)
  next
    case False
    then have "itoa_loop 12 (sint n) [] = None" using itoa_loop_panic[of 12 k "[]"] by (simp only: k(1) not_less)
    then show ?thesis using False n k(1) by (simp add: itoa_def)
  qed
qed

lemma itoa_neg:
  assumes "sint n < 0" "sint n \<noteq> - (2 ^ 63)"
  shows "itoa n = (if - (10 ^ 11) < sint n then Some (format_int (sint n)) else None)"
proof -
  have m: "sint (- n) = - sint n" using assms(2) by (rule sint_neg)
  obtain k where k: "- sint n = int k" "0 < k" using assms(1) by (metis neg_0_less_iff_less pos_int_cases)
  have sn: "sint n = - int k" using k(1) by simp
  have n: "n \<noteq> 0" "n <s 0" using assms by (auto simp: word_sless_alt)
  have f: "format_int (sint n) = CHR ''-'' # dec_digits k" using k(2) by (simp add: sn format_int_def)
  consider "k < 10 ^ 11" | "10 ^ 11 \<le> k" "k < 10 ^ 12" | "10 ^ 12 \<le> k" by linarith
  then show ?thesis
  proof cases
    case 1
    then have "k < 10 ^ 12" by simp
    then have l: "itoa_loop 12 (sint (- n)) [] = Some (12 - length (dec_digits k), dec_digits k)"
      using itoa_loop_ok[of k 12 "[]"] k m by simp
    have "12 - length (dec_digits k) \<noteq> 0" using pos_lt_len[OF 1] by linarith
    then obtain j where "12 - length (dec_digits k) = Suc j" using not0_implies_Suc by blast
    then show ?thesis using 1 n f l by (simp add: itoa_def sn)
  next
    case 2
    have "12 \<le> length (dec_digits k)" using len_ge[OF 2(1)] by simp
    then have l: "itoa_loop 12 (sint (- n)) [] = Some (0, dec_digits k)"
      using itoa_loop_ok[OF 2(2) k(2), of "[]"] k m by simp
    then show ?thesis using 2 n by (simp add: itoa_def sn)
  next
    case 3
    have l: "itoa_loop 12 (sint (- n)) [] = None" using itoa_loop_panic[OF 3, of "[]"] k m by (simp only:)
    then show ?thesis using 3 n by (simp add: itoa_def sn)
  qed
qed

text \<open>\<open>itoa\<close> renders every number of at most twelve characters exactly; for a longer one the twelve
  byte buffer overflows and it panics, and the least 64-bit integer comes out as a bare minus sign.\<close>

theorem itoa_exact:
  "itoa n = (if sint n = - (2 ^ 63) then Some ''-''
             else if - (10 ^ 11) < sint n \<and> sint n < 10 ^ 12 then Some (format_int (sint n)) else None)"
proof -
  consider "sint n = 0" | "0 < sint n" | "sint n = - (2 ^ 63)" | "sint n < 0" "sint n \<noteq> - (2 ^ 63)" by linarith
  then show ?thesis
  proof cases
    case 1
    then have "n = 0" by (simp add: signed_eq_0_iff)
    then show ?thesis by (simp add: itoa_def format_int_def dec_digits.simps char_of_def bit_simps)
  next
    case 2
    then show ?thesis by (simp add: itoa_pos)
  next
    case 3
    then have w: "n = word_of_int (- (2 ^ 63))" by (intro signed_word_eqI) simp
    have "- n = n" by (simp add: w)
    then have "sint (- n) = - (2 ^ 63)" using 3 by (simp only:)
    then have l: "itoa_loop 12 (sint (- n)) [] = Some (12, [])" by (intro itoa_loop_done) simp
    have "n \<noteq> 0" "n <s 0" using 3 by (auto simp: word_sless_alt)
    moreover have "(case (12::nat) of 0 \<Rightarrow> None | Suc j \<Rightarrow> Some [CHR ''-'']) = Some ''-''"
      by (simp add: numeral_eq_Suc)
    ultimately show ?thesis using 3 by (simp add: itoa_def l)
  next
    case 4
    then show ?thesis by (simp add: itoa_neg)
  qed
qed

subsection \<open>Email addresses\<close>

definition local_char :: "char \<Rightarrow> bool" where
  "local_char c \<longleftrightarrow> is_ascii_letter c \<or> is_digit c \<or> c \<in> set ''._%+-''"

definition domain_char :: "char \<Rightarrow> bool" where
  "domain_char c \<longleftrightarrow> is_ascii_letter c \<or> is_digit c \<or> c \<in> set ''.-''"

definition match_tld :: "string \<Rightarrow> bool" where
  \<comment> \<open>\<open>[a-zA-Z]{2,}$\<close>\<close>
  "match_tld s \<longleftrightarrow> length s \<ge> 2 \<and> list_all is_ascii_letter s"

fun match_domain :: "bool \<Rightarrow> string \<Rightarrow> bool" where
  \<comment> \<open>\<open>[a-zA-Z0-9.\-]+\.[a-zA-Z]{2,}$\<close>; \<open>seen\<close>: the plus has taken a character\<close>
  "match_domain seen [] = False"
| "match_domain seen (c # cs) =
     ((seen \<and> c = CHR ''.'' \<and> match_tld cs) \<or> (domain_char c \<and> match_domain True cs))"

fun match_local :: "bool \<Rightarrow> string \<Rightarrow> bool" where
  \<comment> \<open>\<open>^[a-zA-Z0-9._%+\-]+@\<close> and the rest\<close>
  "match_local seen [] = False"
| "match_local seen (c # cs) =
     ((seen \<and> c = CHR ''@'' \<and> match_domain False cs) \<or> (local_char c \<and> match_local True cs))"

definition emailPattern :: "string \<Rightarrow> bool" where
  "emailPattern s = match_local False s"

lemma match_domain_seen:
  "match_domain True s \<longleftrightarrow> (\<exists>d t. s = d @ CHR ''.'' # t \<and> list_all domain_char d \<and> match_tld t)"
proof (induction s)
  case (Cons c cs)
  show ?case
  proof
    assume "match_domain True (c # cs)"
    then consider "c = CHR ''.''" "match_tld cs" | "domain_char c" "match_domain True cs" by auto
    then show "\<exists>d t. c # cs = d @ CHR ''.'' # t \<and> list_all domain_char d \<and> match_tld t"
    proof cases
      case 1
      then show ?thesis by (intro exI[of _ "[]"] exI[of _ cs]) simp
    next
      case 2
      then obtain d t where "cs = d @ CHR ''.'' # t" "list_all domain_char d" "match_tld t" using Cons by blast
      then show ?thesis using 2(1) by (intro exI[of _ "c # d"] exI[of _ t]) simp
    qed
  next
    assume "\<exists>d t. c # cs = d @ CHR ''.'' # t \<and> list_all domain_char d \<and> match_tld t"
    then obtain d t where "c # cs = d @ CHR ''.'' # t" "list_all domain_char d" "match_tld t" by blast
    then show "match_domain True (c # cs)" using Cons by (cases d) auto
  qed
qed simp

lemma match_local_seen:
  "match_local True s \<longleftrightarrow> (\<exists>u r. s = u @ CHR ''@'' # r \<and> list_all local_char u \<and> match_domain False r)"
proof (induction s)
  case (Cons c cs)
  show ?case
  proof
    assume "match_local True (c # cs)"
    then consider "c = CHR ''@''" "match_domain False cs" | "local_char c" "match_local True cs" by auto
    then show "\<exists>u r. c # cs = u @ CHR ''@'' # r \<and> list_all local_char u \<and> match_domain False r"
    proof cases
      case 1
      then show ?thesis by (intro exI[of _ "[]"] exI[of _ cs]) simp
    next
      case 2
      then obtain u r where "cs = u @ CHR ''@'' # r" "list_all local_char u" "match_domain False r" using Cons by blast
      then show ?thesis using 2(1) by (intro exI[of _ "c # u"] exI[of _ r]) simp
    qed
  next
    assume "\<exists>u r. c # cs = u @ CHR ''@'' # r \<and> list_all local_char u \<and> match_domain False r"
    then obtain u r where "c # cs = u @ CHR ''@'' # r" "list_all local_char u" "match_domain False r" by blast
    then show "match_local True (c # cs)" using Cons by (cases u) auto
  qed
qed simp

lemma match_domain_first:
  "match_domain False s \<longleftrightarrow> (\<exists>d t. s = d @ CHR ''.'' # t \<and> d \<noteq> [] \<and> list_all domain_char d \<and> match_tld t)"
proof (cases s)
  case (Cons c cs)
  show ?thesis
  proof
    assume "match_domain False s"
    then have "domain_char c" "match_domain True cs" using Cons by simp_all
    then obtain d t where "cs = d @ CHR ''.'' # t" "list_all domain_char d" "match_tld t"
      using match_domain_seen by blast
    then show "\<exists>d t. s = d @ CHR ''.'' # t \<and> d \<noteq> [] \<and> list_all domain_char d \<and> match_tld t"
      using Cons \<open>domain_char c\<close> by (intro exI[of _ "c # d"] exI[of _ t]) simp
  next
    assume "\<exists>d t. s = d @ CHR ''.'' # t \<and> d \<noteq> [] \<and> list_all domain_char d \<and> match_tld t"
    then obtain d t where w: "s = d @ CHR ''.'' # t" "d \<noteq> []" "list_all domain_char d" "match_tld t" by blast
    then obtain d' where "d = c # d'" using Cons by (cases d) auto
    then show "match_domain False s" using w Cons match_domain_seen by auto
  qed
qed simp

lemma match_local_first:
  "match_local False s \<longleftrightarrow> (\<exists>u r. s = u @ CHR ''@'' # r \<and> u \<noteq> [] \<and> list_all local_char u \<and> match_domain False r)"
proof (cases s)
  case (Cons c cs)
  show ?thesis
  proof
    assume "match_local False s"
    then have "local_char c" "match_local True cs" using Cons by simp_all
    then obtain u r where "cs = u @ CHR ''@'' # r" "list_all local_char u" "match_domain False r"
      using match_local_seen by blast
    then show "\<exists>u r. s = u @ CHR ''@'' # r \<and> u \<noteq> [] \<and> list_all local_char u \<and> match_domain False r"
      using Cons \<open>local_char c\<close> by (intro exI[of _ "c # u"] exI[of _ r]) simp
  next
    assume "\<exists>u r. s = u @ CHR ''@'' # r \<and> u \<noteq> [] \<and> list_all local_char u \<and> match_domain False r"
    then obtain u r where w: "s = u @ CHR ''@'' # r" "u \<noteq> []" "list_all local_char u" "match_domain False r" by blast
    then obtain u' where "u = c # u'" using Cons by (cases u) auto
    then show "match_local False s" using w Cons match_local_seen by auto
  qed
qed simp

text \<open>C12.
  The email matcher accepts exactly \<open>local@domain.tld\<close>: a non-empty local part and domain over the
  allowed characters and a top level domain of at least two letters.\<close>

theorem emailPattern_language:
  "emailPattern s \<longleftrightarrow>
     (\<exists>u d t. s = u @ ''@'' @ d @ ''.'' @ t \<and> u \<noteq> [] \<and> d \<noteq> [] \<and> length t \<ge> 2
        \<and> list_all local_char u \<and> list_all domain_char d \<and> list_all is_ascii_letter t)"
  by (auto simp: emailPattern_def match_local_first match_domain_first match_tld_def; fastforce)

subsection \<open>Field checks\<close>

definition at_least :: "string \<Rightarrow> nat \<Rightarrow> string" where
  "at_least field n = field @ '' must be at least '' @ the (itoa (of_nat n)) @ '' characters''"

definition at_most :: "string \<Rightarrow> nat \<Rightarrow> string" where
  "at_most field n = field @ '' must be at most '' @ the (itoa (of_nat n)) @ '' characters''"

definition requireString :: "string \<Rightarrow> string \<Rightarrow> nat \<Rightarrow> nat \<Rightarrow> validation \<Rightarrow> string \<times> validation" where
  "requireString field val lo hi v =
     (let x = trim val; n = length x in
      if x = '''' then (x, Add field (field @ '' is required'') v)
      else
        let v1 = (if n < lo then Add field (at_least field lo) v else v);
            v2 = (if hi > 0 \<and> n > hi then Add field (at_most field hi) v1 else v1) in
        (x, v2))"

definition optionalBoundedString :: "string \<Rightarrow> string \<Rightarrow> nat \<Rightarrow> validation \<Rightarrow> string \<times> validation" where
  "optionalBoundedString field val hi v =
     (let x = trim val; n = length x in
      if x = '''' then (x, v)
      else (x, if hi > 0 \<and> n > hi then Add field (at_most field hi) v else v))"

definition optionalEmail :: "string \<Rightarrow> string \<Rightarrow> validation \<Rightarrow> string option \<times> validation" where
  "optionalEmail field val v =
     (let x = trim (to_lower val) in
      if x = '''' then (None, v)
      else (Some x, if \<not> emailPattern x then Add field ''email format is invalid'' v else v))"

definition digit_count :: "string \<Rightarrow> nat" where
  "digit_count s = length (filter is_digit s)"

definition optionalPhone :: "string \<Rightarrow> string \<Rightarrow> validation \<Rightarrow> string option \<times> validation" where
  "optionalPhone field val v =
     (let x = trim val in
      if x = '''' then (None, v)
      else (Some x, if digit_count x < 5 then Add field ''phone must include at least 5 digits'' v else v))"

definition requireEmail :: "string \<Rightarrow> string \<Rightarrow> validation \<Rightarrow> string \<times> validation" where
  "requireEmail field val v =
     (let x = trim (to_lower val) in
      if x = '''' then (x, Add field ''email is required'' v)
      else (x, if \<not> emailPattern x then Add field ''email format is invalid'' v else v))"

definition requirePassword :: "string \<Rightarrow> string \<Rightarrow> validation \<Rightarrow> string \<times> validation" where
  "requirePassword field val v =
     (if trim val = '''' then (val, Add field ''password is required'' v)
      else
        let n = length val;
            v1 = (if n < 8 then Add field ''password must be at least 8 characters'' v else v);
            v2 = (if n > 128 then Add field ''password must be at most 128 characters'' v1 else v1);
            hasLetter = list_ex is_ascii_letter val;
            hasDigit = list_ex is_digit val;
            v3 = (if n \<ge> 8 \<and> (\<not> hasLetter \<or> \<not> hasDigit)
                  then Add field ''password must include at least one letter and one number'' v2 else v2) in
        (val, v3))"

definition requireRole :: "string \<Rightarrow> string \<Rightarrow> validation \<Rightarrow> string \<times> validation" where
  "requireRole field val v =
     (let x = trim val in
      if x = '''' then (x, Add field ''role is required'' v)
      else (x, if \<not> isValidRole x then Add field ''role is invalid'' v else v))"

lemma Add_ne [simp]: "Add f m v \<noteq> []" "v \<noteq> Add f m v" "Add f m v \<noteq> v"
  by (simp_all add: Add_def)

lemma Add_Add [simp]: "Add f m (Add g k v) \<noteq> v" "v \<noteq> Add f m (Add g k v)"
  by (simp_all add: Add_def)

lemma is_required_accepts:
  "requireString field val lo hi v = (x, v') \<Longrightarrow>
     (v' = v \<longleftrightarrow> x \<noteq> '''' \<and> lo \<le> length x \<and> (hi = 0 \<or> length x \<le> hi)) \<and> x = trim val"
  by (auto simp: requireString_def Let_def split: if_splits)

text \<open>
  A required string passes exactly when its trimmed text is non-empty and within the bounds, and the
  value handed on is the trimmed one; a password passes exactly when it is 8 to 128 characters with
  a letter and a digit, and is handed on unchanged; an email passes exactly when its lower-cased
  trimmed text matches the pattern; a role passes exactly when it is one of the five.\<close>

theorem checks_accept_exactly:
  "(requireString f x lo hi v = (trim x, v) \<longleftrightarrow>
      trim x \<noteq> [] \<and> lo \<le> length (trim x) \<and> (hi = 0 \<or> length (trim x) \<le> hi)) \<and>
   (requirePassword f x v = (x, v) \<longleftrightarrow>
      trim x \<noteq> [] \<and> 8 \<le> length x \<and> length x \<le> 128 \<and> list_ex is_ascii_letter x \<and> list_ex is_digit x) \<and>
   (requireEmail f x v = (trim (to_lower x), v) \<longleftrightarrow> emailPattern (trim (to_lower x))) \<and>
   (requireRole f x v = (trim x, v) \<longleftrightarrow> isValidRole (trim x))"
proof (intro conjI)
  show "requireString f x lo hi v = (trim x, v) \<longleftrightarrow> trim x \<noteq> [] \<and> lo \<le> length (trim x) \<and> (hi = 0 \<or> length (trim x) \<le> hi)"
    by (auto simp: requireString_def Let_def)
  show "requirePassword f x v = (x, v) \<longleftrightarrow>
      trim x \<noteq> [] \<and> 8 \<le> length x \<and> length x \<le> 128 \<and> list_ex is_ascii_letter x \<and> list_ex is_digit x"
    by (auto simp: requirePassword_def Let_def)
  have "\<not> emailPattern []" by (simp add: emailPattern_def)
  then show "requireEmail f x v = (trim (to_lower x), v) \<longleftrightarrow> emailPattern (trim (to_lower x))"
    by (auto simp: requireEmail_def Let_def)
  have "\<not> isValidRole []" by (simp add: isValidRole_def roleLabels_def role_defs)
  then show "requireRole f x v = (trim x, v) \<longleftrightarrow> isValidRole (trim x)"
    by (auto simp: requireRole_def Let_def)
qed

end
