(* ===== verification/Cache.thy ===== *)
theory Cache
  imports Prelude "HOL-Library.AList"
begin

section \<open>The response cache\<close>

text \<open>
  \<open>response_cache.go\<close> and \<open>redis_cache.go\<close>. The contract \<open>ResponseCacher\<close> that the handlers
  rely on is the locale \<open>response_cacher\<close>; it is interpreted on the in-memory cache and on the
  Redis client while the server cannot be reached. Cached payloads and keys are byte strings here,
  one character per byte; times are milliseconds. The Redis server is not part of the repository:
  its answers are arguments of the client's operations.
\<close>

subsection \<open>The in-memory cache\<close>

record cache_entry =
  entry_data :: string
  entry_expires :: int

record mem_cache =
  entries :: "(string \<times> cache_entry) list"   \<comment> \<open>the Go map, keys distinct\<close>

definition responseCacheMaxEntries :: nat where
  "responseCacheMaxEntries = 4096"

definition NewResponseCache :: mem_cache where
  "NewResponseCache = \<lparr>entries = []\<rparr>"

definition mem_Get :: "int \<Rightarrow> string \<Rightarrow> mem_cache \<Rightarrow> string option" where
  "mem_Get t k c =
     (case map_of (entries c) k of
        None \<Rightarrow> None
      | Some e \<Rightarrow> if t > entry_expires e then None else Some (entry_data e))"

definition mem_Set :: "int \<Rightarrow> string \<Rightarrow> string \<Rightarrow> int \<Rightarrow> mem_cache \<Rightarrow> mem_cache" where
  "mem_Set t k v ttl c =
     (if ttl \<le> 0 \<or> length v = 0 then c
      else let base = (if length (entries c) \<ge> responseCacheMaxEntries then [] else entries c) in
        c\<lparr>entries := AList.update k \<lparr>entry_data = v, entry_expires = t + ttl\<rparr> base\<rparr>)"

definition mem_Clear :: "mem_cache \<Rightarrow> mem_cache" where
  "mem_Clear c = c\<lparr>entries := []\<rparr>"

definition mem_holds :: "mem_cache \<Rightarrow> string \<Rightarrow> string \<Rightarrow> int \<Rightarrow> bool" where
  \<comment> \<open>the cache can still answer \<open>k\<close> with \<open>v\<close> until time \<open>u\<close>\<close>
  "mem_holds c k v u \<longleftrightarrow> map_of (entries c) k = Some \<lparr>entry_data = v, entry_expires = u\<rparr>"

definition mem_ok :: "mem_cache \<Rightarrow> bool" where
  "mem_ok c \<longleftrightarrow> distinct (map fst (entries c)) \<and> length (entries c) \<le> responseCacheMaxEntries"

lemma length_update: "length (AList.update k v xs) \<le> Suc (length xs)"
  by (induction xs) auto

lemma mem_ok_ops:
  "mem_ok NewResponseCache"
  "mem_ok c \<Longrightarrow> mem_ok (mem_Set t k v ttl c)"
  "mem_ok (mem_Clear c)"
  using length_update[of k "\<lparr>entry_data = v, entry_expires = t + ttl\<rparr>" "entries c"]
  by (auto simp: mem_ok_def NewResponseCache_def mem_Clear_def mem_Set_def Let_def responseCacheMaxEntries_def
      distinct_update)

subsection \<open>The contract of the handlers\<close>

datatype cache_op = CGet int string | CSet int string string int | CClear int

definition set_since_clear :: "cache_op list \<Rightarrow> string \<Rightarrow> string \<Rightarrow> int \<Rightarrow> bool" where
  \<comment> \<open>some \<open>Set\<close> that no later \<open>Clear\<close> follows stored this value until time \<open>u\<close>\<close>
  "set_since_clear ops k v u \<longleftrightarrow>
     (\<exists>pre post t ttl. ops = pre @ CSet t k v ttl # post \<and> u = t + ttl \<and> 0 < ttl \<and> (\<forall>x. CClear x \<notin> set post))"

lemma set_since_clear_snoc:
  assumes "set_since_clear ops k v u" "\<forall>x. op \<noteq> CClear x"
  shows "set_since_clear (ops @ [op]) k v u"
proof -
  from assms(1) obtain pre post t ttl where
    o: "ops = pre @ CSet t k v ttl # post" "u = t + ttl" "0 < ttl" "\<forall>x. CClear x \<notin> set post"
    by (auto simp: set_since_clear_def)
  have "ops @ [op] = pre @ CSet t k v ttl # (post @ [op])" using o(1) by simp
  moreover have "\<forall>x. CClear x \<notin> set (post @ [op])" using o(4) assms(2) by auto
  ultimately show ?thesis unfolding set_since_clear_def using o(2,3) by blast
qed

lemma set_since_clear_last: "0 < ttl \<Longrightarrow> set_since_clear (ops @ [CSet t k v ttl]) k v (t + ttl)"
  unfolding set_since_clear_def by (rule exI[of _ ops], rule exI[of _ "[]"]) auto

locale response_cacher =
  fixes get :: "int \<Rightarrow> string \<Rightarrow> 'c \<Rightarrow> string option \<times> 'c"
    and put :: "int \<Rightarrow> string \<Rightarrow> string \<Rightarrow> int \<Rightarrow> 'c \<Rightarrow> 'c"
    and clear :: "int \<Rightarrow> 'c \<Rightarrow> 'c"
    and holds :: "'c \<Rightarrow> string \<Rightarrow> string \<Rightarrow> int \<Rightarrow> bool"
  assumes get_held: "get t k c = (Some v, c') \<Longrightarrow> \<exists>u \<ge> t. holds c k v u"
    and get_keeps: "holds (snd (get t k c)) k' v u \<Longrightarrow> holds c k' v u"
    and put_holds: "holds (put t k v ttl c) k' v' u \<Longrightarrow>
          holds c k' v' u \<or> (k' = k \<and> v' = v \<and> u = t + ttl \<and> 0 < ttl)"
    and clear_holds: "\<not> holds (clear t c) k v u"
begin

primrec step :: "cache_op \<Rightarrow> 'c \<Rightarrow> 'c" where
  "step (CGet t k) c = snd (get t k c)"
| "step (CSet t k v ttl) c = put t k v ttl c"
| "step (CClear t) c = clear t c"

text \<open>Operations of any number of requests, in the order in which they take the cache's lock.\<close>

definition run :: "cache_op list \<Rightarrow> 'c \<Rightarrow> 'c" where
  "run ops c = fold step ops c"

lemma run_holds:
  assumes "\<And>k v u. \<not> holds c k v u"
  shows "holds (run ops c) k v u \<Longrightarrow> set_since_clear ops k v u"
proof (induction ops arbitrary: k v u rule: rev_induct)
  case Nil
  then show ?case using assms by (simp add: run_def)
next
  case (snoc op ops)
  show ?case
  proof (cases op)
    case (CGet t k')
    then show ?thesis
      using snoc get_keeps set_since_clear_snoc by (force simp: run_def)
  next
    case (CSet t k' v' ttl)
    then have "holds (put t k' v' ttl (run ops c)) k v u" using snoc.prems by (simp add: run_def)
    then show ?thesis
      using put_holds snoc.IH set_since_clear_snoc set_since_clear_last CSet by fastforce
  next
    case (CClear t)
    then show ?thesis using snoc.prems clear_holds by (simp add: run_def)
  qed
qed

lemma served_was_set:
  assumes "\<And>k v u. \<not> holds c k v u" "get t k (run ops c) = (Some v, c')"
  shows "\<exists>u \<ge> t. set_since_clear ops k v u"
  using get_held[OF assms(2)] run_holds[OF assms(1)] by blast

end

lemma mem_Get_holds: "mem_Get t k c = Some v \<longleftrightarrow> (\<exists>u \<ge> t. mem_holds c k v u)"
proof (cases "map_of (entries c) k")
  case (Some e)
  then show ?thesis by (cases e) (auto simp: mem_Get_def mem_holds_def)
qed (simp add: mem_Get_def mem_holds_def)

interpretation mem: response_cacher "\<lambda>t k c. (mem_Get t k c, c)" mem_Set "\<lambda>t. mem_Clear" mem_holds
proof
  show "(mem_Get t k c, c) = (Some v, c') \<Longrightarrow> \<exists>u \<ge> t. mem_holds c k v u" for t k c v c'
    using mem_Get_holds by auto
  show "mem_holds (mem_Set t k v ttl c) k' v' u \<Longrightarrow>
      mem_holds c k' v' u \<or> (k' = k \<and> v' = v \<and> u = t + ttl \<and> 0 < ttl)" for t k v ttl c k' v' u
    by (auto simp: mem_holds_def mem_Set_def Let_def update_conv' split: if_splits)
  show "\<not> mem_holds (mem_Clear c) k v u" for c k v u by (simp add: mem_holds_def mem_Clear_def)
qed simp

subsection \<open>The Redis client\<close>

datatype 'a reply = RErr | RNil | RVal 'a

record redis_cache =
  fallback :: mem_cache
  keyPrefix :: string
  gen :: int
  genFetched :: "int option"      \<comment> \<open>\<open>None\<close> is the zero time\<close>
  degraded :: bool

definition redisGenCacheFor :: int where "redisGenCacheFor = 300"
definition redisMaxValue :: nat where "redisMaxValue = 1048576"

definition NewRedisResponseCache :: "string \<Rightarrow> mem_cache \<Rightarrow> redis_cache" where
  \<comment> \<open>given the user name of the parsed URL\<close>
  "NewRedisResponseCache user fb =
     (let scope = (if user \<noteq> '''' then user @ '':lf:'' else ''lf:'') in
      \<lparr>fallback = fb, keyPrefix = scope @ ''resp:'', gen = 0, genFetched = None, degraded = False\<rparr>)"

definition fresh_gen :: "int \<Rightarrow> redis_cache \<Rightarrow> bool" where
  "fresh_gen t c \<longleftrightarrow> (case genFetched c of None \<Rightarrow> False | Some f \<Rightarrow> t - f < redisGenCacheFor)"

definition store_gen :: "int \<Rightarrow> int \<Rightarrow> redis_cache \<Rightarrow> redis_cache" where
  \<comment> \<open>noteHealthy, then the locked store\<close>
  "store_gen v t c = c\<lparr>degraded := False, gen := v, genFetched := Some t\<rparr>"

definition generation :: "int \<Rightarrow> int reply \<Rightarrow> redis_cache \<Rightarrow> int option \<times> redis_cache" where
  \<comment> \<open>\<open>r\<close> is the answer to GET genKey, if it is asked\<close>
  "generation t r c =
     (if fresh_gen t c then (Some (gen c), c)
      else case r of
        RErr \<Rightarrow> (None, c\<lparr>degraded := True\<rparr>)
      | RNil \<Rightarrow> (Some 0, store_gen 0 t c)
      | RVal v \<Rightarrow> (Some v, store_gen v t c))"

definition fullKey :: "(string \<Rightarrow> string) \<Rightarrow> redis_cache \<Rightarrow> int \<Rightarrow> string \<Rightarrow> string" where
  \<comment> \<open>\<open>hash16\<close> is the hex text of the first 16 bytes of the SHA-256 digest\<close>
  "fullKey hash16 c g k = keyPrefix c @ format_int g @ '':'' @ hash16 k"

definition redis_Get ::
  "(string \<Rightarrow> string) \<Rightarrow> int reply \<Rightarrow> (string \<Rightarrow> string reply) \<Rightarrow> int \<Rightarrow> string \<Rightarrow> redis_cache \<Rightarrow> string option \<times> redis_cache" where
  \<comment> \<open>\<open>rg\<close> answers GET genKey and \<open>rv\<close> the GET of a full key\<close>
  "redis_Get hash16 rg rv t k c =
     (case generation t rg c of
        (None, c') \<Rightarrow> (mem_Get t k (fallback c'), c')
      | (Some g, c') \<Rightarrow>
          (case rv (fullKey hash16 c' g k) of
             RNil \<Rightarrow> (None, c')
           | RErr \<Rightarrow> (mem_Get t k (fallback c'), c'\<lparr>degraded := True\<rparr>)
           | RVal d \<Rightarrow> (Some d, c')))"

definition redis_Set ::
  "(string \<Rightarrow> string) \<Rightarrow> int reply \<Rightarrow> bool \<Rightarrow> int \<Rightarrow> string \<Rightarrow> string \<Rightarrow> int \<Rightarrow> redis_cache \<Rightarrow> (string \<times> string \<times> int) option \<times> redis_cache" where
  \<comment> \<open>also returns the SET command sent; \<open>ok\<close>: the server accepted it\<close>
  "redis_Set hash16 rg ok t k v ttl c =
     (if ttl \<le> 0 \<or> length v = 0 \<or> length v > redisMaxValue then (None, c)
      else case generation t rg c of
        (None, c') \<Rightarrow> (None, c'\<lparr>fallback := mem_Set t k v ttl (fallback c')\<rparr>)
      | (Some g, c') \<Rightarrow>
          (Some (fullKey hash16 c' g k, v, ttl),
           if ok then c'
           else c'\<lparr>degraded := True, fallback := mem_Set t k v ttl (fallback c')\<rparr>))"

definition redis_Clear :: "int reply \<Rightarrow> int \<Rightarrow> redis_cache \<Rightarrow> redis_cache" where
  \<comment> \<open>\<open>r\<close> answers INCR genKey, which is never Nil\<close>
  "redis_Clear r t c =
     (let c1 = c\<lparr>fallback := mem_Clear (fallback c)\<rparr> in
      case r of
        RVal v \<Rightarrow> store_gen v t c1
      | _ \<Rightarrow> c1\<lparr>degraded := True, genFetched := None\<rparr>)"

lemma generation_fallback: "generation t r c = (g, c') \<Longrightarrow> fallback c' = fallback c"
  by (auto simp: generation_def store_gen_def split: if_splits reply.splits)

lemma generation_down: "fst (generation t RErr c) = (if fresh_gen t c then Some (gen c) else None)"
  by (simp add: generation_def)

lemma down_Get: "fst (redis_Get h RErr (\<lambda>_. RErr) t k c) = mem_Get t k (fallback c)"
  by (auto simp: redis_Get_def dest: generation_fallback split: prod.splits option.splits)

lemma down_Get_fallback: "fallback (snd (redis_Get h RErr (\<lambda>_. RErr) t k c)) = fallback c"
  by (auto simp: redis_Get_def dest: generation_fallback split: prod.splits option.splits)

lemma down_Set:
  "fallback (snd (redis_Set h RErr False t k v ttl c)) =
     (if length v > redisMaxValue then fallback c else mem_Set t k v ttl (fallback c))"
  by (auto simp: redis_Set_def mem_Set_def dest: generation_fallback split: prod.splits option.splits)

lemma down_Clear: "fallback (redis_Clear RErr t c) = mem_Clear (fallback c)"
  by (simp add: redis_Clear_def Let_def)

interpretation down: response_cacher
  "redis_Get h RErr (\<lambda>_. RErr)" "\<lambda>t k v ttl c. snd (redis_Set h RErr False t k v ttl c)" "redis_Clear RErr"
  "\<lambda>c. mem_holds (fallback c)" for h
proof
  show "redis_Get h RErr (\<lambda>_. RErr) t k c = (Some v, c') \<Longrightarrow> \<exists>u \<ge> t. mem_holds (fallback c) k v u" for t k c v c'
    using down_Get[of h t k c] mem_Get_holds[of t k "fallback c" v] by simp
  show "mem_holds (fallback (snd (redis_Get h RErr (\<lambda>_. RErr) t k c))) k' v u \<Longrightarrow> mem_holds (fallback c) k' v u" for t k c k' v u
    by (simp add: down_Get_fallback)
  show "mem_holds (fallback (snd (redis_Set h RErr False t k v ttl c))) k' v' u \<Longrightarrow>
      mem_holds (fallback c) k' v' u \<or> (k' = k \<and> v' = v \<and> u = t + ttl \<and> 0 < ttl)" for t k v ttl c k' v' u
    using mem.put_holds[of t k v ttl "fallback c"] by (auto simp: down_Set split: if_splits)
  show "\<not> mem_holds (fallback (redis_Clear RErr t c)) k v u" for t c k v u
    using mem.clear_holds by (simp add: down_Clear)
qed

subsection \<open>Cached endpoints\<close>

definition cacheKeyFor :: "string \<Rightarrow> string \<Rightarrow> string option \<Rightarrow> string" where
  \<comment> \<open>URL path, raw query and the id of the user in the request context, if any\<close>
  "cacheKeyFor path rawQuery user = path @ ''?'' @ rawQuery @ ''|'' @ (case user of None \<Rightarrow> '''' | Some u \<Rightarrow> u)"

record cached_request =
  cr_get :: bool                  \<comment> \<open>the method is GET\<close>
  cr_key :: string

definition serveFromCache :: "int \<Rightarrow> cached_request \<Rightarrow> mem_cache option \<Rightarrow> string option" where
  \<comment> \<open>the payload written with status 200, if it was a hit\<close>
  "serveFromCache t r rc =
     (case rc of None \<Rightarrow> None | Some c \<Rightarrow> if \<not> cr_get r then None else mem_Get t (cr_key r) c)"

definition writeCachedJSON :: "int \<Rightarrow> cached_request \<Rightarrow> string \<Rightarrow> int \<Rightarrow> mem_cache option \<Rightarrow> string \<times> mem_cache option" where
  \<comment> \<open>the marshalled payload is written and stored; marshalling of the response types does not fail\<close>
  "writeCachedJSON t r payload ttl rc =
     (payload, case rc of None \<Rightarrow> None
        | Some c \<Rightarrow> if cr_get r then Some (mem_Set t (cr_key r) payload ttl c) else Some c)"

lemma split_last_bar:
  "a @ CHR ''|'' # u = b @ CHR ''|'' # v \<Longrightarrow> CHR ''|'' \<notin> set u \<Longrightarrow> CHR ''|'' \<notin> set v \<Longrightarrow> u = v \<and> a = b"
proof -
  assume e: "a @ CHR ''|'' # u = b @ CHR ''|'' # v" and n: "CHR ''|'' \<notin> set u" "CHR ''|'' \<notin> set v"
  have "rev u @ CHR ''|'' # rev a = rev v @ CHR ''|'' # rev b" using arg_cong[OF e, of rev] by simp
  then have "takeWhile (\<lambda>c. c \<noteq> CHR ''|'') (rev u @ CHR ''|'' # rev a) = takeWhile (\<lambda>c. c \<noteq> CHR ''|'') (rev v @ CHR ''|'' # rev b)"
    by simp
  moreover have "takeWhile (\<lambda>c. c \<noteq> CHR ''|'') (rev w @ CHR ''|'' # x) = rev w" if "CHR ''|'' \<notin> set w" for w x
    using that by (subst takeWhile_append2) auto
  ultimately have "rev u = rev v" using n by simp
  then show ?thesis using e by simp
qed

primrec mem_step :: "cache_op \<Rightarrow> mem_cache \<Rightarrow> mem_cache" where
  "mem_step (CGet t k) c = c"
| "mem_step (CSet t k v ttl) c = mem_Set t k v ttl c"
| "mem_step (CClear t) c = mem_Clear c"

lemma mem_run: "fold mem_step ops c = mem.run ops c"
proof -
  have "mem_step = mem.step"
  proof (intro ext)
    show "mem_step op c = mem.step op c" for op c by (cases op) auto
  qed
  then show ?thesis by (simp add: mem.run_def)
qed

lemma fold_mem_ok: "mem_ok c \<Longrightarrow> mem_ok (fold mem_step ops c)"
proof (induction ops arbitrary: c)
  case (Cons op ops)
  then show ?case by (cases op) (auto intro: mem_ok_ops)
qed simp

text \<open>C11.
  After any sequence of cache operations of any number of requests, a \<open>Get\<close> that answers returns a
  payload that a \<open>Set\<close> stored under that very key, whose TTL has not run out and which no
  \<open>Clear\<close> followed; and the cache never holds more than 4096 entries.\<close>

theorem cache_serves_live_entries_only:
  "(case mem_Get t k (fold mem_step ops NewResponseCache) of
      None \<Rightarrow> True
    | Some v \<Rightarrow> (\<exists>u \<ge> t. set_since_clear ops k v u))
   \<and> length (entries (fold mem_step ops NewResponseCache)) \<le> responseCacheMaxEntries"
proof
  show "length (entries (fold mem_step ops NewResponseCache)) \<le> responseCacheMaxEntries"
    using fold_mem_ok[OF mem_ok_ops(1), of ops] by (simp add: mem_ok_def)
  have e: "\<not> mem_holds NewResponseCache k v u" for k v u by (simp add: mem_holds_def NewResponseCache_def)
  show "case mem_Get t k (fold mem_step ops NewResponseCache) of
      None \<Rightarrow> True | Some v \<Rightarrow> (\<exists>u \<ge> t. set_since_clear ops k v u)"
  proof (cases "mem_Get t k (fold mem_step ops NewResponseCache)")
    case (Some v)
    then show ?thesis using mem.served_was_set[of NewResponseCache t k ops v "mem.run ops NewResponseCache"] e
      by (simp add: mem_run)
  qed simp
qed

text \<open>Responses are cached per user: two requests share a cache key only when path and query coincide as
  text and they come from the same user, as long as user ids contain no vertical bar (they are UUIDs).\<close>

theorem cached_responses_are_per_user:
  assumes "cacheKeyFor p q (Some u) = cacheKeyFor p' q' (Some u')"
    and "CHR ''|'' \<notin> set u" "CHR ''|'' \<notin> set u'"
  shows "u = u' \<and> p @ ''?'' @ q = p' @ ''?'' @ q'"
  using assms split_last_bar[of "p @ ''?'' @ q" u "p' @ ''?'' @ q'" u'] by (simp add: cacheKeyFor_def)

theorem cached_responses_are_per_user_witness:
  "cacheKeyFor ''/api/kpi'' ''from=1'' (Some ''u1'') = cacheKeyFor ''/api/kpi'' ''from=1'' (Some ''u1'')
   \<and> ''u1'' = ''u1'' \<and> ''/api/kpi'' @ ''?'' @ ''from=1'' = ''/api/kpi'' @ ''?'' @ ''from=1''"
  using cached_responses_are_per_user[of "''/api/kpi''" "''from=1''" "''u1''" "''/api/kpi''" "''from=1''" "''u1''"]
  by simp

text \<open>
  While the Redis server does not answer, the Redis-backed cache behaves exactly as its in-memory
  fallback: \<open>Get\<close>, \<open>Clear\<close> and, for payloads up to 1 MiB, \<open>Set\<close>; larger payloads are dropped.\<close>

theorem redis_down_is_the_fallback:
  "fst (redis_Get h RErr (\<lambda>_. RErr) t k c) = mem_Get t k (fallback c)
   \<and> fallback (snd (redis_Get h RErr (\<lambda>_. RErr) t k c)) = fallback c
   \<and> fallback (snd (redis_Set h RErr False t k v ttl c)) =
       (if length v > redisMaxValue then fallback c else mem_Set t k v ttl (fallback c))
   \<and> fallback (redis_Clear RErr t c) = mem_Clear (fallback c)"
  using down_Get down_Get_fallback down_Set down_Clear by blast

text \<open>A \<open>Clear\<close> whose INCR fails invalidates nothing on the server: once Redis answers again with the
  unchanged generation, \<open>Get\<close> serves the entry that was stored before the \<open>Clear\<close>.\<close>

theorem failed_clear_keeps_serving:
  "fst (redis_Get h (RVal g) (\<lambda>x. if x = fullKey h c g k then RVal d else RNil) t' k (redis_Clear RErr t c)) = Some d"
proof -
  let ?c = "redis_Clear RErr t c"
  have g: "generation t' (RVal g) ?c = (Some g, store_gen g t' ?c)"
    by (simp add: generation_def fresh_gen_def redis_Clear_def Let_def)
  have "keyPrefix (store_gen g t' ?c) = keyPrefix c" by (simp add: store_gen_def redis_Clear_def Let_def)
  then have "fullKey h (store_gen g t' ?c) g k = fullKey h c g k" by (simp only: fullKey_def)
  then show ?thesis by (simp add: redis_Get_def g)
qed

text \<open>A response computed before a mutation and stored after it survives the mutation's \<open>Clear\<close>: the
  cache serves the older payload until its TTL runs out.\<close>

theorem late_store_survives_clear:
  "mem_Get (t + ttl) k (fold mem_step [CGet t0 k, CClear t, CSet t k old ttl] c) =
     (if ttl \<le> 0 \<or> old = [] then None else Some old)"
  by (simp add: mem_Get_def mem_Clear_def mem_Set_def responseCacheMaxEntries_def)

end
