(* ===== verification/Db.thy ===== *)
theory Db
  imports Prelude
begin

section \<open>The tables\<close>

text \<open>
  The rows the stores read and write. A nullable column is an option, a timestamp an integer
  (minutes are differences of it where the code computes them), a money amount a rational: the
  code only compares and stores the \<open>float64\<close> values of finite JSON numbers. The tables are
  lists in insertion order; PostgreSQL returns rows without ORDER BY in an unspecified order, which
  the list order stands for. Foreign keys written in src/migrations are modelled as the actions
  \<open>on_delete_user\<close> and \<open>on_delete_lead\<close>; the constraints of the base schema,
  which is not in the repository, only appear as statements that may fail.
\<close>

record user =
  u_id :: string
  u_email :: string
  u_name :: string
  u_role :: string
  u_pwHash :: "string option"
  u_mustReset :: bool
  u_teamId :: "string option"
  u_analystTeam :: "string option"
  u_managerId :: "string option"
  u_outbound :: bool
  u_active :: bool
  u_sessHash :: "string option"
  u_sessAt :: "int option"
  u_image :: "string option"
  u_createdAt :: int
  u_updatedAt :: int

record team =
  t_id :: string
  t_name :: string
  t_mtl :: string
  t_atl :: "string option"
  t_createdAt :: int
  t_updatedAt :: int

record lead =
  l_id :: string
  l_name :: string
  l_phone :: "string option"
  l_email :: "string option"
  l_country :: "string option"
  l_city :: "string option"
  l_source :: string
  l_metaProfile :: "string option"
  l_notes :: "string option"
  l_qual :: string
  l_score :: "int option"
  l_stage :: string
  l_createdBy :: "string option"
  l_reassigns :: int
  l_createdAt :: int
  l_updatedAt :: int
  l_currency :: string
  l_portal :: "string option"
  l_language :: "string option"
  l_profile :: "string option"
  l_clientAt :: "int option"
  l_agentAt :: "int option"
  l_respMinutes :: "int option"
  l_proof :: "string option"
  l_team :: "string option"
  l_mtl :: "string option"
  l_se :: "string option"
  l_execAt :: "int option"
  l_deadline :: "int option"
  l_payment :: "rat option"
  l_revenue :: "rat option"
  l_deal :: "rat option"
  l_lostNotes :: "string option"
  l_closedAt :: "int option"
  l_notAppr :: bool
  l_notApprReason :: "string option"
  l_notApprAt :: "int option"
  l_notApprBy :: "string option"
  l_qualAt :: "int option"

record handoff =
  ho_id :: string
  ho_at :: int
  ho_lead :: string
  ho_action :: string
  ho_actor :: string
  ho_detail :: string

record quallog =
  ql_id :: string
  ql_lead :: string
  ql_from :: "string option"
  ql_to :: string
  ql_at :: int
  ql_actor :: "string option"
  ql_reason :: "string option"
  ql_source :: string

record se_transfer =
  st_id :: string
  st_se :: string
  st_from :: "string option"
  st_to :: string
  st_by :: string
  st_at :: int

record notif =
  n_id :: string
  n_to :: string
  n_kind :: string
  n_lead :: "string option"
  n_title :: string
  n_body :: "string option"
  n_read :: bool
  n_at :: int

record api_key =
  ak_id :: string
  ak_createdBy :: string

record lead_view =
  lv_user :: string
  lv_lead :: string

record kpi_target =
  kt_key :: string
  kt_label :: string
  kt_description :: string
  kt_formula :: string
  kt_unit :: string
  kt_direction :: string
  kt_target :: "rat option"
  kt_benchmark :: "rat option"
  kt_teamWeight :: "rat option"
  kt_supWeight :: "rat option"
  kt_teamAligned :: bool
  kt_supAligned :: bool
  kt_order :: int
  kt_updatedAt :: int

record db =
  users :: "user list"
  teams :: "team list"
  leads :: "lead list"
  handoffs :: "handoff list"
  quallogs :: "quallog list"
  se_transfers :: "se_transfer list"
  notifs :: "notif list"
  api_keys :: "api_key list"
  lead_views :: "lead_view list"
  kpi_targets :: "kpi_target list"

definition empty_db :: db where
  "empty_db = \<lparr>users = [], teams = [], leads = [], handoffs = [], quallogs = [], se_transfers = [],
     notifs = [], api_keys = [], lead_views = [], kpi_targets = []\<rparr>"

definition blank_user :: "string \<Rightarrow> user" where
  \<comment> \<open>column defaults of a user row: active, no session, nothing linked\<close>
  "blank_user i = \<lparr>u_id = i, u_email = [], u_name = [], u_role = [], u_pwHash = None,
     u_mustReset = False, u_teamId = None, u_analystTeam = None, u_managerId = None,
     u_outbound = False, u_active = True, u_sessHash = None, u_sessAt = None, u_image = None,
     u_createdAt = 0, u_updatedAt = 0\<rparr>"

definition blank_lead :: "string \<Rightarrow> lead" where
  \<comment> \<open>column defaults of a lead row: NULL where nullable, notAppropriate false\<close>
  "blank_lead i = \<lparr>l_id = i, l_name = [], l_phone = None, l_email = None, l_country = None,
     l_city = None, l_source = [], l_metaProfile = None, l_notes = None, l_qual = [],
     l_score = None, l_stage = [], l_createdBy = None, l_reassigns = 0, l_createdAt = 0,
     l_updatedAt = 0, l_currency = [], l_portal = None, l_language = None, l_profile = None,
     l_clientAt = None, l_agentAt = None, l_respMinutes = None, l_proof = None, l_team = None,
     l_mtl = None, l_se = None, l_execAt = None, l_deadline = None, l_payment = None,
     l_revenue = None, l_deal = None, l_lostNotes = None, l_closedAt = None, l_notAppr = False,
     l_notApprReason = None, l_notApprAt = None, l_notApprBy = None, l_qualAt = None\<rparr>"

subsection \<open>Lookups and foreign-key actions\<close>

definition user_by_id :: "string \<Rightarrow> db \<Rightarrow> user option" where
  "user_by_id i d = find (\<lambda>u. u_id u = i) (users d)"

definition team_by_id :: "string \<Rightarrow> db \<Rightarrow> team option" where
  "team_by_id i d = find (\<lambda>t. t_id t = i) (teams d)"

definition lead_by_id :: "string \<Rightarrow> db \<Rightarrow> lead option" where
  "lead_by_id i d = find (\<lambda>l. l_id l = i) (leads d)"

definition null_if :: "string \<Rightarrow> string option \<Rightarrow> string option" where
  "null_if i p = (if p = Some i then None else p)"

definition on_delete_user :: "string \<Rightarrow> db \<Rightarrow> db" where
  "on_delete_user i d = d\<lparr>
     leads := map (\<lambda>l. l\<lparr>l_createdBy := null_if i (l_createdBy l),
                          l_notApprBy := null_if i (l_notApprBy l),
                          l_se := null_if i (l_se l),
                          l_mtl := null_if i (l_mtl l)\<rparr>) (leads d),
     quallogs := map (\<lambda>q. q\<lparr>ql_actor := null_if i (ql_actor q)\<rparr>) (quallogs d),
     lead_views := filter (\<lambda>v. lv_user v \<noteq> i) (lead_views d)\<rparr>"

definition on_delete_lead :: "string set \<Rightarrow> db \<Rightarrow> db" where
  "on_delete_lead ids d = d\<lparr>
     quallogs := filter (\<lambda>q. ql_lead q \<notin> ids) (quallogs d),
     lead_views := filter (\<lambda>v. lv_lead v \<notin> ids) (lead_views d)\<rparr>"

definition upd_users :: "(user \<Rightarrow> bool) \<Rightarrow> (user \<Rightarrow> user) \<Rightarrow> db \<Rightarrow> db" where
  "upd_users P f d = d\<lparr>users := upd_where P f (users d)\<rparr>"

definition upd_leads :: "(lead \<Rightarrow> bool) \<Rightarrow> (lead \<Rightarrow> lead) \<Rightarrow> db \<Rightarrow> db" where
  "upd_leads P f d = d\<lparr>leads := upd_where P f (leads d)\<rparr>"

definition upd_teams :: "(team \<Rightarrow> bool) \<Rightarrow> (team \<Rightarrow> team) \<Rightarrow> db \<Rightarrow> db" where
  "upd_teams P f d = d\<lparr>teams := upd_where P f (teams d)\<rparr>"

lemma user_by_id_Some: "user_by_id i d = Some u \<Longrightarrow> u \<in> set (users d) \<and> u_id u = i"
  by (auto simp: user_by_id_def find_Some_iff)

lemma lead_by_id_Some: "lead_by_id i d = Some l \<Longrightarrow> l \<in> set (leads d) \<and> l_id l = i"
  by (auto simp: lead_by_id_def find_Some_iff)

lemma upd_users_frame [simp]:
  "leads (upd_users P f d) = leads d" "teams (upd_users P f d) = teams d"
  "handoffs (upd_users P f d) = handoffs d" "quallogs (upd_users P f d) = quallogs d"
  "notifs (upd_users P f d) = notifs d" "se_transfers (upd_users P f d) = se_transfers d"
  "api_keys (upd_users P f d) = api_keys d" "lead_views (upd_users P f d) = lead_views d"
  "users (upd_users P f d) = upd_where P f (users d)" "kpi_targets (upd_users P f d) = kpi_targets d"
  by (simp_all add: upd_users_def)

lemma upd_leads_frame [simp]:
  "users (upd_leads P f d) = users d" "teams (upd_leads P f d) = teams d"
  "handoffs (upd_leads P f d) = handoffs d" "quallogs (upd_leads P f d) = quallogs d"
  "notifs (upd_leads P f d) = notifs d" "se_transfers (upd_leads P f d) = se_transfers d"
  "api_keys (upd_leads P f d) = api_keys d" "lead_views (upd_leads P f d) = lead_views d"
  "leads (upd_leads P f d) = upd_where P f (leads d)" "kpi_targets (upd_leads P f d) = kpi_targets d"
  by (simp_all add: upd_leads_def)

lemma upd_teams_frame [simp]:
  "users (upd_teams P f d) = users d" "leads (upd_teams P f d) = leads d"
  "handoffs (upd_teams P f d) = handoffs d" "quallogs (upd_teams P f d) = quallogs d"
  "notifs (upd_teams P f d) = notifs d" "se_transfers (upd_teams P f d) = se_transfers d"
  "api_keys (upd_teams P f d) = api_keys d" "lead_views (upd_teams P f d) = lead_views d"
  "teams (upd_teams P f d) = upd_where P f (teams d)" "kpi_targets (upd_teams P f d) = kpi_targets d"
  by (simp_all add: upd_teams_def)

lemma on_delete_user_frame [simp]:
  "users (on_delete_user i d) = users d" "teams (on_delete_user i d) = teams d"
  "handoffs (on_delete_user i d) = handoffs d" "length (leads (on_delete_user i d)) = length (leads d)"
  by (simp_all add: on_delete_user_def)

lemma on_delete_lead_frame [simp]:
  "users (on_delete_lead i d) = users d" "teams (on_delete_lead i d) = teams d"
  "handoffs (on_delete_lead i d) = handoffs d" "leads (on_delete_lead i d) = leads d"
  by (simp_all add: on_delete_lead_def)

end
