(* ===== verification/Effects.thy ===== *)
theory Effects
  imports Db
begin

section \<open>Database effects\<close>

text \<open>
  The store operations as explicit state passing. A statement may fail for a reason the model does
  not decide (connection loss, a constraint of the base schema, cancellation): every statement takes
  the next entry of \<open>faults\<close>, which is \<open>Some (sqlstate, message)\<close> when it fails. A
  transaction restores the tables unless it commits; inside it a failed statement aborts all later
  ones (SQLSTATE 25P02), also when the Go code ignores the error. The clock does not advance during
  one operation, and \<open>uuid.NewString\<close> reads the stream \<open>uuids\<close>. Operations of different
  requests are interleaved at operation granularity.
\<close>

datatype err =
    ErrUserNotFound | ErrEmailTaken | ErrInvalidCredentials | ErrPasswordNotSet
  | ErrAccountInactive | ErrCannotDeleteSelf | ErrCannotDeactivateSelf | ErrLastSuperadmin
  | ErrLastActiveSuperadmin | ErrDeleteBlocked | ErrTeamNameRequired | ErrNotSalesExecutive
  | ErrSameTeam | ErrTeamNotFound | ErrTeamConflict | ErrTransferForbidden | ErrNotLeadAnalyst
  | ErrSameAnalystTeam | ErrAnalystTeamNotFound
  | ErrReplacement           \<comment> \<open>errDeleteBlocked wrapped: assign another Main Team Lead first\<close>
  | ErrNoRows                \<comment> \<open>pgx.ErrNoRows\<close>
  | ErrMsg string            \<comment> \<open>fmt.Errorf / errors.New in place\<close>
  | ErrPg string string      \<comment> \<open>driver error: SQLSTATE (or empty) and message\<close>

record world =
  tables :: db
  faults :: "(string \<times> string) option list"
  now :: int
  uuids :: "nat \<Rightarrow> string"
  next_uuid :: nat
  intx :: bool
  aborted :: bool

type_synonym 'a op = "world \<Rightarrow> (err + 'a) \<times> world"

definition ret :: "'a \<Rightarrow> 'a op" where
  "ret a w = (Inr a, w)"

definition throw :: "err \<Rightarrow> 'a op" where
  "throw e w = (Inl e, w)"

definition bindE :: "'a op \<Rightarrow> ('a \<Rightarrow> 'b op) \<Rightarrow> 'b op" where
  "bindE m f w = (case m w of (Inl e, w') \<Rightarrow> (Inl e, w') | (Inr a, w') \<Rightarrow> f a w')"

definition attempt :: "'a op \<Rightarrow> (err + 'a) op" where
  \<comment> \<open>the Go caller inspects the error itself\<close>
  "attempt m w = (case m w of (r, w') \<Rightarrow> (Inr r, w'))"

definition map_err :: "(err \<Rightarrow> err) \<Rightarrow> 'a op \<Rightarrow> 'a op" where
  \<comment> \<open>\<open>if err != nil { return wrapped }\<close>\<close>
  "map_err g m w = (case m w of (Inl e, w') \<Rightarrow> (Inl (g e), w') | (Inr a, w') \<Rightarrow> (Inr a, w'))"

definition seqE :: "'a op \<Rightarrow> 'b op \<Rightarrow> 'b op" where
  "seqE m n = bindE m (\<lambda>_. n)"

definition guard :: "bool \<Rightarrow> err \<Rightarrow> unit op" where
  \<comment> \<open>\<open>if !b { return e }\<close>\<close>
  "guard b e = (if b then ret () else throw e)"

definition the_or :: "err \<Rightarrow> 'a option \<Rightarrow> 'a op" where
  "the_or e p = (case p of None \<Rightarrow> throw e | Some a \<Rightarrow> ret a)"

definition get_now :: "int op" where
  "get_now w = (Inr (now w), w)"

definition new_uuid :: "string op" where
  "new_uuid w = (Inr (uuids w (next_uuid w)), w\<lparr>next_uuid := Suc (next_uuid w)\<rparr>)"

definition sql :: "(db \<Rightarrow> 'a \<times> db) \<Rightarrow> 'a op" where
  "sql f w =
     (if aborted w then (Inl (ErrPg ''25P02'' ''current transaction is aborted''), w)
      else case faults w of
        Some (c, m) # fs \<Rightarrow> (Inl (ErrPg c m), w\<lparr>faults := fs, aborted := intx w\<rparr>)
      | fs \<Rightarrow> (case f (tables w) of (a, d) \<Rightarrow> (Inr a, w\<lparr>faults := tl fs, tables := d\<rparr>)))"

definition query :: "(db \<Rightarrow> 'a) \<Rightarrow> 'a op" where
  "query q = sql (\<lambda>d. (q d, d))"

definition exec :: "(db \<Rightarrow> db) \<Rightarrow> unit op" where
  "exec g = sql (\<lambda>d. ((), g d))"

definition exec_tag :: "(db \<Rightarrow> nat) \<Rightarrow> (db \<Rightarrow> db) \<Rightarrow> nat op" where
  \<comment> \<open>with the number of rows affected\<close>
  "exec_tag n g = sql (\<lambda>d. (n d, g d))"

definition exec_insert :: "(db \<Rightarrow> bool) \<Rightarrow> (db \<Rightarrow> db) \<Rightarrow> unit op" where
  \<comment> \<open>an INSERT whose key may be taken\<close>
  "exec_insert taken g = bindE (sql (\<lambda>d. if taken d then (False, d) else (True, g d)))
     (\<lambda>ok. if ok then ret () else throw (ErrPg ''23505'' ''duplicate key''))"

definition exec_fk :: "(db \<Rightarrow> bool) \<Rightarrow> (db \<Rightarrow> db) \<Rightarrow> unit op" where
  \<comment> \<open>an INSERT with foreign keys\<close>
  "exec_fk present g = bindE (sql (\<lambda>d. if present d then (True, g d) else (False, d)))
     (\<lambda>ok. if ok then ret () else throw (ErrPg ''23503'' ''foreign key violation''))"

definition query_row :: "(db \<Rightarrow> 'a option) \<Rightarrow> 'a op" where
  \<comment> \<open>\<open>QueryRow(...).Scan(...)\<close>\<close>
  "query_row q = bindE (query q) (the_or ErrNoRows)"

definition tx_end :: "world \<Rightarrow> world" where
  "tx_end w = w\<lparr>intx := False, aborted := False\<rparr>"

definition in_tx :: "'a op \<Rightarrow> 'a op" where
  \<comment> \<open>\<open>Begin\<close>; deferred \<open>Rollback\<close>; body; \<open>Commit\<close>\<close>
  "in_tx m w =
     (case sql (\<lambda>d. ((), d)) w of
        (Inl e, w1) \<Rightarrow> (Inl e, w1)
      | (Inr _, w1) \<Rightarrow>
          (case m (w1\<lparr>intx := True\<rparr>) of
             (Inl e, w2) \<Rightarrow> (Inl e, tx_end (w2\<lparr>tables := tables w\<rparr>))
           | (Inr a, w2) \<Rightarrow>
               (case sql (\<lambda>d. ((), d)) w2 of
                  (Inl e, w3) \<Rightarrow> (Inl e, tx_end (w3\<lparr>tables := tables w\<rparr>))
                | (Inr _, w3) \<Rightarrow> (Inr a, tx_end w3))))"

definition calm_world :: "db \<Rightarrow> world" where
  \<comment> \<open>a world for concrete runs: nothing fails, the clock reads 1000\<close>
  "calm_world d = \<lparr>tables = d, faults = [], now = 1000, uuids = (\<lambda>n. ''uuid'' @ replicate n CHR ''+''),
     next_uuid = 0, intx = False, aborted = False\<rparr>"

definition calm :: "world \<Rightarrow> bool" where
  \<comment> \<open>no statement fails and no transaction is open\<close>
  "calm w \<longleftrightarrow> (\<forall>f \<in> set (faults w). f = None) \<and> \<not> intx w \<and> \<not> aborted w"

lemmas op_simps [op_defs] = ret_def throw_def bindE_def attempt_def map_err_def seqE_def guard_def the_or_def
  get_now_def new_uuid_def query_def exec_def exec_tag_def exec_insert_def exec_fk_def query_row_def

subsection \<open>Operations that do not write\<close>

definition readonly :: "'a op \<Rightarrow> bool" where
  "readonly m \<longleftrightarrow> (\<forall>w. tables (snd (m w)) = tables w)"

lemma readonlyD: "readonly m \<Longrightarrow> m w = (r, w') \<Longrightarrow> tables w' = tables w"
  by (metis readonly_def snd_conv)

lemma readonly_ret [readonly_intros]: "readonly (ret a)"
  by (simp add: readonly_def ret_def)

lemma readonly_throw [readonly_intros]: "readonly (throw e)"
  by (simp add: readonly_def throw_def)

lemma readonly_guard [readonly_intros]: "readonly (guard b e)"
  by (simp add: readonly_def guard_def ret_def throw_def)

lemma readonly_the_or [readonly_intros]: "readonly (the_or e p)"
  by (simp add: readonly_def the_or_def ret_def throw_def split: option.split)

lemma readonly_get_now [readonly_intros]: "readonly get_now"
  by (simp add: readonly_def get_now_def)

lemma readonly_new_uuid [readonly_intros]: "readonly new_uuid"
  by (simp add: readonly_def new_uuid_def)

lemma readonly_bindE [readonly_intros]: "readonly m \<Longrightarrow> (\<And>a. readonly (f a)) \<Longrightarrow> readonly (bindE m f)"
  by (simp add: readonly_def bindE_def split: prod.split sum.split) (metis snd_conv)

lemma readonly_attempt [readonly_intros]: "readonly m \<Longrightarrow> readonly (attempt m)"
  by (simp add: readonly_def attempt_def split: prod.split) (metis snd_conv)

lemma readonly_map_err [readonly_intros]: "readonly m \<Longrightarrow> readonly (map_err g m)"
  by (simp add: readonly_def map_err_def split: prod.split sum.split) (metis snd_conv)

lemma readonly_seqE [readonly_intros]: "readonly m \<Longrightarrow> readonly n \<Longrightarrow> readonly (seqE m n)"
  by (simp add: seqE_def readonly_bindE)

lemma readonly_query [readonly_intros]: "readonly (query q)"
  by (simp add: readonly_def query_def sql_def split: list.split option.split)

lemma readonly_query_row [readonly_intros]: "readonly (query_row q)"
  by (simp add: query_row_def readonly_intros)

lemma readonly_if [readonly_intros]: "readonly m \<Longrightarrow> readonly n \<Longrightarrow> readonly (if b then m else n)"
  by simp

lemma readonly_option [readonly_intros]:
  "readonly m \<Longrightarrow> (\<And>a. readonly (f a)) \<Longrightarrow> readonly (case p of None \<Rightarrow> m | Some a \<Rightarrow> f a)"
  by (simp split: option.split)

lemma readonly_sum [readonly_intros]:
  "(\<And>a. readonly (g a)) \<Longrightarrow> (\<And>a. readonly (f a)) \<Longrightarrow> readonly (case p of Inl a \<Rightarrow> g a | Inr a \<Rightarrow> f a)"
  by (simp split: sum.split)

lemma readonly_prod [readonly_intros]:
  "(\<And>a b. readonly (f a b)) \<Longrightarrow> readonly (case p of (a, b) \<Rightarrow> f a b)"
  by (simp split: prod.split)

lemma readonly_let [readonly_intros]: "readonly (f a) \<Longrightarrow> readonly (let x = a in f x)"
  by simp

subsection \<open>Operations that write all or nothing\<close>

definition atomic :: "'a op \<Rightarrow> bool" where
  \<comment> \<open>when the operation returns an error the tables are as before\<close>
  "atomic m \<longleftrightarrow> (\<forall>w e w'. m w = (Inl e, w') \<longrightarrow> tables w' = tables w)"

lemma atomicD: "atomic m \<Longrightarrow> m w = (Inl e, w') \<Longrightarrow> tables w' = tables w"
  by (simp add: atomic_def)

lemma atomic_readonly: "readonly m \<Longrightarrow> atomic m"
  by (auto simp: atomic_def dest: readonlyD)

lemma atomic_sql: "atomic (sql f)"
  by (auto simp: atomic_def sql_def split: list.splits option.splits prod.splits if_splits)

lemma atomic_exec [atomic_intros]: "atomic (exec g)"
  by (simp add: exec_def atomic_sql)

lemma atomic_exec_tag [atomic_intros]: "atomic (exec_tag n g)"
  by (simp add: exec_tag_def atomic_sql)

lemma atomic_bindE: "readonly m \<Longrightarrow> (\<And>a. atomic (f a)) \<Longrightarrow> atomic (bindE m f)"
  by (fastforce simp: atomic_def bindE_def dest: readonlyD split: prod.splits sum.splits)

lemma atomic_map_err [atomic_intros]: "atomic m \<Longrightarrow> atomic (map_err g m)"
  by (auto simp: atomic_def map_err_def split: prod.splits sum.splits)

lemma atomic_seqE: "readonly m \<Longrightarrow> atomic n \<Longrightarrow> atomic (seqE m n)"
  by (simp add: seqE_def atomic_bindE)

lemma atomic_in_tx [atomic_intros]: "atomic (in_tx m)"
  using atomic_sql [of "\<lambda>d. ((), d)"]
  by (auto simp: atomic_def in_tx_def tx_end_def split: prod.splits sum.splits)

lemma atomic_ret [atomic_intros]: "atomic (ret a)"
  by (simp add: atomic_def ret_def)

lemma atomic_throw [atomic_intros]: "atomic (throw e)"
  by (simp add: atomic_def throw_def)

lemma atomic_if [atomic_intros]: "atomic m \<Longrightarrow> atomic n \<Longrightarrow> atomic (if b then m else n)"
  by simp

lemma atomic_option [atomic_intros]:
  "atomic m \<Longrightarrow> (\<And>a. atomic (f a)) \<Longrightarrow> atomic (case p of None \<Rightarrow> m | Some a \<Rightarrow> f a)"
  by (simp split: option.split)

lemma atomic_sum [atomic_intros]:
  "(\<And>a. atomic (g a)) \<Longrightarrow> (\<And>a. atomic (f a)) \<Longrightarrow> atomic (case p of Inl a \<Rightarrow> g a | Inr a \<Rightarrow> f a)"
  by (simp split: sum.split)

lemma atomic_prod [atomic_intros]:
  "(\<And>a b. atomic (f a b)) \<Longrightarrow> atomic (case p of (a, b) \<Rightarrow> f a b)"
  by (simp split: prod.split)

lemma atomic_let [atomic_intros]: "atomic (f a) \<Longrightarrow> atomic (let x = a in f x)"
  by simp

lemma atomic_bind_ret: "atomic m \<Longrightarrow> atomic (bindE m (\<lambda>a. ret (g a)))"
  by (auto simp: atomic_def bindE_def ret_def split: prod.splits sum.splits)

subsection \<open>Table invariants\<close>

definition keeps :: "(db \<Rightarrow> bool) \<Rightarrow> 'a op \<Rightarrow> bool" where
  \<comment> \<open>whatever happens, the invariant of the tables is kept\<close>
  "keeps I m \<longleftrightarrow> (\<forall>w. I (tables w) \<longrightarrow> I (tables (snd (m w))))"

lemma keepsD: "keeps I m \<Longrightarrow> I (tables w) \<Longrightarrow> m w = (r, w') \<Longrightarrow> I (tables w')"
  by (metis keeps_def snd_conv)

lemma keeps_readonly: "readonly m \<Longrightarrow> keeps I m"
  by (simp add: keeps_def readonly_def)

lemma keeps_bindE [keeps_intros]: "keeps I m \<Longrightarrow> (\<And>a. keeps I (f a)) \<Longrightarrow> keeps I (bindE m f)"
  by (simp add: keeps_def bindE_def split: prod.split sum.split) (metis snd_conv)

lemma keeps_sql: "(\<And>d. I d \<Longrightarrow> I (snd (f d))) \<Longrightarrow> keeps I (sql f)"
  by (simp add: keeps_def sql_def split: list.split option.split prod.split) (metis snd_conv)

lemma keeps_exec [keeps_intros]: "(\<And>d. I d \<Longrightarrow> I (g d)) \<Longrightarrow> keeps I (exec g)"
  by (simp add: exec_def keeps_sql)

lemma keeps_exec_tag [keeps_intros]: "(\<And>d. I d \<Longrightarrow> I (g d)) \<Longrightarrow> keeps I (exec_tag n g)"
  by (simp add: exec_tag_def keeps_sql)

lemma sql_id_tables: "tables (snd (sql (\<lambda>d. ((), d)) w)) = tables w"
  by (simp add: sql_def split: list.split option.split)

lemma keeps_in_tx [keeps_intros]:
  assumes "keeps I m"
  shows "keeps I (in_tx m)"
  unfolding keeps_def
proof (intro allI impI)
  fix w :: world assume I: "I (tables w)"
  show "I (tables (snd (in_tx m w)))"
  proof (cases "sql (\<lambda>d. ((), d)) w")
    case (Pair r w1)
    have t1: "tables w1 = tables w" using sql_id_tables [of w] Pair by simp
    obtain r2 w2 where m: "m (w1\<lparr>intx := True\<rparr>) = (r2, w2)" by (metis surj_pair)
    have I2: "I (tables w2)" using keepsD [OF assms _ m] I t1 by simp
    obtain r3 w3 where s3: "sql (\<lambda>d. ((), d)) w2 = (r3, w3)" by (metis surj_pair)
    have "I (tables w3)" using sql_id_tables [of w2] s3 I2 by simp
    then show ?thesis
      using Pair m s3 I t1 by (auto simp: in_tx_def tx_end_def split: sum.split)
  qed
qed

lemma keeps_map_err [keeps_intros]: "keeps I m \<Longrightarrow> keeps I (map_err g m)"
  by (simp add: keeps_def map_err_def split: prod.split sum.split) (metis snd_conv)

lemma keeps_seqE [keeps_intros]: "keeps I m \<Longrightarrow> keeps I n \<Longrightarrow> keeps I (seqE m n)"
  by (simp add: seqE_def keeps_bindE)

lemma keeps_attempt [keeps_intros]: "keeps I m \<Longrightarrow> keeps I (attempt m)"
  by (simp add: keeps_def attempt_def split: prod.split) (metis snd_conv)

lemma keeps_if [keeps_intros]: "keeps I m \<Longrightarrow> keeps I n \<Longrightarrow> keeps I (if b then m else n)"
  by simp

lemma keeps_option [keeps_intros]:
  "keeps I m \<Longrightarrow> (\<And>a. keeps I (f a)) \<Longrightarrow> keeps I (case p of None \<Rightarrow> m | Some a \<Rightarrow> f a)"
  by (simp split: option.split)

lemma keeps_sum [keeps_intros]:
  "(\<And>a. keeps I (g a)) \<Longrightarrow> (\<And>a. keeps I (f a)) \<Longrightarrow> keeps I (case p of Inl a \<Rightarrow> g a | Inr a \<Rightarrow> f a)"
  by (simp split: sum.split)

lemma keeps_prod [keeps_intros]:
  "(\<And>a b. keeps I (f a b)) \<Longrightarrow> keeps I (case p of (a, b) \<Rightarrow> f a b)"
  by (simp split: prod.split)

lemma keeps_let [keeps_intros]: "keeps I (f a) \<Longrightarrow> keeps I (let x = a in f x)"
  by simp

lemma keeps_ret [keeps_intros]: "keeps I (ret a)"
  by (simp add: keeps_readonly readonly_ret)

lemma keeps_throw [keeps_intros]: "keeps I (throw a)"
  by (simp add: keeps_readonly readonly_throw)

lemma keeps_guard [keeps_intros]: "keeps I (guard b e)"
  by (simp add: keeps_readonly readonly_guard)

lemma keeps_the_or [keeps_intros]: "keeps I (the_or e p)"
  by (simp add: keeps_readonly readonly_the_or)

lemma keeps_get_now [keeps_intros]: "keeps I get_now"
  by (simp add: keeps_readonly readonly_get_now)

lemma keeps_new_uuid [keeps_intros]: "keeps I new_uuid"
  by (simp add: keeps_readonly readonly_new_uuid)

lemma keeps_query [keeps_intros]: "keeps I (query q)"
  by (simp add: keeps_readonly readonly_query)

lemma keeps_query_row [keeps_intros]: "keeps I (query_row q)"
  by (simp add: keeps_readonly readonly_query_row)

lemma keeps_exec_insert [keeps_intros]: "(\<And>d. I d \<Longrightarrow> \<not> taken d \<Longrightarrow> I (g d)) \<Longrightarrow> keeps I (exec_insert taken g)"
  unfolding exec_insert_def by (rule keeps_bindE, rule keeps_sql) (auto intro: keeps_intros)

lemma keeps_exec_fk [keeps_intros]: "(\<And>d. I d \<Longrightarrow> present d \<Longrightarrow> I (g d)) \<Longrightarrow> keeps I (exec_fk present g)"
  unfolding exec_fk_def by (rule keeps_bindE, rule keeps_sql) (auto intro: keeps_intros)

subsection \<open>Triples\<close>

definition triple :: "(db \<Rightarrow> bool) \<Rightarrow> 'a op \<Rightarrow> ('a \<Rightarrow> db \<Rightarrow> bool) \<Rightarrow> (db \<Rightarrow> bool) \<Rightarrow> bool" where
  \<comment> \<open>from tables satisfying \<open>P\<close>, a result \<open>a\<close> leaves tables satisfying \<open>Q a\<close> and an error
      tables satisfying \<open>E\<close>\<close>
  "triple P m Q E \<longleftrightarrow> (\<forall>w. P (tables w) \<longrightarrow>
     (case m w of (Inl e, w') \<Rightarrow> E (tables w') | (Inr a, w') \<Rightarrow> Q a (tables w')))"

lemma tripleD:
  "triple P m Q E \<Longrightarrow> P (tables w) \<Longrightarrow> m w = (Inr a, w') \<Longrightarrow> Q a (tables w')"
  unfolding triple_def by (metis (no_types, lifting) old.prod.case sum.simps(6))

lemma tripleE:
  "triple P m Q E \<Longrightarrow> P (tables w) \<Longrightarrow> m w = (Inl e, w') \<Longrightarrow> E (tables w')"
  unfolding triple_def by (metis (no_types, lifting) old.prod.case sum.simps(5))

lemma tripleI:
  "(\<And>w a w'. P (tables w) \<Longrightarrow> m w = (Inr a, w') \<Longrightarrow> Q a (tables w')) \<Longrightarrow>
   (\<And>w e w'. P (tables w) \<Longrightarrow> m w = (Inl e, w') \<Longrightarrow> E (tables w')) \<Longrightarrow> triple P m Q E"
  by (auto simp: triple_def split: prod.split sum.split)

lemma triple_keeps: "triple I m (\<lambda>_. I) I \<Longrightarrow> keeps I m"
  unfolding keeps_def
proof (intro allI impI)
  fix w :: world assume "triple I m (\<lambda>_. I) I" "I (tables w)"
  moreover obtain r w' where r: "m w = (r, w')" by force
  ultimately have "I (tables w')" by (cases r) (blast dest: tripleD tripleE)+
  then show "I (tables (snd (m w)))" by (simp add: r)
qed

lemma triple_weaken:
  "triple P m Q E \<Longrightarrow> (\<And>d. P' d \<Longrightarrow> P d) \<Longrightarrow> (\<And>a d. Q a d \<Longrightarrow> Q' a d) \<Longrightarrow> (\<And>d. E d \<Longrightarrow> E' d) \<Longrightarrow>
   triple P' m Q' E'"
  by (fastforce simp: triple_def split: prod.splits sum.splits)

lemma triple_assume: "(C \<Longrightarrow> triple P m Q E) \<Longrightarrow> triple (\<lambda>d. P d \<and> C) m Q E"
  by (simp add: triple_def)

lemma triple_ret: "(\<And>d. P d \<Longrightarrow> Q a d) \<Longrightarrow> triple P (ret a) Q E"
  by (simp add: triple_def ret_def)

lemma triple_throw: "(\<And>d. P d \<Longrightarrow> E d) \<Longrightarrow> triple P (throw e) Q E"
  by (simp add: triple_def throw_def)

lemma triple_guard:
  "(\<And>d. P d \<Longrightarrow> b \<Longrightarrow> Q () d) \<Longrightarrow> (\<And>d. P d \<Longrightarrow> \<not> b \<Longrightarrow> E d) \<Longrightarrow> triple P (guard b e) Q E"
  by (simp add: guard_def triple_ret triple_throw)

lemma triple_bind:
  assumes "triple P m R E" "\<And>a. triple (R a) (f a) Q E"
  shows "triple P (bindE m f) Q E"
proof (rule tripleI)
  fix w :: world and a w' assume P: "P (tables w)" and r: "bindE m f w = (Inr a, w')"
  obtain b w1 where m: "m w = (Inr b, w1)" "f b w1 = (Inr a, w')"
    using r by (auto simp: bindE_def split: prod.splits sum.splits)
  show "Q a (tables w')" by (rule tripleD [OF assms(2) tripleD [OF assms(1) P m(1)] m(2)])
next
  fix w :: world and e w' assume P: "P (tables w)" and r: "bindE m f w = (Inl e, w')"
  then consider "m w = (Inl e, w')" | b w1 where "m w = (Inr b, w1)" "f b w1 = (Inl e, w')"
    by (auto simp: bindE_def split: prod.splits sum.splits)
  then show "E (tables w')"
  proof cases
    case 1
    then show ?thesis by (rule tripleE [OF assms(1) P])
  next
    case 2
    show ?thesis by (rule tripleE [OF assms(2) tripleD [OF assms(1) P 2(1)] 2(2)])
  qed
qed

lemma triple_seq: "triple P m (\<lambda>_. R) E \<Longrightarrow> triple R n Q E \<Longrightarrow> triple P (seqE m n) Q E"
  by (simp add: seqE_def triple_bind)

lemma triple_sql:
  assumes "\<And>d. P d \<Longrightarrow> Q (fst (f d)) (snd (f d))" "\<And>d. P d \<Longrightarrow> E d"
  shows "triple P (sql f) Q E"
proof (rule tripleI)
  fix w :: world and a w' assume P: "P (tables w)" and "sql f w = (Inr a, w')"
  then have "a = fst (f (tables w)) \<and> tables w' = snd (f (tables w))"
    by (auto simp: sql_def split: list.splits option.splits prod.splits if_splits)
  then show "Q a (tables w')" using assms(1) [OF P] by simp
next
  fix w :: world and e w' assume "P (tables w)" "sql f w = (Inl e, w')"
  then show "E (tables w')" using assms(2) atomicD [OF atomic_sql] by metis
qed

lemma triple_query:
  "(\<And>d. P d \<Longrightarrow> Q (q d) d) \<Longrightarrow> (\<And>d. P d \<Longrightarrow> E d) \<Longrightarrow> triple P (query q) Q E"
  unfolding query_def by (rule triple_sql) auto

lemma triple_the_or:
  "(\<And>d a. P d \<Longrightarrow> p = Some a \<Longrightarrow> Q a d) \<Longrightarrow> (\<And>d. P d \<Longrightarrow> E d) \<Longrightarrow> triple P (the_or e p) Q E"
  by (simp add: the_or_def triple_ret triple_throw split: option.split)

lemma triple_query_row:
  "(\<And>d a. P d \<Longrightarrow> q d = Some a \<Longrightarrow> Q a d) \<Longrightarrow> (\<And>d. P d \<Longrightarrow> E d) \<Longrightarrow> triple P (query_row q) Q E"
  unfolding query_row_def
  by (rule triple_bind [where R = "\<lambda>p d. P d \<and> p = q d"]; (rule triple_query triple_the_or; auto)?)

lemma triple_exec:
  "(\<And>d. P d \<Longrightarrow> Q () (g d)) \<Longrightarrow> (\<And>d. P d \<Longrightarrow> E d) \<Longrightarrow> triple P (exec g) Q E"
  unfolding exec_def by (rule triple_sql) auto

lemma triple_exec_tag:
  "(\<And>d. P d \<Longrightarrow> Q (n d) (g d)) \<Longrightarrow> (\<And>d. P d \<Longrightarrow> E d) \<Longrightarrow> triple P (exec_tag n g) Q E"
  unfolding exec_tag_def by (rule triple_sql) auto

lemma triple_exec_insert:
  "(\<And>d. P d \<Longrightarrow> \<not> taken d \<Longrightarrow> Q () (g d)) \<Longrightarrow> (\<And>d. P d \<Longrightarrow> E d) \<Longrightarrow> triple P (exec_insert taken g) Q E"
  unfolding exec_insert_def
  by (rule triple_bind [where R = "\<lambda>ok d. if ok then Q () d else E d"], rule triple_sql)
     (auto intro: triple_ret triple_throw)

lemma triple_exec_fk:
  "(\<And>d. P d \<Longrightarrow> present d \<Longrightarrow> Q () (g d)) \<Longrightarrow> (\<And>d. P d \<Longrightarrow> E d) \<Longrightarrow> triple P (exec_fk present g) Q E"
  unfolding exec_fk_def
  by (rule triple_bind [where R = "\<lambda>ok d. if ok then Q () d else E d"], rule triple_sql)
     (auto intro: triple_ret triple_throw)

lemma triple_map_err: "triple P m Q E \<Longrightarrow> triple P (map_err g m) Q E"
  by (rule tripleI) (auto simp: map_err_def split: prod.splits sum.splits dest: tripleD tripleE)

lemma triple_attempt:
  "triple P m (\<lambda>a. Q (Inr a)) (\<lambda>d. \<forall>e. Q (Inl e) d) \<Longrightarrow> triple P (attempt m) Q E"
proof (rule tripleI)
  fix w :: world and a w' assume t: "triple P m (\<lambda>a. Q (Inr a)) (\<lambda>d. \<forall>e. Q (Inl e) d)" "P (tables w)"
    and "attempt m w = (Inr a, w')"
  then have m: "m w = (a, w')" by (auto simp: attempt_def split: prod.splits)
  then show "Q a (tables w')"
    using tripleD [OF t, of _ w'] tripleE [OF t, of _ w'] by (cases a) auto
qed (auto simp: attempt_def split: prod.splits)

lemma triple_readonly: "readonly m \<Longrightarrow> (\<And>a d. P d \<Longrightarrow> Q a d) \<Longrightarrow> (\<And>d. P d \<Longrightarrow> E d) \<Longrightarrow> triple P m Q E"
  by (rule tripleI) (metis readonlyD)+

lemma triple_then_read:
  "readonly m \<Longrightarrow> (\<And>a. triple P (f a) Q E) \<Longrightarrow> (\<And>d. P d \<Longrightarrow> E d) \<Longrightarrow> triple P (bindE m f) Q E"
  by (rule triple_bind [where R = "\<lambda>_. P"], rule triple_readonly)

lemma triple_seq_read:
  "readonly m \<Longrightarrow> triple P n Q E \<Longrightarrow> (\<And>d. P d \<Longrightarrow> E d) \<Longrightarrow> triple P (seqE m n) Q E"
  unfolding seqE_def by (rule triple_then_read)

lemma triple_in_tx:
  assumes "triple P m Q (\<lambda>_. True)" "\<And>d. P d \<Longrightarrow> E d"
  shows "triple P (in_tx m) Q E"
proof (rule tripleI)
  fix w :: world and a w' assume P: "P (tables w)" and r: "in_tx m w = (Inr a, w')"
  obtain w1 where w1: "sql (\<lambda>d. ((), d)) w = (Inr (), w1)"
    using r by (auto simp: in_tx_def split: prod.splits sum.splits)
  then obtain w2 w3 where m: "m (w1\<lparr>intx := True\<rparr>) = (Inr a, w2)" "sql (\<lambda>d. ((), d)) w2 = (Inr (), w3)"
    "w' = tx_end w3"
    using r by (auto simp: in_tx_def split: prod.splits sum.splits)
  have "P (tables (w1\<lparr>intx := True\<rparr>))" using P sql_id_tables [of w] w1 by simp
  then have "Q a (tables w2)" by (rule tripleD [OF assms(1) _ m(1)])
  then show "Q a (tables w')" using sql_id_tables [of w2] m(2,3) by (simp add: tx_end_def)
next
  fix w :: world and e w' assume "P (tables w)" "in_tx m w = (Inl e, w')"
  then show "E (tables w')" using atomicD [OF atomic_in_tx] assms(2) by metis
qed

lemma triple_conj_atomic:
  "atomic m \<Longrightarrow> triple P m Q (\<lambda>_. True) \<Longrightarrow> (\<And>d. P d \<Longrightarrow> E d) \<Longrightarrow> triple P m Q E"
  by (rule tripleI) (metis tripleD, metis atomicD)

subsection \<open>Results of single statements\<close>

lemma query_result: "query q w = (Inr a, w') \<Longrightarrow> a = q (tables w) \<and> tables w' = tables w"
  by (auto simp: query_def sql_def split: if_splits list.splits option.splits)

lemma exec_result: "exec g w = (Inr a, w') \<Longrightarrow> tables w' = g (tables w) \<and> now w' = now w"
  by (auto simp: exec_def sql_def split: if_splits list.splits option.splits)

lemma exec_failed: "exec g w = (Inl e, w') \<Longrightarrow> tables w' = tables w \<and> (calm w \<longrightarrow> False)"
  by (auto simp: exec_def sql_def calm_def split: if_splits list.splits option.splits)

lemma calm_exec: "calm w \<Longrightarrow> \<exists>w'. exec g w = (Inr (), w') \<and> calm w' \<and> tables w' = g (tables w) \<and> now w' = now w"
  by (cases "faults w") (auto simp: exec_def sql_def calm_def split: option.split)

end
