(* ===== verification/Session.thy ===== *)
theory Session
  imports Prelude
begin

section \<open>Session identity (session.go)\<close>

text \<open>
  \<open>hash\<close> stands for the hex encoding of SHA-256, which is standard-library code; what the
  properties rely on is stated as hypotheses (it has no collision on the identifiers at hand).
\<close>

definition errSignedInElsewhere :: string where
  "errSignedInElsewhere = ''signed in elsewhere''"

definition sessionHash :: "(string \<Rightarrow> string) \<Rightarrow> string \<Rightarrow> string" where
  "sessionHash hash jti = hash (trim jti)"

definition logoutAction :: "string \<Rightarrow> string \<Rightarrow> bool \<Rightarrow> bool \<times> bool" where
  \<comment> \<open>\<open>(clearLive, clearCookie)\<close>\<close>
  "logoutAction presented0 jwtSessionID0 jwtIsLive =
     (let presented = trim presented0; jwtSessionID = trim jwtSessionID0 in
      if presented \<noteq> [] \<and> jwtSessionID \<noteq> [] \<and> presented \<noteq> jwtSessionID then (False, False)
      else if \<not> jwtIsLive then (False, False)
      else (True, True))"

fun ct_compare :: "string \<Rightarrow> string \<Rightarrow> bool" where
  \<comment> \<open>subtle.ConstantTimeCompare on equal lengths: all positions are compared\<close>
  "ct_compare (a # as) (b # bs) = (let r = ct_compare as bs in a = b \<and> r)"
| "ct_compare [] [] = True"
| "ct_compare _ _ = False"

definition sessionMatchesHash :: "(string \<Rightarrow> string) \<Rightarrow> string option \<Rightarrow> string \<Rightarrow> bool" where
  "sessionMatchesHash hash stored jti0 =
     (let jti = trim jti0 in
      case stored of
        None \<Rightarrow> False
      | Some s \<Rightarrow>
          if trim s = [] \<or> jti = [] then False
          else let want = sessionHash hash jti; got = trim s in
            if length got \<noteq> length want then False else ct_compare got want)"

lemma ct_compare_eq: "ct_compare a b \<longleftrightarrow> a = b"
  by (induction a b rule: ct_compare.induct) (auto simp: Let_def)

lemma sessionMatches_iff:
  "sessionMatchesHash hash stored jti \<longleftrightarrow>
     (\<exists>s. stored = Some s \<and> trim s \<noteq> [] \<and> trim jti \<noteq> [] \<and> trim s = hash (trim jti))"
  by (auto simp: sessionMatchesHash_def sessionHash_def ct_compare_eq Let_def split: option.splits)

text \<open>At most one session identifier matches the stored hash: if the hash does not
  collide on two identifiers, only one of them is live.\<close>

theorem only_one_live_session:
  assumes "hash (trim a) = hash (trim b) \<Longrightarrow> trim a = trim b"
    and "sessionMatchesHash hash stored a" "sessionMatchesHash hash stored b"
  shows "trim a = trim b"
proof -
  have "hash (trim a) = hash (trim b)"
    using assms(2,3) unfolding sessionMatches_iff by (metis option.inject)
  then show ?thesis by (rule assms(1))
qed

theorem only_one_live_session_witness:
  "trim '' s1'' = trim ''s1 ''"
proof -
  have t: "trim '' s1'' = ''s1''" "trim ''s1 '' = ''s1''" "trim ''hs1'' = ''hs1''" by code_simp+
  show ?thesis
    by (rule only_one_live_session [where hash = "\<lambda>s. ''h'' @ s" and stored = "Some ''hs1''"])
       (simp_all add: sessionMatches_iff t)
qed

text \<open>A logout clears the live session and the cookie together or touches
  neither; it clears only when the presented token is the live one and the tab's session
  identifier, when present, agrees with it.\<close>

theorem logout_action_exact:
  "logoutAction presented jwt live =
     (live \<and> (trim presented = [] \<or> trim jwt = [] \<or> trim presented = trim jwt),
      live \<and> (trim presented = [] \<or> trim jwt = [] \<or> trim presented = trim jwt))"
  by (auto simp: logoutAction_def Let_def)

end
