(* ===== verification/Users.thy ===== *)
theory Users
  imports Effects Roles Session "HOL-Library.Multiset"
begin

section \<open>The user store (users.go, passwords of auth.go)\<close>

text \<open>
  Accounts, their sessions, teams and transfers. bcrypt and SHA-256 are parameters, collected in
  \<open>crypto\<close>: \<open>cr_gen\<close> is \<open>bcrypt.GenerateFromPassword\<close> (it fails for instance on
  passwords beyond 72 bytes), \<open>cr_ok\<close> is \<open>bcrypt.CompareHashAndPassword\<close>, \<open>cr_sha\<close> the hex
  digest. Row locks have no effect on a single operation and are not modelled.
\<close>

record crypto =
  cr_gen :: "string \<Rightarrow> string option"
  cr_ok :: "string \<Rightarrow> string \<Rightarrow> bool"
  cr_sha :: "string \<Rightarrow> string"

record user_record = user +
  ur_teamName :: "string option"
  ur_managerName :: "string option"
  ur_activeSession :: bool

record public_user =
  pu_id :: string
  pu_name :: string
  pu_email :: string
  pu_role :: string
  pu_roleLabel :: string
  pu_teamId :: "string option"
  pu_teamName :: "string option"
  pu_analystTeam :: "string option"
  pu_managerId :: "string option"
  pu_managerName :: "string option"
  pu_outbound :: bool
  pu_active :: bool
  pu_activeSession :: bool
  pu_sessAt :: "int option"
  pu_image :: "string option"
  pu_mustReset :: bool
  pu_hasPassword :: bool
  pu_createdAt :: int
  pu_updatedAt :: int

definition Public :: "user_record \<Rightarrow> public_user" where
  "Public u = \<lparr>
     pu_id = u_id u, pu_name = u_name u, pu_email = u_email u, pu_role = u_role u,
     pu_roleLabel = (case roleLabels (u_role u) of Some l \<Rightarrow> l | None \<Rightarrow> u_role u),
     pu_teamId = u_teamId u, pu_teamName = ur_teamName u, pu_analystTeam = u_analystTeam u,
     pu_managerId = u_managerId u, pu_managerName = ur_managerName u, pu_outbound = u_outbound u,
     pu_active = u_active u, pu_activeSession = ur_activeSession u, pu_sessAt = u_sessAt u,
     pu_image = u_image u, pu_mustReset = u_mustReset u,
     pu_hasPassword = (u_pwHash u \<noteq> None \<and> u_pwHash u \<noteq> Some []),
     pu_createdAt = u_createdAt u, pu_updatedAt = u_updatedAt u\<rparr>"

record auth_user =
  a_id :: string
  a_email :: string
  a_name :: string
  a_role :: string
  a_team :: "string option"
  a_analystTeam :: "string option"
  a_sid :: string

definition Auth :: "user_record \<Rightarrow> auth_user" where
  "Auth u = \<lparr>a_id = u_id u, a_email = u_email u, a_name = u_name u, a_role = u_role u,
     a_team = u_teamId u, a_analystTeam = u_analystTeam u, a_sid = []\<rparr>"

subsection \<open>Loading\<close>

definition hydrateSessionFlags :: "user_record \<Rightarrow> user_record" where
  "hydrateSessionFlags u = u\<lparr>ur_activeSession :=
     (case u_sessHash u of None \<Rightarrow> False | Some h \<Rightarrow> trim h \<noteq> [])\<rparr>"

definition joined :: "db \<Rightarrow> user \<Rightarrow> user_record" where
  \<comment> \<open>LEFT JOIN "Team" ON t.id = u."teamId" LEFT JOIN "User" m ON m.id = u."managerId"\<close>
  "joined d u = hydrateSessionFlags (user.extend u
     \<lparr>ur_teamName = (case u_teamId u of None \<Rightarrow> None | Some t \<Rightarrow> map_option t_name (team_by_id t d)),
      ur_managerName = (case u_managerId u of None \<Rightarrow> None | Some m \<Rightarrow> map_option u_name (user_by_id m d)),
      ur_activeSession = False\<rparr>)"

definition or_not_found :: "user_record option \<Rightarrow> user_record op" where
  "or_not_found p = the_or ErrUserNotFound p"

definition FindByEmail :: "string \<Rightarrow> user_record op" where
  "FindByEmail email = bindE
     (query (\<lambda>d. map_option (joined d) (find (\<lambda>u. to_lower (u_email u) = to_lower email) (users d))))
     or_not_found"

definition FindByID :: "string \<Rightarrow> user_record op" where
  "FindByID i = bindE (query (\<lambda>d. map_option (joined d) (user_by_id i d))) or_not_found"

definition sessionMatches :: "crypto \<Rightarrow> user_record \<Rightarrow> string \<Rightarrow> bool" where
  "sessionMatches cr u jti = sessionMatchesHash (cr_sha cr) (u_sessHash u) jti"

subsection \<open>Sessions\<close>

definition ReplaceActiveSession :: "crypto \<Rightarrow> string \<Rightarrow> string \<Rightarrow> unit op" where
  "ReplaceActiveSession cr userID0 jti0 =
     (let userID = trim userID0; jti = trim jti0 in
      if userID = [] \<or> jti = [] then throw (ErrMsg ''session id required'')
      else bindE get_now (\<lambda>t.
        exec (upd_users (\<lambda>u. u_id u = userID)
          (\<lambda>u. u\<lparr>u_sessHash := Some (sessionHash (cr_sha cr) jti), u_sessAt := Some t, u_updatedAt := t\<rparr>))))"

definition ClearActiveSessionIfCurrent :: "crypto \<Rightarrow> string \<Rightarrow> string \<Rightarrow> unit op" where
  "ClearActiveSessionIfCurrent cr userID0 jti0 =
     (let userID = trim userID0; jti = trim jti0 in
      if userID = [] \<or> jti = [] then ret ()
      else bindE get_now (\<lambda>t.
        exec (upd_users (\<lambda>u. u_id u = userID \<and> u_sessHash u = Some (sessionHash (cr_sha cr) jti))
          (\<lambda>u. u\<lparr>u_sessHash := None, u_sessAt := None, u_updatedAt := t\<rparr>))))"

definition UpdatePasswordHash :: "string \<Rightarrow> string \<Rightarrow> unit op" where
  "UpdatePasswordHash i hash = bindE get_now (\<lambda>t.
     exec (upd_users (\<lambda>u. u_id u = i) (\<lambda>u. u\<lparr>u_pwHash := Some hash, u_updatedAt := t\<rparr>)))"

subsection \<open>Passwords\<close>

definition hashPassword :: "crypto \<Rightarrow> string \<Rightarrow> string op" where
  "hashPassword cr password = the_or (ErrMsg ''bcrypt'') (cr_gen cr password)"

definition checkPassword :: "crypto \<Rightarrow> string \<Rightarrow> string \<Rightarrow> bool \<times> string" where
  "checkPassword cr stored0 password =
     (let stored = trim stored0 in
      if stored = [] then (False, [])
      else if has_prefix stored ''$2a$'' \<or> has_prefix stored ''$2b$'' \<or> has_prefix stored ''$2y$'' then
        (if \<not> cr_ok cr stored password then (False, []) else (True, []))
      else if stored = password then
        (case cr_gen cr password of None \<Rightarrow> (True, []) | Some hashed \<Rightarrow> (True, hashed))
      else (False, []))"

definition Authenticate :: "crypto \<Rightarrow> string \<Rightarrow> string \<Rightarrow> user_record op" where
  "Authenticate cr email password =
     bindE (map_err (\<lambda>e. if e = ErrUserNotFound then ErrInvalidCredentials else e) (FindByEmail email))
     (\<lambda>user. if \<not> u_active user then throw ErrAccountInactive
       else case u_pwHash user of
         None \<Rightarrow> throw ErrPasswordNotSet
       | Some h \<Rightarrow>
          if h = [] then throw ErrPasswordNotSet
          else (case checkPassword cr h password of (ok, upgraded) \<Rightarrow>
            if \<not> ok then throw ErrInvalidCredentials
            else if upgraded \<noteq> [] then
              seqE (attempt (UpdatePasswordHash (u_id user) upgraded)) (ret (user\<lparr>u_pwHash := Some upgraded\<rparr>))
            else ret user))"

subsection \<open>Creation\<close>

record create_user_input =
  cu_name :: string
  cu_email :: string
  cu_password :: string
  cu_role :: string
  cu_teamId :: "string option"
  cu_teamName :: string

definition email_taken :: "err \<Rightarrow> err" where
  \<comment> \<open>unique violation on insert or update\<close>
  "email_taken e = (case e of ErrPg c m \<Rightarrow> if c = ''23505'' then ErrEmailTaken else e | _ \<Rightarrow> e)"

definition linkMainTeamLeadToNamedTeam :: "string \<Rightarrow> string \<Rightarrow> int \<Rightarrow> string op" where
  "linkMainTeamLeadToNamedTeam userID teamName0 t =
     (let teamName = trim teamName0 in
      bindE (query (\<lambda>d. map_option t_id (find (\<lambda>x. to_lower (btrim (t_name x)) = to_lower (btrim teamName)) (teams d))))
      (\<lambda>found. case found of
         Some teamID \<Rightarrow>
           seqE (exec (upd_teams (\<lambda>x. t_id x = teamID) (\<lambda>x. x\<lparr>t_mtl := userID, t_updatedAt := t\<rparr>)))
                (ret teamID)
       | None \<Rightarrow> bindE new_uuid (\<lambda>teamID.
           seqE (exec (\<lambda>d. d\<lparr>teams := teams d @
                   [\<lparr>t_id = teamID, t_name = teamName, t_mtl = userID, t_atl = None,
                     t_createdAt = t, t_updatedAt = t\<rparr>]\<rparr>))
                (ret teamID))))"

definition create_team_fields ::
  "create_user_input \<Rightarrow> err + (string option \<times> string \<times> string option)" where
  \<comment> \<open>the switch on the role: (teamID, teamName, analystTeamName)\<close>
  "create_team_fields inp =
     (let teamID = cu_teamId inp; teamName = trim (cu_teamName inp); role = cu_role inp in
      if role = RoleMainTeamLead then
        (if teamName = [] \<and> (teamID = None \<or> trimmed teamID = []) then Inl ErrTeamNameRequired
         else Inr (teamID, teamName, None))
      else if role = RoleAnalystTeamLead then
        (if teamName = [] then Inl ErrTeamNameRequired else Inr (None, [], Some teamName))
      else if role = RoleLeadAnalyst then
        Inr (None, [], if teamName \<noteq> [] then Some teamName else None)
      else Inr (if role \<noteq> RoleSalesExecutive then None else teamID, [], None))"

definition CreateUser :: "crypto \<Rightarrow> create_user_input \<Rightarrow> user_record op" where
  "CreateUser cr inp =
     bindE (attempt (FindByEmail (cu_email inp))) (\<lambda>existing. case existing of
       Inr _ \<Rightarrow> throw ErrEmailTaken
     | Inl e \<Rightarrow> if e \<noteq> ErrUserNotFound then throw e else
     bindE (hashPassword cr (cu_password inp)) (\<lambda>hash.
     case create_team_fields inp of Inl e \<Rightarrow> throw e
     | Inr (teamID, teamName, analystTeamName) \<Rightarrow>
     bindE new_uuid (\<lambda>i. bindE get_now (\<lambda>t.
     seqE (in_tx (
       seqE (map_err email_taken (exec_insert (\<lambda>d. user_by_id i d \<noteq> None) (\<lambda>d. d\<lparr>users := users d @
               [(blank_user i)\<lparr>u_email := cu_email inp, u_name := cu_name inp, u_role := cu_role inp,
                  u_pwHash := Some hash, u_teamId := teamID, u_analystTeam := analystTeamName,
                  u_createdAt := t, u_updatedAt := t\<rparr>]\<rparr>)))
       (if cu_role inp = RoleMainTeamLead \<and> teamName \<noteq> [] then
          bindE (linkMainTeamLeadToNamedTeam i teamName t) (\<lambda>resolvedID.
            exec (upd_users (\<lambda>u. u_id u = i) (\<lambda>u. u\<lparr>u_teamId := Some resolvedID, u_updatedAt := t\<rparr>)))
        else ret ())))
     (FindByID i)))))"

subsection \<open>Listing and counting\<close>

definition name_le :: "user \<Rightarrow> user \<Rightarrow> bool" where
  \<comment> \<open>ORDER BY u.name ASC, u."createdAt" DESC\<close>
  "name_le a b \<longleftrightarrow> u_name a < u_name b \<or> (u_name a = u_name b \<and> u_createdAt a \<ge> u_createdAt b)"

fun insert_by :: "('a \<Rightarrow> 'a \<Rightarrow> bool) \<Rightarrow> 'a \<Rightarrow> 'a list \<Rightarrow> 'a list" where
  "insert_by le x [] = [x]"
| "insert_by le x (y # ys) = (if le x y then x # y # ys else y # insert_by le x ys)"

definition order_by :: "('a \<Rightarrow> 'a \<Rightarrow> bool) \<Rightarrow> 'a list \<Rightarrow> 'a list" where
  "order_by le xs = foldr (insert_by le) xs []"

lemma mset_insert_by [simp]: "mset (insert_by le x ys) = add_mset x (mset ys)"
  by (induction ys) simp_all

lemma mset_order_by [simp]: "mset (order_by le xs) = mset xs"
  by (induction xs) (simp_all add: order_by_def)

lemma set_order_by: "set (order_by le xs) = set xs"
  by (rule mset_eq_setD) simp

lemma length_order_by [simp]: "length (order_by le xs) = length xs"
  by (rule mset_eq_length) simp

lemma distinct_order_by [simp]: "distinct (order_by le xs) = distinct xs"
  by (rule mset_eq_imp_distinct_iff) simp

lemma sum_order_by: "(\<Sum>x\<leftarrow>order_by le xs. f x) = (\<Sum>x\<leftarrow>xs. (f x :: 'b::comm_monoid_add))"
  by (simp only: sum_mset_sum_list [symmetric] mset_map mset_order_by)

definition ListUsers :: "int \<Rightarrow> public_user list op" where
  "ListUsers limit0 =
     (let limit = (if limit0 \<le> 0 \<or> limit0 > 2000 then 2000 else limit0) in
      query (\<lambda>d. map (\<lambda>u. Public (joined d u)) (take (nat limit) (order_by name_le (users d)))))"

definition CountUsers :: "nat op" where
  "CountUsers = query (\<lambda>d. length (users d))"

definition CountByRole :: "string \<Rightarrow> nat op" where
  "CountByRole role = query (\<lambda>d. count_where (\<lambda>u. u_role u = role) (users d))"

definition CountActiveByRole :: "string \<Rightarrow> nat op" where
  "CountActiveByRole role = query (\<lambda>d. count_where (\<lambda>u. u_role u = role \<and> u_active u) (users d))"

definition CountTeamHeadcount :: "string \<Rightarrow> nat op" where
  "CountTeamHeadcount teamID =
     (let roles = [RoleAnalystTeamLead, RoleLeadAnalyst, RoleMainTeamLead, RoleSalesExecutive] in
      if teamID \<noteq> [] then
        query (\<lambda>d. count_where (\<lambda>u. u_teamId u = Some teamID \<and> u_role u \<in> set roles) (users d))
      else query (\<lambda>d. count_where (\<lambda>u. u_role u \<in> set roles) (users d)))"

subsection \<open>Activation and update\<close>

definition activate :: "string \<Rightarrow> int \<Rightarrow> db \<Rightarrow> db" where
  "activate i t = upd_users (\<lambda>u. u_id u = i) (\<lambda>u. u\<lparr>u_active := True, u_updatedAt := t\<rparr>)"

definition deactivate :: "string \<Rightarrow> int \<Rightarrow> db \<Rightarrow> db" where
  "deactivate i t = upd_users (\<lambda>u. u_id u = i)
     (\<lambda>u. u\<lparr>u_active := False, u_sessHash := None, u_sessAt := None, u_updatedAt := t\<rparr>)"

definition SetActive :: "string \<Rightarrow> string \<Rightarrow> bool \<Rightarrow> user_record op" where
  "SetActive id0 actorID0 active =
     (let i = trim id0; actorID = trim actorID0 in
      if i = [] then throw ErrUserNotFound
      else if \<not> active \<and> i = actorID then throw ErrCannotDeactivateSelf
      else bindE (FindByID i) (\<lambda>user.
        if u_active user = active then ret user
        else seqE (if \<not> active \<and> u_role user = RoleSuperadmin
                   then bindE (CountActiveByRole RoleSuperadmin) (\<lambda>n. guard (\<not> n \<le> 1) ErrLastActiveSuperadmin)
                   else ret ())
        (bindE get_now (\<lambda>t.
         seqE (if active then exec (activate i t) else exec (deactivate i t))
              (FindByID i)))))"

record update_user_input =
  uu_name :: string
  uu_email :: string
  uu_role :: string
  uu_password :: "string option"
  uu_mustReset :: "bool option"
  uu_teamName :: "string option"
  uu_teamId :: "string option"

definition analystTeamNameFromRecord :: "user_record option \<Rightarrow> string" where
  "analystTeamNameFromRecord u = (case u of None \<Rightarrow> [] | Some r \<Rightarrow> trimmed (u_analystTeam r))"

definition resolveAnalystTeamName ::
  "user_record \<Rightarrow> string \<Rightarrow> string option \<Rightarrow> err + string option" where
  "resolveAnalystTeamName existing role teamName =
     (let current = u_analystTeam existing in
      case teamName of
        None \<Rightarrow> if role = RoleAnalystTeamLead \<and> (current = None \<or> trimmed current = [])
                then Inl ErrTeamNameRequired else Inr current
      | Some tn \<Rightarrow> (let name = trim tn in
          if role = RoleAnalystTeamLead then
            (if name = [] then Inl ErrTeamNameRequired else Inr (Some name))
          else if role = RoleLeadAnalyst then
            (if name = [] then Inr None else Inr (Some name))
          else Inr current))"

definition update_check_email :: "string \<Rightarrow> user_record \<Rightarrow> string \<Rightarrow> unit op" where
  "update_check_email i existing email =
     (if u_email existing \<noteq> email then
        bindE (attempt (FindByEmail email)) (\<lambda>other. case other of
          Inr o' \<Rightarrow> if u_id o' \<noteq> i then throw ErrEmailTaken else ret ()
        | Inl e \<Rightarrow> if e \<noteq> ErrUserNotFound then throw e else ret ())
      else ret ())"

definition UpdateUser :: "crypto \<Rightarrow> string \<Rightarrow> update_user_input \<Rightarrow> user_record op" where
  "UpdateUser cr i inp =
     bindE (FindByID i) (\<lambda>existing.
     seqE (update_check_email i existing (uu_email inp))
     (let mustReset = (case uu_mustReset inp of None \<Rightarrow> u_mustReset existing | Some b \<Rightarrow> b) in
      case resolveAnalystTeamName existing (uu_role inp) (uu_teamName inp) of
        Inl e \<Rightarrow> throw e
      | Inr analystTeamName \<Rightarrow>
     (let teamID = (if uu_teamId inp \<noteq> None \<and> trimmed (uu_teamId inp) \<noteq> [] \<and> uu_role inp = RoleSalesExecutive
                    then Some (trimmed (uu_teamId inp)) else u_teamId existing);
          common = (\<lambda>t u. u\<lparr>u_name := uu_name inp, u_email := uu_email inp, u_role := uu_role inp,
                     u_mustReset := mustReset, u_analystTeam := analystTeamName, u_teamId := teamID,
                     u_updatedAt := t\<rparr>) in
      seqE
        (if uu_password inp \<noteq> None \<and> trimmed (uu_password inp) \<noteq> [] then
           bindE (hashPassword cr (deref (uu_password inp))) (\<lambda>hash. bindE get_now (\<lambda>t.
             map_err email_taken (exec (upd_users (\<lambda>u. u_id u = i)
               (\<lambda>u. (common t u)\<lparr>u_pwHash := Some hash, u_sessHash := None, u_sessAt := None\<rparr>)))))
         else bindE get_now (\<lambda>t. map_err email_taken (exec (upd_users (\<lambda>u. u_id u = i) (common t)))))
        (FindByID i))))"

end
