(* ===== verification/UserMoves.thy ===== *)
theory UserMoves
  imports Users
begin

section \<open>Deleting and transferring users (users.go)\<close>

text \<open>
  \<open>Delete\<close> re-homes everything that points at the user and removes the row in one
  transaction; the two transfers move a sales executive with its leads, or a lead analyst, between
  teams. Each SQL statement is a definition of its own.
\<close>

subsection \<open>Delete\<close>

definition del_creator :: "string \<Rightarrow> string \<Rightarrow> int \<Rightarrow> db \<Rightarrow> db" where
  "del_creator i actorID t = upd_leads (\<lambda>l. l_createdBy l = Some i)
     (\<lambda>l. l\<lparr>l_createdBy := Some actorID, l_updatedAt := t\<rparr>)"

definition stage_unassigned :: "string \<Rightarrow> string" where
  "stage_unassigned s = (if s \<in> set [''WITH_EXECUTIVE'', ''WITH_TEAM_LEAD''] then ''PRE_SALES'' else s)"

definition del_assigned :: "string \<Rightarrow> int \<Rightarrow> db \<Rightarrow> db" where
  "del_assigned i t = upd_leads (\<lambda>l. l_se l = Some i)
     (\<lambda>l. l\<lparr>l_se := None, l_mtl := None, l_team := None, l_execAt := None, l_deadline := None,
        l_stage := stage_unassigned (l_stage l), l_updatedAt := t\<rparr>)"

definition del_mtl :: "string \<Rightarrow> int \<Rightarrow> db \<Rightarrow> db" where
  "del_mtl i t = upd_leads (\<lambda>l. l_mtl l = Some i) (\<lambda>l. l\<lparr>l_mtl := None, l_updatedAt := t\<rparr>)"

definition del_notAppr :: "string \<Rightarrow> int \<Rightarrow> db \<Rightarrow> db" where
  "del_notAppr i t = upd_leads (\<lambda>l. l_notApprBy l = Some i) (\<lambda>l. l\<lparr>l_notApprBy := None, l_updatedAt := t\<rparr>)"

definition del_manager :: "string \<Rightarrow> int \<Rightarrow> db \<Rightarrow> db" where
  "del_manager i t = upd_users (\<lambda>u. u_managerId u = Some i) (\<lambda>u. u\<lparr>u_managerId := None, u_updatedAt := t\<rparr>)"

definition replacement_for :: "string \<Rightarrow> string \<Rightarrow> db \<Rightarrow> string option" where
  "replacement_for i teamID d = map_option u_id (first_by u_createdAt
     (filter (\<lambda>u. u_role u = RoleMainTeamLead \<and> u_teamId u = Some teamID \<and> u_id u \<noteq> i) (users d)))"

definition set_team_lead :: "string \<Rightarrow> string \<Rightarrow> int \<Rightarrow> db \<Rightarrow> db" where
  "set_team_lead teamID lead t = upd_teams (\<lambda>x. t_id x = teamID) (\<lambda>x. x\<lparr>t_mtl := lead, t_updatedAt := t\<rparr>)"

fun reassign_teams :: "string \<Rightarrow> int \<Rightarrow> string list \<Rightarrow> unit op" where
  "reassign_teams i t [] = ret ()"
| "reassign_teams i t (teamID # rest) =
     bindE (map_err (\<lambda>_. ErrReplacement) (query_row (replacement_for i teamID))) (\<lambda>replacement.
     seqE (exec (set_team_lead teamID replacement t)) (reassign_teams i t rest))"

definition del_atl :: "string \<Rightarrow> db \<Rightarrow> db" where
  "del_atl i = upd_teams (\<lambda>x. t_atl x = Some i) (\<lambda>x. x\<lparr>t_atl := None\<rparr>)"

definition del_keys :: "string \<Rightarrow> db \<Rightarrow> db" where
  "del_keys i d = d\<lparr>api_keys := del_where (\<lambda>k. ak_createdBy k = i) (api_keys d)\<rparr>"

definition del_user_row :: "string \<Rightarrow> db \<Rightarrow> db" where
  "del_user_row i d = on_delete_user i (d\<lparr>users := del_where (\<lambda>u. u_id u = i) (users d)\<rparr>)"

definition delete_blocked :: "err \<Rightarrow> err" where
  "delete_blocked e = (case e of
     ErrPg c m \<Rightarrow> if c = ''23503'' \<or> c = ''23001'' then ErrDeleteBlocked else e | _ \<Rightarrow> e)"

definition delete_tx :: "string \<Rightarrow> string \<Rightarrow> int \<Rightarrow> unit op" where
  "delete_tx i actorID t =
     seqE (if actorID \<noteq> [] then exec (del_creator i actorID t) else ret ())
     (seqE (exec (del_assigned i t))
     (seqE (exec (del_mtl i t))
     (seqE (exec (del_notAppr i t))
     (seqE (exec (del_manager i t))
     (bindE (query (\<lambda>d. map t_id (filter (\<lambda>x. t_mtl x = i) (teams d)))) (\<lambda>teamIDs.
      seqE (reassign_teams i t teamIDs)
     (seqE (exec (del_atl i))
     (seqE (exec (del_keys i))
     (bindE (map_err delete_blocked
               (exec_tag (\<lambda>d. count_where (\<lambda>u. u_id u = i) (users d)) (del_user_row i))) (\<lambda>n.
      guard (n \<noteq> 0) ErrUserNotFound))))))))))"

definition DeleteUser :: "string \<Rightarrow> string \<Rightarrow> unit op" where
  "DeleteUser id0 actorID0 =
     (let i = trim id0; actorID = trim actorID0 in
      if i = [] then throw ErrUserNotFound
      else if i = actorID then throw ErrCannotDeleteSelf
      else bindE (FindByID i) (\<lambda>user.
        seqE (if u_role user = RoleSuperadmin
              then bindE (CountByRole RoleSuperadmin) (\<lambda>n. guard (\<not> n \<le> 1) ErrLastSuperadmin)
              else ret ())
        (bindE get_now (\<lambda>t. in_tx (delete_tx i actorID t)))))"

subsection \<open>Team lookups\<close>

definition TeamIDExists :: "string \<Rightarrow> bool op" where
  "TeamIDExists id0 = (let i = trim id0 in
     if i = [] then ret False else query (\<lambda>d. team_by_id i d \<noteq> None))"

record team_brief =
  tb_id :: string
  tb_name :: string

definition ListTeamsBrief :: "team_brief list op" where
  "ListTeamsBrief = query (\<lambda>d. map (\<lambda>x. \<lparr>tb_id = t_id x, tb_name = t_name x\<rparr>)
     (order_by (\<lambda>a b. t_name a \<le> t_name b) (teams d)))"

record analyst_team_brief =
  atb_name :: string
  atb_leadId :: string
  atb_leadName :: string

definition ListAnalystTeamsBrief :: "analyst_team_brief list op" where
  "ListAnalystTeamsBrief = query (\<lambda>d.
     map (\<lambda>u. \<lparr>atb_name = trimmed (u_analystTeam u), atb_leadId = u_id u, atb_leadName = u_name u\<rparr>)
       (filter (\<lambda>u. trimmed (u_analystTeam u) \<noteq> [])
         (order_by (\<lambda>a b. to_lower (btrim (deref (u_analystTeam a))) < to_lower (btrim (deref (u_analystTeam b)))
               \<or> (to_lower (btrim (deref (u_analystTeam a))) = to_lower (btrim (deref (u_analystTeam b)))
                   \<and> u_name a \<le> u_name b))
           (filter (\<lambda>u. u_role u = RoleAnalystTeamLead \<and> u_analystTeam u \<noteq> None
                \<and> btrim (deref (u_analystTeam u)) \<noteq> []) (users d)))))"

definition analystTeamNamesEqual :: "string \<Rightarrow> string \<Rightarrow> bool" where
  "analystTeamNamesEqual a b = equal_fold (trim a) (trim b)"

definition findAnalystTeamLeadByID :: "string \<Rightarrow> user_record op" where
  "findAnalystTeamLeadByID id0 = (let i = trim id0 in
     if i = [] then throw ErrAnalystTeamNotFound
     else bindE (FindByID i) (\<lambda>rec.
       if u_role rec \<noteq> RoleAnalystTeamLead then throw ErrAnalystTeamNotFound
       else if analystTeamNameFromRecord (Some rec) = [] then throw ErrAnalystTeamNotFound
       else ret rec))"

definition findAnalystTeamLeadByTeamName :: "string \<Rightarrow> user_record op" where
  "findAnalystTeamLeadByTeamName teamName0 = (let teamName = trim teamName0 in
     if teamName = [] then throw ErrAnalystTeamNotFound
     else bindE (map_err (\<lambda>e. if e = ErrNoRows then ErrAnalystTeamNotFound else e)
            (query_row (\<lambda>d. map_option u_id (first_by u_createdAt
               (filter (\<lambda>u. u_role u = RoleAnalystTeamLead \<and> u_analystTeam u \<noteq> None
                  \<and> to_lower (btrim (deref (u_analystTeam u))) = to_lower teamName) (users d))))))
          FindByID)"

subsection \<open>TransferLeadAnalyst\<close>

record transfer_analyst_input =
  ta_analyst :: string
  ta_toTeam :: string
  ta_toLead :: string
  ta_expected :: string
  ta_actor :: string
  ta_actorRole :: string

record transfer_analyst_result =
  tar_user :: public_user
  tar_leadsOwned :: nat
  tar_from :: "string option"
  tar_to :: string

definition not_found :: "err \<Rightarrow> err \<Rightarrow> err" where
  "not_found as e = (if e = ErrNoRows then as else e)"

definition transfer_analyst_tx ::
  "transfer_analyst_input \<Rightarrow> string \<Rightarrow> user_record \<Rightarrow> string \<Rightarrow> (string \<times> nat) op" where
  "transfer_analyst_tx inp laID destATL canonicalTeam =
     bindE (map_err (not_found ErrUserNotFound) (query_row (user_by_id laID))) (\<lambda>row.
     let role = u_role row; fromTeam = u_analystTeam row in
     if role \<noteq> RoleLeadAnalyst then throw ErrNotLeadAnalyst
     else let expected = trim (ta_expected inp) in
     if expected \<noteq> [] \<and> \<not> analystTeamNamesEqual (deref fromTeam) expected then throw ErrTeamConflict
     else let fromName = trimmed fromTeam in
     if analystTeamNamesEqual fromName canonicalTeam then throw ErrSameAnalystTeam
     else if ta_actorRole inp \<noteq> RoleSuperadmin \<and> ta_actorRole inp \<noteq> RoleAnalystTeamLead
       then throw ErrTransferForbidden
     else bindE get_now (\<lambda>t.
       bindE (exec_tag (\<lambda>d. count_where (\<lambda>u. u_id u = laID \<and> u_role u = RoleLeadAnalyst) (users d))
          (upd_users (\<lambda>u. u_id u = laID \<and> u_role u = RoleLeadAnalyst)
             (\<lambda>u. u\<lparr>u_analystTeam := Some canonicalTeam, u_managerId := Some (u_id destATL), u_updatedAt := t\<rparr>)))
       (\<lambda>n. seqE (guard (n = 1) ErrTeamConflict)
         (bindE (query (\<lambda>d. count_where (\<lambda>l. l_createdBy l = Some laID) (leads d)))
            (\<lambda>owned. ret (fromName, owned))))))"

definition TransferLeadAnalyst :: "transfer_analyst_input \<Rightarrow> transfer_analyst_result op" where
  "TransferLeadAnalyst inp =
     (let laID = trim (ta_analyst inp); toTeamName = trim (ta_toTeam inp);
          toLeadID = trim (ta_toLead inp); actorID = trim (ta_actor inp) in
      if laID = [] then throw ErrUserNotFound
      else if toTeamName = [] \<and> toLeadID = [] then throw ErrAnalystTeamNotFound
      else if actorID = [] then throw (ErrMsg ''actor is required'')
      else bindE (if toLeadID \<noteq> [] then findAnalystTeamLeadByID toLeadID
                  else findAnalystTeamLeadByTeamName toTeamName) (\<lambda>destATL.
        let canonicalTeam = analystTeamNameFromRecord (Some destATL) in
        if canonicalTeam = [] then throw ErrAnalystTeamNotFound
        else bindE (in_tx (transfer_analyst_tx inp laID destATL canonicalTeam)) (\<lambda>(fromName, owned).
          bindE (FindByID laID) (\<lambda>user.
            ret \<lparr>tar_user = Public user, tar_leadsOwned = owned,
              tar_from = (if fromName \<noteq> [] then Some fromName else None), tar_to = canonicalTeam\<rparr>))))"

subsection \<open>TransferSalesExec\<close>

record transfer_se_input =
  ts_se :: string
  ts_toTeam :: string
  ts_expected :: string
  ts_actor :: string
  ts_actorRole :: string
  ts_actorTeam :: "string option"

record transfer_se_result =
  tsr_user :: public_user
  tsr_leadsMoved :: nat
  tsr_id :: string
  tsr_from :: "string option"
  tsr_to :: string

fun lock_teams :: "string list \<Rightarrow> unit op" where
  \<comment> \<open>\<open>SELECT id ... FOR UPDATE\<close> on each team\<close>
  "lock_teams [] = ret ()"
| "lock_teams (tid # rest) =
     seqE (map_err (not_found ErrTeamNotFound) (query_row (\<lambda>d. map_option t_id (team_by_id tid d))))
          (lock_teams rest)"

definition lock_order :: "string \<Rightarrow> string \<Rightarrow> string list" where
  "lock_order toTeamID fromID =
     (let lockIDs = (if fromID \<noteq> [] then [toTeamID, fromID] else [toTeamID]) in
      case lockIDs of [a, b] \<Rightarrow> if a > b then [b, a] else [a, b] | _ \<Rightarrow> lockIDs)"

definition transfer_se_auth :: "transfer_se_input \<Rightarrow> string option \<Rightarrow> string \<Rightarrow> err option" where
  "transfer_se_auth inp fromTeamID toTeamID =
     (if isMainTeamLead (ts_actorRole inp) then
        (let actorTeam = leadTeamScopeID (ts_actorRole inp) (ts_actorTeam inp) in
         if actorTeam = [] \<or> fromTeamID = None \<or> trimmed fromTeamID \<noteq> actorTeam then Some ErrTransferForbidden
         else if toTeamID = actorTeam then Some ErrSameTeam else None)
      else if ts_actorRole inp \<noteq> RoleSuperadmin \<and> ts_actorRole inp \<noteq> RoleAnalystTeamLead
        then Some ErrTransferForbidden
      else None)"

definition move_se :: "string \<Rightarrow> string \<Rightarrow> int \<Rightarrow> db \<Rightarrow> db" where
  "move_se seID toTeamID t = upd_users (\<lambda>u. u_id u = seID \<and> u_role u = RoleSalesExecutive)
     (\<lambda>u. u\<lparr>u_teamId := Some toTeamID, u_updatedAt := t\<rparr>)"

definition move_leads :: "string \<Rightarrow> string \<Rightarrow> string \<Rightarrow> int \<Rightarrow> db \<Rightarrow> db" where
  "move_leads seID toTeamID destMTL t = upd_leads (\<lambda>l. l_se l = Some seID)
     (\<lambda>l. l\<lparr>l_team := Some toTeamID, l_mtl := Some destMTL, l_updatedAt := t\<rparr>)"

definition transfer_se_tx :: "transfer_se_input \<Rightarrow> string \<Rightarrow> string \<Rightarrow> string \<Rightarrow> (string \<times> nat \<times> string) op" where
  "transfer_se_tx inp seID toTeamID actorID =
     bindE (map_err (not_found ErrUserNotFound) (query_row (user_by_id seID))) (\<lambda>row.
     let role = u_role row; fromTeamID = u_teamId row; expected = trim (ts_expected inp);
         fromID = trimmed fromTeamID in
     if role \<noteq> RoleSalesExecutive then throw ErrNotSalesExecutive
     else if expected \<noteq> [] \<and> fromID \<noteq> expected then throw ErrTeamConflict
     else case transfer_se_auth inp fromTeamID toTeamID of Some e \<Rightarrow> throw e | None \<Rightarrow>
     if fromID = toTeamID then throw ErrSameTeam
     else seqE (lock_teams (lock_order toTeamID fromID))
     (bindE (map_err (not_found ErrTeamNotFound) (query_row (\<lambda>d. map_option t_mtl (team_by_id toTeamID d)))) (\<lambda>mtl.
     let destMTL = trim mtl in
     if destMTL = [] then throw (ErrMsg ''destination team has no main team lead'')
     else bindE get_now (\<lambda>t.
       bindE (exec_tag (\<lambda>d. count_where (\<lambda>u. u_id u = seID \<and> u_role u = RoleSalesExecutive) (users d))
                (move_se seID toTeamID t)) (\<lambda>n.
       seqE (guard (n = 1) ErrTeamConflict)
       (bindE (exec_tag (\<lambda>d. count_where (\<lambda>l. l_se l = Some seID) (leads d))
                (move_leads seID toTeamID destMTL t)) (\<lambda>moved.
       bindE new_uuid (\<lambda>transferID.
       seqE (exec (\<lambda>d. d\<lparr>se_transfers := se_transfers d @
               [\<lparr>st_id = transferID, st_se = seID, st_from = (if fromID \<noteq> [] then Some fromID else None),
                 st_to = toTeamID, st_by = actorID, st_at = t\<rparr>]\<rparr>))
       (ret (fromID, moved, transferID))))))))))"

definition TransferSalesExec :: "transfer_se_input \<Rightarrow> transfer_se_result op" where
  "TransferSalesExec inp =
     (let seID = trim (ts_se inp); toTeamID = trim (ts_toTeam inp); actorID = trim (ts_actor inp) in
      if seID = [] then throw ErrUserNotFound
      else if toTeamID = [] then throw ErrTeamNotFound
      else if actorID = [] then throw (ErrMsg ''actor is required'')
      else bindE (in_tx (transfer_se_tx inp seID toTeamID actorID)) (\<lambda>(fromID, moved, transferID).
        bindE (FindByID seID) (\<lambda>user.
          ret \<lparr>tsr_user = Public user, tsr_leadsMoved = moved, tsr_id = transferID,
            tsr_from = (if fromID \<noteq> [] then Some fromID else None), tsr_to = toTeamID\<rparr>)))"

definition CountLeadsAssignedTo :: "string \<Rightarrow> nat op" where
  "CountLeadsAssignedTo salesExecID =
     query (\<lambda>d. count_where (\<lambda>l. l_se l = Some (trim salesExecID)) (leads d))"

end
