(* ===== verification/UserSafety.thy ===== *)
theory UserSafety
  imports UserMoves
begin

section \<open>What the user operations guarantee\<close>

text \<open>
  Postconditions and invariants of Users and UserMoves, for every initial database and every
  pattern of failing statements.
\<close>

subsection \<open>Reading operations\<close>

lemma FindByID_readonly [readonly_intros]: "readonly (FindByID i)"
  by (auto simp: FindByID_def or_not_found_def intro!: readonly_intros)

lemma FindByEmail_readonly [readonly_intros]: "readonly (FindByEmail e)"
  by (auto simp: FindByEmail_def or_not_found_def intro!: readonly_intros)

lemma CountByRole_readonly [readonly_intros]: "readonly (CountByRole r)"
  by (simp add: CountByRole_def readonly_intros)

lemma CountActiveByRole_readonly [readonly_intros]: "readonly (CountActiveByRole r)"
  by (simp add: CountActiveByRole_def readonly_intros)

lemma TeamIDExists_readonly [readonly_intros]: "readonly (TeamIDExists i)"
  by (simp add: TeamIDExists_def Let_def readonly_intros)

lemma hashPassword_readonly [readonly_intros]: "readonly (hashPassword cr p)"
  by (simp add: hashPassword_def readonly_intros)

lemma update_check_email_readonly [readonly_intros]: "readonly (update_check_email i u e)"
  by (auto simp: update_check_email_def intro!: readonly_intros split: sum.splits)

lemma findATL_readonly [readonly_intros]:
  "readonly (findAnalystTeamLeadByID i)" "readonly (findAnalystTeamLeadByTeamName n)"
  by (auto simp: findAnalystTeamLeadByID_def findAnalystTeamLeadByTeamName_def Let_def intro!: readonly_intros)

lemma joined_base [simp]:
  "u_id (joined d u) = u_id u" "u_role (joined d u) = u_role u" "u_active (joined d u) = u_active u"
  "u_email (joined d u) = u_email u" "u_pwHash (joined d u) = u_pwHash u" "u_teamId (joined d u) = u_teamId u"
  "u_sessHash (joined d u) = u_sessHash u" "u_analystTeam (joined d u) = u_analystTeam u"
  by (simp_all add: joined_def hydrateSessionFlags_def user.defs user_record.defs)

lemma triple_FindByID:
  "(\<And>d u. P d \<Longrightarrow> user_by_id i d = Some u \<Longrightarrow> Q (joined d u) d) \<Longrightarrow> (\<And>d. P d \<Longrightarrow> E d) \<Longrightarrow>
   triple P (FindByID i) Q E"
  unfolding FindByID_def or_not_found_def
  by (rule triple_bind [where R = "\<lambda>p d. P d \<and> map_option (joined d) (user_by_id i d) = p"];
      (rule triple_query triple_the_or; auto simp: map_option_eq_Some)?)

lemma triple_get_now: "(\<And>t d. P d \<Longrightarrow> Q t d) \<Longrightarrow> (\<And>d. P d \<Longrightarrow> E d) \<Longrightarrow> triple P get_now Q E"
  by (rule triple_readonly [OF readonly_get_now])

lemma triple_new_uuid: "(\<And>t d. P d \<Longrightarrow> Q t d) \<Longrightarrow> (\<And>d. P d \<Longrightarrow> E d) \<Longrightarrow> triple P new_uuid Q E"
  by (rule triple_readonly [OF readonly_new_uuid])

subsection \<open>Delete\<close>

definition rehomed :: "string \<Rightarrow> string \<Rightarrow> int \<Rightarrow> db \<Rightarrow> db" where
  "rehomed i actorID t d = del_manager i t (del_notAppr i t (del_mtl i t (del_assigned i t
     (if actorID \<noteq> [] then del_creator i actorID t d else d))))"

lemma replacement_not_self: "replacement_for i teamID d = Some r \<Longrightarrow> r \<noteq> i"
  by (auto simp: replacement_for_def dest!: first_by_in)

lemma set_team_lead_step:
  assumes "r \<noteq> i" "\<exists>ts. d = D\<lparr>teams := ts\<rparr> \<and> map t_id ts = ids \<and> (\<forall>x \<in> set ts. t_mtl x = i \<longrightarrow> t_id x \<in> set (tid # tids))"
  shows "\<exists>ts. set_team_lead tid r t d = D\<lparr>teams := ts\<rparr> \<and> map t_id ts = ids \<and>
    (\<forall>x \<in> set ts. t_mtl x = i \<longrightarrow> t_id x \<in> set tids)"
proof -
  obtain ts where ts: "d = D\<lparr>teams := ts\<rparr>" "map t_id ts = ids"
    "\<forall>x \<in> set ts. t_mtl x = i \<longrightarrow> t_id x \<in> set (tid # tids)" using assms(2) by blast
  let ?ts = "upd_where (\<lambda>x. t_id x = tid) (\<lambda>x. x\<lparr>t_mtl := r, t_updatedAt := t\<rparr>) ts"
  have "set_team_lead tid r t d = D\<lparr>teams := ?ts\<rparr>" by (simp add: ts(1) set_team_lead_def upd_teams_def)
  moreover have "map t_id ?ts = ids" by (simp add: ts(2) map_upd_where)
  moreover have "\<forall>x \<in> set ?ts. t_mtl x = i \<longrightarrow> t_id x \<in> set tids"
    using ts(3) assms(1) by (auto simp: set_upd_where)
  ultimately show ?thesis by blast
qed

lemma reassign_teams_triple:
  "triple (\<lambda>d. \<exists>ts. d = D\<lparr>teams := ts\<rparr> \<and> map t_id ts = ids \<and> (\<forall>x \<in> set ts. t_mtl x = i \<longrightarrow> t_id x \<in> set tids))
     (reassign_teams i t tids)
     (\<lambda>_ d. \<exists>ts. d = D\<lparr>teams := ts\<rparr> \<and> map t_id ts = ids \<and> (\<forall>x \<in> set ts. t_mtl x \<noteq> i)) (\<lambda>_. True)"
proof (induction tids)
  case Nil
  then show ?case by (auto intro!: triple_ret)
next
  case (Cons tid tids)
  show ?case
    unfolding reassign_teams.simps
    by (rule triple_bind [where R = "\<lambda>r d. r \<noteq> i \<and> (\<exists>ts. d = D\<lparr>teams := ts\<rparr> \<and> map t_id ts = ids \<and>
           (\<forall>x \<in> set ts. t_mtl x = i \<longrightarrow> t_id x \<in> set (tid # tids)))"],
        rule triple_map_err, rule triple_query_row, use replacement_not_self in blast, simp,
        rule triple_seq [OF _ Cons.IH], rule triple_exec, use set_team_lead_step in blast, simp)
qed

lemma delete_tx_triple:
  "triple (\<lambda>d. d = d0) (delete_tx i actorID t)
     (\<lambda>_ d. \<exists>ts. d = del_user_row i (del_keys i ((rehomed i actorID t d0)\<lparr>teams := ts\<rparr>)) \<and>
        map t_id ts = map t_id (teams d0) \<and> (\<forall>x \<in> set ts. t_mtl x \<noteq> i \<and> t_atl x \<noteq> Some i)) (\<lambda>_. True)"
proof -
  let ?R = "rehomed i actorID t d0"
  have teamsR: "teams ?R = teams d0"
    by (simp add: rehomed_def del_manager_def del_notAppr_def del_mtl_def del_assigned_def del_creator_def)
  have A: "triple (\<lambda>d. d = d0) (if actorID \<noteq> [] then exec (del_creator i actorID t) else ret ())
      (\<lambda>_ d. d = (if actorID \<noteq> [] then del_creator i actorID t d0 else d0)) (\<lambda>_. True)"
    by (auto intro!: triple_exec triple_ret)
  have "triple (\<lambda>d. d = d0) (delete_tx i actorID t)
     (\<lambda>_ d. \<exists>ts. d = del_user_row i (del_keys i (?R\<lparr>teams := ts\<rparr>)) \<and>
        map t_id ts = map t_id (teams ?R) \<and> (\<forall>x \<in> set ts. t_mtl x \<noteq> i \<and> t_atl x \<noteq> Some i)) (\<lambda>_. True)"
    unfolding delete_tx_def
    apply (rule triple_seq [OF A])
    apply (rule triple_seq, rule triple_exec [where Q = "\<lambda>_ d. d = del_assigned i t
        (if actorID \<noteq> [] then del_creator i actorID t d0 else d0)"], simp, simp)
    apply (rule triple_seq, rule triple_exec [where Q = "\<lambda>_ d. d = del_mtl i t (del_assigned i t
        (if actorID \<noteq> [] then del_creator i actorID t d0 else d0))"], simp, simp)
    apply (rule triple_seq, rule triple_exec [where Q = "\<lambda>_ d. d = del_notAppr i t (del_mtl i t (del_assigned i t
        (if actorID \<noteq> [] then del_creator i actorID t d0 else d0)))"], simp, simp)
    apply (rule triple_seq, rule triple_exec [where Q = "\<lambda>_ d. d = ?R"], simp add: rehomed_def, simp)
    apply (rule triple_bind [where R = "\<lambda>tids d. d = ?R \<and> tids = map t_id (filter (\<lambda>x. t_mtl x = i) (teams ?R))"],
        rule triple_query, simp, simp)
    apply (rule triple_seq [where R = "\<lambda>d. \<exists>ts. d = ?R\<lparr>teams := ts\<rparr> \<and> map t_id ts = map t_id (teams ?R) \<and>
        (\<forall>x \<in> set ts. t_mtl x \<noteq> i)"])
     apply (rule triple_weaken [OF reassign_teams_triple [where D = ?R and ids = "map t_id (teams ?R)"]], force, blast, simp)
    apply (rule triple_seq, rule triple_exec [where Q = "\<lambda>_ d. \<exists>ts. d = ?R\<lparr>teams := ts\<rparr> \<and>
        map t_id ts = map t_id (teams ?R) \<and> (\<forall>x \<in> set ts. t_mtl x \<noteq> i \<and> t_atl x \<noteq> Some i)"])
      apply (force simp: del_atl_def upd_teams_def set_upd_where map_upd_where)
     apply simp
    apply (rule triple_seq, rule triple_exec [where Q = "\<lambda>_ d. \<exists>ts. d = del_keys i (?R\<lparr>teams := ts\<rparr>) \<and>
        map t_id ts = map t_id (teams ?R) \<and> (\<forall>x \<in> set ts. t_mtl x \<noteq> i \<and> t_atl x \<noteq> Some i)"], blast, simp)
    apply (rule triple_bind [where R = "\<lambda>_ d. \<exists>ts. d = del_user_row i (del_keys i (?R\<lparr>teams := ts\<rparr>)) \<and>
        map t_id ts = map t_id (teams ?R) \<and> (\<forall>x \<in> set ts. t_mtl x \<noteq> i \<and> t_atl x \<noteq> Some i)"])
     apply (rule triple_map_err, rule triple_exec_tag, blast, simp)
    apply (rule triple_guard, simp, simp)
    done
  then show ?thesis by (simp only: teamsR)
qed

lemma DeleteUser_atomic: "atomic (DeleteUser i a)"
  unfolding DeleteUser_def Let_def
  by (intro atomic_if atomic_throw atomic_bindE atomic_seqE readonly_intros atomic_in_tx)

text \<open>What a deletion leaves behind, for the user \<open>i\<close>.\<close>

definition account :: "user \<Rightarrow> string \<times> string \<times> bool" where
  "account u = (u_id u, u_role u, u_active u)"

definition forgotten :: "string \<Rightarrow> db \<Rightarrow> db \<Rightarrow> bool" where
  \<comment> \<open>nothing refers to \<open>i\<close> any more, no lead, team or other user is lost\<close>
  "forgotten i d0 d \<longleftrightarrow>
     map account (users d) = filter (\<lambda>a. fst a \<noteq> i) (map account (users d0)) \<and>
     map l_id (leads d) = map l_id (leads d0) \<and> map t_id (teams d) = map t_id (teams d0) \<and>
     (\<forall>l \<in> set (leads d). l_se l \<noteq> Some i \<and> l_mtl l \<noteq> Some i \<and> l_createdBy l \<noteq> Some i \<and> l_notApprBy l \<noteq> Some i) \<and>
     (\<forall>u \<in> set (users d). u_managerId u \<noteq> Some i) \<and>
     (\<forall>x \<in> set (teams d). t_mtl x \<noteq> i \<and> t_atl x \<noteq> Some i) \<and>
     (\<forall>k \<in> set (api_keys d). ak_createdBy k \<noteq> i) \<and>
     (\<forall>q \<in> set (quallogs d). ql_actor q \<noteq> Some i)"

lemma null_if_other [simp]: "null_if i p \<noteq> Some i"
  by (simp add: null_if_def)

lemma map_filter_account:
  "map account (filter (\<lambda>u. u_id u \<noteq> i) xs) = filter (\<lambda>a. fst a \<noteq> i) (map account xs)"
  by (simp add: filter_map o_def account_def)

lemma del_user_row_fields:
  "users (del_user_row i d) = filter (\<lambda>u. u_id u \<noteq> i) (users d)" "teams (del_user_row i d) = teams d"
  "map l_id (leads (del_user_row i d)) = map l_id (leads d)" "api_keys (del_user_row i d) = api_keys d"
  "\<And>l. l \<in> set (leads (del_user_row i d)) \<Longrightarrow>
     l_se l \<noteq> Some i \<and> l_mtl l \<noteq> Some i \<and> l_createdBy l \<noteq> Some i \<and> l_notApprBy l \<noteq> Some i"
  "\<And>q. q \<in> set (quallogs (del_user_row i d)) \<Longrightarrow> ql_actor q \<noteq> Some i"
  by (auto simp: del_user_row_def on_delete_user_def del_where_def)

lemma rehomed_users:
  "map account (users (rehomed i a t d)) = map account (users d)"
  "\<And>u. u \<in> set (users (rehomed i a t d)) \<Longrightarrow> u_managerId u \<noteq> Some i"
  by (auto simp: rehomed_def del_manager_def del_notAppr_def del_mtl_def del_assigned_def del_creator_def
      map_upd_where set_upd_where account_def)

lemma rehomed_leads: "map l_id (leads (rehomed i a t d)) = map l_id (leads d)"
  by (simp add: rehomed_def del_manager_def del_notAppr_def del_mtl_def del_assigned_def del_creator_def
      map_upd_where)

lemma delete_forgotten:
  assumes "map t_id ts = map t_id (teams d0)" "\<forall>x \<in> set ts. t_mtl x \<noteq> i \<and> t_atl x \<noteq> Some i"
  shows "forgotten i d0 (del_user_row i (del_keys i ((rehomed i a t d0)\<lparr>teams := ts\<rparr>)))"
proof -
  let ?d = "del_keys i ((rehomed i a t d0)\<lparr>teams := ts\<rparr>)"
  have k: "users ?d = users (rehomed i a t d0)" "leads ?d = leads (rehomed i a t d0)" "teams ?d = ts"
    "\<And>k. k \<in> set (api_keys ?d) \<Longrightarrow> ak_createdBy k \<noteq> i"
    by (auto simp: del_keys_def del_where_def)
  show ?thesis
    unfolding forgotten_def
    using del_user_row_fields(5,6) [of _ i ?d] assms rehomed_users(2) [of _ i a t d0] k(4)
    by (auto simp: del_user_row_fields(1-4) k(1-3) map_filter_account rehomed_users(1) rehomed_leads)
qed

lemma delete_tx_forgotten:
  "triple (\<lambda>d. d = d0) (delete_tx i a t) (\<lambda>_ d. forgotten i d0 d) (\<lambda>_. True)"
  by (rule triple_weaken [OF delete_tx_triple [of d0]]) (auto intro: delete_forgotten)

lemma DeleteUser_triple:
  "triple (\<lambda>d. d = d0) (DeleteUser i a) (\<lambda>_ d. forgotten (trim i) d0 d) (\<lambda>_. True)"
proof -
  have tx: "triple (\<lambda>d. d = d0) (in_tx (delete_tx (trim i) (trim a) t)) (\<lambda>_ d. forgotten (trim i) d0 d) (\<lambda>_. True)" for t
    by (rule triple_in_tx, rule delete_tx_forgotten) simp
  show ?thesis
    unfolding DeleteUser_def Let_def
    apply (split if_split, intro conjI impI, rule triple_throw, simp)
    apply (split if_split, intro conjI impI, rule triple_throw, simp)
    apply (rule triple_bind [where R = "\<lambda>_ d. d = d0"], rule triple_readonly [OF FindByID_readonly], simp, simp)
    apply (rule triple_seq [where R = "\<lambda>d. d = d0"])
     apply (rule triple_readonly, intro readonly_intros, simp, simp)
    apply (rule triple_bind [OF triple_get_now tx], simp, simp)
    done
qed


subsection \<open>A superadmin always remains\<close>

definition ids_distinct :: "db \<Rightarrow> bool" where
  \<comment> \<open>the primary key of "User"\<close>
  "ids_distinct d \<longleftrightarrow> distinct (map u_id (users d))"

definition has_superadmin :: "db \<Rightarrow> bool" where
  "has_superadmin d \<longleftrightarrow> (\<exists>u \<in> set (users d). u_role u = RoleSuperadmin)"

definition has_active_superadmin :: "db \<Rightarrow> bool" where
  "has_active_superadmin d \<longleftrightarrow> (\<exists>u \<in> set (users d). u_role u = RoleSuperadmin \<and> u_active u)"

lemma ids_distinct_account: "ids_distinct d \<longleftrightarrow> distinct (map fst (map account (users d)))"
  by (simp add: ids_distinct_def account_def o_def)

lemma has_superadmin_account: "has_superadmin d \<longleftrightarrow> (\<exists>a \<in> set (map account (users d)). fst (snd a) = RoleSuperadmin)"
  by (auto simp: has_superadmin_def account_def)

lemma two_have_another:
  assumes "distinct (map k xs)" "1 < count_where P xs"
  shows "\<exists>x \<in> set xs. P x \<and> k x \<noteq> i"
proof (rule ccontr)
  assume "\<not> ?thesis"
  then have "\<forall>x \<in> set (filter P xs). k x = i" by auto
  then have "set (map k (filter P xs)) \<subseteq> {i}" by auto
  moreover have d: "distinct (map k (filter P xs))" using assms(1) by (rule distinct_map_filter)
  ultimately have "card (set (map k (filter P xs))) \<le> card {i}" by (intro card_mono) simp_all
  then have "length (map k (filter P xs)) \<le> 1" using distinct_card [OF d] by simp
  then show False using assms(2) by (simp add: count_where_def)
qed

lemma another_user:
  "ids_distinct d \<Longrightarrow> \<not> count_where P (users d) \<le> 1 \<Longrightarrow> \<exists>u \<in> set (users d). P u \<and> u_id u \<noteq> i"
  using two_have_another [of u_id "users d" P] by (simp add: ids_distinct_def not_le)

lemma forgotten_accounts:
  assumes "forgotten i d0 d" "ids_distinct d0"
  shows "ids_distinct d"
    "\<And>u. u \<in> set (users d0) \<Longrightarrow> u_id u \<noteq> i \<Longrightarrow> \<exists>v \<in> set (users d). account v = account u"
proof -
  have m: "map account (users d) = filter (\<lambda>a. fst a \<noteq> i) (map account (users d0))"
    using assms(1) by (simp add: forgotten_def)
  show "ids_distinct d" using assms(2) unfolding ids_distinct_account m by (rule distinct_map_filter)
  fix u assume "u \<in> set (users d0)" "u_id u \<noteq> i"
  then have "account u \<in> set (map account (users d))" unfolding m by (auto simp: account_def)
  then show "\<exists>v \<in> set (users d). account v = account u" by auto
qed

lemma DeleteUser_keeps_superadmin:
  "triple (\<lambda>d. ids_distinct d \<and> has_superadmin d) (DeleteUser i a)
     (\<lambda>_ d. ids_distinct d \<and> has_superadmin d) (\<lambda>_. True)"
proof -
  let ?i = "trim i"
  let ?safe = "\<lambda>d. ids_distinct d \<and> (\<exists>u \<in> set (users d). u_role u = RoleSuperadmin \<and> u_id u \<noteq> ?i)"
  have tx: "triple ?safe (in_tx (delete_tx ?i (trim a) t)) (\<lambda>_ d. ids_distinct d \<and> has_superadmin d) (\<lambda>_. True)" for t
  proof (rule triple_in_tx)
    show "triple ?safe (delete_tx ?i (trim a) t) (\<lambda>_ d. ids_distinct d \<and> has_superadmin d) (\<lambda>_. True)"
    proof (rule tripleI)
      fix w :: world and r w' assume P: "?safe (tables w)" and r: "delete_tx ?i (trim a) t w = (Inr r, w')"
      have "forgotten ?i (tables w) (tables w')"
        by (rule tripleD [OF delete_tx_forgotten refl r])
      then show "ids_distinct (tables w') \<and> has_superadmin (tables w')"
        using forgotten_accounts P by (fastforce simp: has_superadmin_def account_def)
    qed simp
  qed simp
  let ?I = "\<lambda>d. ids_distinct d \<and> has_superadmin d"
  show ?thesis
    unfolding DeleteUser_def Let_def
    apply (split if_split, intro conjI impI, rule triple_throw, simp)
    apply (split if_split, intro conjI impI, rule triple_throw, simp)
    apply (rule triple_bind [where R = "\<lambda>u d. ?I d \<and> (u_role u \<noteq> RoleSuperadmin \<longrightarrow> ?safe d)"], rule triple_FindByID)
      apply (auto simp: has_superadmin_def ids_distinct_def dest!: user_by_id_Some dest: distinct_key_inj) [2]
    apply (rule triple_seq [where R = ?safe])
     apply (split if_split, intro conjI impI)
      apply (rule triple_bind [where R = "\<lambda>n d. ?I d \<and> n = count_where (\<lambda>u. u_role u = RoleSuperadmin) (users d)"])
       apply (simp add: CountByRole_def, rule triple_query, simp, simp)
      apply (rule triple_guard, use two_have_another in \<open>force simp: ids_distinct_def\<close>, simp)
     apply (rule triple_ret, simp)
    apply (rule triple_bind [OF triple_get_now tx], simp, simp)
    done
qed

lemma ids_distinct_upd: "(\<And>u. u_id (f u) = u_id u) \<Longrightarrow> ids_distinct (upd_users P f d) = ids_distinct d"
  by (simp add: ids_distinct_def map_upd_where)

lemma active_upd:
  assumes "ids_distinct d" "u \<in> set (users d)" "u_role u = RoleSuperadmin" "u_active u"
  shows "ids_distinct (activate i t d) \<and> has_active_superadmin (activate i t d)"
    and "u_id u \<noteq> i \<Longrightarrow> ids_distinct (deactivate i t d) \<and> has_active_superadmin (deactivate i t d)"
proof -
  let ?u = "if u_id u = i then u\<lparr>u_active := True, u_updatedAt := t\<rparr> else u"
  have "?u \<in> set (users (activate i t d))"
    using assms(2) by (simp add: activate_def set_upd_where)
  moreover have "u_role ?u = RoleSuperadmin \<and> u_active ?u" using assms by simp
  ultimately show "ids_distinct (activate i t d) \<and> has_active_superadmin (activate i t d)"
    using assms(1) unfolding has_active_superadmin_def activate_def by (subst ids_distinct_upd) auto
  assume "u_id u \<noteq> i"
  then have "u \<in> set (users (deactivate i t d))"
    using assms(2) by (auto simp: deactivate_def set_upd_where)
  then show "ids_distinct (deactivate i t d) \<and> has_active_superadmin (deactivate i t d)"
    using assms unfolding has_active_superadmin_def deactivate_def by (subst ids_distinct_upd) auto
qed

lemma loaded_safe:
  assumes "ids_distinct d" "has_active_superadmin d" "user_by_id i d = Some u" "u_role u \<noteq> RoleSuperadmin"
  shows "\<exists>v \<in> set (users d). u_role v = RoleSuperadmin \<and> u_active v \<and> u_id v \<noteq> i"
proof -
  obtain v where v: "v \<in> set (users d)" "u_role v = RoleSuperadmin" "u_active v"
    using assms(2) by (auto simp: has_active_superadmin_def)
  have u: "u \<in> set (users d)" "u_id u = i" using user_by_id_Some [OF assms(3)] by simp_all
  have "u_id v \<noteq> i"
    using distinct_key_inj [of u_id "users d" u v] assms(1,4) u v unfolding ids_distinct_def by metis
  then show ?thesis using v by blast
qed

lemma SetActive_keeps_active:
  "triple (\<lambda>d. ids_distinct d \<and> has_active_superadmin d) (SetActive i a b)
     (\<lambda>_ d. ids_distinct d \<and> has_active_superadmin d) (\<lambda>d. ids_distinct d \<and> has_active_superadmin d)"
proof -
  let ?i = "trim i"
  let ?I = "\<lambda>d. ids_distinct d \<and> has_active_superadmin d"
  let ?safe = "\<lambda>d. ids_distinct d \<and>
     (\<exists>u \<in> set (users d). u_role u = RoleSuperadmin \<and> u_active u \<and> (b \<or> u_id u \<noteq> ?i))"
  have upd: "triple ?safe (if b then exec (activate ?i t) else exec (deactivate ?i t)) (\<lambda>_. ?I) ?I" for t
  proof (cases b)
    case True
    then show ?thesis using active_upd(1) by (simp, intro triple_exec) (blast, auto simp: has_active_superadmin_def)
  next
    case False
    then show ?thesis using active_upd(2) by (simp, intro triple_exec) (blast, auto simp: has_active_superadmin_def)
  qed
  show ?thesis
    unfolding SetActive_def Let_def
    apply (split if_split, intro conjI impI, rule triple_throw, simp)
    apply (split if_split, intro conjI impI, rule triple_throw, simp)
    apply (rule triple_bind [where R = "\<lambda>u d. ?I d \<and> (u_role u \<noteq> RoleSuperadmin \<longrightarrow> ?safe d)"], rule triple_FindByID)
      apply (use loaded_safe in force, simp)
    apply (split if_split, intro conjI impI, rule triple_ret, simp)
    apply (rule triple_seq [where R = ?safe])
     apply (split if_split, intro conjI impI)
      apply (rule triple_bind [where R = "\<lambda>n d. ?I d \<and> n = count_where (\<lambda>u. u_role u = RoleSuperadmin \<and> u_active u) (users d)"])
       apply (simp add: CountActiveByRole_def, rule triple_query, simp, simp)
      apply (rule triple_guard, clarify, drule (1) another_user [where i = "trim i"], blast, simp)
     apply (rule triple_ret, force simp: has_active_superadmin_def)
    apply (rule triple_bind [where R = "\<lambda>_. ?safe"], rule triple_get_now, simp, force simp: has_active_superadmin_def)
    apply (rule triple_seq [OF upd])
    apply (rule triple_readonly [OF FindByID_readonly], simp, simp)
    done
qed

text \<open>C6. Neither deletion nor (de)activation locks the workspace out: deleting users
  keeps at least one superadmin, and deactivating users keeps at least one active superadmin,
  whatever statements fail.\<close>

theorem superadmin_remains:
  assumes "ids_distinct (tables w)"
  shows "(has_superadmin (tables w) \<longrightarrow> has_superadmin (tables (snd (DeleteUser i a w)))) \<and>
    (has_active_superadmin (tables w) \<longrightarrow> has_active_superadmin (tables (snd (SetActive i a b w))))"
proof -
  obtain r w' where r: "DeleteUser i a w = (r, w')" by force
  obtain r2 w2 where r2: "SetActive i a b w = (r2, w2)" by force
  have "has_superadmin (tables w')" if "has_superadmin (tables w)"
    using that assms tripleD [OF DeleteUser_keeps_superadmin] atomicD [OF DeleteUser_atomic] r by (cases r) metis+
  moreover have "has_active_superadmin (tables w2)" if "has_active_superadmin (tables w)"
    using that assms tripleD [OF SetActive_keeps_active] tripleE [OF SetActive_keeps_active] r2 by (cases r2) metis+
  ultimately show ?thesis by (simp add: r r2)
qed

end
