(* ===== verification/UserFlows.thy ===== *)
theory UserFlows
  imports UserSafety
begin

section \<open>Sessions, creation and transfers: functional behaviour\<close>

subsection \<open>Sessions\<close>

lemma ReplaceActiveSession_triple:
  "triple (\<lambda>d. d = d0) (ReplaceActiveSession cr i jti)
     (\<lambda>_ d. trim i \<noteq> [] \<and> trim jti \<noteq> [] \<and> (\<exists>t. d = upd_users (\<lambda>u. u_id u = trim i)
        (\<lambda>u. u\<lparr>u_sessHash := Some (sessionHash (cr_sha cr) (trim jti)), u_sessAt := Some t, u_updatedAt := t\<rparr>) d0))
     (\<lambda>d. d = d0)"
  unfolding ReplaceActiveSession_def Let_def
  apply (split if_split, intro conjI impI, rule triple_throw, simp)
  apply (rule triple_bind [where R = "\<lambda>_ d. d = d0"], rule triple_get_now, simp, simp)
  apply (rule triple_exec, blast, simp)
  done

text \<open>Logging in makes the new session the only live one: after
  \<open>ReplaceActiveSession\<close> the account accepts exactly the identifiers that hash like the new
  one, and no other account changes. The digest is assumed to be non-empty text without
  surrounding space, as a hex digest is.\<close>

theorem login_replaces_every_session:
  assumes "\<And>s. trim (cr_sha cr s) = cr_sha cr s \<and> cr_sha cr s \<noteq> []"
    and "ReplaceActiveSession cr i jti w = (Inr (), w')"
  shows "(\<forall>u \<in> set (users (tables w')). u_id u = trim i \<longrightarrow>
      (\<forall>j. sessionMatchesHash (cr_sha cr) (u_sessHash u) j \<longleftrightarrow>
         trim j \<noteq> [] \<and> cr_sha cr (trim j) = cr_sha cr (trim jti))) \<and>
    filter (\<lambda>u. u_id u \<noteq> trim i) (users (tables w')) = filter (\<lambda>u. u_id u \<noteq> trim i) (users (tables w))"
proof -
  obtain t where d: "tables w' = upd_users (\<lambda>u. u_id u = trim i)
      (\<lambda>u. u\<lparr>u_sessHash := Some (sessionHash (cr_sha cr) (trim jti)), u_sessAt := Some t, u_updatedAt := t\<rparr>) (tables w)"
    using tripleD [OF ReplaceActiveSession_triple refl assms(2)] by blast
  have h: "u_sessHash u = Some (cr_sha cr (trim jti))" if "u \<in> set (users (tables w'))" "u_id u = trim i" for u
    using that by (auto simp: d set_upd_where sessionHash_def split: if_splits)
  have other: "filter (\<lambda>u. u_id u \<noteq> trim i) (users (tables w')) = filter (\<lambda>u. u_id u \<noteq> trim i) (users (tables w))"
    unfolding d upd_users_frame by (rule filter_upd_where) simp
  show ?thesis
    using h other assms(1) by (fastforce simp: sessionMatches_iff)
qed

definition toy_crypto :: crypto where
  \<comment> \<open>a stand-in for the witnesses: hashing prefixes the text\<close>
  "toy_crypto = \<lparr>cr_gen = (\<lambda>p. Some (''$2a$'' @ p)), cr_ok = (\<lambda>h p. h = ''$2a$'' @ p),
     cr_sha = (\<lambda>s. ''h'' @ map (\<lambda>c. if is_space c then CHR ''_'' else c) s)\<rparr>"

lemma toy_sha_trimmed: "trim (cr_sha toy_crypto s) = cr_sha toy_crypto s \<and> cr_sha toy_crypto s \<noteq> []"
proof -
  let ?h = "CHR ''h'' # map (\<lambda>c. if is_space c then CHR ''_'' else c) s"
  have n: "\<forall>c \<in> set ?h. \<not> is_space c" by (auto simp: is_space_def)
  then have "trim ?h = ?h" by (rule trim_no_space)
  then show ?thesis by (simp add: toy_crypto_def)
qed

definition root_user :: user where
  "root_user = (blank_user ''root'')\<lparr>u_role := RoleSuperadmin, u_email := ''root@x.io'', u_name := ''Root'',
     u_pwHash := Some ''$2a$secret123''\<rparr>"

definition root_world :: world where
  "root_world = calm_world (empty_db\<lparr>users := [root_user]\<rparr>)"

lemma trim_root: "trim ''root'' = ''root''" "trim ''s1'' = ''s1''" by code_simp+

theorem login_replaces_every_session_witness:
  "\<exists>w'. ReplaceActiveSession toy_crypto ''root'' ''s1'' root_world = (Inr (), w') \<and>
     users (tables w') \<noteq> [] \<and>
     (\<forall>u \<in> set (users (tables w')). sessionMatchesHash (cr_sha toy_crypto) (u_sessHash u) ''s1'')"
proof -
  define w' where "w' = snd (ReplaceActiveSession toy_crypto ''root'' ''s1'' root_world)"
  have r: "ReplaceActiveSession toy_crypto ''root'' ''s1'' root_world = (Inr (), w')"
    unfolding w'_def ReplaceActiveSession_def trim_root Let_def
    by (simp add: bindE_def get_now_def exec_def sql_def root_world_def calm_world_def)
  have u: "map u_id (users (tables w')) = [''root'']"
    unfolding w'_def ReplaceActiveSession_def trim_root Let_def
    by (simp add: bindE_def get_now_def exec_def sql_def root_world_def calm_world_def upd_users_def
        upd_where_def root_user_def blank_user_def empty_db_def)
  then have ids: "\<forall>u \<in> set (users (tables w')). u_id u = ''root''" by (auto simp: map_eq_Cons_conv)
  show ?thesis
    using login_replaces_every_session [OF toy_sha_trimmed r] r u ids trim_root by auto
qed

definition two_admins :: world where
  "two_admins = calm_world (empty_db\<lparr>users := [root_user, root_user\<lparr>u_id := ''boss''\<rparr>]\<rparr>)"

theorem superadmin_remains_witness:
  "ids_distinct (tables two_admins) \<and> has_active_superadmin (tables two_admins) \<and>
   has_superadmin (tables (snd (DeleteUser ''boss'' ''root'' two_admins))) \<and>
   has_active_superadmin (tables (snd (SetActive ''boss'' ''root'' False two_admins)))"
proof -
  have i: "ids_distinct (tables two_admins)"
    by (simp add: ids_distinct_def two_admins_def calm_world_def root_user_def blank_user_def empty_db_def)
  have h: "has_active_superadmin (tables two_admins)" "has_superadmin (tables two_admins)"
    by (simp_all add: has_active_superadmin_def has_superadmin_def two_admins_def calm_world_def root_user_def blank_user_def empty_db_def)
  show ?thesis using superadmin_remains [OF i, of "''boss''" "''root''" False] i h by blast
qed

subsection \<open>Authentication\<close>

lemma triple_FindByEmail:
  "(\<And>d u. P d \<Longrightarrow> u \<in> set (users d) \<Longrightarrow> to_lower (u_email u) = to_lower e \<Longrightarrow> Q (joined d u) d) \<Longrightarrow>
   (\<And>d. P d \<Longrightarrow> E d) \<Longrightarrow> triple P (FindByEmail e) Q E"
  unfolding FindByEmail_def or_not_found_def
  by (rule triple_bind [where R = "\<lambda>p d. P d \<and>
        map_option (joined d) (find (\<lambda>u. to_lower (u_email u) = to_lower e) (users d)) = p"];
      (rule triple_query triple_the_or; auto simp: find_Some_iff)?)

definition password_ok :: "crypto \<Rightarrow> user \<Rightarrow> string \<Rightarrow> bool" where
  \<comment> \<open>the stored bcrypt hash accepts the password, or it is legacy plaintext\<close>
  "password_ok cr u p \<longleftrightarrow> (\<exists>h. u_pwHash u = Some h \<and> fst (checkPassword cr h p))"

definition rehashed :: "string \<Rightarrow> db \<Rightarrow> db \<Rightarrow> bool" where
  \<comment> \<open>at most the password hash of account \<open>i\<close> changed\<close>
  "rehashed i d0 d \<longleftrightarrow> d = d0 \<or>
     (\<exists>h t. d = upd_users (\<lambda>u. u_id u = i) (\<lambda>u. u\<lparr>u_pwHash := Some h, u_updatedAt := t\<rparr>) d0)"

lemma UpdatePasswordHash_triple:
  "triple (\<lambda>d. d = d0) (attempt (UpdatePasswordHash i h)) (\<lambda>_ d. rehashed i d0 d) (\<lambda>_. False)"
  unfolding UpdatePasswordHash_def
  apply (rule triple_attempt)
  apply (rule triple_bind [where R = "\<lambda>_ d. d = d0"], rule triple_get_now, simp, simp add: rehashed_def)
  apply (rule triple_exec, auto simp: rehashed_def)
  done

lemma Authenticate_triple:
  "triple (\<lambda>d. d = d0) (Authenticate cr email p)
     (\<lambda>r d. \<exists>u \<in> set (users d0). u_id r = u_id u \<and> u_role r = u_role u \<and> u_active u \<and>
        to_lower (u_email u) = to_lower email \<and> password_ok cr u p \<and> rehashed (u_id u) d0 d)
     (\<lambda>d. d = d0)"
proof -
  let ?Q = "\<lambda>r d. \<exists>u \<in> set (users d0). u_id r = u_id u \<and> u_role r = u_role u \<and> u_active u \<and>
        to_lower (u_email u) = to_lower email \<and> password_ok cr u p \<and> rehashed (u_id u) d0 d"
  have found: "triple (\<lambda>d. d = d0) (if \<not> u_active r then throw ErrAccountInactive
       else case u_pwHash r of
         None \<Rightarrow> throw ErrPasswordNotSet
       | Some h \<Rightarrow>
          if h = [] then throw ErrPasswordNotSet
          else (case checkPassword cr h p of (ok, upgraded) \<Rightarrow>
            if \<not> ok then throw ErrInvalidCredentials
            else if upgraded \<noteq> [] then
              seqE (attempt (UpdatePasswordHash (u_id r) upgraded)) (ret (r\<lparr>u_pwHash := Some upgraded\<rparr>))
            else ret r)) ?Q (\<lambda>d. d = d0)"
    if u: "u \<in> set (users d0)" "r = joined d0 u" "to_lower (u_email u) = to_lower email" for r u
  proof -
    have bad: "triple (\<lambda>d. d = d0) (throw e) ?Q (\<lambda>d. d = d0)" for e by (rule triple_throw)
    have good: "triple (\<lambda>d. d = d0) (seqE (attempt (UpdatePasswordHash (u_id r) up))
        (ret (r\<lparr>u_pwHash := Some up\<rparr>))) ?Q (\<lambda>d. d = d0)"
      if "u_active u" "password_ok cr u p" for up
      by (rule triple_seq [OF triple_weaken [OF UpdatePasswordHash_triple [of d0]]], assumption, assumption, simp,
          rule triple_ret) (use u that in auto)
    have same: "triple (\<lambda>d. d = d0) (ret r) ?Q (\<lambda>d. d = d0)" if "u_active u" "password_ok cr u p"
      by (rule triple_ret) (use u that in \<open>auto simp: rehashed_def\<close>)
    show ?thesis
    proof (cases "u_active u \<and> password_ok cr u p")
      case True
      then obtain h up where h: "u_pwHash r = Some h" "checkPassword cr h p = (True, up)" "u_active r"
        unfolding password_ok_def u(2) joined_base by (metis prod.collapse)
      then have "h \<noteq> []" by (auto simp: checkPassword_def)
      with h show ?thesis using good [of up] same True by (cases "up = []") simp_all
    next
      case False
      show ?thesis
      proof (cases "u_active u")
        case active: True
        then have "u_pwHash u = Some h \<Longrightarrow> \<not> fst (checkPassword cr h p)" for h
          using False by (auto simp: password_ok_def)
        then show ?thesis using active u(2)
          by (simp add: split_beta split: option.split if_split) (intro conjI impI allI bad)
      next
        case False
        then show ?thesis using u(2) by (simp add: bad)
      qed
    qed
  qed
  show ?thesis
    unfolding Authenticate_def
    apply (rule triple_bind [where R = "\<lambda>r d. d = d0 \<and> (\<exists>u. u \<in> set (users d0) \<and> r = joined d0 u \<and>
        to_lower (u_email u) = to_lower email)"])
     apply (rule triple_map_err, rule triple_FindByEmail, blast, simp)
    apply (rule triple_assume, elim exE conjE, rule found, assumption+)
    done
qed

text \<open>A login succeeds only for an active account found under the email, with a
  password its stored hash accepts, and it changes nothing but (for a legacy plaintext hash) that
  account's hash; a failed login changes nothing at all.\<close>

theorem authenticate_sound:
  "(case Authenticate cr email p w of
      (Inl e, w') \<Rightarrow> tables w' = tables w
    | (Inr r, w') \<Rightarrow> \<exists>u \<in> set (users (tables w)). u_id r = u_id u \<and> u_active u \<and>
        to_lower (u_email u) = to_lower email \<and> password_ok cr u p \<and>
        rehashed (u_id u) (tables w) (tables w'))"
proof -
  obtain r w' where r: "Authenticate cr email p w = (r, w')" by force
  show ?thesis
  proof (cases r)
    case (Inl e)
    then show ?thesis using tripleE [OF Authenticate_triple refl] r by fastforce
  next
    case (Inr u)
    then show ?thesis using tripleD [OF Authenticate_triple refl] r by fastforce
  qed
qed

subsection \<open>Moving a sales executive\<close>

definition transferred :: "string \<Rightarrow> string \<Rightarrow> string \<Rightarrow> db \<Rightarrow> db \<Rightarrow> string \<times> nat \<times> string \<Rightarrow> bool" where
  \<comment> \<open>the committed effect of a transfer, from \<open>d0\<close> to \<open>d\<close>\<close>
  "transferred seID toTeamID actorID d0 d r \<longleftrightarrow> (case r of (fromID, moved, tid) \<Rightarrow>
     \<exists>u tm t. user_by_id seID d0 = Some u \<and> u_role u = RoleSalesExecutive \<and> fromID = trimmed (u_teamId u) \<and>
       fromID \<noteq> toTeamID \<and> team_by_id toTeamID d0 = Some tm \<and> trim (t_mtl tm) \<noteq> [] \<and>
       moved = count_where (\<lambda>l. l_se l = Some seID) (leads d0) \<and>
       d = (move_leads seID toTeamID (trim (t_mtl tm)) t (move_se seID toTeamID t d0))\<lparr>
         se_transfers := se_transfers d0 @ [\<lparr>st_id = tid, st_se = seID,
           st_from = (if fromID \<noteq> [] then Some fromID else None), st_to = toTeamID, st_by = actorID, st_at = t\<rparr>]\<rparr>)"

lemma lock_teams_readonly [readonly_intros]: "readonly (lock_teams ids)"
  by (induction ids) (simp_all add: readonly_intros)

lemma move_se_leads [simp]: "leads (move_se a b t d) = leads d" "se_transfers (move_se a b t d) = se_transfers d"
  by (simp_all add: move_se_def)

lemma transfer_se_tx_triple:
  "triple (\<lambda>d. d = d0) (transfer_se_tx inp seID toTeamID actorID)
     (\<lambda>r d. transferred seID toTeamID actorID d0 d r \<and>
        (\<exists>u. user_by_id seID d0 = Some u \<and> transfer_se_auth inp (u_teamId u) toTeamID = None)) (\<lambda>_. True)"
proof -
  let ?Q = "\<lambda>u r d. transferred seID toTeamID actorID d0 d r \<and> transfer_se_auth inp (u_teamId u) toTeamID = None"
  have locked: "triple (\<lambda>d. d = d0) (seqE (lock_teams (lock_order toTeamID (trimmed (u_teamId u))))
     (bindE (map_err (not_found ErrTeamNotFound) (query_row (\<lambda>d. map_option t_mtl (team_by_id toTeamID d)))) (\<lambda>mtl.
     let destMTL = trim mtl in
     if destMTL = [] then throw (ErrMsg ''destination team has no main team lead'')
     else bindE get_now (\<lambda>t.
       bindE (exec_tag (\<lambda>d. count_where (\<lambda>u. u_id u = seID \<and> u_role u = RoleSalesExecutive) (users d))
                (move_se seID toTeamID t)) (\<lambda>n.
       seqE (guard (n = 1) ErrTeamConflict)
       (bindE (exec_tag (\<lambda>d. count_where (\<lambda>l. l_se l = Some seID) (leads d))
                (move_leads seID toTeamID destMTL t)) (\<lambda>moved.
       bindE new_uuid (\<lambda>transferID.
       seqE (exec (\<lambda>d. d\<lparr>se_transfers := se_transfers d @
               [\<lparr>st_id = transferID, st_se = seID,
                 st_from = (if trimmed (u_teamId u) \<noteq> [] then Some (trimmed (u_teamId u)) else None),
                 st_to = toTeamID, st_by = actorID, st_at = t\<rparr>]\<rparr>))
       (ret (trimmed (u_teamId u), moved, transferID)))))))))) (?Q u) (\<lambda>_. True)"
    if u: "user_by_id seID d0 = Some u" "u_role u = RoleSalesExecutive" "trimmed (u_teamId u) \<noteq> toTeamID"
      "transfer_se_auth inp (u_teamId u) toTeamID = None" for u
    unfolding Let_def
    apply (rule triple_seq [where R = "\<lambda>d. d = d0"], rule triple_readonly, rule readonly_intros, assumption, simp)
    apply (rule triple_bind [where R = "\<lambda>m d. d = d0 \<and> (\<exists>tm. team_by_id toTeamID d0 = Some tm \<and> m = t_mtl tm)"])
     apply (rule triple_map_err, rule triple_query_row, force, simp)
    apply (rule triple_assume, elim exE conjE)
    apply (split if_split, intro conjI impI, rule triple_throw, simp)
    apply (rule triple_bind [where R = "\<lambda>_ d. d = d0"], rule triple_get_now, simp, simp)
    subgoal for m tm t
      apply (rule triple_bind [where R = "\<lambda>_ d. d = move_se seID toTeamID t d0"], rule triple_exec_tag, simp, simp)
      apply (rule triple_seq [where R = "\<lambda>d. d = move_se seID toTeamID t d0"], rule triple_guard, simp, simp)
      apply (rule triple_bind [where R = "\<lambda>n d. n = count_where (\<lambda>l. l_se l = Some seID) (leads d0) \<and>
          d = move_leads seID toTeamID (trim (t_mtl tm)) t (move_se seID toTeamID t d0)"], rule triple_exec_tag, simp, simp)
      subgoal for _ n
        apply (rule triple_bind [where R = "\<lambda>_ d. n = count_where (\<lambda>l. l_se l = Some seID) (leads d0) \<and>
          d = move_leads seID toTeamID (trim (t_mtl tm)) t (move_se seID toTeamID t d0)"], rule triple_new_uuid, simp, simp)
        subgoal for tid
          apply (rule triple_seq [where R = "\<lambda>d. transferred seID toTeamID actorID d0 d (trimmed (u_teamId u), n, tid)"])
           apply (rule triple_exec)
            apply (use u in \<open>auto simp: transferred_def move_leads_def\<close>) [1]
           apply simp
          apply (rule triple_ret, simp add: u)
          done
        done
      done
    done
  show ?thesis
    unfolding transfer_se_tx_def
    apply (rule triple_bind [where R = "\<lambda>u d. d = d0 \<and> user_by_id seID d0 = Some u"])
     apply (rule triple_map_err, rule triple_query_row, simp, simp)
    subgoal for u
      apply (rule triple_assume)
      apply (simp only: Let_def)
      apply (split if_split, intro conjI impI, rule triple_throw, simp)
      apply (split if_split, intro conjI impI, rule triple_throw, simp)
      apply (cases "transfer_se_auth inp (u_teamId u) toTeamID", simp_all only: option.case)
       apply (split if_split, intro conjI impI, rule triple_throw, simp)
       apply (rule triple_weaken [OF locked [unfolded Let_def, of u]], simp, simp, simp, simp, simp, blast, simp)
      apply (rule triple_throw, simp)
      done
    done
qed

definition transfer_outcome :: "transfer_se_input \<Rightarrow> db \<Rightarrow> db \<Rightarrow> bool" where
  "transfer_outcome inp d0 d \<longleftrightarrow>
     (\<exists>r u. transferred (trim (ts_se inp)) (trim (ts_toTeam inp)) (trim (ts_actor inp)) d0 d r \<and>
        user_by_id (trim (ts_se inp)) d0 = Some u \<and>
        (isMainTeamLead (ts_actorRole inp) \<longrightarrow>
           trimmed (u_teamId u) = leadTeamScopeID (ts_actorRole inp) (ts_actorTeam inp) \<and> trimmed (u_teamId u) \<noteq> []))"

lemma transfer_auth_mtl:
  "transfer_se_auth inp team to = None \<Longrightarrow> isMainTeamLead (ts_actorRole inp) \<Longrightarrow>
     trimmed team = leadTeamScopeID (ts_actorRole inp) (ts_actorTeam inp) \<and> trimmed team \<noteq> []"
  by (auto simp: transfer_se_auth_def Let_def split: if_splits)

lemma transferred_moved:
  "transferred se to by d0 d r \<Longrightarrow> fst (snd r) = count_where (\<lambda>l. l_se l = Some se) (leads d0)"
  by (auto simp: transferred_def)

lemma TransferSalesExec_triple:
  "triple (\<lambda>d. d = d0) (TransferSalesExec inp)
     (\<lambda>r d. transfer_outcome inp d0 d \<and> tsr_leadsMoved r = count_where (\<lambda>l. l_se l = Some (trim (ts_se inp))) (leads d0))
     (\<lambda>d. d = d0 \<or> transfer_outcome inp d0 d)"
proof -
  let ?tx = "transfer_se_tx inp (trim (ts_se inp)) (trim (ts_toTeam inp)) (trim (ts_actor inp))"
  have tx: "triple (\<lambda>d. d = d0) (in_tx ?tx)
      (\<lambda>r d. transfer_outcome inp d0 d \<and> fst (snd r) = count_where (\<lambda>l. l_se l = Some (trim (ts_se inp))) (leads d0))
      (\<lambda>d. d = d0 \<or> transfer_outcome inp d0 d)"
  proof (rule triple_in_tx, rule triple_weaken [OF transfer_se_tx_triple], assumption)
    fix r d assume "transferred (trim (ts_se inp)) (trim (ts_toTeam inp)) (trim (ts_actor inp)) d0 d r \<and>
      (\<exists>u. user_by_id (trim (ts_se inp)) d0 = Some u \<and> transfer_se_auth inp (u_teamId u) (trim (ts_toTeam inp)) = None)"
    then show "transfer_outcome inp d0 d \<and> fst (snd r) = count_where (\<lambda>l. l_se l = Some (trim (ts_se inp))) (leads d0)"
      unfolding transfer_outcome_def using transfer_auth_mtl transferred_moved by blast
  qed simp_all
  show ?thesis
    unfolding TransferSalesExec_def Let_def
    apply (split if_split, intro conjI impI, rule triple_throw, simp)+
    apply (rule triple_bind [OF tx])
    subgoal for r
      apply (cases r, simp only: prod.case)
      apply (rule triple_then_read [OF FindByID_readonly], rule triple_ret, simp, simp)
      done
    done
qed


end
