(* ===== verification/Qualification.thy ===== *)
theory Qualification
  imports Prelude
begin

section \<open>Qualification codes (qualification.go)\<close>

text \<open>
  The canonical qualification codes, the normalisation of what clients send, the SQL list of
  assignable codes, and the label shown. The label loop of normalizeQualification runs over a Go
  map in unspecified order; no two labels fold together, so the order does not matter.
\<close>

definition QualQualified :: string where "QualQualified = ''QUALIFIED''"
definition QualQualifiedChat :: string where "QualQualifiedChat = ''QUALIFIED_CHAT''"
definition QualQualifiedCall :: string where "QualQualifiedCall = ''QUALIFIED_CALL''"
definition QualPaid :: string where "QualPaid = ''PAID''"
definition QualOrganic :: string where "QualOrganic = ''ORGANIC''"
definition QualNotQualified :: string where "QualNotQualified = ''NOT_QUALIFIED''"
definition QualIrrelevant :: string where "QualIrrelevant = ''IRRELEVANT''"

lemmas qual_defs = QualQualified_def QualQualifiedChat_def QualQualifiedCall_def QualPaid_def
  QualOrganic_def QualNotQualified_def QualIrrelevant_def

definition qualificationLabels :: "(string \<times> string) list" where
  "qualificationLabels = [
     (QualQualified, ''Qualified''), (QualQualifiedChat, ''Qualified - Chat''),
     (QualQualifiedCall, ''Qualified - Call''), (QualPaid, ''Paid''), (QualOrganic, ''Organic''),
     (QualNotQualified, ''Not Qualified''), (QualIrrelevant, ''Irrelevant'')]"

definition assignableQualificationCodes :: "string list" where
  "assignableQualificationCodes =
     [QualQualified, QualQualifiedChat, QualQualifiedCall, QualPaid, QualOrganic]"

definition allowedQualifications :: "string list" where
  "allowedQualifications = [QualQualified, QualQualifiedChat, QualQualifiedCall, QualPaid,
     QualOrganic, QualNotQualified, QualIrrelevant]"

definition sqlAssignableQualificationIN :: string where
  "sqlAssignableQualificationIN =
     join '', '' (map (\<lambda>code. [CHR 0x27] @ code @ [CHR 0x27]) assignableQualificationCodes)"

definition sqlInAssignableQualification :: "string \<Rightarrow> string" where
  "sqlInAssignableQualification column = column @ '' IN ('' @ sqlAssignableQualificationIN @ '')''"

definition sqlInAssignableQualificationFold :: "string \<Rightarrow> string" where
  "sqlInAssignableQualificationFold column =
     ''UPPER(BTRIM('' @ column @ '')) IN ('' @ sqlAssignableQualificationIN @ '')''"

subsection \<open>Normalisation\<close>

definition replace_char :: "char \<Rightarrow> char \<Rightarrow> string \<Rightarrow> string" where
  "replace_char a b = map (\<lambda>c. if c = a then b else c)"

fun squeeze_pass :: "string \<Rightarrow> string" where
  \<comment> \<open>one \<open>strings.ReplaceAll(key, "__", "_")\<close>, left to right without overlap\<close>
  "squeeze_pass (a # b # cs) =
     (if a = CHR ''_'' \<and> b = CHR ''_'' then CHR ''_'' # squeeze_pass cs else a # squeeze_pass (b # cs))"
| "squeeze_pass s = s"

lemma squeeze_pass_length: "length (squeeze_pass s) \<le> length s"
  by (induction s rule: squeeze_pass.induct) auto

lemma squeeze_pass_shrinks: "contains s ''__'' \<Longrightarrow> length (squeeze_pass s) < length s"
proof (induction s rule: squeeze_pass.induct)
  case (1 a b cs)
  show ?case
  proof (cases "a = CHR ''_'' \<and> b = CHR ''_''")
    case True
    then show ?thesis using squeeze_pass_length [of cs] by simp
  next
    case False
    then have "contains (b # cs) ''__''" using "1.prems" by auto
    then show ?thesis using "1.IH"(2) False by auto
  qed
qed auto

function squeeze :: "string \<Rightarrow> string" where
  "squeeze key = (if contains key ''__'' then squeeze (squeeze_pass key) else key)"
  by pat_completeness auto
termination
  by (relation "measure length") (simp_all add: squeeze_pass_shrinks)

declare squeeze.simps [simp del]

definition trim_underscores :: "string \<Rightarrow> string" where
  \<comment> \<open>\<open>strings.Trim(key, "_")\<close>\<close>
  "trim_underscores s = (let drop = dropWhile (\<lambda>c. c = CHR ''_'') in rev (drop (rev (drop s))))"

definition qual_key :: "string \<Rightarrow> string" where
  "qual_key s = trim_underscores (squeeze
     (replace_char CHR '' '' CHR ''_'' (replace_char CHR ''-'' CHR ''_'' (to_upper s))))"

fun label_match :: "(string \<times> string) list \<Rightarrow> string \<Rightarrow> string option" where
  "label_match [] s = None"
| "label_match ((code, label) # rest) s =
     (if equal_fold (trim label) s then Some code else label_match rest s)"

definition normalizeQualification :: "string \<Rightarrow> string" where
  "normalizeQualification status =
     (let s = trim status in
      if s = [] then []
      else if s \<in> set allowedQualifications then s
      else let key = qual_key s in
        if key \<in> set allowedQualifications then key
        else case label_match qualificationLabels s of Some code \<Rightarrow> code | None \<Rightarrow> s)"

definition canonicalizeQualification :: "string \<Rightarrow> string \<times> bool" where
  "canonicalizeQualification status =
     (let code = normalizeQualification status in (code, code \<in> set allowedQualifications))"

definition isAssignableQualification :: "string \<Rightarrow> bool" where
  "isAssignableQualification status = (let code = normalizeQualification status in
     code \<in> set [QualQualified, QualQualifiedChat, QualQualifiedCall, QualPaid, QualOrganic])"

definition isAllowedQualification :: "string \<Rightarrow> bool" where
  "isAllowedQualification status = snd (canonicalizeQualification status)"

definition sql_assignable_fold :: "string \<Rightarrow> bool" where
  \<comment> \<open>what \<open>sqlInAssignableQualificationFold\<close> makes PostgreSQL test: BTRIM removes spaces only\<close>
  "sql_assignable_fold q \<longleftrightarrow>
     to_upper (btrim q) \<in> set assignableQualificationCodes"

subsection \<open>Display\<close>

text \<open>\<open>humanizeEnum\<close> slices the first byte of a word; the model agrees when that is ASCII, as in
  every code the program stores.\<close>

fun capitalize :: "string \<Rightarrow> string" where
  "capitalize [] = []"
| "capitalize (c # cs) = to_upper [c] @ cs"

definition humanizeEnum :: "string \<Rightarrow> string" where
  "humanizeEnum value = (if value = [] then em_dash
     else join '' '' (map capitalize (split_on CHR ''_'' (to_lower value))))"

definition qualificationDisplay :: "string \<Rightarrow> string" where
  "qualificationDisplay status = (let code = normalizeQualification status in
     case map_of qualificationLabels code of Some label \<Rightarrow> label | None \<Rightarrow> humanizeEnum status)"

subsection \<open>Facts\<close>

lemma squeeze_no_double: "\<not> contains (squeeze s) ''__''"
  by (induction s rule: squeeze.induct) (subst squeeze.simps, simp)

lemma label_match_in: "label_match ls s = Some c \<Longrightarrow> c \<in> fst ` set ls"
  by (induction ls s rule: label_match.induct) (auto split: if_splits)

lemma labels_allowed: "fst ` set qualificationLabels = set allowedQualifications"
  by (auto simp: qualificationLabels_def allowedQualifications_def)

lemma allowed_trim: "q \<in> set allowedQualifications \<Longrightarrow> trim q = q \<and> q \<noteq> []"
  unfolding allowedQualifications_def qual_defs by (simp, elim disjE; simp; code_simp)

lemma normalize_allowed [simp]: "q \<in> set allowedQualifications \<Longrightarrow> normalizeQualification q = q"
  using allowed_trim [of q] by (simp add: normalizeQualification_def)

lemma normalize_cases:
  "normalizeQualification s \<in> set allowedQualifications \<or> normalizeQualification s = trim s"
  using label_match_in labels_allowed by (fastforce simp: normalizeQualification_def Let_def split: option.split)

lemma normalize_idem: "normalizeQualification (normalizeQualification s) = normalizeQualification s"
proof (cases "normalizeQualification s \<in> set allowedQualifications")
  case False
  then have "normalizeQualification s = trim s" using normalize_cases by blast
  moreover have "normalizeQualification (trim s) = normalizeQualification s"
    by (simp add: normalizeQualification_def)
  ultimately show ?thesis by simp
qed simp

lemma assignable_allowed: "set assignableQualificationCodes \<subseteq> set allowedQualifications"
  by (auto simp: assignableQualificationCodes_def allowedQualifications_def)

lemma assignable_iff:
  "isAssignableQualification s \<longleftrightarrow> normalizeQualification s \<in> set assignableQualificationCodes"
  by (simp add: isAssignableQualification_def assignableQualificationCodes_def Let_def)

lemma canonicalize_Some: "canonicalizeQualification s = (c, True) \<Longrightarrow> c \<in> set allowedQualifications"
  by (auto simp: canonicalizeQualification_def Let_def)

text \<open>Normalising a status is idempotent and total; its result is one of the seven
  canonical codes or the trimmed input itself, and an assignable status is always an allowed one.\<close>

theorem normalization_canonical:
  "normalizeQualification (normalizeQualification s) = normalizeQualification s \<and>
   (if isAllowedQualification s then normalizeQualification s \<in> set allowedQualifications
    else normalizeQualification s = trim s \<and> \<not> isAssignableQualification s)"
  using normalize_idem normalize_cases [of s] assignable_allowed
  by (auto simp: isAllowedQualification_def canonicalizeQualification_def Let_def assignable_iff)

lemma display_examples:
  "qualificationDisplay ''qualified - chat'' = ''Qualified - Chat''"
  "normalizeQualification '' not--qualified '' = QualNotQualified"
  "normalizeQualification ''Qualified - Call'' = QualQualifiedCall"
  by code_simp+

end
