(* ===== verification/Display.thy ===== *)
theory Display
  imports Qualification
begin

section \<open>Lead labels and list parameters (leads.go, uploads.go)\<close>

text \<open>
  The pure helpers of leads.go: labels of stages, handoffs and closing, the names of list filters
  and sort orders, limits, and the public path of an uploaded proof. Times are milliseconds.
\<close>

definition defaultLeadLimit :: int where "defaultLeadLimit = 40"
definition maxLeadLimit :: int where "maxLeadLimit = 100"

definition clampLeadLimit :: "int \<Rightarrow> int" where
  "clampLeadLimit limit = (if limit \<le> 0 then defaultLeadLimit
     else if limit > maxLeadLimit then maxLeadLimit else limit)"

definition salesStageDisplay :: "string \<Rightarrow> string" where
  "salesStageDisplay stage =
     (if stage = ''WITH_TEAM_LEAD'' then ''With team lead''
      else if stage = ''WITH_EXECUTIVE'' then ''With executive''
      else if stage = ''NOT_CONNECTED'' then ''Not Connected''
      else if stage = ''IN_NEGOTIATION'' then ''In Negotiation''
      else if stage = ''NO_RESPONSE_FROM_CLIENT'' then ''No Response from Client''
      else if stage = ''CLOSED_WON'' then ''Closed''
      else if stage = ''CLOSED_LOST'' then ''Lost''
      else humanizeEnum stage)"

definition allowedSalesOutcomes :: "string list" where
  "allowedSalesOutcomes = [''IN_NEGOTIATION'', ''NOT_CONNECTED'', ''NO_RESPONSE_FROM_CLIENT'',
     ''CLOSED_WON'', ''CLOSED_LOST'']"

definition isSalesOutcomeStage :: "string \<Rightarrow> bool" where
  "isSalesOutcomeStage stage \<longleftrightarrow> trim stage \<in> set allowedSalesOutcomes"

definition formatLocation :: "string option \<Rightarrow> string option \<Rightarrow> string" where
  "formatLocation city country =
     (let c = (if city \<noteq> None \<and> trimmed city \<noteq> [] then trimmed city else em_dash);
          co = (if country \<noteq> None \<and> trimmed country \<noteq> [] then trimmed country else em_dash)
      in if c = em_dash \<and> co = em_dash then em_dash else c @ '', '' @ co)"

definition displayOrDash :: "string option \<Rightarrow> string" where
  "displayOrDash value = (case value of None \<Rightarrow> em_dash
     | Some v \<Rightarrow> let t = trim v in if t = [] then em_dash else t)"

definition formatHandoff :: "string option \<Rightarrow> string option \<Rightarrow> string" where
  "formatHandoff action detail =
     (if action = None \<or> trimmed action = [] then em_dash
      else let label = humanizeEnum (trimmed action) in
        if detail = None \<or> trimmed detail = [] then label
        else let d0 = trimmed detail;
                 d = (if length d0 > 72 then take 71 d0 @ ellipsis else d0)
             in label @ '' '' @ mid_dot @ '' '' @ d)"

definition closedLabel :: "int option \<Rightarrow> string \<Rightarrow> string" where
  "closedLabel closedAt stage =
     (if trim stage = ''CLOSED_LOST'' then ''Lost''
      else if trim stage = ''CLOSED_WON'' then ''Closed''
      else if closedAt \<noteq> None then ''Closed'' else ''Open'')"

definition timeToCloseMinutes :: "int \<Rightarrow> int option \<Rightarrow> int option" where
  "timeToCloseMinutes createdAt closedAt = (case closedAt of None \<Rightarrow> None
     | Some c \<Rightarrow> Some (let ms = c - createdAt in if ms < 0 then 0 else ms div 60000))"

definition filter_names :: "(string \<times> string list) list" where
  \<comment> \<open>the cases of normalizeLeadFilter, in order\<close>
  "filter_names = [
     (''all'', ['''', ''all'']), (''new'', [''new'']), (''qualified'', [''qualified'']),
     (''irrelevant'', [''irrelevant'']),
     (''not_appropriate'', [''not_appropriate'', ''not-appropriate'', ''inappropriate'']),
     (''open'', [''open'']), (''contacted'', [''contacted'']), (''converted'', [''converted'']),
     (''lost'', [''lost'']), (''not_qualified'', [''not_qualified'', ''not-qualified'']),
     (''passed'', [''passed'', ''total_pass'', ''total-pass'', ''handed_off'', ''handed-off'']),
     (''passed_se_tl'', [''passed_se_tl'', ''passed-se-tl'', ''passed_to_se_tl'']),
     (''not_passed'', [''not_passed'', ''not-passed'', ''unpassed'', ''not_passed_se_tl'']),
     (''with_team_lead'', [''with_team_lead'', ''with-team-lead'', ''with_tl'']),
     (''with_sales_exec'', [''with_sales_exec'', ''with-sales-exec'', ''with_se'']),
     (''assigned'', [''assigned'', ''assigned_internal'', ''assigned-internal'']),
     (''in_progress'', [''in_progress'', ''in-progress'']),
     (''pipeline'', [''pipeline'', ''pipeline_all'', ''pipeline-all'']),
     (''pipeline_assigned'', [''pipeline_assigned'', ''pipeline-assigned'']),
     (''pipeline_in_progress'', [''pipeline_in_progress'', ''pipeline-in-progress'',
        ''pipeline_progress'', ''pipeline-progress'']),
     (''pipeline_won'', [''pipeline_won'', ''pipeline-won'']),
     (''pipeline_lost'', [''pipeline_lost'', ''pipeline-lost''])]"

fun case_lookup :: "(string \<times> string list) list \<Rightarrow> string \<Rightarrow> string \<Rightarrow> string" where
  \<comment> \<open>a Go switch over string constants with a default\<close>
  "case_lookup [] dflt key = dflt"
| "case_lookup ((r, keys) # rest) dflt key = (if key \<in> set keys then r else case_lookup rest dflt key)"

definition normalizeLeadFilter :: "string \<Rightarrow> string" where
  "normalizeLeadFilter filt = case_lookup filter_names ''all'' (to_lower (trim filt))"

definition sort_names :: "(string \<times> string list) list" where
  "sort_names = [
     (''name'', ['''', ''name'', ''name-asc'', ''a-z'', ''az'']), (''newest'', [''newest'']),
     (''oldest'', [''oldest'']),
     (''recent'', [''recent'', ''recently-updated'', ''activity'', ''last-updated'']),
     (''status'', [''status'']), (''stage'', [''stage'']), (''value'', [''value'']),
     (''analyst'', [''analyst''])]"

definition normalizeLeadSort :: "string \<Rightarrow> string" where
  "normalizeLeadSort srt = case_lookup sort_names ''name'' (to_lower (trim srt))"

subsection \<open>Proof paths\<close>

definition filepath_base :: "string \<Rightarrow> string" where
  \<comment> \<open>filepath.Base on a system whose separator is the slash\<close>
  "filepath_base p =
     (if p = [] then ''.''
      else let q = rev (dropWhile (\<lambda>c. c = CHR ''/'') (rev p)) in
        if q = [] then ''/'' else rev (takeWhile (\<lambda>c. c \<noteq> CHR ''/'') (rev q)))"

definition proofPublicPath :: "string \<Rightarrow> string" where
  "proofPublicPath filename = ''/api/uploads/first-response/'' @ filename"

definition proofStoredNameFromPath :: "string \<Rightarrow> string" where
  "proofStoredNameFromPath path0 = (let path = trim path0 in
     if path = [] then []
     else if has_prefix path ''/api/uploads/first-response/'' then filepath_base path
     else filepath_base path)"

definition resolveFirstResponse :: "string \<Rightarrow> string \<Rightarrow> string option" where
  \<comment> \<open>the path joined under the upload directory; the joined name is a single path element, so the
      prefix test of the code succeeds\<close>
  "resolveFirstResponse dir name0 = (let name = filepath_base (trim name0) in
     if name = [] \<or> name = ''.'' \<or> name = ''..'' then None
     else if name = ''/'' then None
     else Some (dir @ ''/'' @ name))"

definition optionalProofPath :: "string option \<Rightarrow> string option" where
  "optionalProofPath raw = (case raw of None \<Rightarrow> None
     | Some r \<Rightarrow> let t = trim r in if t = [] then None else Some t)"

subsection \<open>Facts\<close>

lemma clamp_bounds: "1 \<le> clampLeadLimit n \<and> clampLeadLimit n \<le> maxLeadLimit"
  by (auto simp: clampLeadLimit_def defaultLeadLimit_def maxLeadLimit_def)

lemma case_lookup_in: "case_lookup cs dflt k \<in> insert dflt (fst ` set cs)"
  by (induction cs dflt k rule: case_lookup.induct) auto

lemma base_no_slash: "CHR ''/'' \<in> set (filepath_base p) \<Longrightarrow> filepath_base p = ''/''"
  by (auto simp: filepath_base_def Let_def split: if_splits dest: set_takeWhileD)

lemma base_nonempty: "filepath_base p \<noteq> []"
proof -
  let ?q = "dropWhile (\<lambda>c. c = CHR ''/'') (rev p)"
  have "?q \<noteq> [] \<Longrightarrow> hd ?q \<noteq> CHR ''/''" by (metis (mono_tags, lifting) hd_dropWhile)
  then show ?thesis by (cases ?q) (auto simp: filepath_base_def Let_def)
qed

text \<open>A proof file is always resolved to a direct child of the upload directory,
  whatever name the client sends: the name below the directory is one path element that is neither
  empty nor a dot entry.\<close>

theorem proof_file_stays_inside:
  assumes "resolveFirstResponse dir name = Some full"
  shows "\<exists>n. full = dir @ ''/'' @ n \<and> n \<noteq> [] \<and> CHR ''/'' \<notin> set n \<and> n \<noteq> ''.'' \<and> n \<noteq> ''..''"
  using assms base_no_slash [of "trim name"]
  by (auto simp: resolveFirstResponse_def Let_def split: if_splits)

theorem proof_file_stays_inside_witness:
  "\<exists>n. ''/srv/passwd'' = ''/srv'' @ ''/'' @ n \<and> CHR ''/'' \<notin> set n"
proof -
  have "resolveFirstResponse ''/srv'' ''../../etc/passwd'' = Some ''/srv/passwd''" by code_simp
  from proof_file_stays_inside [OF this] show ?thesis by blast
qed

end
