(* ===== verification/LeadOps.thy ===== *)
theory LeadOps
  imports Effects Roles Display
begin

section \<open>The lead store (leads.go, qualification_log.go)\<close>

text \<open>
  Creating and changing leads, the log of qualification changes, and the scope checks. Timestamps
  are milliseconds; their display as text is not modelled, so \<open>lead_detail\<close> carries the instants.
\<close>

subsection \<open>The qualification log\<close>

definition zero_time :: int where
  \<comment> \<open>Go's zero \<open>time.Time\<close>, January 1 of year 1\<close>
  "zero_time = - 62135596800000"

definition some_if :: "string \<Rightarrow> string option" where
  "some_if s = (if s \<noteq> [] then Some s else None)"

definition log_refs_ok :: "string \<Rightarrow> string option \<Rightarrow> db \<Rightarrow> bool" where
  \<comment> \<open>the foreign keys of "LeadQualificationStatusLog"\<close>
  "log_refs_ok leadID actor d \<longleftrightarrow> lead_by_id leadID d \<noteq> None \<and>
     (case actor of None \<Rightarrow> True | Some a \<Rightarrow> user_by_id a d \<noteq> None)"

definition insertQualificationLog ::
  "string \<Rightarrow> string \<Rightarrow> string \<Rightarrow> string \<Rightarrow> string \<Rightarrow> string \<Rightarrow> int \<Rightarrow> unit op" where
  "insertQualificationLog leadID0 fromStatus toStatus0 actorID reason source at0 =
     (let leadID = trim leadID0; toStatus = trim toStatus0; from = trim fromStatus in
      if leadID = [] \<or> toStatus = [] then ret ()
      else if from \<noteq> [] \<and> from = toStatus then ret ()
      else bindE get_now (\<lambda>t. let ts = (if at0 = zero_time then t else at0);
             src = (if trim source = [] then ''update'' else trim source) in
        bindE new_uuid (\<lambda>i. exec_fk (log_refs_ok leadID (some_if (trim actorID))) (\<lambda>d. d\<lparr>quallogs := quallogs d @
          [\<lparr>ql_id = i, ql_lead = leadID, ql_from = some_if from, ql_to = toStatus, ql_at = ts,
            ql_actor = some_if (trim actorID), ql_reason = some_if (trim reason), ql_source = src\<rparr>]\<rparr>))))"

definition recordQualificationChange ::
  "string \<Rightarrow> string \<Rightarrow> string \<Rightarrow> string \<Rightarrow> string \<Rightarrow> string \<Rightarrow> int \<Rightarrow> unit op" where
  "recordQualificationChange leadID0 fromStatus toStatus0 actorID reason source at0 =
     (let leadID = trim leadID0; toStatus = trim toStatus0; from = trim fromStatus in
      if leadID = [] \<or> toStatus = [] then ret ()
      else if from \<noteq> [] \<and> from = toStatus then ret ()
      else bindE get_now (\<lambda>t. let ts = (if at0 = zero_time then t else at0) in
        in_tx (seqE (insertQualificationLog leadID from toStatus actorID reason source ts)
          (exec (upd_leads (\<lambda>l. l_id l = leadID) (\<lambda>l. l\<lparr>l_qualAt := Some ts\<rparr>))))))"

record qual_change =
  qc_from :: "string option"
  qc_to :: string
  qc_fromLabel :: "string option"
  qc_toLabel :: string
  qc_at :: int
  qc_actorName :: "string option"
  qc_reason :: "string option"
  qc_source :: string
  qc_minutesInPrevious :: "int option"
  qc_minutesInStatus :: int
  qc_isCurrent :: bool

definition round_minutes :: "int \<Rightarrow> int" where
  \<comment> \<open>\<open>int(math.Round(d.Minutes()))\<close>, negatives clamped to 0\<close>
  "round_minutes ms = (if ms < 0 then 0 else (ms + 30000) div 60000)"

definition log_rows :: "string \<Rightarrow> db \<Rightarrow> (quallog \<times> string option) list" where
  "log_rows leadID d = map (\<lambda>q. (q, case ql_actor q of None \<Rightarrow> None
        | Some a \<Rightarrow> (case user_by_id a d of None \<Rightarrow> None
            | Some u \<Rightarrow> if btrim (u_name u) = [] then None else Some (btrim (u_name u)))))
     (sort_key ql_at (sort_key ql_id (filter (\<lambda>q. ql_lead q = leadID) (quallogs d))))"

fun history_items :: "int \<Rightarrow> int option \<Rightarrow> (quallog \<times> string option) list \<Rightarrow> qual_change list" where
  \<comment> \<open>the loop over the rows; \<open>prev\<close> is the instant of the row before\<close>
  "history_items t prev [] = []"
| "history_items t prev ((r, actor) # rest) =
     \<lparr>qc_from = ql_from r, qc_to = ql_to r,
      qc_fromLabel = (case ql_from r of None \<Rightarrow> None
        | Some f \<Rightarrow> if trim f \<noteq> [] then Some (qualificationDisplay f) else None),
      qc_toLabel = qualificationDisplay (ql_to r), qc_at = ql_at r, qc_actorName = actor,
      qc_reason = ql_reason r, qc_source = ql_source r,
      qc_minutesInPrevious = map_option (\<lambda>p. round_minutes (ql_at r - p)) prev,
      qc_minutesInStatus = round_minutes ((case rest of [] \<Rightarrow> t | (n, _) # _ \<Rightarrow> ql_at n) - ql_at r),
      qc_isCurrent = (rest = [])\<rparr> # history_items t (Some (ql_at r)) rest"

definition ListQualificationHistory :: "string \<Rightarrow> qual_change list op" where
  "ListQualificationHistory leadID0 = (let leadID = trim leadID0 in
     if leadID = [] then ret []
     else bindE (query (log_rows leadID)) (\<lambda>raws.
       bindE get_now (\<lambda>t. ret (history_items t None raws))))"

definition ensureQualificationLogSeeded :: "string \<Rightarrow> string \<Rightarrow> int \<Rightarrow> unit op" where
  "ensureQualificationLogSeeded leadID0 status0 createdAt =
     (let leadID = trim leadID0; status = trim status0 in
      if leadID = [] \<or> status = [] then ret ()
      else bindE (query (\<lambda>d. count_where (\<lambda>q. ql_lead q = leadID) (quallogs d))) (\<lambda>n.
        if n > 0 then ret ()
        else bindE get_now (\<lambda>t. let ts = (if createdAt = zero_time then t else createdAt) in
          recordQualificationChange leadID [] status [] [] ''backfill'' ts)))"

subsection \<open>Changing the qualification\<close>

definition set_qual :: "string \<Rightarrow> string \<Rightarrow> int \<Rightarrow> db \<Rightarrow> db" where
  "set_qual i status t = upd_leads (\<lambda>l. l_id l = i)
     (\<lambda>l. l\<lparr>l_qual := status, l_qualAt := Some t, l_updatedAt := t\<rparr>)"

definition lead_count :: "string \<Rightarrow> db \<Rightarrow> nat" where
  "lead_count i d = count_where (\<lambda>l. l_id l = i) (leads d)"

definition UpdateQualificationStatus :: "string \<Rightarrow> string \<Rightarrow> string \<Rightarrow> string op" where
  "UpdateQualificationStatus id0 status0 actorID =
     (let i = trim id0 in case canonicalizeQualification status0 of (status, ok) \<Rightarrow>
      if i = [] then throw (ErrMsg ''lead id is required'')
      else if \<not> ok then throw (ErrMsg ''invalid qualification status'')
      else bindE (map_err (\<lambda>_. ErrMsg ''lead not found'') (query_row (\<lambda>d. map_option l_qual (lead_by_id i d)))) (\<lambda>current.
        if trim current = status then ret status
        else bindE get_now (\<lambda>t. in_tx (
          bindE (exec_tag (lead_count i) (set_qual i status t)) (\<lambda>n.
          seqE (guard (n \<noteq> 0) (ErrMsg ''lead not found''))
          (seqE (insertQualificationLog i current status actorID [] ''patch_qual'' t)
          (ret status)))))))"

subsection \<open>Phone lookups\<close>

definition defaultCreatorID :: "string op" where
  "defaultCreatorID = query_row (\<lambda>d. map_option u_id
     (first_by u_createdAt (filter (\<lambda>u. u_role u = ''SUPERADMIN'') (users d))))"

definition contactPhoneDigits :: "string \<Rightarrow> string" where
  "contactPhoneDigits phone = filter is_digit phone"

record phone_presence =
  pp_id :: string
  pp_name :: string
  pp_team :: "string option"
  pp_portals :: "string list"
  pp_sources :: "string list"

definition team_name_of :: "db \<Rightarrow> lead \<Rightarrow> string option" where
  \<comment> \<open>\<open>NULLIF(BTRIM(COALESCE(t.name, '')), '')\<close> of the joined team\<close>
  "team_name_of d l = (case l_team l of None \<Rightarrow> None | Some t \<Rightarrow> (case team_by_id t d of None \<Rightarrow> None
     | Some x \<Rightarrow> if btrim (t_name x) = [] then None else Some (btrim (t_name x))))"

definition phone_matches :: "string \<Rightarrow> string \<Rightarrow> lead \<Rightarrow> bool" where
  "phone_matches digits exclude l \<longleftrightarrow> (exclude = [] \<or> l_id l \<noteq> exclude) \<and>
     l_phone l \<noteq> None \<and> contactPhoneDigits (deref (l_phone l)) = digits"

fun add_distinct :: "string list \<Rightarrow> string list \<Rightarrow> string list" where
  \<comment> \<open>append the non-empty values not seen before\<close>
  "add_distinct acc [] = acc"
| "add_distinct acc (x # xs) = add_distinct (if x \<noteq> [] \<and> x \<notin> set acc then acc @ [x] else acc) xs"

definition FindPhonePresence :: "string \<Rightarrow> string \<Rightarrow> phone_presence option op" where
  "FindPhonePresence phone excludeID =
     (let digits = contactPhoneDigits phone in
      if length digits < 5 then ret None
      else let exclude = trim excludeID in
        query (\<lambda>d. let rows = take 50 (sort_key (\<lambda>l. - l_updatedAt l) (filter (phone_matches digits exclude) (leads d))) in
          case rows of [] \<Rightarrow> None
          | l # _ \<Rightarrow> Some \<lparr>pp_id = l_id l, pp_name = l_name l, pp_team = team_name_of d l,
              pp_portals = add_distinct [] (map (\<lambda>l. btrim (deref (l_portal l))) rows),
              pp_sources = add_distinct [] (map (\<lambda>l. btrim (l_source l)) rows)\<rparr>))"

record contact_match =
  cm_id :: string
  cm_name :: string
  cm_team :: "string option"
  cm_on :: string
  cm_fields :: "string list"

definition FindLeadByPhone :: "string \<Rightarrow> string \<Rightarrow> contact_match option op" where
  "FindLeadByPhone phone excludeID = bindE (FindPhonePresence phone excludeID) (\<lambda>p.
     ret (map_option (\<lambda>p. \<lparr>cm_id = pp_id p, cm_name = pp_name p, cm_team = pp_team p,
       cm_on = ''phone'', cm_fields = [''phone'']\<rparr>) p))"

definition FindDuplicateByPhonePortalSource ::
  "string \<Rightarrow> string \<Rightarrow> string \<Rightarrow> string \<Rightarrow> contact_match option op" where
  "FindDuplicateByPhonePortalSource phone portalWebsite source excludeID =
     (let digits = contactPhoneDigits phone; sourceNorm = trim source in
      if length digits < 5 then ret None
      else if sourceNorm = [] then ret None
      else let portalNorm = to_lower (trim portalWebsite); exclude = trim excludeID in
        query (\<lambda>d. map_option (\<lambda>l. \<lparr>cm_id = l_id l, cm_name = l_name l, cm_team = team_name_of d l,
            cm_on = ''phone+portal+source'', cm_fields = [''phone'', ''portalWebsite'', ''source'']\<rparr>)
          (find (\<lambda>l. phone_matches digits exclude l \<and> btrim (l_source l) = sourceNorm
             \<and> to_lower (btrim (deref (l_portal l))) = portalNorm) (leads d))))"

subsection \<open>Creating a lead\<close>

record create_lead_input =
  cl_name :: string
  cl_email :: "string option"
  cl_phone :: "string option"
  cl_country :: "string option"
  cl_city :: "string option"
  cl_portal :: "string option"
  cl_source :: string
  cl_metaProfile :: "string option"
  cl_language :: "string option"
  cl_profile :: "string option"
  cl_qual :: string
  cl_score :: "int option"
  cl_createdAt :: "int option"
  cl_notes :: "string option"
  cl_clientAt :: "int option"
  cl_agentAt :: "int option"
  cl_respMinutes :: "int option"
  cl_proof :: "string option"
  cl_createdBy :: string

definition allowedLeadSources :: "string list" where
  "allowedLeadSources = [''Meta WhatsApp'', ''Meta Messenger'', ''Website WhatsApp'', ''Meta Lead Form'',
     ''Website Download Form'', ''G.WhatsApp(CAM/CWA/CRW)'', ''Google LeadForm'']"

definition out_of_range :: "int option \<Rightarrow> int \<Rightarrow> bool" where
  "out_of_range v hi = (case v of None \<Rightarrow> False | Some n \<Rightarrow> n < 0 \<or> n > hi)"

definition new_lead :: "string \<Rightarrow> create_lead_input \<Rightarrow> string \<Rightarrow> string \<Rightarrow> int \<Rightarrow> int \<Rightarrow> lead" where
  \<comment> \<open>the INSERT of Create\<close>
  "new_lead i inp qual createdBy createdAt t = (blank_lead i)\<lparr>
     l_name := trim (cl_name inp), l_phone := cl_phone inp, l_email := cl_email inp,
     l_country := cl_country inp, l_city := cl_city inp, l_source := cl_source inp,
     l_metaProfile := cl_metaProfile inp, l_notes := cl_notes inp, l_qual := qual,
     l_score := cl_score inp, l_stage := ''PRE_SALES'', l_createdBy := Some createdBy, l_reassigns := 0,
     l_createdAt := createdAt, l_updatedAt := t, l_currency := ''AUD'', l_portal := cl_portal inp,
     l_language := cl_language inp, l_profile := cl_profile inp, l_clientAt := cl_clientAt inp,
     l_agentAt := cl_agentAt inp, l_respMinutes := cl_respMinutes inp,
     l_proof := optionalProofPath (cl_proof inp)\<rparr>"

definition created_detail :: "string \<Rightarrow> string op" where
  \<comment> \<open>the handoff detail; a failed look-up of the name is ignored by the code\<close>
  "created_detail createdBy =
     bindE (attempt (query_row (\<lambda>d. map_option u_name (user_by_id createdBy d)))) (\<lambda>r. ret (case r of
       Inr n \<Rightarrow> if n \<noteq> [] then ''Created by '' @ n else ''Created via LeadFlow UI''
     | Inl _ \<Rightarrow> ''Created via LeadFlow UI''))"

definition check_lead_input :: "create_lead_input \<Rightarrow> err option" where
  "check_lead_input inp =
     (if out_of_range (cl_score inp) 100 then Some (ErrMsg ''lead score must be between 0 and 100'')
      else if out_of_range (cl_respMinutes inp) (7 * 24 * 60)
        then Some (ErrMsg ''first response duration must be between 0 minutes and 7 days'')
      else None)"

definition create_lead_tx ::
  "string \<Rightarrow> create_lead_input \<Rightarrow> string \<Rightarrow> string \<Rightarrow> int \<Rightarrow> int \<Rightarrow> unit op" where
  "create_lead_tx i inp qual createdBy createdAt t =
     seqE (exec_insert (\<lambda>d. lead_by_id i d \<noteq> None) (\<lambda>d. d\<lparr>leads := leads d @ [new_lead i inp qual createdBy createdAt t]\<rparr>))
     (bindE (created_detail createdBy) (\<lambda>detail.
      bindE new_uuid (\<lambda>h.
      seqE (exec (\<lambda>d. d\<lparr>handoffs := handoffs d @ [\<lparr>ho_id = h, ho_at = createdAt, ho_lead = i,
              ho_action = ''LEAD_CREATED'', ho_actor = createdBy, ho_detail = detail\<rparr>]\<rparr>))
      (seqE (insertQualificationLog i [] qual createdBy [] ''create'' createdAt)
      (exec (upd_leads (\<lambda>l. l_id l = i) (\<lambda>l. l\<lparr>l_qualAt := Some createdAt\<rparr>)))))))"

definition CreateLead :: "create_lead_input \<Rightarrow> string op" where
  "CreateLead inp =
     (if length (trim (cl_name inp)) > 200 then throw (ErrMsg ''full name must be at most 200 characters'')
      else if cl_source inp \<notin> set allowedLeadSources then throw (ErrMsg ''invalid source'')
      else case canonicalizeQualification (cl_qual inp) of (qual, ok) \<Rightarrow>
      if \<not> ok then throw (ErrMsg ''invalid qualification status'')
      else case check_lead_input inp of Some e \<Rightarrow> throw e | None \<Rightarrow>
      bindE (if trim (cl_createdBy inp) = []
             then map_err (\<lambda>e. ErrMsg ''no creator available'') defaultCreatorID
             else ret (trim (cl_createdBy inp))) (\<lambda>createdBy.
      bindE get_now (\<lambda>t. let createdAt = (case cl_createdAt inp of None \<Rightarrow> t | Some c \<Rightarrow> c) in
      bindE new_uuid (\<lambda>i.
      seqE (in_tx (create_lead_tx i inp qual createdBy createdAt t)) (ret i)))))"

end
