(* ===== verification/LeadChanges.thy ===== *)
theory LeadChanges
  imports LeadOps
begin

section \<open>Reading and changing leads (leads.go)\<close>

text \<open>
  The detail view, which back-fills the qualification log as it reads, the sales outcome, the
  not-appropriate flag, the full update, and the four scope checks behind requireLeadAccess.
\<close>

record lead_detail =
  ld_lead :: lead
  ld_stageLabel :: string
  ld_closed :: string
  ld_timeToClose :: "int option"
  ld_currency :: string
  ld_proof :: "string option"
  ld_dealValue :: "rat option"
  ld_qualAt :: "int option"
  ld_history :: "qual_change list"

definition detail_of :: "lead \<Rightarrow> qual_change list \<Rightarrow> lead_detail" where
  "detail_of l history = \<lparr>ld_lead = l,
     ld_stageLabel = salesStageDisplay (l_stage l),
     ld_closed = closedLabel (l_closedAt l) (l_stage l),
     ld_timeToClose = timeToCloseMinutes (l_createdAt l) (l_closedAt l),
     ld_currency = (if trim (l_currency l) = [] then ''AUD'' else l_currency l),
     ld_proof = (if l_proof l \<noteq> None \<and> trimmed (l_proof l) \<noteq> []
        then Some (proofPublicPath (proofStoredNameFromPath (deref (l_proof l)))) else None),
     ld_dealValue = (if l_revenue l \<noteq> None then l_revenue l else l_deal l),
     ld_qualAt = (if history \<noteq> [] \<and> l_qualAt l = None then Some (qc_at (last history)) else l_qualAt l),
     ld_history = history\<rparr>"

definition GetByID :: "string \<Rightarrow> lead_detail op" where
  "GetByID i = bindE (query_row (lead_by_id i)) (\<lambda>l.
     seqE (attempt (ensureQualificationLogSeeded (l_id l) (l_qual l) (l_createdAt l)))
     (bindE (attempt (ListQualificationHistory (l_id l))) (\<lambda>h.
        ret (detail_of l (case h of Inr hist \<Rightarrow> hist | Inl _ \<Rightarrow> [])))))"

subsection \<open>Sales outcome\<close>

record outcome_input =
  so_stage :: string
  so_payment :: "rat option"
  so_revenue :: "rat option"
  so_notes :: "string option"
  so_hasStage :: bool
  so_hasPayment :: bool
  so_hasRevenue :: bool
  so_hasNotes :: bool

definition negative :: "rat option \<Rightarrow> bool" where
  "negative p = (case p of None \<Rightarrow> False | Some x \<Rightarrow> x < 0)"

definition closed_at :: "string \<Rightarrow> int option \<Rightarrow> int \<Rightarrow> int option" where
  \<comment> \<open>closing keeps the first closing time, any other stage clears it\<close>
  "closed_at stage currentClosedAt t =
     (if stage = ''CLOSED_WON'' \<or> stage = ''CLOSED_LOST''
      then (case currentClosedAt of Some c \<Rightarrow> Some c | None \<Rightarrow> Some t) else None)"

definition apply_outcome :: "outcome_input \<Rightarrow> string \<Rightarrow> int option \<Rightarrow> int \<Rightarrow> lead \<Rightarrow> lead" where
  \<comment> \<open>the SET list built from the parts that are present\<close>
  "apply_outcome inp stage currentClosedAt t l0 =
     (let l1 = l0\<lparr>l_updatedAt := t\<rparr>;
          l2 = (if so_hasStage inp then l1\<lparr>l_stage := stage, l_closedAt := closed_at stage currentClosedAt t\<rparr> else l1);
          l3 = (if so_hasPayment inp then l2\<lparr>l_payment := so_payment inp\<rparr> else l2);
          l4 = (if so_hasRevenue inp then l3\<lparr>l_revenue := so_revenue inp, l_deal := so_revenue inp,
                  l_currency := ''AUD''\<rparr> else l3)
      in if so_hasNotes inp then l4\<lparr>l_lostNotes := so_notes inp\<rparr> else l4)"

definition check_outcome :: "outcome_input \<Rightarrow> string \<Rightarrow> rat option \<Rightarrow> err option" where
  "check_outcome inp stage existingRevenue =
     (if so_hasStage inp \<and> \<not> isSalesOutcomeStage stage then Some (ErrMsg ''invalid sales outcome'')
      else if so_hasPayment inp \<and> negative (so_payment inp) then Some (ErrMsg ''initial payment cannot be negative'')
      else if so_hasRevenue inp \<and> negative (so_revenue inp) then Some (ErrMsg ''closed revenue cannot be negative'')
      else let revenue = (if so_hasRevenue inp then so_revenue inp else existingRevenue) in
        if stage = ''CLOSED_WON'' \<and> (case revenue of None \<Rightarrow> True | Some x \<Rightarrow> x \<le> 0)
        then Some (ErrMsg ''closed revenue is required when outcome is Closed'') else None)"

definition UpdateSalesOutcome :: "string \<Rightarrow> outcome_input \<Rightarrow> lead_detail op" where
  "UpdateSalesOutcome i inp =
     (if trim i = [] then throw (ErrMsg ''lead id is required'')
      else if \<not> so_hasStage inp \<and> \<not> so_hasPayment inp \<and> \<not> so_hasRevenue inp \<and> \<not> so_hasNotes inp then GetByID i
      else bindE (map_err (\<lambda>_. ErrMsg ''lead not found'') (query_row (lead_by_id i))) (\<lambda>row.
        let stage = (if so_hasStage inp then trim (so_stage inp) else l_stage row) in
        case check_outcome inp stage (l_revenue row) of Some e \<Rightarrow> throw e | None \<Rightarrow>
        bindE get_now (\<lambda>t.
        bindE (exec_tag (lead_count i) (upd_leads (\<lambda>l. l_id l = i) (apply_outcome inp stage (l_closedAt row) t))) (\<lambda>n.
        seqE (guard (n \<noteq> 0) (ErrMsg ''lead not found'')) (GetByID i)))))"

subsection \<open>Not appropriate\<close>

definition notAppropriateReasonMin :: nat where "notAppropriateReasonMin = 10"
definition notAppropriateReasonMax :: nat where "notAppropriateReasonMax = 2000"

definition flag_lead :: "string \<Rightarrow> string \<Rightarrow> string \<Rightarrow> int \<Rightarrow> db \<Rightarrow> db" where
  "flag_lead i reason actorID t = upd_leads (\<lambda>l. l_id l = i \<and> \<not> l_notAppr l)
     (\<lambda>l. l\<lparr>l_notAppr := True, l_notApprReason := Some reason, l_notApprAt := Some t,
        l_notApprBy := some_if actorID, l_qual := ''IRRELEVANT'',
        l_qualAt := (if l_qual l \<noteq> ''IRRELEVANT'' then Some t else l_qualAt l), l_updatedAt := t\<rparr>)"

definition MarkNotAppropriate :: "string \<Rightarrow> string \<Rightarrow> string \<Rightarrow> lead_detail op" where
  "MarkNotAppropriate id0 reason0 actorID0 =
     (let i = trim id0; reason = trim reason0; actorID = trim actorID0 in
      if i = [] then throw (ErrMsg ''lead id is required'')
      else if reason = [] then throw (ErrMsg ''reason is required'')
      else if length reason < notAppropriateReasonMin then throw (ErrMsg ''reason must be at least 10 characters'')
      else if length reason > notAppropriateReasonMax then throw (ErrMsg ''reason must be at most 2000 characters'')
      else bindE (map_err (\<lambda>_. ErrMsg ''lead not found'') (query_row (lead_by_id i))) (\<lambda>row.
        if l_notAppr row then
          (if l_notApprReason row \<noteq> None \<and> trimmed (l_notApprReason row) = reason then GetByID i
           else throw (ErrMsg ''lead is already marked not appropriate''))
        else bindE get_now (\<lambda>t.
        bindE (attempt (query_row (\<lambda>d. map_option l_qual (lead_by_id i d)))) (\<lambda>q.
        let currentQual = (case q of Inr s \<Rightarrow> s | Inl _ \<Rightarrow> []) in
        seqE (in_tx (
          bindE (exec_tag (\<lambda>d. count_where (\<lambda>l. l_id l = i \<and> \<not> l_notAppr l) (leads d)) (flag_lead i reason actorID t)) (\<lambda>n.
          seqE (guard (n \<noteq> 0) (ErrMsg ''lead is already marked not appropriate''))
          (if trim currentQual \<noteq> ''IRRELEVANT''
           then insertQualificationLog i currentQual ''IRRELEVANT'' actorID reason ''not_appropriate'' t
           else ret ()))))
        (GetByID i)))))"

subsection \<open>Scope checks\<close>

definition IsCreatedBy :: "string \<Rightarrow> string \<Rightarrow> bool op" where
  "IsCreatedBy leadID0 userID0 = (let leadID = trim leadID0; userID = trim userID0 in
     if leadID = [] \<or> userID = [] then ret False
     else query (\<lambda>d. list_ex (\<lambda>l. l_id l = leadID \<and> l_createdBy l = Some userID) (leads d)))"

definition in_analyst_scope :: "db \<Rightarrow> string \<Rightarrow> string \<Rightarrow> lead \<Rightarrow> bool" where
  \<comment> \<open>the condition analystTeamLeadScopeSQL generates, for a non-empty \<open>atlID\<close>\<close>
  "in_analyst_scope d atlID teamName l = list_ex (\<lambda>creator. l_createdBy l = Some (u_id creator) \<and>
     (u_id creator = atlID \<or> (u_role creator = RoleLeadAnalyst \<and>
        (u_managerId creator = Some atlID \<or>
         (teamName \<noteq> [] \<and> to_lower (btrim (deref (u_analystTeam creator))) = to_lower (btrim teamName)))))) (users d)"

definition IsCreatedByAnalystTeam :: "string \<Rightarrow> string \<Rightarrow> string \<Rightarrow> bool op" where
  "IsCreatedByAnalystTeam leadID0 atlID0 teamName = (let leadID = trim leadID0; atlID = trim atlID0 in
     if leadID = [] \<or> atlID = [] then ret False
     else query (\<lambda>d. list_ex (\<lambda>l. l_id l = leadID \<and> in_analyst_scope d atlID (trim teamName) l) (leads d)))"

definition IsOnTeam :: "string \<Rightarrow> string \<Rightarrow> bool op" where
  "IsOnTeam leadID0 teamID0 = (let leadID = trim leadID0; teamID = trim teamID0 in
     if leadID = [] \<or> teamID = [] then ret False
     else query (\<lambda>d. list_ex (\<lambda>l. l_id l = leadID \<and> l_team l = Some teamID) (leads d)))"

definition IsAssignedToSalesExec :: "string \<Rightarrow> string \<Rightarrow> bool op" where
  "IsAssignedToSalesExec leadID0 seID0 = (let leadID = trim leadID0; seID = trim seID0 in
     if leadID = [] \<or> seID = [] then ret False
     else query (\<lambda>d. list_ex (\<lambda>l. l_id l = leadID \<and> l_se l = Some seID) (leads d)))"

subsection \<open>Full update\<close>

definition apply_update :: "create_lead_input \<Rightarrow> string \<Rightarrow> bool \<Rightarrow> int \<Rightarrow> lead \<Rightarrow> lead" where
  "apply_update inp qual statusChanged t l = l\<lparr>
     l_name := trim (cl_name inp), l_email := cl_email inp, l_phone := cl_phone inp,
     l_country := cl_country inp, l_city := cl_city inp, l_portal := cl_portal inp,
     l_source := cl_source inp, l_metaProfile := cl_metaProfile inp, l_language := cl_language inp,
     l_profile := cl_profile inp, l_qual := qual, l_score := cl_score inp, l_notes := cl_notes inp,
     l_clientAt := cl_clientAt inp, l_agentAt := cl_agentAt inp, l_respMinutes := cl_respMinutes inp,
     l_proof := optionalProofPath (cl_proof inp),
     l_createdAt := (case cl_createdAt inp of Some c \<Rightarrow> c | None \<Rightarrow> l_createdAt l),
     l_qualAt := (if statusChanged then Some t else l_qualAt l), l_updatedAt := t\<rparr>"

definition update_qual :: "string \<Rightarrow> string \<Rightarrow> err + string" where
  \<comment> \<open>the new status: canonical, or an unknown one kept as stored\<close>
  "update_qual given currentQual = (case canonicalizeQualification given of (qual, ok) \<Rightarrow>
     if ok then Inr qual
     else if given \<noteq> currentQual then Inl (ErrMsg ''invalid qualification status'')
     else Inr given)"

definition UpdateLead :: "string \<Rightarrow> create_lead_input \<Rightarrow> unit op" where
  "UpdateLead i inp =
     (if trim i = [] then throw (ErrMsg ''lead id is required'')
      else if length (trim (cl_name inp)) > 200 then throw (ErrMsg ''full name must be at most 200 characters'')
      else bindE (map_err (\<lambda>_. ErrMsg ''lead not found'') (query_row (lead_by_id i))) (\<lambda>row.
        if cl_source inp \<notin> set allowedLeadSources \<and> cl_source inp \<noteq> l_source row then throw (ErrMsg ''invalid source'')
        else case update_qual (cl_qual inp) (l_qual row) of Inl e \<Rightarrow> throw e | Inr qual \<Rightarrow>
        case check_lead_input inp of Some e \<Rightarrow> throw e | None \<Rightarrow>
        bindE get_now (\<lambda>t. let statusChanged = (trim qual \<noteq> trim (l_qual row)) in in_tx (
          bindE (exec_tag (lead_count i) (upd_leads (\<lambda>l. l_id l = i) (apply_update inp qual statusChanged t))) (\<lambda>n.
          seqE (guard (n \<noteq> 0) (ErrMsg ''lead not found''))
          (if statusChanged
           then insertQualificationLog i (l_qual row) qual (trim (cl_createdBy inp)) [] ''update'' t
           else ret ()))))))"

end
