(* ===== verification/Assign.thy ===== *)
theory Assign
  imports LeadChanges UserMoves "HOL-Library.AList"
begin

section \<open>Assigning and deleting leads (assign.go)\<close>

text \<open>
  Bulk assignment to a team lead or a sales executive, bulk deletion, and the pickers. The
  restriction of both to the actor's scope is the predicate \<open>in_scope\<close>, the WHERE clause the code
  assembles.
\<close>

record assignable_user =
  au_id :: string
  au_name :: string
  au_email :: string
  au_role :: string
  au_roleLabel :: string
  au_teamId :: "string option"
  au_teamName :: "string option"

definition joined_team_name :: "db \<Rightarrow> user \<Rightarrow> string option" where
  "joined_team_name d u = (case u_teamId u of None \<Rightarrow> None | Some t \<Rightarrow> map_option t_name (team_by_id t d))"

definition ListAssignableUsers :: "string \<Rightarrow> string \<Rightarrow> assignable_user list op" where
  "ListAssignableUsers kind teamID =
     (if kind \<noteq> ''team-leads'' \<and> kind \<noteq> ''members'' then throw (ErrMsg ''invalid kind'')
      else let roles = (if kind = ''team-leads'' then [RoleMainTeamLead, RoleAnalystTeamLead] else [RoleSalesExecutive]);
               scoped = trim teamID in
        query (\<lambda>d. map (\<lambda>u. \<lparr>au_id = u_id u, au_name = u_name u, au_email = u_email u, au_role = u_role u,
              au_roleLabel = roleLabel (u_role u), au_teamId = u_teamId u, au_teamName = joined_team_name d u\<rparr>)
          (order_by (\<lambda>a b. let ta = (case joined_team_name d a of None \<Rightarrow> ''zzz'' | Some n \<Rightarrow> n);
                              tb = (case joined_team_name d b of None \<Rightarrow> ''zzz'' | Some n \<Rightarrow> n)
                          in ta < tb \<or> (ta = tb \<and> u_name a \<le> u_name b))
            (filter (\<lambda>u. u_role u \<in> set roles \<and> u_active u \<and> (scoped \<noteq> [] \<longrightarrow> u_teamId u = Some scoped)) (users d)))))"

definition maxBulkLeadIDs :: nat where "maxBulkLeadIDs = 100"

record assign_input =
  as_leads :: "string list"
  as_assignee :: string
  as_kind :: string
  as_actor :: string
  as_createdBy :: string
  as_team :: string
  as_se :: string
  as_atl :: string
  as_atlTeam :: string

record assign_result =
  asr_lead :: string
  asr_team :: string
  asr_se :: string
  asr_handoff :: string

definition in_scope :: "db \<Rightarrow> string \<Rightarrow> string \<Rightarrow> string \<Rightarrow> string \<Rightarrow> string \<Rightarrow> lead \<Rightarrow> bool" where
  \<comment> \<open>the conjuncts appended to the statement, each only when its identifier is given\<close>
  "in_scope d createdBy team se atl atlTeam l \<longleftrightarrow>
     (trim createdBy \<noteq> [] \<longrightarrow> l_createdBy l = Some (trim createdBy)) \<and>
     (trim team \<noteq> [] \<longrightarrow> l_team l = Some (trim team)) \<and>
     (trim se \<noteq> [] \<longrightarrow> l_se l = Some (trim se)) \<and>
     (trim atl \<noteq> [] \<longrightarrow> in_analyst_scope d (trim atl) (trim atlTeam) l)"

definition lock_rows :: "assign_input \<Rightarrow> string list \<Rightarrow> db \<Rightarrow> (string \<times> string) list" where
  \<comment> \<open>SELECT id, "qualificationStatus" ... FOR UPDATE\<close>
  "lock_rows inp ids d = map (\<lambda>l. (l_id l, l_qual l)) (filter (\<lambda>l. l_id l \<in> set ids \<and>
     in_scope d (as_createdBy inp) (as_team inp) (as_se inp) (as_atl inp) (as_atlTeam inp) l) (leads d))"

fun fill_map :: "(string \<times> string) list \<Rightarrow> (string \<times> string) list \<Rightarrow> (string \<times> string) list" where
  \<comment> \<open>\<open>found[id] = status\<close> for every row; the Go map as an association list with distinct keys\<close>
  "fill_map [] m = m"
| "fill_map ((k, v) # rest) m = fill_map rest (AList.update k v m)"

definition assign_team_lead :: "string \<Rightarrow> string \<Rightarrow> string option \<Rightarrow> int \<Rightarrow> lead \<Rightarrow> lead" where
  "assign_team_lead leadID assignee teamID t l = l\<lparr>l_mtl := Some assignee, l_team := teamID, l_se := None,
     l_execAt := None, l_deadline := None, l_stage := ''WITH_TEAM_LEAD'', l_updatedAt := t\<rparr>"

definition stage_for_member :: "string \<Rightarrow> string" where
  "stage_for_member s = (if s \<in> set [''PRE_SALES'', ''WITH_TEAM_LEAD'', ''NOT_CONNECTED'', '''']
     then ''WITH_EXECUTIVE'' else s)"

definition assign_member :: "string \<Rightarrow> string option \<Rightarrow> string option \<Rightarrow> int \<Rightarrow> lead \<Rightarrow> lead" where
  "assign_member assignee teamID mtl t l = l\<lparr>l_se := Some assignee, l_team := teamID,
     l_mtl := (case mtl of Some m \<Rightarrow> Some m | None \<Rightarrow> l_mtl l), l_execAt := Some t,
     l_stage := stage_for_member (l_stage l), l_updatedAt := t\<rparr>"

definition assign_change :: "assign_input \<Rightarrow> string option \<Rightarrow> string option \<Rightarrow> int \<Rightarrow> lead \<Rightarrow> lead" where
  "assign_change inp teamID mtl t l =
     (if as_kind inp = ''team-lead'' then assign_team_lead (l_id l) (as_assignee inp) teamID t l
      else assign_member (as_assignee inp) teamID mtl t l)"

record assignee_info =
  ai_name :: string
  ai_email :: string
  ai_team :: "string option"
  ai_teamLabel :: string
  ai_mtl :: "(string \<times> string) option"

definition assign_texts :: "assign_input \<Rightarrow> assignee_info \<Rightarrow> string \<times> string \<times> string" where
  \<comment> \<open>(action, detail, sales executive column)\<close>
  "assign_texts inp info =
     (if as_kind inp = ''team-lead'' then
        (''ROUTED_TO_MAIN_TEAM'',
         ''Main team lead: '' @ ai_name info @ '' '' @ mid_dot @ '' Team: '' @ ai_teamLabel info, em_dash)
      else
        (''DIRECT_ASSIGNED_TO_EXECUTIVE_BY_ATL'',
         ''Main team lead: '' @ (case ai_mtl info of None \<Rightarrow> em_dash
             | Some (_, n) \<Rightarrow> if trim n \<noteq> [] then n else em_dash)
           @ '' '' @ mid_dot @ '' Team: '' @ ai_teamLabel info
           @ '' '' @ mid_dot @ '' Sales executive: '' @ ai_name info @ '' ('' @ ai_email info @ '')'',
         ai_name info))"

fun assign_each :: "assign_input \<Rightarrow> assignee_info \<Rightarrow> string \<Rightarrow> int \<Rightarrow> string list \<Rightarrow> assign_result list op" where
  "assign_each inp info actorID t [] = ret []"
| "assign_each inp info actorID t (leadID # rest) =
     (case assign_texts inp info of (action, detail, se) \<Rightarrow>
      bindE (exec_tag (\<lambda>d. count_where (\<lambda>l. l_id l = leadID \<and> sql_assignable_fold (l_qual l)) (leads d))
               (upd_leads (\<lambda>l. l_id l = leadID \<and> sql_assignable_fold (l_qual l))
                  (assign_change inp (ai_team info) (map_option fst (ai_mtl info)) t))) (\<lambda>n.
      seqE (guard (n \<noteq> 0) (ErrMsg ''only qualified leads can be assigned to a team or members''))
      (bindE new_uuid (\<lambda>h.
       seqE (exec (\<lambda>d. d\<lparr>handoffs := handoffs d @ [\<lparr>ho_id = h, ho_at = t, ho_lead = leadID,
               ho_action = action, ho_actor = actorID, ho_detail = detail\<rparr>]\<rparr>))
       (bindE (assign_each inp info actorID t rest) (\<lambda>rs.
        ret (\<lparr>asr_lead = leadID, asr_team = ai_teamLabel info, asr_se = se,
               asr_handoff = formatHandoff (Some action) (Some detail)\<rparr> # rs)))))))"

definition assign_tx :: "assign_input \<Rightarrow> assignee_info \<Rightarrow> string \<Rightarrow> string list \<Rightarrow> assign_result list op" where
  "assign_tx inp info actorID ids =
     bindE (query (lock_rows inp ids)) (\<lambda>rows. let found = fill_map rows [] in
     if length found \<noteq> length ids then throw (ErrMsg ''one or more leads were not found'')
     else if \<not> list_all (\<lambda>i. isAssignableQualification (deref (map_of found i))) ids
       then throw (ErrMsg ''only qualified leads can be assigned to a team or members'')
     else bindE get_now (\<lambda>t. assign_each inp info actorID t ids))"

definition assignee_check :: "assign_input \<Rightarrow> user \<Rightarrow> err option" where
  "assignee_check inp u =
     (if trim (as_team inp) \<noteq> [] \<and> (u_teamId u = None \<or> trimmed (u_teamId u) \<noteq> trim (as_team inp))
        then Some (ErrMsg ''assignee is not on your team'')
      else if as_kind inp = ''team-lead'' then
        (if u_role u \<noteq> RoleMainTeamLead \<and> u_role u \<noteq> RoleAnalystTeamLead
         then Some (ErrMsg ''assignee is not a team lead'') else None)
      else if u_role u \<noteq> RoleSalesExecutive then Some (ErrMsg ''assignee is not a team member'') else None)"

definition team_mtl :: "string \<Rightarrow> db \<Rightarrow> (string \<times> string) option" where
  "team_mtl teamID d = map_option (\<lambda>u. (u_id u, u_name u)) (first_by u_createdAt
     (filter (\<lambda>u. u_role u = RoleMainTeamLead \<and> u_teamId u = Some teamID) (users d)))"

definition AssignLeads :: "assign_input \<Rightarrow> assign_result list op" where
  "AssignLeads inp =
     (if as_leads inp = [] then throw (ErrMsg ''no leads selected'')
      else if trim (as_assignee inp) = [] then throw (ErrMsg ''assignee is required'')
      else if as_kind inp \<noteq> ''team-lead'' \<and> as_kind inp \<noteq> ''member'' then throw (ErrMsg ''invalid assign kind'')
      else let cleanIDs = clean_ids [] (as_leads inp) in
      if cleanIDs = [] then throw (ErrMsg ''no leads selected'')
      else if length cleanIDs > maxBulkLeadIDs then throw (ErrMsg ''too many leads selected (max 100)'')
      else bindE (if trim (as_actor inp) = [] then map_err (\<lambda>_. ErrMsg ''no actor available'') defaultCreatorID
                  else ret (trim (as_actor inp))) (\<lambda>actorID.
      bindE (map_err (\<lambda>_. ErrMsg ''assignee not found'')
          (query_row (\<lambda>d. map_option (\<lambda>u. (u, joined_team_name d u)) (user_by_id (as_assignee inp) d)))) (\<lambda>(u, teamName).
      case assignee_check inp u of Some e \<Rightarrow> throw e | None \<Rightarrow>
      bindE (if as_kind inp = ''member'' \<and> u_teamId u \<noteq> None
             then bindE (attempt (query_row (team_mtl (deref (u_teamId u)))))
                    (\<lambda>r. ret (case r of Inr m \<Rightarrow> Some m | Inl _ \<Rightarrow> None))
             else ret None) (\<lambda>mtl.
      let teamLabel = (if teamName \<noteq> None \<and> trimmed teamName \<noteq> [] then trimmed teamName else ''Unassigned team'');
          info = \<lparr>ai_name = u_name u, ai_email = u_email u, ai_team = u_teamId u, ai_teamLabel = teamLabel, ai_mtl = mtl\<rparr>
      in in_tx (assign_tx inp info actorID cleanIDs)))))"

subsection \<open>Names and deletion\<close>

definition LeadNameBriefs :: "string list \<Rightarrow> (string \<times> string) list op" where
  "LeadNameBriefs leadIDs = (let cl = clean_ids [] leadIDs in
     if cl = [] then ret []
     else bindE (query (\<lambda>d. map (\<lambda>l. (l_id l, l_name l)) (filter (\<lambda>l. l_id l \<in> set cl) (leads d))))
       (\<lambda>rows. ret (fill_map rows [])))"

definition deletable :: "string list \<Rightarrow> string \<Rightarrow> string \<Rightarrow> string \<Rightarrow> string \<Rightarrow> string \<Rightarrow> db \<Rightarrow> lead \<Rightarrow> bool" where
  "deletable ids createdBy team se atl atlTeam d l \<longleftrightarrow> l_id l \<in> set ids \<and> in_scope d createdBy team se atl atlTeam l"

definition delete_handoffs :: "(db \<Rightarrow> lead \<Rightarrow> bool) \<Rightarrow> db \<Rightarrow> db" where
  "delete_handoffs P d = d\<lparr>handoffs := del_where (\<lambda>h. ho_lead h \<in> set (map l_id (filter (P d) (leads d)))) (handoffs d)\<rparr>"

definition delete_lead_rows :: "(db \<Rightarrow> lead \<Rightarrow> bool) \<Rightarrow> db \<Rightarrow> db" where
  "delete_lead_rows P d = on_delete_lead (set (map l_id (filter (P d) (leads d))))
     (d\<lparr>leads := del_where (P d) (leads d)\<rparr>)"

definition DeleteLeads ::
  "string list \<Rightarrow> string \<Rightarrow> string \<Rightarrow> string \<Rightarrow> string \<Rightarrow> string \<Rightarrow> nat op" where
  "DeleteLeads leadIDs createdBy team se atl atlTeam =
     (if leadIDs = [] then throw (ErrMsg ''no leads selected'')
      else let cl = filter (\<lambda>i. i \<noteq> []) (map trim leadIDs) in
      if cl = [] then throw (ErrMsg ''no leads selected'')
      else if length cl > maxBulkLeadIDs then throw (ErrMsg ''too many leads selected (max 100)'')
      else let P = deletable cl createdBy team se atl atlTeam in in_tx (
        seqE (exec (delete_handoffs P))
        (exec_tag (\<lambda>d. count_where (P d) (leads d)) (delete_lead_rows P))))"

end
