(* ===== verification/LeadSafety.thy ===== *)
theory LeadSafety
  imports Assign UserSafety
begin

section \<open>Invariants of the leads\<close>

text \<open>
  The revenue rule of closed leads across every operation that writes leads, and the exact effect
  of bulk assignment and deletion.
\<close>

definition lead_ok :: "lead \<Rightarrow> bool" where
  \<comment> \<open>a won lead has a positive revenue; a won or lost lead has a closing time\<close>
  "lead_ok l \<longleftrightarrow> (l_stage l = ''CLOSED_WON'' \<longrightarrow> (\<exists>r. l_revenue l = Some r \<and> r > 0)) \<and>
     (l_stage l = ''CLOSED_WON'' \<or> l_stage l = ''CLOSED_LOST'' \<longrightarrow> l_closedAt l \<noteq> None)"

definition leads_ok :: "db \<Rightarrow> bool" where
  "leads_ok d \<longleftrightarrow> distinct (map l_id (leads d)) \<and> (\<forall>l \<in> set (leads d). lead_ok l)"

lemma leads_ok_upd:
  assumes "\<And>l. l_id (f l) = l_id l" "\<And>l. l \<in> set (leads d) \<Longrightarrow> P l \<Longrightarrow> lead_ok l \<Longrightarrow> lead_ok (f l)" "leads_ok d"
  shows "leads_ok (upd_leads P f d)"
  using assms by (auto simp: leads_ok_def map_upd_where set_upd_where)

lemma leads_ok_same: "leads d' = leads d \<Longrightarrow> leads_ok d' = leads_ok d"
  by (simp add: leads_ok_def)

lemma leads_ok_frames [simp]:
  "leads_ok (upd_users P f d) = leads_ok d" "leads_ok (upd_teams P2 f2 d) = leads_ok d"
  "leads_ok (d\<lparr>quallogs := q\<rparr>) = leads_ok d" "leads_ok (d\<lparr>handoffs := hs\<rparr>) = leads_ok d"
  "leads_ok (d\<lparr>se_transfers := st\<rparr>) = leads_ok d" "leads_ok (d\<lparr>api_keys := k\<rparr>) = leads_ok d"
  by (simp_all add: leads_ok_def)

subsection \<open>Lead operations keep it\<close>

lemma insertQualificationLog_keeps [keeps_intros]: "keeps leads_ok (insertQualificationLog a b c d e f g)"
  unfolding insertQualificationLog_def Let_def by (intro keeps_intros) simp

lemma recordQualificationChange_keeps [keeps_intros]: "keeps leads_ok (recordQualificationChange a b c d e f g)"
  unfolding recordQualificationChange_def Let_def
  by (intro keeps_intros) (rule leads_ok_upd, auto simp: lead_ok_def)

lemma ensureSeeded_keeps [keeps_intros]: "keeps leads_ok (ensureQualificationLogSeeded a b c)"
  unfolding ensureQualificationLogSeeded_def Let_def by (intro keeps_intros)

lemma ListHistory_keeps [keeps_intros]: "keeps I (ListQualificationHistory a)"
  unfolding ListQualificationHistory_def Let_def by (intro keeps_intros)

lemma GetByID_keeps [keeps_intros]: "keeps leads_ok (GetByID i)"
  unfolding GetByID_def by (intro keeps_intros)

lemma UpdateQualificationStatus_keeps: "keeps leads_ok (UpdateQualificationStatus i s a)"
  unfolding UpdateQualificationStatus_def Let_def set_qual_def
  by (intro keeps_intros) (rule leads_ok_upd, auto simp: lead_ok_def)

lemma defaultCreatorID_keeps [keeps_intros]: "keeps I defaultCreatorID"
  unfolding defaultCreatorID_def by (intro keeps_intros)

lemma created_detail_keeps [keeps_intros]: "keeps I (created_detail c)"
  unfolding created_detail_def by (intro keeps_intros)

lemma leads_ok_insert:
  "leads_ok d \<Longrightarrow> \<not> lead_by_id i d \<noteq> None \<Longrightarrow> l_id l = i \<Longrightarrow> lead_ok l \<Longrightarrow> leads_ok (d\<lparr>leads := leads d @ [l]\<rparr>)"
  by (auto simp: leads_ok_def lead_by_id_def find_None_iff)

lemma new_lead_ok: "l_id (new_lead i inp q c ca t) = i \<and> lead_ok (new_lead i inp q c ca t)"
  by (simp add: new_lead_def blank_lead_def lead_ok_def)

lemma CreateLead_keeps: "keeps leads_ok (CreateLead inp)"
  unfolding CreateLead_def create_lead_tx_def Let_def
  apply (intro keeps_intros)
   apply (use leads_ok_insert new_lead_ok in blast)
  apply (simp, rule leads_ok_upd, auto simp: lead_ok_def)
  done

lemma MarkNotAppropriate_keeps: "keeps leads_ok (MarkNotAppropriate i r a)"
  unfolding MarkNotAppropriate_def Let_def flag_lead_def
  by (intro keeps_intros) (rule leads_ok_upd, auto simp: lead_ok_def)

lemma UpdateLead_keeps: "keeps leads_ok (UpdateLead i inp)"
  unfolding UpdateLead_def Let_def
  by (intro keeps_intros) (rule leads_ok_upd, auto simp: lead_ok_def apply_update_def)

lemma apply_outcome_ok:
  assumes "lead_ok l" "check_outcome inp stage (l_revenue l) = None"
    "stage = (if so_hasStage inp then trim (so_stage inp) else l_stage l)"
  shows "lead_ok (apply_outcome inp stage (l_closedAt l) t l)"
proof -
  have won: "stage = ''CLOSED_WON'' \<Longrightarrow> \<exists>x. (if so_hasRevenue inp then so_revenue inp else l_revenue l) = Some x \<and> x > 0"
    using assms(2) by (auto simp: check_outcome_def Let_def split: if_splits option.splits)
  have st: "l_stage (apply_outcome inp stage (l_closedAt l) t l) = stage"
    using assms(3) by (simp add: apply_outcome_def Let_def)
  have rv: "l_revenue (apply_outcome inp stage (l_closedAt l) t l) = (if so_hasRevenue inp then so_revenue inp else l_revenue l)"
    by (simp add: apply_outcome_def Let_def)
  have cl: "l_closedAt (apply_outcome inp stage (l_closedAt l) t l) =
      (if so_hasStage inp then closed_at stage (l_closedAt l) t else l_closedAt l)"
    by (simp add: apply_outcome_def Let_def)
  have "stage = ''CLOSED_WON'' \<or> stage = ''CLOSED_LOST'' \<Longrightarrow>
      (if so_hasStage inp then closed_at stage (l_closedAt l) t else l_closedAt l) \<noteq> None"
    using assms(1,3) by (cases "so_hasStage inp") (auto simp: closed_at_def lead_ok_def split: option.split)
  then show ?thesis using won unfolding lead_ok_def st rv cl by blast
qed

lemma apply_outcome_id [simp]: "l_id (apply_outcome inp st c t l) = l_id l"
  by (simp add: apply_outcome_def Let_def)

lemma leads_ok_outcome:
  assumes "leads_ok d" "lead_by_id i d = Some row"
    "check_outcome inp (if so_hasStage inp then trim (so_stage inp) else l_stage row) (l_revenue row) = None"
  shows "leads_ok (upd_leads (\<lambda>l. l_id l = i)
    (apply_outcome inp (if so_hasStage inp then trim (so_stage inp) else l_stage row) (l_closedAt row) t) d)"
proof (rule leads_ok_upd [OF _ _ assms(1)])
  fix l assume l: "l \<in> set (leads d)" "l_id l = i" "lead_ok l"
  have "l = row"
    using distinct_key_inj [of l_id "leads d" l row] assms(1) lead_by_id_Some [OF assms(2)] l
    by (simp add: leads_ok_def)
  then show "lead_ok (apply_outcome inp (if so_hasStage inp then trim (so_stage inp) else l_stage row) (l_closedAt row) t l)"
    using apply_outcome_ok l(3) assms(3) by blast
qed simp

lemma keeps_triple: "keeps I m \<Longrightarrow> triple I m (\<lambda>_. I) I"
  by (rule tripleI) (auto dest: keepsD)

lemma UpdateSalesOutcome_keeps: "keeps leads_ok (UpdateSalesOutcome i inp)"
proof (rule triple_keeps)
  have get: "triple leads_ok (GetByID i) (\<lambda>_. leads_ok) leads_ok" for i
    by (rule keeps_triple, rule keeps_intros)
  show "triple leads_ok (UpdateSalesOutcome i inp) (\<lambda>_. leads_ok) leads_ok"
    unfolding UpdateSalesOutcome_def Let_def
    apply (split if_split, intro conjI impI, rule triple_throw, simp)
    apply (split if_split, intro conjI impI, rule get)
    apply (rule triple_bind [where R = "\<lambda>row d. leads_ok d \<and> lead_by_id i d = Some row"])
     apply (rule triple_map_err, rule triple_query_row, simp, simp)
    subgoal for row
      apply (cases "check_outcome inp (if so_hasStage inp then trim (so_stage inp) else l_stage row) (l_revenue row)";
          simp only: option.case)
       apply (rule triple_bind [where R = "\<lambda>_ d. leads_ok d \<and> lead_by_id i d = Some row"], rule triple_get_now, simp, simp)
      subgoal for t
        apply (rule triple_bind [where R = "\<lambda>_. leads_ok"], rule triple_exec_tag, use leads_ok_outcome in blast, simp)
        apply (rule triple_seq [OF _ get], rule triple_guard, simp, simp)
        done
      apply (rule triple_throw, simp)
      done
    done
qed

subsection \<open>Assignment, deletion, user operations keep it\<close>

lemma assign_change_ok: "lead_ok l \<Longrightarrow> l_id (assign_change inp tm m t l) = l_id l \<and> lead_ok (assign_change inp tm m t l)"
  by (auto simp: assign_change_def assign_team_lead_def assign_member_def lead_ok_def stage_for_member_def)

lemma assign_change_id [simp]:
  "l_id (assign_change inp tm m t l) = l_id l" "l_qual (assign_change inp tm m t l) = l_qual l"
  by (auto simp: assign_change_def assign_team_lead_def assign_member_def)

lemma assign_each_keeps [keeps_intros]: "keeps leads_ok (assign_each inp info a t ids)"
proof (induction ids)
  case (Cons i ids)
  then show ?case
    unfolding assign_each.simps
    by (intro keeps_intros) (rule leads_ok_upd, auto dest: assign_change_ok)
qed (simp add: keeps_intros)

lemma AssignLeads_keeps: "keeps leads_ok (AssignLeads inp)"
  unfolding AssignLeads_def assign_tx_def Let_def by (intro keeps_intros)

lemma leads_ok_delete: "leads_ok d \<Longrightarrow> leads_ok (delete_lead_rows P d)"
  by (auto simp: leads_ok_def delete_lead_rows_def del_where_def distinct_map_filter)

lemma DeleteLeads_keeps: "keeps leads_ok (DeleteLeads ids a b c d e)"
  unfolding DeleteLeads_def Let_def delete_handoffs_def
  by (intro keeps_intros leads_ok_delete) simp

lemma reassign_teams_keeps [keeps_intros]: "keeps leads_ok (reassign_teams i t tids)"
  by (induction tids) (auto simp: set_team_lead_def intro!: keeps_intros)

lemma leads_ok_del_user: "leads_ok d \<Longrightarrow> leads_ok (del_user_row i d)"
  by (auto simp: leads_ok_def del_user_row_def on_delete_user_def lead_ok_def o_def)

lemma leads_ok_rehome:
  "leads_ok d \<Longrightarrow> leads_ok (del_creator i a t d)" "leads_ok d \<Longrightarrow> leads_ok (del_assigned i t d)"
  "leads_ok d \<Longrightarrow> leads_ok (del_mtl i t d)" "leads_ok d \<Longrightarrow> leads_ok (del_notAppr i t d)"
  "leads_ok d \<Longrightarrow> leads_ok (del_manager i t d)" "leads_ok d \<Longrightarrow> leads_ok (del_atl i d)"
  "leads_ok d \<Longrightarrow> leads_ok (del_keys i d)"
  unfolding del_creator_def del_assigned_def del_mtl_def del_notAppr_def del_manager_def del_atl_def del_keys_def
  by (auto intro!: leads_ok_upd simp: lead_ok_def stage_unassigned_def)

lemma DeleteUser_keeps_leads: "keeps leads_ok (DeleteUser i a)"
  unfolding DeleteUser_def delete_tx_def Let_def
  by (intro keeps_intros leads_ok_rehome leads_ok_del_user keeps_readonly [OF FindByID_readonly]
      keeps_readonly [OF CountByRole_readonly])

lemma lock_teams_keeps [keeps_intros]: "keeps I (lock_teams ids)"
  by (rule keeps_readonly) (induction ids; simp add: readonly_intros)

lemma TransferSalesExec_keeps_leads: "keeps leads_ok (TransferSalesExec inp)"
  unfolding TransferSalesExec_def transfer_se_tx_def move_se_def move_leads_def Let_def
  by (intro keeps_intros keeps_readonly [OF FindByID_readonly])
     (auto intro!: leads_ok_upd simp: lead_ok_def)

text \<open>C5. Through every operation that writes leads (creation, update, qualification,
  outcome, not-appropriate, assignment, deletion, deleting or moving users), whatever statements
  fail, lead identifiers stay unique, a won lead has a positive revenue and a closed lead has a
  closing time.\<close>

theorem closed_leads_stay_consistent:
  "keeps leads_ok (CreateLead inp) \<and> keeps leads_ok (UpdateLead i inp) \<and>
   keeps leads_ok (UpdateQualificationStatus i s a) \<and> keeps leads_ok (UpdateSalesOutcome i out) \<and>
   keeps leads_ok (MarkNotAppropriate i r a) \<and> keeps leads_ok (AssignLeads asg) \<and>
   keeps leads_ok (DeleteLeads ids c1 c2 c3 c4 c5) \<and> keeps leads_ok (DeleteUser i a) \<and>
   keeps leads_ok (TransferSalesExec tr) \<and> keeps leads_ok (GetByID i)"
  by (intro conjI CreateLead_keeps UpdateLead_keeps UpdateQualificationStatus_keeps UpdateSalesOutcome_keeps
      MarkNotAppropriate_keeps AssignLeads_keeps DeleteLeads_keeps DeleteUser_keeps_leads
      TransferSalesExec_keeps_leads GetByID_keeps)

end
