(* ===== verification/AssignSafety.thy ===== *)
theory AssignSafety
  imports LeadSafety
begin

section \<open>Bulk assignment and deletion: exact effect\<close>

text \<open>
  What AssignLeads and DeleteLeads change, for any table contents: either nothing, or exactly the
  selected leads, all of them inside the actor's scope.
\<close>

lemma fill_map_keys:
  "distinct (map fst m) \<Longrightarrow> distinct (map fst (fill_map rows m)) \<and>
     fst ` set (fill_map rows m) = fst ` set m \<union> fst ` set rows"
proof (induction rows m rule: fill_map.induct)
  case (2 k v rest m)
  then show ?case by (simp add: distinct_update dom_update)
qed simp

lemma found_all:
  assumes "distinct ids" "length (fill_map rows []) = length ids" "fst ` set rows \<subseteq> set ids"
  shows "fst ` set rows = set ids"
proof -
  have "card (fst ` set rows) = length (fill_map rows [])"
    using fill_map_keys [of "[]" rows] distinct_card [of "map fst (fill_map rows [])"] by simp
  then have "card (fst ` set rows) = card (set ids)" using assms(1,2) distinct_card by metis
  then show ?thesis using assms(3) by (simp add: card_subset_eq)
qed

lemma upd_where_compose:
  assumes "\<And>x. k (f x) = k x" "\<And>x. q (f x) = q x" "i \<notin> set js"
  shows "upd_where (\<lambda>x. k x \<in> set js \<and> q x) f (upd_where (\<lambda>x. k x = i \<and> q x) f xs)
       = upd_where (\<lambda>x. k x \<in> set (i # js) \<and> q x) f xs"
  using assms by (auto simp: upd_where_def)

definition assigned_rows :: "assign_input \<Rightarrow> assignee_info \<Rightarrow> int \<Rightarrow> string list \<Rightarrow> db \<Rightarrow> db \<Rightarrow> bool" where
  "assigned_rows inp info t ids d0 d \<longleftrightarrow>
     leads d = upd_where (\<lambda>l. l_id l \<in> set ids \<and> sql_assignable_fold (l_qual l))
       (assign_change inp (ai_team info) (map_option fst (ai_mtl info)) t) (leads d0) \<and>
     map ho_lead (handoffs d) = map ho_lead (handoffs d0) @ ids \<and>
     users d = users d0 \<and> teams d = teams d0 \<and> quallogs d = quallogs d0 \<and>
     (\<forall>i \<in> set ids. \<exists>l \<in> set (leads d0). l_id l = i \<and> sql_assignable_fold (l_qual l))"

lemma assigned_rows_Nil: "assigned_rows inp info t [] d d"
  by (simp add: assigned_rows_def upd_where_def)

lemma assigned_rows_step:
  assumes "0 < count_where (\<lambda>l. l_id l = i \<and> sql_assignable_fold (l_qual l)) (leads d0)"
    and "d1 = (upd_leads (\<lambda>l. l_id l = i \<and> sql_assignable_fold (l_qual l))
        (assign_change inp (ai_team info) (map_option fst (ai_mtl info)) t) d0)\<lparr>handoffs := handoffs d0 @ [h]\<rparr>"
    and "ho_lead h = i" "i \<notin> set ids" "assigned_rows inp info t ids d1 d"
  shows "assigned_rows inp info t (i # ids) d0 d"
proof -
  let ?f = "assign_change inp (ai_team info) (map_option fst (ai_mtl info)) t"
  have l1: "leads d1 = upd_where (\<lambda>l. l_id l = i \<and> sql_assignable_fold (l_qual l)) ?f (leads d0)"
    by (simp add: assms(2))
  have "leads d = upd_where (\<lambda>l. l_id l \<in> set (i # ids) \<and> sql_assignable_fold (l_qual l)) ?f (leads d0)"
    using assms(5) upd_where_compose [where k = l_id and q = "\<lambda>l. sql_assignable_fold (l_qual l)" and f = ?f and i = i and js = ids]
      assms(4) by (simp add: assigned_rows_def l1)
  moreover have "\<exists>l \<in> set (leads d0). l_id l = j \<and> sql_assignable_fold (l_qual l)" if "j \<in> set (i # ids)" for j
  proof (cases "j = i")
    case True
    then show ?thesis using assms(1) by (auto simp: count_where_0 simp flip: neq0_conv)
  next
    case False
    then have "j \<in> set ids" using that by simp
    then obtain l where "l \<in> set (leads d1)" "l_id l = j" "sql_assignable_fold (l_qual l)"
      using assms(5) unfolding assigned_rows_def by blast
    then show ?thesis unfolding l1 in_upd_where by (auto split: if_splits)
  qed
  ultimately show ?thesis
    using assms(2,3,5) by (auto simp: assigned_rows_def)
qed

lemma assign_each_triple:
  "distinct ids \<Longrightarrow> triple (\<lambda>d. d = d0) (assign_each inp info actorID t ids)
     (\<lambda>rs d. assigned_rows inp info t ids d0 d \<and> map asr_lead rs = ids) (\<lambda>_. True)"
proof (induction ids arbitrary: d0)
  case Nil
  then show ?case by (auto intro!: triple_ret assigned_rows_Nil)
next
  case (Cons i ids)
  let ?P = "\<lambda>l. l_id l = i \<and> sql_assignable_fold (l_qual l)"
  let ?d = "upd_leads ?P (assign_change inp (ai_team info) (map_option fst (ai_mtl info)) t) d0"
  obtain action detail se where tx: "assign_texts inp info = (action, detail, se)" by (metis prod_cases3)
  let ?h = "\<lambda>h. \<lparr>ho_id = h, ho_at = t, ho_lead = i, ho_action = action, ho_actor = actorID, ho_detail = detail\<rparr>"
  show ?case
    unfolding assign_each.simps tx prod.case
    apply (rule triple_bind [where R = "\<lambda>n d. d = ?d \<and> n = count_where ?P (leads d0)"], rule triple_exec_tag, simp, simp)
    subgoal for n
      apply (rule triple_seq [where R = "\<lambda>d. d = ?d \<and> count_where ?P (leads d0) \<noteq> 0"], rule triple_guard, simp, simp)
      apply (rule triple_bind [where R = "\<lambda>_ d. d = ?d \<and> count_where ?P (leads d0) \<noteq> 0"], rule triple_new_uuid, simp, simp)
      subgoal for h
        apply (rule triple_assume)
        apply (rule triple_seq [where R = "\<lambda>d. d = ?d\<lparr>handoffs := handoffs d0 @ [?h h]\<rparr>"], rule triple_exec, simp, simp)
        apply (rule triple_bind [OF Cons.IH], use Cons.prems in simp)
        apply (rule triple_ret)
        subgoal for rs d
          using assigned_rows_step [OF _ refl, where i = i and h = "?h h" and inp = inp and info = info and t = t and ids = ids] Cons.prems by simp
        done
      done
    done
qed

definition assigned :: "assign_input \<Rightarrow> db \<Rightarrow> db \<Rightarrow> assign_result list \<Rightarrow> bool" where
  \<comment> \<open>every selected lead was in scope and qualified, and exactly the selected leads changed\<close>
  "assigned inp d0 d rs \<longleftrightarrow> (let ids = clean_ids [] (as_leads inp) in
     map asr_lead rs = ids \<and> ids \<noteq> [] \<and> length ids \<le> maxBulkLeadIDs \<and>
     (\<exists>u info t. user_by_id (as_assignee inp) d0 = Some u \<and> assignee_check inp u = None \<and>
        ai_team info = u_teamId u \<and> assigned_rows inp info t ids d0 d) \<and>
     (\<forall>i \<in> set ids. \<exists>l \<in> set (leads d0). l_id l = i \<and> isAssignableQualification (l_qual l) \<and>
        in_scope d0 (as_createdBy inp) (as_team inp) (as_se inp) (as_atl inp) (as_atlTeam inp) l))"

lemma assignedI:
  assumes "map asr_lead rs = clean_ids [] (as_leads inp) \<and> (\<exists>t. assigned_rows inp info t (clean_ids [] (as_leads inp)) d0 d) \<and>
      (\<forall>i \<in> set (clean_ids [] (as_leads inp)). \<exists>l \<in> set (leads d0). l_id l = i \<and> isAssignableQualification (l_qual l) \<and>
        in_scope d0 (as_createdBy inp) (as_team inp) (as_se inp) (as_atl inp) (as_atlTeam inp) l)"
    "clean_ids [] (as_leads inp) \<noteq> []" "length (clean_ids [] (as_leads inp)) \<le> maxBulkLeadIDs"
    "user_by_id (as_assignee inp) d0 = Some u" "assignee_check inp u = None" "ai_team info = u_teamId u"
  shows "assigned inp d0 d rs"
  using assms unfolding assigned_def Let_def by blast

lemma fill_map_lookup:
  "map_of (fill_map rows m) k = Some v \<Longrightarrow> (k, v) \<in> set rows \<or> map_of m k = Some v"
proof (induction rows m rule: fill_map.induct)
  case (2 a b rest m)
  then show ?case by (auto simp: update_conv' split: if_splits)
qed simp

lemma assign_tx_triple:
  assumes "distinct ids"
  shows "triple (\<lambda>d. d = d0) (assign_tx inp info actorID ids)
     (\<lambda>rs d. map asr_lead rs = ids \<and> (\<exists>t. assigned_rows inp info t ids d0 d) \<and>
       (\<forall>i \<in> set ids. \<exists>l \<in> set (leads d0). l_id l = i \<and> isAssignableQualification (l_qual l) \<and>
          in_scope d0 (as_createdBy inp) (as_team inp) (as_se inp) (as_atl inp) (as_atlTeam inp) l)) (\<lambda>_. True)"
proof -
  let ?rows = "lock_rows inp ids d0"
  let ?found = "fill_map ?rows []"
  have scope: "\<exists>l \<in> set (leads d0). l_id l = i \<and> isAssignableQualification (l_qual l) \<and>
          in_scope d0 (as_createdBy inp) (as_team inp) (as_se inp) (as_atl inp) (as_atlTeam inp) l"
    if len: "length ?found = length ids" and "list_all (\<lambda>i. isAssignableQualification (deref (map_of ?found i))) ids"
      and i: "i \<in> set ids" for i
  proof -
    have "fst ` set ?rows = set ids"
      by (rule found_all [OF assms len]) (auto simp: lock_rows_def)
    then have "i \<in> fst ` set ?found" using fill_map_keys [of "[]" ?rows] i by simp
    then obtain v where v: "map_of ?found i = Some v"
      by (metis domD dom_map_of_conv_image_fst)
    then have "(i, v) \<in> set ?rows" using fill_map_lookup by fastforce
    moreover have "isAssignableQualification v" using that v by (auto simp: list_all_iff)
    ultimately show ?thesis by (auto simp: lock_rows_def)
  qed
  show ?thesis
    unfolding assign_tx_def Let_def
    apply (rule triple_bind [where R = "\<lambda>rows d. d = d0 \<and> rows = ?rows"], rule triple_query, simp, simp)
    apply (rule triple_assume, simp only:)
    apply (split if_split, intro conjI impI, rule triple_throw, simp)
    apply (split if_split, intro conjI impI, rule triple_throw, simp)
    apply (rule triple_bind [where R = "\<lambda>_ d. d = d0"], rule triple_get_now, simp, simp)
    apply (rule triple_weaken [OF assign_each_triple [OF assms]], assumption)
     apply (use scope in blast)
    apply simp
    done
qed

lemma AssignLeads_atomic: "atomic (AssignLeads inp)"
  unfolding AssignLeads_def Let_def
  by (auto intro!: atomic_intros atomic_bindE readonly_intros simp: defaultCreatorID_def split: option.split)

lemma AssignLeads_triple:
  "triple (\<lambda>d. d = d0) (AssignLeads inp) (\<lambda>rs d. assigned inp d0 d rs) (\<lambda>_. True)"
proof -
  let ?ids = "clean_ids [] (as_leads inp)"
  have pick: "readonly (if trim (as_actor inp) = [] then map_err (\<lambda>_. ErrMsg ''no actor available'') defaultCreatorID
                  else ret (trim (as_actor inp)))"
    unfolding defaultCreatorID_def by (intro readonly_intros)
  have mtl: "readonly (if as_kind inp = ''member'' \<and> u_teamId u \<noteq> None
             then bindE (attempt (query_row (team_mtl (deref (u_teamId u)))))
                    (\<lambda>r. ret (case r of Inr m \<Rightarrow> Some m | Inl _ \<Rightarrow> None))
             else ret None)" for u :: user
    by (intro readonly_intros)
  show ?thesis
    unfolding AssignLeads_def Let_def
    apply (split if_split, intro conjI impI, rule triple_throw, simp)+
    apply (rule triple_then_read [OF pick _ TrueI])
    apply (rule triple_bind [where R = "\<lambda>p d. d = d0 \<and> user_by_id (as_assignee inp) d0 = Some (fst p)"])
     apply (rule triple_map_err, rule triple_query_row, force, simp)
    subgoal for actorID p
      apply (cases p, simp only: prod.case fst_conv)
      subgoal for u teamName
        apply (cases "assignee_check inp u"; simp only: option.case)
         apply (rule triple_then_read [OF mtl _ TrueI])
         apply (rule triple_assume)
         apply (rule triple_in_tx [OF _ TrueI])
         apply (rule triple_weaken [OF assign_tx_triple [OF clean_ids_distinct]], assumption)
          apply (rule assignedI, assumption, assumption, simp, assumption, assumption, simp)
         apply simp
        apply (rule triple_throw, simp)
        done
      done
    done
qed


subsection \<open>Deletion\<close>

lemma in_scope_users: "users d' = users d \<Longrightarrow> in_scope d' a b c e f = in_scope d a b c e f"
  by (rule ext) (simp add: in_scope_def in_analyst_scope_def)

lemma DeleteLeads_atomic: "atomic (DeleteLeads ids a b c e f)"
  unfolding DeleteLeads_def Let_def by (intro atomic_intros)

definition deleted :: "(lead \<Rightarrow> bool) \<Rightarrow> db \<Rightarrow> db \<Rightarrow> bool" where
  "deleted P d0 d \<longleftrightarrow> (let gone = l_id ` {l \<in> set (leads d0). P l} in
     leads d = filter (\<lambda>l. \<not> P l) (leads d0) \<and>
     handoffs d = filter (\<lambda>h. ho_lead h \<notin> gone) (handoffs d0) \<and>
     quallogs d = filter (\<lambda>q. ql_lead q \<notin> gone) (quallogs d0) \<and>
     users d = users d0 \<and> teams d = teams d0 \<and> notifs d = notifs d0)"

lemma DeleteLeads_triple:
  "triple (\<lambda>d. d = d0) (DeleteLeads ids a b c e f)
     (\<lambda>n d. deleted (deletable (filter (\<lambda>i. i \<noteq> []) (map trim ids)) a b c e f d0) d0 d \<and>
        n = count_where (deletable (filter (\<lambda>i. i \<noteq> []) (map trim ids)) a b c e f d0) (leads d0)) (\<lambda>_. True)"
proof -
  let ?P = "deletable (filter (\<lambda>i. i \<noteq> []) (map trim ids)) a b c e f"
  have same: "?P (delete_handoffs ?P d0) = ?P d0"
    by (rule ext) (simp add: deletable_def delete_handoffs_def in_scope_users [of "delete_handoffs _ d0"] in_scope_def in_analyst_scope_def)
  show ?thesis
    unfolding DeleteLeads_def Let_def
    apply (split if_split, intro conjI impI, rule triple_throw, simp)+
    apply (rule triple_in_tx [OF _ TrueI])
    apply (rule triple_seq [where R = "\<lambda>d. d = delete_handoffs ?P d0"], rule triple_exec, simp, simp)
    apply (rule triple_exec_tag, simp only: same)
     apply (auto simp: deleted_def Let_def delete_lead_rows_def same)
     apply (auto simp: delete_handoffs_def del_where_def on_delete_lead_def)
    done
qed

text \<open>C7. Bulk deletion is all or nothing and never leaves its scope: success removes
  exactly the requested leads that the actor's scope allows, with their handoff and qualification
  history, reports how many rows went, and touches nothing else; an error changes nothing.\<close>

theorem delete_leads_exact:
  "(case DeleteLeads ids a b c e f w of
      (Inl err, w') \<Rightarrow> tables w' = tables w
    | (Inr n, w') \<Rightarrow>
        deleted (deletable (filter (\<lambda>i. i \<noteq> []) (map trim ids)) a b c e f (tables w)) (tables w) (tables w') \<and>
        n = count_where (deletable (filter (\<lambda>i. i \<noteq> []) (map trim ids)) a b c e f (tables w)) (leads (tables w)))"
proof -
  obtain r w' where r: "DeleteLeads ids a b c e f w = (r, w')" by force
  show ?thesis
  proof (cases r)
    case (Inl e)
    then show ?thesis using atomicD [OF DeleteLeads_atomic] r by fastforce
  next
    case (Inr u)
    then show ?thesis using tripleD [OF DeleteLeads_triple refl] r by fastforce
  qed
qed

end
