(* ===== verification/Notify.thy ===== *)
theory Notify
  imports Effects Roles
begin

section \<open>Notifications (notifications.go)\<close>

text \<open>
  Who is told about a change, the rows written for them, and each user's own list. A failing batch
  insert is logged and skipped by the code; here \<open>attempt\<close> drops its error.
\<close>

definition NotifLeadAdded :: string where "NotifLeadAdded = ''LEAD_ADDED''"
definition NotifLeadUpdated :: string where "NotifLeadUpdated = ''LEAD_UPDATED''"
definition NotifLeadDeleted :: string where "NotifLeadDeleted = ''LEAD_DELETED''"
definition NotifLeadAssigned :: string where "NotifLeadAssigned = ''LEAD_ASSIGNED''"
definition NotifLeadTransfer :: string where "NotifLeadTransfer = ''LEAD_TRANSFER''"
definition NotifSETeamTransfer :: string where "NotifSETeamTransfer = ''SE_TEAM_TRANSFER''"

subsection \<open>Links\<close>

definition utf8_bytes :: "char \<Rightarrow> nat list" where
  \<comment> \<open>the UTF-8 bytes of a model character, the three stand-ins included\<close>
  "utf8_bytes c =
     (if [c] = em_dash then [226, 128, 148]
      else if [c] = ellipsis then [226, 128, 166]
      else if [c] = arrow then [226, 134, 146]
      else let n = char_code c in if n < 128 then [n] else [192 + n div 64, 128 + n mod 64])"

definition hex_digit :: "nat \<Rightarrow> char" where
  "hex_digit n = ''0123456789ABCDEF'' ! n"

definition unreserved :: "char \<Rightarrow> bool" where
  "unreserved c \<longleftrightarrow> is_ascii_letter c \<or> is_digit c \<or> c \<in> set ''-_.~''"

definition query_escape :: "string \<Rightarrow> string" where
  \<comment> \<open>url.QueryEscape\<close>
  "query_escape s = concat (map (\<lambda>c. if unreserved c then [c] else if c = CHR '' '' then ''+''
      else concat (map (\<lambda>b. [CHR ''%'', hex_digit (b div 16), hex_digit (b mod 16)]) (utf8_bytes c))) s)"

definition notificationHref :: "string \<Rightarrow> string option \<Rightarrow> string \<Rightarrow> string" where
  "notificationHref kind leadID qry =
     (let q = trim qry in
      if kind = NotifLeadTransfer then
        ''/transfers?tab=leads'' @ (if q \<noteq> [] then ''&q='' @ query_escape q else [])
      else if kind = NotifSETeamTransfer then
        ''/transfers?tab=sales-exec'' @ (if q \<noteq> [] then ''&q='' @ query_escape q else [])
      else if kind = NotifLeadDeleted then ''/leads''
      else if leadID \<noteq> None \<and> trimmed leadID \<noteq> [] then ''/leads?lead='' @ query_escape (trimmed leadID)
      else ''/leads'')"

subsection \<open>Recipients\<close>

definition staff_roles :: "string list" where
  "staff_roles = [RoleSuperadmin, RoleMainTeamLead, RoleAnalystTeamLead]"

fun collect_ids :: "string \<Rightarrow> string list \<Rightarrow> string list \<Rightarrow> string list" where
  \<comment> \<open>the loop over the rows; the second argument is \<open>seen\<close>\<close>
  "collect_ids excl seen [] = []"
| "collect_ids excl seen (i # is) =
     (if i = [] \<or> i = excl then collect_ids excl seen is
      else if i \<in> set seen then collect_ids excl seen is
      else i # collect_ids excl (i # seen) is)"

definition staff_rows :: "db \<Rightarrow> string list" where
  "staff_rows d = map u_id (sort_key u_createdAt (filter (\<lambda>u. u_role u \<in> set staff_roles) (users d)))"

definition staffRecipientIDs :: "string \<Rightarrow> string list op" where
  "staffRecipientIDs excludeID = bindE (query staff_rows) (\<lambda>ids. ret (collect_ids (trim excludeID) [] ids))"

definition mergeRecipientIDs :: "string list \<Rightarrow> string list \<Rightarrow> string list" where
  "mergeRecipientIDs base extra = clean_ids [] (base @ extra)"

subsection \<open>Writing\<close>

definition shorten :: "nat \<Rightarrow> string \<Rightarrow> string" where
  \<comment> \<open>more than \<open>n\<close> characters: the first n - 3 and an ellipsis\<close>
  "shorten n s = (if length s > n then take (n - 3) s @ ellipsis else s)"

definition nullIfEmpty :: "string \<Rightarrow> string option" where
  "nullIfEmpty s = (let t = trim s in if t = [] then None else Some t)"

definition batchSize :: nat where "batchSize = 100"

fun mk_rows :: "string \<Rightarrow> string option \<Rightarrow> string \<Rightarrow> string \<Rightarrow> int \<Rightarrow> string list \<Rightarrow> notif list op" where
  \<comment> \<open>the VALUES tuples of one chunk\<close>
  "mk_rows kind lid title body t [] = ret []"
| "mk_rows kind lid title body t (r0 # rs) =
     (let r = trim r0 in
      if r = [] then mk_rows kind lid title body t rs
      else bindE new_uuid (\<lambda>i. bindE (mk_rows kind lid title body t rs) (\<lambda>rows.
        ret (\<lparr>n_id = i, n_to = r, n_kind = kind, n_lead = lid, n_title = title,
               n_body = nullIfEmpty body, n_read = False, n_at = t\<rparr> # rows))))"

definition insert_notifs :: "notif list \<Rightarrow> unit op" where
  \<comment> \<open>one multi-row INSERT; its failure is only logged\<close>
  "insert_notifs rows =
     (if rows = [] then ret ()
      else bindE (attempt (exec (\<lambda>d. d\<lparr>notifs := notifs d @ rows\<rparr>))) (\<lambda>_. ret ()))"

function create_batches :: "string \<Rightarrow> string option \<Rightarrow> string \<Rightarrow> string \<Rightarrow> int \<Rightarrow> string list \<Rightarrow> unit op" where
  "create_batches kind lid title body t rs =
     (if rs = [] then ret ()
      else bindE (mk_rows kind lid title body t (take batchSize rs)) (\<lambda>rows.
        seqE (insert_notifs rows) (create_batches kind lid title body t (drop batchSize rs))))"
  by pat_completeness auto
termination
  by (relation "measure (\<lambda>(_, _, _, _, _, rs). length rs)") (auto simp: batchSize_def)

declare create_batches.simps [simp del]

definition CreateMany :: "string list \<Rightarrow> string \<Rightarrow> string \<Rightarrow> string \<Rightarrow> string option \<Rightarrow> unit op" where
  "CreateMany recipientIDs kind0 title0 body0 lid =
     (if recipientIDs = [] then ret ()
      else let kind = trim kind0; title = trim title0; body = trim body0 in
      if kind = [] \<or> title = [] then ret ()
      else bindE get_now (\<lambda>t.
        create_batches kind lid (shorten 120 title) (shorten 180 body) t recipientIDs))"

definition NotifyStaff ::
  "string \<Rightarrow> string \<Rightarrow> string \<Rightarrow> string \<Rightarrow> string option \<Rightarrow> string list \<Rightarrow> unit op" where
  "NotifyStaff actorID kind title body lid extra =
     bindE (attempt (staffRecipientIDs actorID)) (\<lambda>r. case r of
       Inl e \<Rightarrow> ret ()
     | Inr staff \<Rightarrow>
         CreateMany (filter (\<lambda>i. i \<noteq> trim actorID) (mergeRecipientIDs staff extra)) kind title body lid)"

subsection \<open>Reading\<close>

record app_notification =
  an_id :: string
  an_kind :: string
  an_title :: string
  an_body :: string
  an_read :: bool
  an_createdAt :: int
  an_lead :: "string option"
  an_href :: string

definition bullet :: string where
  "bullet = '' '' @ mid_dot @ '' ''"

fun before_sep :: "string \<Rightarrow> string \<Rightarrow> string" where
  \<comment> \<open>\<open>strings.Split(s, sep)[0]\<close>\<close>
  "before_sep sep [] = []"
| "before_sep sep (c # cs) = (if has_prefix (c # cs) sep then [] else c # before_sep sep cs)"

definition notification_item :: "notif \<Rightarrow> app_notification" where
  "notification_item n =
     (let body = deref (n_body n);
          hint = (if n_kind n = NotifLeadTransfer \<or> n_kind n = NotifSETeamTransfer
                  then trim (before_sep bullet body) else []) in
      \<lparr>an_id = n_id n, an_kind = n_kind n, an_title = n_title n, an_body = body, an_read = n_read n,
       an_createdAt = n_at n, an_lead = n_lead n, an_href = notificationHref (n_kind n) (n_lead n) hint\<rparr>)"

definition ListForUser :: "string \<Rightarrow> int \<Rightarrow> (app_notification list \<times> nat) op" where
  "ListForUser userID0 limit0 =
     (let userID = trim userID0 in
      if userID = [] then throw (ErrMsg ''user required'')
      else let limit = (if limit0 \<le> 0 \<or> limit0 > 100 then 40 else limit0) in
      bindE (query (\<lambda>d. count_where (\<lambda>n. n_to n = userID \<and> \<not> n_read n) (notifs d))) (\<lambda>unread.
      bindE (query (\<lambda>d. take (nat limit) (sort_key (\<lambda>n. - n_at n) (filter (\<lambda>n. n_to n = userID) (notifs d))))) (\<lambda>rows.
      ret (map notification_item rows, unread))))"

definition unread_of :: "string \<Rightarrow> (notif \<Rightarrow> bool) \<Rightarrow> notif \<Rightarrow> bool" where
  "unread_of userID P n \<longleftrightarrow> n_to n = userID \<and> P n \<and> \<not> n_read n"

definition mark_where :: "(notif \<Rightarrow> bool) \<Rightarrow> db \<Rightarrow> db" where
  "mark_where P d = d\<lparr>notifs := upd_where P (\<lambda>n. n\<lparr>n_read := True\<rparr>) (notifs d)\<rparr>"

definition MarkRead :: "string \<Rightarrow> string list \<Rightarrow> bool \<Rightarrow> nat op" where
  "MarkRead userID0 ids everything =
     (let userID = trim userID0 in
      if userID = [] then throw (ErrMsg ''user required'')
      else if everything then
        (let P = unread_of userID (\<lambda>_. True) in
         exec_tag (\<lambda>d. count_where P (notifs d)) (mark_where P))
      else let cl = filter (\<lambda>i. i \<noteq> []) (map trim ids) in
      if cl = [] then ret 0
      else let P = unread_of userID (\<lambda>n. n_id n \<in> set cl) in
        exec_tag (\<lambda>d. count_where P (notifs d)) (mark_where P))"

subsection \<open>Facts\<close>

lemma collect_ids_set: "set (collect_ids excl seen is) = set is - set seen - {[], excl}"
  by (induction "is" arbitrary: seen) auto

definition adds_notifs :: "(notif \<Rightarrow> bool) \<Rightarrow> db \<Rightarrow> db \<Rightarrow> bool" where
  \<comment> \<open>nothing but new unread notifications, all satisfying \<open>P\<close>, with distinct recipients\<close>
  "adds_notifs P d d' \<longleftrightarrow> (\<exists>rows. d' = d\<lparr>notifs := notifs d @ rows\<rparr> \<and> distinct (map n_to rows) \<and>
     (\<forall>n \<in> set rows. P n \<and> \<not> n_read n))"

definition grown :: "(notif \<Rightarrow> bool) \<Rightarrow> string set \<Rightarrow> db \<Rightarrow> db \<Rightarrow> bool" where
  "grown P R d0 d \<longleftrightarrow> (\<exists>rows. d = d0\<lparr>notifs := notifs d0 @ rows\<rparr> \<and> distinct (map n_to rows) \<and>
     n_to ` set rows \<subseteq> R \<and> (\<forall>n \<in> set rows. P n))"

lemma grown_refl: "grown P R d d"
  unfolding grown_def by (rule exI [of _ "[]"]) simp

lemma grown_mono: "grown P R d0 d \<Longrightarrow> R \<subseteq> R' \<Longrightarrow> grown P R' d0 d"
  unfolding grown_def by blast

lemma grown_step:
  assumes "grown P R d0 d" "distinct (map n_to rows)" "n_to ` set rows \<inter> R = {}" "\<forall>n \<in> set rows. P n"
  shows "grown P (R \<union> n_to ` set rows) d0 (d\<lparr>notifs := notifs d @ rows\<rparr>)"
proof -
  obtain old where o: "d = d0\<lparr>notifs := notifs d0 @ old\<rparr>" "distinct (map n_to old)" "n_to ` set old \<subseteq> R"
    "\<forall>n \<in> set old. P n" using assms(1) by (auto simp: grown_def)
  show ?thesis unfolding grown_def
  proof (intro exI [of _ "old @ rows"] conjI)
    show "distinct (map n_to (old @ rows))" using o(2,3) assms(2,3) by auto
  qed (use o assms in auto)
qed

lemma triple_uuid: "triple P new_uuid (\<lambda>_. P) (\<lambda>_. False)"
  by (simp add: triple_def new_uuid_def)

lemma triple_clock: "triple P get_now (\<lambda>_. P) (\<lambda>_. False)"
  by (simp add: triple_def get_now_def)

definition told :: "string \<Rightarrow> string option \<Rightarrow> notif \<Rightarrow> bool" where
  "told kind lid n \<longleftrightarrow> \<not> n_read n \<and> n_kind n = kind \<and> n_lead n = lid"

lemma triple_mk_rows:
  assumes "\<forall>r \<in> set rs. trim r = r \<and> r \<noteq> []"
  shows "triple P (mk_rows kind lid title body t rs)
    (\<lambda>rows d. P d \<and> map n_to rows = rs \<and> (\<forall>n \<in> set rows. told kind lid n)) (\<lambda>_. False)"
  using assms
proof (induction rs)
  case Nil
  show ?case by (simp add: triple_ret)
next
  case (Cons r rs)
  have r: "trim r = r" "r \<noteq> []" using Cons.prems by simp_all
  show ?case
    apply (simp add: r)
    apply (rule triple_bind [OF triple_uuid])
    apply (rule triple_bind [OF Cons.IH])
    using Cons.prems apply simp
    apply (rule triple_ret)
    apply (simp add: told_def)
    done
qed

lemma triple_insert_notifs:
  assumes "\<And>d. P d \<Longrightarrow> Q (d\<lparr>notifs := notifs d @ rows\<rparr>)" "\<And>d. P d \<Longrightarrow> Q d"
  shows "triple P (insert_notifs rows) (\<lambda>_. Q) (\<lambda>_. False)"
  unfolding insert_notifs_def
  apply (split if_split, intro conjI impI)
   apply (rule triple_ret, erule assms(2))
  apply (rule triple_bind [where R = "\<lambda>_. Q"])
   apply (rule triple_attempt, rule triple_exec)
    apply (erule assms(1))
   apply (simp add: assms(2))
  apply (rule triple_ret, assumption)
  done

lemma triple_create_batches:
  assumes "distinct rs" "\<forall>r \<in> set rs. trim r = r \<and> r \<noteq> []" "set rs \<inter> R = {}"
  shows "triple (grown (told kind lid) R d0) (create_batches kind lid title body t rs)
    (\<lambda>_. grown (told kind lid) (R \<union> set rs) d0) (\<lambda>_. False)"
  using assms
proof (induction rs arbitrary: R rule: length_induct)
  case (1 rs)
  show ?case
  proof (cases "rs = []")
    case True
    then show ?thesis by (subst create_batches.simps) (simp add: triple_ret)
  next
    case False
    let ?a = "take batchSize rs" and ?b = "drop batchSize rs"
    have ab: "set ?a \<union> set ?b = set rs" "set ?a \<inter> set ?b = {}" "distinct ?a" "distinct ?b"
      using 1(2) set_take_disj_set_drop_if_distinct [of rs batchSize batchSize]
      by (metis append_take_drop_id set_append, simp_all)
    have len: "length ?b < length rs" using False by (simp add: batchSize_def)
    have sub: "\<forall>r \<in> set ?a. trim r = r \<and> r \<noteq> []" "\<forall>r \<in> set ?b. trim r = r \<and> r \<noteq> []"
      using ab(1) 1(3) by blast+
    have dj: "set ?b \<inter> (R \<union> set ?a) = {}" "set ?a \<inter> R = {}" using ab 1(4) by blast+
    have rest: "triple (grown (told kind lid) (R \<union> set ?a) d0) (create_batches kind lid title body t ?b)
        (\<lambda>_. grown (told kind lid) (R \<union> set rs) d0) (\<lambda>_. False)"
      using 1(1) len ab(4) sub(2) dj(1) ab(1) by (metis Un_assoc)
    show ?thesis
      apply (subst create_batches.simps)
      apply (simp only: False if_False)
      apply (rule triple_bind [OF triple_mk_rows [OF sub(1)]])
      apply (rule triple_seq [OF _ rest])
      apply (rule triple_insert_notifs)
       apply (elim conjE)
      subgoal for rows d
        using grown_step [of "told kind lid" R d0 d rows] ab(3) dj(2) by (metis image_set)
      subgoal by (blast intro: grown_mono)
      done
  qed
qed

lemma triple_CreateMany:
  assumes "distinct rs" "\<forall>r \<in> set rs. trim r = r \<and> r \<noteq> []"
  shows "triple (\<lambda>d. d = d0) (CreateMany rs kind title body lid)
    (\<lambda>_. grown (told (trim kind) lid) (set rs) d0) (\<lambda>_. False)"
proof -
  have c: "triple (\<lambda>d. d = d0) (create_batches (trim kind) lid x y t rs)
      (\<lambda>_. grown (told (trim kind) lid) (set rs) d0) (\<lambda>_. False)" for x y t
    using triple_create_batches [OF assms, of "{}" "trim kind" lid d0 x y t]
    by (rule triple_weaken) (simp_all add: grown_refl)
  show ?thesis
    unfolding CreateMany_def Let_def
    by (split if_split, intro conjI impI triple_ret, simp add: grown_refl,
        split if_split, intro conjI impI triple_ret, simp add: grown_refl,
        rule triple_bind [OF triple_clock], rule c)
qed

definition staff_or_extra :: "string list \<Rightarrow> db \<Rightarrow> string \<Rightarrow> bool" where
  "staff_or_extra extra d i \<longleftrightarrow> i \<in> trim ` set extra \<or>
     (\<exists>u \<in> set (users d). u_role u \<in> set staff_roles \<and> i = trim (u_id u))"

lemma merge_staff:
  assumes "i \<in> set (mergeRecipientIDs (collect_ids a [] (staff_rows d)) extra)"
  shows "i \<noteq> [] \<and> staff_or_extra extra d i"
  using assms
  by (auto simp: mergeRecipientIDs_def clean_ids_set collect_ids_set staff_rows_def staff_or_extra_def)

lemma triple_NotifyStaff:
  "triple (\<lambda>d. d = d0) (NotifyStaff a kind title body lid extra)
     (\<lambda>_. grown (told (trim kind) lid) {i. i \<noteq> trim a \<and> i \<noteq> [] \<and> staff_or_extra extra d0 i} d0) (\<lambda>_. False)"
  unfolding NotifyStaff_def staffRecipientIDs_def
  apply (rule triple_bind [where R = "\<lambda>r d. d = d0 \<and> (\<forall>s. r = Inr s \<longrightarrow> s = collect_ids (trim a) [] (staff_rows d0))"])
   apply (rule triple_attempt)
   apply (rule triple_bind [where R = "\<lambda>ids d. d = d0 \<and> ids = staff_rows d0"])
    apply (rule triple_query; simp)
   apply (rule triple_ret; simp)
  subgoal for r
  proof (cases r)
    case (Inl e)
    then show ?thesis by (simp, intro triple_ret) (auto simp: grown_refl)
  next
    case (Inr staff)
    let ?rs = "filter (\<lambda>i. i \<noteq> trim a) (mergeRecipientIDs staff extra)"
    have d: "distinct ?rs" by (simp add: mergeRecipientIDs_def clean_ids_distinct)
    have t: "\<forall>r \<in> set ?rs. trim r = r \<and> r \<noteq> []" by (auto simp: mergeRecipientIDs_def dest: clean_ids_trimmed)
    have m: "triple (\<lambda>d. d = d0) (CreateMany ?rs kind title body lid)
        (\<lambda>_. grown (told (trim kind) lid) {i. i \<noteq> trim a \<and> i \<noteq> [] \<and> staff_or_extra extra d0 i} d0) (\<lambda>_. False)"
      if s: "staff = collect_ids (trim a) [] (staff_rows d0)"
    proof (rule triple_weaken [OF triple_CreateMany [OF d t]])
      fix x d assume "grown (told (trim kind) lid) (set ?rs) d0 d"
      then show "grown (told (trim kind) lid) {i. i \<noteq> trim a \<and> i \<noteq> [] \<and> staff_or_extra extra d0 i} d0 d"
        by (rule grown_mono) (use merge_staff s in auto)
    qed simp_all
    have "triple (\<lambda>d. d = d0 \<and> staff = collect_ids (trim a) [] (staff_rows d0)) (CreateMany ?rs kind title body lid)
        (\<lambda>_. grown (told (trim kind) lid) {i. i \<noteq> trim a \<and> i \<noteq> [] \<and> staff_or_extra extra d0 i} d0) (\<lambda>_. False)"
      by (rule triple_assume) (rule m)
    then show ?thesis by (simp add: Inr)
  qed
  done

text \<open>Notifying the staff never fails the caller and only appends unread rows of that kind and lead, at
  most one per recipient; a recipient is a staff member or one of the extra ids, and never the actor.\<close>

theorem staff_notifications_exact:
  "(case NotifyStaff a kind title body lid extra w of (r, w') \<Rightarrow>
      r = Inr () \<and> grown (told (trim kind) lid)
        {i. i \<noteq> trim a \<and> i \<noteq> [] \<and> staff_or_extra extra (tables w) i} (tables w) (tables w'))"
proof -
  obtain r w' where m: "NotifyStaff a kind title body lid extra w = (r, w')" by force
  have t: "triple (\<lambda>d. d = tables w) (NotifyStaff a kind title body lid extra)
      (\<lambda>_. grown (told (trim kind) lid) {i. i \<noteq> trim a \<and> i \<noteq> [] \<and> staff_or_extra extra (tables w) i} (tables w)) (\<lambda>_. False)"
    by (rule triple_NotifyStaff)
  show ?thesis
  proof (cases r)
    case (Inl e)
    then show ?thesis using tripleE [OF t refl] m by blast
  next
    case (Inr u)
    then show ?thesis using tripleD [OF t refl] m by simp
  qed
qed

lemma mark_count:
  "count_where (\<lambda>n. n_to n = u \<and> \<not> n_read n) (upd_where (unread_of u Q) (\<lambda>n. n\<lparr>n_read := True\<rparr>) xs)
     + count_where (unread_of u Q) xs = count_where (\<lambda>n. n_to n = u \<and> \<not> n_read n) xs"
  by (induction xs) (auto simp: count_where_def upd_where_def unread_of_def)

definition marked :: "string \<Rightarrow> nat \<Rightarrow> db \<Rightarrow> db \<Rightarrow> bool" where
  "marked u k d d' \<longleftrightarrow> d' = d\<lparr>notifs := notifs d'\<rparr> \<and>
     map (\<lambda>n. n\<lparr>n_read := False\<rparr>) (notifs d') = map (\<lambda>n. n\<lparr>n_read := False\<rparr>) (notifs d) \<and>
     filter (\<lambda>n. n_to n \<noteq> u) (notifs d') = filter (\<lambda>n. n_to n \<noteq> u) (notifs d) \<and>
     count_where (\<lambda>n. n_to n = u \<and> \<not> n_read n) (notifs d') + k = count_where (\<lambda>n. n_to n = u \<and> \<not> n_read n) (notifs d)"

lemma marked_mark: "marked u (count_where (unread_of u Q) (notifs d)) d (mark_where (unread_of u Q) d)"
proof -
  have f: "filter (\<lambda>n. n_to n \<noteq> u) (upd_where (unread_of u Q) (\<lambda>n. n\<lparr>n_read := True\<rparr>) xs) = filter (\<lambda>n. n_to n \<noteq> u) xs" for xs
    by (rule filter_upd_where) (simp add: unread_of_def)
  show ?thesis
    by (simp add: marked_def mark_where_def mark_count f map_upd_where)
qed

lemma triple_MarkRead:
  "triple (\<lambda>d. d = d0) (MarkRead u ids b) (\<lambda>k. marked (trim u) k d0) (\<lambda>d. d = d0)"
  unfolding MarkRead_def Let_def
  apply (split if_split, intro conjI impI)
   apply (rule triple_throw, assumption)
  apply (split if_split, intro conjI impI)
   apply (rule triple_exec_tag)
    apply (simp add: marked_mark)
   apply assumption
  apply (split if_split, intro conjI impI)
   apply (rule triple_ret)
   apply (simp add: marked_def)
  apply (rule triple_exec_tag)
   apply (simp add: marked_mark)
  apply assumption
  done

text \<open>Marking as read changes nothing but the read flag of the caller's own notifications, and the number
  returned is exactly the decrease of the caller's unread count; on an error nothing changes.\<close>

theorem mark_read_exact:
  "(case MarkRead u ids b w of
      (Inl e, w') \<Rightarrow> tables w' = tables w
    | (Inr k, w') \<Rightarrow> marked (trim u) k (tables w) (tables w'))"
proof -
  obtain r w' where m: "MarkRead u ids b w = (r, w')" by force
  show ?thesis
    using tripleD [OF triple_MarkRead refl, of u ids b w _ w'] tripleE [OF triple_MarkRead refl, of u ids b w _ w'] m
    by (cases r) auto
qed

end
