(* ===== verification/Server.thy ===== *)
theory Server
  imports Hub Limiter Cache Validate Notify UserMoves LeadChanges Assign
begin

section \<open>Requests, responses and the state of the server\<close>

text \<open>
  The state the handlers share (\<open>Server\<close> in handlers.go): the database, the realtime hub, the
  response cache and the login limiter, as wired by \<open>main.go\<close> (in-memory cache). A handler is a
  function of that state which ends with a response; \<open>reply\<close> is "write the response and return".
  A panic of a hub operation becomes the 500 of \<open>recoverMiddleware\<close>. The JSON body arrives decoded,
  \<open>None\<close> when \<open>decodeJSON\<close> fails; response bodies are the values handed to the encoder.
\<close>

record auth_response =
  ar_token :: string
  ar_sessionId :: string
  ar_expires :: int
  ar_user :: public_user

datatype payload =
    PError string | PInvalid validation | POk
  | PHealth string string int
  | PAuth auth_response | PMe public_user | PRoles "role_info list" "role_info list" bool
  | PUsers "public_user list" nat bool | PNewUser public_user string | PUser public_user "string option"
  | PDeletedUser string | PTransferSE transfer_se_result | PTransferLA transfer_analyst_result
  | PTeams "team_brief list" | PAnalystTeams "analyst_team_brief list"
  | PLead lead_detail | PNewLead string | PLeadUpdated string | PQual string string string
  | PDeleted nat | PAssignable "assignable_user list" string | PAssigned "assign_result list"
  | PPresence "(string \<times> string \<times> string \<times> string list \<times> string list) option"
  | PNotifications "app_notification list" nat | PMarked nat
  | PBytes string   \<comment> \<open>a body already encoded, as the response cache holds it\<close>

record cookie =
  ck_value :: string
  ck_maxAge :: int
  ck_expires :: int

record response =
  r_status :: nat
  r_body :: payload
  r_cookie :: "cookie option"

record server =
  s_world :: world
  s_hub :: hub
  s_cache :: mem_cache
  s_gate :: login_limiter

definition json :: "nat \<Rightarrow> payload \<Rightarrow> response" where
  \<comment> \<open>writeJSON\<close>
  "json st p = \<lparr>r_status = st, r_body = p, r_cookie = None\<rparr>"

definition failure :: "nat \<Rightarrow> string \<Rightarrow> response" where
  \<comment> \<open>writeError\<close>
  "failure st msg = json st (PError msg)"

definition invalid :: "validation \<Rightarrow> response" where
  \<comment> \<open>writeValidationError\<close>
  "invalid v = json 400 (PInvalid v)"

subsection \<open>Handlers\<close>

type_synonym 'a act = "server \<Rightarrow> (response + 'a) \<times> server"

definition pass :: "'a \<Rightarrow> 'a act" where
  "pass a s = (Inr a, s)"

definition reply :: "response \<Rightarrow> 'a act" where
  "reply r s = (Inl r, s)"

definition andThen :: "'a act \<Rightarrow> ('a \<Rightarrow> 'b act) \<Rightarrow> 'b act" where
  "andThen m f s = (case m s of (Inl r, s') \<Rightarrow> (Inl r, s') | (Inr a, s') \<Rightarrow> f a s')"

definition andThen0 :: "unit act \<Rightarrow> 'b act \<Rightarrow> 'b act" where
  "andThen0 m n = andThen m (\<lambda>_. n)"

definition require :: "bool \<Rightarrow> response \<Rightarrow> unit act" where
  \<comment> \<open>\<open>if !b { write r; return }\<close>\<close>
  "require b r = (if b then pass () else reply r)"

definition store :: "'a op \<Rightarrow> (err + 'a) act" where
  "store m s = (case m (s_world s) of (r, w) \<Rightarrow> (Inr r, s\<lparr>s_world := w\<rparr>))"

definition clock :: "int act" where
  "clock s = (Inr (now (s_world s)), s)"

definition panicked_response :: response where
  \<comment> \<open>recoverMiddleware\<close>
  "panicked_response = failure 500 ''internal server error''"

definition hub_do :: "(hub \<Rightarrow> hub option) \<Rightarrow> unit act" where
  "hub_do f s = (case f (s_hub s) of
     None \<Rightarrow> (Inl panicked_response, s) | Some h \<Rightarrow> (Inr (), s\<lparr>s_hub := h\<rparr>))"

definition hub_get :: "hub act" where
  "hub_get s = (Inr (s_hub s), s)"

definition cache_clear :: "unit act" where
  "cache_clear s = (Inr (), s\<lparr>s_cache := mem_Clear (s_cache s)\<rparr>)"

definition gate_allow :: "string \<Rightarrow> bool act" where
  "gate_allow k s = (case allow (now (s_world s)) k (s_gate s) of (b, g) \<Rightarrow> (Inr b, s\<lparr>s_gate := g\<rparr>))"

definition run_handler :: "response act \<Rightarrow> server \<Rightarrow> response \<times> server" where
  "run_handler m s = (case m s of (Inl r, s') \<Rightarrow> (r, s') | (Inr r, s') \<Rightarrow> (r, s'))"

definition emitLead :: "string \<Rightarrow> string \<Rightarrow> string \<Rightarrow> unit act" where
  "emitLead evt leadID actorID = andThen0 cache_clear (andThen clock (\<lambda>t.
     hub_do (broadcast t (blank_event\<lparr>ev_type := evt, ev_lead := leadID, ev_actor := actorID\<rparr>))))"

definition emitUser :: "string \<Rightarrow> string \<Rightarrow> string \<Rightarrow> unit act" where
  "emitUser evt userID actorID = andThen0 cache_clear (andThen clock (\<lambda>t.
     hub_do (broadcast t (blank_event\<lparr>ev_type := evt, ev_user := userID, ev_actor := actorID\<rparr>))))"

definition notify :: "string \<Rightarrow> string \<Rightarrow> string \<Rightarrow> string \<Rightarrow> string option \<Rightarrow> string list \<Rightarrow> unit act" where
  \<comment> \<open>\<open>s.notifications.NotifyStaff(...)\<close>, which returns nothing\<close>
  "notify actorID kind title body lid extra =
     andThen (store (NotifyStaff actorID kind title body lid extra)) (\<lambda>_. pass ())"

definition fresh_server :: "db \<Rightarrow> server" where
  \<comment> \<open>the server of main.go at start-up, over given tables and with no failing statement\<close>
  "fresh_server d = \<lparr>s_world = calm_world d, s_hub = new_hub, s_cache = NewResponseCache,
     s_gate = newLoginLimiter 12 600000\<rparr>"

subsection \<open>Error texts\<close>

fun err_text :: "err \<Rightarrow> string" where
  "err_text ErrUserNotFound = ''user not found''"
| "err_text ErrEmailTaken = ''email already in use''"
| "err_text ErrInvalidCredentials = ''invalid email or password''"
| "err_text ErrPasswordNotSet = ''password not set for this account''"
| "err_text ErrAccountInactive = ''account is inactive''"
| "err_text ErrCannotDeleteSelf = ''cannot delete your own account''"
| "err_text ErrCannotDeactivateSelf = ''cannot deactivate your own account''"
| "err_text ErrLastSuperadmin = ''cannot delete the last superadmin''"
| "err_text ErrLastActiveSuperadmin = ''cannot deactivate the last active superadmin''"
| "err_text ErrDeleteBlocked = ''user cannot be deleted due to related records''"
| "err_text ErrReplacement = ''user cannot be deleted due to related records: assign another Main Team Lead to the team first''"
| "err_text ErrTeamNameRequired = ''team name is required''"
| "err_text ErrNotSalesExecutive = ''user is not a sales executive''"
| "err_text ErrSameTeam = ''sales executive is already on that team''"
| "err_text ErrTeamNotFound = ''destination team not found''"
| "err_text ErrTeamConflict = ''sales executive team changed '' @ em_dash @ '' refresh and try again''"
| "err_text ErrTransferForbidden = ''you cannot transfer this sales executive''"
| "err_text ErrNotLeadAnalyst = ''user is not a lead analyst''"
| "err_text ErrSameAnalystTeam = ''lead analyst is already on that team''"
| "err_text ErrAnalystTeamNotFound = ''destination analyst team not found''"
| "err_text ErrNoRows = ''no rows in result set''"
| "err_text (ErrMsg m) = m"
| "err_text (ErrPg c m) = m"

subsection \<open>Reasoning about handlers\<close>

named_theorems quiet_intros \<open>handlers that leave the tables alone\<close>

definition htriple :: "(server \<Rightarrow> bool) \<Rightarrow> 'a act \<Rightarrow> ('a \<Rightarrow> server \<Rightarrow> bool) \<Rightarrow> (response \<Rightarrow> server \<Rightarrow> bool) \<Rightarrow> bool" where
  \<comment> \<open>from a state satisfying \<open>P\<close>, going on with \<open>a\<close> gives \<open>Q a\<close>, a response \<open>r\<close> gives \<open>E r\<close>\<close>
  "htriple P m Q E \<longleftrightarrow> (\<forall>s. P s \<longrightarrow> (case m s of (Inl r, s') \<Rightarrow> E r s' | (Inr a, s') \<Rightarrow> Q a s'))"

lemma htripleI:
  "(\<And>s a s'. P s \<Longrightarrow> m s = (Inr a, s') \<Longrightarrow> Q a s') \<Longrightarrow>
   (\<And>s r s'. P s \<Longrightarrow> m s = (Inl r, s') \<Longrightarrow> E r s') \<Longrightarrow> htriple P m Q E"
  by (auto simp: htriple_def split: prod.split sum.split)

lemma htripleD: "htriple P m Q E \<Longrightarrow> P s \<Longrightarrow> m s = (Inr a, s') \<Longrightarrow> Q a s'"
  unfolding htriple_def by (metis (no_types, lifting) old.prod.case sum.simps(6))

lemma htripleE: "htriple P m Q E \<Longrightarrow> P s \<Longrightarrow> m s = (Inl r, s') \<Longrightarrow> E r s'"
  unfolding htriple_def by (metis (no_types, lifting) old.prod.case sum.simps(5))

lemma h_andThen:
  assumes "htriple P m R E" "\<And>a. htriple (R a) (f a) Q E"
  shows "htriple P (andThen m f) Q E"
proof (rule htripleI)
  fix s a s' assume P: "P s" and r: "andThen m f s = (Inr a, s')"
  obtain b s1 where m: "m s = (Inr b, s1)" "f b s1 = (Inr a, s')"
    using r by (auto simp: andThen_def split: prod.splits sum.splits)
  show "Q a s'" by (rule htripleD [OF assms(2) htripleD [OF assms(1) P m(1)] m(2)])
next
  fix s r s' assume P: "P s" and r: "andThen m f s = (Inl r, s')"
  then consider "m s = (Inl r, s')" | b s1 where "m s = (Inr b, s1)" "f b s1 = (Inl r, s')"
    by (auto simp: andThen_def split: prod.splits sum.splits)
  then show "E r s'"
  proof cases
    case 1
    then show ?thesis by (rule htripleE [OF assms(1) P])
  next
    case 2
    show ?thesis by (rule htripleE [OF assms(2) htripleD [OF assms(1) P 2(1)] 2(2)])
  qed
qed

lemma h_andThen0: "htriple P m (\<lambda>_. R) E \<Longrightarrow> htriple R n Q E \<Longrightarrow> htriple P (andThen0 m n) Q E"
  by (simp add: andThen0_def h_andThen)

lemma h_weaken:
  "htriple P m Q E \<Longrightarrow> (\<And>s. P' s \<Longrightarrow> P s) \<Longrightarrow> (\<And>a s. Q a s \<Longrightarrow> Q' a s) \<Longrightarrow> (\<And>r s. E r s \<Longrightarrow> E' r s) \<Longrightarrow>
   htriple P' m Q' E'"
  by (fastforce simp: htriple_def split: prod.splits sum.splits)

lemma h_pre: "htriple P m Q E \<Longrightarrow> (\<And>s. P' s \<Longrightarrow> P s) \<Longrightarrow> htriple P' m Q E"
  by (erule h_weaken)

lemma h_assume: "(C \<Longrightarrow> htriple P m Q E) \<Longrightarrow> htriple (\<lambda>s. P s \<and> C) m Q E"
  by (simp add: htriple_def)

lemma h_pass: "(\<And>s. P s \<Longrightarrow> Q a s) \<Longrightarrow> htriple P (pass a) Q E"
  by (simp add: htriple_def pass_def)

lemma h_reply: "(\<And>s. P s \<Longrightarrow> E r s) \<Longrightarrow> htriple P (reply r) Q E"
  by (simp add: htriple_def reply_def)

lemma h_require:
  "(\<And>s. P s \<Longrightarrow> b \<Longrightarrow> Q () s) \<Longrightarrow> (\<And>s. P s \<Longrightarrow> \<not> b \<Longrightarrow> E r s) \<Longrightarrow> htriple P (require b r) Q E"
  by (simp add: require_def h_pass h_reply)

lemma h_store: "(\<And>s r w. P s \<Longrightarrow> m (s_world s) = (r, w) \<Longrightarrow> Q r (s\<lparr>s_world := w\<rparr>)) \<Longrightarrow> htriple P (store m) Q E"
  by (auto simp: htriple_def store_def split: prod.split)

lemma h_store_readonly:
  assumes "readonly m" "\<And>s s' r. P s \<Longrightarrow> tables (s_world s') = tables (s_world s) \<Longrightarrow> s_cache s' = s_cache s \<Longrightarrow>
      s_hub s' = s_hub s \<Longrightarrow> Q r s'"
  shows "htriple P (store m) Q E"
  by (rule h_store, rule assms(2)) (use readonlyD [OF assms(1)] in auto)

lemma h_clock: "(\<And>s. P s \<Longrightarrow> Q (now (s_world s)) s) \<Longrightarrow> htriple P clock Q E"
  by (simp add: htriple_def clock_def)

lemma h_hub_get: "(\<And>s. P s \<Longrightarrow> Q (s_hub s) s) \<Longrightarrow> htriple P hub_get Q E"
  by (simp add: htriple_def hub_get_def)

lemma h_cache_clear: "(\<And>s. P s \<Longrightarrow> Q () (s\<lparr>s_cache := mem_Clear (s_cache s)\<rparr>)) \<Longrightarrow> htriple P cache_clear Q E"
  by (simp add: htriple_def cache_clear_def)

lemma h_hub_do:
  "(\<And>s h. P s \<Longrightarrow> f (s_hub s) = Some h \<Longrightarrow> Q () (s\<lparr>s_hub := h\<rparr>)) \<Longrightarrow>
   (\<And>s. P s \<Longrightarrow> f (s_hub s) = None \<Longrightarrow> E panicked_response s) \<Longrightarrow> htriple P (hub_do f) Q E"
  by (auto simp: htriple_def hub_do_def split: option.split)

lemma h_gate: "(\<And>s b g. P s \<Longrightarrow> Q b (s\<lparr>s_gate := g\<rparr>)) \<Longrightarrow> htriple P (gate_allow k) Q E"
  by (auto simp: htriple_def gate_allow_def split: prod.split)

lemma h_if: "(b \<Longrightarrow> htriple P m Q E) \<Longrightarrow> (\<not> b \<Longrightarrow> htriple P n Q E) \<Longrightarrow> htriple P (if b then m else n) Q E"
  by simp

lemma h_option:
  "(p = None \<Longrightarrow> htriple P m Q E) \<Longrightarrow> (\<And>a. p = Some a \<Longrightarrow> htriple P (f a) Q E) \<Longrightarrow>
   htriple P (case p of None \<Rightarrow> m | Some a \<Rightarrow> f a) Q E"
  by (cases p) simp_all

lemma h_sum:
  "(\<And>e. p = Inl e \<Longrightarrow> htriple P (g e) Q E) \<Longrightarrow> (\<And>a. p = Inr a \<Longrightarrow> htriple P (f a) Q E) \<Longrightarrow>
   htriple P (case p of Inl e \<Rightarrow> g e | Inr a \<Rightarrow> f a) Q E"
  by (cases p) simp_all

lemma h_prod:
  "(\<And>a b. p = (a, b) \<Longrightarrow> htriple P (f a b) Q E) \<Longrightarrow> htriple P (case p of (a, b) \<Rightarrow> f a b) Q E"
  by (cases p) simp

lemma run_handlerD:
  assumes "htriple P m E E" "P s"
  shows "E (fst (run_handler m s)) (snd (run_handler m s))"
proof -
  obtain x s' where m: "m s = (x, s')" by force
  show ?thesis using htripleD [OF assms, of _ s'] htripleE [OF assms, of _ s'] m
    by (cases x) (auto simp: run_handler_def)
qed

subsection \<open>Handlers that leave the tables alone\<close>

definition quiet :: "'a act \<Rightarrow> bool" where
  "quiet m \<longleftrightarrow> (\<forall>s. tables (s_world (snd (m s))) = tables (s_world s))"

lemma quietD: "quiet m \<Longrightarrow> m s = (r, s') \<Longrightarrow> tables (s_world s') = tables (s_world s)"
  by (metis quiet_def snd_conv)

lemma quiet_triple: "quiet m \<Longrightarrow> (\<And>s s' a. P s \<Longrightarrow> tables (s_world s') = tables (s_world s) \<Longrightarrow> Q a s') \<Longrightarrow>
    (\<And>s s' r. P s \<Longrightarrow> tables (s_world s') = tables (s_world s) \<Longrightarrow> E r s') \<Longrightarrow> htriple P m Q E"
  by (rule htripleI) (metis quietD)+

lemma quiet_pass [quiet_intros]: "quiet (pass a)"
  by (simp add: quiet_def pass_def)

lemma quiet_reply [quiet_intros]: "quiet (reply r)"
  by (simp add: quiet_def reply_def)

lemma quiet_require [quiet_intros]: "quiet (require b r)"
  by (simp add: require_def quiet_pass quiet_reply)

lemma quiet_andThen [quiet_intros]: "quiet m \<Longrightarrow> (\<And>a. quiet (f a)) \<Longrightarrow> quiet (andThen m f)"
  by (simp add: quiet_def andThen_def split: prod.split sum.split) (metis snd_conv)

lemma quiet_andThen0 [quiet_intros]: "quiet m \<Longrightarrow> quiet n \<Longrightarrow> quiet (andThen0 m n)"
  by (simp add: andThen0_def quiet_andThen)

lemma quiet_store [quiet_intros]: "readonly m \<Longrightarrow> quiet (store m)"
  by (auto simp: quiet_def store_def dest: readonlyD split: prod.split)

lemma quiet_clock [quiet_intros]: "quiet clock"
  by (simp add: quiet_def clock_def)

lemma quiet_hub_get [quiet_intros]: "quiet hub_get"
  by (simp add: quiet_def hub_get_def)

lemma quiet_hub_do [quiet_intros]: "quiet (hub_do f)"
  by (simp add: quiet_def hub_do_def split: option.split)

lemma quiet_cache_clear [quiet_intros]: "quiet cache_clear"
  by (simp add: quiet_def cache_clear_def)

lemma quiet_gate [quiet_intros]: "quiet (gate_allow k)"
  by (simp add: quiet_def gate_allow_def split: prod.split)

lemma quiet_if [quiet_intros]: "quiet m \<Longrightarrow> quiet n \<Longrightarrow> quiet (if b then m else n)"
  by simp

lemma quiet_option [quiet_intros]:
  "quiet m \<Longrightarrow> (\<And>a. quiet (f a)) \<Longrightarrow> quiet (case p of None \<Rightarrow> m | Some a \<Rightarrow> f a)"
  by (simp split: option.split)

lemma quiet_sum [quiet_intros]:
  "(\<And>a. quiet (g a)) \<Longrightarrow> (\<And>a. quiet (f a)) \<Longrightarrow> quiet (case p of Inl a \<Rightarrow> g a | Inr a \<Rightarrow> f a)"
  by (simp split: sum.split)

lemma quiet_prod [quiet_intros]: "(\<And>a b. quiet (f a b)) \<Longrightarrow> quiet (case p of (a, b) \<Rightarrow> f a b)"
  by (simp split: prod.split)

lemma quiet_let [quiet_intros]: "quiet (f a) \<Longrightarrow> quiet (let x = a in f x)"
  by simp

lemma quiet_emit [quiet_intros]: "quiet (emitLead e l a)" "quiet (emitUser e u a)"
  unfolding emitLead_def emitUser_def by (intro quiet_intros)+

subsection \<open>Handlers that keep an invariant of the tables\<close>

named_theorems hkeeps_intros \<open>handlers that keep an invariant of the tables\<close>

definition hkeeps :: "(db \<Rightarrow> bool) \<Rightarrow> 'a act \<Rightarrow> bool" where
  "hkeeps I m \<longleftrightarrow> (\<forall>s. I (tables (s_world s)) \<longrightarrow> I (tables (s_world (snd (m s)))))"

lemma hkeeps_quiet: "quiet m \<Longrightarrow> hkeeps I m"
  by (simp add: hkeeps_def quiet_def)

lemma hkeeps_store [hkeeps_intros]: "keeps I m \<Longrightarrow> hkeeps I (store m)"
  by (auto simp: hkeeps_def store_def dest: keepsD split: prod.split)

lemma hkeeps_andThen [hkeeps_intros]: "hkeeps I m \<Longrightarrow> (\<And>a. hkeeps I (f a)) \<Longrightarrow> hkeeps I (andThen m f)"
  by (simp add: hkeeps_def andThen_def split: prod.split sum.split) (metis snd_conv)

lemma hkeeps_andThen0 [hkeeps_intros]: "hkeeps I m \<Longrightarrow> hkeeps I n \<Longrightarrow> hkeeps I (andThen0 m n)"
  by (simp add: andThen0_def hkeeps_andThen)

lemma hkeeps_basic [hkeeps_intros]:
  "hkeeps I (pass x)" "hkeeps I (reply r)" "hkeeps I (require b r)" "hkeeps I clock" "hkeeps I hub_get"
  "hkeeps I (hub_do f)" "hkeeps I cache_clear" "hkeeps I (gate_allow k)" "hkeeps I (emitLead e l a)"
  "hkeeps I (emitUser e' u a')"
  by (rule hkeeps_quiet, rule quiet_intros)+

lemma hkeeps_if [hkeeps_intros]:
  "(b \<Longrightarrow> hkeeps I m) \<Longrightarrow> (\<not> b \<Longrightarrow> hkeeps I n) \<Longrightarrow> hkeeps I (if b then m else n)"
  by simp

lemma hkeeps_option [hkeeps_intros]:
  "(p = None \<Longrightarrow> hkeeps I m) \<Longrightarrow> (\<And>a. p = Some a \<Longrightarrow> hkeeps I (f a)) \<Longrightarrow> hkeeps I (case p of None \<Rightarrow> m | Some a \<Rightarrow> f a)"
  by (simp split: option.split)

lemma hkeeps_sum [hkeeps_intros]:
  "(\<And>a. p = Inl a \<Longrightarrow> hkeeps I (g a)) \<Longrightarrow> (\<And>a. p = Inr a \<Longrightarrow> hkeeps I (f a)) \<Longrightarrow>
     hkeeps I (case p of Inl a \<Rightarrow> g a | Inr a \<Rightarrow> f a)"
  by (simp split: sum.split)

lemma hkeeps_prod [hkeeps_intros]:
  "(\<And>a b. p = (a, b) \<Longrightarrow> hkeeps I (f a b)) \<Longrightarrow> hkeeps I (case p of (a, b) \<Rightarrow> f a b)"
  by (simp split: prod.split)

lemma hkeeps_run: "hkeeps I m \<Longrightarrow> I (tables (s_world s)) \<Longrightarrow> I (tables (s_world (snd (run_handler m s))))"
  by (auto simp: hkeeps_def run_handler_def split: prod.split sum.split dest!: spec [of _ s])

end
