(* ===== verification/Access.thy ===== *)
theory Access
  imports Server
begin

section \<open>Who may see which lead (handlers.go, geo_filter.go)\<close>

text \<open>
  The scope a request gets from its actor: the lead-list parameters forced by
  \<open>applyActorLeadScope\<close>, the geography filter, and the check \<open>requireLeadAccess\<close> that guards every
  route of a single lead. An actor is \<open>None\<close> when the request context carries no user.
\<close>

record lead_params =
  lp_filter :: string
  lp_sort :: string
  lp_query :: string
  lp_field :: string
  lp_cursor :: string
  lp_limit :: int
  lp_country :: string
  lp_city :: string
  lp_team :: string
  lp_analyst :: string
  lp_se :: string
  lp_manager :: string
  lp_atl :: string
  lp_atlTeam :: string
  lp_source :: string
  lp_portal :: string
  lp_metaProfile :: string
  lp_status :: string
  lp_stage :: string
  lp_serviceLine :: string
  lp_reason :: string
  lp_addedFrom :: string
  lp_addedTo :: string

record geo_filter =
  gf_country :: string
  gf_city :: string
  gf_createdBy :: string
  gf_team :: string
  gf_se :: string
  gf_atl :: string
  gf_atlTeam :: string

definition no_team :: string where
  "no_team = ''00000000-0000-0000-0000-000000000000''"

fun firstNonEmpty :: "string list \<Rightarrow> string" where
  "firstNonEmpty [] = []"
| "firstNonEmpty (v # vs) = (if trim v \<noteq> [] then trim v else firstNonEmpty vs)"

definition qget :: "(string \<times> string) list \<Rightarrow> string \<Rightarrow> string" where
  \<comment> \<open>\<open>r.URL.Query().Get\<close>: the first value of the key, or empty\<close>
  "qget q k = (case map_of q k of None \<Rightarrow> [] | Some v \<Rightarrow> v)"

definition actorLeadOwnerID :: "auth_user option \<Rightarrow> string" where
  "actorLeadOwnerID a = (case a of None \<Rightarrow> [] | Some u \<Rightarrow> leadDataOwnerID (a_role u) (a_id u))"

definition actorLeadTeamID :: "auth_user option \<Rightarrow> string" where
  "actorLeadTeamID a = (case a of None \<Rightarrow> [] | Some u \<Rightarrow> leadTeamScopeID (a_role u) (a_team u))"

definition actorLeadSalesExecID :: "auth_user option \<Rightarrow> string" where
  "actorLeadSalesExecID a = (case a of None \<Rightarrow> [] | Some u \<Rightarrow> leadSalesExecScopeID (a_role u) (a_id u))"

definition actorAnalystTeamScope :: "auth_user option \<Rightarrow> string \<times> string" where
  "actorAnalystTeamScope a = (case a of None \<Rightarrow> ([], [])
     | Some u \<Rightarrow> let atlID = leadAnalystTeamLeadID (a_role u) (a_id u) in
         if atlID = [] then ([], []) else (atlID, derefTeamName (a_analystTeam u)))"

definition actor_is_mtl :: "auth_user option \<Rightarrow> bool" where
  "actor_is_mtl a = (case a of None \<Rightarrow> False | Some u \<Rightarrow> isMainTeamLead (a_role u))"

definition applyActorLeadScope :: "auth_user option \<Rightarrow> lead_params \<Rightarrow> lead_params" where
  "applyActorLeadScope a p0 =
     (let owner = actorLeadOwnerID a;
          p1 = (if owner \<noteq> [] then p0\<lparr>lp_analyst := owner\<rparr> else p0);
          seID = actorLeadSalesExecID a;
          p2 = (if seID \<noteq> [] then p1\<lparr>lp_se := seID\<rparr> else p1);
          (atlID, teamName) = actorAnalystTeamScope a;
          p3 = (if atlID \<noteq> [] then p2\<lparr>lp_atl := atlID, lp_atlTeam := teamName, lp_manager := []\<rparr> else p2);
          teamID = actorLeadTeamID a in
      if teamID \<noteq> [] then p3\<lparr>lp_team := teamID\<rparr>
      else if actor_is_mtl a then p3\<lparr>lp_team := no_team\<rparr>
      else p3)"

definition leadListParamsFromRequest :: "auth_user option \<Rightarrow> (string \<times> string) list \<Rightarrow> lead_params" where
  "leadListParamsFromRequest a q = applyActorLeadScope a \<lparr>
     lp_filter = qget q ''filter'', lp_sort = [], lp_query = [], lp_field = [], lp_cursor = [], lp_limit = 0,
     lp_country = qget q ''country'', lp_city = qget q ''city'', lp_team = qget q ''teamId'',
     lp_analyst = qget q ''analystId'', lp_se = qget q ''salesExecId'', lp_manager = qget q ''managerId'',
     lp_atl = [], lp_atlTeam = [], lp_source = qget q ''source'', lp_portal = qget q ''portal'',
     lp_metaProfile = qget q ''metaProfile'', lp_status = qget q ''status'', lp_stage = qget q ''stage'',
     lp_serviceLine = qget q ''serviceLine'',
     lp_reason = firstNonEmpty [qget q ''reason'', qget q ''qualificationReason''],
     lp_addedFrom = qget q ''addedFrom'', lp_addedTo = qget q ''addedTo''\<rparr>"

definition parseGeoFilter :: "string \<Rightarrow> string \<Rightarrow> geo_filter" where
  "parseGeoFilter country city = \<lparr>gf_country = trim country, gf_city = trim city, gf_createdBy = [],
     gf_team = [], gf_se = [], gf_atl = [], gf_atlTeam = []\<rparr>"

definition geoFilterFromRequest :: "auth_user option \<Rightarrow> (string \<times> string) list \<Rightarrow> geo_filter" where
  "geoFilterFromRequest a q =
     (let f = (parseGeoFilter (qget q ''country'') (qget q ''city''))\<lparr>gf_createdBy := actorLeadOwnerID a,
            gf_team := actorLeadTeamID a, gf_se := actorLeadSalesExecID a,
            gf_atl := fst (actorAnalystTeamScope a), gf_atlTeam := snd (actorAnalystTeamScope a)\<rparr> in
      if gf_team f = [] \<and> actor_is_mtl a then f\<lparr>gf_team := no_team\<rparr> else f)"

definition geo_active :: "geo_filter \<Rightarrow> bool" where
  "geo_active f \<longleftrightarrow> gf_country f \<noteq> [] \<or> gf_city f \<noteq> [] \<or> gf_createdBy f \<noteq> [] \<or> gf_team f \<noteq> []
     \<or> gf_se f \<noteq> [] \<or> trim (gf_atl f) \<noteq> []"

subsection \<open>The guard of a single lead\<close>

definition requireLeadDataAccess :: "auth_user option \<Rightarrow> unit act" where
  "requireLeadDataAccess a = (case a of
     None \<Rightarrow> reply (failure 401 ''authentication required'')
   | Some u \<Rightarrow> require (canViewLeadData (a_role u)) (failure 403 ''lead data is not available for this role''))"

definition scope_check :: "bool op \<Rightarrow> unit act" where
  \<comment> \<open>the query of one scope and its three outcomes\<close>
  "scope_check m = andThen (store m) (\<lambda>r. case r of
     Inl e \<Rightarrow> reply (failure 500 ''failed to authorize lead access'')
   | Inr ok \<Rightarrow> require ok (failure 404 ''lead not found''))"

definition requireLeadAccess :: "auth_user option \<Rightarrow> string \<Rightarrow> unit act" where
  "requireLeadAccess a leadID = andThen0 (requireLeadDataAccess a)
     (let owner = actorLeadOwnerID a; seID = actorLeadSalesExecID a;
          (atlID, teamName) = actorAnalystTeamScope a; teamID = actorLeadTeamID a in
      if owner \<noteq> [] then scope_check (IsCreatedBy leadID owner)
      else if seID \<noteq> [] then scope_check (IsAssignedToSalesExec leadID seID)
      else if atlID \<noteq> [] then scope_check (IsCreatedByAnalystTeam leadID atlID teamName)
      else if teamID = [] then
        (if actor_is_mtl a then reply (failure 404 ''lead not found'') else pass ())
      else scope_check (IsOnTeam leadID teamID))"

subsection \<open>What the scopes mean\<close>

definition may_see :: "db \<Rightarrow> auth_user \<Rightarrow> lead \<Rightarrow> bool" where
  \<comment> \<open>the abstract policy: analysts their own leads, executives those assigned to them, an analyst team
      lead the leads of the analyst team, a main team lead those of the team, the superadmin all\<close>
  "may_see d u l =
     (if a_role u = RoleSuperadmin then True
      else if a_role u = RoleLeadAnalyst then l_createdBy l = Some (trim (a_id u))
      else if a_role u = RoleSalesExecutive then l_se l = Some (trim (a_id u))
      else if a_role u = RoleAnalystTeamLead then
        in_analyst_scope d (trim (a_id u)) (trim (derefTeamName (a_analystTeam u))) l
      else if a_role u = RoleMainTeamLead then
        a_team u \<noteq> None \<and> trimmed (a_team u) \<noteq> [] \<and> l_team l = Some (trimmed (a_team u))
      else False)"

lemma scope_defs:
  "actorLeadOwnerID (Some u) = (if a_role u = RoleLeadAnalyst then trim (a_id u) else [])"
  "actorLeadSalesExecID (Some u) = (if a_role u = RoleSalesExecutive then trim (a_id u) else [])"
  "actorAnalystTeamScope (Some u) = (if a_role u = RoleAnalystTeamLead \<and> trim (a_id u) \<noteq> []
      then (trim (a_id u), derefTeamName (a_analystTeam u)) else ([], []))"
  "actorLeadTeamID (Some u) = (if a_role u = RoleMainTeamLead then trimmed (a_team u) else [])"
  "actor_is_mtl (Some u) = (a_role u = RoleMainTeamLead)"
  by (auto simp: actorLeadOwnerID_def actorLeadSalesExecID_def actorAnalystTeamScope_def actorLeadTeamID_def
      actor_is_mtl_def leadDataOwnerID_def leadSalesExecScopeID_def leadAnalystTeamLeadID_def
      leadTeamScopeID_def role_tests Let_def split: option.split)

definition decides :: "bool op \<Rightarrow> (db \<Rightarrow> bool) \<Rightarrow> bool" where
  \<comment> \<open>a read-only test of \<open>V\<close> that answers unless a statement fails\<close>
  "decides m V \<longleftrightarrow> (\<forall>w r w'. m w = (r, w') \<longrightarrow> tables w' = tables w \<and>
     (\<forall>b. r = Inr b \<longrightarrow> b = V (tables w)) \<and> (calm w \<longrightarrow> (\<exists>b. r = Inr b)))"

lemma decides_query: "decides (query V) V"
  by (auto simp: decides_def query_def sql_def calm_def split: list.splits option.splits if_splits)

lemma decides_scope:
  assumes "trim i \<noteq> []" "trim u \<noteq> []"
  shows "decides (IsCreatedBy i u) (\<lambda>d. list_ex (\<lambda>l. l_id l = trim i \<and> l_createdBy l = Some (trim u)) (leads d))"
    and "decides (IsAssignedToSalesExec i u) (\<lambda>d. list_ex (\<lambda>l. l_id l = trim i \<and> l_se l = Some (trim u)) (leads d))"
    and "decides (IsOnTeam i u) (\<lambda>d. list_ex (\<lambda>l. l_id l = trim i \<and> l_team l = Some (trim u)) (leads d))"
    and "decides (IsCreatedByAnalystTeam i u tn)
      (\<lambda>d. list_ex (\<lambda>l. l_id l = trim i \<and> in_analyst_scope d (trim u) (trim tn) l) (leads d))"
  using assms
  by (simp_all add: IsCreatedBy_def IsAssignedToSalesExec_def IsOnTeam_def IsCreatedByAnalystTeam_def Let_def decides_query)

definition admits :: "unit act \<Rightarrow> (db \<Rightarrow> bool) \<Rightarrow> bool" where
  \<comment> \<open>a guard that changes no table, lets pass only where \<open>V\<close> holds, and always there unless a
      statement fails\<close>
  "admits m V \<longleftrightarrow> (\<forall>s. (case m s of
      (Inl r, s') \<Rightarrow> 400 \<le> r_status r \<and> tables (s_world s') = tables (s_world s) \<and>
        (calm (s_world s) \<longrightarrow> \<not> V (tables (s_world s)))
    | (Inr _, s') \<Rightarrow> tables (s_world s') = tables (s_world s) \<and> V (tables (s_world s))))"

lemma admits_scope_check: "decides m V \<Longrightarrow> admits (scope_check m) V"
proof -
  assume d: "decides m V"
  show "admits (scope_check m) V"
    unfolding admits_def
  proof (intro allI)
    fix s :: server
    obtain r w' where m: "m (s_world s) = (r, w')" by force
    have f: "tables w' = tables (s_world s)" "\<forall>b. r = Inr b \<longrightarrow> b = V (tables (s_world s))"
      "calm (s_world s) \<longrightarrow> (\<exists>b. r = Inr b)" using d m by (auto simp: decides_def)
    show "case scope_check m s of
        (Inl r, s') \<Rightarrow> 400 \<le> r_status r \<and> tables (s_world s') = tables (s_world s) \<and>
          (calm (s_world s) \<longrightarrow> \<not> V (tables (s_world s)))
      | (Inr _, s') \<Rightarrow> tables (s_world s') = tables (s_world s) \<and> V (tables (s_world s))"
      using f by (cases r) (auto simp: scope_check_def andThen_def store_def m reply_def require_def pass_def
          failure_def json_def)
  qed
qed

lemma admits_reply: "400 \<le> r_status r \<Longrightarrow> admits (reply r) (\<lambda>_. False)"
  by (simp add: admits_def reply_def)

lemma admits_pass: "admits (pass ()) (\<lambda>_. True)"
  by (simp add: admits_def pass_def)

lemma admits_require: "400 \<le> r_status r \<Longrightarrow> admits (require b r) (\<lambda>_. b)"
  by (simp add: admits_def require_def reply_def pass_def)

lemma admits_andThen0:
  "400 \<le> r_status r \<Longrightarrow> admits n V \<Longrightarrow> admits (andThen0 (require b r) n) (\<lambda>d. b \<and> V d)"
  by (cases b) (simp_all add: admits_def andThen0_def andThen_def require_def pass_def reply_def)

lemma scope_guard:
  assumes "trim (a_id u) \<noteq> []" "trim i \<noteq> []" "isValidRole (a_role u)"
  shows "admits (let owner = actorLeadOwnerID (Some u); seID = actorLeadSalesExecID (Some u);
          (atlID, teamName) = actorAnalystTeamScope (Some u); teamID = actorLeadTeamID (Some u) in
      if owner \<noteq> [] then scope_check (IsCreatedBy i owner)
      else if seID \<noteq> [] then scope_check (IsAssignedToSalesExec i seID)
      else if atlID \<noteq> [] then scope_check (IsCreatedByAnalystTeam i atlID teamName)
      else if teamID = [] then
        (if actor_is_mtl (Some u) then reply (failure 404 ''lead not found'') else pass ())
      else scope_check (IsOnTeam i teamID))
    (\<lambda>d. a_role u = RoleSuperadmin \<or> (\<exists>l \<in> set (leads d). l_id l = trim i \<and> may_see d u l))"
proof -
  note ts = decides_scope [OF assms(2), THEN admits_scope_check]
  have tt: "trim (trim (a_id u)) \<noteq> []" using assms(1) by simp
  consider "a_role u = RoleSuperadmin" | "a_role u = RoleLeadAnalyst" | "a_role u = RoleSalesExecutive"
    | "a_role u = RoleAnalystTeamLead" | "a_role u = RoleMainTeamLead" "trimmed (a_team u) = []"
    | "a_role u = RoleMainTeamLead" "trimmed (a_team u) \<noteq> []"
    using assms(3) by (auto simp: isValidRole_def roleLabels_def split: if_splits)
  then show ?thesis
  proof cases
    case 1
    then show ?thesis by (simp add: scope_defs admits_pass)
  next
    case 2
    show ?thesis using ts(1) [OF tt] assms(1) 2 by (simp add: scope_defs may_see_def list_ex_iff)
  next
    case 3
    show ?thesis using ts(2) [OF tt] assms(1) 3 by (simp add: scope_defs may_see_def list_ex_iff)
  next
    case 4
    show ?thesis using ts(4) [OF tt] assms(1) 4 by (simp add: scope_defs may_see_def list_ex_iff)
  next
    case 5
    then show ?thesis by (simp add: scope_defs may_see_def admits_reply failure_def json_def)
  next
    case 6
    have t6: "trim (trimmed (a_team u)) = trimmed (a_team u)" by (simp add: trimmed_def)
    have "a_team u \<noteq> None" using 6(2) by (cases "a_team u") simp_all
    then show ?thesis using ts(3) [of "trimmed (a_team u)"] t6 6 by (simp add: scope_defs may_see_def list_ex_iff)
  qed
qed

lemma requireLeadAccess_admits:
  assumes "trim (a_id u) \<noteq> []" "trim i \<noteq> []"
  shows "admits (requireLeadAccess (Some u) i) (\<lambda>d. isValidRole (a_role u) \<and> (a_role u = RoleSuperadmin \<or>
      (\<exists>l \<in> set (leads d). l_id l = trim i \<and> may_see d u l)))"
proof (cases "isValidRole (a_role u)")
  case True
  show ?thesis
    unfolding requireLeadAccess_def requireLeadDataAccess_def option.case canViewLeadData_def
    by (rule admits_andThen0 [OF _ scope_guard [OF assms True]]) (simp add: failure_def json_def)
next
  case False
  then show ?thesis
    by (simp add: admits_def requireLeadAccess_def requireLeadDataAccess_def canViewLeadData_def andThen0_def
        andThen_def require_def reply_def failure_def json_def)
qed

text \<open>The guard of a single lead lets a request pass exactly when its actor has a valid role and the lead
  exists within what the actor may see (a superadmin always passes); it changes no table, and it
  refuses wrongly only when a database statement fails.\<close>

theorem lead_access_exact:
  assumes "trim (a_id u) \<noteq> []" "trim i \<noteq> []"
  shows "case requireLeadAccess (Some u) i s of
      (Inl r, s') \<Rightarrow> 400 \<le> r_status r \<and> tables (s_world s') = tables (s_world s) \<and>
        (calm (s_world s) \<longrightarrow> \<not> (isValidRole (a_role u) \<and> (a_role u = RoleSuperadmin \<or>
           (\<exists>l \<in> set (leads (tables (s_world s))). l_id l = trim i \<and> may_see (tables (s_world s)) u l))))
    | (Inr _, s') \<Rightarrow> tables (s_world s') = tables (s_world s) \<and> isValidRole (a_role u) \<and>
        (a_role u = RoleSuperadmin \<or>
           (\<exists>l \<in> set (leads (tables (s_world s))). l_id l = trim i \<and> may_see (tables (s_world s)) u l))"
  using requireLeadAccess_admits [OF assms] by (simp only: admits_def)

definition se_actor :: auth_user where
  "se_actor = \<lparr>a_id = ''se1'', a_email = ''se@x.io'', a_name = ''Se'', a_role = RoleSalesExecutive,
     a_team = None, a_analystTeam = None, a_sid = []\<rparr>"

definition se_tables :: db where
  "se_tables = empty_db\<lparr>leads := [(blank_lead ''l1'')\<lparr>l_se := Some ''se1''\<rparr>, blank_lead ''l2'']\<rparr>"

theorem lead_access_exact_witness:
  "(case requireLeadAccess (Some se_actor) ''l1'' (fresh_server se_tables) of (Inl r, s') \<Rightarrow> False | (Inr _, s') \<Rightarrow> True) \<and>
   (case requireLeadAccess (Some se_actor) ''l2'' (fresh_server se_tables) of (Inl r, s') \<Rightarrow> True | (Inr _, s') \<Rightarrow> False)"
proof -
  have t: "trim ''se1'' = ''se1''" "trim ''l1'' = ''l1''" "trim ''l2'' = ''l2''" by code_simp+
  have a: "trim (a_id se_actor) \<noteq> []" by (simp add: se_actor_def t)
  have d: "tables (s_world (fresh_server se_tables)) = se_tables" "calm (s_world (fresh_server se_tables))"
    by (simp_all add: fresh_server_def calm_world_def calm_def)
  have m: "may_see se_tables se_actor l \<longleftrightarrow> l_se l = Some ''se1''" for l by (simp add: may_see_def se_actor_def t)
  have r: "a_role se_actor \<noteq> RoleSuperadmin" "isValidRole (a_role se_actor)"
    by (simp_all add: se_actor_def isValidRole_def roleLabels_def)
  have e: "(\<exists>l \<in> set (leads se_tables). l_id l = ''l1'' \<and> l_se l = Some ''se1'')"
    "\<not> (\<exists>l \<in> set (leads se_tables). l_id l = ''l2'' \<and> l_se l = Some ''se1'')"
    by (simp_all add: se_tables_def blank_lead_def)
  show ?thesis
    using lead_access_exact [OF a, of "''l1''" "fresh_server se_tables"] lead_access_exact [OF a, of "''l2''" "fresh_server se_tables"]
    by (auto simp: t d m r e split: prod.splits sum.splits)
qed

end
