(* ===== verification/AuthHandlers.thy ===== *)
theory AuthHandlers
  imports Access
begin

section \<open>Authentication (httpx.go, auth.go, cookie_auth.go, handlers_auth.go)\<close>

text \<open>
  How a request is tied to a live session, and the handlers for login, session claims, logout and
  the current user. The JWT library is a parameter: \<open>jw_sign\<close> is \<open>SignedString\<close>,
  \<open>jw_parse\<close> is \<open>ParseWithClaims\<close> with HS256 at a given time (signature and expiry checked).
\<close>

record claims =
  jc_subject :: string
  jc_email :: string
  jc_name :: string
  jc_role :: string
  jc_id :: string
  jc_expires :: int
  jc_issued :: int
  jc_issuer :: string

record token_service =
  jw_sign :: "claims \<Rightarrow> string option"
  jw_parse :: "int \<Rightarrow> string \<Rightarrow> claims option"
  jw_ttl :: int

record cookie_config =
  cc_secure :: bool
  cc_sameSite :: string
  cc_ttl :: int

record deployment =
  \<comment> \<open>what \<open>main\<close> wires in: hashing, tokens, cookie settings and the environment\<close>
  dp_crypto :: crypto
  dp_tokens :: token_service
  dp_cookie :: cookie_config
  dp_env :: "string \<Rightarrow> string"

record request =
  rq_method :: string
  rq_authorization :: string      \<comment> \<open>header Authorization\<close>
  rq_cookie :: "string option"    \<comment> \<open>the access cookie\<close>
  rq_session :: string            \<comment> \<open>header X-LeadFlow-Session\<close>
  rq_query :: "(string \<times> string) list"
  rq_forwarded :: string          \<comment> \<open>header X-Forwarded-For\<close>
  rq_realIP :: string             \<comment> \<open>header X-Real-IP\<close>
  rq_remote :: string             \<comment> \<open>RemoteAddr\<close>
  rq_host :: "string option"      \<comment> \<open>\<open>net.SplitHostPort\<close> of it\<close>

subsection \<open>Tokens and cookies\<close>

definition envOr :: "(string \<Rightarrow> string) \<Rightarrow> string \<Rightarrow> string \<Rightarrow> string" where
  "envOr env k dflt = (let v = trim (env k) in if v \<noteq> [] then v else dflt)"

definition loadAuthCookieConfig :: "(string \<Rightarrow> string) \<Rightarrow> int \<Rightarrow> cookie_config" where
  "loadAuthCookieConfig env ttl0 =
     (let cs = to_lower (envOr env ''COOKIE_SECURE'' []);
          secure0 = (if cs \<in> {''1'', ''true'', ''yes''} then True
                     else if cs \<in> {''0'', ''false'', ''no''} then False
                     else equal_fold (envOr env ''APP_ENV'' []) ''production'');
          ss = to_lower (envOr env ''COOKIE_SAMESITE'' ''Lax'');
          (sameSite, secure) = (if ss = ''strict'' then (''Strict'', secure0)
             else if ss = ''none'' then (''None'', True) else (''Lax'', secure0));
          ttl = (if ttl0 \<le> 0 then 86400000 else ttl0) in
      \<lparr>cc_secure = secure, cc_sameSite = sameSite, cc_ttl = ttl\<rparr>)"

definition set_cookie :: "cookie_config \<Rightarrow> int \<Rightarrow> string \<Rightarrow> int \<Rightarrow> cookie" where
  \<comment> \<open>at time \<open>t\<close>; seconds are truncated towards zero\<close>
  "set_cookie cc t token expires =
     (let d = expires - t; secs = (if d < 0 then - ((- d) div 1000) else d div 1000);
          maxAge = (if secs < 1 then cc_ttl cc div 1000 else secs) in
      \<lparr>ck_value = token, ck_maxAge = maxAge, ck_expires = expires\<rparr>)"

definition clear_cookie :: cookie where
  "clear_cookie = \<lparr>ck_value = [], ck_maxAge = - 1, ck_expires = 0\<rparr>"

fun split2 :: "string \<Rightarrow> string \<Rightarrow> (string \<times> string) option" where
  \<comment> \<open>\<open>strings.SplitN(h, " ", 2)\<close> when it has two parts\<close>
  "split2 acc [] = None"
| "split2 acc (c # cs) = (if c = CHR '' '' then Some (acc, cs) else split2 (acc @ [c]) cs)"

definition bearerToken :: "request \<Rightarrow> string" where
  "bearerToken r =
     (let h = rq_authorization r in
      if h = [] then []
      else case split2 [] h of None \<Rightarrow> []
      | Some (scheme, rest) \<Rightarrow> if \<not> equal_fold scheme ''Bearer'' then [] else trim rest)"

definition read_cookie :: "request \<Rightarrow> string" where
  "read_cookie r = (case rq_cookie r of None \<Rightarrow> [] | Some v \<Rightarrow> trim v)"

definition accessToken :: "request \<Rightarrow> string" where
  "accessToken r = (let tok = bearerToken r in if tok \<noteq> [] then tok else read_cookie r)"

definition clientPresentedSessionID :: "request \<Rightarrow> string" where
  "clientPresentedSessionID r =
     (let i = trim (rq_session r) in if i \<noteq> [] then i else trim (qget (rq_query r) ''sid''))"

definition clientIP :: "(string \<Rightarrow> string) \<Rightarrow> request \<Rightarrow> string" where
  "clientIP env r =
     (let trust = trim (env ''TRUST_PROXY'');
          direct = (case rq_host r of None \<Rightarrow> rq_remote r | Some h \<Rightarrow> h) in
      if equal_fold trust ''1'' \<or> equal_fold trust ''true'' then
        (if rq_forwarded r \<noteq> [] then trim (hd (split_on CHR '','' (rq_forwarded r)))
         else if rq_realIP r \<noteq> [] then trim (rq_realIP r) else direct)
      else direct)"

definition IssueToken :: "token_service \<Rightarrow> auth_user \<Rightarrow> (string \<times> string \<times> int) op" where
  \<comment> \<open>(token, jti, expires)\<close>
  "IssueToken ts u = bindE get_now (\<lambda>t. bindE new_uuid (\<lambda>jti.
     (case jw_sign ts \<lparr>jc_subject = a_id u, jc_email = a_email u, jc_name = a_name u, jc_role = a_role u,
         jc_id = jti, jc_expires = t + jw_ttl ts, jc_issued = t, jc_issuer = ''leadflow-backend''\<rparr> of
        None \<Rightarrow> throw (ErrMsg ''signing failed'')
      | Some token \<Rightarrow> ret (token, jti, t + jw_ttl ts))))"

definition ParseToken :: "token_service \<Rightarrow> int \<Rightarrow> string \<Rightarrow> auth_user option" where
  "ParseToken ts t token = (case jw_parse ts t token of None \<Rightarrow> None
     | Some c \<Rightarrow> if jc_subject c = [] \<or> jc_email c = [] \<or> jc_role c = [] then None
        else Some \<lparr>a_id = jc_subject c, a_email = jc_email c, a_name = jc_name c, a_role = jc_role c,
                   a_team = None, a_analystTeam = None, a_sid = trim (jc_id c)\<rparr>)"

subsection \<open>Tying a request to the live session\<close>

definition loadAuthedUser :: "deployment \<Rightarrow> request \<Rightarrow> (user_record \<times> auth_user) act" where
  "loadAuthedUser dp r =
     (let token = accessToken r in
      if token = [] then reply (failure 401 ''authentication required'')
      else andThen clock (\<lambda>t. case ParseToken (dp_tokens dp) t token of
        None \<Rightarrow> reply (failure 401 ''invalid or expired token'')
      | Some cl \<Rightarrow> andThen (store (FindByID (a_id cl))) (\<lambda>f. case f of
          Inl e \<Rightarrow> reply (failure 401 ''invalid or expired token'')
        | Inr u \<Rightarrow>
          if \<not> u_active u then reply (failure 403 ''account is inactive'')
          else if \<not> isValidRole (u_role u) then reply (failure 403 ''account role is invalid'')
          else if \<not> sessionMatches (dp_crypto dp) u (a_sid cl) then reply (failure 401 errSignedInElsewhere)
          else let presented = clientPresentedSessionID r in
          if presented \<noteq> [] \<and> presented \<noteq> a_sid cl then reply (failure 401 errSignedInElsewhere)
          else pass (u, cl))))"

definition requireAuth :: "deployment \<Rightarrow> request \<Rightarrow> (auth_user \<Rightarrow> response act) \<Rightarrow> response act" where
  "requireAuth dp r next = andThen (loadAuthedUser dp r) (\<lambda>(u, cl). next ((Auth u)\<lparr>a_sid := a_sid cl\<rparr>))"

definition requireRole_mw :: "deployment \<Rightarrow> string list \<Rightarrow> request \<Rightarrow> (auth_user \<Rightarrow> response act) \<Rightarrow> response act" where
  "requireRole_mw dp roles r next = requireAuth dp r (\<lambda>u.
     if a_role u \<notin> set roles then reply (failure 403 ''insufficient permissions'') else next u)"

definition method_not_allowed :: response where
  "method_not_allowed = failure 405 ''method not allowed''"

definition applyLivePresence :: "public_user list \<Rightarrow> public_user list act" where
  "applyLivePresence us = andThen hub_get (\<lambda>h.
     pass (map (\<lambda>u. u\<lparr>pu_activeSession := is_online (pu_id u) h\<rparr>) us))"

definition applyLivePresenceOne :: "public_user \<Rightarrow> public_user act" where
  "applyLivePresenceOne u = andThen hub_get (\<lambda>h. pass (u\<lparr>pu_activeSession := is_online (pu_id u) h\<rparr>))"

subsection \<open>The handlers\<close>

definition handleHealth :: "bool \<Rightarrow> request \<Rightarrow> response act" where
  \<comment> \<open>given the outcome of the database ping\<close>
  "handleHealth ping_ok r =
     (if rq_method r \<noteq> ''GET'' then reply method_not_allowed
      else andThen clock (\<lambda>t.
        let dbStatus = (if ping_ok then ''ok'' else ''unreachable'');
            status = (if dbStatus \<noteq> ''ok'' then ''degraded'' else ''ok'') in
        reply (json 200 (PHealth status dbStatus t))))"

definition issueLiveSession :: "deployment \<Rightarrow> user_record \<Rightarrow> bool \<Rightarrow> response act" where
  "issueLiveSession dp user returnBearer =
     andThen (store (IssueToken (dp_tokens dp) (Auth user))) (\<lambda>x. case x of
       Inl e \<Rightarrow> reply (failure 500 ''could not issue token'')
     | Inr (token, jti, expires) \<Rightarrow>
     andThen (store (ReplaceActiveSession (dp_crypto dp) (u_id user) jti)) (\<lambda>x. case x of
       Inl e \<Rightarrow> reply (failure 500 ''could not issue token'')
     | Inr _ \<Rightarrow>
     andThen clock (\<lambda>t.
     andThen0 (hub_do (broadcast_to_user t (u_id user)
        (blank_event\<lparr>ev_type := EvtAuthSessionReplaced, ev_user := u_id user, ev_session := jti\<rparr>)))
     (andThen0 (hub_do (drop_user_except (u_id user) jti))
     (reply (json 200 (PAuth \<lparr>
         ar_token = (if returnBearer \<and> equal_fold (envOr (dp_env dp) ''LOGIN_RETURN_TOKEN'' ''true'') ''true''
                     then token else []),
         ar_sessionId = jti, ar_expires = expires, ar_user = Public user\<rparr>)
        \<lparr>r_cookie := Some (set_cookie (dp_cookie dp) t token expires)\<rparr>))))))"

definition check_login_password :: "string \<Rightarrow> validation \<Rightarrow> validation" where
  "check_login_password pw v =
     (if trim pw = [] then Add ''password'' ''password is required'' v
      else if length pw > 128 then Add ''password'' ''password must be at most 128 characters'' v
      else v)"

definition login_failure :: "err \<Rightarrow> response" where
  "login_failure e =
     (case e of
        ErrInvalidCredentials \<Rightarrow> failure 401 ''invalid email or password''
      | ErrAccountInactive \<Rightarrow> failure 403 (''account is inactive '' @ em_dash @ '' contact an administrator'')
      | ErrPasswordNotSet \<Rightarrow> failure 403 (''password not set '' @ em_dash @ '' ask a superadmin to set one'')
      | _ \<Rightarrow> failure 500 ''login failed'')"

definition handleLogin :: "deployment \<Rightarrow> request \<Rightarrow> (string \<times> string) option \<Rightarrow> response act" where
  "handleLogin dp r body =
     (if rq_method r \<noteq> ''POST'' then reply method_not_allowed
      else case body of None \<Rightarrow> reply (failure 400 ''invalid JSON body'')
      | Some (email0, password) \<Rightarrow>
        let (email, v1) = requireEmail ''email'' email0 []; v = check_login_password password v1 in
        if HasErrors v then reply (invalid v)
        else let gateKey = clientIP (dp_env dp) r @ ''|'' @ to_lower email in
        andThen (store (Authenticate (dp_crypto dp) email password)) (\<lambda>x. case x of
          Inl e \<Rightarrow> andThen (gate_allow gateKey) (\<lambda>ok.
             if \<not> ok then reply (failure 429 (''too many login attempts '' @ em_dash @ '' try again shortly''))
             else reply (login_failure e))
        | Inr user \<Rightarrow> issueLiveSession dp user True))"

definition handleClaimSession :: "deployment \<Rightarrow> request \<Rightarrow> auth_user \<Rightarrow> response act" where
  "handleClaimSession dp r a =
     (if rq_method r \<noteq> ''POST'' then reply method_not_allowed
      else andThen (store (FindByID (a_id a))) (\<lambda>x. case x of
        Inl e \<Rightarrow> reply (failure 401 ''user no longer exists'')
      | Inr user \<Rightarrow> issueLiveSession dp user False))"

definition handleLogout :: "deployment \<Rightarrow> request \<Rightarrow> response act" where
  "handleLogout dp r =
     (if rq_method r \<noteq> ''POST'' then reply method_not_allowed
      else let token = accessToken r; presented = clientPresentedSessionID r in
      if token = [] then reply ((json 200 POk)\<lparr>r_cookie := Some clear_cookie\<rparr>)
      else andThen clock (\<lambda>t. case ParseToken (dp_tokens dp) t token of
        None \<Rightarrow> reply (json 200 POk)
      | Some cl \<Rightarrow>
        andThen (store (FindByID (a_id cl))) (\<lambda>x.
        let jwtIsLive = (case x of Inl _ \<Rightarrow> False | Inr u \<Rightarrow> sessionMatches (dp_crypto dp) u (a_sid cl));
            (clearLive, clearCookie) = logoutAction presented (a_sid cl) jwtIsLive in
        andThen0 (if clearLive \<and> a_sid cl \<noteq> [] then
            andThen (store (ClearActiveSessionIfCurrent (dp_crypto dp) (a_id cl) (a_sid cl))) (\<lambda>_.
              hub_do (drop_user (a_id cl)))
          else pass ())
        (reply (if clearCookie then (json 200 POk)\<lparr>r_cookie := Some clear_cookie\<rparr> else json 200 POk)))))"

definition handleMe :: "request \<Rightarrow> auth_user \<Rightarrow> response act" where
  "handleMe r a =
     (if rq_method r \<noteq> ''GET'' then reply method_not_allowed
      else andThen (store (FindByID (a_id a))) (\<lambda>x. case x of
        Inl e \<Rightarrow> reply (failure 401 ''user no longer exists'')
      | Inr user \<Rightarrow> andThen (applyLivePresenceOne (Public user)) (\<lambda>pub. reply (json 200 (PMe pub)))))"

definition handleRoles :: "request \<Rightarrow> auth_user \<Rightarrow> response act" where
  "handleRoles r a =
     (if rq_method r \<noteq> ''GET'' then reply method_not_allowed
      else reply (json 200 (PRoles (listCreatableRoles (a_role a)) listRoles (canManageUsers (a_role a)))))"

end
