(* ===== verification/UserHandlers.thy ===== *)
theory UserHandlers
  imports AuthHandlers
begin

section \<open>User administration (handlers_users.go, user_admin.go)\<close>

text \<open>
  The handlers under \<open>/api/users\<close>, \<open>/api/teams\<close> and \<open>/api/analyst-teams\<close>, each after
  \<open>requireAuth\<close>, so with the actor at hand. Field errors accumulate in \<open>v\<close> as in the code.
\<close>

record create_user_request =
  cur_name :: string
  cur_email :: string
  cur_password :: string
  cur_role :: string
  cur_teamId :: "string option"
  cur_teamName :: "string option"

record update_user_request =
  uur_name :: string
  uur_email :: string
  uur_role :: string
  uur_password :: "string option"
  uur_mustReset :: "bool option"
  uur_teamName :: "string option"
  uur_teamId :: "string option"

subsection \<open>Who may be managed\<close>

definition management_error :: "auth_user \<Rightarrow> user_record \<Rightarrow> response option" where
  \<comment> \<open>the response \<open>actorMayManageTarget\<close> writes, \<open>None\<close> when it returns true\<close>
  "management_error actor target =
     (if a_role actor = RoleSuperadmin then None
      else if \<not> canActOnUser (a_role actor) (u_role target) then Some (failure 403 ''you cannot manage this user'')
      else if isMainTeamLead (a_role actor) then
        (let team = leadTeamScopeID (a_role actor) (a_team actor) in
         if team = [] then Some (failure 403 ''your account is not linked to a team'')
         else if u_role target \<noteq> RoleSalesExecutive \<or> \<not> sameTeamID (u_teamId target) (Some team)
         then Some (failure 404 ''user not found'') else None)
      else None)"

definition actorMayManageTarget :: "auth_user \<Rightarrow> user_record \<Rightarrow> unit act" where
  "actorMayManageTarget actor target = (case management_error actor target of None \<Rightarrow> pass () | Some r \<Rightarrow> reply r)"

definition load_target :: "string \<Rightarrow> string \<Rightarrow> user_record act" where
  \<comment> \<open>\<open>FindByID\<close> with its two error responses\<close>
  "load_target i msg = andThen (store (FindByID i)) (\<lambda>x. case x of
     Inl e \<Rightarrow> if e = ErrUserNotFound then reply (failure 404 ''user not found'') else reply (failure 500 msg)
   | Inr u \<Rightarrow> pass u)"

subsection \<open>Listing\<close>

definition in_team_scope :: "string \<Rightarrow> public_user \<Rightarrow> bool" where
  "in_team_scope scope u \<longleftrightarrow> scope = [] \<or> (pu_teamId u \<noteq> None \<and> trimmed (pu_teamId u) = scope)"

definition listUsers :: "auth_user \<Rightarrow> response act" where
  "listUsers actor =
     (if \<not> canViewUsers (a_role actor) then reply (failure 403 ''you do not have permission to view users'')
      else andThen (store (ListUsers 2000)) (\<lambda>x. case x of
        Inl e \<Rightarrow> reply (failure 500 ''failed to list users'')
      | Inr us \<Rightarrow>
        if a_role actor = RoleSuperadmin then
          andThen (store CountUsers) (\<lambda>y. case y of
            Inl e \<Rightarrow> reply (failure 500 ''failed to list users'')
          | Inr n \<Rightarrow> andThen (applyLivePresence us) (\<lambda>us'. reply (json 200 (PUsers us' n True))))
        else let allowed = visibleUserRoles (a_role actor) in
          if allowed = [] then reply (json 200 (PUsers [] 0 False))
          else let scope = leadTeamScopeID (a_role actor) (a_team actor);
                   filtered = filter (\<lambda>u. pu_role u \<in> set allowed \<and> in_team_scope scope u) us in
            andThen (applyLivePresence filtered) (\<lambda>us'.
              reply (json 200 (PUsers us' (length filtered) (canManageUsers (a_role actor)))))))"

subsection \<open>Creating\<close>

definition norm_team_id :: "string option \<Rightarrow> string option" where
  "norm_team_id p = (case p of None \<Rightarrow> None | Some t \<Rightarrow> if trim t = [] then None else Some (trim t))"

definition create_for_mtl :: "auth_user \<Rightarrow> create_user_request \<Rightarrow> response + create_user_request" where
  \<comment> \<open>a main team lead creates sales executives on the own team only\<close>
  "create_for_mtl actor req =
     (if \<not> isMainTeamLead (a_role actor) then Inr req
      else let team = leadTeamScopeID (a_role actor) (a_team actor); requested = trim (cur_role req) in
        if team = [] then Inl (failure 400 ''your account is not linked to a team'')
        else if requested \<noteq> [] \<and> requested \<noteq> RoleSalesExecutive
          then Inl (failure 403 ''you can only create sales executives'')
        else Inr (req\<lparr>cur_role := RoleSalesExecutive, cur_teamId := Some team, cur_teamName := None\<rparr>))"

definition create_team_rules ::
  "auth_user \<Rightarrow> string \<Rightarrow> string option \<Rightarrow> string \<Rightarrow> validation \<Rightarrow> string option \<times> string \<times> validation" where
  \<comment> \<open>the team fields by role: (teamId, teamName, errors)\<close>
  "create_team_rules actor role teamId teamName v =
     (if namedTeamRequiredForRole role then
        (if role = RoleMainTeamLead then
           (if teamName = [] \<and> teamId = None then (teamId, teamName, Add ''teamName'' ''team name is required for Main Team Lead'' v)
            else if teamName \<noteq> [] then
              (let (n, v') = requireString ''teamName'' teamName 2 120 v in (teamId, n, v'))
            else (teamId, teamName, v))
         else if teamName = [] then (None, teamName, Add ''teamName'' ''team name is required for Analyst Team Lead'' v)
         else (let (n, v') = requireString ''teamName'' teamName 2 120 v in (None, n, v')))
      else if role = RoleLeadAnalyst then
        (if teamName \<noteq> [] then (let (n, v') = requireString ''teamName'' teamName 2 120 v in (None, n, v'))
         else (None, teamName, v))
      else if salesTeamAssignmentRequired role then
        (if \<not> isMainTeamLead (a_role actor) \<and> teamId = None
         then (teamId, [], Add ''teamId'' ''team is required for Sales Executive'' v) else (teamId, [], v))
      else (None, [], v))"

definition inherited_team :: "auth_user \<Rightarrow> string \<Rightarrow> string \<Rightarrow> validation \<Rightarrow> (string \<times> validation) act" where
  \<comment> \<open>an analyst team lead's new analyst joins the lead's own team unless one is named\<close>
  "inherited_team actor role teamName0 v =
     (if isAnalystTeamLead (a_role actor) \<and> role = RoleLeadAnalyst then
        andThen (if teamName0 = [] then andThen (store (FindByID (a_id actor))) (\<lambda>x. case x of
                     Inr u \<Rightarrow> pass (analystTeamNameFromRecord (Some u))
                   | Inl e \<Rightarrow> if e \<noteq> ErrUserNotFound then reply (failure 500 ''failed to create user'') else pass teamName0)
                 else pass teamName0)
        (\<lambda>teamName. pass (teamName, if teamName = []
            then Add ''teamName'' ''your account is not linked to an analyst team'' v else v))
      else pass (teamName0, v))"

definition create_error :: "err \<Rightarrow> response" where
  "create_error e =
     (if e = ErrEmailTaken then failure 409 ''email already in use''
      else if e = ErrTeamNameRequired then failure 400 ''team name is required''
      else failure 500 ''failed to create user'')"

definition createUser :: "deployment \<Rightarrow> auth_user \<Rightarrow> create_user_request option \<Rightarrow> response act" where
  "createUser dp actor body = (case body of None \<Rightarrow> reply (failure 400 ''invalid JSON body'')
   | Some req0 \<Rightarrow> (case create_for_mtl actor req0 of Inl r \<Rightarrow> reply r
   | Inr req \<Rightarrow>
     let (name, v1) = requireString ''name'' (cur_name req) 2 120 [];
         (email, v2) = requireEmail ''email'' (cur_email req) v1;
         (password, v3) = requirePassword ''password'' (cur_password req) v2;
         (role, v4) = requireRole ''role'' (cur_role req) v3 in
     andThen (inherited_team actor role (trimmed (cur_teamName req)) v4) (\<lambda>(teamName0, v5).
     let (teamId, teamName, v) = create_team_rules actor role (norm_team_id (cur_teamId req)) teamName0 v5 in
     if HasErrors v then reply (invalid v)
     else if \<not> canCreateRole (a_role actor) role then reply (failure 403 ''you cannot create users with this role'')
     else andThen0 (if salesTeamAssignmentRequired role \<and> teamId \<noteq> None then
         andThen (store (TeamIDExists (deref teamId))) (\<lambda>x. case x of
           Inl e \<Rightarrow> reply (failure 500 ''failed to create user'')
         | Inr ok \<Rightarrow> if \<not> ok then reply (invalid (Add ''teamId'' ''team not found'' v)) else pass ())
       else pass ())
     (andThen (store (CreateUser (dp_crypto dp) \<lparr>cu_name = name, cu_email = email, cu_password = password,
         cu_role = role, cu_teamId = teamId, cu_teamName = teamName\<rparr>)) (\<lambda>x. case x of
        Inl e \<Rightarrow> reply (create_error e)
      | Inr user \<Rightarrow> andThen0 (emitUser EvtUserCreated (u_id user) (a_id actor))
          (reply (json 201 (PNewUser (Public user) password))))))))"

definition handleUsers :: "deployment \<Rightarrow> request \<Rightarrow> auth_user \<Rightarrow> create_user_request option \<Rightarrow> response act" where
  "handleUsers dp r actor body =
     (if rq_method r = ''GET'' then listUsers actor
      else if rq_method r = ''POST'' then
        (if \<not> canManageUsers (a_role actor) then reply (failure 403 ''you do not have permission to create users'')
         else createUser dp actor body)
      else reply method_not_allowed)"

subsection \<open>Changing\<close>

definition update_team_name ::
  "update_user_request \<Rightarrow> string \<Rightarrow> user_record \<Rightarrow> validation \<Rightarrow> string option \<times> validation" where
  \<comment> \<open>the requested analyst team name for the new role\<close>
  "update_team_name req role existing v =
     (case uur_teamName req of
        Some tn \<Rightarrow>
          (let t = trim tn in
           if role = RoleAnalystTeamLead then
             (if t = [] then (None, Add ''teamName'' ''team name is required for Analyst Team Lead'' v)
              else (let (n, v') = requireString ''teamName'' t 2 120 v in (Some n, v')))
           else if role = RoleLeadAnalyst then
             (if t = [] then (Some [], v)
              else (let (n, v') = requireString ''teamName'' t 2 120 v in (Some n, v')))
           else (None, v))
      | None \<Rightarrow>
          if role = RoleAnalystTeamLead \<and> (u_analystTeam existing = None \<or> trimmed (u_analystTeam existing) = [])
          then (None, Add ''teamName'' ''team name is required for Analyst Team Lead'' v) else (None, v))"

definition update_inherit ::
  "auth_user \<Rightarrow> string \<Rightarrow> string option \<Rightarrow> validation \<Rightarrow> (string option \<times> validation) act" where
  "update_inherit actor role teamName v =
     (if isAnalystTeamLead (a_role actor) \<and> role = RoleLeadAnalyst then
        andThen (store (FindByID (a_id actor))) (\<lambda>x. case x of
          Inl e \<Rightarrow> if e = ErrUserNotFound then reply (failure 401 ''user no longer exists'')
                  else reply (failure 500 ''failed to update user'')
        | Inr u \<Rightarrow> let inherited = analystTeamNameFromRecord (Some u) in
            pass (if inherited = [] then (teamName, Add ''teamName'' ''your account is not linked to an analyst team'' v)
                  else (Some inherited, v)))
      else pass (teamName, v))"

definition update_sales_team ::
  "auth_user \<Rightarrow> update_user_request \<Rightarrow> string \<Rightarrow> user_record \<Rightarrow> validation \<Rightarrow> string option \<times> validation" where
  "update_sales_team actor req role existing v =
     (if salesTeamAssignmentRequired role \<and> \<not> isMainTeamLead (a_role actor) then
        (let t = trimmed (uur_teamId req) in
         if t = [] then
           (if u_role existing \<noteq> RoleSalesExecutive \<or> u_teamId existing = None \<or> trimmed (u_teamId existing) = []
            then (None, Add ''teamId'' ''team is required for Sales Executive'' v) else (None, v))
         else (Some t, v))
      else (None, v))"

definition update_error :: "err \<Rightarrow> response" where
  "update_error e =
     (if e = ErrUserNotFound then failure 404 ''user not found''
      else if e = ErrEmailTaken then failure 409 ''email already in use''
      else if e = ErrTeamNameRequired then failure 400 ''team name is required''
      else failure 500 ''failed to update user'')"

definition transfer_error :: "err \<Rightarrow> response" where
  \<comment> \<open>writeTransferError\<close>
  "transfer_error e =
     (if e = ErrUserNotFound then failure 404 ''user not found''
      else if e = ErrNotSalesExecutive then failure 400 ''only sales executives can be transferred''
      else if e = ErrSameTeam then failure 409 ''sales executive is already on that team''
      else if e = ErrTeamNotFound then failure 400 ''destination team not found''
      else if e = ErrTeamConflict then
        failure 409 (''sales executive was moved by someone else '' @ em_dash @ '' refresh and try again'')
      else if e = ErrTransferForbidden then failure 403 ''you cannot transfer this sales executive''
      else failure 500 ''failed to transfer sales executive'')"

definition analyst_transfer_error :: "err \<Rightarrow> response" where
  \<comment> \<open>writeLeadAnalystTransferError\<close>
  "analyst_transfer_error e =
     (if e = ErrUserNotFound then failure 404 ''user not found''
      else if e = ErrNotLeadAnalyst then failure 400 ''only lead analysts can be transferred''
      else if e = ErrSameAnalystTeam then failure 409 ''lead analyst is already on that team''
      else if e = ErrAnalystTeamNotFound then failure 400 ''destination analyst team not found''
      else if e = ErrTeamConflict then
        failure 409 (''lead analyst was moved by someone else '' @ em_dash @ '' refresh and try again'')
      else if e = ErrTransferForbidden then failure 403 ''you cannot transfer this lead analyst''
      else failure 500 ''failed to transfer lead analyst'')"

definition demotion_check :: "user_record \<Rightarrow> string \<Rightarrow> unit act" where
  "demotion_check existing role =
     (if u_role existing = RoleSuperadmin \<and> role \<noteq> RoleSuperadmin then
        andThen (store (CountByRole RoleSuperadmin)) (\<lambda>x. case x of
          Inl e \<Rightarrow> reply (failure 500 ''failed to update user'')
        | Inr n \<Rightarrow> require (\<not> n \<le> 1) (failure 409 ''cannot demote the last superadmin''))
      else pass ())"

definition update_team_check :: "string option \<Rightarrow> user_record \<Rightarrow> validation \<Rightarrow> string option act" where
  \<comment> \<open>the team to write directly, when the account was not yet a sales executive\<close>
  "update_team_check salesTeamID existing v = (case salesTeamID of None \<Rightarrow> pass None
   | Some t \<Rightarrow> andThen (store (TeamIDExists t)) (\<lambda>x. case x of
       Inl e \<Rightarrow> reply (failure 500 ''failed to update user'')
     | Inr ok \<Rightarrow> if \<not> ok then reply (invalid (Add ''teamId'' ''team not found'' v))
         else pass (if u_role existing \<noteq> RoleSalesExecutive then Some t else None)))"

definition update_transfer ::
  "auth_user \<Rightarrow> string \<Rightarrow> string option \<Rightarrow> user_record \<Rightarrow> user_record \<Rightarrow> user_record act" where
  \<comment> \<open>a sales executive changing team is transferred, after the update has been committed\<close>
  "update_transfer actor i salesTeamID existing user = (case salesTeamID of None \<Rightarrow> pass user
   | Some t \<Rightarrow>
     if u_role existing = RoleSalesExecutive then
       (let current = trimmed (u_teamId existing) in
        if current \<noteq> t then
          andThen (store (TransferSalesExec \<lparr>ts_se = i, ts_toTeam = t, ts_expected = current,
              ts_actor = a_id actor, ts_actorRole = a_role actor, ts_actorTeam = a_team actor\<rparr>)) (\<lambda>x. case x of
            Inl e \<Rightarrow> reply (transfer_error e)
          | Inr _ \<Rightarrow> andThen (store (FindByID i)) (\<lambda>y. case y of
              Inl e \<Rightarrow> reply (failure 500 ''failed to update user'')
            | Inr refreshed \<Rightarrow> pass refreshed))
        else pass user)
     else pass user)"

definition updateUser :: "deployment \<Rightarrow> string \<Rightarrow> auth_user \<Rightarrow> update_user_request option \<Rightarrow> response act" where
  "updateUser dp i actor body = (case body of None \<Rightarrow> reply (failure 400 ''invalid JSON body'')
   | Some req0 \<Rightarrow>
     andThen (load_target i ''failed to update user'') (\<lambda>existing.
     andThen0 (actorMayManageTarget actor existing)
     (let req = (if isMainTeamLead (a_role actor) then req0\<lparr>uur_role := RoleSalesExecutive\<rparr> else req0);
          (name, v1) = requireString ''name'' (uur_name req) 2 120 [];
          (email, v2) = requireEmail ''email'' (uur_email req) v1;
          (role, v3) = requireRole ''role'' (uur_role req) v2;
          (password, v4) = (if uur_password req \<noteq> None \<and> trimmed (uur_password req) \<noteq> []
             then (let (p, v') = requirePassword ''password'' (deref (uur_password req)) v3 in (Some p, v'))
             else (None, v3));
          (teamName0, v5) = update_team_name req role existing v4 in
      andThen (update_inherit actor role teamName0 v5) (\<lambda>(teamName, v6).
      let (salesTeamID, v) = update_sales_team actor req role existing v6 in
      if HasErrors v then reply (invalid v)
      else if \<not> canCreateRole (a_role actor) role then reply (failure 403 ''you cannot assign this role'')
      else andThen0 (demotion_check existing role)
      (andThen (update_team_check salesTeamID existing v) (\<lambda>assignTeamID.
       andThen (store (UpdateUser (dp_crypto dp) i \<lparr>uu_name = name, uu_email = email, uu_role = role,
           uu_password = password, uu_mustReset = uur_mustReset req, uu_teamName = teamName,
           uu_teamId = assignTeamID\<rparr>)) (\<lambda>x. case x of
         Inl e \<Rightarrow> reply (update_error e)
       | Inr user0 \<Rightarrow>
         andThen (update_transfer actor i salesTeamID existing user0) (\<lambda>user.
         andThen0 (emitUser EvtUserUpdated (u_id user) [])
         (reply (json 200 (PUser (Public user) password)))))))))))"

definition delete_error :: "err \<Rightarrow> response" where
  "delete_error e =
     (if e = ErrUserNotFound then failure 404 ''user not found''
      else if e = ErrCannotDeleteSelf then failure 400 ''cannot delete your own account''
      else if e = ErrLastSuperadmin then failure 409 ''cannot delete the last superadmin''
      else if e = ErrDeleteBlocked \<or> e = ErrReplacement
        then failure 409 ''user cannot be deleted while related records still reference them''
      else failure 500 ''failed to delete user'')"

definition deleteUser :: "string \<Rightarrow> auth_user \<Rightarrow> response act" where
  "deleteUser i actor =
     andThen (load_target i ''failed to delete user'') (\<lambda>existing.
     andThen0 (actorMayManageTarget actor existing)
     (andThen (store (DeleteUser i (a_id actor))) (\<lambda>x. case x of
        Inl e \<Rightarrow> reply (delete_error e)
      | Inr _ \<Rightarrow> andThen0 (emitUser EvtUserDeleted i (a_id actor)) (reply (json 200 (PDeletedUser i))))))"

definition active_error :: "err \<Rightarrow> response" where
  "active_error e =
     (if e = ErrUserNotFound then failure 404 ''user not found''
      else if e = ErrCannotDeactivateSelf then failure 400 ''cannot deactivate your own account''
      else if e = ErrLastActiveSuperadmin then failure 409 ''cannot deactivate the last active superadmin''
      else failure 500 ''failed to update user'')"

definition setUserActive :: "request \<Rightarrow> string \<Rightarrow> auth_user \<Rightarrow> bool option option \<Rightarrow> response act" where
  "setUserActive r i actor body =
     (if rq_method r \<noteq> ''PATCH'' then reply method_not_allowed
      else if \<not> canManageUsers (a_role actor) then reply (failure 403 ''you do not have permission to manage users'')
      else case body of None \<Rightarrow> reply (failure 400 ''invalid JSON body'')
      | Some None \<Rightarrow> reply (failure 400 ''isActive is required'')
      | Some (Some active) \<Rightarrow>
        andThen (load_target i ''failed to update user'') (\<lambda>existing.
        andThen0 (actorMayManageTarget actor existing)
        (andThen (store (SetActive i (a_id actor) active)) (\<lambda>x. case x of
           Inl e \<Rightarrow> reply (active_error e)
         | Inr user \<Rightarrow> andThen0 (emitUser EvtUserUpdated (u_id user) [])
             (reply (json 200 (PUser (Public user) None)))))))"

subsection \<open>Transfers\<close>

record transfer_se_request =
  tq_toTeam :: string
  tq_expected :: "string option"

record transfer_analyst_request =
  tl_toTeamName :: string
  tl_toLead :: string
  tl_expected :: "string option"

definition team_label :: "team_brief list \<Rightarrow> string \<Rightarrow> string \<Rightarrow> string" where
  \<comment> \<open>the name of the last team with this id, or the default\<close>
  "team_label ts i dflt = foldl (\<lambda>acc t. if tb_id t = i then tb_name t else acc) dflt ts"

definition first_team_label :: "team_brief list \<Rightarrow> string \<Rightarrow> string \<Rightarrow> string" where
  "first_team_label ts i dflt = (case find (\<lambda>t. tb_id t = i) ts of None \<Rightarrow> dflt | Some t \<Rightarrow> tb_name t)"

definition transfer_labels :: "transfer_se_result \<Rightarrow> (string \<times> string) act" where
  "transfer_labels res = andThen (store ListTeamsBrief) (\<lambda>x. pass (case x of
     Inl e \<Rightarrow> (em_dash, em_dash)
   | Inr ts \<Rightarrow> (case tsr_from res of
       Some f \<Rightarrow> (team_label ts f em_dash, team_label ts (tsr_to res) em_dash)
     | None \<Rightarrow> (em_dash, first_team_label ts (tsr_to res) em_dash))))"

definition transferSalesExec :: "request \<Rightarrow> string \<Rightarrow> auth_user \<Rightarrow> transfer_se_request option \<Rightarrow> response act" where
  "transferSalesExec r i actor body =
     (if rq_method r \<noteq> ''POST'' then reply method_not_allowed
      else if \<not> (a_role actor = RoleSuperadmin \<or> a_role actor = RoleAnalystTeamLead \<or> isMainTeamLead (a_role actor))
        then reply (failure 403 ''you do not have permission to transfer sales executives'')
      else case body of None \<Rightarrow> reply (failure 400 ''invalid JSON body'')
      | Some req \<Rightarrow>
        let toTeamID = trim (tq_toTeam req); expected = trimmed (tq_expected req) in
        if toTeamID = [] then reply (failure 400 ''toTeamId is required'')
        else andThen (store (TransferSalesExec \<lparr>ts_se = i, ts_toTeam = toTeamID, ts_expected = expected,
            ts_actor = a_id actor, ts_actorRole = a_role actor, ts_actorTeam = a_team actor\<rparr>)) (\<lambda>x. case x of
          Inl e \<Rightarrow> reply (transfer_error e)
        | Inr res \<Rightarrow>
          andThen (transfer_labels res) (\<lambda>(from, to).
          andThen0 (notify (a_id actor) NotifSETeamTransfer ''SE transferred''
             (pu_name (tsr_user res) @ '' '' @ mid_dot @ '' '' @ from @ '' '' @ arrow @ '' '' @ to) None [pu_id (tsr_user res)])
          (reply (json 200 (PTransferSE res))))))"

definition transferLeadAnalyst :: "request \<Rightarrow> string \<Rightarrow> auth_user \<Rightarrow> transfer_analyst_request option \<Rightarrow> response act" where
  "transferLeadAnalyst r i actor body =
     (if rq_method r \<noteq> ''POST'' then reply method_not_allowed
      else if \<not> (a_role actor = RoleSuperadmin \<or> a_role actor = RoleAnalystTeamLead)
        then reply (failure 403 ''you do not have permission to transfer lead analysts'')
      else andThen (load_target i ''failed to transfer lead analyst'') (\<lambda>target.
        andThen0 (actorMayManageTarget actor target)
        (case body of None \<Rightarrow> reply (failure 400 ''invalid JSON body'')
         | Some req \<Rightarrow>
           let toTeamName = trim (tl_toTeamName req); toLeadID = trim (tl_toLead req);
               expected = trimmed (tl_expected req) in
           if toTeamName = [] \<and> toLeadID = [] then reply (failure 400 ''toTeamName or toLeadId is required'')
           else andThen (store (TransferLeadAnalyst \<lparr>ta_analyst = i, ta_toTeam = toTeamName, ta_toLead = toLeadID,
               ta_expected = expected, ta_actor = a_id actor, ta_actorRole = a_role actor\<rparr>)) (\<lambda>x. case x of
             Inl e \<Rightarrow> reply (analyst_transfer_error e)
           | Inr res \<Rightarrow> reply (json 200 (PTransferLA res))))))"

subsection \<open>Routing and teams\<close>

datatype user_body =
    NoBody
  | UpdateBody "update_user_request option" | ActiveBody "bool option option"
  | TransferBody "transfer_se_request option" | AnalystBody "transfer_analyst_request option"

fun as_update :: "user_body \<Rightarrow> update_user_request option" where
  "as_update (UpdateBody b) = b" | "as_update _ = None"

fun as_active :: "user_body \<Rightarrow> bool option option" where
  "as_active (ActiveBody b) = b" | "as_active _ = None"

fun as_transfer :: "user_body \<Rightarrow> transfer_se_request option" where
  "as_transfer (TransferBody b) = b" | "as_transfer _ = None"

fun as_analyst :: "user_body \<Rightarrow> transfer_analyst_request option" where
  "as_analyst (AnalystBody b) = b" | "as_analyst _ = None"

definition trim_slashes :: "string \<Rightarrow> string" where
  \<comment> \<open>\<open>strings.Trim(s, "/")\<close>\<close>
  "trim_slashes s = rev (dropWhile (\<lambda>c. c = CHR ''/'') (rev (dropWhile (\<lambda>c. c = CHR ''/'') s)))"

definition handleUserByID :: "deployment \<Rightarrow> request \<Rightarrow> string \<Rightarrow> auth_user \<Rightarrow> user_body \<Rightarrow> response act" where
  \<comment> \<open>given the path after \<open>/api/users/\<close>; the body decodes only as the type the route asks for\<close>
  "handleUserByID dp r path actor body =
     (let rest = trim_slashes path in
      if rest = [] then reply (failure 404 ''not found'')
      else let parts = split_on CHR ''/'' rest; i = trim (hd parts) in
      if i = [] then reply (failure 404 ''not found'')
      else if length parts = 2 \<and> parts ! 1 = ''transfer-team'' then transferSalesExec r i actor (as_transfer body)
      else if length parts = 2 \<and> parts ! 1 = ''transfer-analyst-team'' then transferLeadAnalyst r i actor (as_analyst body)
      else if length parts = 2 \<and> parts ! 1 = ''active'' then setUserActive r i actor (as_active body)
      else if length parts \<noteq> 1 then reply (failure 404 ''not found'')
      else if \<not> canManageUsers (a_role actor) then reply (failure 403 ''you do not have permission to manage users'')
      else if rq_method r = ''PATCH'' then updateUser dp i actor (as_update body)
      else if rq_method r = ''DELETE'' then deleteUser i actor
      else reply method_not_allowed)"

definition list_analyst_teams :: "response act" where
  "list_analyst_teams = andThen (store ListAnalystTeamsBrief) (\<lambda>x. case x of
     Inl e \<Rightarrow> reply (failure 500 ''failed to list analyst teams'')
   | Inr ts \<Rightarrow> reply (json 200 (PAnalystTeams ts)))"

definition handleAnalystTeams :: "request \<Rightarrow> auth_user \<Rightarrow> response act" where
  "handleAnalystTeams r actor =
     (if rq_method r \<noteq> ''GET'' then reply method_not_allowed
      else if \<not> (a_role actor = RoleSuperadmin \<or> a_role actor = RoleAnalystTeamLead)
        then reply (failure 403 ''you do not have permission to list analyst teams'')
      else list_analyst_teams)"

definition handleTeams :: "request \<Rightarrow> auth_user \<Rightarrow> response act" where
  "handleTeams r actor =
     (if rq_method r \<noteq> ''GET'' then reply method_not_allowed
      else let scope = to_lower (trim (qget (rq_query r) ''scope'')) in
      if scope = ''analyst'' then
        (if \<not> (a_role actor = RoleSuperadmin \<or> a_role actor = RoleAnalystTeamLead)
         then reply (failure 403 ''you do not have permission to list analyst teams'')
         else list_analyst_teams)
      else if \<not> (a_role actor = RoleSuperadmin \<or> a_role actor = RoleAnalystTeamLead \<or> isMainTeamLead (a_role actor))
        then reply (failure 403 ''you do not have permission to list teams'')
      else andThen (store ListTeamsBrief) (\<lambda>x. case x of
        Inl e \<Rightarrow> reply (failure 500 ''failed to list teams'')
      | Inr ts \<Rightarrow> reply (json 200 (PTeams ts))))"

end
