(* ===== verification/AuthSafety.thy ===== *)
theory AuthSafety
  imports AuthHandlers UserFlows
begin

section \<open>Authentication: what the handlers guarantee\<close>

lemma FindByID_run:
  "FindByID i w = (r, w') \<Longrightarrow> tables w' = tables w \<and>
     (\<forall>u. r = Inr u \<longrightarrow> (\<exists>row. user_by_id i (tables w) = Some row \<and> u = joined (tables w) row)) \<and>
     (calm w \<longrightarrow> calm w' \<and> now w' = now w \<and> (r = Inl ErrUserNotFound \<longleftrightarrow> user_by_id i (tables w) = None))"
  by (auto simp: FindByID_def or_not_found_def bindE_def query_def sql_def the_or_def throw_def ret_def calm_def
      dest: list.set_sel split: list.splits option.splits prod.splits sum.splits if_splits)

definition tied :: "deployment \<Rightarrow> request \<Rightarrow> int \<Rightarrow> db \<Rightarrow> user_record \<Rightarrow> auth_user \<Rightarrow> bool" where
  \<comment> \<open>the request belongs to the live session of an active account\<close>
  "tied dp r t d u cl \<longleftrightarrow> ParseToken (dp_tokens dp) t (accessToken r) = Some cl \<and>
     (\<exists>row. user_by_id (a_id cl) d = Some row \<and> u = joined d row \<and> u_active row \<and> isValidRole (u_role row) \<and>
        sessionMatchesHash (cr_sha (dp_crypto dp)) (u_sessHash row) (a_sid cl)) \<and>
     clientPresentedSessionID r \<in> {[], a_sid cl}"

lemma loadAuthedUser_run:
  "loadAuthedUser dp r s = (x, s') \<Longrightarrow>
     tables (s_world s') = tables (s_world s) \<and> s_hub s' = s_hub s \<and> s_cache s' = s_cache s \<and>
     (case x of Inl resp \<Rightarrow> 400 \<le> r_status resp
      | Inr (u, cl) \<Rightarrow> tied dp r (now (s_world s)) (tables (s_world s)) u cl)"
  by (auto simp: loadAuthedUser_def Let_def reply_def pass_def andThen_def clock_def store_def failure_def json_def
      tied_def sessionMatches_def dest!: FindByID_run split: if_splits option.splits prod.splits sum.splits)


subsection \<open>Login\<close>

definition session_is :: "crypto \<Rightarrow> string \<Rightarrow> string \<Rightarrow> db \<Rightarrow> bool" where
  \<comment> \<open>the account's one stored session is \<open>jti\<close>\<close>
  "session_is cr i jti d \<longleftrightarrow> trim jti \<noteq> [] \<and>
     (\<forall>u \<in> set (users d). u_id u = trim i \<longrightarrow> u_sessHash u = Some (sessionHash (cr_sha cr) (trim jti)))"

definition only_streams_of :: "string \<Rightarrow> string \<Rightarrow> hub \<Rightarrow> bool" where
  \<comment> \<open>every open stream of the account belongs to session \<open>jti\<close>\<close>
  "only_streams_of i jti h \<longleftrightarrow> (\<forall>c \<in> set (clients h). c_user c = trim i \<longrightarrow> c_sid c = trim jti)"

definition issued :: "deployment \<Rightarrow> string \<Rightarrow> response \<Rightarrow> server \<Rightarrow> bool" where
  "issued dp i resp s' \<longleftrightarrow> (\<exists>ar. r_body resp = PAuth ar \<and>
     session_is (dp_crypto dp) i (ar_sessionId ar) (tables (s_world s')) \<and>
     only_streams_of i (ar_sessionId ar) (s_hub s'))"

lemma IssueToken_readonly: "readonly (IssueToken ts u)"
  unfolding IssueToken_def by (intro readonly_intros)

lemma Replace_session_is:
  "ReplaceActiveSession cr i jti w = (Inr x, w') \<Longrightarrow> trim i \<noteq> [] \<and> session_is cr i jti (tables w')"
  using tripleD [OF ReplaceActiveSession_triple refl, of cr i jti w x w']
  by (auto simp: session_is_def set_upd_where)

lemma h_broadcast:
  "htriple (\<lambda>s. hub_ok (s_hub s) \<and> F (tables (s_world s))) (hub_do (broadcast_to_user t u e))
     (\<lambda>_ s. hub_ok (s_hub s) \<and> F (tables (s_world s))) (\<lambda>_ _. False)"
proof (rule h_hub_do)
  show "hub_ok (s_hub s) \<and> F (tables (s_world s)) \<Longrightarrow> broadcast_to_user t u e (s_hub s) = Some h \<Longrightarrow>
      hub_ok (s_hub (s\<lparr>s_hub := h\<rparr>)) \<and> F (tables (s_world (s\<lparr>s_hub := h\<rparr>)))" for s h
    using broadcast_to_user_ok [of "s_hub s" t u e] by auto
  show "hub_ok (s_hub s) \<and> F (tables (s_world s)) \<Longrightarrow> broadcast_to_user t u e (s_hub s) = None \<Longrightarrow> False" for s
    using broadcast_to_user_ok [of "s_hub s" t u e] by auto
qed

lemma h_drop:
  assumes "trim u \<noteq> []" "trim k \<noteq> []"
  shows "htriple (\<lambda>s. hub_ok (s_hub s) \<and> F (tables (s_world s))) (hub_do (drop_user_except u k))
     (\<lambda>_ s. hub_ok (s_hub s) \<and> only_streams_of u k (s_hub s) \<and> F (tables (s_world s))) (\<lambda>_ _. False)"
proof (rule h_hub_do)
  show "hub_ok (s_hub s) \<and> F (tables (s_world s)) \<Longrightarrow> drop_user_except u k (s_hub s) = Some h \<Longrightarrow>
      hub_ok (s_hub (s\<lparr>s_hub := h\<rparr>)) \<and> only_streams_of u k (s_hub (s\<lparr>s_hub := h\<rparr>)) \<and>
      F (tables (s_world (s\<lparr>s_hub := h\<rparr>)))" for s h
    using drop_user_except_ok [of "s_hub s" u k] assms by (auto simp: only_streams_of_def)
  show "hub_ok (s_hub s) \<and> F (tables (s_world s)) \<Longrightarrow> drop_user_except u k (s_hub s) = None \<Longrightarrow> False" for s
    using drop_user_except_ok [of "s_hub s" u k] assms by auto
qed

lemma h_issueLiveSession:
  "htriple (\<lambda>s. hub_ok (s_hub s)) (issueLiveSession dp user b) E E"
  if E: "E = (\<lambda>r s. (r_status r = 200 \<longrightarrow> issued dp (u_id user) r s) \<and> hub_ok (s_hub s) \<and> r_status r \<in> {200, 500})"
proof -
  let ?cr = "dp_crypto dp" and ?i = "u_id user"
  let ?S = "\<lambda>jti d. trim ?i \<noteq> [] \<and> session_is ?cr ?i jti d"
  have last: "htriple (\<lambda>s. hub_ok (s_hub s) \<and> ?S jti (tables (s_world s)))
      (andThen0 (hub_do (broadcast_to_user t ?i e)) (andThen0 (hub_do (drop_user_except ?i jti))
        (reply (json 200 (PAuth \<lparr>ar_token = tok, ar_sessionId = jti, ar_expires = x, ar_user = pu\<rparr>)\<lparr>r_cookie := ck\<rparr>)))) E E"
    for jti t e tok x pu ck
  proof (cases "trim ?i \<noteq> [] \<and> trim jti \<noteq> []")
    case True
    then have ne: "trim ?i \<noteq> []" "trim jti \<noteq> []" by simp_all
    show ?thesis
      apply (rule h_andThen0 [where R = "\<lambda>s. hub_ok (s_hub s) \<and> ?S jti (tables (s_world s))"])
       apply (rule h_weaken [OF h_broadcast [where F = "?S jti"]]; simp)
      apply (rule h_andThen0 [where R = "\<lambda>s. hub_ok (s_hub s) \<and> only_streams_of ?i jti (s_hub s) \<and> ?S jti (tables (s_world s))"])
       apply (rule h_weaken [OF h_drop [OF ne, where F = "?S jti"]]; simp)
      apply (rule h_reply)
      apply (simp add: E issued_def json_def)
      done
  next
    case False
    then show ?thesis by (auto simp: htriple_def session_is_def)
  qed
  have bad: "htriple (\<lambda>s. hub_ok (s_hub s)) (reply (failure 500 m)) E E" for m
    by (rule h_reply) (simp add: E failure_def json_def)
  show ?thesis
    unfolding issueLiveSession_def
    apply (rule h_andThen [where R = "\<lambda>_ s. hub_ok (s_hub s)"])
     apply (rule h_store, simp)
    apply (rule h_sum, rule bad)
    apply (rule h_prod)+
    subgoal for x a tok y jti ex
      apply (rule h_andThen [where R = "\<lambda>r s. hub_ok (s_hub s) \<and> (\<forall>z. r = Inr z \<longrightarrow> ?S jti (tables (s_world s)))"])
       apply (rule h_store)
      subgoal for s r w by (cases r) (auto dest: Replace_session_is)
      apply (rule h_sum, rule h_pre [OF bad], simp)
      apply (rule h_andThen [where R = "\<lambda>_ s. hub_ok (s_hub s) \<and> ?S jti (tables (s_world s))"])
       apply (rule h_clock, simp)
      apply (rule last)
      done
    done
qed


definition toy_tokens :: token_service where
  \<comment> \<open>a stand-in for the witnesses: the token text carries the session id and names the superadmin\<close>
  "toy_tokens = \<lparr>jw_sign = (\<lambda>c. Some (jc_id c)),
     jw_parse = (\<lambda>t k. Some \<lparr>jc_subject = ''root'', jc_email = ''root@x.io'', jc_name = ''Root'', jc_role = RoleSuperadmin,
        jc_id = k, jc_expires = 0, jc_issued = 0, jc_issuer = []\<rparr>), jw_ttl = 3600000\<rparr>"

definition toy_deployment :: deployment where
  "toy_deployment = \<lparr>dp_crypto = toy_crypto, dp_tokens = toy_tokens,
     dp_cookie = \<lparr>cc_secure = True, cc_sameSite = ''Lax'', cc_ttl = 3600000\<rparr>, dp_env = (\<lambda>_. [])\<rparr>"

definition toy_request :: "string \<Rightarrow> request" where
  \<comment> \<open>a POST bearing this token\<close>
  "toy_request tok = \<lparr>rq_method = ''POST'', rq_authorization = (if tok = [] then [] else ''Bearer '' @ tok),
     rq_cookie = None, rq_session = [], rq_query = [], rq_forwarded = [], rq_realIP = [],
     rq_remote = ''10.0.0.1:5000'', rq_host = Some ''10.0.0.1''\<rparr>"

definition root_tables :: db where
  "root_tables = empty_db\<lparr>users := [root_user]\<rparr>"

lemma toy_login_ok:
  "r_status (fst (run_handler (handleLogin toy_deployment (toy_request []) (Some (''Root@x.io'', ''secret123'')))
     (fresh_server root_tables))) = 200"
  by code_simp


subsection \<open>Logout\<close>

lemma Clear_run:
  assumes "calm w" "trim i \<noteq> []" "trim j \<noteq> []"
  shows "\<exists>t w'. ClearActiveSessionIfCurrent cr i j w = (Inr (), w') \<and> now w' = now w \<and>
     tables w' = upd_users (\<lambda>u. u_id u = trim i \<and> u_sessHash u = Some (sessionHash (cr_sha cr) (trim j)))
          (\<lambda>u. u\<lparr>u_sessHash := None, u_sessAt := None, u_updatedAt := t\<rparr>) (tables w)"
  using assms
  by (auto simp: ClearActiveSessionIfCurrent_def Let_def bindE_def get_now_def exec_def sql_def calm_def
      split: list.splits option.splits)

lemma user_by_id_upd:
  "(\<And>u. u_id (f u) = u_id u) \<Longrightarrow>
     user_by_id i (upd_users P f d) = map_option (\<lambda>u. if P u then f u else u) (user_by_id i d)"
proof -
  assume k: "\<And>u. u_id (f u) = u_id u"
  have "find (\<lambda>u. u_id u = i) (upd_where P f xs) = map_option (\<lambda>u. if P u then f u else u) (find (\<lambda>u. u_id u = i) xs)" for xs
    by (induction xs) (auto simp: k upd_where_def)
  then show ?thesis by (simp add: user_by_id_def upd_users_def)
qed

definition refused :: "deployment \<Rightarrow> string \<Rightarrow> server \<Rightarrow> bool" where
  \<comment> \<open>no request with this access token gets past authentication\<close>
  "refused dp token s \<longleftrightarrow> (\<forall>r. accessToken r = token \<longrightarrow> (\<exists>resp s'. loadAuthedUser dp r s = (Inl resp, s')))"

lemma refusedI:
  assumes "\<And>cl row. ParseToken (dp_tokens dp) (now (s_world s)) token = Some cl \<Longrightarrow>
      user_by_id (a_id cl) (tables (s_world s)) = Some row \<Longrightarrow>
      \<not> sessionMatchesHash (cr_sha (dp_crypto dp)) (u_sessHash row) (a_sid cl)"
  shows "refused dp token s"
  unfolding refused_def
proof (intro allI impI)
  fix r assume r: "accessToken r = token"
  obtain x s' where l: "loadAuthedUser dp r s = (x, s')" by force
  show "\<exists>resp s'. loadAuthedUser dp r s = (Inl resp, s')"
  proof (cases x)
    case (Inr p)
    then obtain u cl where "x = Inr (u, cl)" by (cases p) auto
    then have "tied dp r (now (s_world s)) (tables (s_world s)) u cl" using loadAuthedUser_run [OF l] by simp
    then show ?thesis using assms r unfolding tied_def by blast
  qed (use l in auto)
qed

text \<open>C17.
  Logging out with the live token ends the session: the answer is 200 with the cookie cleared, no
  event stream of the account stays registered, and no later request with the same token is
  authenticated. This needs a database that answers (the code ignores an error of the update).\<close>

theorem logout_ends_the_session:
  assumes calm: "calm (s_world s)" and hub: "hub_ok (s_hub s)"
    and stored: "\<forall>u \<in> set (users (tables (s_world s))). \<forall>h. u_sessHash u = Some h \<longrightarrow> trim h = h"
    and post: "rq_method r = ''POST''"
    and live: "loadAuthedUser dp r s = (Inr (u, cl), s1)" and ident: "trim (a_id cl) = a_id cl"
  shows "case run_handler (handleLogout dp r) s of (resp, s') \<Rightarrow>
     r_status resp = 200 \<and> r_cookie resp = Some clear_cookie \<and>
     (\<forall>c \<in> set (clients (s_hub s')). c_user c \<noteq> a_id cl) \<and> refused dp (accessToken r) s'"
proof -
  let ?d = "tables (s_world s)" and ?sha = "cr_sha (dp_crypto dp)"
  have t: "tied dp r (now (s_world s)) ?d u cl" using loadAuthedUser_run [OF live] by simp
  then obtain row where row: "user_by_id (a_id cl) ?d = Some row" "u = joined ?d row"
    "sessionMatchesHash ?sha (u_sessHash row) (a_sid cl)" by (auto simp: tied_def)
  have parse: "ParseToken (dp_tokens dp) (now (s_world s)) (accessToken r) = Some cl" using t by (simp add: tied_def)
  have tok: "accessToken r \<noteq> []" using live by (auto simp: loadAuthedUser_def reply_def)
  have aid: "trim (a_id cl) \<noteq> []" using parse ident by (auto simp: ParseToken_def split: option.splits if_splits)
  have sid: "trim (a_sid cl) \<noteq> []" "a_sid cl \<noteq> []" using row(3) by (auto simp: sessionMatches_iff)
  obtain w1 where f: "FindByID (a_id cl) (s_world s) = (Inr u, w1)" "tables w1 = ?d" "calm w1" "now w1 = now (s_world s)"
  proof -
    obtain x w1 where x: "FindByID (a_id cl) (s_world s) = (x, w1)" by force
    note run = FindByID_run [OF x]
    have "x = Inr (joined ?d row)"
      using x row(1) calm
      by (auto simp: FindByID_def or_not_found_def bindE_def query_def sql_def the_or_def throw_def ret_def calm_def
          split: list.splits option.splits)
    then show ?thesis using that x run calm row(2) by blast
  qed
  obtain t2 w2 where c: "ClearActiveSessionIfCurrent (dp_crypto dp) (a_id cl) (a_sid cl) w1 = (Inr (), w2)"
    "now w2 = now w1" "tables w2 = upd_users (\<lambda>u. u_id u = a_id cl \<and> u_sessHash u = Some (sessionHash ?sha (trim (a_sid cl))))
          (\<lambda>u. u\<lparr>u_sessHash := None, u_sessAt := None, u_updatedAt := t2\<rparr>) ?d"
    using Clear_run [OF f(3) aid sid(1), of "dp_crypto dp"] unfolding ident f(2) by blast
  obtain h' where h: "drop_user (a_id cl) (s_hub s) = Some h'"
    "clients h' = filter (\<lambda>c. c_user c \<noteq> a_id cl) (clients (s_hub s))"
    using drop_user_except_ok [OF hub aid, of "[]"] ident by (auto simp: drop_user_def)
  let ?s' = "s\<lparr>s_world := w2, s_hub := h'\<rparr>"
  have pres: "logoutAction (clientPresentedSessionID r) (a_sid cl) True = (True, True)"
    using t by (auto simp: logoutAction_def Let_def tied_def)
  have run: "run_handler (handleLogout dp r) s = ((json 200 POk)\<lparr>r_cookie := Some clear_cookie\<rparr>, ?s')"
    using post tok parse f(1) c(1) h(1) sid(2) row pres
    by (simp add: run_handler_def handleLogout_def Let_def andThen_def andThen0_def clock_def store_def
        hub_do_def reply_def sessionMatches_def)
  have gone: "refused dp (accessToken r) ?s'"
  proof (rule refusedI)
    fix cl' row' assume "ParseToken (dp_tokens dp) (now (s_world ?s')) (accessToken r) = Some cl'"
      and u': "user_by_id (a_id cl') (tables (s_world ?s')) = Some row'"
    then have cl': "cl' = cl" using parse c(2) f(4) by simp
    have "row \<in> set (users ?d)" "u_id row = a_id cl" using user_by_id_Some [OF row(1)] by auto
    then have "u_sessHash row = Some (sessionHash ?sha (trim (a_sid cl)))"
      using row(3) stored by (auto simp: sessionMatches_iff sessionHash_def)
    then have "u_sessHash row' = None"
      using u' row(1) \<open>u_id row = a_id cl\<close> unfolding cl' by (auto simp: c(3) user_by_id_upd)
    then show "\<not> sessionMatchesHash ?sha (u_sessHash row') (a_sid cl')" by (simp add: sessionMatches_iff)
  qed
  show ?thesis unfolding run using gone by (auto simp: h(2) json_def)
qed

definition logged_in :: server where
  \<comment> \<open>the superadmin after a login with session \<open>s1\<close>\<close>
  "logged_in = fresh_server (empty_db\<lparr>users := [root_user\<lparr>u_sessHash := Some (cr_sha toy_crypto ''s1'')\<rparr>]\<rparr>)"

lemma logged_in_live:
  "\<exists>u s1. loadAuthedUser toy_deployment (toy_request ''s1'') logged_in =
     (Inr (u, \<lparr>a_id = ''root'', a_email = ''root@x.io'', a_name = ''Root'', a_role = RoleSuperadmin,
        a_team = None, a_analystTeam = None, a_sid = ''s1''\<rparr>), s1)"
proof -
  have "(case fst (loadAuthedUser toy_deployment (toy_request ''s1'') logged_in) of Inl _ \<Rightarrow> None | Inr (_, cl) \<Rightarrow> Some cl) =
     Some \<lparr>a_id = ''root'', a_email = ''root@x.io'', a_name = ''Root'', a_role = RoleSuperadmin,
        a_team = None, a_analystTeam = None, a_sid = ''s1''\<rparr>"
    by code_simp
  then show ?thesis
    by (cases "loadAuthedUser toy_deployment (toy_request ''s1'') logged_in") (auto split: sum.splits prod.splits)
qed

theorem logout_ends_the_session_witness:
  "case run_handler (handleLogout toy_deployment (toy_request ''s1'')) logged_in of (resp, s') \<Rightarrow>
     r_cookie resp = Some clear_cookie \<and> refused toy_deployment (accessToken (toy_request ''s1'')) s'"
proof -
  obtain u s1 where l: "loadAuthedUser toy_deployment (toy_request ''s1'') logged_in =
     (Inr (u, \<lparr>a_id = ''root'', a_email = ''root@x.io'', a_name = ''Root'', a_role = RoleSuperadmin,
        a_team = None, a_analystTeam = None, a_sid = ''s1''\<rparr>), s1)" using logged_in_live by blast
  have "calm (s_world logged_in)" "hub_ok (s_hub logged_in)" "rq_method (toy_request ''s1'') = ''POST''"
    by (simp_all add: logged_in_def fresh_server_def calm_def calm_world_def hub_ok_new toy_request_def)
  moreover have "\<forall>u \<in> set (users (tables (s_world logged_in))). \<forall>h. u_sessHash u = Some h \<longrightarrow> trim h = h"
    using toy_sha_trimmed by (simp add: logged_in_def fresh_server_def calm_world_def)
  ultimately show ?thesis
    using logout_ends_the_session [OF _ _ _ _ l] by (fastforce simp: trim_root split: prod.splits)
qed

end
