(* ===== verification/AdminSafety.thy ===== *)
theory AdminSafety
  imports UserHandlers AuthSafety LeadSafety
begin

section \<open>User administration: what the handlers guarantee\<close>

subsection \<open>Superadmins are made by superadmins\<close>

definition supers_within :: "string set \<Rightarrow> db \<Rightarrow> bool" where
  \<comment> \<open>every superadmin account is one of \<open>S\<close>\<close>
  "supers_within S d \<longleftrightarrow> (\<forall>u \<in> set (users d). u_role u = RoleSuperadmin \<longrightarrow> u_id u \<in> S)"

lemma within_users: "users d' = users d \<Longrightarrow> supers_within S d \<Longrightarrow> supers_within S d'"
  by (simp add: supers_within_def)

lemma within_upd:
  "(\<And>u. u_role (f u) = RoleSuperadmin \<Longrightarrow> u_role u = RoleSuperadmin \<and> u_id (f u) = u_id u) \<Longrightarrow>
     supers_within S d \<Longrightarrow> supers_within S (upd_users P f d)"
  by (auto simp: supers_within_def set_upd_where)

lemma FindByID_keeps [keeps_intros]: "keeps I (FindByID i)"
  by (rule keeps_readonly [OF FindByID_readonly])

lemma FindByEmail_keeps [keeps_intros]: "keeps I (FindByEmail i)"
  unfolding FindByEmail_def or_not_found_def by (intro keeps_intros)

lemma hashPassword_keeps [keeps_intros]: "keeps I (hashPassword cr p)"
  unfolding hashPassword_def by (intro keeps_intros)

lemma CreateUser_within: "cu_role inp \<noteq> RoleSuperadmin \<Longrightarrow> keeps (supers_within S) (CreateUser cr inp)"
  unfolding CreateUser_def linkMainTeamLeadToNamedTeam_def Let_def
  by (intro keeps_intros) (auto simp: supers_within_def set_upd_where)

lemma UpdateUser_within: "uu_role inp \<noteq> RoleSuperadmin \<Longrightarrow> keeps (supers_within S) (UpdateUser cr i inp)"
  unfolding UpdateUser_def update_check_email_def Let_def
  by (intro keeps_intros within_upd) simp_all

lemma SetActive_within: "keeps (supers_within S) (SetActive i a b)"
  unfolding SetActive_def CountActiveByRole_def activate_def deactivate_def Let_def
  by (intro keeps_intros within_upd) simp_all

lemma reassign_keeps:
  assumes "\<And>r t tid d. I d \<Longrightarrow> I (set_team_lead r t tid d)"
  shows "keeps I (reassign_teams i t ids)"
  by (induction ids) (auto intro!: keeps_intros assms)

lemma DeleteUser_within: "keeps (supers_within S) (DeleteUser i a)"
proof -
  have d: "supers_within S d \<Longrightarrow> supers_within S (del_user_row i d)" for i d
    by (auto simp: supers_within_def del_user_row_def on_delete_user_def del_where_def)
  show ?thesis
    unfolding DeleteUser_def delete_tx_def CountByRole_def Let_def
    by (intro keeps_intros reassign_keeps d)
       (auto intro: within_users within_upd simp: del_creator_def del_assigned_def del_mtl_def del_notAppr_def
          del_manager_def del_atl_def del_keys_def set_team_lead_def)
qed

lemma TransferSalesExec_within: "keeps (supers_within S) (TransferSalesExec inp)"
  unfolding TransferSalesExec_def transfer_se_tx_def move_se_def move_leads_def Let_def
  by (intro keeps_intros within_upd) (auto intro: within_users)

lemma TransferLeadAnalyst_within: "keeps (supers_within S) (TransferLeadAnalyst inp)"
  unfolding TransferLeadAnalyst_def transfer_analyst_tx_def findAnalystTeamLeadByID_def
    findAnalystTeamLeadByTeamName_def Let_def
  by (intro keeps_intros within_upd) simp_all

lemma CreateMany_keeps:
  assumes "\<And>rows d. I d \<Longrightarrow> I (d\<lparr>notifs := notifs d @ rows\<rparr>)"
  shows "keeps I (CreateMany rs k ti b l)"
proof -
  have rows: "keeps I (mk_rows k l ti b t rs)" for k ti b t rs
    by (induction rs) (auto simp: Let_def intro!: keeps_intros)
  have ins: "keeps I (insert_notifs rows)" for rows
    unfolding insert_notifs_def by (intro keeps_intros assms)
  have "keeps I (create_batches k l ti b t rs)" for k ti b t rs
  proof (induction rs rule: length_induct)
    case (1 rs)
    show ?case
    proof (cases "rs = []")
      case False
      then have "length (drop batchSize rs) < length rs" by (simp add: batchSize_def)
      then show ?thesis using 1 False
        by (subst create_batches.simps) (simp add: keeps_bindE keeps_seqE rows ins)
    qed (subst create_batches.simps, simp add: keeps_ret)
  qed
  then show ?thesis unfolding CreateMany_def Let_def by (intro keeps_intros)
qed

lemma hkeeps_notify:
  assumes "\<And>rows d. I d \<Longrightarrow> I (d\<lparr>notifs := notifs d @ rows\<rparr>)"
  shows "hkeeps I (notify a k ti b l ex)"
  unfolding notify_def NotifyStaff_def staffRecipientIDs_def
  by (intro hkeeps_intros keeps_intros CreateMany_keeps assms)

lemma load_target_keeps [hkeeps_intros]: "hkeeps I (load_target i m)"
  unfolding load_target_def by (intro hkeeps_intros keeps_intros)

lemma manage_keeps [hkeeps_intros]: "hkeeps I (actorMayManageTarget a u)"
  unfolding actorMayManageTarget_def by (intro hkeeps_intros)

lemma create_superadmin: "canCreateRole a RoleSuperadmin \<Longrightarrow> a = RoleSuperadmin"
  by (auto simp: canCreateRole_def role_in_iff creatableRoles_def analystTeamLeadManagedRoles_def split: if_splits)

lemma createUser_within:
  assumes "a_role actor \<noteq> RoleSuperadmin"
  shows "hkeeps (supers_within S) (createUser dp actor body)"
  unfolding createUser_def inherited_team_def TeamIDExists_def Let_def
  by (intro hkeeps_intros keeps_intros CreateUser_within) (use assms create_superadmin in auto)

lemma updateUser_within:
  assumes "a_role actor \<noteq> RoleSuperadmin"
  shows "hkeeps (supers_within S) (updateUser dp i actor body)"
  unfolding updateUser_def update_inherit_def demotion_check_def update_team_check_def update_transfer_def
    TeamIDExists_def CountByRole_def Let_def
  by (intro hkeeps_intros keeps_intros UpdateUser_within TransferSalesExec_within) (use assms create_superadmin in auto)

lemma deleteUser_within: "hkeeps (supers_within S) (deleteUser i actor)"
  unfolding deleteUser_def by (intro hkeeps_intros DeleteUser_within)

lemma setUserActive_within: "hkeeps (supers_within S) (setUserActive r i actor body)"
  unfolding setUserActive_def by (intro hkeeps_intros SetActive_within)

lemma transferSE_within: "hkeeps (supers_within S) (transferSalesExec r i actor body)"
  unfolding transferSalesExec_def transfer_labels_def ListTeamsBrief_def Let_def
  by (intro hkeeps_intros hkeeps_notify keeps_intros TransferSalesExec_within) (auto intro: within_users)

lemma transferLA_within: "hkeeps (supers_within S) (transferLeadAnalyst r i actor body)"
  unfolding transferLeadAnalyst_def Let_def
  by (intro hkeeps_intros TransferLeadAnalyst_within)

subsection \<open>The routes\<close>

lemma load_then_manage:
  assumes "\<And>e. hkeeps I (rest e)"
  shows "hkeeps I (andThen (load_target i m) (\<lambda>e. andThen0 (actorMayManageTarget a e) (rest e)))"
  by (intro hkeeps_intros assms)

lemma handleUsers_within:
  "a_role actor \<noteq> RoleSuperadmin \<Longrightarrow> hkeeps (supers_within S) (handleUsers dp r actor body)"
  unfolding handleUsers_def listUsers_def applyLivePresence_def Let_def
  by (intro hkeeps_intros createUser_within hkeeps_quiet quiet_intros keeps_intros)
     (auto intro!: keeps_intros simp: ListUsers_def CountUsers_def)

lemma handleUserByID_within:
  "a_role actor \<noteq> RoleSuperadmin \<Longrightarrow> hkeeps (supers_within S) (handleUserByID dp r path actor ub)"
  unfolding handleUserByID_def Let_def
  by (intro hkeeps_intros transferSE_within transferLA_within setUserActive_within updateUser_within deleteUser_within)

definition superadmin_ids :: "db \<Rightarrow> string set" where
  "superadmin_ids d = set (map u_id (filter (\<lambda>u. u_role u = RoleSuperadmin) (users d)))"

lemma supers_within_ids: "supers_within S d \<longleftrightarrow> superadmin_ids d \<subseteq> S"
  by (auto simp: supers_within_def superadmin_ids_def)

text \<open>C13. Whatever request a user who is not a superadmin sends to the user administration,
  and whichever database statement fails while it runs, every superadmin account afterwards was one
  before: nobody else creates a superadmin, promotes an account to it, or turns one account into
  another.\<close>

theorem only_superadmins_make_superadmins:
  assumes "a_role actor \<noteq> RoleSuperadmin"
  shows "superadmin_ids (tables (s_world (snd (run_handler (handleUsers dp r actor body) s)))) \<subseteq>
           superadmin_ids (tables (s_world s)) \<and>
         superadmin_ids (tables (s_world (snd (run_handler (handleUserByID dp r path actor ub) s)))) \<subseteq>
           superadmin_ids (tables (s_world s))"
  using hkeeps_run [OF handleUsers_within [OF assms]] hkeeps_run [OF handleUserByID_within [OF assms]]
  by (simp add: supers_within_ids)

definition team_boss :: auth_user where
  \<comment> \<open>an analyst team lead, for the witnesses\<close>
  "team_boss = \<lparr>a_id = ''atl'', a_email = ''atl@x.io'', a_name = ''Atl'', a_role = RoleAnalystTeamLead,
     a_team = None, a_analystTeam = None, a_sid = ''s''\<rparr>"

theorem only_superadmins_make_superadmins_witness:
  "superadmin_ids (tables (s_world (snd (run_handler (handleUsers toy_deployment (toy_request ''s'') team_boss
     (Some \<lparr>cur_name = ''Eve'', cur_email = ''eve@x.io'', cur_password = ''secret123'', cur_role = RoleSuperadmin,
        cur_teamId = None, cur_teamName = None\<rparr>)) (fresh_server root_tables))))) \<subseteq> {''root''}"
proof -
  have r: "a_role team_boss \<noteq> RoleSuperadmin" by (simp add: team_boss_def RoleAnalystTeamLead_def RoleSuperadmin_def)
  have i: "superadmin_ids (tables (s_world (fresh_server root_tables))) = {''root''}" by code_simp
  show ?thesis using only_superadmins_make_superadmins [OF r, of toy_deployment "toy_request ''s''" _ "fresh_server root_tables"] i
    by blast
qed

subsection \<open>Who may change an account\<close>

definition may_manage :: "auth_user \<Rightarrow> user \<Rightarrow> bool" where
  \<comment> \<open>the intended rule: superadmins everyone, analyst team leads the roles below them, main team leads
    the sales executives of their own team\<close>
  "may_manage actor u \<longleftrightarrow>
     a_role actor = RoleSuperadmin
   \<or> (a_role actor = RoleAnalystTeamLead \<and> u_role u \<in> {RoleLeadAnalyst, RoleMainTeamLead, RoleSalesExecutive})
   \<or> (a_role actor = RoleMainTeamLead \<and> u_role u = RoleSalesExecutive \<and>
        trimmed (a_team actor) \<noteq> [] \<and> trimmed (u_teamId u) = trimmed (a_team actor))"

definition manageable :: "auth_user \<Rightarrow> string \<Rightarrow> db \<Rightarrow> bool" where
  "manageable actor i d \<longleftrightarrow> (\<exists>u. user_by_id i d = Some u \<and> may_manage actor u)"

lemmas role_texts = RoleSuperadmin_def RoleAnalystTeamLead_def RoleMainTeamLead_def RoleSalesExecutive_def RoleLeadAnalyst_def

lemma management_error_iff: "management_error actor (joined d u) = None \<Longrightarrow> may_manage actor u"
  by (auto simp: management_error_def may_manage_def canActOnUser_iff creatableRoles_def analystTeamLeadManagedRoles_def
      isMainTeamLead_def leadTeamScopeID_def sameTeamID_def Let_def canManageUsers_def split: if_splits option.splits)

lemma h_true: "htriple P m (\<lambda>_ _. True) (\<lambda>_ _. True)"
  by (rule htripleI) simp_all

lemma h_load_target:
  "htriple (\<lambda>s. tables (s_world s) = d) (load_target i msg)
     (\<lambda>e s. tables (s_world s) = d \<and> (\<exists>u. user_by_id i d = Some u \<and> e = joined d u)) (\<lambda>_ s. tables (s_world s) = d)"
proof (rule htripleI)
  fix s e s' assume s: "tables (s_world s) = d" "load_target i msg s = (Inr e, s')"
  obtain r w where f: "FindByID i (s_world s) = (r, w)" by force
  have w: "tables w = d" using readonlyD [OF FindByID_readonly f] s(1) by simp
  obtain u where "user_by_id i d = Some u" "e = joined d u" "s' = s\<lparr>s_world := w\<rparr>"
    using s(2) f tripleD [OF triple_FindByID [where i = i and P = "\<lambda>d'. d' = d" and Q = "\<lambda>e _. \<exists>u. user_by_id i d = Some u \<and> e = joined d u"
        and E = "\<lambda>_. True"] s(1)]
    by (cases r) (auto simp: load_target_def andThen_def store_def pass_def reply_def split: if_splits)
  then show "tables (s_world s') = d \<and> (\<exists>u. user_by_id i d = Some u \<and> e = joined d u)" using w by simp
next
  fix s r s' assume s: "tables (s_world s) = d" "load_target i msg s = (Inl r, s')"
  have "quiet (load_target i msg)" unfolding load_target_def by (intro quiet_intros readonly_intros)
  then show "tables (s_world s') = d" using s by (auto dest: quietD)
qed

lemma h_managed:
  assumes "\<And>e. manageable actor i d \<Longrightarrow> htriple (\<lambda>s. tables (s_world s) = d) (rest e) Q E"
    "\<And>r s. tables (s_world s) = d \<Longrightarrow> E r s"
  shows "htriple (\<lambda>s. tables (s_world s) = d)
     (andThen (load_target i msg) (\<lambda>e. andThen0 (actorMayManageTarget actor e) (rest e))) Q E"
proof (rule h_andThen, rule h_weaken [OF h_load_target], assumption, assumption)
  show "\<And>r s. tables (s_world s) = d \<Longrightarrow> E r s" by (rule assms(2))
  fix e
  show "htriple (\<lambda>s. tables (s_world s) = d \<and> (\<exists>u. user_by_id i d = Some u \<and> e = joined d u))
      (andThen0 (actorMayManageTarget actor e) (rest e)) Q E"
  proof (rule h_assume, rule h_andThen0)
    assume "\<exists>u. user_by_id i d = Some u \<and> e = joined d u"
    then obtain u where u: "user_by_id i d = Some u" "e = joined d u" by blast
    show "htriple (\<lambda>s. tables (s_world s) = d) (actorMayManageTarget actor e)
        (\<lambda>_ s. tables (s_world s) = d \<and> manageable actor i d) E"
      unfolding actorMayManageTarget_def
      by (rule h_option) (auto intro!: h_pass h_reply assms(2) simp: manageable_def u dest: management_error_iff)
  qed (rule h_assume, rule assms(1))
qed

definition only_if_manageable :: "auth_user \<Rightarrow> string \<Rightarrow> 'a act \<Rightarrow> bool" where
  \<comment> \<open>the handler leaves the tables alone unless the actor may manage the user \<open>i\<close>\<close>
  "only_if_manageable actor i m \<longleftrightarrow> (\<forall>d. htriple (\<lambda>s. tables (s_world s) = d) m
     (\<lambda>_ s. tables (s_world s) = d \<or> manageable actor i d) (\<lambda>_ s. tables (s_world s) = d \<or> manageable actor i d))"

lemma only_quiet: "quiet m \<Longrightarrow> only_if_manageable actor i m"
  unfolding only_if_manageable_def by (intro allI quiet_triple) simp_all

lemma only_managed:
  "only_if_manageable actor i (andThen (load_target i msg) (\<lambda>e. andThen0 (actorMayManageTarget actor e) (rest e)))"
  unfolding only_if_manageable_def by (intro allI h_managed) (auto intro: h_weaken [OF h_true])

lemma only_if: "only_if_manageable a i m \<Longrightarrow> only_if_manageable a i n \<Longrightarrow> only_if_manageable a i (if b then m else n)"
  by simp

lemma only_option:
  "only_if_manageable a i m \<Longrightarrow> (\<And>x. only_if_manageable a i (f x)) \<Longrightarrow>
     only_if_manageable a i (case p of None \<Rightarrow> m | Some x \<Rightarrow> f x)"
  by (simp split: option.split)

lemmas only_intros = only_if only_option only_managed only_quiet [OF quiet_reply]

lemma quiet_manage [quiet_intros]: "quiet (actorMayManageTarget a u)"
  unfolding actorMayManageTarget_def by (intro quiet_intros)

lemma only_updateUser: "only_if_manageable actor i (updateUser dp i actor body)"
  unfolding updateUser_def by (intro only_intros)

lemma only_deleteUser: "only_if_manageable actor i (deleteUser i actor)"
  unfolding deleteUser_def by (intro only_intros)

lemma only_setActive: "only_if_manageable actor i (setUserActive r i actor body)"
  unfolding setUserActive_def by (intro only_intros)

lemma only_transferLA: "only_if_manageable actor i (transferLeadAnalyst r i actor body)"
  unfolding transferLeadAnalyst_def by (intro only_intros)

lemma transfer_manageable:
  assumes "transfer_outcome inp d0 d" "trim (ts_se inp) = i" "ts_actorRole inp = a_role actor"
    "ts_actorTeam inp = a_team actor"
    "a_role actor = RoleSuperadmin \<or> a_role actor = RoleAnalystTeamLead \<or> isMainTeamLead (a_role actor)"
  shows "manageable actor i d0"
  using assms
  by (auto simp: transfer_outcome_def transferred_def manageable_def may_manage_def isMainTeamLead_def
      leadTeamScopeID_def split: option.splits)

lemma transfer_se_outcome:
  assumes "TransferSalesExec inp w = (r, w')"
  shows "case r of Inl _ \<Rightarrow> tables w' = tables w \<or> transfer_outcome inp (tables w) (tables w')
         | Inr _ \<Rightarrow> transfer_outcome inp (tables w) (tables w')"
  using tripleE [OF TransferSalesExec_triple refl, of inp w] tripleD [OF TransferSalesExec_triple refl, of inp w] assms
  by (cases r) auto

lemma only_transferSE:
  assumes i: "trim i = i"
  shows "only_if_manageable actor i (transferSalesExec r i actor body)"
proof (cases "rq_method r = ''POST'' \<and>
    (a_role actor = RoleSuperadmin \<or> a_role actor = RoleAnalystTeamLead \<or> isMainTeamLead (a_role actor))")
  case False
  then show ?thesis unfolding transferSalesExec_def by (auto intro: only_quiet quiet_reply)
next
  case True
  let ?done = "\<lambda>d s. tables (s_world s) = d \<or> manageable actor i d"
  have moved: "htriple (\<lambda>s. tables (s_world s) = d) (store (TransferSalesExec \<lparr>ts_se = i, ts_toTeam = x, ts_expected = e,
      ts_actor = a_id actor, ts_actorRole = a_role actor, ts_actorTeam = a_team actor\<rparr>))
      (\<lambda>r s. case r of Inl _ \<Rightarrow> ?done d s | Inr _ \<Rightarrow> manageable actor i d) E" for d x e E
  proof (rule h_store)
    fix s and r and w
    let ?in = "\<lparr>ts_se = i, ts_toTeam = x, ts_expected = e,
      ts_actor = a_id actor, ts_actorRole = a_role actor, ts_actorTeam = a_team actor\<rparr>"
    assume s: "tables (s_world s) = d" and t: "TransferSalesExec ?in (s_world s) = (r, w)"
    have "transfer_outcome ?in d (tables w) \<Longrightarrow> manageable actor i d"
      by (rule transfer_manageable, assumption) (use True i in simp_all)
    then show "case r of Inl _ \<Rightarrow> ?done d (s\<lparr>s_world := w\<rparr>) | Inr _ \<Rightarrow> manageable actor i d"
      using transfer_se_outcome [OF t] s by (auto split: sum.splits)
  qed
  have rest: "htriple (\<lambda>_. manageable actor i d) m (\<lambda>_. ?done d) (\<lambda>_. ?done d)" for m :: "response act" and d
    by (rule htripleI) simp_all
  show ?thesis
    unfolding transferSalesExec_def Let_def only_if_manageable_def
    apply (intro allI h_if h_option h_reply, simp_all add: True)
    apply (rule h_andThen, rule moved)
    apply (rule h_sum, simp, rule h_reply, assumption)
    apply (simp, rule rest)
    done
qed

lemma only_userByID:
  "only_if_manageable actor (trim (hd (split_on CHR ''/'' (trim_slashes path)))) (handleUserByID dp r path actor ub)"
  unfolding handleUserByID_def Let_def
  by (intro only_intros only_transferSE only_transferLA only_setActive only_updateUser only_deleteUser) simp

text \<open>C14. A request on one user account changes the database only when the actor may manage
  that account: superadmins all accounts, analyst team leads those of the roles below them, main team
  leads the sales executives of their own team, and nobody else. It holds on every route (edit,
  activate, delete, both transfers), for every body and every failing statement.\<close>

theorem accounts_change_only_by_their_managers:
  assumes "tables (s_world (snd (run_handler (handleUserByID dp r path actor ub) s))) \<noteq> tables (s_world s)"
  shows "\<exists>u \<in> set (users (tables (s_world s))).
           u_id u = trim (hd (split_on CHR ''/'' (trim_slashes path))) \<and> may_manage actor u"
proof -
  let ?i = "trim (hd (split_on CHR ''/'' (trim_slashes path)))" and ?d = "tables (s_world s)"
  have "manageable actor ?i ?d"
    using run_handlerD [OF only_userByID [of actor path dp r ub, unfolded only_if_manageable_def, rule_format, of ?d], of s] assms by blast
  then show ?thesis unfolding manageable_def by (metis user_by_id_Some)
qed

definition two_roots :: db where
  "two_roots = empty_db\<lparr>users := [root_user, root_user\<lparr>u_id := ''boss''\<rparr>]\<rparr>"

definition root_actor :: auth_user where
  "root_actor = team_boss\<lparr>a_id := ''root'', a_role := RoleSuperadmin\<rparr>"

lemma delete_boss_changes:
  "map u_id (users (tables (s_world (snd (run_handler (handleUserByID toy_deployment ((toy_request ''s'')\<lparr>rq_method := ''DELETE''\<rparr>)
     ''boss'' root_actor NoBody) (fresh_server two_roots)))))) = [''root'']"
  by code_simp

theorem accounts_change_only_by_their_managers_witness:
  "\<exists>u \<in> set (users two_roots). u_id u = ''boss'' \<and> may_manage root_actor u"
proof -
  have t: "tables (s_world (fresh_server two_roots)) = two_roots" by (simp add: fresh_server_def calm_world_def)
  have n: "map u_id (users two_roots) = [''root'', ''boss'']" by code_simp
  have i: "trim (hd (split_on CHR ''/'' (trim_slashes ''boss''))) = ''boss''" by code_simp
  show ?thesis
    using accounts_change_only_by_their_managers [of toy_deployment "(toy_request ''s'')\<lparr>rq_method := ''DELETE''\<rparr>" "''boss''"
        root_actor NoBody "fresh_server two_roots"] delete_boss_changes n t i
    by fastforce
qed

end
