(* ===== verification/Json.thy ===== *)
theory Json
  imports Prelude
begin

section \<open>JSON bodies\<close>

text \<open>
  A request body after tokenisation, and what \<open>encoding/json\<close> does with it: the map of raw
  messages that \<open>handleLeadByID\<close> peeks into, and \<open>Decode\<close> into a struct with
  \<open>DisallowUnknownFields\<close>: a key selects the field of exactly that name, else the one equal to it
  under case folding; the last of several keys for a field counts; \<open>null\<close> clears a pointer and leaves
  any other field as it was. A number literal is an integer or has a fraction or exponent; floating
  point rounding and overflow are not modelled.
\<close>

datatype json =
    JNull | JBool bool | JInt int | JFrac rat | JStr string
  | JList "json list" | JObj "(string \<times> json) list"

datatype kind = KStr | KInt | KFloat | KBool | KStrs

definition int64 :: "int \<Rightarrow> bool" where
  "int64 n \<longleftrightarrow> - (2 ^ 63) \<le> n \<and> n < 2 ^ 63"

fun fits :: "kind \<Rightarrow> json \<Rightarrow> bool" where
  \<comment> \<open>no UnmarshalTypeError\<close>
  "fits k JNull = True"
| "fits k (JBool b) = (k = KBool)"
| "fits k (JInt n) = ((k = KInt \<and> int64 n) \<or> k = KFloat)"
| "fits k (JFrac q) = (k = KFloat)"
| "fits k (JStr s) = (k = KStr)"
| "fits k (JList xs) = (k = KStrs \<and> list_all (\<lambda>x. case x of JNull \<Rightarrow> True | JStr _ \<Rightarrow> True | _ \<Rightarrow> False) xs)"
| "fits k (JObj o') = False"

definition field_of :: "(string \<times> kind) list \<Rightarrow> string \<Rightarrow> (string \<times> kind) option" where
  "field_of fields key = (case find (\<lambda>f. fst f = key) fields of Some f \<Rightarrow> Some f
     | None \<Rightarrow> find (\<lambda>f. equal_fold (fst f) key) fields)"

fun decode_members :: "(string \<times> kind) list \<Rightarrow> (string \<times> json) list \<Rightarrow> (string \<times> json) list option" where
  "decode_members fields [] = Some []"
| "decode_members fields ((key, v) # rest) = (case field_of fields key of
     None \<Rightarrow> None
   | Some (f, k) \<Rightarrow> if fits k v then map_option ((#) (f, v)) (decode_members fields rest) else None)"

fun decode :: "(string \<times> kind) list \<Rightarrow> json \<Rightarrow> (string \<times> json) list option" where
  \<comment> \<open>the assignments \<open>Decode\<close> makes, in order; \<open>None\<close> when it returns an error\<close>
  "decode fields JNull = Some []"
| "decode fields (JObj members) = decode_members fields members"
| "decode fields _ = None"

definition values_of :: "string \<Rightarrow> (string \<times> json) list \<Rightarrow> json list" where
  "values_of f as = map snd (filter (\<lambda>a. fst a = f) as)"

fun to_str :: "json \<Rightarrow> string option" where
  "to_str (JStr s) = Some s" | "to_str _ = None"

fun to_int :: "json \<Rightarrow> int option" where
  "to_int (JInt n) = Some n" | "to_int _ = None"

fun to_num :: "json \<Rightarrow> rat option" where
  "to_num (JInt n) = Some (of_int n)" | "to_num (JFrac q) = Some q" | "to_num _ = None"

fun to_bool :: "json \<Rightarrow> bool option" where
  "to_bool (JBool b) = Some b" | "to_bool _ = None"

definition pointer :: "(json \<Rightarrow> 'a option) \<Rightarrow> string \<Rightarrow> (string \<times> json) list \<Rightarrow> 'a option" where
  \<comment> \<open>a pointer field: the last value decides, \<open>null\<close> is nil\<close>
  "pointer conv f as = (case rev (values_of f as) of [] \<Rightarrow> None | v # _ \<Rightarrow> conv v)"

definition plain :: "(json \<Rightarrow> 'a option) \<Rightarrow> 'a \<Rightarrow> string \<Rightarrow> (string \<times> json) list \<Rightarrow> 'a" where
  \<comment> \<open>a non-pointer field: \<open>null\<close> changes nothing\<close>
  "plain conv zero f as = foldl (\<lambda>acc v. case conv v of None \<Rightarrow> acc | Some x \<Rightarrow> x) zero (values_of f as)"

fun to_strs :: "json \<Rightarrow> string list" where
  "to_strs (JList xs) = map (\<lambda>x. case to_str x of None \<Rightarrow> [] | Some s \<Rightarrow> s) xs"
| "to_strs _ = []"

definition string_list :: "string \<Rightarrow> (string \<times> json) list \<Rightarrow> string list" where
  \<comment> \<open>a slice of strings: the last value decides; a \<open>null\<close> element is the empty string\<close>
  "string_list f as = (case rev (values_of f as) of [] \<Rightarrow> [] | v # _ \<Rightarrow> to_strs v)"

fun peek :: "json \<Rightarrow> string list option" where
  \<comment> \<open>\<open>json.Unmarshal\<close> into a map of raw messages: the keys present, exactly as written\<close>
  "peek JNull = Some []"
| "peek (JObj members) = Some (map fst members)"
| "peek _ = None"

end
