(* ===== verification/Times.thy ===== *)
theory Times
  imports Prelude
begin

section \<open>Dates and times of requests (business_tz.go, handlers_leads_http.go)\<close>

text \<open>
  The texts of dates that requests carry: the layouts the handlers try with \<open>time.Parse\<close> and
  \<open>time.ParseInLocation\<close>, the first-response times and the business zone. An instant is a
  number of nanoseconds since the epoch; wall-clock fields become an instant through
  \<open>zone\<close>, which maps a wall-clock reading (as nanoseconds, as if in UTC) to the instant
  \<open>time.Date\<close> gives for the configured location: the time zone database is not part of the
  repository.
\<close>

subsection \<open>Calendar\<close>

record civil =
  cv_year :: int
  cv_month :: int
  cv_day :: int
  cv_hour :: int
  cv_min :: int
  cv_sec :: int
  cv_nsec :: int

definition leap :: "int \<Rightarrow> bool" where
  "leap y \<longleftrightarrow> y mod 4 = 0 \<and> (y mod 100 \<noteq> 0 \<or> y mod 400 = 0)"

definition days_in :: "int \<Rightarrow> int \<Rightarrow> int" where
  "days_in y m = (if m = 2 then (if leap y then 29 else 28)
     else if m \<in> {4, 6, 9, 11} then 30 else 31)"

definition days_from_civil :: "int \<Rightarrow> int \<Rightarrow> int \<Rightarrow> int" where
  \<comment> \<open>days from 1970-01-01, in the proleptic Gregorian calendar\<close>
  "days_from_civil y0 m d =
     (let y = (if m \<le> 2 then y0 - 1 else y0); era = y div 400; yoe = y - era * 400;
          doy = (153 * (if m > 2 then m - 3 else m + 9) + 2) div 5 + d - 1;
          doe = yoe * 365 + yoe div 4 - yoe div 100 + doy
      in era * 146097 + doe - 719468)"

definition wall :: "civil \<Rightarrow> int" where
  \<comment> \<open>the reading as nanoseconds, as if in UTC\<close>
  "wall c = (((days_from_civil (cv_year c) (cv_month c) (cv_day c) * 24 + cv_hour c) * 60 + cv_min c) * 60
     + cv_sec c) * 1000000000 + cv_nsec c"

definition valid_civil :: "civil \<Rightarrow> bool" where
  "valid_civil c \<longleftrightarrow> 1 \<le> cv_month c \<and> cv_month c \<le> 12 \<and>
     1 \<le> cv_day c \<and> cv_day c \<le> days_in (cv_year c) (cv_month c) \<and>
     cv_hour c < 24 \<and> cv_min c < 60 \<and> cv_sec c < 60"

subsection \<open>Pieces of a layout\<close>

definition digit :: "char \<Rightarrow> int" where
  "digit c = int (char_code c) - 48"

fun two_digits :: "string \<Rightarrow> (int \<times> string) option" where
  \<comment> \<open>\<open>getnum(value, true)\<close>\<close>
  "two_digits (a # b # s) = (if is_digit a \<and> is_digit b then Some (digit a * 10 + digit b, s) else None)"
| "two_digits _ = None"

fun one_or_two :: "string \<Rightarrow> (int \<times> string) option" where
  \<comment> \<open>\<open>getnum(value, false)\<close>, used for the hour\<close>
  "one_or_two (a # b # s) = (if \<not> is_digit a then None
     else if is_digit b then Some (digit a * 10 + digit b, s) else Some (digit a, b # s))"
| "one_or_two [a] = (if is_digit a then Some (digit a, []) else None)"
| "one_or_two [] = None"

fun four_digits :: "string \<Rightarrow> (int \<times> string) option" where
  "four_digits (a # b # c # d # s) = (if list_all is_digit [a, b, c, d]
     then Some (((digit a * 10 + digit b) * 10 + digit c) * 10 + digit d, s) else None)"
| "four_digits _ = None"

fun lit :: "char \<Rightarrow> string \<Rightarrow> string option" where
  "lit c (x # s) = (if x = c then Some s else None)"
| "lit c [] = None"

definition digits_value :: "string \<Rightarrow> int" where
  "digits_value = foldl (\<lambda>v c. v * 10 + digit c) 0"

definition nanoseconds :: "string \<Rightarrow> int" where
  \<comment> \<open>parseNanoseconds on the digits after the point: at most nine count\<close>
  "nanoseconds ds = (let k = take 9 ds in digits_value k * 10 ^ (9 - length k))"

fun fraction :: "string \<Rightarrow> int \<times> string" where
  \<comment> \<open>an optional fraction after the seconds\<close>
  "fraction (p # d # s) = (if (p = CHR ''.'' \<or> p = CHR '','') \<and> is_digit d
     then (nanoseconds (takeWhile is_digit (d # s)), dropWhile is_digit (d # s)) else (0, p # d # s))"
| "fraction s = (0, s)"

definition then_lit :: "char \<Rightarrow> ('a \<times> string) option \<Rightarrow> ('a \<times> string) option" where
  "then_lit c p = (case p of None \<Rightarrow> None | Some (x, s) \<Rightarrow> map_option (\<lambda>r. (x, r)) (lit c s))"

definition parse_date :: "string \<Rightarrow> (civil \<times> string) option" where
  \<comment> \<open>2006-01-02\<close>
  "parse_date s = (case then_lit CHR ''-'' (four_digits s) of None \<Rightarrow> None | Some (y, s1) \<Rightarrow>
     (case then_lit CHR ''-'' (two_digits s1) of None \<Rightarrow> None | Some (m, s2) \<Rightarrow>
     (case two_digits s2 of None \<Rightarrow> None | Some (d, s3) \<Rightarrow>
      Some (\<lparr>cv_year = y, cv_month = m, cv_day = d, cv_hour = 0, cv_min = 0, cv_sec = 0, cv_nsec = 0\<rparr>, s3))))"

definition parse_minutes :: "char \<Rightarrow> string \<Rightarrow> (civil \<times> string) option" where
  \<comment> \<open>2006-01-02T15:04, with the given separator\<close>
  "parse_minutes sep s = (case then_lit sep (parse_date s) of None \<Rightarrow> None | Some (c, s1) \<Rightarrow>
     (case then_lit CHR '':'' (one_or_two s1) of None \<Rightarrow> None | Some (h, s2) \<Rightarrow>
     (case two_digits s2 of None \<Rightarrow> None | Some (m, s3) \<Rightarrow> Some (c\<lparr>cv_hour := h, cv_min := m\<rparr>, s3))))"

definition parse_seconds :: "char \<Rightarrow> string \<Rightarrow> (civil \<times> string) option" where
  \<comment> \<open>2006-01-02T15:04:05, a fraction accepted\<close>
  "parse_seconds sep s = (case then_lit CHR '':'' (parse_minutes sep s) of None \<Rightarrow> None | Some (c, s1) \<Rightarrow>
     (case two_digits s1 of None \<Rightarrow> None | Some (sec, s2) \<Rightarrow>
      (case fraction s2 of (ns, s3) \<Rightarrow> Some (c\<lparr>cv_sec := sec, cv_nsec := ns\<rparr>, s3))))"

fun parse_offset :: "string \<Rightarrow> int option" where
  \<comment> \<open>Z07:00 up to the end of the text, in seconds\<close>
  "parse_offset [] = None"
| "parse_offset (z # s) = (if z = CHR ''Z'' then (if s = [] then Some 0 else None)
     else case then_lit CHR '':'' (two_digits s) of None \<Rightarrow> None | Some (hh, s1) \<Rightarrow>
       (case two_digits s1 of None \<Rightarrow> None | Some (mm, s2) \<Rightarrow>
         if s2 \<noteq> [] \<or> hh > 24 \<or> mm > 60 then None
         else if z = CHR ''+'' then Some ((hh * 60 + mm) * 60)
         else if z = CHR ''-'' then Some (- ((hh * 60 + mm) * 60)) else None))"

definition complete :: "(civil \<times> string) option \<Rightarrow> civil option" where
  \<comment> \<open>no trailing text, fields in range\<close>
  "complete p = (case p of Some (c, []) \<Rightarrow> if valid_civil c then Some c else None | _ \<Rightarrow> None)"

definition parse_rfc3339 :: "string \<Rightarrow> (civil \<times> int) option" where
  \<comment> \<open>RFC3339 and RFC3339Nano accept the same texts: (wall-clock fields, offset in seconds)\<close>
  "parse_rfc3339 s = (case parse_seconds CHR ''T'' s of None \<Rightarrow> None | Some (c, rest) \<Rightarrow>
     (case parse_offset rest of None \<Rightarrow> None | Some off \<Rightarrow> if valid_civil c then Some (c, off) else None))"

subsection \<open>Optional datetimes\<close>

type_synonym zone = "int \<Rightarrow> int"

definition kathmandu :: zone where
  \<comment> \<open>the default business zone since 1986: UTC+5:45\<close>
  "kathmandu w = w - 20700 * 1000000000"

fun first_some :: "'a option list \<Rightarrow> 'a option" where
  "first_some [] = None"
| "first_some (x # xs) = (case x of None \<Rightarrow> first_some xs | Some a \<Rightarrow> Some a)"

definition parseOptionalDateTime :: "zone \<Rightarrow> string option \<Rightarrow> string \<Rightarrow> string + int option" where
  "parseOptionalDateTime zone raw field = (case raw of None \<Rightarrow> Inr None | Some r \<Rightarrow>
     let t = trim r in if t = [] then Inr None
     else case parse_rfc3339 t of Some (c, off) \<Rightarrow> Inr (Some (wall c - off * 1000000000))
     | None \<Rightarrow> (case first_some [complete (parse_minutes CHR ''T'' t), complete (parse_seconds CHR ''T'' t),
           complete (parse_minutes CHR '' '' t), complete (parse_seconds CHR '' '' t)] of
         Some c \<Rightarrow> Inr (Some (zone (wall c)))
       | None \<Rightarrow> Inl (''invalid '' @ field @ '' datetime'')))"

definition resolveFirstResponseTimes ::
  "zone \<Rightarrow> string option \<Rightarrow> string option \<Rightarrow> string + (int \<times> int \<times> int) option" where
  \<comment> \<open>(client, agent, minutes); both times are given or neither\<close>
  "resolveFirstResponseTimes zone clientRaw agentRaw =
     (case parseOptionalDateTime zone clientRaw ''first client message'' of Inl e \<Rightarrow> Inl e | Inr clientAt \<Rightarrow>
     (case parseOptionalDateTime zone agentRaw ''first agent message'' of Inl e \<Rightarrow> Inl e | Inr agentAt \<Rightarrow>
     (case (clientAt, agentAt) of
        (None, None) \<Rightarrow> Inr None
      | (Some c, Some a) \<Rightarrow>
          if a < c then Inl ''first agent message time cannot be before first client message time''
          else let diff = (a - c) div 60000000000 in
            if diff > 7 * 24 * 60 then Inl ''first response duration cannot exceed 7 days''
            else Inr (Some (c, a, diff))
      | _ \<Rightarrow> Inl ''both first client message time and first agent message time are required'')))"

definition parse_created_at :: "zone \<Rightarrow> string option \<Rightarrow> (int option) option" where
  \<comment> \<open>the createdAt block of createLead and updateLead: the day's midnight in the zone, \<open>None\<close> when
    the text is invalid\<close>
  "parse_created_at zone raw = (if raw = None \<or> trimmed raw = [] then Some None
     else let t = trimmed raw in
       map_option (\<lambda>c. Some (zone (wall (c\<lparr>cv_hour := 0, cv_min := 0, cv_sec := 0, cv_nsec := 0\<rparr>))))
         (first_some [complete (parse_date t), map_option fst (parse_rfc3339 t), complete (parse_minutes CHR ''T'' t)]))"

subsection \<open>The zone name in SQL texts\<close>

definition defaultBusinessTZ :: string where
  "defaultBusinessTZ = ''Asia/Kathmandu''"

definition tz_char :: "char \<Rightarrow> bool" where
  "tz_char c \<longleftrightarrow> is_ascii_letter c \<or> is_digit c \<or> c \<in> set ''/_+-''"

definition quoteTimeZoneName :: "string \<Rightarrow> string" where
  "quoteTimeZoneName tz0 = (let tz = trim tz0 in
     if tz = [] then defaultBusinessTZ
     else if \<not> list_all tz_char tz then defaultBusinessTZ else tz)"

definition businessTZName :: "string \<Rightarrow> string" where
  \<comment> \<open>given the name of the location in use\<close>
  "businessTZName loc = (let name = quoteTimeZoneName loc in
     if name = ''Local'' then defaultBusinessTZ else name)"

definition createdAtBusinessDateSQL :: "string \<Rightarrow> string" where
  "createdAtBusinessDateSQL loc = ''(l.\"createdAt\" AT TIME ZONE '' @ [CHR 0x27] @ businessTZName loc @ [CHR 0x27] @ '')::date''"

definition currentBusinessDateSQL :: "string \<Rightarrow> string" where
  "currentBusinessDateSQL loc = ''(CURRENT_TIMESTAMP AT TIME ZONE '' @ [CHR 0x27] @ businessTZName loc @ [CHR 0x27] @ '')::date''"

subsection \<open>First-response times\<close>


subsection \<open>The datetime picker\<close>

definition dchar :: "int \<Rightarrow> char" where
  "dchar k = char_of (48 + nat k)"

definition pad2 :: "int \<Rightarrow> string" where
  "pad2 n = [dchar (n div 10), dchar (n mod 10)]"

definition pad4 :: "int \<Rightarrow> string" where
  "pad4 n = [dchar (n div 1000), dchar (n div 100 mod 10), dchar (n div 10 mod 10), dchar (n mod 10)]"

definition picker_text :: "civil \<Rightarrow> string" where
  \<comment> \<open>\<open>Format("2006-01-02T15:04")\<close> of GetByID, for a year of four digits\<close>
  "picker_text c = pad4 (cv_year c) @ ''-'' @ pad2 (cv_month c) @ ''-'' @ pad2 (cv_day c) @ ''T'' @
     pad2 (cv_hour c) @ '':'' @ pad2 (cv_min c)"

lemma dchar_code: "0 \<le> k \<Longrightarrow> k < 10 \<Longrightarrow> char_code (dchar k) = 48 + nat k"
  by (simp add: dchar_def char_code_def of_char_of nat_less_iff)

lemma dchar_digit [simp]: "0 \<le> k \<Longrightarrow> k < 10 \<Longrightarrow> is_digit (dchar k)" "0 \<le> k \<Longrightarrow> k < 10 \<Longrightarrow> digit (dchar k) = k"
  using dchar_code [of k] by (auto simp: is_digit_def digit_def)

lemma digit_not_space: "is_digit c \<Longrightarrow> \<not> is_space c"
  by (auto simp: is_digit_def is_space_def char_code_def)

lemma two_pad2 [simp]: "0 \<le> n \<Longrightarrow> n < 100 \<Longrightarrow> two_digits (pad2 n @ s) = Some (n, s)"
  by (simp add: pad2_def pos_imp_zdiv_nonneg_iff)

lemma one_pad2 [simp]: "0 \<le> n \<Longrightarrow> n < 100 \<Longrightarrow> one_or_two (pad2 n @ s) = Some (n, s)"
  by (simp add: pad2_def pos_imp_zdiv_nonneg_iff)

lemma four_pad4 [simp]: "0 \<le> n \<Longrightarrow> n < 10000 \<Longrightarrow> four_digits (pad4 n @ s) = Some (n, s)"
proof -
  assume n: "0 \<le> n" "n < 10000"
  have d: "n div 100 = n div 10 div 10" "n div 1000 = n div 10 div 10 div 10"
    by (simp_all add: zdiv_zmult2_eq [symmetric])
  have "((n div 1000 * 10 + n div 100 mod 10) * 10 + n div 10 mod 10) * 10 + n mod 10 = n"
    by (simp only: d div_mult_mod_eq)
  then show ?thesis using n by (simp add: pad4_def pos_imp_zdiv_nonneg_iff)
qed

lemma pad_digits: "0 \<le> n \<Longrightarrow> n < 100 \<Longrightarrow> set (pad2 n) \<subseteq> Collect is_digit"
  "0 \<le> m \<Longrightarrow> m < 10000 \<Longrightarrow> set (pad4 m) \<subseteq> Collect is_digit"
  by (auto simp: pad2_def pad4_def pos_imp_zdiv_nonneg_iff)

definition shown :: "civil \<Rightarrow> bool" where
  \<comment> \<open>the fields of a wall-clock reading in the years 0 to 9999\<close>
  "shown c \<longleftrightarrow> valid_civil c \<and> 0 \<le> cv_year c \<and> cv_year c < 10000 \<and> 0 \<le> cv_hour c \<and> 0 \<le> cv_min c"

lemma shown_bounds:
  "shown c \<Longrightarrow> 0 \<le> cv_month c \<and> cv_month c < 100 \<and> 0 \<le> cv_day c \<and> cv_day c < 100 \<and>
     cv_hour c < 100 \<and> cv_min c < 100"
  by (auto simp: shown_def valid_civil_def days_in_def split: if_splits)

lemma picker_trim:
  assumes "shown c"
  shows "trim (picker_text c) = picker_text c \<and> picker_text c \<noteq> []"
proof -
  note b = shown_bounds [OF assms] assms [unfolded shown_def]
  have "\<forall>x \<in> set (picker_text c). is_digit x \<or> x \<in> {CHR ''-'', CHR ''T'', CHR '':''}"
    using pad_digits(1) [of "cv_month c"] pad_digits(1) [of "cv_day c"] pad_digits(1) [of "cv_hour c"]
      pad_digits(1) [of "cv_min c"] pad_digits(2) [of "cv_year c"] b
    by (auto simp: picker_text_def)
  then have "\<forall>x \<in> set (picker_text c). \<not> is_space x"
    using digit_not_space by (auto simp: is_space_def)
  then show ?thesis by (simp add: trim_no_space) (simp add: picker_text_def pad4_def)
qed

lemma picker_parses:
  assumes "shown c"
  shows "parse_minutes CHR ''T'' (picker_text c) = Some (c\<lparr>cv_sec := 0, cv_nsec := 0\<rparr>, [])"
proof -
  have e: "c\<lparr>cv_sec := 0, cv_nsec := 0\<rparr> = \<lparr>cv_year = cv_year c, cv_month = cv_month c, cv_day = cv_day c,
      cv_hour = cv_hour c, cv_min = cv_min c, cv_sec = 0, cv_nsec = 0\<rparr>" by (cases c) simp
  have m: "two_digits (pad2 (cv_min c)) = Some (cv_min c, [])"
    using two_pad2 [of "cv_min c" "[]"] assms by (simp add: shown_def valid_civil_def)
  show ?thesis
    using shown_bounds [OF assms] assms m
    by (simp add: e picker_text_def parse_minutes_def parse_date_def then_lit_def shown_def)
qed



subsection \<open>The zone in SQL texts\<close>

lemma business_name_chars: "list_all tz_char (businessTZName loc)"
proof -
  have "list_all tz_char defaultBusinessTZ" by code_simp
  then show ?thesis by (simp add: businessTZName_def quoteTimeZoneName_def Let_def)
qed

lemma count_no: "x \<notin> set xs \<Longrightarrow> count_list xs x = 0"
  by (induction xs) auto

text \<open>Whatever zone is configured, the SQL fragments that splice its name in hold it as one
  complete string literal: the quotes around it are the only ones.\<close>

theorem zone_name_stays_quoted:
  "CHR 0x27 \<notin> set (businessTZName loc) \<and>
   count_list (createdAtBusinessDateSQL loc) (CHR 0x27) = 2 \<and> count_list (currentBusinessDateSQL loc) (CHR 0x27) = 2"
proof -
  have q: "\<not> tz_char (CHR 0x27)" by code_simp
  then have "CHR 0x27 \<notin> set (businessTZName loc)"
    using business_name_chars [of loc] by (auto simp: list_all_iff)
  then show ?thesis by (simp add: createdAtBusinessDateSQL_def currentBusinessDateSQL_def count_no)
qed

end
