(* ===== verification/LeadHandlers.thy ===== *)
theory LeadHandlers
  imports AuthHandlers Json Times
begin

section \<open>Lead routes (handlers_leads_http.go) and notification routes\<close>

text \<open>
  The handlers under \<open>/api/leads\<close> that create, change, assign and delete leads, each after
  \<open>requireAuth\<close>, so with the actor at hand. A body is the JSON value it holds, \<open>None\<close> when it
  cannot be read or parsed. The business zone is a parameter, as in Times. Listing is in the theory
  of the lead list.
\<close>

subsection \<open>Small pieces\<close>

definition normalizeFirstResponseProofPath :: "string option \<Rightarrow> string + string option" where
  "normalizeFirstResponseProofPath raw = (case raw of None \<Rightarrow> Inr None | Some r \<Rightarrow>
     let t = trim r in
     if t = [] then Inr (Some [])
     else let name = proofStoredNameFromPath t in
       if name = [] \<or> list_ex (\<lambda>c. c = CHR ''/'' \<or> c = CHR 0x5C) name then Inl ''invalid first response proof path''
       else if has_prefix t ''/api/uploads/first-response/'' \<or> t = name then Inr (Some (proofPublicPath name))
       else Inl ''invalid first response proof path'')"

definition optionalTrimmed :: "string option \<Rightarrow> string option" where
  "optionalTrimmed v = (case v of None \<Rightarrow> None | Some s \<Rightarrow> if trim s = [] then None else Some (trim s))"

definition teamLabelFromMatch :: "contact_match option \<Rightarrow> string" where
  "teamLabelFromMatch m = (case m of None \<Rightarrow> ''Unassigned''
     | Some x \<Rightarrow> if cm_team x \<noteq> None \<and> trimmed (cm_team x) \<noteq> [] then trimmed (cm_team x) else ''Unassigned'')"

definition actor_label :: "auth_user \<Rightarrow> string" where
  \<comment> \<open>the \<open>actorName\<close> of the notifications\<close>
  "actor_label actor = (if trim (a_name actor) \<noteq> [] then a_name actor else ''Someone'')"

definition contains_any :: "string \<Rightarrow> string list \<Rightarrow> bool" where
  "contains_any msg ps = list_ex (contains msg) ps"

definition dotted :: "string list \<Rightarrow> string" where
  \<comment> \<open>the parts of a notification body\<close>
  "dotted parts = join ('' '' @ mid_dot @ '' '') parts"

subsection \<open>Contact lookup\<close>

definition handleLeadContactLookup :: "request \<Rightarrow> auth_user \<Rightarrow> response act" where
  "handleLeadContactLookup r actor =
     (if rq_method r \<noteq> ''GET'' then reply method_not_allowed
      else if \<not> canCreateLeads (a_role actor) \<and> \<not> canEditLeadProfile (a_role actor)
        then reply (failure 403 ''you do not have permission to look up leads'')
      else andThen (store (FindPhonePresence (trim (qget (rq_query r) ''phone'')) (trim (qget (rq_query r) ''excludeId'')))) (\<lambda>x.
        case x of Inl e \<Rightarrow> reply (failure 500 ''failed to look up contact'')
        | Inr None \<Rightarrow> reply (json 200 (PPresence None))
        | Inr (Some p) \<Rightarrow>
          let label = (if pp_team p \<noteq> None \<and> trimmed (pp_team p) \<noteq> [] then trimmed (pp_team p) else ''Unassigned'')
          in reply (json 200 (PPresence (Some (pp_id p, pp_name p, label, pp_portals p, pp_sources p))))))"

subsection \<open>Lead bodies\<close>

record create_lead_request =
  clr_name :: string
  clr_email :: "string option"
  clr_phone :: "string option"
  clr_country :: "string option"
  clr_city :: "string option"
  clr_portal :: "string option"
  clr_source :: string
  clr_metaProfile :: "string option"
  clr_language :: "string option"
  clr_profile :: "string option"
  clr_qual :: string
  clr_score :: "int option"
  clr_createdAt :: "string option"
  clr_notes :: "string option"
  clr_clientAt :: "string option"
  clr_agentAt :: "string option"
  clr_proof :: "string option"

definition create_lead_fields :: "(string \<times> kind) list" where
  "create_lead_fields = [(''fullName'', KStr), (''email'', KStr), (''phone'', KStr), (''country'', KStr),
     (''city'', KStr), (''portalWebsite'', KStr), (''source'', KStr), (''facebookProfile'', KStr),
     (''language'', KStr), (''clientProfile'', KStr), (''qualificationStatus'', KStr), (''leadScore'', KInt),
     (''createdAt'', KStr), (''notes'', KStr), (''firstClientMessageAt'', KStr), (''firstAgentMessageAt'', KStr),
     (''firstResponseProofPath'', KStr)]"

definition decode_create_lead :: "json option \<Rightarrow> create_lead_request option" where
  "decode_create_lead body = (case body of None \<Rightarrow> None | Some j \<Rightarrow>
     map_option (\<lambda>as. \<lparr>clr_name = plain to_str [] ''fullName'' as, clr_email = pointer to_str ''email'' as,
       clr_phone = pointer to_str ''phone'' as, clr_country = pointer to_str ''country'' as,
       clr_city = pointer to_str ''city'' as, clr_portal = pointer to_str ''portalWebsite'' as,
       clr_source = plain to_str [] ''source'' as, clr_metaProfile = pointer to_str ''facebookProfile'' as,
       clr_language = pointer to_str ''language'' as, clr_profile = pointer to_str ''clientProfile'' as,
       clr_qual = plain to_str [] ''qualificationStatus'' as, clr_score = pointer to_int ''leadScore'' as,
       clr_createdAt = pointer to_str ''createdAt'' as, clr_notes = pointer to_str ''notes'' as,
       clr_clientAt = pointer to_str ''firstClientMessageAt'' as,
       clr_agentAt = pointer to_str ''firstAgentMessageAt'' as,
       clr_proof = pointer to_str ''firstResponseProofPath'' as\<rparr>) (decode create_lead_fields j))"

definition to_ms :: "int \<Rightarrow> int" where
  \<comment> \<open>instants are stored in milliseconds here\<close>
  "to_ms ns = ns div 1000000"

definition lead_input :: "zone \<Rightarrow> create_lead_request \<Rightarrow> string \<Rightarrow> response + create_lead_input" where
  \<comment> \<open>the checks createLead and updateLead share, and the input they hand to the store\<close>
  "lead_input zone req actorID =
     (let (name, v1) = optionalBoundedString ''fullName'' (clr_name req) 200 [];
          (source, v2) = requireString ''source'' (clr_source req) 2 80 v1;
          (qual, v3) = requireString ''qualificationStatus'' (clr_qual req) 2 40 v2;
          (email, v4) = optionalEmail ''email'' (deref (clr_email req)) v3;
          (phone, v) = optionalPhone ''phone'' (deref (clr_phone req)) v4 in
      if HasErrors v then Inl (invalid v)
      else case parse_created_at zone (clr_createdAt req) of None \<Rightarrow> Inl (failure 400 ''invalid createdAt date'')
      | Some createdAt \<Rightarrow>
      (case resolveFirstResponseTimes zone (clr_clientAt req) (clr_agentAt req) of Inl e \<Rightarrow> Inl (failure 400 e)
      | Inr tms \<Rightarrow>
      (case normalizeFirstResponseProofPath (clr_proof req) of Inl e \<Rightarrow> Inl (failure 400 e)
      | Inr proof \<Rightarrow> Inr \<lparr>cl_name = name, cl_email = email, cl_phone = phone,
          cl_country = optionalTrimmed (clr_country req), cl_city = optionalTrimmed (clr_city req),
          cl_portal = optionalTrimmed (clr_portal req), cl_source = source,
          cl_metaProfile = optionalTrimmed (clr_metaProfile req), cl_language = optionalTrimmed (clr_language req),
          cl_profile = optionalTrimmed (clr_profile req), cl_qual = qual, cl_score = clr_score req,
          cl_createdAt = map_option to_ms createdAt, cl_notes = optionalTrimmed (clr_notes req),
          cl_clientAt = map_option (to_ms \<circ> fst) tms, cl_agentAt = map_option (to_ms \<circ> fst \<circ> snd) tms,
          cl_respMinutes = map_option (snd \<circ> snd) tms, cl_proof = proof, cl_createdBy = actorID\<rparr>)))"

subsection \<open>Creating\<close>

definition create_lead_bad_request :: "string \<Rightarrow> bool" where
  "create_lead_bad_request msg = contains_any msg
     [''invalid source'', ''invalid qualification'', ''lead score'', ''first '', ''full name'']"

definition createLead :: "zone \<Rightarrow> auth_user \<Rightarrow> json option \<Rightarrow> response act" where
  "createLead zone actor body =
     (if \<not> canCreateLeads (a_role actor) then reply (failure 403 ''you do not have permission to create leads'')
      else case decode_create_lead body of None \<Rightarrow> reply (failure 400 ''invalid JSON body'')
      | Some req \<Rightarrow> (case lead_input zone req (a_id actor) of Inl r \<Rightarrow> reply r
      | Inr inp \<Rightarrow> andThen (store (CreateLead inp)) (\<lambda>x. case x of
          Inl e \<Rightarrow> if create_lead_bad_request (err_text e) then reply (failure 400 (err_text e))
                  else reply (failure 500 ''failed to create lead'')
        | Inr i \<Rightarrow> andThen0 (notify (a_id actor) NotifLeadAdded ''Lead added''
              (dotted [actor_label actor, cl_name inp]) (Some i) [])
            (andThen0 (emitLead EvtLeadCreated i (a_id actor)) (reply (json 201 (PNewLead i)))))))"

subsection \<open>Changing\<close>

definition detail_name :: "string \<Rightarrow> lead_detail \<Rightarrow> string" where
  "detail_name i d = (if trim (l_name (ld_lead d)) = [] then i else l_name (ld_lead d))"

definition outcome_fields :: "(string \<times> kind) list" where
  "outcome_fields = [(''salesStage'', KStr), (''initialPayment'', KFloat), (''closedRevenue'', KFloat),
     (''executiveNotes'', KStr)]"

definition outcome_input_of :: "string list \<Rightarrow> (string \<times> json) list \<Rightarrow> response + outcome_input" where
  \<comment> \<open>the keys present, and the decoded request\<close>
  "outcome_input_of keys as =
     (let hasStage = ''salesStage'' \<in> set keys; stage = pointer to_str ''salesStage'' as in
      if hasStage \<and> trimmed stage = [] then Inl (failure 400 ''salesStage is required'')
      else Inr \<lparr>so_stage = (if hasStage then trimmed stage else []),
        so_payment = (if ''initialPayment'' \<in> set keys then pointer to_num ''initialPayment'' as else None),
        so_revenue = (if ''closedRevenue'' \<in> set keys then pointer to_num ''closedRevenue'' as else None),
        so_notes = (if ''executiveNotes'' \<in> set keys then Some (trimmed (pointer to_str ''executiveNotes'' as)) else None),
        so_hasStage = hasStage, so_hasPayment = ''initialPayment'' \<in> set keys,
        so_hasRevenue = ''closedRevenue'' \<in> set keys, so_hasNotes = ''executiveNotes'' \<in> set keys\<rparr>)"

definition outcome_error :: "string \<Rightarrow> response" where
  "outcome_error msg =
     (if contains_any msg [''invalid sales outcome'', ''closed revenue is required'', ''cannot be negative'']
        then failure 400 msg
      else if contains msg ''not found'' then failure 404 ''lead not found''
      else failure 500 ''failed to update sales outcome'')"

definition lead_changed :: "auth_user \<Rightarrow> string \<Rightarrow> string \<Rightarrow> string \<Rightarrow> response \<Rightarrow> response act" where
  \<comment> \<open>notify the staff, tell the clients and answer\<close>
  "lead_changed actor i title text_body resp =
     andThen0 (notify (a_id actor) NotifLeadUpdated title text_body (Some i) [])
     (andThen0 (emitLead EvtLeadUpdated i (a_id actor)) (reply resp))"

definition patchLeadSalesOutcome :: "string \<Rightarrow> auth_user \<Rightarrow> json \<Rightarrow> response act" where
  "patchLeadSalesOutcome i actor j =
     (if \<not> canUpdateSalesOutcome (a_role actor)
      then reply (failure 403 ''you do not have permission to update sales outcome'')
      else case (peek j, decode outcome_fields j) of
        (Some keys, Some as) \<Rightarrow> (case outcome_input_of keys as of Inl r \<Rightarrow> reply r
        | Inr inp \<Rightarrow> andThen (store (UpdateSalesOutcome i inp)) (\<lambda>x. case x of
            Inl e \<Rightarrow> reply (outcome_error (err_text e))
          | Inr d \<Rightarrow> lead_changed actor i ''Sales outcome updated''
              (dotted [actor_label actor, detail_name i d, ld_stageLabel d]) (json 200 (PLead d))))
      | _ \<Rightarrow> reply (failure 400 ''invalid JSON body''))"

definition not_appropriate_fields :: "(string \<times> kind) list" where
  "not_appropriate_fields = [(''notAppropriate'', KBool), (''notAppropriateReason'', KStr)]"

definition not_appropriate_error :: "string \<Rightarrow> response" where
  "not_appropriate_error msg =
     (if contains_any msg [''reason is required'', ''reason must be''] then failure 400 msg
      else if contains msg ''already marked'' then failure 409 msg
      else if contains msg ''not found'' then failure 404 ''lead not found''
      else failure 500 ''failed to mark lead as not appropriate'')"

definition patchLeadNotAppropriate :: "string \<Rightarrow> auth_user \<Rightarrow> json \<Rightarrow> response act" where
  "patchLeadNotAppropriate i actor j =
     (if \<not> canMarkNotAppropriate (a_role actor)
      then reply (failure 403 ''only sales executives can mark leads as not appropriate'')
      else case decode not_appropriate_fields j of None \<Rightarrow> reply (failure 400 ''invalid JSON body'')
      | Some as \<Rightarrow>
        if pointer to_bool ''notAppropriate'' as = Some False
          then reply (failure 400 ''clearing not-appropriate flag is not supported'')
        else let reason = trimmed (pointer to_str ''notAppropriateReason'' as) in
        if reason = [] then reply (failure 400 ''notAppropriateReason is required'')
        else andThen (store (MarkNotAppropriate i reason (a_id actor))) (\<lambda>x. case x of
          Inl e \<Rightarrow> reply (not_appropriate_error (err_text e))
        | Inr d \<Rightarrow> lead_changed actor i ''Lead marked not appropriate''
            (dotted [actor_label actor, detail_name i d, ''Irrelevant'']) (json 200 (PLead d))))"

definition patchLeadQualification :: "string \<Rightarrow> auth_user \<Rightarrow> json \<Rightarrow> response act" where
  "patchLeadQualification i actor j =
     (if \<not> canChangeQualification (a_role actor)
      then reply (failure 403 ''you do not have permission to change qualification status'')
      else case decode [(''qualificationStatus'', KStr)] j of None \<Rightarrow> reply (failure 400 ''invalid JSON body'')
      | Some as \<Rightarrow> let status = trim (plain to_str [] ''qualificationStatus'' as) in
        if status = [] then reply (failure 400 ''qualificationStatus is required'')
        else andThen (store (UpdateQualificationStatus i status (a_id actor))) (\<lambda>x. case x of
          Inl e \<Rightarrow> let msg = err_text e in
            if contains msg ''invalid qualification'' then reply (failure 400 msg)
            else if contains msg ''not found'' then reply (failure 404 ''lead not found'')
            else reply (failure 500 ''failed to update qualification'')
        | Inr updated \<Rightarrow> andThen (store (GetByID i)) (\<lambda>y.
            let name = (case y of Inl e \<Rightarrow> i | Inr d \<Rightarrow> detail_name i d) in
            lead_changed actor i ''Lead edited'' (dotted [actor_label actor, name, qualificationDisplay updated])
              (json 200 (PQual i updated (qualificationDisplay updated))))))"

definition update_lead_error :: "string \<Rightarrow> response" where
  "update_lead_error msg =
     (if contains msg ''not found'' then failure 404 ''lead not found''
      else if create_lead_bad_request msg then failure 400 msg
      else failure 500 ''failed to update lead'')"

definition updateLead :: "zone \<Rightarrow> string \<Rightarrow> auth_user \<Rightarrow> json \<Rightarrow> response act" where
  "updateLead zone i actor j = (case decode_create_lead (Some j) of None \<Rightarrow> reply (failure 400 ''invalid JSON body'')
   | Some req0 \<Rightarrow>
     andThen (if canChangeQualification (a_role actor) then pass req0
              else andThen (store (GetByID i)) (\<lambda>x. case x of
                Inl e \<Rightarrow> reply (failure 404 ''lead not found'')
              | Inr d \<Rightarrow> pass (req0\<lparr>clr_qual := l_qual (ld_lead d)\<rparr>))) (\<lambda>req.
     case lead_input zone req (a_id actor) of Inl r \<Rightarrow> reply r
     | Inr inp \<Rightarrow> andThen (store (UpdateLead i inp)) (\<lambda>x. case x of
         Inl e \<Rightarrow> reply (update_lead_error (err_text e))
       | Inr _ \<Rightarrow> lead_changed actor i ''Lead edited'' (dotted [actor_label actor, cl_name inp])
           (json 200 (PLeadUpdated i)))))"

definition isQualificationOnlyPatch :: "string list \<Rightarrow> bool" where
  "isQualificationOnlyPatch keys \<longleftrightarrow> ''qualificationStatus'' \<in> set keys \<and>
     list_all (\<lambda>k. k = ''qualificationStatus'') keys"

datatype patch_route = NotAppropriatePatch | OutcomePatch | QualificationPatch | FullPatch

definition patch_route_of :: "string list \<Rightarrow> patch_route" where
  "patch_route_of keys =
     (let has = (\<lambda>k. k \<in> set keys); full = has ''fullName'' \<or> has ''qualificationStatus'' in
      if (has ''notAppropriate'' \<or> has ''notAppropriateReason'') \<and> \<not> full then NotAppropriatePatch
      else if (has ''salesStage'' \<or> has ''initialPayment'' \<or> has ''closedRevenue'' \<or> has ''executiveNotes'') \<and> \<not> full
        then OutcomePatch
      else if isQualificationOnlyPatch keys then QualificationPatch else FullPatch)"

definition patchLead :: "zone \<Rightarrow> string \<Rightarrow> auth_user \<Rightarrow> json option \<Rightarrow> response act" where
  \<comment> \<open>the PATCH branch of handleLeadByID\<close>
  "patchLead zone i actor body = (case body of None \<Rightarrow> reply (failure 400 ''invalid JSON body'')
   | Some j \<Rightarrow> (case peek j of None \<Rightarrow> reply (failure 400 ''invalid JSON body'')
   | Some keys \<Rightarrow> (case patch_route_of keys of
       NotAppropriatePatch \<Rightarrow> patchLeadNotAppropriate i actor j
     | OutcomePatch \<Rightarrow> patchLeadSalesOutcome i actor j
     | QualificationPatch \<Rightarrow> patchLeadQualification i actor j
     | FullPatch \<Rightarrow> if \<not> canEditLeadProfile (a_role actor)
         then reply (failure 403 ''you do not have permission to edit lead details'')
         else updateLead zone i actor j)))"

definition getLead :: "string \<Rightarrow> response act" where
  \<comment> \<open>the GET branch\<close>
  "getLead i = andThen (store (GetByID i)) (\<lambda>x. case x of
     Inl e \<Rightarrow> if contains (to_lower (err_text e)) ''no rows'' then reply (failure 404 ''lead not found'')
             else reply (failure 500 ''failed to load lead'')
   | Inr d \<Rightarrow> reply (json 200 (PLead d)))"

definition reserved_lead_paths :: "string list" where
  "reserved_lead_paths = [''assign'', ''summary'', ''geography'', ''geo-options'', ''contact-lookup'', ''pipeline'',
     ''added-series'', ''export'']"

definition trim_path :: "string \<Rightarrow> string" where
  \<comment> \<open>\<open>strings.Trim(id, "/")\<close>\<close>
  "trim_path s = rev (dropWhile (\<lambda>c. c = CHR ''/'') (rev (dropWhile (\<lambda>c. c = CHR ''/'') s)))"

definition handleLeadByID :: "zone \<Rightarrow> request \<Rightarrow> string \<Rightarrow> auth_user \<Rightarrow> json option \<Rightarrow> response act" where
  \<comment> \<open>given the path after \<open>/api/leads/\<close>\<close>
  "handleLeadByID zone r path actor body =
     (let i = trim_path path in
      if i = [] \<or> CHR ''/'' \<in> set i then reply (failure 404 ''not found'')
      else if i \<in> set reserved_lead_paths then reply (failure 404 ''not found'')
      else andThen0 (requireLeadAccess (Some actor) i)
        (if rq_method r = ''GET'' then getLead i
         else if rq_method r = ''PATCH'' then patchLead zone i actor body
         else reply method_not_allowed))"

subsection \<open>Deleting\<close>

definition decode_strings :: "(string \<times> kind) list \<Rightarrow> json option \<Rightarrow> (string \<times> json) list option" where
  \<comment> \<open>\<open>decodeJSON\<close> into a request struct\<close>
  "decode_strings fs body = (case body of None \<Rightarrow> None | Some j \<Rightarrow> decode fs j)"

fun emit_deleted :: "string \<Rightarrow> string list \<Rightarrow> unit act" where
  "emit_deleted actorID [] = pass ()"
| "emit_deleted actorID (i # rest) =
     andThen0 (emitLead EvtLeadDeleted (trim i) actorID) (emit_deleted actorID rest)"

definition delete_notice :: "auth_user \<Rightarrow> (string \<times> string) list \<Rightarrow> nat \<Rightarrow> unit act" where
  "delete_notice actor briefs n = (case briefs of
     [(i, name)] \<Rightarrow> notify (a_id actor) NotifLeadDeleted ''Lead deleted'' (dotted [actor_label actor, name]) None []
   | _ \<Rightarrow> notify (a_id actor) NotifLeadDeleted ''Leads deleted''
       (dotted [actor_label actor, format_int (int n) @ '' leads'']) None [])"

definition deleteLeads :: "auth_user \<Rightarrow> json option \<Rightarrow> response act" where
  "deleteLeads actor body =
     (if \<not> canDeleteLeads (a_role actor) then reply (failure 403 ''you do not have permission to delete leads'')
      else case decode_strings [(''leadIds'', KStrs)] body of None \<Rightarrow> reply (failure 400 ''invalid JSON body'')
      | Some as \<Rightarrow> let ids = string_list ''leadIds'' as in
        if length ids > 100 then reply (failure 400 ''too many leads selected (max 100)'')
        else let (atlID, atlTeam) = actorAnalystTeamScope (Some actor) in
        andThen (store (LeadNameBriefs ids)) (\<lambda>b. let briefs = (case b of Inl e \<Rightarrow> [] | Inr m \<Rightarrow> m) in
        andThen (store (DeleteLeads ids (leadDataOwnerID (a_role actor) (a_id actor))
            (leadTeamScopeID (a_role actor) (a_team actor)) (leadSalesExecScopeID (a_role actor) (a_id actor))
            atlID atlTeam)) (\<lambda>x. case x of
          Inl e \<Rightarrow> if contains (err_text e) ''no leads'' then reply (failure 400 (err_text e))
                  else reply (failure 500 ''failed to delete leads'')
        | Inr n \<Rightarrow> andThen0 (if n > 0 then andThen0 (delete_notice actor briefs n) (emit_deleted (a_id actor) ids)
                            else pass ())
            (reply (json 200 (PDeleted n))))))"

subsection \<open>Assigning\<close>

definition handleAssignableUsers :: "request \<Rightarrow> auth_user \<Rightarrow> response act" where
  "handleAssignableUsers r actor =
     (if rq_method r \<noteq> ''GET'' then reply method_not_allowed
      else if \<not> canMutateLeads (a_role actor) \<or> isSalesExecutive (a_role actor)
        then reply (failure 403 ''you do not have permission to list assignable users'')
      else let k = trim (qget (rq_query r) ''type'');
               kind = (if k \<noteq> [] then k else if canAssignToTeamLeads (a_role actor) then ''team-leads'' else ''members'') in
      if kind = ''team-leads'' \<and> \<not> canAssignToTeamLeads (a_role actor)
        then reply (failure 403 ''team leads can only assign to members on their team'')
      else let teamScope = actorLeadTeamID (Some actor) in
      if teamScope = [] \<and> isMainTeamLead (a_role actor)
        then reply (failure 400 ''your account is not linked to a team'')
      else andThen (store (ListAssignableUsers kind teamScope)) (\<lambda>x. case x of
        Inl e \<Rightarrow> if contains (err_text e) ''invalid kind'' then reply (failure 400 ''type must be team-leads or members'')
                else reply (failure 500 ''failed to list assignable users'')
      | Inr us \<Rightarrow> reply (json 200 (PAssignable us kind))))"

definition assign_error :: "string \<Rightarrow> response" where
  "assign_error msg =
     (if contains_any msg [''no leads'', ''assignee'', ''invalid assign'', ''not a team'', ''only qualified'',
          ''not found'', ''not on your team'', ''not linked to a team'']
      then failure 400 msg else failure 500 ''failed to assign leads'')"

definition named_in :: "assignable_user list \<Rightarrow> string \<Rightarrow> string option" where
  "named_in us i = map_option au_name (find (\<lambda>u. au_id u = i) us)"

definition assignee_label :: "string \<Rightarrow> string \<Rightarrow> string act" where
  \<comment> \<open>the assignee's name: looked up among the team leads, then the members; a failed listing is ignored\<close>
  "assignee_label i teamScope =
     andThen (store (ListAssignableUsers ''team-leads'' teamScope)) (\<lambda>x.
     let n1 = (case x of Inl e \<Rightarrow> i | Inr us \<Rightarrow> (case named_in us i of None \<Rightarrow> i | Some n \<Rightarrow> n)) in
     if n1 = i then andThen (store (ListAssignableUsers ''members'' teamScope)) (\<lambda>y.
       pass (case y of Inl e \<Rightarrow> i | Inr us \<Rightarrow> (case named_in us i of None \<Rightarrow> i | Some n \<Rightarrow> n)))
     else pass n1)"

fun announce :: "auth_user \<Rightarrow> string \<Rightarrow> string \<Rightarrow> string \<Rightarrow> (string \<times> string) list \<Rightarrow> assign_result list \<Rightarrow> unit act" where
  \<comment> \<open>one notification and one event per assignment\<close>
  "announce actor kind assignee label briefs [] = pass ()"
| "announce actor kind assignee label briefs (x # xs) =
     (let name0 = (case map_of briefs (asr_lead x) of None \<Rightarrow> [] | Some n \<Rightarrow> n);
          name = (if name0 = [] then ''Lead'' else name0);
          target = (if kind = ''team-lead'' then asr_team x else label) in
      andThen0 (notify (a_id actor)
          (if kind = ''team-lead'' then NotifLeadTransfer else NotifLeadAssigned)
          (if kind = ''team-lead'' then ''Lead transferred'' else ''Lead assigned'')
          (dotted [actor_label actor, name @ '' '' @ arrow @ '' '' @ target]) (Some (asr_lead x)) [assignee])
      (andThen0 (emitLead EvtLeadUpdated (asr_lead x) (a_id actor))
      (announce actor kind assignee label briefs xs)))"

definition assign_fields :: "(string \<times> kind) list" where
  "assign_fields = [(''leadIds'', KStrs), (''assigneeId'', KStr), (''kind'', KStr)]"

definition assign_input_of :: "auth_user \<Rightarrow> (string \<times> json) list \<Rightarrow> assign_input" where
  "assign_input_of actor as = (case actorAnalystTeamScope (Some actor) of (atlID, atlTeam) \<Rightarrow>
     \<lparr>as_leads = string_list ''leadIds'' as, as_assignee = trim (plain to_str [] ''assigneeId'' as),
       as_kind = trim (plain to_str [] ''kind'' as), as_actor = a_id actor,
       as_createdBy = leadDataOwnerID (a_role actor) (a_id actor),
       as_team = leadTeamScopeID (a_role actor) (a_team actor),
       as_se = leadSalesExecScopeID (a_role actor) (a_id actor), as_atl = atlID, as_atlTeam = atlTeam\<rparr>)"

definition handleAssignLeads :: "request \<Rightarrow> auth_user \<Rightarrow> json option \<Rightarrow> response act" where
  "handleAssignLeads r actor body =
     (if rq_method r \<noteq> ''POST'' then reply method_not_allowed
      else if \<not> canMutateLeads (a_role actor) then reply (failure 403 ''you do not have permission to assign leads'')
      else if isSalesExecutive (a_role actor) then reply (failure 403 ''sales executives cannot reassign leads'')
      else case decode_strings assign_fields body of None \<Rightarrow> reply (failure 400 ''invalid JSON body'')
      | Some as \<Rightarrow> let inp = assign_input_of actor as; kind = as_kind inp in
        if length (as_leads inp) > 100 then reply (failure 400 ''too many leads selected (max 100)'')
        else if kind = ''team-lead'' \<and> \<not> canAssignToTeamLeads (a_role actor)
          then reply (failure 403 ''team leads can only assign to members on their team'')
        else if as_team inp = [] \<and> isMainTeamLead (a_role actor)
          then reply (failure 400 ''your account is not linked to a team'')
        else andThen (store (AssignLeads inp)) (\<lambda>x. case x of
          Inl e \<Rightarrow> reply (assign_error (err_text e))
        | Inr res \<Rightarrow>
          andThen (assignee_label (as_assignee inp) (as_team inp)) (\<lambda>label.
          andThen (store (LeadNameBriefs (as_leads inp))) (\<lambda>b.
          andThen0 (announce actor kind (as_assignee inp) label (case b of Inl e \<Rightarrow> [] | Inr m \<Rightarrow> m) res)
          (reply (json 200 (PAssigned res)))))))"

subsection \<open>Notification routes (notifications.go)\<close>

definition query_limit :: "request \<Rightarrow> int \<Rightarrow> int" where
  \<comment> \<open>the parameter \<open>limit\<close> when it is a number, else the default\<close>
  "query_limit r dflt = (let raw = trim (qget (rq_query r) ''limit'') in
     if raw = [] then dflt else case atoi raw of None \<Rightarrow> dflt | Some n \<Rightarrow> n)"

definition handleNotifications :: "request \<Rightarrow> auth_user \<Rightarrow> response act" where
  "handleNotifications r actor =
     (if rq_method r = ''GET'' then andThen (store (ListForUser (a_id actor) (query_limit r 40))) (\<lambda>x. case x of
        Inl e \<Rightarrow> reply (failure 500 ''failed to load notifications'')
      | Inr (items, unread) \<Rightarrow> reply (json 200 (PNotifications items unread)))
      else reply method_not_allowed)"

definition handleNotificationsRead :: "request \<Rightarrow> auth_user \<Rightarrow> json option \<Rightarrow> response act" where
  "handleNotificationsRead r actor body =
     (if rq_method r \<noteq> ''POST'' then reply method_not_allowed
      else case decode_strings [(''ids'', KStrs), (''all'', KBool)] body of None \<Rightarrow> reply (failure 400 ''invalid JSON body'')
      | Some as \<Rightarrow> andThen (store (MarkRead (a_id actor) (string_list ''ids'' as) (plain to_bool False ''all'' as))) (\<lambda>x.
          case x of Inl e \<Rightarrow> reply (failure 500 ''failed to update notifications'')
          | Inr n \<Rightarrow> reply (json 200 (PMarked n))))"

end
