(* ===== verification/LeadGuard.thy ===== *)
theory LeadGuard
  imports LeadHandlers AdminSafety
begin

section \<open>Who may change what of a lead\<close>

text \<open>
  The effect of a request on one lead, against the permissions of the actor's role and the scope of
  the leads the actor may see. The invariant relates the tables while the handler runs to those it
  started from.
\<close>

subsection \<open>The parts of a lead\<close>

definition profile_part where
  \<comment> \<open>what the edit form owns\<close>
  "profile_part l = (l_name l, l_phone l, l_email l, l_country l, l_city l, l_source l, l_metaProfile l,
     l_notes l, l_score l, l_portal l, l_language l, l_profile l, l_createdAt l,
     l_clientAt l, l_agentAt l, l_respMinutes l, l_proof l)"

definition outcome_part where
  "outcome_part l = (l_stage l, l_payment l, l_revenue l, l_deal l, l_currency l, l_lostNotes l, l_closedAt l)"

definition flag_part where
  "flag_part l = (l_notAppr l, l_notApprReason l, l_notApprAt l, l_notApprBy l)"

definition owner_part where
  "owner_part l = (l_createdBy l, l_team l, l_mtl l, l_se l, l_execAt l, l_deadline l, l_reassigns l)"

lemmas part_defs = profile_part_def outcome_part_def flag_part_def owner_part_def

definition may_become :: "string \<Rightarrow> string set \<Rightarrow> lead \<Rightarrow> lead \<Rightarrow> bool" where
  \<comment> \<open>what a request of this role on the leads \<open>ids\<close> may turn a lead into\<close>
  "may_become role ids l0 l \<longleftrightarrow> l_id l = l_id l0 \<and> (l_id l0 \<notin> ids \<longrightarrow> l = l0) \<and>
     owner_part l = owner_part l0 \<and>
     (outcome_part l \<noteq> outcome_part l0 \<longrightarrow> canUpdateSalesOutcome role) \<and>
     (flag_part l \<noteq> flag_part l0 \<longrightarrow> canMarkNotAppropriate role) \<and>
     (profile_part l \<noteq> profile_part l0 \<longrightarrow> canEditLeadProfile role) \<and>
     (l_qual l \<noteq> l_qual l0 \<longrightarrow> canChangeQualification role \<or> (canMarkNotAppropriate role \<and> l_qual l = ''IRRELEVANT''))"

lemma may_become_refl: "may_become role ids l l"
  by (simp add: may_become_def)

definition patched :: "string \<Rightarrow> string set \<Rightarrow> db \<Rightarrow> db \<Rightarrow> bool" where
  "patched role ids d0 d \<longleftrightarrow> users d = users d0 \<and> teams d = teams d0 \<and>
     list_all2 (may_become role ids) (leads d0) (leads d)"

lemma patched_refl: "patched role ids d d"
  by (simp add: patched_def list.rel_refl_strong may_become_refl)

lemma patched_same:
  "users d' = users d \<Longrightarrow> teams d' = teams d \<Longrightarrow> leads d' = leads d \<Longrightarrow> patched role ids d0 d \<Longrightarrow> patched role ids d0 d'"
  by (simp add: patched_def)

lemma patched_upd:
  assumes "\<And>l0 l. may_become role ids l0 l \<Longrightarrow> P l \<Longrightarrow> may_become role ids l0 (f l)" "patched role ids d0 d"
  shows "patched role ids d0 (upd_leads P f d)"
proof -
  have "list_all2 R xs ys \<Longrightarrow> (\<And>x y. R x y \<Longrightarrow> P y \<Longrightarrow> R x (f y)) \<Longrightarrow> list_all2 R xs (upd_where P f ys)" for R and xs ys
    by (induction xs ys rule: list_all2_induct) (auto simp: upd_where_def)
  from this [of "may_become role ids" "leads d0" "leads d"] show ?thesis using assms by (simp add: patched_def)
qed

subsection \<open>The store operations\<close>

lemma insertLog_patched [keeps_intros]: "keeps (patched role ids d0) (insertQualificationLog a b c d e f g)"
  unfolding insertQualificationLog_def Let_def by (intro keeps_intros) (rule patched_same, auto)

lemma entered_ok: "may_become role ids l0 l \<Longrightarrow> l_id l \<in> ids \<Longrightarrow> may_become role ids l0 (l\<lparr>l_qualAt := x\<rparr>)"
  by (simp add: may_become_def part_defs)

lemma recordChange_patched:
  "trim i \<in> ids \<Longrightarrow> keeps (patched role ids d0) (recordQualificationChange i b c d e f g)"
  unfolding recordQualificationChange_def Let_def
  by (intro keeps_intros) (rule patched_upd, rule entered_ok, simp_all)

lemma ensureSeeded_patched:
  "trim i \<in> ids \<Longrightarrow> keeps (patched role ids d0) (ensureQualificationLogSeeded i b c)"
  unfolding ensureQualificationLogSeeded_def Let_def
  by (intro keeps_intros recordChange_patched) simp

lemma GetByID_patched:
  assumes "trim i \<in> ids"
  shows "keeps (patched role ids d0) (GetByID i)"
proof -
  have "triple (patched role ids d0) (GetByID i) (\<lambda>_. patched role ids d0) (patched role ids d0)"
    unfolding GetByID_def
    apply (rule triple_bind [where R = "\<lambda>l d. patched role ids d0 d \<and> l_id l = i"])
     apply (rule triple_query_row, use lead_by_id_Some in blast, simp)
    apply (rule triple_assume, rule keeps_triple)
    apply (intro keeps_intros ensureSeeded_patched)
    using assms by simp
  then show ?thesis by (rule triple_keeps)
qed

lemma outcome_ok:
  "canUpdateSalesOutcome role \<Longrightarrow> may_become role ids l0 l \<Longrightarrow> l_id l \<in> ids \<Longrightarrow>
     may_become role ids l0 (apply_outcome inp st c t l)"
  by (simp add: may_become_def part_defs apply_outcome_def Let_def)

lemma UpdateSalesOutcome_patched:
  "canUpdateSalesOutcome role \<Longrightarrow> {i, trim i} \<subseteq> ids \<Longrightarrow> keeps (patched role ids d0) (UpdateSalesOutcome i inp)"
  unfolding UpdateSalesOutcome_def Let_def
  by (intro keeps_intros GetByID_patched) ((rule patched_upd [OF outcome_ok])?; simp)+

lemma flag_ok:
  "canMarkNotAppropriate role \<Longrightarrow> may_become role ids l0 l \<Longrightarrow> l_id l \<in> ids \<Longrightarrow>
     may_become role ids l0 (l\<lparr>l_notAppr := True, l_notApprReason := r, l_notApprAt := t,
        l_notApprBy := b, l_qual := ''IRRELEVANT'', l_qualAt := q, l_updatedAt := u\<rparr>)"
  by (simp add: may_become_def part_defs)

lemma MarkNotAppropriate_patched:
  "canMarkNotAppropriate role \<Longrightarrow> trim i \<in> ids \<Longrightarrow> keeps (patched role ids d0) (MarkNotAppropriate i r a)"
  unfolding MarkNotAppropriate_def Let_def flag_lead_def
  by (intro keeps_intros GetByID_patched) ((rule patched_upd [OF flag_ok])?; simp)+

lemma qual_ok:
  "canChangeQualification role \<Longrightarrow> may_become role ids l0 l \<Longrightarrow> l_id l \<in> ids \<Longrightarrow>
     may_become role ids l0 (l\<lparr>l_qual := st, l_qualAt := t, l_updatedAt := u\<rparr>)"
  by (simp add: may_become_def part_defs)

lemma UpdateQualification_patched:
  "canChangeQualification role \<Longrightarrow> trim i \<in> ids \<Longrightarrow> keeps (patched role ids d0) (UpdateQualificationStatus i s a)"
  unfolding UpdateQualificationStatus_def Let_def set_qual_def
  by (intro keeps_intros) ((rule patched_upd [OF qual_ok])?; simp)+

lemma update_ok:
  "canEditLeadProfile role \<Longrightarrow> may_become role ids l0 l \<Longrightarrow> l_id l \<in> ids \<Longrightarrow>
     may_become role ids l0 (apply_update inp q ch t l)"
  by (simp add: may_become_def part_defs apply_update_def canEditLeadProfile_def canChangeQualification_def)

lemma UpdateLead_patched:
  "canEditLeadProfile role \<Longrightarrow> i \<in> ids \<Longrightarrow> keeps (patched role ids d0) (UpdateLead i inp)"
  unfolding UpdateLead_def Let_def
  by (intro keeps_intros) ((rule patched_upd [OF update_ok])?; simp)+

subsection \<open>The handlers\<close>

lemma notify_patched: "hkeeps (patched role ids d0) (notify a k ti b l ex)"
  by (rule hkeeps_notify) (rule patched_same, simp_all)

lemma lead_changed_patched: "hkeeps (patched role ids d0) (lead_changed a i ti b r)"
  unfolding lead_changed_def by (intro hkeeps_intros notify_patched)

lemmas patched_intros = hkeeps_intros lead_changed_patched UpdateSalesOutcome_patched MarkNotAppropriate_patched
  UpdateQualification_patched UpdateLead_patched GetByID_patched

lemma patchLead_patched:
  assumes "i \<in> ids" "trim i \<in> ids"
  shows "hkeeps (patched (a_role actor) ids d0) (patchLead zone i actor body)"
proof -
  have o: "hkeeps (patched (a_role actor) ids d0) (patchLeadSalesOutcome i actor j)" for j
    unfolding patchLeadSalesOutcome_def by (intro patched_intros) (use assms in simp_all)
  have n: "hkeeps (patched (a_role actor) ids d0) (patchLeadNotAppropriate i actor j)" for j
    unfolding patchLeadNotAppropriate_def Let_def by (intro patched_intros) (use assms in simp_all)
  have q: "hkeeps (patched (a_role actor) ids d0) (patchLeadQualification i actor j)" for j
    unfolding patchLeadQualification_def Let_def by (intro patched_intros) (use assms in simp_all)
  have u: "canEditLeadProfile (a_role actor) \<Longrightarrow> hkeeps (patched (a_role actor) ids d0) (updateLead zone i actor j)" for j
    unfolding updateLead_def by (intro patched_intros) (use assms in simp_all)
  show ?thesis
    unfolding patchLead_def
    by (intro hkeeps_intros; (split patch_route.split)?; auto intro!: o n q u hkeeps_intros)
qed

lemma getLead_patched: "trim i \<in> ids \<Longrightarrow> hkeeps (patched role ids d0) (getLead i)"
  unfolding getLead_def by (intro hkeeps_intros GetByID_patched)

subsection \<open>One lead per request, and only within the actor's scope\<close>

lemma guarded_run:
  assumes "admits g V" "hkeeps I rest" "I (tables (s_world s))"
  defines "s' \<equiv> snd (run_handler (andThen0 g rest) s)"
  shows "I (tables (s_world s')) \<and> (tables (s_world s') \<noteq> tables (s_world s) \<longrightarrow> V (tables (s_world s)))"
proof -
  obtain x s1 where g: "g s = (x, s1)" by force
  have a: "tables (s_world s1) = tables (s_world s)" "x = Inr () \<Longrightarrow> V (tables (s_world s))"
    using assms(1) g by (cases x; auto simp: admits_def split: sum.splits dest!: spec [of _ s])+
  show ?thesis
  proof (cases x)
    case (Inl r)
    then show ?thesis using a g assms(3) by (simp add: s'_def run_handler_def andThen0_def andThen_def)
  next
    case (Inr u)
    then have "s' = snd (run_handler rest s1)" using g by (simp add: s'_def run_handler_def andThen0_def andThen_def)
    then show ?thesis using hkeeps_run [OF assms(2), of s1] a assms(3) Inr by simp
  qed
qed

text \<open>C20. A request on one lead leaves users, teams and every other lead alone; what it may
  change of the lead is limited by the role: the sales outcome, the not-appropriate flag, the
  qualification (a sales executive only to IRRELEVANT, with the flag) and the profile each need
  their own permission, and neither assignment nor creator ever change. It changes the database at
  all only when the actor has a valid role and the lead is one the actor may see. This holds for
  GET and PATCH, every body, and every failing statement.\<close>

theorem lead_requests_stay_in_scope:
  assumes "trim (a_id actor) \<noteq> []" "trim (trim_path path) \<noteq> []"
  shows "let d = tables (s_world s); d' = tables (s_world (snd (run_handler (handleLeadByID zone r path actor body) s))) in
    users d' = users d \<and> teams d' = teams d \<and>
    list_all2 (may_become (a_role actor) {trim_path path, trim (trim_path path)}) (leads d) (leads d') \<and>
    (d' \<noteq> d \<longrightarrow> isValidRole (a_role actor) \<and> (a_role actor = RoleSuperadmin \<or>
       (\<exists>l \<in> set (leads d). l_id l = trim (trim_path path) \<and> may_see d actor l)))"
proof -
  define d where "d = tables (s_world s)"
  define d' where "d' = tables (s_world (snd (run_handler (handleLeadByID zone r path actor body) s)))"
  let ?i = "trim_path path" and ?I = "patched (a_role actor) {trim_path path, trim (trim_path path)} d"
  let ?rest = "if rq_method r = ''GET'' then getLead ?i else if rq_method r = ''PATCH'' then patchLead zone ?i actor body
     else reply method_not_allowed"
  have k: "hkeeps ?I ?rest" by (intro hkeeps_intros getLead_patched patchLead_patched) simp_all
  have i: "?I (tables (s_world s))" by (simp add: patched_refl d_def)
  have "?I d' \<and> (d' \<noteq> d \<longrightarrow> isValidRole (a_role actor) \<and> (a_role actor = RoleSuperadmin \<or>
       (\<exists>l \<in> set (leads d). l_id l = trim ?i \<and> may_see d actor l)))"
    using guarded_run [OF requireLeadAccess_admits [OF assms(1,2)] k i] i
    by (auto simp: d'_def d_def handleLeadByID_def Let_def run_handler_def reply_def)
  then show ?thesis by (simp add: patched_def Let_def d_def [symmetric] d'_def [symmetric])
qed

definition se_patch :: json where
  "se_patch = JObj [(''salesStage'', JStr ''CLOSED_WON''), (''closedRevenue'', JInt 100)]"

lemma se_patch_closes:
  "map (\<lambda>l. (l_id l, l_stage l, l_revenue l)) (leads (tables (s_world (snd (run_handler (handleLeadByID kathmandu
     ((toy_request ''s'')\<lparr>rq_method := ''PATCH''\<rparr>) ''l1'' se_actor (Some se_patch)) (fresh_server se_tables)))))) =
   [(''l1'', ''CLOSED_WON'', Some 100), (''l2'', [], None)]"
  by code_simp

theorem lead_requests_stay_in_scope_witness:
  "(\<exists>l \<in> set (leads se_tables). l_id l = ''l1'' \<and> may_see se_tables se_actor l) \<and>
   list_all2 (may_become RoleSalesExecutive {''l1''}) (leads se_tables) (leads (tables (s_world (snd (run_handler
     (handleLeadByID kathmandu ((toy_request ''s'')\<lparr>rq_method := ''PATCH''\<rparr>) ''l1'' se_actor (Some se_patch))
     (fresh_server se_tables))))))"
proof -
  have t: "trim (a_id se_actor) \<noteq> []" "trim_path ''l1'' = ''l1''" "trim ''l1'' = ''l1''" "a_role se_actor = RoleSalesExecutive"
    "map l_stage (leads se_tables) \<noteq> [''CLOSED_WON'', []]" "RoleSalesExecutive \<noteq> RoleSuperadmin" by code_simp+
  have d: "tables (s_world (fresh_server se_tables)) = se_tables" by (simp add: fresh_server_def calm_world_def)
  let ?d' = "tables (s_world (snd (run_handler (handleLeadByID kathmandu
     ((toy_request ''s'')\<lparr>rq_method := ''PATCH''\<rparr>) ''l1'' se_actor (Some se_patch)) (fresh_server se_tables))))"
  have "map l_stage (leads ?d') = map (\<lambda>(i, s, r). s) [(''l1'', ''CLOSED_WON'', Some (100 :: rat)), (''l2'', [], None)]"
    by (simp only: se_patch_closes [symmetric] map_map o_def split_beta prod.sel)
  then have "?d' \<noteq> se_tables" using t(5) by auto
  then show ?thesis
    using lead_requests_stay_in_scope [of se_actor "''l1''" "fresh_server se_tables" kathmandu
        "(toy_request ''s'')\<lparr>rq_method := ''PATCH''\<rparr>" "Some se_patch"] t d
    by (simp add: insert_absorb2 Let_def)
qed

end
