(* ===== verification/CacheSafety.thy ===== *)
theory CacheSafety
  imports LeadGuard AssignSafety
begin

section \<open>Mutations and the response cache\<close>

text \<open>
  Which handlers empty the response cache. \<open>cleared\<close> says that a handler answers a status below 300
  only with the cache empty; \<open>cache_kept\<close> that it never touches it.
\<close>

named_theorems cleared_intros \<open>handlers that answer success only with an empty cache\<close>

definition cleared :: "'a act \<Rightarrow> bool" where
  "cleared m \<longleftrightarrow> (\<forall>s. case m s of (Inl r, s') \<Rightarrow> r_status r < 300 \<longrightarrow> entries (s_cache s') = [] | _ \<Rightarrow> True)"

definition empties :: "'a act \<Rightarrow> bool" where
  \<comment> \<open>and going on also means an empty cache\<close>
  "empties m \<longleftrightarrow> (\<forall>s. case m s of (Inl r, s') \<Rightarrow> r_status r < 300 \<longrightarrow> entries (s_cache s') = []
     | (Inr _, s') \<Rightarrow> entries (s_cache s') = [])"

definition cache_kept :: "'a act \<Rightarrow> bool" where
  "cache_kept m \<longleftrightarrow> (\<forall>s. entries (s_cache (snd (m s))) = entries (s_cache s))"

lemma cleared_triple:
  "cleared m \<longleftrightarrow> htriple (\<lambda>_. True) m (\<lambda>_ _. True) (\<lambda>r s. r_status r < 300 \<longrightarrow> entries (s_cache s) = [])"
  by (simp add: cleared_def htriple_def)

lemma cleared_reply [cleared_intros]: "300 \<le> r_status r \<Longrightarrow> cleared (reply r)"
  by (simp add: cleared_def reply_def)

lemma cleared_andThen [cleared_intros]: "cleared m \<Longrightarrow> (\<And>a. cleared (f a)) \<Longrightarrow> cleared (andThen m f)"
  unfolding cleared_triple by (rule h_andThen)

lemma cleared_andThen0 [cleared_intros]: "cleared m \<Longrightarrow> cleared n \<Longrightarrow> cleared (andThen0 m n)"
  by (simp add: andThen0_def cleared_andThen)

lemma cleared_steps [cleared_intros]: "cleared (pass x)" "cleared (store st)" "cleared clock" "cleared hub_get" "cleared cache_clear"
  by (simp_all add: cleared_def pass_def store_def clock_def hub_get_def cache_clear_def split: prod.split)

lemma cleared_hub_do [cleared_intros]: "cleared (hub_do f)"
  by (simp add: cleared_def hub_do_def panicked_response_def failure_def json_def split: option.split)

lemma cleared_require [cleared_intros]: "300 \<le> r_status r \<Longrightarrow> cleared (require b r)"
  by (simp add: require_def cleared_reply cleared_steps)

lemma cleared_if [cleared_intros]: "(b \<Longrightarrow> cleared m) \<Longrightarrow> (\<not> b \<Longrightarrow> cleared n) \<Longrightarrow> cleared (if b then m else n)"
  by simp

lemma cleared_option [cleared_intros]:
  "cleared m \<Longrightarrow> (\<And>a. cleared (f a)) \<Longrightarrow> cleared (case p of None \<Rightarrow> m | Some a \<Rightarrow> f a)"
  by (simp split: option.split)

lemma cleared_sum [cleared_intros]:
  "(\<And>a. p = Inl a \<Longrightarrow> cleared (g a)) \<Longrightarrow> (\<And>a. cleared (f a)) \<Longrightarrow> cleared (case p of Inl a \<Rightarrow> g a | Inr a \<Rightarrow> f a)"
  by (simp split: sum.split)

lemma cleared_prod [cleared_intros]: "(\<And>a b. cleared (f a b)) \<Longrightarrow> cleared (case p of (a, b) \<Rightarrow> f a b)"
  by (simp split: prod.split)

lemma mem_Clear_empty [simp]: "entries (mem_Clear c) = []"
  by (simp add: mem_Clear_def)

lemma empties_emit:
  "empties (emitLead e l a)" "empties (emitUser e' u a')"
  by (simp_all add: empties_def emitLead_def emitUser_def andThen0_def andThen_def cache_clear_def clock_def
      hub_do_def split: option.split)

lemma cleared_emit [cleared_intros]: "cleared (emitLead e l a)" "cleared (emitUser e' u a')"
  unfolding emitLead_def emitUser_def by (intro cleared_intros)+

lemma cleared_notify [cleared_intros]: "cleared (notify a k ti b l ex)"
  unfolding notify_def by (intro cleared_intros)

lemma cleared_after_empties: "empties m \<Longrightarrow> cleared (andThen0 m (reply r))"
  by (auto simp: cleared_def empties_def andThen0_def andThen_def reply_def split: prod.splits sum.splits)

lemmas cleared_end [cleared_intros] = cleared_after_empties [OF empties_emit(1)] cleared_after_empties [OF empties_emit(2)]

subsection \<open>Statuses of the refusals\<close>

lemma status_simps [simp]:
  "r_status (failure st m) = st" "r_status (invalid v) = 400" "r_status (json st p) = st"
  "r_status method_not_allowed = 405"
  by (simp_all add: failure_def invalid_def json_def method_not_allowed_def)

lemma refusals [simp]:
  "300 \<le> r_status (outcome_error m)" "300 \<le> r_status (not_appropriate_error m)" "300 \<le> r_status (update_lead_error m)"
  "300 \<le> r_status (create_error e)" "300 \<le> r_status (update_error e)" "300 \<le> r_status (transfer_error e)"
  "300 \<le> r_status (delete_error e)" "300 \<le> r_status (active_error e)" "300 \<le> r_status (assign_error m)"
  by (simp_all add: outcome_error_def not_appropriate_error_def update_lead_error_def create_error_def update_error_def
      transfer_error_def delete_error_def active_error_def assign_error_def)

lemma lead_input_refusal: "lead_input zone req a = Inl r \<Longrightarrow> 300 \<le> r_status r"
  by (auto simp: lead_input_def Let_def split: prod.splits if_splits option.splits sum.splits)

lemma outcome_input_refusal: "outcome_input_of keys as = Inl r \<Longrightarrow> 300 \<le> r_status r"
  by (auto simp: outcome_input_of_def Let_def split: if_splits)

lemma create_for_mtl_refusal: "create_for_mtl a req = Inl r \<Longrightarrow> 300 \<le> r_status r"
  by (auto simp: create_for_mtl_def Let_def split: if_splits)

lemma management_refusal: "management_error a u = Some r \<Longrightarrow> 300 \<le> r_status r"
  by (auto simp: management_error_def Let_def split: if_splits)

lemma cleared_manage [cleared_intros]: "cleared (actorMayManageTarget a u)"
  by (auto simp: actorMayManageTarget_def intro: cleared_intros management_refusal split: option.split)

lemma cleared_load [cleared_intros]: "cleared (load_target i m)"
  unfolding load_target_def by (intro cleared_intros) simp_all

lemma cleared_changed [cleared_intros]: "cleared (lead_changed a i ti b r)"
  unfolding lead_changed_def by (intro cleared_intros)

lemma cleared_createLead: "cleared (createLead zone actor body)"
  unfolding createLead_def by (intro cleared_intros) (simp_all add: lead_input_refusal)

lemma cleared_patchLead: "cleared (patchLead zone i actor body)"
proof -
  have o: "cleared (patchLeadSalesOutcome i actor j)" for j
    unfolding patchLeadSalesOutcome_def by (intro cleared_intros) (simp_all add: outcome_input_refusal)
  have n: "cleared (patchLeadNotAppropriate i actor j)" for j
    unfolding patchLeadNotAppropriate_def Let_def by (intro cleared_intros) simp_all
  have q: "cleared (patchLeadQualification i actor j)" for j
    unfolding patchLeadQualification_def Let_def by (intro cleared_intros) simp_all
  have u: "cleared (updateLead zone i actor j)" for j
    unfolding updateLead_def by (intro cleared_intros) (simp_all add: lead_input_refusal)
  show ?thesis
    unfolding patchLead_def by (intro cleared_intros; (split patch_route.split)?; auto intro!: o n q u cleared_intros)
qed

lemma cleared_users:
  "cleared (createUser dp actor b1)" "cleared (updateUser dp i actor b2)" "cleared (deleteUser i actor)"
  "cleared (setUserActive r i actor b3)"
proof -
  show "cleared (createUser dp actor b1)"
    unfolding createUser_def inherited_team_def Let_def by (intro cleared_intros) (simp_all add: create_for_mtl_refusal)
  show "cleared (updateUser dp i actor b2)"
    unfolding updateUser_def update_inherit_def demotion_check_def update_team_check_def update_transfer_def Let_def
    by (intro cleared_intros) simp_all
  show "cleared (deleteUser i actor)" unfolding deleteUser_def by (intro cleared_intros) simp_all
  show "cleared (setUserActive r i actor b3)" unfolding setUserActive_def by (intro cleared_intros) simp_all
qed

subsection \<open>Handlers answer\<close>

named_theorems replies_intros \<open>handlers that always end with a response\<close>

definition replies :: "'a act \<Rightarrow> bool" where
  "replies m \<longleftrightarrow> (\<forall>s. isl (fst (m s)))"

lemma replies_reply [replies_intros]: "replies (reply r)"
  by (simp add: replies_def reply_def)

lemma replies_andThen [replies_intros]: "(\<And>a. replies (f a)) \<Longrightarrow> replies (andThen m f)"
  by (simp add: replies_def andThen_def split: prod.split sum.split)

lemma replies_andThen0 [replies_intros]: "replies n \<Longrightarrow> replies (andThen0 m n)"
  by (simp add: andThen0_def replies_andThen)

lemma replies_cases [replies_intros]:
  "replies m \<Longrightarrow> replies n \<Longrightarrow> replies (if b then m else n)"
  "replies m \<Longrightarrow> (\<And>a. replies (f a)) \<Longrightarrow> replies (case p of None \<Rightarrow> m | Some a \<Rightarrow> f a)"
  "(\<And>a. replies (g a)) \<Longrightarrow> (\<And>a. replies (h a)) \<Longrightarrow> replies (case q of Inl a \<Rightarrow> g a | Inr a \<Rightarrow> h a)"
  "(\<And>a b. replies (k a b)) \<Longrightarrow> replies (case z of (a, b) \<Rightarrow> k a b)"
  by (simp_all split: option.split sum.split prod.split)

lemma replies_triple:
  "replies m \<Longrightarrow> htriple P m Q E \<Longrightarrow> P s \<Longrightarrow> E (fst (run_handler m s)) (snd (run_handler m s))"
  by (cases "m s"; cases "fst (m s)") (auto simp: replies_def htriple_def run_handler_def dest!: spec [of _ s])

lemma replies_leads:
  "replies (createLead zone actor body)" "replies (patchLead zone i actor body)" "replies (deleteLeads actor body)"
  "replies (handleAssignLeads r actor body)"
proof -
  show "replies (createLead zone actor body)" unfolding createLead_def by (intro replies_intros)
  have lc: "replies (lead_changed actor i t b rp)" for t b rp unfolding lead_changed_def by (intro replies_intros)
  show "replies (patchLead zone i actor body)"
    unfolding patchLead_def patchLeadSalesOutcome_def patchLeadNotAppropriate_def patchLeadQualification_def
      updateLead_def Let_def
    by (intro replies_intros lc; (split patch_route.split)?; auto intro!: lc replies_intros)
  show "replies (deleteLeads actor body)" unfolding deleteLeads_def Let_def by (intro replies_intros)
  show "replies (handleAssignLeads r actor body)" unfolding handleAssignLeads_def Let_def by (intro replies_intros)
qed

lemma replies_users:
  "replies (createUser dp actor b1)" "replies (updateUser dp i actor b2)" "replies (deleteUser i actor)"
  "replies (setUserActive r i actor b3)"
  unfolding createUser_def updateUser_def deleteUser_def setUserActive_def Let_def by (intro replies_intros)+

subsection \<open>Bulk operations\<close>

definition served_fresh :: "lead list \<Rightarrow> response \<Rightarrow> server \<Rightarrow> bool" where
  \<comment> \<open>a success comes with an empty cache or with the leads \<open>L\<close> of before\<close>
  "served_fresh L r s \<longleftrightarrow> (r_status r < 300 \<longrightarrow> entries (s_cache s) = [] \<or> leads (tables (s_world s)) = L)"

abbreviation "settled L s \<equiv> entries (s_cache s) = [] \<or> leads (tables (s_world s)) = L"

lemma none_deleted: "0 < count_where P xs \<or> filter (\<lambda>x. \<not> P x) xs = xs"
  by (induction xs) (auto simp: count_where_def)

lemma served_refusal: "300 \<le> r_status r \<Longrightarrow> served_fresh L r s"
  by (simp add: served_fresh_def)

lemma h_refuse: "300 \<le> r_status r \<Longrightarrow> htriple P (reply r) Q (served_fresh L)"
  by (rule h_reply) (simp add: served_refusal)

lemma h_emit_empty: "htriple P (emitLead e l a) (\<lambda>_ s. entries (s_cache s) = []) (served_fresh L)"
  by (auto simp: htriple_def emitLead_def andThen0_def andThen_def cache_clear_def clock_def hub_do_def
      panicked_response_def failure_def json_def served_fresh_def split: option.split)

lemma h_notify_any: "htriple P (notify a k ti b l ex) (\<lambda>_ _. True) E"
  by (auto simp: htriple_def notify_def andThen_def store_def pass_def split: prod.split)

lemma h_emit_deleted: "htriple P (emit_deleted a (i # is)) (\<lambda>_ s. entries (s_cache s) = []) (served_fresh L)"
proof (induction "is" arbitrary: i P)
  case Nil
  show ?case by (simp, rule h_andThen0, rule h_emit_empty, rule h_pass, assumption)
next
  case (Cons j js)
  show ?case by (subst emit_deleted.simps, rule h_andThen0, rule h_emit_empty, rule Cons.IH)
qed

lemma h_announce: "xs \<noteq> [] \<Longrightarrow> htriple P (announce actor k i lab br xs) (\<lambda>_ s. entries (s_cache s) = []) (served_fresh L)"
proof (induction xs arbitrary: P)
  case (Cons x xs)
  have rest: "htriple (\<lambda>s. entries (s_cache s) = []) (announce actor k i lab br xs) (\<lambda>_ s. entries (s_cache s) = []) (served_fresh L)"
    by (cases "xs = []") (simp_all add: h_pass Cons.IH)
  show ?case
    unfolding announce.simps Let_def
    by (rule h_andThen0, rule h_notify_any, rule h_andThen0, rule h_emit_empty, rule rest)
qed simp

lemma h_settled_reply: "htriple (settled L) (reply r) Q (served_fresh L)"
  by (rule h_reply) (simp add: served_fresh_def)

lemma deleteLeads_fresh:
  "htriple (\<lambda>s. leads (tables (s_world s)) = L) (deleteLeads actor body) (\<lambda>_ _. True) (served_fresh L)"
proof -
  have del: "htriple (\<lambda>s. leads (tables (s_world s)) = L) (store (DeleteLeads ids a b c e f))
      (\<lambda>x s. case x of Inl _ \<Rightarrow> True | Inr n \<Rightarrow> ids \<noteq> [] \<and> (n > 0 \<or> leads (tables (s_world s)) = L)) E" for ids a b c e f E
  proof (rule h_store)
    fix s r w assume s: "leads (tables (s_world s)) = L" "DeleteLeads ids a b c e f (s_world s) = (r, w)"
    show "case r of Inl _ \<Rightarrow> True | Inr n \<Rightarrow> ids \<noteq> [] \<and> (n > 0 \<or> leads (tables (s_world (s\<lparr>s_world := w\<rparr>))) = L)"
    proof (cases r)
      case (Inr n)
      have "ids \<noteq> []" using s(2) Inr by (auto simp: DeleteLeads_def throw_def)
      moreover have "n > 0 \<or> leads (tables w) = L"
        using tripleD [OF DeleteLeads_triple refl, of ids a b c e f "s_world s"] s Inr
        by (auto simp: deleted_def none_deleted)
      ultimately show ?thesis using Inr by simp
    qed simp
  qed
  have notice: "htriple P (delete_notice actor br n) (\<lambda>_ _. True) E" for P br n E
    by (auto simp: delete_notice_def h_notify_any split: list.split)
  have finish: "htriple (\<lambda>s. ids \<noteq> [] \<and> (n > 0 \<or> leads (tables (s_world s)) = L))
     (andThen0 (if n > 0 then andThen0 (delete_notice actor br n) (emit_deleted (a_id actor) ids) else pass ())
        (reply (json 200 (PDeleted n)))) (\<lambda>_ _. True) (served_fresh L)" for ids n br
  proof (rule h_andThen0 [OF _ h_settled_reply])
    show "htriple (\<lambda>s. ids \<noteq> [] \<and> (n > 0 \<or> leads (tables (s_world s)) = L))
      (if n > 0 then andThen0 (delete_notice actor br n) (emit_deleted (a_id actor) ids) else pass ())
      (\<lambda>_. settled L) (served_fresh L)"
    proof (cases "n > 0 \<and> ids \<noteq> []")
      case True
      then obtain i js where "ids = i # js" by (cases ids) auto
      then show ?thesis using True
        by (simp del: emit_deleted.simps, intro h_andThen0 [OF notice] h_weaken [OF h_emit_deleted]) simp_all
    qed (auto simp: htriple_def pass_def)
  qed
  show ?thesis
    unfolding deleteLeads_def Let_def
    by (intro h_if h_option h_prod h_refuse; (simp; fail)?)
       (rule h_andThen [where R = "\<lambda>_ s. leads (tables (s_world s)) = L"],
        rule h_store_readonly, simp add: LeadNameBriefs_def Let_def readonly_intros, simp,
        rule h_andThen, rule del, rule h_sum;
        (simp add: h_refuse finish h_if; fail)?)
qed

lemma assignee_label_readonly: "quiet (assignee_label i t)"
  unfolding assignee_label_def ListAssignableUsers_def Let_def by (intro quiet_intros readonly_intros)

lemma h_nothing: "(\<And>s r s'. m s = (Inl r, s') \<Longrightarrow> False) \<Longrightarrow> htriple P m (\<lambda>_ _. True) E"
  by (rule htripleI) auto

lemma assignee_label_answers: "assignee_label i t s \<noteq> (Inl r, s')"
  by (auto simp: assignee_label_def andThen_def store_def pass_def Let_def split: prod.splits if_splits)

lemma handleAssignLeads_fresh:
  "htriple (\<lambda>s. leads (tables (s_world s)) = L) (handleAssignLeads r actor body) (\<lambda>_ _. True) (served_fresh L)"
proof -
  have done': "rs \<noteq> [] \<Longrightarrow> htriple P (andThen (assignee_label i t) (\<lambda>label. andThen (store (LeadNameBriefs ids)) (\<lambda>b.
      andThen0 (announce actor k i label (case b of Inl e \<Rightarrow> [] | Inr m \<Rightarrow> m) rs) (reply rp))))
      (\<lambda>_ _. True) (served_fresh L)" for P i t ids k rs rp
    apply (rule h_andThen, rule h_nothing, use assignee_label_answers in blast)
    apply (rule h_andThen [where R = "\<lambda>_ _. True"], rule h_store, simp)
    apply (rule h_andThen0 [OF h_announce], assumption)
    apply (rule h_reply, simp add: served_fresh_def)
    done
  have assign: "htriple P (store (AssignLeads inp)) (\<lambda>x s. case x of Inl _ \<Rightarrow> True | Inr rs \<Rightarrow> rs \<noteq> []) E" for P inp E
  proof (rule h_store)
    fix s r w assume s: "AssignLeads inp (s_world s) = (r, w)"
    show "case r of Inl _ \<Rightarrow> True | Inr rs \<Rightarrow> rs \<noteq> []"
      using tripleD [OF AssignLeads_triple refl, of inp "s_world s"] s
      by (cases r) (auto simp: assigned_def Let_def)
  qed
  have sum: "htriple (\<lambda>s. case x of Inl _ \<Rightarrow> True | Inr rs \<Rightarrow> rs \<noteq> []) (case x of Inl e \<Rightarrow> reply (assign_error (err_text e)) | Inr rs \<Rightarrow> f rs)
      (\<lambda>_ _. True) (served_fresh L)" if "\<And>rs. rs \<noteq> [] \<Longrightarrow> htriple (\<lambda>_. True) (f rs) (\<lambda>_ _. True) (served_fresh L)"
    for x :: "err + assign_result list" and f
  proof (cases x)
    case (Inr rs)
    then show ?thesis using that [of rs] by (cases "rs = []") (simp_all add: htriple_def)
  qed (simp add: h_refuse)
  show ?thesis
    unfolding handleAssignLeads_def Let_def
    by (intro h_if h_option h_refuse; (simp; fail)?)
       (rule h_andThen, rule assign, rule sum, rule done')
qed

lemma cleared_run:
  "replies m \<Longrightarrow> cleared m \<Longrightarrow> r_status (fst (run_handler m s)) < 300 \<Longrightarrow> entries (s_cache (snd (run_handler m s))) = []"
  unfolding cleared_triple by (drule (1) replies_triple [where s = s]) simp_all


definition cached_server :: server where
  \<comment> \<open>a server that still holds a list cached before the request\<close>
  "cached_server = (fresh_server se_tables)\<lparr>s_cache := mem_Set 0 ''leads'' ''{}'' 9999999 NewResponseCache\<rparr>"

lemma cached_server_patch:
  "(case run_handler (patchLead kathmandu ''l1'' se_actor (Some se_patch)) cached_server of (resp, s') \<Rightarrow>
     (r_status resp, map l_stage (leads (tables (s_world s'))))) = (200, [''CLOSED_WON'', []])"
  "map fst (entries (s_cache cached_server)) = [''leads'']"
  by code_simp+


subsection \<open>The transfers\<close>

named_theorems kept_intros \<open>handlers that do not touch the cache\<close>

lemma kept_steps [kept_intros]:
  "cache_kept (pass x)" "cache_kept (reply rp)" "cache_kept (store st)"
  by (simp_all add: cache_kept_def pass_def reply_def store_def split: prod.split)

lemma kept_andThen [kept_intros]: "cache_kept m \<Longrightarrow> (\<And>a. cache_kept (f a)) \<Longrightarrow> cache_kept (andThen m f)"
  by (simp add: cache_kept_def andThen_def split: prod.split sum.split) (metis snd_conv)

lemma kept_andThen0 [kept_intros]: "cache_kept m \<Longrightarrow> cache_kept n \<Longrightarrow> cache_kept (andThen0 m n)"
  by (simp add: andThen0_def kept_andThen)

lemma kept_cases [kept_intros]:
  "cache_kept m \<Longrightarrow> cache_kept n \<Longrightarrow> cache_kept (if b then m else n)"
  "cache_kept m \<Longrightarrow> (\<And>a. cache_kept (f a)) \<Longrightarrow> cache_kept (case p of None \<Rightarrow> m | Some a \<Rightarrow> f a)"
  "(\<And>a. cache_kept (g a)) \<Longrightarrow> (\<And>a. cache_kept (h a)) \<Longrightarrow> cache_kept (case q of Inl a \<Rightarrow> g a | Inr a \<Rightarrow> h a)"
  "(\<And>a b. cache_kept (k a b)) \<Longrightarrow> cache_kept (case z of (a, b) \<Rightarrow> k a b)"
  by (simp_all split: option.split sum.split prod.split)

lemma kept_run: "cache_kept m \<Longrightarrow> entries (s_cache (snd (run_handler m s))) = entries (s_cache s)"
  by (cases "m s"; cases "fst (m s)") (auto simp: cache_kept_def run_handler_def dest!: spec [of _ s])

lemma kept_transfers:
  "cache_kept (transferSalesExec r i actor b1)" "cache_kept (transferLeadAnalyst r i actor b2)"
  unfolding transferSalesExec_def transferLeadAnalyst_def transfer_labels_def notify_def load_target_def
    actorMayManageTarget_def Let_def
  by (intro kept_intros)+

definition two_teams :: db where
  \<comment> \<open>an executive with one lead on team A, and team B to go to\<close>
  "two_teams = empty_db\<lparr>users := [root_user, (blank_user ''se1'')\<lparr>u_role := RoleSalesExecutive, u_teamId := Some ''A''\<rparr>],
     teams := [\<lparr>t_id = ''A'', t_name = ''A'', t_mtl = ''ma'', t_atl = None, t_createdAt = 0, t_updatedAt = 0\<rparr>,
               \<lparr>t_id = ''B'', t_name = ''B'', t_mtl = ''mb'', t_atl = None, t_createdAt = 0, t_updatedAt = 0\<rparr>],
     leads := [(blank_lead ''l1'')\<lparr>l_se := Some ''se1'', l_team := Some ''A'', l_mtl := Some ''ma''\<rparr>]\<rparr>"

lemma transfer_moves_lead:
  "(case run_handler (transferSalesExec (toy_request ''s'') ''se1'' root_actor (Some \<lparr>tq_toTeam = ''B'', tq_expected = None\<rparr>))
     (fresh_server two_teams) of (resp, s') \<Rightarrow>
     (r_status resp, map (\<lambda>l. (l_team l, l_mtl l)) (leads (tables (s_world s'))))) = (200, [(Some ''B'', Some ''mb'')])"
  by code_simp

text \<open>C19. The two transfer handlers never touch the response cache, whatever they change: a
  successful transfer moves leads to another team while lists and summaries cached before it stay
  servable for the rest of their time to live.\<close>

theorem transfers_leave_the_cache:
  "entries (s_cache (snd (run_handler (transferSalesExec r i actor b1) s))) = entries (s_cache s) \<and>
   entries (s_cache (snd (run_handler (transferLeadAnalyst r i actor b2) s))) = entries (s_cache s) \<and>
   (\<exists>r i actor b s. case run_handler (transferSalesExec r i actor b) s of (resp, s') \<Rightarrow> r_status resp = 200 \<and>
      map l_team (leads (tables (s_world s'))) \<noteq> map l_team (leads (tables (s_world s))))"
proof -
  let ?b = "Some \<lparr>tq_toTeam = ''B'', tq_expected = None\<rparr>"
  have b: "map l_team (leads (tables (s_world (fresh_server two_teams)))) = [Some ''A'']" by code_simp
  obtain resp s' where r: "run_handler (transferSalesExec (toy_request ''s'') ''se1'' root_actor ?b) (fresh_server two_teams) = (resp, s')"
    by force
  then have m: "r_status resp = 200" "map (\<lambda>l. (l_team l, l_mtl l)) (leads (tables (s_world s'))) = [(Some ''B'', Some ''mb'')]"
    using transfer_moves_lead by simp_all
  then have "map l_team (leads (tables (s_world s'))) = [Some ''B'']" by auto
  then have "case run_handler (transferSalesExec (toy_request ''s'') ''se1'' root_actor ?b) (fresh_server two_teams) of
      (resp, s') \<Rightarrow> r_status resp = 200 \<and> map l_team (leads (tables (s_world s'))) \<noteq>
        map l_team (leads (tables (s_world (fresh_server two_teams))))"
    using r m b by simp
  then show ?thesis by (intro conjI kept_run kept_transfers) (intro exI, assumption)
qed

end
