(* ===== verification/Search.thy ===== *)
theory Search
  imports LeadChanges
begin

section \<open>The search box of the lead list (search.go)\<close>

text \<open>
  A WHERE clause under construction is a pair of the clauses and of the arguments bound so far, as in
  the code; a clause names its arguments by their placeholder numbers and is read as what PostgreSQL
  makes of it: a predicate over the bound arguments, the tables and the lead. A placeholder without
  an argument of the right type makes the statement fail, here it holds of no lead. The texts
  PostgreSQL makes of dates and amounts are parameters (\<open>pg\<close>).
\<close>

subsection \<open>Clauses and arguments\<close>

datatype arg = AText string | ATime int | AMoney rat | ACount int | ANull

type_synonym clause = "arg list \<Rightarrow> db \<Rightarrow> lead \<Rightarrow> bool"

type_synonym builder = "clause list \<times> arg list"

definition push_arg :: "arg \<Rightarrow> builder \<Rightarrow> builder" where
  \<comment> \<open>\<open>*args = append(*args, x)\<close>\<close>
  "push_arg x b = (fst b, snd b @ [x])"

definition push_where :: "clause \<Rightarrow> builder \<Rightarrow> builder" where
  \<comment> \<open>\<open>*where = append(*where, clause)\<close>\<close>
  "push_where c b = (fst b @ [c], snd b)"

definition arg_at :: "arg list \<Rightarrow> nat \<Rightarrow> arg option" where
  \<comment> \<open>the value of the placeholder \<open>$n\<close>\<close>
  "arg_at as n = (if 1 \<le> n \<and> n \<le> length as then Some (as ! (n - 1)) else None)"

definition text_at :: "arg list \<Rightarrow> nat \<Rightarrow> (string \<Rightarrow> bool) \<Rightarrow> bool" where
  "text_at as n P = (case arg_at as n of Some (AText s) \<Rightarrow> P s | _ \<Rightarrow> False)"

definition holds_all :: "builder \<Rightarrow> arg list \<Rightarrow> db \<Rightarrow> lead \<Rightarrow> bool" where
  \<comment> \<open>the clauses joined by AND, under the arguments sent with the statement\<close>
  "holds_all b as d l = list_all (\<lambda>c. c as d l) (fst b)"

subsection \<open>LIKE\<close>

fun like :: "string \<Rightarrow> string \<Rightarrow> bool" where
  \<comment> \<open>\<open>like p s\<close>: \<open>s LIKE p ESCAPE '\\'\<close>; a pattern that ends in the escape character is an error in PostgreSQL\<close>
  "like [] s = (s = [])"
| "like (c # p) s =
     (if c = CHR ''%'' then like p s \<or> (case s of [] \<Rightarrow> False | x # s' \<Rightarrow> like (c # p) s')
      else if c = CHR 0x5C then (case p of [] \<Rightarrow> False
        | e # p' \<Rightarrow> (case s of [] \<Rightarrow> False | x # s' \<Rightarrow> x = e \<and> like p' s'))
      else (case s of [] \<Rightarrow> False | x # s' \<Rightarrow> (c = CHR ''_'' \<or> x = c) \<and> like p s'))"

definition expand :: "char \<Rightarrow> string \<Rightarrow> string \<Rightarrow> string" where
  \<comment> \<open>\<open>strings.ReplaceAll\<close> of one character\<close>
  "expand c r s = concat (map (\<lambda>x. if x = c then r else [x]) s)"

definition escapeILIKE :: "string \<Rightarrow> string" where
  "escapeILIKE s = expand CHR ''_'' [CHR 0x5C, CHR ''_''] (expand CHR ''%'' [CHR 0x5C, CHR ''%'']
     (expand CHR 0x5C [CHR 0x5C, CHR 0x5C] s))"

definition digitsOnly :: "string \<Rightarrow> string" where
  "digitsOnly s = filter is_digit s"

definition anywhere :: "string \<Rightarrow> string" where
  \<comment> \<open>\<open>"%" + s + "%"\<close>\<close>
  "anywhere s = CHR ''%'' # s @ [CHR ''%'']"

definition ilike_at :: "arg list \<Rightarrow> nat \<Rightarrow> string \<Rightarrow> bool" where
  \<comment> \<open>\<open>v ILIKE $n\<close>\<close>
  "ilike_at as n v = text_at as n (\<lambda>p. like (to_lower p) (to_lower v))"

definition like_at :: "arg list \<Rightarrow> nat \<Rightarrow> string \<Rightarrow> bool" where
  \<comment> \<open>\<open>v LIKE $n\<close>\<close>
  "like_at as n v = text_at as n (\<lambda>p. like p v)"

definition bare_phone :: "string \<Rightarrow> string" where
  \<comment> \<open>\<open>translate(phone, ' ()-+.', '')\<close>\<close>
  "bare_phone s = filter (\<lambda>c. c \<notin> set '' ()-+.'') s"

definition spaced :: "string \<Rightarrow> string" where
  \<comment> \<open>\<open>replace(lower(v), '_', ' ')\<close>\<close>
  "spaced v = replace_char CHR ''_'' CHR '' '' (to_lower v)"

subsection \<open>Field names\<close>

definition normalizeSearchField :: "string \<Rightarrow> string" where
  "normalizeSearchField field = (let f = to_lower (trim field) in
     if f \<in> {''source'', ''portal'', ''lead'', ''analyst'', ''tag'', ''phone'', ''email'',
        ''clientprofile'', ''client_profile'', ''location'', ''analystnotes'', ''analyst_notes'',
        ''status'', ''score'', ''stage'', ''closed'', ''closeddate'', ''closed_date'', ''ip'', ''executivenotes'',
        ''executive_notes'', ''added'', ''team'', ''handoff'', ''contact'', ''duplicatecheck'', ''duplicate_check'',
        ''dealvalue'', ''deal_value'', ''salesexecutive'', ''sales_executive''}
     then to_lower (expand CHR ''-'' [] (trim field)) else [])"

definition search_fields :: "(string \<times> string list) list" where
  "search_fields = [
     (''clientProfile'', [''client_profile'', ''clientprofile'']),
     (''analystNotes'', [''analyst_notes'', ''analystnotes'']),
     (''executiveNotes'', [''executive_notes'', ''executivenotes'']),
     (''dealValue'', [''deal_value'', ''dealvalue'']),
     (''salesExecutive'', [''sales_executive'', ''salesexecutive'']),
     (''duplicateCheck'', [''duplicate_check'', ''duplicatecheck'']),
     (''closedDate'', [''closed_date'', ''closeddate''])]"

definition canonicalSearchField :: "string \<Rightarrow> string" where
  "canonicalSearchField field = (let f = normalizeSearchField field in
     case_lookup (search_fields @ map (\<lambda>n. (n, [n])) [''source'', ''portal'', ''lead'', ''analyst'', ''tag'',
       ''phone'', ''email'', ''location'', ''status'', ''score'', ''stage'', ''closed'', ''ip'', ''added'',
       ''team'', ''handoff'', ''contact'']) [] f)"

subsection \<open>The search document\<close>

record pg =
  pg_num :: "rat \<Rightarrow> string"   \<comment> \<open>\<open>numeric::text\<close>\<close>
  pg_dates :: "int \<Rightarrow> string list"   \<comment> \<open>\<open>to_char\<close> in the three formats of the search\<close>

definition search_doc :: "lead \<Rightarrow> string" where
  \<comment> \<open>the generated column \<open>searchDoc\<close> of the migration\<close>
  "search_doc l = to_lower (join '' '' [l_name l, deref (l_email l), deref (l_phone l),
     bare_phone (deref (l_phone l)), l_source l, deref (l_portal l), deref (l_metaProfile l),
     deref (l_profile l), deref (l_city l), deref (l_country l), deref (l_notes l), deref (l_lostNotes l),
     l_qual l, replace_char CHR ''_'' CHR '' '' (l_qual l), l_stage l,
     replace_char CHR ''_'' CHR '' '' (l_stage l), l_currency l])"

definition leadIsUnassigned :: "lead \<Rightarrow> bool" where
  "leadIsUnassigned l \<longleftrightarrow> l_team l = None \<and> l_mtl l = None \<and> l_se l = None"

subsection \<open>Building the clauses\<close>

definition appendPhoneSearch :: "string \<Rightarrow> builder \<Rightarrow> builder" where
  "appendPhoneSearch q b0 =
     (let b1 = push_arg (AText (anywhere (escapeILIKE q))) b0; n = length (snd b1); digits = digitsOnly q in
      if length digits \<ge> 2 then
        let b2 = push_arg (AText (anywhere digits)) b1; dn = length (snd b2) in
        push_where (\<lambda>as d l. ilike_at as n (deref (l_phone l)) \<or> like_at as dn (bare_phone (deref (l_phone l)))) b2
      else push_where (\<lambda>as d l. ilike_at as n (deref (l_phone l))) b1)"

definition pattern_arg :: "string \<Rightarrow> builder \<Rightarrow> builder" where
  \<comment> \<open>the argument of \<open>patternN\<close>; its number is the length of the argument list after it\<close>
  "pattern_arg q b = push_arg (AText (anywhere (escapeILIKE q))) b"

definition appendTextSearch :: "(lead \<Rightarrow> string) \<Rightarrow> string \<Rightarrow> builder \<Rightarrow> builder" where
  "appendTextSearch expr q b0 =
     (let b = pattern_arg q b0; n = length (snd b) in push_where (\<lambda>as d l. ilike_at as n (expr l)) b)"

definition with_pattern :: "string \<Rightarrow> (db \<Rightarrow> lead \<Rightarrow> string list) \<Rightarrow> builder \<Rightarrow> builder" where
  \<comment> \<open>a disjunction of \<open>v ILIKE $n\<close> over the listed texts\<close>
  "with_pattern q texts b0 =
     (let b = pattern_arg q b0; n = length (snd b) in
      push_where (\<lambda>as d l. list_ex (ilike_at as n) (texts d l)) b)"

definition tag_clauses :: "string \<Rightarrow> (lead \<Rightarrow> bool) list" where
  "tag_clauses lower =
     (if contains lower ''new'' then [leadIsUnassigned] else []) @
     (if contains lower ''appropriate'' \<or> contains lower ''approved'' then [l_notAppr] else []) @
     (if contains lower ''irrelevant'' then [\<lambda>l. l_qual l = ''IRRELEVANT''] else [])"

definition is_closed_stage :: "lead \<Rightarrow> bool" where
  "is_closed_stage l \<longleftrightarrow> l_stage l \<in> {''CLOSED_WON'', ''CLOSED_LOST''}"

definition closed_clause :: "string \<Rightarrow> lead \<Rightarrow> bool" where
  "closed_clause lower l =
     (if contains lower ''lost'' then l_stage l = ''CLOSED_LOST''
      else if contains lower ''open'' then l_closedAt l = None \<and> \<not> is_closed_stage l
      else if contains lower ''clos'' then l_closedAt l \<noteq> None \<or> is_closed_stage l
      else False)"

definition handoff_texts :: "db \<Rightarrow> lead \<Rightarrow> string list" where
  "handoff_texts d l = concat (map (\<lambda>h. [ho_action h, spaced (ho_action h), ho_detail h])
     (filter (\<lambda>h. ho_lead h = l_id l \<and> ho_action h \<noteq> ''LEAD_CREATED'') (handoffs d)))"

definition appendContactSearch :: "string \<Rightarrow> builder \<Rightarrow> builder" where
  \<comment> \<open>the case \<open>contact\<close>\<close>
  "appendContactSearch q b0 =
     (let b1 = pattern_arg q b0; n = length (snd b1); digits = digitsOnly q;
          plain = (\<lambda>as l. ilike_at as n (deref (l_phone l)) \<or> ilike_at as n (deref (l_city l))
                    \<or> ilike_at as n (deref (l_country l))) in
      if length digits \<ge> 2 then
        let b2 = push_arg (AText (anywhere digits)) b1; dn = length (snd b2) in
        push_where (\<lambda>as d l. plain as l \<or> like_at as dn (bare_phone (deref (l_phone l)))) b2
      else push_where (\<lambda>as d l. plain as l) b1)"

definition appendAllSearch :: "string \<Rightarrow> builder \<Rightarrow> builder" where
  \<comment> \<open>the default case: the search document\<close>
  "appendAllSearch q b0 =
     (let b1 = push_arg (AText (anywhere (escapeILIKE (to_lower q)))) b0; n = length (snd b1); digits = digitsOnly q in
      if length digits \<ge> 4 then
        let b2 = push_arg (AText (anywhere digits)) b1; dn = length (snd b2) in
        push_where (\<lambda>as d l. like_at as n (search_doc l) \<or> like_at as dn (search_doc l)) b2
      else push_where (\<lambda>as d l. like_at as n (search_doc l)) b1)"

definition appendLeadSearch :: "pg \<Rightarrow> string \<Rightarrow> string \<Rightarrow> builder \<Rightarrow> builder" where
  "appendLeadSearch p q0 field0 b =
     (let q = trim q0; field = canonicalSearchField field0 in
      if length q < 2 then b
      else if field = ''source'' then appendTextSearch l_source q b
      else if field = ''portal'' then appendTextSearch (deref \<circ> l_portal) q b
      else if field = ''lead'' then appendTextSearch l_name q b
      else if field = ''analyst'' then with_pattern q (\<lambda>d l. concat (map (\<lambda>u. [u_name u, u_email u])
        (filter (\<lambda>u. l_createdBy l = Some (u_id u)) (users d)))) b
      else if field = ''tag'' then push_where (\<lambda>as d l. list_ex (\<lambda>c. c l) (tag_clauses (to_lower q))) b
      else if field = ''phone'' then appendPhoneSearch q b
      else if field = ''email'' then appendTextSearch (deref \<circ> l_email) q b
      else if field = ''clientProfile'' then appendTextSearch (deref \<circ> l_profile) q b
      else if field = ''location'' then with_pattern q (\<lambda>d l. [deref (l_city l), deref (l_country l),
        deref (l_city l) @ '', '' @ deref (l_country l)]) b
      else if field = ''analystNotes'' then appendTextSearch (deref \<circ> l_notes) q b
      else if field = ''status'' then with_pattern q (\<lambda>d l. [l_qual l, spaced (l_qual l)]) b
      else if field = ''score'' then with_pattern q (\<lambda>d l. [case l_score l of None \<Rightarrow> [] | Some n \<Rightarrow> format_int n]) b
      else if field = ''stage'' then with_pattern q (\<lambda>d l. [l_stage l, spaced (l_stage l)]) b
      else if field = ''closed'' then push_where (\<lambda>as d. closed_clause (to_lower q)) b
      else if field = ''closedDate'' then with_pattern q (\<lambda>d l. case l_closedAt l of None \<Rightarrow> [] | Some t \<Rightarrow> pg_dates p t) b
      else if field = ''ip'' \<or> field = ''duplicateCheck'' then push_where (\<lambda>as d l. False) b
      else if field = ''executiveNotes'' then appendTextSearch (deref \<circ> l_lostNotes) q b
      else if field = ''added'' then with_pattern q (\<lambda>d l. pg_dates p (l_createdAt l)) b
      else if field = ''team'' then with_pattern q (\<lambda>d l.
        map t_name (filter (\<lambda>t. l_team l = Some (t_id t)) (teams d)) @
        map u_name (filter (\<lambda>u. l_mtl l = Some (u_id u)) (users d))) b
      else if field = ''handoff'' then with_pattern q handoff_texts b
      else if field = ''contact'' then appendContactSearch q b
      else if field = ''dealValue'' then with_pattern q (\<lambda>d l. [case l_deal l of None \<Rightarrow> [] | Some x \<Rightarrow> pg_num p x, l_currency l]) b
      else if field = ''salesExecutive'' then with_pattern q (\<lambda>d l.
        map u_name (filter (\<lambda>u. l_se l = Some (u_id u)) (users d))) b
      else appendAllSearch q b)"

subsection \<open>What a builder step adds\<close>

definition adds :: "(builder \<Rightarrow> builder) \<Rightarrow> (db \<Rightarrow> lead \<Rightarrow> bool) \<Rightarrow> bool" where
  \<comment> \<open>the step appends clauses and arguments, and the new clauses say \<open>P\<close> whatever arguments stand
      before (as many as there were) and after them\<close>
  "adds f P \<longleftrightarrow> (\<forall>b. \<exists>ws xs. f b = (fst b @ ws, snd b @ xs) \<and>
     (\<forall>pre rest d l. length pre = length (snd b) \<longrightarrow> list_all (\<lambda>c. c (pre @ xs @ rest) d l) ws = P d l))"

named_theorems adds_intros \<open>builder steps and the predicates they add\<close>

lemma arg_at_new: "length pre = n \<Longrightarrow> arg_at (pre @ x # rest) (Suc n) = Some x"
  by (simp add: arg_at_def nth_append)

lemma arg_at_second: "length pre = n \<Longrightarrow> arg_at (pre @ y # x # rest) (Suc (Suc n)) = Some x"
  using arg_at_new [of "pre @ [y]" "Suc n" x rest] by simp

lemma adds_id [adds_intros]: "adds (\<lambda>b. b) (\<lambda>d l. True)"
  unfolding adds_def by (intro allI exI [of _ "[]"]) simp

lemma adds_clause [adds_intros]: "adds (push_where (\<lambda>as d l. P d l)) P"
  unfolding adds_def by (intro allI exI [of _ "[\<lambda>as d l. P d l]"] exI [of _ "[]"]) (simp add: push_where_def)

lemma adds_arg:
  assumes "\<And>as d l. arg_at as n = Some x \<Longrightarrow> c as d l = P d l" "n = Suc (length (snd b))"
  shows "\<exists>ws xs. push_where c (push_arg x b) = (fst b @ ws, snd b @ xs) \<and>
     (\<forall>pre rest d l. length pre = length (snd b) \<longrightarrow> list_all (\<lambda>c. c (pre @ xs @ rest) d l) ws = P d l)"
  by (intro exI [of _ "[c]"] exI [of _ "[x]"]) (simp add: push_where_def push_arg_def assms arg_at_new)

lemma adds_args:
  assumes "\<And>as d l. arg_at as n = Some y \<Longrightarrow> arg_at as m = Some x \<Longrightarrow> c as d l = P d l"
    "n = Suc (length (snd b))" "m = Suc n"
  shows "\<exists>ws xs. push_where c (push_arg x (push_arg y b)) = (fst b @ ws, snd b @ xs) \<and>
     (\<forall>pre rest d l. length pre = length (snd b) \<longrightarrow> list_all (\<lambda>c. c (pre @ xs @ rest) d l) ws = P d l)"
  by (intro exI [of _ "[c]"] exI [of _ "[y, x]"])
     (simp add: push_where_def push_arg_def assms arg_at_new arg_at_second)

lemma adds_comp:
  assumes "adds f P" "adds g Q"
  shows "adds (\<lambda>b. g (f b)) (\<lambda>d l. P d l \<and> Q d l)"
  unfolding adds_def
proof
  fix b
  obtain ws xs where f: "f b = (fst b @ ws, snd b @ xs)"
    "\<And>pre rest d l. length pre = length (snd b) \<Longrightarrow> list_all (\<lambda>c. c (pre @ xs @ rest) d l) ws = P d l"
    using assms(1) unfolding adds_def by meson
  obtain vs ys where g: "g (f b) = (fst (f b) @ vs, snd (f b) @ ys)"
    "\<And>pre rest d l. length pre = length (snd (f b)) \<Longrightarrow> list_all (\<lambda>c. c (pre @ ys @ rest) d l) vs = Q d l"
    using assms(2) unfolding adds_def by meson
  have "list_all (\<lambda>c. c (pre @ (xs @ ys) @ rest) d l) (ws @ vs) = (P d l \<and> Q d l)"
    if "length pre = length (snd b)" for pre rest d l
    using f(2) [OF that, of "ys @ rest" d l] g(2) [of "pre @ xs" rest d l] that f(1) by simp
  then show "\<exists>ws xs. g (f b) = (fst b @ ws, snd b @ xs) \<and>
     (\<forall>pre rest d l. length pre = length (snd b) \<longrightarrow> list_all (\<lambda>c. c (pre @ xs @ rest) d l) ws = (P d l \<and> Q d l))"
    using g(1) by (intro exI [of _ "ws @ vs"] exI [of _ "xs @ ys"]) (simp add: f(1))
qed

lemma adds_if [adds_intros]: "(B \<Longrightarrow> adds f P) \<Longrightarrow> (\<not> B \<Longrightarrow> adds g Q) \<Longrightarrow>
    adds (\<lambda>b. if B then f b else g b) (\<lambda>d l. if B then P d l else Q d l)"
  by (cases B) simp_all

lemma adds_holds:
  assumes "adds f P" "length pre = length as"
  shows "holds_all (f ([], as)) (pre @ drop (length as) (snd (f ([], as))) @ rest) d l \<longleftrightarrow> P d l"
proof -
  obtain ws xs where f: "f ([], as) = (ws, as @ xs)"
    "\<And>pre rest d l. length pre = length as \<Longrightarrow> list_all (\<lambda>c. c (pre @ xs @ rest) d l) ws = P d l"
    using assms(1) unfolding adds_def by (metis append_Nil fst_conv snd_conv)
  show ?thesis using f(2) [OF assms(2)] by (simp add: holds_all_def f(1))
qed

subsection \<open>Escaped patterns match literally\<close>

lemma like_any: "like (CHR ''%'' # p) s \<longleftrightarrow> (\<exists>a b. s = a @ b \<and> like p b)"
proof (induction s)
  case (Cons x s)
  show ?case
  proof
    assume "like (CHR ''%'' # p) (x # s)"
    then consider "like p (x # s)" | "like (CHR ''%'' # p) s" by auto
    then show "\<exists>a b. x # s = a @ b \<and> like p b"
      by cases (use Cons.IH in \<open>metis append_Nil append_Cons\<close>)+
  next
    assume "\<exists>a b. x # s = a @ b \<and> like p b"
    then obtain a b where ab: "x # s = a @ b" "like p b" by blast
    then show "like (CHR ''%'' # p) (x # s)" using Cons.IH by (cases a) auto
  qed
qed simp

definition esc1 :: "char \<Rightarrow> string" where
  "esc1 c = (if c \<in> {CHR 0x5C, CHR ''%'', CHR ''_''} then [CHR 0x5C, c] else [c])"

lemma escape_map: "escapeILIKE s = concat (map esc1 s)"
  by (induction s) (simp_all add: escapeILIKE_def expand_def esc1_def)

lemma like_escaped: "like (escapeILIKE q @ p) s \<longleftrightarrow> (\<exists>b. s = q @ b \<and> like p b)"
proof (induction q arbitrary: s)
  case (Cons c q)
  then show ?case by (cases s) (auto simp: escape_map esc1_def)
qed (simp add: escape_map)

lemma has_prefix_iff: "has_prefix s p \<longleftrightarrow> (\<exists>b. s = p @ b)"
  by (induction s p rule: has_prefix.induct) auto

lemma contains_iff: "contains s p \<longleftrightarrow> (\<exists>a b. s = a @ p @ b)"
proof (induction s)
  case (Cons c s)
  have "(\<exists>a b. c # s = a @ p @ b) \<longleftrightarrow> (\<exists>b. c # s = p @ b) \<or> (\<exists>a b. s = a @ p @ b)"
    by (metis append_Cons append_Nil list.inject neq_Nil_conv)
  then show ?case by (simp add: Cons.IH has_prefix_iff)
qed simp

lemma like_end: "like [CHR ''%''] s"
  by (induction s) simp_all

lemma like_anywhere: "like (anywhere (escapeILIKE q)) s \<longleftrightarrow> contains s q"
proof -
  have "like (escapeILIKE q @ ''%'') b \<longleftrightarrow> (\<exists>c. b = q @ c)" for b by (simp add: like_escaped like_end del: like.simps)
  then show ?thesis by (simp add: anywhere_def like_any contains_iff del: like.simps) metis
qed

lemma char_code_less: "char_code c < 256"
  by (simp add: char_code_def)

lemma lower_code: "char_code (lower_char c) = (let n = char_code c in
    if (65 \<le> n \<and> n \<le> 90) \<or> (192 \<le> n \<and> n \<le> 222 \<and> n \<noteq> 215) then n + 32 else n)"
proof -
  have "of_char (char_of (n + 32) :: char) = n + 32" if "n \<le> 222" for n :: nat using that by simp
  then show ?thesis unfolding lower_char_def Let_def char_code_def by auto
qed

definition special :: "char \<Rightarrow> bool" where
  \<comment> \<open>the characters LIKE reads as other than themselves\<close>
  "special c \<longleftrightarrow> char_code c \<in> {92, 37, 95}"

lemma special_iff: "c \<in> {CHR 0x5C, CHR ''%'', CHR ''_''} \<longleftrightarrow> special c"
proof -
  have "char_code c = char_code d \<longleftrightarrow> c = d" for c d by (simp add: char_code_def of_char_eq_iff)
  moreover have "char_code CHR 0x5C = 92" "char_code CHR ''%'' = 37" "char_code CHR ''_'' = 95" by code_simp+
  ultimately show ?thesis by (metis (no_types, lifting) insert_iff special_def singletonD singletonI)
qed

lemma lower_special: "special (lower_char c) \<longleftrightarrow> special c"
  unfolding special_def lower_code Let_def by auto

lemma special_lower: "special c \<Longrightarrow> lower_char c = c"
  by (auto simp: special_def lower_char_def Let_def)

lemma lower_escape: "to_lower (escapeILIKE q) = escapeILIKE (to_lower q)"
proof -
  have "map lower_char (esc1 c) = esc1 (lower_char c)" for c
    unfolding esc1_def special_iff lower_special using special_lower [of c] special_lower [of "CHR 0x5C"]
    by (simp add: special_iff [symmetric])
  then show ?thesis unfolding escape_map to_lower_def by (induction q) simp_all
qed

lemma ilike_anywhere: "like (to_lower (anywhere (escapeILIKE q))) (to_lower s) \<longleftrightarrow> contains (to_lower s) (to_lower q)"
proof -
  have "to_lower (anywhere (escapeILIKE q)) = anywhere (escapeILIKE (to_lower q))"
    using special_lower [of "CHR ''%''"] lower_escape [of q]
    by (simp add: anywhere_def to_lower_def special_iff [symmetric])
  then show ?thesis by (simp add: like_anywhere)
qed

lemma like_digits: "like (anywhere (digitsOnly q)) s \<longleftrightarrow> contains s (digitsOnly q)"
proof -
  have "escapeILIKE (digitsOnly q) = digitsOnly q"
    unfolding escape_map digitsOnly_def
    by (induction q) (auto simp: esc1_def special_iff special_def is_digit_def simp del: insert_iff)
  then show ?thesis using like_anywhere [of "digitsOnly q"] by simp
qed

subsection \<open>What a search finds\<close>

definition searched_texts :: "pg \<Rightarrow> string \<Rightarrow> db \<Rightarrow> lead \<Rightarrow> string list" where
  \<comment> \<open>the texts of a lead that the search of a field looks into\<close>
  "searched_texts p field d l =
     (if field = ''source'' then [l_source l]
      else if field = ''portal'' then [deref (l_portal l)]
      else if field = ''lead'' then [l_name l]
      else if field = ''analyst'' then
        concat (map (\<lambda>u. [u_name u, u_email u]) (filter (\<lambda>u. l_createdBy l = Some (u_id u)) (users d)))
      else if field \<in> {''phone'', ''contact''} then deref (l_phone l) #
        (if field = ''contact'' then [deref (l_city l), deref (l_country l)] else [])
      else if field = ''email'' then [deref (l_email l)]
      else if field = ''clientProfile'' then [deref (l_profile l)]
      else if field = ''location'' then [deref (l_city l), deref (l_country l), deref (l_city l) @ '', '' @ deref (l_country l)]
      else if field = ''analystNotes'' then [deref (l_notes l)]
      else if field = ''executiveNotes'' then [deref (l_lostNotes l)]
      else if field = ''status'' then [l_qual l, spaced (l_qual l)]
      else if field = ''stage'' then [l_stage l, spaced (l_stage l)]
      else if field = ''score'' then [case l_score l of None \<Rightarrow> [] | Some n \<Rightarrow> format_int n]
      else if field = ''closedDate'' then (case l_closedAt l of None \<Rightarrow> [] | Some t \<Rightarrow> pg_dates p t)
      else if field = ''added'' then pg_dates p (l_createdAt l)
      else if field = ''team'' then map t_name (filter (\<lambda>t. l_team l = Some (t_id t)) (teams d)) @
        map u_name (filter (\<lambda>u. l_mtl l = Some (u_id u)) (users d))
      else if field = ''handoff'' then handoff_texts d l
      else if field = ''dealValue'' then [case l_deal l of None \<Rightarrow> [] | Some x \<Rightarrow> pg_num p x, l_currency l]
      else if field = ''salesExecutive'' then map u_name (filter (\<lambda>u. l_se l = Some (u_id u)) (users d))
      else if field \<in> {''ip'', ''duplicateCheck''} then []
      else [search_doc l])"

definition finds :: "string \<Rightarrow> string \<Rightarrow> bool" where
  "finds q v \<longleftrightarrow> contains (to_lower v) (to_lower q)"

definition found :: "pg \<Rightarrow> string \<Rightarrow> string \<Rightarrow> db \<Rightarrow> lead \<Rightarrow> bool" where
  \<comment> \<open>the meaning of a search: some searched text contains the query, case aside; a phone also when
      its digits contain those of the query\<close>
  "found p q0 field0 d l = (let q = trim q0; field = canonicalSearchField field0; digits = digitsOnly q in
     if length q < 2 then True
     else if field = ''tag'' then list_ex (\<lambda>c. c l) (tag_clauses (to_lower q))
     else if field = ''closed'' then closed_clause (to_lower q) l
     else list_ex (finds q) (searched_texts p field d l) \<or>
       (field \<in> {''phone'', ''contact''} \<and> length digits \<ge> 2 \<and> contains (bare_phone (deref (l_phone l))) digits) \<or>
       (field = [] \<and> length digits \<ge> 4 \<and> contains (search_doc l) digits))"

lemma ilike_at_any: "arg_at as n = Some (AText (anywhere (escapeILIKE q))) \<Longrightarrow> ilike_at as n v = finds q v"
  by (simp add: ilike_at_def text_at_def ilike_anywhere finds_def)

lemma like_at_any: "arg_at as n = Some (AText (anywhere (escapeILIKE q))) \<Longrightarrow> like_at as n v = contains v q"
  by (simp add: like_at_def text_at_def like_anywhere)

lemma like_at_digits: "arg_at as n = Some (AText (anywhere (digitsOnly q))) \<Longrightarrow> like_at as n v = contains v (digitsOnly q)"
  by (simp add: like_at_def text_at_def like_digits)

lemma length_push: "length (snd (push_arg x b)) = Suc (length (snd b))"
  by (simp add: push_arg_def)

lemma adds_text [adds_intros]: "adds (appendTextSearch expr q) (\<lambda>d l. finds q (expr l))"
  unfolding adds_def appendTextSearch_def pattern_arg_def Let_def
  by (intro allI adds_arg) (simp_all add: ilike_at_any length_push)

lemma adds_pattern [adds_intros]: "adds (with_pattern q texts) (\<lambda>d l. list_ex (finds q) (texts d l))"
  unfolding adds_def with_pattern_def pattern_arg_def Let_def
  by (intro allI adds_arg) (simp_all add: ilike_at_any length_push cong: list_ex_cong)

lemma adds_phone [adds_intros]: "adds (appendPhoneSearch q) (\<lambda>d l. finds q (deref (l_phone l)) \<or>
    (length (digitsOnly q) \<ge> 2 \<and> contains (bare_phone (deref (l_phone l))) (digitsOnly q)))"
proof (cases "length (digitsOnly q) \<ge> 2")
  case True
  then show ?thesis
    unfolding adds_def appendPhoneSearch_def Let_def if_P [OF True]
    by (intro allI adds_args) (simp_all add: ilike_at_any like_at_digits length_push)
next
  case False
  then show ?thesis
    unfolding adds_def appendPhoneSearch_def Let_def if_not_P [OF False]
    by (intro allI adds_arg) (simp_all add: ilike_at_any length_push)
qed

lemma lower_idem: "to_lower (to_lower s) = to_lower s"
proof -
  have "char_code (lower_char (lower_char c)) = char_code (lower_char c)" for c
    unfolding lower_code Let_def by auto
  then have "lower_char (lower_char c) = lower_char c" for c by (simp add: char_code_def of_char_eq_iff)
  then show ?thesis by (simp add: to_lower_def)
qed

lemma finds_doc: "finds q (search_doc l) \<longleftrightarrow> contains (search_doc l) (to_lower q)"
  unfolding finds_def search_doc_def lower_idem ..

lemma adds_contact [adds_intros]: "adds (appendContactSearch q) (\<lambda>d l.
    list_ex (finds q) [deref (l_phone l), deref (l_city l), deref (l_country l)] \<or>
    (length (digitsOnly q) \<ge> 2 \<and> contains (bare_phone (deref (l_phone l))) (digitsOnly q)))"
proof (cases "length (digitsOnly q) \<ge> 2")
  case True
  then show ?thesis
    unfolding adds_def appendContactSearch_def pattern_arg_def Let_def if_P [OF True]
    by (intro allI adds_args) (simp_all add: ilike_at_any like_at_digits length_push)
next
  case False
  then show ?thesis
    unfolding adds_def appendContactSearch_def pattern_arg_def Let_def if_not_P [OF False]
    by (intro allI adds_arg) (simp_all add: ilike_at_any length_push)
qed

lemma adds_all [adds_intros]: "adds (appendAllSearch q) (\<lambda>d l. finds q (search_doc l) \<or>
    (length (digitsOnly q) \<ge> 4 \<and> contains (search_doc l) (digitsOnly q)))"
proof (cases "length (digitsOnly q) \<ge> 4")
  case True
  then show ?thesis
    unfolding adds_def appendAllSearch_def Let_def if_P [OF True]
    by (intro allI adds_args) (simp_all add: like_at_any like_at_digits length_push finds_doc)
next
  case False
  then show ?thesis
    unfolding adds_def appendAllSearch_def Let_def if_not_P [OF False]
    by (intro allI adds_arg) (simp_all add: like_at_any length_push finds_doc)
qed

lemma adds_eq: "adds f P \<Longrightarrow> (\<And>b. g b = f b) \<Longrightarrow> (\<And>d l. Q d l = P d l) \<Longrightarrow> adds g Q"
  by (simp add: adds_def)

definition field_names :: "string list" where
  "field_names = [''source'', ''portal'', ''lead'', ''analyst'', ''tag'', ''phone'', ''email'', ''clientProfile'',
     ''location'', ''analystNotes'', ''status'', ''score'', ''stage'', ''closed'', ''closedDate'', ''ip'',
     ''duplicateCheck'', ''executiveNotes'', ''added'', ''team'', ''handoff'', ''contact'', ''dealValue'',
     ''salesExecutive'', []]"

lemma canonical_in: "canonicalSearchField f \<in> set field_names"
proof -
  have "canonicalSearchField f \<in> insert [] (fst ` set (search_fields @ map (\<lambda>n. (n, [n])) [''source'', ''portal'', ''lead'', ''analyst'', ''tag'',
       ''phone'', ''email'', ''location'', ''status'', ''score'', ''stage'', ''closed'', ''ip'', ''added'',
       ''team'', ''handoff'', ''contact'']))"
    unfolding canonicalSearchField_def Let_def by (rule case_lookup_in)
  then show ?thesis by (auto simp: search_fields_def field_names_def)
qed

lemma adds_search [adds_intros]: "adds (appendLeadSearch p q0 field0) (found p q0 field0)"
proof (cases "length (trim q0) < 2")
  case True
  show ?thesis by (rule adds_eq [OF adds_id]) (simp_all add: appendLeadSearch_def found_def Let_def True)
next
  case False
  note rule = adds_text adds_pattern adds_phone adds_contact adds_all adds_clause
  from canonical_in [of field0] show ?thesis
    unfolding field_names_def list.set
    apply (elim insertE emptyE)
    apply (rule adds_eq, rule rule, simp add: appendLeadSearch_def Let_def False, simp add: found_def Let_def False searched_texts_def)+
    done
qed

end
