(* ===== verification/LeadFilter.thy ===== *)
theory LeadFilter
  imports Search Times Access
begin

section \<open>Filters and facets of the lead list (leads.go, geo_filter.go)\<close>

text \<open>
  The conditions a list request puts on the leads: the filter preset, the facets of the sidebar and
  the search, built into clauses and arguments by \<open>buildLeadListWhere\<close>, and the geography filter of
  the summaries. Each step is proved to add the predicate it stands for, whatever arguments precede
  and follow, so the numbering of the placeholders is part of what is proved.
\<close>

subsection \<open>Filter presets\<close>

definition push_texts :: "string list \<Rightarrow> builder \<Rightarrow> builder" where
  "push_texts xs b = (fst b, snd b @ map AText xs)"

definition one_of :: "arg list \<Rightarrow> nat list \<Rightarrow> string \<Rightarrow> bool" where
  \<comment> \<open>\<open>v IN ($n, ...)\<close>\<close>
  "one_of as ns v = list_ex (\<lambda>n. text_at as n (\<lambda>s. v = s)) ns"

definition with_in :: "string list \<Rightarrow> ((string \<Rightarrow> bool) \<Rightarrow> db \<Rightarrow> lead \<Rightarrow> bool) \<Rightarrow> builder \<Rightarrow> builder" where
  \<comment> \<open>append the texts and a clause over their placeholders\<close>
  "with_in xs f b0 = (let b = push_texts xs b0; n = length (snd b) in
     push_where (\<lambda>as d l. f (one_of as [n + 1 - length xs ..< n + 1]) d l) b)"

definition stage_in :: "string list \<Rightarrow> builder \<Rightarrow> builder" where
  "stage_in xs = with_in xs (\<lambda>mem d l. mem (l_stage l))"

definition appendQualifiedStatuses :: "builder \<Rightarrow> builder" where
  "appendQualifiedStatuses b = (if assignableQualificationCodes = [] then b
     else with_in assignableQualificationCodes (\<lambda>mem d l. mem (l_qual l)) b)"

definition appendLeadFilter :: "string \<Rightarrow> builder \<Rightarrow> builder" where
  "appendLeadFilter f b =
     (if f \<in> {''new'', ''not_qualified''} then with_in [''NOT_QUALIFIED''] (\<lambda>mem d l. mem (l_qual l)) b
      else if f = ''qualified'' then appendQualifiedStatuses b
      else if f = ''irrelevant'' then with_in [''IRRELEVANT''] (\<lambda>mem d l. mem (l_qual l)) b
      else if f = ''not_appropriate'' then push_where (\<lambda>as d l. l_notAppr l) b
      else if f = ''open'' then with_in [''CLOSED_WON'', ''CLOSED_LOST''] (\<lambda>mem d l. l_closedAt l = None \<and> \<not> mem (l_stage l)) b
      else if f = ''contacted'' then stage_in [''WITH_EXECUTIVE'', ''WITH_TEAM_LEAD'', ''IN_NEGOTIATION'', ''NOT_CONNECTED''] b
      else if f = ''converted'' then stage_in [''CLOSED_WON''] b
      else if f = ''lost'' then stage_in [''CLOSED_LOST''] b
      else if f = ''passed'' then with_in [''DIRECT_ASSIGNED_TO_EXECUTIVE_BY_ATL'', ''ASSIGNED_TO_EXECUTIVE'']
        (\<lambda>mem d l. list_ex (\<lambda>h. ho_lead h = l_id l \<and> mem (ho_action h)) (handoffs d)) b
      else if f \<in> {''passed_se_tl'', ''pipeline_assigned''} then
        stage_in [''WITH_TEAM_LEAD'', ''WITH_EXECUTIVE''] (appendQualifiedStatuses b)
      else if f = ''not_passed'' then stage_in [''PRE_SALES''] b
      else if f = ''with_team_lead'' then stage_in [''WITH_TEAM_LEAD''] b
      else if f = ''with_sales_exec'' then stage_in [''WITH_EXECUTIVE''] b
      else if f = ''assigned'' then stage_in [''WITH_TEAM_LEAD'', ''WITH_EXECUTIVE''] b
      else if f = ''in_progress'' then stage_in [''NOT_CONNECTED'', ''IN_NEGOTIATION'', ''NO_RESPONSE_FROM_CLIENT''] b
      else if f = ''pipeline'' then appendQualifiedStatuses b
      else if f = ''pipeline_in_progress'' then
        stage_in [''NOT_CONNECTED'', ''IN_NEGOTIATION'', ''NO_RESPONSE_FROM_CLIENT''] (appendQualifiedStatuses b)
      else if f = ''pipeline_won'' then stage_in [''CLOSED_WON''] (appendQualifiedStatuses b)
      else if f = ''pipeline_lost'' then stage_in [''CLOSED_LOST''] (appendQualifiedStatuses b)
      else b)"

subsection \<open>Facets\<close>

definition is_nobody :: "string \<Rightarrow> bool" where
  "is_nobody v \<longleftrightarrow> equal_fold v ''none'' \<or> equal_fold v ''unassigned''"

definition same_text :: "string option \<Rightarrow> string \<Rightarrow> bool" where
  \<comment> \<open>\<open>LOWER(BTRIM(x)) = LOWER(BTRIM(v))\<close>, not true of NULL\<close>
  "same_text x v = (case x of None \<Rightarrow> False | Some s \<Rightarrow> to_lower (btrim s) = to_lower (btrim v))"

definition appendTrimEqual :: "(lead \<Rightarrow> string option) \<Rightarrow> string \<Rightarrow> builder \<Rightarrow> builder" where
  "appendTrimEqual expr v0 b = (let v = trim v0 in if v = [] then b
     else let b1 = push_arg (AText v) b; n = length (snd b1) in
       push_where (\<lambda>as d l. text_at as n (same_text (expr l))) b1)"

definition appendBlankOrEqual :: "(lead \<Rightarrow> string option) \<Rightarrow> string \<Rightarrow> builder \<Rightarrow> builder" where
  "appendBlankOrEqual expr v0 b = (let v = trim v0 in if v = [] then b
     else if is_nobody v then push_where (\<lambda>as d l. expr l = None \<or> btrim (deref (expr l)) = []) b
     else appendTrimEqual expr v b)"

definition appendNullableID :: "(lead \<Rightarrow> string option) \<Rightarrow> string \<Rightarrow> builder \<Rightarrow> builder" where
  "appendNullableID col v0 b = (let v = trim v0 in if v = [] then b
     else if is_nobody v then push_where (\<lambda>as d l. col l = None) b
     else let b1 = push_arg (AText v) b; n = length (snd b1) in
       push_where (\<lambda>as d l. text_at as n (\<lambda>s. col l = Some s)) b1)"

definition isBlankGeoLabel :: "string \<Rightarrow> bool" where
  "isBlankGeoLabel v \<longleftrightarrow> to_lower (trim v) \<in> {''unknown'', ''none'', ''unassigned'', ''blank''}"

definition blankGeo :: "string option \<Rightarrow> bool" where
  \<comment> \<open>the condition blankGeoSQL generates\<close>
  "blankGeo x = (case x of None \<Rightarrow> True | Some s \<Rightarrow> btrim s = [] \<or>
     to_lower (btrim s) \<in> {''unknown'', ''none'', ''unassigned'', ''blank''})"

definition normalizedCountry :: "string option \<Rightarrow> string" where
  \<comment> \<open>the expression normalizedCountrySQL generates\<close>
  "normalizedCountry x = (if blankGeo x then ''Unknown'' else btrim (deref x))"

definition appendGeoFacet :: "(lead \<Rightarrow> string option) \<Rightarrow> string \<Rightarrow> builder \<Rightarrow> builder" where
  \<comment> \<open>the country or city branch of appendLeadFacets\<close>
  "appendGeoFacet expr v b = (if v = [] then b
     else if isBlankGeoLabel v then push_where (\<lambda>as d l. blankGeo (expr l)) b
     else appendTrimEqual expr v b)"

definition appendManager :: "string \<Rightarrow> builder \<Rightarrow> builder" where
  "appendManager v0 b = (let v = trim v0 in if v = [] then b
     else let b1 = push_arg (AText v) b; n = length (snd b1) in
       push_where (\<lambda>as d l. list_ex (\<lambda>u. l_createdBy l = Some (u_id u) \<and>
         text_at as n (\<lambda>s. u_managerId u = Some s)) (users d)) b1)"

definition analystTeamLeadScope :: "string \<Rightarrow> string \<Rightarrow> builder \<Rightarrow> builder" where
  \<comment> \<open>analystTeamLeadScopeSQL and the append of its clause\<close>
  "analystTeamLeadScope atl0 team0 b0 = (let atl = trim atl0; team = trim team0 in if atl = [] then b0
     else let b2 = push_arg (AText RoleLeadAnalyst) (push_arg (AText atl) b0);
              roleN = length (snd b2); atlN = roleN - 1 in
       if team = [] then push_where (\<lambda>as d l. list_ex (\<lambda>u. l_createdBy l = Some (u_id u) \<and>
           (text_at as atlN (\<lambda>s. u_id u = s) \<or>
            (text_at as roleN (\<lambda>s. u_role u = s) \<and> text_at as atlN (\<lambda>s. u_managerId u = Some s)))) (users d)) b2
       else let b3 = push_arg (AText team) b2; teamN = length (snd b3) in
         push_where (\<lambda>as d l. list_ex (\<lambda>u. l_createdBy l = Some (u_id u) \<and>
           (text_at as atlN (\<lambda>s. u_id u = s) \<or>
            (text_at as roleN (\<lambda>s. u_role u = s) \<and> (text_at as atlN (\<lambda>s. u_managerId u = Some s) \<or>
              text_at as teamN (\<lambda>s. to_lower (btrim (deref (u_analystTeam u))) = to_lower (btrim s)))))) (users d)) b3)"

definition portal_like :: "string \<Rightarrow> lead \<Rightarrow> bool" where
  "portal_like pat l = (case l_portal l of None \<Rightarrow> False | Some s \<Rightarrow> like (to_lower pat) (to_lower s))"

definition appendServiceLineFacet :: "string \<Rightarrow> builder \<Rightarrow> builder" where
  "appendServiceLineFacet line b = (let x = to_upper (trim line) in
     if x = ''CDR'' then push_where (\<lambda>as d. portal_like ''%CDR%'') b
     else if x = ''CCL'' then push_where (\<lambda>as d l. portal_like ''%CCL%'' l \<or> portal_like ''%NAATI%'' l) b
     else if x = ''PTE'' then push_where (\<lambda>as d. portal_like ''%PTE%'') b
     else if x = ''ACS'' then push_where (\<lambda>as d. portal_like ''%ACS%'') b
     else b)"

subsection \<open>The recorded reason of a qualification\<close>

definition no_reason :: string where
  "no_reason = ''No reason recorded''"

definition re_space :: "char \<Rightarrow> bool" where
  \<comment> \<open>\<open>\s\<close> of the regular expressions, on ASCII white space\<close>
  "re_space c \<longleftrightarrow> char_code c = 32 \<or> (9 \<le> char_code c \<and> char_code c \<le> 13)"

fun strip_word :: "string \<Rightarrow> string \<Rightarrow> string option" where
  \<comment> \<open>the text after the word, case aside\<close>
  "strip_word [] s = Some s"
| "strip_word (w # ws) [] = None"
| "strip_word (w # ws) (c # cs) = (if lower_char c = lower_char w then strip_word ws cs else None)"

definition label_at :: "string \<Rightarrow> string option" where
  \<comment> \<open>\<open>qualification\s+reason\s*:\<close> at the start of the text; the rest of it\<close>
  "label_at s = (case strip_word ''qualification'' s of None \<Rightarrow> None | Some r1 \<Rightarrow>
     if r1 = [] \<or> \<not> re_space (hd r1) then None
     else case strip_word ''reason'' (dropWhile re_space r1) of None \<Rightarrow> None | Some r2 \<Rightarrow>
     (case dropWhile re_space r2 of c # r \<Rightarrow> if c = CHR '':'' then Some r else None | [] \<Rightarrow> None))"

fun has_label :: "string \<Rightarrow> bool" where
  "has_label [] = (label_at [] \<noteq> None)"
| "has_label (c # cs) = (label_at (c # cs) \<noteq> None \<or> has_label cs)"

definition newline :: char where
  "newline = CHR 0x0A"

definition reason_group :: "string \<Rightarrow> string option" where
  \<comment> \<open>the group of \<open>\s*([^\n]+)\<close> after the label: the white space takes what it can\<close>
  "reason_group r = (let rest = dropWhile re_space r in
     if rest \<noteq> [] then Some (takeWhile (\<lambda>c. c \<noteq> newline) rest)
     else case dropWhile (\<lambda>c. c = newline) (rev r) of [] \<Rightarrow> None | c # _ \<Rightarrow> Some [c])"

fun labelled_reason :: "string \<Rightarrow> string option" where
  \<comment> \<open>\<open>SUBSTRING(notes FROM '(?i)qualification\s+reason\s*:\s*([^\n]+)')\<close>: the leftmost match\<close>
  "labelled_reason [] = None"
| "labelled_reason (c # cs) = (case label_at (c # cs) of None \<Rightarrow> labelled_reason cs
     | Some r \<Rightarrow> (case reason_group r of None \<Rightarrow> labelled_reason cs | Some g \<Rightarrow> Some g))"

definition nullif_empty :: "string \<Rightarrow> string option" where
  "nullif_empty s = (if s = [] then None else Some s)"

definition rawQualificationReason :: "lead \<Rightarrow> string option" where
  "rawQualificationReason l = (case l_notes l of None \<Rightarrow> Some no_reason | Some notes \<Rightarrow>
     if btrim notes = [] then Some no_reason
     else if has_label notes then
       Option.bind (labelled_reason notes) (\<lambda>g. nullif_empty (take 200 (btrim g)))
     else nullif_empty (take 200 (btrim (takeWhile (\<lambda>c. c \<noteq> newline) notes))))"

definition lead_reason :: "lead \<Rightarrow> string" where
  "lead_reason l = (case rawQualificationReason l of None \<Rightarrow> no_reason | Some r \<Rightarrow> r)"

definition appendQualificationReasonFacet :: "string \<Rightarrow> builder \<Rightarrow> builder" where
  "appendQualificationReasonFacet reason b = (let r = trim reason in if r = [] then b
     else if equal_fold r no_reason \<or> is_nobody r then push_where (\<lambda>as d l. lead_reason l = no_reason) b
     else let b1 = push_arg (AText r) b; n = length (snd b1) in
       push_where (\<lambda>as d l. text_at as n (\<lambda>s. lead_reason l = s)) b1)"

subsection \<open>Days\<close>

definition parseLeadAddedDay :: "string \<Rightarrow> civil option" where
  \<comment> \<open>the calendar day; business days start at midnight in the zone\<close>
  "parseLeadAddedDay raw0 = (let raw = trim raw0 in
     if length raw < 10 then None
     else case complete (parse_date (take 10 raw)) of None \<Rightarrow> None
       | Some c \<Rightarrow> if cv_year c < 1990 \<or> cv_year c > 2100 then None else Some c)"

definition day_ms :: int where
  "day_ms = 86400000"

definition midnight :: "zone \<Rightarrow> civil \<Rightarrow> int" where
  \<comment> \<open>in milliseconds, as the timestamps of the tables\<close>
  "midnight zone c = zone (wall c) div 1000000"

definition next_midnight :: "zone \<Rightarrow> civil \<Rightarrow> int" where
  \<comment> \<open>\<open>AddDate(0, 0, 1)\<close>\<close>
  "next_midnight zone c = zone (wall c + day_ms * 1000000) div 1000000"

definition time_at :: "arg list \<Rightarrow> nat \<Rightarrow> (int \<Rightarrow> bool) \<Rightarrow> bool" where
  "time_at as n P = (case arg_at as n of Some (ATime t) \<Rightarrow> P t | _ \<Rightarrow> False)"

definition added_range :: "zone \<Rightarrow> string \<Rightarrow> string \<Rightarrow> civil option \<times> civil option" where
  \<comment> \<open>the two days, swapped when given in the wrong order\<close>
  "added_range zone from0 to0 =
     (case (parseLeadAddedDay (trim from0), parseLeadAddedDay (trim to0)) of
        (Some a, Some z) \<Rightarrow> if midnight zone a > midnight zone z then (Some z, Some a) else (Some a, Some z)
      | p \<Rightarrow> p)"

definition appendTime :: "(int \<Rightarrow> int \<Rightarrow> bool) \<Rightarrow> int option \<Rightarrow> builder \<Rightarrow> builder" where
  \<comment> \<open>one bound on \<open>createdAt\<close>\<close>
  "appendTime cmp bound b0 = (case bound of None \<Rightarrow> b0 | Some t \<Rightarrow>
     let b = push_arg (ATime t) b0; n = length (snd b) in
     push_where (\<lambda>as d l. time_at as n (cmp (l_createdAt l))) b)"

definition appendAdded :: "zone \<Rightarrow> string \<Rightarrow> string \<Rightarrow> builder \<Rightarrow> builder" where
  "appendAdded zone from0 to0 b0 = (case added_range zone from0 to0 of (f, t) \<Rightarrow>
     appendTime (<) (map_option (next_midnight zone) t) (appendTime (\<ge>) (map_option (midnight zone) f) b0))"

subsection \<open>The whole condition\<close>

definition appendUpperEqual :: "(lead \<Rightarrow> string) \<Rightarrow> string \<Rightarrow> builder \<Rightarrow> builder" where
  \<comment> \<open>the status and stage branches of appendLeadFacets\<close>
  "appendUpperEqual col v0 b = (let v = trim v0 in if v = [] then b
     else let b1 = push_arg (AText (to_upper v)) b; n = length (snd b1) in
       push_where (\<lambda>as d l. text_at as n (\<lambda>s. col l = s)) b1)"

definition appendLeadFacets :: "zone \<Rightarrow> lead_params \<Rightarrow> builder \<Rightarrow> builder" where
  "appendLeadFacets zone ps b0 =
     (let geo = parseGeoFilter (lp_country ps) (lp_city ps);
          b1 = appendGeoFacet l_country (gf_country geo) b0;
          b2 = appendGeoFacet l_city (gf_city geo) b1;
          b3 = appendNullableID l_team (lp_team ps) b2;
          b4 = appendNullableID l_createdBy (lp_analyst ps) b3;
          b5 = appendNullableID l_se (lp_se ps) b4;
          b6 = appendManager (lp_manager ps) b5;
          b7 = analystTeamLeadScope (lp_atl ps) (lp_atlTeam ps) b6;
          b8 = appendBlankOrEqual (\<lambda>l. Some (l_source l)) (lp_source ps) b7;
          b9 = appendBlankOrEqual l_portal (lp_portal ps) b8;
          b10 = appendBlankOrEqual l_metaProfile (lp_metaProfile ps) b9;
          b11 = (if trim (lp_portal ps) = [] then appendServiceLineFacet (lp_serviceLine ps) b10 else b10);
          b12 = appendUpperEqual l_qual (lp_status ps) b11;
          b13 = appendUpperEqual l_stage (lp_stage ps) b12;
          b14 = appendAdded zone (lp_addedFrom ps) (lp_addedTo ps) b13
      in appendQualificationReasonFacet (lp_reason ps) b14)"

definition buildLeadListWhere :: "pg \<Rightarrow> zone \<Rightarrow> lead_params \<Rightarrow> nat \<Rightarrow> clause list \<times> arg list" where
  "buildLeadListWhere p zone ps reserved =
     (let b0 = ([], replicate reserved ANull);
          b1 = (if trim (lp_status ps) = [] then appendLeadFilter (normalizeLeadFilter (lp_filter ps)) b0 else b0);
          b2 = appendLeadFacets zone ps b1;
          b3 = appendLeadSearch p (lp_query ps) (lp_field ps) b2
      in (fst b3, if reserved > 0 then drop reserved (snd b3) else snd b3))"

subsection \<open>What the conditions mean\<close>

definition qualified_now :: "lead \<Rightarrow> bool" where
  "qualified_now l \<longleftrightarrow> l_qual l \<in> set assignableQualificationCodes"

definition filter_means :: "string \<Rightarrow> db \<Rightarrow> lead \<Rightarrow> bool" where
  "filter_means f d l =
     (if f \<in> {''new'', ''not_qualified''} then l_qual l = ''NOT_QUALIFIED''
      else if f = ''qualified'' then qualified_now l
      else if f = ''irrelevant'' then l_qual l = ''IRRELEVANT''
      else if f = ''not_appropriate'' then l_notAppr l
      else if f = ''open'' then l_closedAt l = None \<and> l_stage l \<notin> {''CLOSED_WON'', ''CLOSED_LOST''}
      else if f = ''contacted'' then l_stage l \<in> {''WITH_EXECUTIVE'', ''WITH_TEAM_LEAD'', ''IN_NEGOTIATION'', ''NOT_CONNECTED''}
      else if f = ''converted'' then l_stage l = ''CLOSED_WON''
      else if f = ''lost'' then l_stage l = ''CLOSED_LOST''
      else if f = ''passed'' then list_ex (\<lambda>h. ho_lead h = l_id l \<and>
        ho_action h \<in> {''DIRECT_ASSIGNED_TO_EXECUTIVE_BY_ATL'', ''ASSIGNED_TO_EXECUTIVE''}) (handoffs d)
      else if f \<in> {''passed_se_tl'', ''pipeline_assigned''} then qualified_now l \<and> l_stage l \<in> {''WITH_TEAM_LEAD'', ''WITH_EXECUTIVE''}
      else if f = ''not_passed'' then l_stage l = ''PRE_SALES''
      else if f = ''with_team_lead'' then l_stage l = ''WITH_TEAM_LEAD''
      else if f = ''with_sales_exec'' then l_stage l = ''WITH_EXECUTIVE''
      else if f = ''assigned'' then l_stage l \<in> {''WITH_TEAM_LEAD'', ''WITH_EXECUTIVE''}
      else if f = ''in_progress'' then l_stage l \<in> {''NOT_CONNECTED'', ''IN_NEGOTIATION'', ''NO_RESPONSE_FROM_CLIENT''}
      else if f = ''pipeline'' then qualified_now l
      else if f = ''pipeline_in_progress'' then qualified_now l \<and> l_stage l \<in> {''NOT_CONNECTED'', ''IN_NEGOTIATION'', ''NO_RESPONSE_FROM_CLIENT''}
      else if f = ''pipeline_won'' then qualified_now l \<and> l_stage l = ''CLOSED_WON''
      else if f = ''pipeline_lost'' then qualified_now l \<and> l_stage l = ''CLOSED_LOST''
      else True)"

definition id_facet :: "string \<Rightarrow> string option \<Rightarrow> bool" where
  "id_facet v x \<longleftrightarrow> trim v = [] \<or> (if is_nobody (trim v) then x = None else x = Some (trim v))"

definition text_facet :: "string \<Rightarrow> string option \<Rightarrow> bool" where
  "text_facet v x \<longleftrightarrow> trim v = [] \<or>
     (if is_nobody (trim v) then x = None \<or> btrim (deref x) = [] else same_text x (trim v))"

definition geo_facet :: "string \<Rightarrow> string option \<Rightarrow> bool" where
  "geo_facet v x \<longleftrightarrow> trim v = [] \<or> (if isBlankGeoLabel v then blankGeo x else same_text x (trim v))"

definition manager_facet :: "string \<Rightarrow> db \<Rightarrow> lead \<Rightarrow> bool" where
  "manager_facet v d l \<longleftrightarrow> trim v = [] \<or>
     list_ex (\<lambda>u. l_createdBy l = Some (u_id u) \<and> u_managerId u = Some (trim v)) (users d)"

definition line_facet :: "string \<Rightarrow> lead \<Rightarrow> bool" where
  "line_facet line l = (let x = to_upper (trim line); has = (\<lambda>w. l_portal l \<noteq> None \<and> finds w (deref (l_portal l))) in
     if x = ''CDR'' then has ''CDR'' else if x = ''CCL'' then has ''CCL'' \<or> has ''NAATI''
     else if x = ''PTE'' then has ''PTE'' else if x = ''ACS'' then has ''ACS'' else True)"

definition reason_facet :: "string \<Rightarrow> lead \<Rightarrow> bool" where
  "reason_facet v l \<longleftrightarrow> trim v = [] \<or> lead_reason l =
     (if equal_fold (trim v) no_reason \<or> is_nobody (trim v) then no_reason else trim v)"

definition added_facet :: "zone \<Rightarrow> string \<Rightarrow> string \<Rightarrow> lead \<Rightarrow> bool" where
  "added_facet zone from0 to0 l = (case added_range zone from0 to0 of (f, t) \<Rightarrow>
     (case f of None \<Rightarrow> True | Some c \<Rightarrow> midnight zone c \<le> l_createdAt l) \<and>
     (case t of None \<Rightarrow> True | Some c \<Rightarrow> l_createdAt l < next_midnight zone c))"

definition facets_mean :: "zone \<Rightarrow> lead_params \<Rightarrow> db \<Rightarrow> lead \<Rightarrow> bool" where
  \<comment> \<open>the facets of the sidebar, together\<close>
  "facets_mean zone ps d l \<longleftrightarrow>
     geo_facet (lp_country ps) (l_country l) \<and> geo_facet (lp_city ps) (l_city l) \<and>
     id_facet (lp_team ps) (l_team l) \<and> id_facet (lp_analyst ps) (l_createdBy l) \<and> id_facet (lp_se ps) (l_se l) \<and>
     manager_facet (lp_manager ps) d l \<and>
     (trim (lp_atl ps) \<noteq> [] \<longrightarrow> in_analyst_scope d (trim (lp_atl ps)) (trim (lp_atlTeam ps)) l) \<and>
     text_facet (lp_source ps) (Some (l_source l)) \<and> text_facet (lp_portal ps) (l_portal l) \<and>
     text_facet (lp_metaProfile ps) (l_metaProfile l) \<and>
     (trim (lp_portal ps) = [] \<longrightarrow> line_facet (lp_serviceLine ps) l) \<and>
     (trim (lp_status ps) \<noteq> [] \<longrightarrow> l_qual l = to_upper (trim (lp_status ps))) \<and>
     (trim (lp_stage ps) \<noteq> [] \<longrightarrow> l_stage l = to_upper (trim (lp_stage ps))) \<and>
     added_facet zone (lp_addedFrom ps) (lp_addedTo ps) l \<and> reason_facet (lp_reason ps) l"

definition lead_matches :: "pg \<Rightarrow> zone \<Rightarrow> lead_params \<Rightarrow> db \<Rightarrow> lead \<Rightarrow> bool" where
  \<comment> \<open>the leads a list request asks for\<close>
  "lead_matches p zone ps d l \<longleftrightarrow>
     (trim (lp_status ps) = [] \<longrightarrow> filter_means (normalizeLeadFilter (lp_filter ps)) d l) \<and>
     facets_mean zone ps d l \<and> found p (lp_query ps) (lp_field ps) d l"

lemma text_at_hit: "arg_at as n = Some (AText s) \<Longrightarrow> text_at as n P = P s"
  by (simp add: text_at_def)

lemma time_at_hit: "arg_at as n = Some (ATime t) \<Longrightarrow> time_at as n P = P t"
  by (simp add: time_at_def)

lemma one_of_new:
  assumes "length pre = n"
  shows "one_of (pre @ map AText xs @ rest) [Suc n ..< Suc n + length xs] v \<longleftrightarrow> v \<in> set xs"
proof -
  have hit: "arg_at (pre @ map AText xs @ rest) (i + Suc n) = Some (AText (xs ! i))" if "i < length xs" for i
    using that assms by (simp add: arg_at_def nth_append)
  have "[Suc n ..< Suc n + length xs] = map (\<lambda>i. i + Suc n) [0..<length xs]"
    by (simp only: map_add_upt add.commute)
  then have "one_of (pre @ map AText xs @ rest) [Suc n ..< Suc n + length xs] v \<longleftrightarrow>
      (\<exists>i \<in> {0..<length xs}. text_at (pre @ map AText xs @ rest) (i + Suc n) (\<lambda>s. v = s))"
    by (simp only: one_of_def list_ex_iff set_map set_upt bex_simps)
  also have "\<dots> \<longleftrightarrow> (\<exists>i < length xs. v = xs ! i)" using hit by (auto simp: text_at_hit simp del: add_Suc_right)
  finally have "one_of (pre @ map AText xs @ rest) [Suc n ..< Suc n + length xs] v \<longleftrightarrow> (\<exists>i < length xs. v = xs ! i)" .
  then show ?thesis by (metis in_set_conv_nth)
qed

lemma adds_in:
  assumes "\<And>mem d l. (\<And>v. mem v \<longleftrightarrow> v \<in> set xs) \<Longrightarrow> f mem d l = P d l"
  shows "adds (with_in xs f) P"
  unfolding adds_def
proof
  fix b :: builder
  let ?ns = "[Suc (length (snd b)) ..< Suc (length (snd b)) + length xs]"
  have "with_in xs f b = (fst b @ [\<lambda>as d l. f (one_of as ?ns) d l], snd b @ map AText xs)"
    by (simp add: with_in_def push_texts_def push_where_def Let_def)
  moreover have "list_all (\<lambda>c. c (pre @ map AText xs @ rest) d l) [\<lambda>as d l. f (one_of as ?ns) d l] = P d l"
    if "length pre = length (snd b)" for pre rest d l
    using assms [OF one_of_new [OF that, where rest = rest and xs = xs]] by simp
  ultimately show "\<exists>ws ys. with_in xs f b = (fst b @ ws, snd b @ ys) \<and>
     (\<forall>pre rest d l. length pre = length (snd b) \<longrightarrow> list_all (\<lambda>c. c (pre @ ys @ rest) d l) ws = P d l)"
    by blast
qed

lemma adds_stage: "adds (stage_in xs) (\<lambda>d l. l_stage l \<in> set xs)"
  unfolding stage_in_def by (rule adds_in) simp

lemma adds_qualified: "adds appendQualifiedStatuses (\<lambda>d l. qualified_now l)"
proof (rule adds_eq)
  show "adds (with_in assignableQualificationCodes (\<lambda>mem d l. mem (l_qual l))) (\<lambda>d l. qualified_now l)"
    by (rule adds_in) (simp add: qualified_now_def)
qed (simp_all add: appendQualifiedStatuses_def assignableQualificationCodes_def)

lemma adds_qualified_stage:
  "adds (\<lambda>b. stage_in xs (appendQualifiedStatuses b)) (\<lambda>d l. qualified_now l \<and> l_stage l \<in> set xs)"
  by (rule adds_comp [OF adds_qualified adds_stage])

lemma adds_open: "adds (with_in [''CLOSED_WON'', ''CLOSED_LOST''] (\<lambda>mem d l. l_closedAt l = None \<and> \<not> mem (l_stage l)))
    (\<lambda>d l. l_closedAt l = None \<and> l_stage l \<notin> {''CLOSED_WON'', ''CLOSED_LOST''})"
  by (rule adds_in) simp

lemma adds_qual_in: "adds (with_in xs (\<lambda>mem d l. mem (l_qual l))) (\<lambda>d l. l_qual l \<in> set xs)"
  by (rule adds_in) simp

lemma adds_handed: "adds (with_in xs (\<lambda>mem d l. list_ex (\<lambda>h. ho_lead h = l_id l \<and> mem (ho_action h)) (handoffs d)))
    (\<lambda>d l. list_ex (\<lambda>h. ho_lead h = l_id l \<and> ho_action h \<in> set xs) (handoffs d))"
  by (rule adds_in) simp

lemma adds_filter: "adds (appendLeadFilter f) (filter_means f)"
proof (rule adds_eq [OF _ appendLeadFilter_def filter_means_def], intro adds_if)
qed (rule adds_eq, rule adds_qual_in adds_qualified adds_clause adds_open adds_qualified_stage adds_stage adds_handed adds_id,
     rule refl, simp)+

lemma adds_trim_equal: "adds (appendTrimEqual expr v) (\<lambda>d l. trim v = [] \<or> same_text (expr l) (trim v))"
proof (cases "trim v = []")
  case True
  show ?thesis by (rule adds_eq [OF adds_id]) (simp_all add: appendTrimEqual_def True)
next
  case False
  show ?thesis unfolding adds_def appendTrimEqual_def Let_def if_not_P [OF False]
    by (intro allI adds_arg) (simp_all add: text_at_hit length_push False)
qed

lemma adds_blank_or_equal: "adds (appendBlankOrEqual expr v) (\<lambda>d l. text_facet v (expr l))"
proof -
  consider "trim v = []" | "trim v \<noteq> []" "is_nobody (trim v)" | "trim v \<noteq> []" "\<not> is_nobody (trim v)" by blast
  then show ?thesis
  proof cases
    case 1
    show ?thesis by (rule adds_eq [OF adds_id]) (simp_all add: appendBlankOrEqual_def text_facet_def 1)
  next
    case 2
    show ?thesis by (rule adds_eq [OF adds_clause]) (simp_all add: appendBlankOrEqual_def text_facet_def 2)
  next
    case 3
    show ?thesis by (rule adds_eq [OF adds_trim_equal [of expr "trim v"]]) (simp_all add: appendBlankOrEqual_def text_facet_def 3)
  qed
qed

lemma adds_nullable_id: "adds (appendNullableID col v) (\<lambda>d l. id_facet v (col l))"
proof -
  consider "trim v = []" | "trim v \<noteq> []" "is_nobody (trim v)" | "trim v \<noteq> []" "\<not> is_nobody (trim v)" by blast
  then show ?thesis
  proof cases
    case 1
    show ?thesis by (rule adds_eq [OF adds_id]) (simp_all add: appendNullableID_def id_facet_def 1)
  next
    case 2
    show ?thesis by (rule adds_eq [OF adds_clause]) (simp_all add: appendNullableID_def id_facet_def 2)
  next
    case 3
    show ?thesis unfolding adds_def appendNullableID_def Let_def if_not_P [OF 3(1)] if_not_P [OF 3(2)]
      by (intro allI adds_arg) (simp_all add: text_at_hit length_push id_facet_def 3)
  qed
qed

lemma adds_geo: "adds (appendGeoFacet expr (trim v)) (\<lambda>d l. geo_facet v (expr l))"
proof -
  have blank: "isBlankGeoLabel (trim v) = isBlankGeoLabel v" by (simp add: isBlankGeoLabel_def)
  consider "trim v = []" | "trim v \<noteq> []" "isBlankGeoLabel v" | "trim v \<noteq> []" "\<not> isBlankGeoLabel v" by blast
  then show ?thesis
  proof cases
    case 1
    show ?thesis by (rule adds_eq [OF adds_id]) (simp_all add: appendGeoFacet_def geo_facet_def 1)
  next
    case 2
    show ?thesis by (rule adds_eq [OF adds_clause]) (simp_all add: appendGeoFacet_def geo_facet_def blank 2)
  next
    case 3
    show ?thesis by (rule adds_eq [OF adds_trim_equal [of expr "trim v"]]) (simp_all add: appendGeoFacet_def geo_facet_def blank 3)
  qed
qed

lemma adds_manager: "adds (appendManager v) (manager_facet v)"
proof (cases "trim v = []")
  case True
  show ?thesis by (rule adds_eq [OF adds_id]) (simp_all add: appendManager_def manager_facet_def True)
next
  case False
  show ?thesis unfolding adds_def appendManager_def Let_def if_not_P [OF False]
    by (intro allI adds_arg) (simp_all add: text_at_hit length_push manager_facet_def False)
qed

lemma adds_reason: "adds (appendQualificationReasonFacet v) (\<lambda>d. reason_facet v)"
proof -
  let ?none = "equal_fold (trim v) no_reason \<or> is_nobody (trim v)"
  consider "trim v = []" | "trim v \<noteq> []" ?none | "trim v \<noteq> []" "\<not> ?none" by blast
  then show ?thesis
  proof cases
    case 1
    show ?thesis by (rule adds_eq [OF adds_id]) (simp_all add: appendQualificationReasonFacet_def reason_facet_def 1)
  next
    case 2
    show ?thesis by (rule adds_eq [OF adds_clause]) (use 2 in \<open>simp_all add: appendQualificationReasonFacet_def reason_facet_def\<close>)
  next
    case 3
    show ?thesis unfolding adds_def appendQualificationReasonFacet_def Let_def if_not_P [OF 3(1)] if_not_P [OF 3(2)]
      by (intro allI adds_arg) (use 3 in \<open>simp_all add: text_at_hit length_push reason_facet_def\<close>)
  qed
qed

lemma adds_upper: "adds (appendUpperEqual col v) (\<lambda>d l. trim v \<noteq> [] \<longrightarrow> col l = to_upper (trim v))"
proof (cases "trim v = []")
  case True
  show ?thesis by (rule adds_eq [OF adds_id]) (simp_all add: appendUpperEqual_def True)
next
  case False
  show ?thesis unfolding adds_def appendUpperEqual_def Let_def if_not_P [OF False]
    by (intro allI adds_arg) (simp_all add: text_at_hit length_push False)
qed

lemma portal_like_finds: "list_all (\<lambda>c. \<not> special c) w \<Longrightarrow>
    portal_like (anywhere w) l \<longleftrightarrow> l_portal l \<noteq> None \<and> finds w (deref (l_portal l))"
proof -
  assume "list_all (\<lambda>c. \<not> special c) w"
  then have "escapeILIKE w = w" unfolding escape_map by (induction w) (simp_all add: esc1_def special_iff del: insert_iff)
  then show ?thesis using ilike_anywhere [of w] by (simp add: portal_like_def finds_def split: option.split)
qed

lemma service_words: "portal_like ''%CDR%'' l \<longleftrightarrow> l_portal l \<noteq> None \<and> finds ''CDR'' (deref (l_portal l))"
  "portal_like ''%CCL%'' l \<longleftrightarrow> l_portal l \<noteq> None \<and> finds ''CCL'' (deref (l_portal l))"
  "portal_like ''%NAATI%'' l \<longleftrightarrow> l_portal l \<noteq> None \<and> finds ''NAATI'' (deref (l_portal l))"
  "portal_like ''%PTE%'' l \<longleftrightarrow> l_portal l \<noteq> None \<and> finds ''PTE'' (deref (l_portal l))"
  "portal_like ''%ACS%'' l \<longleftrightarrow> l_portal l \<noteq> None \<and> finds ''ACS'' (deref (l_portal l))"
  using portal_like_finds [of "''CDR''"] portal_like_finds [of "''CCL''"] portal_like_finds [of "''NAATI''"]
    portal_like_finds [of "''PTE''"] portal_like_finds [of "''ACS''"]
  by (simp_all add: special_def anywhere_def char_code_def)

lemma adds_line: "adds (appendServiceLineFacet line) (\<lambda>d. line_facet line)"
  by (rule adds_eq [OF _ appendServiceLineFacet_def [unfolded Let_def] line_facet_def [unfolded Let_def]], intro adds_if)
     (rule adds_eq, rule adds_clause adds_id, rule refl, simp add: service_words)+

lemma adds_time: "adds (appendTime cmp bound) (\<lambda>d l. case bound of None \<Rightarrow> True | Some t \<Rightarrow> cmp (l_createdAt l) t)"
proof (cases bound)
  case None
  show ?thesis by (rule adds_eq [OF adds_id]) (simp_all add: appendTime_def None)
next
  case (Some t)
  show ?thesis unfolding adds_def appendTime_def Let_def Some option.case
    by (intro allI adds_arg) (simp_all add: time_at_hit length_push)
qed

lemma adds_added: "adds (appendAdded zone from0 to0) (\<lambda>d. added_facet zone from0 to0)"
proof -
  obtain f t where r: "added_range zone from0 to0 = (f, t)" by force
  show ?thesis
    by (rule adds_eq [OF adds_comp [OF adds_time [of "(\<ge>)" "map_option (midnight zone) f"]
        adds_time [of "(<)" "map_option (next_midnight zone) t"]]])
       (simp_all add: appendAdded_def added_facet_def r split: option.split)
qed

lemma adds_args3:
  assumes "\<And>as d l. arg_at as n = Some z \<Longrightarrow> arg_at as (Suc n) = Some y \<Longrightarrow> arg_at as (Suc (Suc n)) = Some x \<Longrightarrow> c as d l = P d l"
    "n = Suc (length (snd b))"
  shows "\<exists>ws xs. push_where c (push_arg x (push_arg y (push_arg z b))) = (fst b @ ws, snd b @ xs) \<and>
     (\<forall>pre rest d l. length pre = length (snd b) \<longrightarrow> list_all (\<lambda>c. c (pre @ xs @ rest) d l) ws = P d l)"
proof -
  have third: "arg_at (pre @ z # y # x # rest) (Suc (Suc n)) = Some x" if "length pre = length (snd b)" for pre rest
    using that assms(2) arg_at_second [of "pre @ [z]" "Suc (length (snd b))" y x rest] by simp
  have "c (pre @ z # y # x # rest) d l = P d l" if "length pre = length (snd b)" for pre rest d l
    using that assms(2) third [OF that] by (intro assms(1)) (simp_all add: arg_at_new arg_at_second)
  then show ?thesis
    by (intro exI [of _ "[c]"] exI [of _ "[z, y, x]"]) (simp add: push_where_def push_arg_def)
qed

lemma adds_analyst_scope: "adds (analystTeamLeadScope atl team)
    (\<lambda>d l. trim atl \<noteq> [] \<longrightarrow> in_analyst_scope d (trim atl) (trim team) l)"
proof -
  consider "trim atl = []" | "trim atl \<noteq> []" "trim team = []" | "trim atl \<noteq> []" "trim team \<noteq> []" by blast
  then show ?thesis
  proof cases
    case 1
    show ?thesis by (rule adds_eq [OF adds_id]) (simp_all add: analystTeamLeadScope_def 1)
  next
    case 2
    show ?thesis unfolding adds_def analystTeamLeadScope_def Let_def if_not_P [OF 2(1)] if_P [OF 2(2)]
      by (intro allI adds_args) (simp_all add: text_at_hit length_push in_analyst_scope_def 2)
  next
    case 3
    show ?thesis unfolding adds_def analystTeamLeadScope_def Let_def if_not_P [OF 3(1)] if_not_P [OF 3(2)]
      by (intro allI adds_args3) (simp_all add: text_at_hit length_push in_analyst_scope_def 3)
  qed
qed

lemma adds_line_unless: "adds (\<lambda>b. if B then appendServiceLineFacet line b else b) (\<lambda>d l. B \<longrightarrow> line_facet line l)"
  by (rule adds_eq [OF adds_if [OF adds_line adds_id]]) (simp, auto)

lemma adds_facets: "adds (appendLeadFacets zone ps) (facets_mean zone ps)"
  by (rule adds_eq [OF adds_comp [OF adds_comp [OF adds_comp [OF adds_comp [OF adds_comp [OF adds_comp [OF adds_comp
        [OF adds_comp [OF adds_comp [OF adds_comp [OF adds_comp [OF adds_comp [OF adds_comp [OF adds_comp
        [OF adds_geo [of l_country "lp_country ps"] adds_geo [of l_city "lp_city ps"]]
        adds_nullable_id [of l_team "lp_team ps"]] adds_nullable_id [of l_createdBy "lp_analyst ps"]]
        adds_nullable_id [of l_se "lp_se ps"]] adds_manager [of "lp_manager ps"]]
        adds_analyst_scope [of "lp_atl ps" "lp_atlTeam ps"]]
        adds_blank_or_equal [of "\<lambda>l. Some (l_source l)" "lp_source ps"]] adds_blank_or_equal [of l_portal "lp_portal ps"]]
        adds_blank_or_equal [of l_metaProfile "lp_metaProfile ps"]]
        adds_line_unless [of "trim (lp_portal ps) = []" "lp_serviceLine ps"]]
        adds_upper [of l_qual "lp_status ps"]] adds_upper [of l_stage "lp_stage ps"]]
        adds_added [of zone "lp_addedFrom ps" "lp_addedTo ps"]] adds_reason [of "lp_reason ps"]]])
     (simp_all add: appendLeadFacets_def facets_mean_def parseGeoFilter_def Let_def)

lemma adds_filter_unless: "adds (\<lambda>b. if B then appendLeadFilter f b else b) (\<lambda>d l. B \<longrightarrow> filter_means f d l)"
  by (rule adds_eq [OF adds_if [OF adds_filter adds_id]]) (simp, auto)

lemma adds_lead_where: "adds (\<lambda>b. appendLeadSearch p (lp_query ps) (lp_field ps) (appendLeadFacets zone ps
    (if trim (lp_status ps) = [] then appendLeadFilter (normalizeLeadFilter (lp_filter ps)) b else b)))
    (lead_matches p zone ps)"
  by (rule adds_eq [OF adds_comp [OF adds_comp [OF adds_filter_unless
        [of "trim (lp_status ps) = []" "normalizeLeadFilter (lp_filter ps)"] adds_facets [of zone ps]]
        adds_search [of p "lp_query ps" "lp_field ps"]]])
     (simp_all add: lead_matches_def)

lemma buildLeadListWhere_drop:
  "buildLeadListWhere p zone ps n = (let b = appendLeadSearch p (lp_query ps) (lp_field ps) (appendLeadFacets zone ps
     (if trim (lp_status ps) = [] then appendLeadFilter (normalizeLeadFilter (lp_filter ps)) ([], replicate n ANull)
      else ([], replicate n ANull))) in (fst b, drop n (snd b)))"
  by (cases n) (simp_all only: buildLeadListWhere_def Let_def drop_0 replicate_0 zero_less_Suc less_irrefl if_True if_False)

text \<open>C23. The clauses and arguments that \<open>buildLeadListWhere\<close> builds select exactly the leads
  the request asks for, whatever number of placeholders is reserved before them and whatever
  arguments follow: every clause reads the arguments bound for it, and the search patterns match the
  query literally.\<close>

theorem list_condition_exact:
  "case buildLeadListWhere p zone ps (length pre) of (ws, as) \<Rightarrow>
     list_all (\<lambda>c. c (pre @ as @ rest) d l) ws \<longleftrightarrow> lead_matches p zone ps d l"
  using adds_holds [OF adds_lead_where, of pre "replicate (length pre) ANull" p ps zone rest d l]
  by (simp only: buildLeadListWhere_drop holds_all_def Let_def prod.case length_replicate simp_thms)

subsection \<open>The geography filter\<close>

definition geo_part :: "nat \<Rightarrow> (lead \<Rightarrow> string option) \<Rightarrow> string \<Rightarrow> builder \<Rightarrow> builder" where
  "geo_part start col v b = (if v = [] then b
     else if isBlankGeoLabel v then push_where (\<lambda>as d l. blankGeo (col l)) b
     else let b1 = push_arg (AText v) b; n = start + length (snd b1) in
       push_where (\<lambda>as d l. text_at as n (same_text (col l))) b1)"

definition id_part :: "nat \<Rightarrow> bool \<Rightarrow> (lead \<Rightarrow> string option) \<Rightarrow> string \<Rightarrow> builder \<Rightarrow> builder" where
  \<comment> \<open>the parts on creator, team and executive; only the last two know \<open>none\<close>\<close>
  "id_part start nullable col v0 b = (let v = trim v0 in if v = [] then b
     else if nullable \<and> v = ''none'' then push_where (\<lambda>as d l. col l = None) b
     else let b1 = push_arg (AText v) b; n = start + length (snd b1) in
       push_where (\<lambda>as d l. text_at as n (\<lambda>s. col l = Some s)) b1)"

definition leadClause :: "geo_filter \<Rightarrow> nat \<Rightarrow> clause list \<times> arg list" where
  \<comment> \<open>the analyst scope numbers its placeholders by its own argument list, without \<open>argStart\<close>\<close>
  "leadClause f start = analystTeamLeadScope (gf_atl f) (gf_atlTeam f)
     (id_part start True l_se (gf_se f) (id_part start True l_team (gf_team f)
     (id_part start False l_createdBy (gf_createdBy f)
     (geo_part start l_city (gf_city f) (geo_part start l_country (gf_country f) ([], []))))))"

definition geo_id :: "bool \<Rightarrow> string \<Rightarrow> string option \<Rightarrow> bool" where
  "geo_id nullable v x \<longleftrightarrow> trim v = [] \<or> (if nullable \<and> trim v = ''none'' then x = None else x = Some (trim v))"

definition geo_name :: "string \<Rightarrow> string option \<Rightarrow> bool" where
  "geo_name v x \<longleftrightarrow> v = [] \<or> (if isBlankGeoLabel v then blankGeo x else same_text x v)"

definition geo_matches :: "geo_filter \<Rightarrow> db \<Rightarrow> lead \<Rightarrow> bool" where
  "geo_matches f d l \<longleftrightarrow> geo_name (gf_country f) (l_country l) \<and> geo_name (gf_city f) (l_city l) \<and>
     geo_id False (gf_createdBy f) (l_createdBy l) \<and> geo_id True (gf_team f) (l_team l) \<and> geo_id True (gf_se f) (l_se l) \<and>
     (trim (gf_atl f) \<noteq> [] \<longrightarrow> in_analyst_scope d (trim (gf_atl f)) (trim (gf_atlTeam f)) l)"

lemma adds_geo_part: "adds (geo_part 0 col v) (\<lambda>d l. geo_name v (col l))"
proof -
  consider "v = []" | "v \<noteq> []" "isBlankGeoLabel v" | "v \<noteq> []" "\<not> isBlankGeoLabel v" by blast
  then show ?thesis
  proof cases
    case 1
    show ?thesis by (rule adds_eq [OF adds_id]) (simp_all add: geo_part_def geo_name_def 1)
  next
    case 2
    show ?thesis by (rule adds_eq [OF adds_clause]) (simp_all add: geo_part_def geo_name_def 2)
  next
    case 3
    show ?thesis unfolding adds_def geo_part_def Let_def if_not_P [OF 3(1)] if_not_P [OF 3(2)]
      by (intro allI adds_arg) (simp_all add: text_at_hit length_push geo_name_def 3)
  qed
qed

lemma adds_id_part: "adds (id_part 0 nullable col v) (\<lambda>d l. geo_id nullable v (col l))"
proof -
  let ?none = "nullable \<and> trim v = ''none''"
  consider "trim v = []" | "trim v \<noteq> []" ?none | "trim v \<noteq> []" "\<not> ?none" by blast
  then show ?thesis
  proof cases
    case 1
    show ?thesis by (rule adds_eq [OF adds_id]) (simp_all add: id_part_def geo_id_def 1)
  next
    case 2
    show ?thesis by (rule adds_eq [OF adds_clause]) (use 2 in \<open>simp_all add: id_part_def geo_id_def\<close>)
  next
    case 3
    show ?thesis unfolding adds_def id_part_def Let_def if_not_P [OF 3(1)] if_not_P [OF 3(2)]
      by (intro allI adds_arg) (use 3 in \<open>auto simp: text_at_hit length_push geo_id_def\<close>)
  qed
qed

lemma adds_geo_clause: "adds (\<lambda>b. analystTeamLeadScope (gf_atl f) (gf_atlTeam f)
     (id_part 0 True l_se (gf_se f) (id_part 0 True l_team (gf_team f) (id_part 0 False l_createdBy (gf_createdBy f)
     (geo_part 0 l_city (gf_city f) (geo_part 0 l_country (gf_country f) b)))))) (geo_matches f)"
  by (rule adds_eq [OF adds_comp [OF adds_comp [OF adds_comp [OF adds_comp [OF adds_comp
        [OF adds_geo_part [of l_country "gf_country f"] adds_geo_part [of l_city "gf_city f"]]
        adds_id_part [of False l_createdBy "gf_createdBy f"]] adds_id_part [of True l_team "gf_team f"]]
        adds_id_part [of True l_se "gf_se f"]] adds_analyst_scope [of "gf_atl f" "gf_atlTeam f"]]])
     (simp_all add: geo_matches_def)

lemma leadClause_0: "list_all (\<lambda>c. c (snd (leadClause f 0)) d l) (fst (leadClause f 0)) \<longleftrightarrow> geo_matches f d l"
  using adds_holds [OF adds_geo_clause, of "[]" "[]" f "[]" d l] by (simp add: leadClause_def holds_all_def)

definition atl_filter :: geo_filter where
  "atl_filter = \<lparr>gf_country = [], gf_city = [], gf_createdBy = [], gf_team = [], gf_se = [], gf_atl = ''atl'', gf_atlTeam = []\<rparr>"

definition atl_tables :: db where
  "atl_tables = empty_db\<lparr>users := [(blank_user ''atl'')\<lparr>u_role := RoleAnalystTeamLead\<rparr>],
     leads := [(blank_lead ''l1'')\<lparr>l_createdBy := Some ''atl''\<rparr>]\<rparr>"

text \<open>The clause of the geography filter selects exactly the leads it describes when no
  placeholder precedes it; with placeholders before it (\<open>andSQL\<close>) the analyst scope reads the
  arguments of others, and a lead of the analyst team is missed.\<close>

theorem geo_clause_exact:
  "(list_all (\<lambda>c. c (snd (leadClause f 0)) d l) (fst (leadClause f 0)) \<longleftrightarrow> geo_matches f d l) \<and>
   (\<exists>f d l x. geo_matches f d l \<and>
      \<not> list_all (\<lambda>c. c (AText x # snd (leadClause f 1)) d l) (fst (leadClause f 1)))"
proof -
  have "geo_matches atl_filter atl_tables (hd (leads atl_tables)) \<and>
      \<not> list_all (\<lambda>c. c (AText ''x'' # snd (leadClause atl_filter 1)) atl_tables (hd (leads atl_tables))) (fst (leadClause atl_filter 1))"
    by code_simp
  then show ?thesis using leadClause_0 by blast
qed

end
