(* ===== verification/LeadList.thy ===== *)
theory LeadList
  imports LeadFilter Users "HOL-Library.Product_Lexorder"
begin

section \<open>The lead list (leads.go, handlers_leads_http.go)\<close>

text \<open>
  \<open>LeadStore.List\<close>: sort orders, keyset cursors and pages, over the conditions of the theory of
  filters. PostgreSQL compares texts by a collation; it is a parameter, \<open>coll\<close>, that maps a text to
  its sort key. A cursor travels as base64 of the JSON of \<open>leadCursor\<close>; the record stands for it,
  with the time and the amount in place of their texts (\<open>None\<close> when the text is empty or unreadable).
  How Go writes amounts and PostgreSQL dates, and the calendar day of an instant, are parameters too.
\<close>

subsection \<open>Orders\<close>

datatype 'a desc = Desc (undesc: 'a)
  \<comment> \<open>a column sorted DESC\<close>

instantiation desc :: (linorder) linorder
begin

definition less_eq_desc :: "'a desc \<Rightarrow> 'a desc \<Rightarrow> bool" where
  "less_eq_desc a b \<longleftrightarrow> undesc b \<le> undesc a"

definition less_desc :: "'a desc \<Rightarrow> 'a desc \<Rightarrow> bool" where
  "less_desc a b \<longleftrightarrow> undesc b < undesc a"

instance
  by standard (auto simp: less_eq_desc_def less_desc_def desc.expand)

end

lemma Desc_less [simp]: "Desc a < Desc b \<longleftrightarrow> b < a" "Desc a \<le> Desc b \<longleftrightarrow> b \<le> a"
  by (simp_all add: less_desc_def less_eq_desc_def)

definition creator_name :: "db \<Rightarrow> lead \<Rightarrow> string option" where
  \<comment> \<open>\<open>cb.name\<close> of the LEFT JOIN\<close>
  "creator_name d l = Option.bind (l_createdBy l) (\<lambda>i. map_option u_name (user_by_id i d))"

definition creator_key :: "db \<Rightarrow> lead \<Rightarrow> string" where
  \<comment> \<open>\<open>COALESCE(cb.name, '')\<close>\<close>
  "creator_key d l = (case creator_name d l of None \<Rightarrow> [] | Some n \<Rightarrow> n)"

definition newest_key :: "(string \<Rightarrow> 'k) \<Rightarrow> lead \<Rightarrow> int desc \<times> 'k desc" where
  \<comment> \<open>\<open>l."createdAt" DESC, l.id DESC\<close>\<close>
  "newest_key coll l = (Desc (l_createdAt l), Desc (coll (l_id l)))"

definition deal_key :: "lead \<Rightarrow> bool \<times> rat desc" where
  \<comment> \<open>\<open>l."estimatedDealValue" DESC NULLS LAST\<close>\<close>
  "deal_key l = (case l_deal l of None \<Rightarrow> (True, Desc 0) | Some x \<Rightarrow> (False, Desc x))"

definition ordered :: "(string \<Rightarrow> 'k::linorder) \<Rightarrow> db \<Rightarrow> string \<Rightarrow> lead \<Rightarrow> lead \<Rightarrow> bool" where
  \<comment> \<open>the ORDER BY of a sort: \<open>a\<close> may stand before \<open>b\<close>\<close>
  "ordered coll d srt a b =
     (if srt = ''name'' then (coll (to_lower (l_name a)), coll (l_id a)) \<le> (coll (to_lower (l_name b)), coll (l_id b))
      else if srt = ''oldest'' then (l_createdAt a, coll (l_id a)) \<le> (l_createdAt b, coll (l_id b))
      else if srt = ''recent'' then (Desc (l_updatedAt a), Desc (coll (l_id a))) \<le> (Desc (l_updatedAt b), Desc (coll (l_id b)))
      else if srt = ''status'' then (coll (l_qual a), newest_key coll a) \<le> (coll (l_qual b), newest_key coll b)
      else if srt = ''stage'' then (coll (l_stage a), newest_key coll a) \<le> (coll (l_stage b), newest_key coll b)
      else if srt = ''value'' then (deal_key a, newest_key coll a) \<le> (deal_key b, newest_key coll b)
      else if srt = ''analyst'' then (coll (creator_key d a), newest_key coll a) \<le> (coll (creator_key d b), newest_key coll b)
      else newest_key coll a \<le> newest_key coll b)"

subsection \<open>Cursors\<close>

record lead_cursor =
  cu_sort :: string
  cu_time :: "int option"
  cu_id :: string
  cu_name :: string
  cu_value :: "rat option"
  cu_key :: string

datatype cursor_text = NoCursor | BadCursor | Cursor lead_cursor

definition no_cursor :: lead_cursor where
  "no_cursor = \<lparr>cu_sort = [], cu_time = None, cu_id = [], cu_name = [], cu_value = None, cu_key = []\<rparr>"

definition decodeLeadCursor :: "cursor_text \<Rightarrow> lead_cursor option" where
  "decodeLeadCursor c = (case c of NoCursor \<Rightarrow> Some no_cursor | BadCursor \<Rightarrow> None | Cursor x \<Rightarrow> Some x)"

definition current_cursor :: "string \<Rightarrow> lead_cursor \<Rightarrow> lead_cursor" where
  \<comment> \<open>a cursor of another sort is ignored\<close>
  "current_cursor srt c = (if cu_id c \<noteq> [] \<and> cu_sort c \<noteq> [] \<and> cu_sort c \<noteq> srt then no_cursor else c)"

definition money_at :: "arg list \<Rightarrow> nat \<Rightarrow> rat option option" where
  "money_at as n = (case arg_at as n of Some (AMoney x) \<Rightarrow> Some (Some x) | Some ANull \<Rightarrow> Some None | _ \<Rightarrow> None)"

definition older_than :: "(string \<Rightarrow> 'k::linorder) \<Rightarrow> (lead \<Rightarrow> int) \<Rightarrow> arg list \<Rightarrow> nat \<Rightarrow> nat \<Rightarrow> lead \<Rightarrow> bool" where
  \<comment> \<open>\<open>(tm, l.id) < ($b, $c)\<close>\<close>
  "older_than coll tm as b c l = time_at as b (\<lambda>t. text_at as c (\<lambda>i. (tm l, coll (l_id l)) < (t, coll i)))"

definition keyed_cursor :: "(string \<Rightarrow> 'k::linorder) \<Rightarrow> (db \<Rightarrow> lead \<Rightarrow> string) \<Rightarrow> string \<Rightarrow> int \<Rightarrow> string \<Rightarrow> builder \<Rightarrow> builder" where
  \<comment> \<open>the cursor clauses of status, stage and analyst\<close>
  "keyed_cursor coll col key t i b0 = (let b = push_arg (AText i) (push_arg (ATime t) (push_arg (AText key) b0));
       a = length (snd b) - 2; bb = length (snd b) - 1; c = length (snd b) in
     push_where (\<lambda>as d l. text_at as a (\<lambda>k. coll (col d l) > coll k) \<or>
       (text_at as a (\<lambda>k. col d l = k) \<and> older_than coll l_createdAt as bb c l)) b)"

definition value_cursor :: "(string \<Rightarrow> 'k::linorder) \<Rightarrow> rat option \<Rightarrow> int \<Rightarrow> string \<Rightarrow> builder \<Rightarrow> builder" where
  "value_cursor coll deal t i b0 =
     (let b = push_arg (AText i) (push_arg (ATime t) (push_arg (case deal of None \<Rightarrow> ANull | Some x \<Rightarrow> AMoney x) b0));
       a = length (snd b) - 2; bb = length (snd b) - 1; c = length (snd b) in
     push_where (\<lambda>as d l. case money_at as a of None \<Rightarrow> False
       | Some (Some v) \<Rightarrow> (case l_deal l of None \<Rightarrow> True
           | Some x \<Rightarrow> x < v \<or> (x = v \<and> older_than coll l_createdAt as bb c l))
       | Some None \<Rightarrow> l_deal l = None \<and> older_than coll l_createdAt as bb c l) b)"

definition appendCursor :: "(string \<Rightarrow> 'k::linorder) \<Rightarrow> string \<Rightarrow> lead_cursor \<Rightarrow> builder \<Rightarrow> builder" where
  \<comment> \<open>\<open>cursorSQL\<close> and its arguments\<close>
  "appendCursor coll srt cur b0 =
     (if cu_id cur = [] then b0
      else if srt = ''name'' then
        (let b = push_arg (AText (cu_id cur)) (push_arg (AText (to_lower (cu_name cur))) b0);
             a = length (snd b) - 1; bb = length (snd b) in
         push_where (\<lambda>as d l. text_at as a (\<lambda>n. coll (to_lower (l_name l)) > coll n) \<or>
           (text_at as a (\<lambda>n. to_lower (l_name l) = n) \<and> text_at as bb (\<lambda>i. coll (l_id l) > coll i))) b)
      else case cu_time cur of None \<Rightarrow> b0
      | Some t \<Rightarrow>
        if srt = ''status'' then (if cu_key cur = [] then b0 else keyed_cursor coll (\<lambda>_. l_qual) (cu_key cur) t (cu_id cur) b0)
        else if srt = ''stage'' then (if cu_key cur = [] then b0 else keyed_cursor coll (\<lambda>_. l_stage) (cu_key cur) t (cu_id cur) b0)
        else if srt = ''value'' then value_cursor coll (cu_value cur) t (cu_id cur) b0
        else if srt = ''analyst'' then keyed_cursor coll creator_key (cu_name cur) t (cu_id cur) b0
        else (let b = push_arg (AText (cu_id cur)) (push_arg (ATime t) b0); a = length (snd b) - 1; bb = length (snd b) in
          push_where (\<lambda>as d l. if srt = ''oldest''
              then time_at as a (\<lambda>t. text_at as bb (\<lambda>i. (l_createdAt l, coll (l_id l)) > (t, coll i)))
            else older_than coll (if srt = ''recent'' then l_updatedAt else l_createdAt) as a bb l) b))"

subsection \<open>Pages\<close>

record texts =
  tx_num :: "rat \<Rightarrow> string"   \<comment> \<open>\<open>strconv.FormatFloat(x, 'f', -1, 64)\<close>\<close>
  tx_day :: "int \<Rightarrow> string"   \<comment> \<open>the business day of an instant\<close>

record lead_row =
  lr_lead :: lead
  lr_creator :: string        \<comment> \<open>\<open>COALESCE(cb.name, '-')\<close> with the em dash\<close>
  lr_email :: string
  lr_team :: string
  lr_exec :: string
  lr_handoff :: "(string \<times> string) option"
  lr_new :: bool

definition or_dash :: "string option \<Rightarrow> string" where
  "or_dash x = (case x of None \<Rightarrow> em_dash | Some s \<Rightarrow> s)"

definition last_handoff :: "db \<Rightarrow> lead \<Rightarrow> (string \<times> string) option" where
  \<comment> \<open>the LATERAL join: the latest handoff that is not the creation\<close>
  "last_handoff d l = map_option (\<lambda>h. (ho_action h, ho_detail h)) (first_by (\<lambda>h. - ho_at h)
     (filter (\<lambda>h. ho_lead h = l_id l \<and> ho_action h \<noteq> ''LEAD_CREATED'') (handoffs d)))"

definition row_of :: "db \<Rightarrow> lead \<Rightarrow> lead_row" where
  "row_of d l = \<lparr>lr_lead = l, lr_creator = or_dash (creator_name d l),
     lr_email = or_dash (Option.bind (l_createdBy l) (\<lambda>i. map_option u_email (user_by_id i d))),
     lr_team = or_dash (Option.bind (l_team l) (\<lambda>i. map_option t_name (team_by_id i d))),
     lr_exec = or_dash (Option.bind (l_se l) (\<lambda>i. map_option u_name (user_by_id i d))),
     lr_handoff = last_handoff d l, lr_new = leadIsUnassigned l\<rparr>"

definition lead_rows :: "(string \<Rightarrow> 'k::linorder) \<Rightarrow> string \<Rightarrow> builder \<Rightarrow> int \<Rightarrow> db \<Rightarrow> lead_row list" where
  \<comment> \<open>the list statement\<close>
  "lead_rows coll srt b limit d = map (row_of d) (take (nat (limit + 1))
     (order_by (ordered coll d srt) (filter (holds_all b (snd b @ [ACount (limit + 1)]) d) (leads d))))"

definition formatMoneyAmount :: "texts \<Rightarrow> rat option \<Rightarrow> string" where
  "formatMoneyAmount tx v = (case v of None \<Rightarrow> em_dash | Some x \<Rightarrow> tx_num tx x)"

definition formatDealValue :: "texts \<Rightarrow> rat option \<Rightarrow> string \<Rightarrow> string" where
  "formatDealValue tx v currency = (case v of None \<Rightarrow> em_dash
     | Some x \<Rightarrow> (if trim currency = [] then ''USD'' else trim currency) @ '' '' @ tx_num tx x)"

definition formatLeadScore :: "int option \<Rightarrow> string" where
  "formatLeadScore score = (case score of None \<Rightarrow> em_dash | Some n \<Rightarrow> format_int n)"

definition truncateDisplay :: "string option \<Rightarrow> nat \<Rightarrow> string" where
  "truncateDisplay v m = (let text = displayOrDash v in
     if text = em_dash \<or> m = 0 \<or> length text \<le> m then text
     else if m \<le> 1 then take m text else take (m - 1) text @ ellipsis)"

record lead_item =
  li_id :: string
  li_analyst :: string
  li_email :: string
  li_source :: string
  li_portal :: string
  li_label :: string
  li_day :: string
  li_created :: int
  li_tag :: string
  li_phone :: string
  li_contact :: string
  li_location :: string
  li_profile :: string
  li_notes :: string
  li_execNotes :: string
  li_duplicate :: string
  li_status :: string
  li_statusRaw :: string
  li_score :: string
  li_stage :: string
  li_stageRaw :: string
  li_closed :: string
  li_closedAt :: "int option"
  li_timeToClose :: "int option"
  li_notAppr :: bool
  li_ip :: string
  li_deal :: string
  li_dealRaw :: "rat option"
  li_team :: string
  li_exec :: string
  li_handoff :: string
  li_new :: bool

definition row_deal :: "lead \<Rightarrow> rat option" where
  "row_deal l = (if l_revenue l \<noteq> None then l_revenue l else l_deal l)"

definition item_of :: "texts \<Rightarrow> lead_row \<Rightarrow> lead_item" where
  "item_of tx r = (let l = lr_lead r in \<lparr>li_id = l_id l, li_analyst = lr_creator r,
     li_email = (if lr_email r = [] then em_dash else lr_email r), li_source = l_source l,
     li_portal = displayOrDash (l_portal l), li_label = l_name l, li_day = tx_day tx (l_createdAt l),
     li_created = l_createdAt l,
     li_tag = (if l_notAppr l then ''Not appropriate'' else if lr_new r then ''New'' else em_dash),
     li_phone = displayOrDash (l_phone l), li_contact = displayOrDash (l_email l),
     li_location = formatLocation (l_city l) (l_country l), li_profile = displayOrDash (l_profile l),
     li_notes = truncateDisplay (l_notes l) 90, li_execNotes = truncateDisplay (l_lostNotes l) 90,
     li_duplicate = em_dash, li_status = qualificationDisplay (l_qual l), li_statusRaw = l_qual l,
     li_score = formatLeadScore (l_score l), li_stage = salesStageDisplay (l_stage l), li_stageRaw = l_stage l,
     li_closed = closedLabel (l_closedAt l) (l_stage l), li_closedAt = l_closedAt l,
     li_timeToClose = timeToCloseMinutes (l_createdAt l) (l_closedAt l), li_notAppr = l_notAppr l,
     li_ip = formatMoneyAmount tx (l_payment l), li_deal = formatDealValue tx (row_deal l) (l_currency l),
     li_dealRaw = row_deal l, li_team = lr_team r, li_exec = lr_exec r,
     li_handoff = formatHandoff (map_option fst (lr_handoff r)) (map_option snd (lr_handoff r)),
     li_new = lr_new r\<rparr>)"

definition next_cursor :: "string \<Rightarrow> lead_row \<Rightarrow> lead_cursor" where
  \<comment> \<open>the cursor after the last row of a page\<close>
  "next_cursor srt r = (let l = lr_lead r in \<lparr>cu_sort = srt,
     cu_time = Some (if srt = ''recent'' then l_updatedAt l else l_createdAt l), cu_id = l_id l,
     cu_name = (if srt = ''name'' then l_name l else if srt = ''analyst'' then lr_creator r else []),
     cu_value = (if srt = ''value'' then l_deal l else None),
     cu_key = (if srt = ''status'' then l_qual l else if srt = ''stage'' then l_stage l else [])\<rparr>)"

record lead_list =
  ll_items :: "lead_item list"
  ll_next :: "lead_cursor option"
  ll_more :: bool
  ll_total :: nat
  ll_limit :: int
  ll_filter :: string
  ll_sort :: string
  ll_query :: string
  ll_field :: string

definition page_of :: "texts \<Rightarrow> lead_params \<Rightarrow> nat \<Rightarrow> lead_row list \<Rightarrow> lead_list" where
  \<comment> \<open>what List makes of the rows; the parameters are normalised\<close>
  "page_of tx ps n raws0 = (let limit = clampLeadLimit (lp_limit ps); hasMore = int (length raws0) > limit;
       raws = (if hasMore then take (nat limit) raws0 else raws0) in
     \<lparr>ll_items = map (item_of tx) raws,
      ll_next = (if hasMore \<and> raws \<noteq> [] then Some (next_cursor (lp_sort ps) (last raws)) else None),
      ll_more = hasMore, ll_total = n, ll_limit = limit, ll_filter = lp_filter ps, ll_sort = lp_sort ps,
      ll_query = lp_query ps, ll_field = lp_field ps\<rparr>)"

definition normal_params :: "lead_params \<Rightarrow> lead_params" where
  "normal_params ps = ps\<lparr>lp_filter := normalizeLeadFilter (lp_filter ps), lp_sort := normalizeLeadSort (lp_sort ps),
     lp_query := trim (lp_query ps), lp_field := canonicalSearchField (lp_field ps)\<rparr>"

definition ListLeads :: "pg \<Rightarrow> texts \<Rightarrow> zone \<Rightarrow> (string \<Rightarrow> 'k::linorder) \<Rightarrow> lead_params \<Rightarrow> cursor_text \<Rightarrow> lead_list op" where
  \<comment> \<open>the count runs beside the page; its error is looked at last\<close>
  "ListLeads p tx zone coll ps0 c =
     (let ps = normal_params ps0; srt = lp_sort ps; limit = clampLeadLimit (lp_limit ps) in
      case decodeLeadCursor c of None \<Rightarrow> throw (ErrMsg ''invalid cursor'')
      | Some cur0 \<Rightarrow>
        let cur = current_cursor srt cur0; b = buildLeadListWhere p zone ps 0; b' = appendCursor coll srt cur b in
        bindE (attempt (query (\<lambda>d. count_where (holds_all b (snd b) d) (leads d)))) (\<lambda>cnt.
        bindE (query (lead_rows coll srt b' limit)) (\<lambda>rows. case cnt of
          Inl e \<Rightarrow> throw e
        | Inr n \<Rightarrow> ret (page_of tx ps n rows))))"

end
