(* ===== verification/LeadPages.thy ===== *)
theory LeadPages
  imports LeadList
begin

section \<open>Walking the pages of the lead list\<close>

text \<open>
  The contract of keyset pages as a locale: a cursor stands for the rows still to come, a page holds
  the next \<open>limit\<close> of them and its cursor stands for the rest. It is interpreted on
  \<open>LeadStore.List\<close>; the theorem is that following the cursors shows every matching lead exactly once
  in the order of the sort, and where it does not.
\<close>

subsection \<open>Pages in general\<close>

fun walk :: "nat \<Rightarrow> ('c \<Rightarrow> ('a list \<times> 'c option) option) \<Rightarrow> 'c \<Rightarrow> 'a list option" where
  \<comment> \<open>follow the cursors for at most \<open>n\<close> pages; \<open>None\<close> when a page fails or the pages do not end\<close>
  "walk 0 step c = None"
| "walk (Suc n) step c = (case step c of None \<Rightarrow> None
     | Some (xs, None) \<Rightarrow> Some xs
     | Some (xs, Some c') \<Rightarrow> map_option ((@) xs) (walk n step c'))"

locale paging =
  fixes step :: "'c \<Rightarrow> ('a list \<times> 'c option) option"
    and limit :: nat
    and stands :: "'c \<Rightarrow> 'a list \<Rightarrow> bool"
  assumes limit_pos: "limit > 0"
    and last_page: "stands c xs \<Longrightarrow> length xs \<le> limit \<Longrightarrow> step c = Some (xs, None)"
    and next_page: "stands c xs \<Longrightarrow> length xs > limit \<Longrightarrow>
      \<exists>c'. step c = Some (take limit xs, Some c') \<and> stands c' (drop limit xs)"
begin

lemma walk_all: "stands c xs \<Longrightarrow> length xs < n \<Longrightarrow> walk n step c = Some xs"
proof (induction n arbitrary: c xs)
  case (Suc n)
  show ?case
  proof (cases "length xs \<le> limit")
    case True
    then show ?thesis using last_page [OF Suc.prems(1)] by simp
  next
    case False
    then obtain c' where c': "step c = Some (take limit xs, Some c')" "stands c' (drop limit xs)"
      using next_page [OF Suc.prems(1)] by force
    have "length (drop limit xs) < n" using False limit_pos Suc.prems(2) by simp
    then show ?thesis using Suc.IH [OF c'(2)] c'(1) by simp
  qed
qed simp

end

subsection \<open>Sort keys\<close>

lemma order_by_key:
  assumes "\<And>a b. le a b \<longleftrightarrow> key a \<le> key b"
  shows "order_by le xs = sort_key key xs"
proof -
  have "insert_by le x ys = insort_key key x ys" for x ys by (induction ys) (simp_all add: assms)
  then have "insert_by le = insort_key key" by (intro ext)
  then show ?thesis by (simp add: order_by_def sort_key_def)
qed

definition strictly :: "('a \<Rightarrow> 'a \<Rightarrow> bool) \<Rightarrow> 'a \<Rightarrow> 'a \<Rightarrow> bool" where
  "strictly le a b \<longleftrightarrow> le a b \<and> \<not> le b a"

definition well_ordered_by :: "('a \<Rightarrow> 'a \<Rightarrow> bool) \<Rightarrow> 'a list \<Rightarrow> bool" where
  \<comment> \<open>what pages need of an order: a row splits the sorted list, and selecting commutes with sorting\<close>
  "well_ordered_by le xs \<longleftrightarrow> set (order_by le xs) = set xs \<and> distinct (order_by le xs) \<and> sorted_wrt le (order_by le xs) \<and>
     (\<forall>P. order_by le (filter P xs) = filter P (order_by le xs)) \<and>
     (\<forall>ys x zs. order_by le xs = ys @ x # zs \<longrightarrow> filter (strictly le x) (order_by le xs) = zs)"

lemma well_ordered_key:
  fixes key :: "'a \<Rightarrow> 'k::linorder"
  assumes le: "\<And>a b. le a b \<longleftrightarrow> key a \<le> key b" and inj: "inj_on key (set xs)" and dist: "distinct xs"
  shows "well_ordered_by le xs"
proof -
  have st: "strictly le x = (\<lambda>y. key x < key y)" for x by (rule ext) (auto simp: strictly_def le)
  have split: "filter (\<lambda>y. key x < key y) (sort_key key xs) = zs" if "sort_key key xs = ys @ x # zs" for ys x zs
  proof -
    have s: "sorted (map key (ys @ x # zs))" using sorted_sort_key [of key xs] that by simp
    have d: "distinct (map key (ys @ x # zs))" using inj dist that by (metis distinct_map distinct_sort set_sort)
    have "\<forall>y \<in> set ys. \<not> key x < key y" using s by (auto simp: sorted_append not_less)
    moreover have "\<forall>z \<in> set zs. key x < key z"
    proof
      fix z assume "z \<in> set zs"
      then have "key x \<le> key z" "key x \<noteq> key z" using s d by (auto simp: sorted_append)
      then show "key x < key z" by simp
    qed
    ultimately have "filter (\<lambda>y. key x < key y) (ys @ x # zs) = zs" by (simp add: filter_empty_conv)
    then show ?thesis by (simp add: that)
  qed
  have "le = (\<lambda>a b. key a \<le> key b)" using le by (intro ext) simp
  then have "sorted_wrt le (sort_key key xs)" using sorted_sort_key [of key xs] by (simp add: sorted_map)
  then show ?thesis
    unfolding well_ordered_by_def st order_by_key [of le key, OF le]
    using dist by (intro conjI allI impI split) (simp_all add: filter_sort)
qed

lemma key_inj: "inj_on f A \<Longrightarrow> (\<And>a b. key a = key b \<Longrightarrow> f a = f b) \<Longrightarrow> inj_on key A"
  unfolding inj_on_def by blast

lemma ordered_key:
  assumes "inj coll" "distinct (map l_id xs)"
  shows "well_ordered_by (ordered coll d srt) xs"
proof -
  have dx: "distinct xs" and id: "inj_on l_id (set xs)" using assms(2) by (simp_all add: distinct_map)
  note inj = key_inj [OF id]
  note same = inj_eq [OF assms(1)]
  consider "srt = ''name''" | "srt = ''oldest''" | "srt = ''recent''" | "srt = ''status''" | "srt = ''stage''"
    | "srt = ''value''" | "srt = ''analyst''"
    | "srt \<noteq> ''name''" "srt \<noteq> ''oldest''" "srt \<noteq> ''recent''" "srt \<noteq> ''status''" "srt \<noteq> ''stage''"
      "srt \<noteq> ''value''" "srt \<noteq> ''analyst''" by argo
  then show ?thesis
  proof cases
    case 1
    show ?thesis by (rule well_ordered_key [where key = "\<lambda>l. (coll (to_lower (l_name l)), coll (l_id l))", OF _ inj dx])
        (simp_all add: ordered_def 1 same)
  next
    case 2
    show ?thesis by (rule well_ordered_key [where key = "\<lambda>l. (l_createdAt l, coll (l_id l))", OF _ inj dx])
        (simp_all add: ordered_def 2 same)
  next
    case 3
    show ?thesis by (rule well_ordered_key [where key = "\<lambda>l. (Desc (l_updatedAt l), Desc (coll (l_id l)))", OF _ inj dx])
        (simp_all add: ordered_def 3 same)
  next
    case 4
    show ?thesis by (rule well_ordered_key [where key = "\<lambda>l. (coll (l_qual l), newest_key coll l)", OF _ inj dx])
        (simp_all add: ordered_def 4 same newest_key_def)
  next
    case 5
    show ?thesis by (rule well_ordered_key [where key = "\<lambda>l. (coll (l_stage l), newest_key coll l)", OF _ inj dx])
        (simp_all add: ordered_def 5 same newest_key_def)
  next
    case 6
    show ?thesis by (rule well_ordered_key [where key = "\<lambda>l. (deal_key l, newest_key coll l)", OF _ inj dx])
        (simp_all add: ordered_def 6 same newest_key_def)
  next
    case 7
    show ?thesis by (rule well_ordered_key [where key = "\<lambda>l. (coll (creator_key d l), newest_key coll l)", OF _ inj dx])
        (simp_all add: ordered_def 7 same newest_key_def)
  next
    case 8
    show ?thesis by (rule well_ordered_key [where key = "newest_key coll", OF _ inj dx])
        (use 8 in \<open>simp_all add: ordered_def same newest_key_def\<close>)
  qed
qed

subsection \<open>What a cursor asks for\<close>

definition past :: "(string \<Rightarrow> 'k::linorder) \<Rightarrow> (lead \<Rightarrow> string) \<Rightarrow> string \<Rightarrow> int \<Rightarrow> string \<Rightarrow> lead \<Rightarrow> bool" where
  "past coll col key t i l \<longleftrightarrow> coll (col l) > coll key \<or> (col l = key \<and> (l_createdAt l, coll (l_id l)) < (t, coll i))"

definition past_value :: "(string \<Rightarrow> 'k::linorder) \<Rightarrow> rat option \<Rightarrow> int \<Rightarrow> string \<Rightarrow> lead \<Rightarrow> bool" where
  "past_value coll deal t i l = (let older = (l_createdAt l, coll (l_id l)) < (t, coll i) in
     case deal of None \<Rightarrow> l_deal l = None \<and> older
     | Some v \<Rightarrow> (case l_deal l of None \<Rightarrow> True | Some x \<Rightarrow> x < v \<or> (x = v \<and> older)))"

definition comes_after :: "(string \<Rightarrow> 'k::linorder) \<Rightarrow> string \<Rightarrow> lead_cursor \<Rightarrow> db \<Rightarrow> lead \<Rightarrow> bool" where
  "comes_after coll srt cur d l =
     (if cu_id cur = [] then True
      else if srt = ''name'' then coll (to_lower (l_name l)) > coll (to_lower (cu_name cur)) \<or>
        (to_lower (l_name l) = to_lower (cu_name cur) \<and> coll (l_id l) > coll (cu_id cur))
      else case cu_time cur of None \<Rightarrow> True
      | Some t \<Rightarrow>
        if srt = ''status'' then cu_key cur = [] \<or> past coll l_qual (cu_key cur) t (cu_id cur) l
        else if srt = ''stage'' then cu_key cur = [] \<or> past coll l_stage (cu_key cur) t (cu_id cur) l
        else if srt = ''value'' then past_value coll (cu_value cur) t (cu_id cur) l
        else if srt = ''analyst'' then past coll (creator_key d) (cu_name cur) t (cu_id cur) l
        else if srt = ''oldest'' then (l_createdAt l, coll (l_id l)) > (t, coll (cu_id cur))
        else if srt = ''recent'' then (l_updatedAt l, coll (l_id l)) < (t, coll (cu_id cur))
        else (l_createdAt l, coll (l_id l)) < (t, coll (cu_id cur)))"

lemma older_at: "arg_at as b = Some (ATime t) \<Longrightarrow> arg_at as c = Some (AText i) \<Longrightarrow>
    older_than coll tm as b c l \<longleftrightarrow> (tm l, coll (l_id l)) < (t, coll i)"
  by (simp add: older_than_def time_at_hit text_at_hit)

lemma adds_keyed: "adds (keyed_cursor coll col key t i) (\<lambda>d l. past coll (col d) key t i l)"
  unfolding adds_def keyed_cursor_def Let_def
  by (intro allI adds_args3) (simp_all add: text_at_hit older_at length_push past_def)

lemma adds_value: "adds (value_cursor coll deal t i) (\<lambda>d. past_value coll deal t i)"
  unfolding adds_def value_cursor_def Let_def
  by (intro allI adds_args3; cases deal)
     (simp_all add: money_at_def older_at length_push past_value_def split: option.split)

lemma adds_name_cursor: "adds (\<lambda>b. let b = push_arg (AText i) (push_arg (AText n) b); a = length (snd b) - 1; bb = length (snd b) in
     push_where (\<lambda>as d l. text_at as a (\<lambda>n. coll (to_lower (l_name l)) > coll n) \<or>
       (text_at as a (\<lambda>n. to_lower (l_name l) = n) \<and> text_at as bb (\<lambda>i. coll (l_id l) > coll i))) b)
    (\<lambda>d l. coll (to_lower (l_name l)) > coll n \<or> (to_lower (l_name l) = n \<and> coll (l_id l) > coll i))"
  unfolding adds_def Let_def
  by (intro allI adds_args) (simp_all add: text_at_hit length_push)

lemma adds_time_cursor: "adds (\<lambda>b. let b = push_arg (AText i) (push_arg (ATime t) b); a = length (snd b) - 1; bb = length (snd b) in
      push_where (\<lambda>as d l. if srt = ''oldest''
          then time_at as a (\<lambda>t. text_at as bb (\<lambda>i. (l_createdAt l, coll (l_id l)) > (t, coll i)))
        else older_than coll (if srt = ''recent'' then l_updatedAt else l_createdAt) as a bb l) b)
    (\<lambda>d l. if srt = ''oldest'' then (l_createdAt l, coll (l_id l)) > (t, coll i)
        else if srt = ''recent'' then (l_updatedAt l, coll (l_id l)) < (t, coll i)
        else (l_createdAt l, coll (l_id l)) < (t, coll i))"
  unfolding adds_def Let_def
  by (intro allI adds_args) (simp_all add: text_at_hit time_at_hit older_at length_push)

lemma adds_cursor: "adds (appendCursor coll srt cur) (comes_after coll srt cur)"
proof -
  note simps = appendCursor_def comes_after_def
  consider "cu_id cur = []" | "cu_id cur \<noteq> []" "srt = ''name''" | "cu_id cur \<noteq> []" "srt \<noteq> ''name''" "cu_time cur = None"
    | t where "cu_id cur \<noteq> []" "srt \<noteq> ''name''" "cu_time cur = Some t" by blast
  then show ?thesis
  proof cases
    case 1
    show ?thesis by (rule adds_eq [OF adds_id]) (simp_all add: simps 1)
  next
    case 2
    show ?thesis by (rule adds_eq [OF adds_name_cursor [of "cu_id cur" "to_lower (cu_name cur)" coll]])
        (simp_all add: simps 2)
  next
    case 3
    show ?thesis by (rule adds_eq [OF adds_id]) (simp_all add: simps 3)
  next
    case 4
    show ?thesis
      by (rule adds_eq [OF adds_if [OF adds_if [OF adds_id adds_keyed] adds_if [OF adds_if [OF adds_id adds_keyed]
            adds_if [OF adds_value adds_if [OF adds_keyed adds_time_cursor [of "cu_id cur" t srt coll]]]]],
            where g = "appendCursor coll srt cur" and Q = "comes_after coll srt cur"])
         (simp add: simps 4, simp add: simps 4)
  qed
qed

definition pageable :: "db \<Rightarrow> string \<Rightarrow> lead \<Rightarrow> bool" where
  \<comment> \<open>a row whose cursor the next request reads back in full\<close>
  "pageable d srt l \<longleftrightarrow> l_id l \<noteq> [] \<and> (srt = ''status'' \<longrightarrow> l_qual l \<noteq> []) \<and>
     (srt = ''stage'' \<longrightarrow> l_stage l \<noteq> []) \<and> (srt = ''analyst'' \<longrightarrow> creator_name d l \<noteq> None)"

lemma strictly_key: "(\<And>a b. le a b \<longleftrightarrow> key a \<le> key b) \<Longrightarrow> strictly le x y \<longleftrightarrow> key x < (key y :: 'k::linorder)"
  by (auto simp: strictly_def)

lemma past_key: "inj coll \<Longrightarrow> past coll col (col x) (l_createdAt x) (l_id x) l \<longleftrightarrow>
    (coll (col x), newest_key coll x) < (coll (col l), newest_key coll l)"
  by (auto simp: past_def newest_key_def inj_eq)

lemma past_value_key: "past_value coll (l_deal x) (l_createdAt x) (l_id x) l \<longleftrightarrow>
    (deal_key x, newest_key coll x) < (deal_key l, newest_key coll l)"
  by (cases "l_deal x"; cases "l_deal l") (auto simp: past_value_def deal_key_def newest_key_def)

lemma cursor_strict:
  assumes "inj coll" "pageable d srt x"
  shows "comes_after coll srt (next_cursor srt (row_of d x)) d l \<longleftrightarrow> strictly (ordered coll d srt) x l"
proof -
  have id: "l_id x \<noteq> []" using assms(2) by (simp add: pageable_def)
  have same: "coll a = coll b \<longleftrightarrow> a = b" for a b using assms(1) by (simp add: inj_eq)
  note simps = comes_after_def next_cursor_def row_of_def Let_def
  consider "srt = ''name''" | "srt = ''oldest''" | "srt = ''recent''" | "srt = ''status''" | "srt = ''stage''"
    | "srt = ''value''" | "srt = ''analyst''"
    | "srt \<noteq> ''name''" "srt \<noteq> ''oldest''" "srt \<noteq> ''recent''" "srt \<noteq> ''status''" "srt \<noteq> ''stage''"
      "srt \<noteq> ''value''" "srt \<noteq> ''analyst''" by argo
  then show ?thesis
  proof cases
    case 1
    have "strictly (ordered coll d srt) x l \<longleftrightarrow>
        (coll (to_lower (l_name x)), coll (l_id x)) < (coll (to_lower (l_name l)), coll (l_id l))"
      by (rule strictly_key) (simp add: ordered_def 1)
    then show ?thesis using id by (auto simp: simps 1 same)
  next
    case 2
    have "strictly (ordered coll d srt) x l \<longleftrightarrow> (l_createdAt x, coll (l_id x)) < (l_createdAt l, coll (l_id l))"
      by (rule strictly_key) (simp add: ordered_def 2)
    then show ?thesis using id by (simp add: simps 2)
  next
    case 3
    have "strictly (ordered coll d srt) x l \<longleftrightarrow>
        (Desc (l_updatedAt x), Desc (coll (l_id x))) < (Desc (l_updatedAt l), Desc (coll (l_id l)))"
      by (rule strictly_key) (simp add: ordered_def 3)
    then show ?thesis using id by (auto simp: simps 3)
  next
    case 4
    have "strictly (ordered coll d srt) x l \<longleftrightarrow> (coll (l_qual x), newest_key coll x) < (coll (l_qual l), newest_key coll l)"
      by (rule strictly_key) (simp add: ordered_def 4)
    then show ?thesis using id assms(2) past_key [OF assms(1), of l_qual x l] by (simp add: simps 4 pageable_def)
  next
    case 5
    have "strictly (ordered coll d srt) x l \<longleftrightarrow> (coll (l_stage x), newest_key coll x) < (coll (l_stage l), newest_key coll l)"
      by (rule strictly_key) (simp add: ordered_def 5)
    then show ?thesis using id assms(2) past_key [OF assms(1), of l_stage x l] by (simp add: simps 5 pageable_def)
  next
    case 6
    have "strictly (ordered coll d srt) x l \<longleftrightarrow> (deal_key x, newest_key coll x) < (deal_key l, newest_key coll l)"
      by (rule strictly_key) (simp add: ordered_def 6)
    then show ?thesis using id past_value_key [of coll x l] by (simp add: simps 6)
  next
    case 7
    have "strictly (ordered coll d srt) x l \<longleftrightarrow>
        (coll (creator_key d x), newest_key coll x) < (coll (creator_key d l), newest_key coll l)"
      by (rule strictly_key) (simp add: ordered_def 7)
    moreover have "or_dash (creator_name d x) = creator_key d x"
      using assms(2) by (auto simp: pageable_def 7 or_dash_def creator_key_def)
    ultimately show ?thesis using id past_key [OF assms(1), of "creator_key d" x l] by (simp add: simps 7)
  next
    case 8
    have "strictly (ordered coll d srt) x l \<longleftrightarrow> newest_key coll x < newest_key coll l"
      by (rule strictly_key) (simp add: ordered_def 8)
    then show ?thesis using id 8 by (auto simp: simps newest_key_def)
  qed
qed

subsection \<open>One page\<close>

lemma calm_query: "calm w \<Longrightarrow> \<exists>w'. query q w = (Inr (q (tables w)), w') \<and> calm w' \<and> tables w' = tables w"
  by (cases "faults w") (auto simp: query_def sql_def calm_def split: option.split)

lemma calm_two_queries:
  assumes "calm w"
  shows "\<exists>w'. calm w' \<and> tables w' = tables w \<and>
    bindE (attempt (query q)) (\<lambda>cnt. bindE (query r) (\<lambda>rows. case cnt of Inl e \<Rightarrow> throw e | Inr n \<Rightarrow> ret (f n rows))) w =
      (Inr (f (q (tables w)) (r (tables w))), w')"
proof -
  obtain w1 where w1: "query q w = (Inr (q (tables w)), w1)" "calm w1" "tables w1 = tables w"
    using calm_query [OF assms] by blast
  obtain w2 where w2: "query r w1 = (Inr (r (tables w1)), w2)" "calm w2" "tables w2 = tables w1"
    using calm_query [OF w1(2)] by blast
  show ?thesis by (rule exI [of _ w2]) (simp add: bindE_def attempt_def ret_def w1 w2)
qed

definition matching :: "pg \<Rightarrow> zone \<Rightarrow> lead_params \<Rightarrow> db \<Rightarrow> lead list" where
  \<comment> \<open>the leads a list request is about\<close>
  "matching p zone ps d = filter (lead_matches p zone (normal_params ps) d) (leads d)"

definition sorted_matches :: "pg \<Rightarrow> zone \<Rightarrow> (string \<Rightarrow> 'k::linorder) \<Rightarrow> lead_params \<Rightarrow> db \<Rightarrow> lead list" where
  "sorted_matches p zone coll ps d = order_by (ordered coll d (normalizeLeadSort (lp_sort ps))) (matching p zone ps d)"

lemma built_0: "buildLeadListWhere p zone ps 0 = appendLeadSearch p (lp_query ps) (lp_field ps) (appendLeadFacets zone ps
    (if trim (lp_status ps) = [] then appendLeadFilter (normalizeLeadFilter (lp_filter ps)) ([], []) else ([], [])))"
  by (simp only: buildLeadListWhere_drop Let_def drop_0 replicate_0 prod.collapse)

lemma built_where: "holds_all (buildLeadListWhere p zone ps 0) (snd (buildLeadListWhere p zone ps 0)) d l \<longleftrightarrow> lead_matches p zone ps d l"
  using adds_holds [OF adds_lead_where, of "[]" "[]" p ps zone "[]" d l]
  by (simp only: built_0 list.size drop_0 append_Nil append_Nil2)

lemma built_page: "(let b = appendCursor coll srt cur (buildLeadListWhere p zone ps 0) in holds_all b (snd b @ [ACount n]) d l) \<longleftrightarrow>
    lead_matches p zone ps d l \<and> comes_after coll srt cur d l"
  using adds_holds [OF adds_comp [OF adds_lead_where adds_cursor], of "[]" "[]" coll srt cur p ps zone "[ACount n]" d l]
  by (simp only: built_0 Let_def list.size drop_0 append_Nil)

lemma ListLeads_calm:
  fixes coll :: "string \<Rightarrow> 'k::linorder" and ps :: lead_params and d :: db
  defines "srt \<equiv> normalizeLeadSort (lp_sort ps)" and "limit \<equiv> clampLeadLimit (lp_limit ps)"
  assumes "calm w" "tables w = d" "decodeLeadCursor c = Some cur0"
  shows "\<exists>w'. calm w' \<and> tables w' = d \<and> ListLeads p tx zone coll ps c w = (Inr (page_of tx (normal_params ps)
      (length (matching p zone ps d)) (map (row_of d) (take (nat (limit + 1)) (order_by (ordered coll d srt)
        (filter (\<lambda>l. lead_matches p zone (normal_params ps) d l \<and> comes_after coll srt (current_cursor srt cur0) d l) (leads d)))))), w')"
proof -
  have n: "lp_sort (normal_params ps) = srt" "lp_limit (normal_params ps) = lp_limit ps"
    by (simp_all add: normal_params_def srt_def)
  let ?b = "buildLeadListWhere p zone (normal_params ps) 0"
  let ?b' = "appendCursor coll srt (current_cursor srt cur0) ?b"
  have cnt: "count_where (holds_all ?b (snd ?b) d) (leads d) = length (matching p zone ps d)"
    unfolding count_where_def matching_def built_where [THEN ext] ..
  have rows: "lead_rows coll srt ?b' limit d = map (row_of d) (take (nat (limit + 1)) (order_by (ordered coll d srt)
        (filter (\<lambda>l. lead_matches p zone (normal_params ps) d l \<and> comes_after coll srt (current_cursor srt cur0) d l) (leads d))))"
    unfolding lead_rows_def built_page [of coll srt "current_cursor srt cur0" p zone "normal_params ps", unfolded Let_def, THEN ext]
    ..
  show ?thesis
    using calm_two_queries [OF assms(3), of "\<lambda>d. count_where (holds_all ?b (snd ?b) d) (leads d)"
        "lead_rows coll srt ?b' limit" "page_of tx (normal_params ps)"]
    unfolding ListLeads_def Let_def n limit_def [symmetric] assms(5) option.case assms(4) cnt rows .
qed

subsection \<open>The pages of the list\<close>

definition list_step :: "pg \<Rightarrow> texts \<Rightarrow> zone \<Rightarrow> (string \<Rightarrow> 'k::linorder) \<Rightarrow> lead_params \<Rightarrow> cursor_text \<times> world \<Rightarrow>
    (lead_item list \<times> (cursor_text \<times> world) option) option" where
  \<comment> \<open>one request and what the client does with its answer\<close>
  "list_step p tx zone coll ps x = (case x of (c, w) \<Rightarrow> case ListLeads p tx zone coll ps c w of
     (Inl e, w') \<Rightarrow> None
   | (Inr r, w') \<Rightarrow> Some (ll_items r, map_option (\<lambda>c'. (Cursor c', w')) (ll_next r)))"

definition show_lead :: "texts \<Rightarrow> db \<Rightarrow> lead \<Rightarrow> lead_item" where
  "show_lead tx d l = item_of tx (row_of d l)"

definition pages_ready :: "pg \<Rightarrow> zone \<Rightarrow> (string \<Rightarrow> 'k::linorder) \<Rightarrow> lead_params \<Rightarrow> db \<Rightarrow> bool" where
  "pages_ready p zone coll ps d \<longleftrightarrow> inj coll \<and> distinct (map l_id (leads d)) \<and>
     (\<forall>l \<in> set (matching p zone ps d). pageable d (normalizeLeadSort (lp_sort ps)) l)"

definition list_stands :: "pg \<Rightarrow> texts \<Rightarrow> zone \<Rightarrow> (string \<Rightarrow> 'k::linorder) \<Rightarrow> lead_params \<Rightarrow> db \<Rightarrow>
    cursor_text \<times> world \<Rightarrow> lead_item list \<Rightarrow> bool" where
  \<comment> \<open>the rows after the cursor, a tail of the sorted matches\<close>
  "list_stands p tx zone coll ps d x items = (case x of (c, w) \<Rightarrow> pages_ready p zone coll ps d \<and> calm w \<and> tables w = d \<and>
     (\<exists>cur us zs. decodeLeadCursor c = Some cur \<and> items = map (show_lead tx d) zs \<and>
        sorted_matches p zone coll ps d = us @ zs \<and>
        zs = filter (comes_after coll (normalizeLeadSort (lp_sort ps)) (current_cursor (normalizeLeadSort (lp_sort ps)) cur) d)
          (sorted_matches p zone coll ps d)))"

lemma matches_ordered: "pages_ready p zone coll ps d \<Longrightarrow>
    well_ordered_by (ordered coll d srt) (matching p zone ps d)"
  by (rule ordered_key) (simp_all add: pages_ready_def matching_def distinct_map_filter)

lemma page_rows:
  assumes "pages_ready p zone coll ps d"
  shows "order_by (ordered coll d srt) (filter (\<lambda>l. lead_matches p zone (normal_params ps) d l \<and> Q l) (leads d)) =
     filter Q (order_by (ordered coll d srt) (matching p zone ps d))"
proof -
  have "filter (\<lambda>l. lead_matches p zone (normal_params ps) d l \<and> Q l) (leads d) = filter Q (matching p zone ps d)"
    unfolding matching_def filter_filter ..
  then show ?thesis using matches_ordered [OF assms, of srt] by (simp add: well_ordered_by_def)
qed

lemma list_step_page:
  assumes "list_stands p tx zone coll ps d (c, w) items"
  obtains w' us zs where "calm w'" "tables w' = d" "items = map (show_lead tx d) zs"
    "sorted_matches p zone coll ps d = us @ zs"
    "list_step p tx zone coll ps (c, w) = Some (map (show_lead tx d) (take (nat (clampLeadLimit (lp_limit ps))) zs),
       if length zs > nat (clampLeadLimit (lp_limit ps))
       then Some (Cursor (next_cursor (normalizeLeadSort (lp_sort ps)) (row_of d (last (take (nat (clampLeadLimit (lp_limit ps))) zs)))), w')
       else None)"
proof -
  let ?srt = "normalizeLeadSort (lp_sort ps)" and ?lim = "nat (clampLeadLimit (lp_limit ps))"
  let ?S = "sorted_matches p zone coll ps d"
  from assms obtain cur us zs where st: "pages_ready p zone coll ps d" "calm w" "tables w = d"
    "decodeLeadCursor c = Some cur" "items = map (show_lead tx d) zs" "?S = us @ zs"
    "zs = filter (comes_after coll ?srt (current_cursor ?srt cur) d) ?S"
    unfolding list_stands_def prod.case by blast
  have pos: "clampLeadLimit (lp_limit ps) > 0" using clamp_bounds [of "lp_limit ps"] by simp
  have rows: "order_by (ordered coll d ?srt) (filter (\<lambda>l. lead_matches p zone (normal_params ps) d l \<and>
      comes_after coll ?srt (current_cursor ?srt cur) d l) (leads d)) = zs"
    by (rule trans [OF page_rows [OF st(1)] st(7) [unfolded sorted_matches_def, symmetric]])
  obtain w' where w': "calm w'" "tables w' = d" "ListLeads p tx zone coll ps c w = (Inr (page_of tx (normal_params ps)
      (length (matching p zone ps d)) (map (row_of d) (take (nat (clampLeadLimit (lp_limit ps) + 1)) zs))), w')"
    using ListLeads_calm [OF st(2,3,4), of p tx zone coll ps] unfolding rows by blast
  have lim: "nat (clampLeadLimit (lp_limit ps) + 1) = Suc ?lim" "int ?lim = clampLeadLimit (lp_limit ps)" "?lim > 0"
    using pos by simp_all
  have ps': "lp_limit (normal_params ps) = lp_limit ps" "lp_sort (normal_params ps) = ?srt"
    by (simp_all add: normal_params_def)
  have "list_step p tx zone coll ps (c, w) = Some (map (show_lead tx d) (take ?lim zs),
       if length zs > ?lim then Some (Cursor (next_cursor ?srt (row_of d (last (take ?lim zs)))), w') else None)"
  proof (cases "length zs > ?lim")
    case True
    then have ne: "take ?lim zs \<noteq> []" and more: "int (length (take (Suc ?lim) zs)) > int ?lim" using lim(3) by auto
    show ?thesis using True ne more lim(2)
      by (simp add: list_step_def w'(3) page_of_def Let_def ps' lim(1) show_lead_def take_map last_map o_def min_def)
  next
    case False
    then have "\<not> clampLeadLimit (lp_limit ps) < int (length zs)" using lim(2) by linarith
    then show ?thesis using False
      by (simp add: list_step_def w'(3) page_of_def Let_def ps' lim(1) show_lead_def o_def)
  qed
  then show thesis using that w'(1,2) st(5,6) by blast
qed

interpretation list_pages: paging "list_step p tx zone coll ps" "nat (clampLeadLimit (lp_limit ps))"
    "list_stands p tx zone coll ps d"
  for p tx zone and coll :: "string \<Rightarrow> 'k::linorder" and ps d
proof
  show "nat (clampLeadLimit (lp_limit ps)) > 0" using clamp_bounds [of "lp_limit ps"] by simp
next
  fix x items assume st: "list_stands p tx zone coll ps d x items" "length items \<le> nat (clampLeadLimit (lp_limit ps))"
  obtain c w where x: "x = (c, w)" by force
  obtain w' us zs where pg: "items = map (show_lead tx d) zs"
    "list_step p tx zone coll ps (c, w) = Some (map (show_lead tx d) (take (nat (clampLeadLimit (lp_limit ps))) zs),
       if length zs > nat (clampLeadLimit (lp_limit ps))
       then Some (Cursor (next_cursor (normalizeLeadSort (lp_sort ps)) (row_of d (last (take (nat (clampLeadLimit (lp_limit ps))) zs)))), w')
       else None)"
    using list_step_page [OF st(1) [unfolded x]] .
  have "length zs \<le> nat (clampLeadLimit (lp_limit ps))" using st(2) pg(1) by simp
  then show "list_step p tx zone coll ps x = Some (items, None)" unfolding x pg by simp
next
  fix x items assume st: "list_stands p tx zone coll ps d x items" "length items > nat (clampLeadLimit (lp_limit ps))"
  obtain c w where x: "x = (c, w)" by force
  let ?lim = "nat (clampLeadLimit (lp_limit ps))" and ?srt = "normalizeLeadSort (lp_sort ps)"
  from st(1) have ready: "pages_ready p zone coll ps d" unfolding x list_stands_def prod.case by blast
  obtain w' us zs where pg: "calm w'" "tables w' = d" "items = map (show_lead tx d) zs" "sorted_matches p zone coll ps d = us @ zs"
    "list_step p tx zone coll ps (c, w) = Some (map (show_lead tx d) (take ?lim zs), if length zs > ?lim
       then Some (Cursor (next_cursor ?srt (row_of d (last (take ?lim zs)))), w') else None)"
    using list_step_page [OF st(1) [unfolded x]] .
  have long: "length zs > ?lim" using st(2) pg(3) by simp
  let ?pre = "butlast (take ?lim zs)" and ?x = "last (take ?lim zs)"
  have ne: "take ?lim zs \<noteq> []" using long clamp_bounds [of "lp_limit ps"] by auto
  have S: "sorted_matches p zone coll ps d = (us @ ?pre) @ ?x # drop ?lim zs"
    using pg(4) ne append_butlast_last_id [OF ne] append_take_drop_id [of ?lim zs]
    by (metis append.assoc append_Cons append_Nil)
  have ord: "well_ordered_by (ordered coll d ?srt) (matching p zone ps d)" by (rule matches_ordered [OF ready])
  have "?x \<in> set (sorted_matches p zone coll ps d)" unfolding S by simp
  then have "?x \<in> set (matching p zone ps d)" using ord by (simp add: sorted_matches_def well_ordered_by_def)
  then have page: "pageable d ?srt ?x" and inj: "inj coll" using ready by (simp_all add: pages_ready_def)
  let ?c = "next_cursor ?srt (row_of d ?x)"
  have cur: "current_cursor ?srt ?c = ?c" by (simp add: current_cursor_def next_cursor_def Let_def)
  have "drop ?lim zs = filter (strictly (ordered coll d ?srt) ?x) (sorted_matches p zone coll ps d)"
    using ord S unfolding well_ordered_by_def sorted_matches_def by metis
  then have rest: "drop ?lim zs = filter (comes_after coll ?srt (current_cursor ?srt ?c) d) (sorted_matches p zone coll ps d)"
    unfolding cur cursor_strict [OF inj page, THEN ext] .
  have "list_stands p tx zone coll ps d (Cursor ?c, w') (drop ?lim items)"
    unfolding list_stands_def prod.case
  proof (intro conjI exI)
    show "decodeLeadCursor (Cursor ?c) = Some ?c" by (simp add: decodeLeadCursor_def)
    show "drop ?lim items = map (show_lead tx d) (drop ?lim zs)" by (simp only: pg(3) drop_map)
    show "sorted_matches p zone coll ps d = (us @ take ?lim zs) @ drop ?lim zs" by (simp add: pg(4))
  qed (fact ready pg(1) pg(2) rest)+
  then show "\<exists>x'. list_step p tx zone coll ps x = Some (take ?lim items, Some x') \<and> list_stands p tx zone coll ps d x' (drop ?lim items)"
    unfolding x pg(5) if_P [OF long] pg(3) take_map by blast
qed

text \<open>C24. Following the cursors from the first page ends within as many pages as there are
  matching leads and one, and shows every matching lead exactly once, in the order of the sort,
  whatever the page size: provided no two leads share an id, the collation tells texts apart, and
  every match is pageable (an id; a status or stage when sorted by it; a creator when sorted by
  analyst).\<close>

theorem pages_show_every_match:
  assumes "calm w" "inj coll" "distinct (map l_id (leads (tables w)))"
    and "\<forall>l \<in> set (matching p zone ps (tables w)). pageable (tables w) (normalizeLeadSort (lp_sort ps)) l"
    and "length (matching p zone ps (tables w)) < n"
  shows "\<exists>shown. walk n (list_step p tx zone coll ps) (NoCursor, w) = Some (map (show_lead tx (tables w)) shown) \<and>
    set shown = {l \<in> set (leads (tables w)). lead_matches p zone (normal_params ps) (tables w) l} \<and> distinct shown \<and>
    sorted_wrt (ordered coll (tables w) (normalizeLeadSort (lp_sort ps))) shown"
proof -
  let ?d = "tables w" and ?S = "sorted_matches p zone coll ps (tables w)"
  have ready: "pages_ready p zone coll ps ?d" using assms(2-4) by (simp add: pages_ready_def)
  note ord = matches_ordered [OF ready, of "normalizeLeadSort (lp_sort ps)", unfolded well_ordered_by_def, folded sorted_matches_def]
  have all: "filter (comes_after coll (normalizeLeadSort (lp_sort ps)) (current_cursor (normalizeLeadSort (lp_sort ps)) no_cursor) ?d) ?S = ?S"
    by (simp add: comes_after_def current_cursor_def no_cursor_def)
  have "list_stands p tx zone coll ps ?d (NoCursor, w) (map (show_lead tx ?d) ?S)"
    unfolding list_stands_def prod.case using ready assms(1) all
    by (intro conjI exI [of _ no_cursor] exI [of _ "[]"] exI [of _ ?S]) (simp_all add: decodeLeadCursor_def)
  moreover have "length ?S = length (matching p zone ps ?d)"
    using ord assms(3) distinct_card [of ?S] distinct_card [of "matching p zone ps ?d"]
    by (simp add: matching_def distinct_map)
  ultimately have "walk n (list_step p tx zone coll ps) (NoCursor, w) = Some (map (show_lead tx ?d) ?S)"
    using assms(5) by (intro list_pages.walk_all) simp_all
  moreover have "set (matching p zone ps ?d) = {l \<in> set (leads ?d). lead_matches p zone (normal_params ps) ?d l}"
    by (simp add: matching_def)
  ultimately show ?thesis using ord by (intro exI [of _ ?S]) simp
qed

definition three_leads :: db where
  \<comment> \<open>two leads of nobody around one of an analyst\<close>
  "three_leads = empty_db\<lparr>users := [(blank_user ''ann'')\<lparr>u_name := ''Ann'', u_role := RoleLeadAnalyst\<rparr>],
     leads := [(blank_lead ''l1'')\<lparr>l_createdAt := 30\<rparr>, (blank_lead ''l2'')\<lparr>l_createdAt := 20, l_createdBy := Some ''ann''\<rparr>,
       (blank_lead ''l3'')\<lparr>l_createdAt := 10\<rparr>]\<rparr>"

definition plain_params :: "string \<Rightarrow> lead_params" where
  \<comment> \<open>two leads per page, in the given sort\<close>
  "plain_params srt = (applyActorLeadScope None \<lparr>lp_filter = [], lp_sort = srt, lp_query = [], lp_field = [], lp_cursor = [],
     lp_limit = 2, lp_country = [], lp_city = [], lp_team = [], lp_analyst = [], lp_se = [], lp_manager = [], lp_atl = [],
     lp_atlTeam = [], lp_source = [], lp_portal = [], lp_metaProfile = [], lp_status = [], lp_stage = [],
     lp_serviceLine = [], lp_reason = [], lp_addedFrom = [], lp_addedTo = []\<rparr>)"

definition no_pg :: pg where "no_pg = \<lparr>pg_num = (\<lambda>_. []), pg_dates = (\<lambda>_. [])\<rparr>"
definition no_texts :: texts where "no_texts = \<lparr>tx_num = (\<lambda>_. []), tx_day = (\<lambda>_. [])\<rparr>"

theorem pages_show_every_match_witness:
  "\<exists>shown. walk 4 (list_step no_pg no_texts kathmandu (\<lambda>s. s) (plain_params ''newest'')) (NoCursor, calm_world three_leads) =
      Some (map (show_lead no_texts three_leads) shown) \<and> l_id ` set shown = {''l1'', ''l2'', ''l3''}"
proof -
  have t: "tables (calm_world three_leads) = three_leads" by (simp add: calm_world_def)
  have c: "calm (calm_world three_leads)" by (simp add: calm_world_def calm_def)
  have m: "map l_id (matching no_pg kathmandu (plain_params ''newest'') three_leads) = [''l1'', ''l2'', ''l3'']"
    "list_all (pageable three_leads (normalizeLeadSort (lp_sort (plain_params ''newest'')))) (leads three_leads)"
    "map l_id (leads three_leads) = [''l1'', ''l2'', ''l3'']" by code_simp+
  have sub: "set (matching no_pg kathmandu (plain_params ''newest'') three_leads) \<subseteq> set (leads three_leads)"
    by (auto simp: matching_def)
  have len: "length (matching no_pg kathmandu (plain_params ''newest'') three_leads) < 4"
    using arg_cong [OF m(1), of length] by simp
  obtain shown where s: "walk 4 (list_step no_pg no_texts kathmandu (\<lambda>s. s) (plain_params ''newest'')) (NoCursor, calm_world three_leads) =
      Some (map (show_lead no_texts three_leads) shown)"
    "set shown = set (matching no_pg kathmandu (plain_params ''newest'') three_leads)"
    using pages_show_every_match [of "calm_world three_leads" "\<lambda>s. s" no_pg kathmandu "plain_params ''newest''" 4 no_texts]
      c len m sub by (auto simp: t matching_def list_all_iff subset_iff)
  have "l_id ` set shown = set [''l1'', ''l2'', ''l3'']" unfolding s(2) by (simp only: m(1) [symmetric] set_map)
  then show ?thesis using s(1) by (intro exI [of _ shown]) simp
qed

definition orphans :: db where
  \<comment> \<open>two leads without creator and with an empty status\<close>
  "orphans = empty_db\<lparr>leads := [(blank_lead ''l1'')\<lparr>l_createdAt := 20\<rparr>, (blank_lead ''l2'')\<lparr>l_createdAt := 10\<rparr>]\<rparr>"

definition shown_ids :: "nat \<Rightarrow> string \<Rightarrow> string list option" where
  "shown_ids n srt = map_option (map li_id) (walk n (list_step no_pg no_texts kathmandu (\<lambda>s. s)
     ((plain_params srt)\<lparr>lp_limit := 1\<rparr>)) (NoCursor, calm_world orphans))"


end
