(* ===== verification/ListHandlers.thy ===== *)
theory ListHandlers
  imports LeadHandlers LeadPages AdminSafety
begin

section \<open>The lead list route (handlers_leads_http.go, response_cache.go)\<close>

text \<open>
  \<open>listLeads\<close> answers from the response cache or lists and stores the encoded answer; \<open>handleLeads\<close>
  routes the collection. The encoding of the answer (\<open>json.Marshal\<close>) is a parameter of the handler.
\<close>

subsection \<open>Cached answers\<close>

definition cached_req :: "request \<Rightarrow> string \<Rightarrow> string \<Rightarrow> auth_user \<Rightarrow> cached_request" where
  "cached_req r path rawQuery actor =
     \<lparr>cr_get = (rq_method r = ''GET''), cr_key = cacheKeyFor path rawQuery (Some (a_id actor))\<rparr>"

definition serve_cached :: "cached_request \<Rightarrow> unit act" where
  \<comment> \<open>\<open>if s.serveFromCache(w, r) { return }\<close>\<close>
  "serve_cached q s = (case serveFromCache (now (s_world s)) q (Some (s_cache s)) of
     None \<Rightarrow> (Inr (), s) | Some v \<Rightarrow> (Inl (json 200 (PBytes v)), s))"

definition write_cached :: "cached_request \<Rightarrow> string \<Rightarrow> int \<Rightarrow> response act" where
  \<comment> \<open>\<open>s.writeCachedJSON(w, r, payload, ttl)\<close>, the payload encoded\<close>
  "write_cached q v ttl s = (case writeCachedJSON (now (s_world s)) q v ttl (Some (s_cache s)) of
     (body, c) \<Rightarrow> (Inr (json 200 (PBytes body)), s\<lparr>s_cache := (case c of None \<Rightarrow> s_cache s | Some x \<Rightarrow> x)\<rparr>))"

subsection \<open>The list\<close>

definition list_params :: "auth_user \<Rightarrow> (string \<times> string) list \<Rightarrow> lead_params" where
  "list_params actor q = (leadListParamsFromRequest (Some actor) q)\<lparr>lp_sort := qget q ''sort'', lp_query := qget q ''q'',
     lp_field := qget q ''field'', lp_cursor := qget q ''cursor'',
     lp_limit := (let raw = trim (qget q ''limit'') in if raw = [] then 0 else case atoi raw of None \<Rightarrow> 0 | Some n \<Rightarrow> n)\<rparr>"

record 'k list_env =
  le_pg :: pg
  le_texts :: texts
  le_zone :: zone
  le_coll :: "string \<Rightarrow> 'k"
  le_marshal :: "lead_list \<Rightarrow> string"
  le_cursor :: "string \<Rightarrow> cursor_text"   \<comment> \<open>what the text of a cursor holds\<close>

definition listLeads :: "('k::linorder) list_env \<Rightarrow> request \<Rightarrow> string \<Rightarrow> string \<Rightarrow> auth_user \<Rightarrow> response act" where
  "listLeads env r path rawQuery actor =
     (let key = cached_req r path rawQuery actor; ps = list_params actor (rq_query r) in
      andThen0 (serve_cached key)
      (andThen (store (ListLeads (le_pg env) (le_texts env) (le_zone env) (le_coll env) ps (le_cursor env (lp_cursor ps)))) (\<lambda>x.
        case x of Inl e \<Rightarrow> if contains (err_text e) ''invalid cursor'' then reply (failure 400 ''invalid cursor'')
                          else reply (failure 500 ''failed to list leads'')
        | Inr res \<Rightarrow> write_cached key (le_marshal env res) 15000)))"

definition handleLeads :: "('k::linorder) list_env \<Rightarrow> request \<Rightarrow> string \<Rightarrow> string \<Rightarrow> auth_user \<Rightarrow> json option \<Rightarrow> response act" where
  "handleLeads env r path rawQuery actor body = andThen0 (requireLeadDataAccess (Some actor))
     (if rq_method r = ''GET'' then listLeads env r path rawQuery actor
      else if rq_method r = ''POST'' then createLead (le_zone env) actor body
      else if rq_method r = ''DELETE'' then deleteLeads actor body
      else reply method_not_allowed)"

subsection \<open>The scope of a list\<close>

definition listed_within :: "db \<Rightarrow> auth_user \<Rightarrow> lead_list \<Rightarrow> bool" where
  \<comment> \<open>every item is a lead the actor may see\<close>
  "listed_within d actor res \<longleftrightarrow> (\<forall>it \<in> set (ll_items res). \<exists>l \<in> set (leads d). li_id it = l_id l \<and> may_see d actor l)"

definition proper_actor :: "db \<Rightarrow> auth_user \<Rightarrow> bool" where
  \<comment> \<open>a known role; no id reads as \<open>none\<close>; nobody is on the team that stands for no team\<close>
  "proper_actor d actor \<longleftrightarrow> isValidRole (a_role actor) \<and> trim (a_id actor) \<noteq> [] \<and> \<not> is_nobody (trim (a_id actor)) \<and>
     \<not> is_nobody (trimmed (a_team actor)) \<and> (\<forall>l \<in> set (leads d). l_team l \<noteq> Some no_team)"

lemma valid_role_cases: "isValidRole r \<Longrightarrow> r = RoleSuperadmin \<or> r = RoleLeadAnalyst \<or> r = RoleSalesExecutive \<or>
    r = RoleAnalystTeamLead \<or> r = RoleMainTeamLead"
  by (auto simp: isValidRole_def roleLabels_def split: if_splits)

lemma id_facet_bound: "trim v \<noteq> [] \<Longrightarrow> \<not> is_nobody (trim v) \<Longrightarrow> id_facet v x \<longleftrightarrow> x = Some (trim v)"
  by (simp add: id_facet_def)

lemma no_team_facts: "trim no_team = no_team" "no_team \<noteq> []" "\<not> is_nobody no_team"
  by code_simp+

lemma forced_facets:
  defines "P q actor \<equiv> leadListParamsFromRequest (Some actor) q"
  assumes "proper_actor d actor" "l \<in> set (leads d)"
    and "id_facet (lp_team (P q actor)) (l_team l)" "id_facet (lp_analyst (P q actor)) (l_createdBy l)"
    and "id_facet (lp_se (P q actor)) (l_se l)"
    and "trim (lp_atl (P q actor)) \<noteq> [] \<Longrightarrow>
      in_analyst_scope d (trim (lp_atl (P q actor))) (trim (lp_atlTeam (P q actor))) l"
  shows "may_see d actor l"
proof -
  let ?ps = "P q actor"
  note f = assms(4-7)
  have p: "trim (a_id actor) \<noteq> []" "\<not> is_nobody (trim (a_id actor))" "\<not> is_nobody (trimmed (a_team actor))" "l_team l \<noteq> Some no_team"
    using assms(2,3) by (simp_all add: proper_actor_def)
  note lp = P_def leadListParamsFromRequest_def applyActorLeadScope_def Let_def
  consider "a_role actor = RoleSuperadmin" | "a_role actor = RoleLeadAnalyst" | "a_role actor = RoleSalesExecutive"
    | "a_role actor = RoleAnalystTeamLead" | "a_role actor = RoleMainTeamLead"
    using assms(2) valid_role_cases unfolding proper_actor_def by blast
  then show ?thesis
  proof cases
    case 1
    then show ?thesis by (simp add: may_see_def)
  next
    case 2
    then have "lp_analyst ?ps = trim (a_id actor)"
      using p(1) by (simp add: lp scope_defs actor_is_mtl_def isMainTeamLead_def roles_distinct)
    then show ?thesis using f(2) p 2 by (simp add: id_facet_bound may_see_def roles_distinct)
  next
    case 3
    then have "lp_se ?ps = trim (a_id actor)"
      using p(1) by (simp add: lp scope_defs actor_is_mtl_def isMainTeamLead_def roles_distinct)
    then show ?thesis using f(3) p 3 by (simp add: id_facet_bound may_see_def roles_distinct)
  next
    case 4
    then have "lp_atl ?ps = trim (a_id actor)" "lp_atlTeam ?ps = derefTeamName (a_analystTeam actor)"
      using p(1) by (simp_all add: lp scope_defs actor_is_mtl_def isMainTeamLead_def roles_distinct)
    then show ?thesis using f(4) p 4 by (simp add: may_see_def roles_distinct)
  next
    case 5
    then have "lp_team ?ps = (if trimmed (a_team actor) = [] then no_team else trimmed (a_team actor))"
      by (simp add: lp scope_defs actor_is_mtl_def isMainTeamLead_def roles_distinct)
    then show ?thesis using f(1) p 5 no_team_facts
      by (cases "a_team actor") (auto simp: id_facet_bound may_see_def roles_distinct split: if_splits)
  qed
qed

lemma list_params_fields:
  "lp_team (normal_params (list_params actor q)) = lp_team (leadListParamsFromRequest (Some actor) q)"
  "lp_analyst (normal_params (list_params actor q)) = lp_analyst (leadListParamsFromRequest (Some actor) q)"
  "lp_se (normal_params (list_params actor q)) = lp_se (leadListParamsFromRequest (Some actor) q)"
  "lp_atl (normal_params (list_params actor q)) = lp_atl (leadListParamsFromRequest (Some actor) q)"
  "lp_atlTeam (normal_params (list_params actor q)) = lp_atlTeam (leadListParamsFromRequest (Some actor) q)"
  by (simp_all add: normal_params_def list_params_def Let_def)

lemma forced_scope:
  assumes "proper_actor d actor" "l \<in> set (leads d)" "facets_mean zone (normal_params (list_params actor q)) d l"
  shows "may_see d actor l"
  by (rule forced_facets [OF assms(1,2), of q])
     (use assms(3) in \<open>simp_all add: facets_mean_def list_params_fields\<close>)

lemma page_items: "set (ll_items (page_of tx ps n rows)) \<subseteq> item_of tx ` set rows"
  by (auto simp: page_of_def Let_def dest: in_set_takeD)

lemma ListLeads_items:
  assumes "ListLeads p tx zone coll ps c w = (Inr res, w')" "it \<in> set (ll_items res)"
  shows "\<exists>l \<in> set (leads (tables w)). li_id it = l_id l \<and> lead_matches p zone (normal_params ps) (tables w) l"
proof -
  let ?b = "buildLeadListWhere p zone (normal_params ps) 0"
  obtain cur where cur: "decodeLeadCursor c = Some cur"
    using assms(1) by (auto simp: ListLeads_def Let_def throw_def split: option.splits)
  let ?b' = "appendCursor coll (lp_sort (normal_params ps)) (current_cursor (lp_sort (normal_params ps)) cur) ?b"
  let ?lim = "clampLeadLimit (lp_limit (normal_params ps))"
  obtain x w1 where q1: "query (\<lambda>d. count_where (holds_all ?b (snd ?b) d) (leads d)) w = (x, w1)" by force
  have t1: "tables w1 = tables w"
    using q1 by (auto simp: query_def sql_def split: if_splits list.splits option.splits)
  obtain y w2 where q2: "query (lead_rows coll (lp_sort (normal_params ps)) ?b' ?lim) w1 = (y, w2)" by force
  have "\<exists>rows n. y = Inr rows \<and> res = page_of tx (normal_params ps) n rows"
    using assms(1) by (cases y; cases x)
      (auto simp: ListLeads_def Let_def cur bindE_def attempt_def q1 q2 throw_def ret_def)
  then obtain rows n where y: "y = Inr rows" and res: "res = page_of tx (normal_params ps) n rows" by blast
  have rows: "rows = lead_rows coll (lp_sort (normal_params ps)) ?b' ?lim (tables w)"
    using query_result q2 t1 unfolding y by metis
  obtain l where l: "it = item_of tx (row_of (tables w) l)" "l \<in> set (leads (tables w))"
    "holds_all ?b' (snd ?b' @ [ACount (?lim + 1)]) (tables w) l"
    using assms(2) page_items [of tx "normal_params ps" n rows] unfolding res rows lead_rows_def
    by (auto simp: set_order_by dest!: in_set_takeD subsetD)
  have "lead_matches p zone (normal_params ps) (tables w) l"
    using l(3) built_page [of coll "lp_sort (normal_params ps)" "current_cursor (lp_sort (normal_params ps)) cur" p zone
        "normal_params ps" "?lim + 1" "tables w" l, unfolded Let_def] by blast
  then show ?thesis using l by (intro bexI [of _ l]) (simp_all add: item_of_def row_of_def Let_def)
qed

text \<open>A list answered from the tables holds only leads the actor may see, whatever facets the
  client asks for; any other successful answer was stored in the response cache under the key of the
  same path, query and user.\<close>

theorem lists_stay_in_scope:
  assumes "proper_actor (tables (s_world s)) actor"
    and "run_handler (listLeads env r path rawQuery actor) s = (resp, s')" "r_status resp = 200"
  shows "(\<exists>v. serveFromCache (now (s_world s)) (cached_req r path rawQuery actor) (Some (s_cache s)) = Some v \<and>
      r_body resp = PBytes v \<and> s' = s) \<or>
    (\<exists>res. r_body resp = PBytes (le_marshal env res) \<and> listed_within (tables (s_world s)) actor res)"
proof -
  let ?key = "cached_req r path rawQuery actor" and ?ps = "list_params actor (rq_query r)"
  let ?L = "ListLeads (le_pg env) (le_texts env) (le_zone env) (le_coll env) ?ps (le_cursor env (lp_cursor ?ps)) (s_world s)"
  show ?thesis
  proof (cases "serveFromCache (now (s_world s)) ?key (Some (s_cache s))")
    case (Some v)
    then show ?thesis using assms(2)
      by (auto simp: listLeads_def Let_def andThen0_def andThen_def serve_cached_def run_handler_def json_def)
  next
    case None
    obtain x w where L: "?L = (x, w)" by force
    have "\<exists>res. x = Inr res \<and> r_body resp = PBytes (le_marshal env res)"
      using assms(2,3) None L
      by (cases x) (auto simp: listLeads_def Let_def andThen0_def andThen_def serve_cached_def store_def reply_def
          failure_def json_def write_cached_def writeCachedJSON_def run_handler_def split: if_splits)
    then obtain res where res: "x = Inr res" "r_body resp = PBytes (le_marshal env res)" by blast
    have "listed_within (tables (s_world s)) actor res"
      unfolding listed_within_def
    proof
      fix it assume "it \<in> set (ll_items res)"
      then obtain l where l: "l \<in> set (leads (tables (s_world s)))" "li_id it = l_id l"
        "lead_matches (le_pg env) (le_zone env) (normal_params ?ps) (tables (s_world s)) l"
        using ListLeads_items L [unfolded res(1)] by blast
      then show "\<exists>l \<in> set (leads (tables (s_world s))). li_id it = l_id l \<and> may_see (tables (s_world s)) actor l"
        using forced_scope [OF assms(1) l(1)] unfolding lead_matches_def by blast
    qed
    then show ?thesis using res(2) by blast
  qed
qed

definition toy_env :: "string list_env" where
  \<comment> \<open>an answer is written as the ids it lists\<close>
  "toy_env = \<lparr>le_pg = no_pg, le_texts = no_texts, le_zone = kathmandu, le_coll = (\<lambda>s. s),
     le_marshal = (\<lambda>r. join '','' (map li_id (ll_items r))),
     le_cursor = (\<lambda>s. if trim s = [] then NoCursor else BadCursor)\<rparr>"

definition list_request :: request where
  \<comment> \<open>an analyst asking for the leads of nobody\<close>
  "list_request = (toy_request ''s'')\<lparr>rq_method := ''GET'', rq_query := [(''analystId'', ''none'')]\<rparr>"

definition ann :: auth_user where
  "ann = root_actor\<lparr>a_id := ''ann'', a_role := RoleLeadAnalyst\<rparr>"

lemma ann_lists:
  "(case run_handler (listLeads toy_env list_request ''/api/leads'' ''analystId=none'' ann) (fresh_server three_leads)
     of (resp, s') \<Rightarrow> (r_status resp, r_body resp = PBytes ''l2'')) = (200, True)"
  "serveFromCache 1000 (cached_req list_request ''/api/leads'' ''analystId=none'' ann) (Some NewResponseCache) = None"
  by code_simp+

lemma ann_proper: "proper_actor three_leads ann"
proof -
  have "isValidRole (a_role ann) \<and> trim (a_id ann) \<noteq> [] \<and> \<not> is_nobody (trim (a_id ann)) \<and> \<not> is_nobody (trimmed (a_team ann)) \<and>
     list_all (\<lambda>l. l_team l \<noteq> Some no_team) (leads three_leads)" by code_simp
  then show ?thesis by (simp add: proper_actor_def list_all_iff)
qed

theorem lists_stay_in_scope_witness:
  "\<exists>res. le_marshal toy_env res = ''l2'' \<and> listed_within three_leads ann res"
proof -
  have t: "tables (s_world (fresh_server three_leads)) = three_leads" "now (s_world (fresh_server three_leads)) = 1000"
    "s_cache (fresh_server three_leads) = NewResponseCache" by (simp_all add: fresh_server_def calm_world_def)
  obtain resp s' where r: "run_handler (listLeads toy_env list_request ''/api/leads'' ''analystId=none'' ann)
      (fresh_server three_leads) = (resp, s')" by force
  then have "r_status resp = 200" "r_body resp = PBytes ''l2''" using ann_lists(1) by simp_all
  then show ?thesis
    using lists_stay_in_scope [of "fresh_server three_leads" ann, OF _ r] ann_proper ann_lists(2) t by auto
qed

end
