(* ===== verification/Aggregate.thy ===== *)
theory Aggregate
  imports LeadPages
begin

section \<open>Aggregate queries: scope, groups, averages (leads.go)\<close>

text \<open>
  What the reading endpoints share: the condition they put on the leads (\<open>leadScopeWhere\<close> and its
  variants), grouping as SQL does it, averages over the non-null values, and the orders of the
  groups. Floating point numbers are exact rationals.
\<close>

subsection \<open>The leads of a request\<close>

definition leadScopeWhere :: "zone \<Rightarrow> lead_params \<Rightarrow> bool \<Rightarrow> builder" where
  "leadScopeWhere zone ps preset =
     (let b1 = (if preset \<and> trim (lp_status ps) = [] then appendLeadFilter (normalizeLeadFilter (lp_filter ps)) ([], [])
                else ([], []));
          b2 = appendLeadFacets zone ps b1
      in if fst b2 = [] then ([], []) else b2)"

definition scoped :: "builder \<Rightarrow> arg list \<Rightarrow> db \<Rightarrow> lead list" where
  \<comment> \<open>the rows of \<open>FROM "Lead" l WHERE ...\<close>, with the arguments after those of the condition\<close>
  "scoped b rest d = filter (holds_all b (snd b @ rest) d) (leads d)"

definition scope_means :: "zone \<Rightarrow> lead_params \<Rightarrow> bool \<Rightarrow> db \<Rightarrow> lead \<Rightarrow> bool" where
  \<comment> \<open>what the condition means\<close>
  "scope_means zone ps preset d l \<longleftrightarrow>
     (preset \<and> trim (lp_status ps) = [] \<longrightarrow> filter_means (normalizeLeadFilter (lp_filter ps)) d l) \<and> facets_mean zone ps d l"

definition scope_rows :: "zone \<Rightarrow> lead_params \<Rightarrow> bool \<Rightarrow> db \<Rightarrow> lead list" where
  "scope_rows zone ps preset d = filter (scope_means zone ps preset d) (leads d)"

lemma adds_scope: "adds (\<lambda>b. appendLeadFacets zone ps
    (if preset \<and> trim (lp_status ps) = [] then appendLeadFilter (normalizeLeadFilter (lp_filter ps)) b else b))
    (scope_means zone ps preset)"
  by (rule adds_eq [OF adds_comp [OF adds_filter_unless [of "preset \<and> trim (lp_status ps) = []" "normalizeLeadFilter (lp_filter ps)"]
        adds_facets [of zone ps]]])
     (simp_all add: scope_means_def)

lemma scope_where_exact:
  "holds_all (leadScopeWhere zone ps preset) (snd (leadScopeWhere zone ps preset) @ rest) d l \<longleftrightarrow> scope_means zone ps preset d l"
proof -
  let ?b = "appendLeadFacets zone ps
    (if preset \<and> trim (lp_status ps) = [] then appendLeadFilter (normalizeLeadFilter (lp_filter ps)) ([], []) else ([], []))"
  have b: "holds_all ?b (snd ?b @ rest) d l \<longleftrightarrow> scope_means zone ps preset d l"
    using adds_holds [OF adds_scope, of "[]" "[]" zone ps preset rest d l] by simp
  show ?thesis
  proof (cases "fst ?b = []")
    case True
    then have "holds_all ?b (snd ?b @ rest) d l" by (simp add: holds_all_def)
    moreover have "leadScopeWhere zone ps preset = ([], [])" using True by (simp only: leadScopeWhere_def Let_def simp_thms if_True)
    ultimately show ?thesis using b by (simp add: holds_all_def)
  next
    case False
    then show ?thesis using b by (simp only: leadScopeWhere_def Let_def if_False)
  qed
qed

lemma scoped_rows [simp]: "scoped (leadScopeWhere zone ps preset) rest d = scope_rows zone ps preset d"
  using scope_where_exact [of zone ps preset rest d] by (simp add: scoped_def scope_rows_def fun_eq_iff cong: filter_cong)

subsection \<open>Groups\<close>

definition group_on :: "('a \<Rightarrow> 'k) \<Rightarrow> 'a list \<Rightarrow> ('k \<times> 'a list) list" where
  \<comment> \<open>GROUP BY\<close>
  "group_on key xs = map (\<lambda>k. (k, filter (\<lambda>x. key x = k) xs)) (remdups (map key xs))"

lemma group_keys: "map fst (group_on key xs) = remdups (map key xs)"
  by (simp add: group_on_def o_def)

lemma group_member: "(k, g) \<in> set (group_on key xs) \<longleftrightarrow> k \<in> key ` set xs \<and> g = filter (\<lambda>x. key x = k) xs"
  by (auto simp: group_on_def)

lemma sum_keys:
  "distinct ks \<Longrightarrow> key ` set xs \<subseteq> set ks \<Longrightarrow> (\<Sum>k\<leftarrow>ks. length (filter (\<lambda>x. key x = k) xs)) = length xs"
proof (induction xs)
  case (Cons x xs)
  have "(\<Sum>k\<leftarrow>ks. length (filter (\<lambda>y. key y = k) (x # xs))) =
      (\<Sum>k\<leftarrow>ks. (if key x = k then 1 else 0) + length (filter (\<lambda>y. key y = k) xs))"
    by (intro arg_cong [where f = sum_list] map_cong) auto
  also have "\<dots> = (\<Sum>k\<leftarrow>ks. if key x = k then 1 else 0) + length xs"
    using Cons by (simp add: sum_list_addf)
  also have "(\<Sum>k\<leftarrow>ks. if key x = k then 1 else 0) = (1::nat)"
    using Cons.prems by (simp add: sum_list_distinct_conv_sum_set)
  finally show ?case by simp
qed simp

lemma group_totals: "(\<Sum>(k, g)\<leftarrow>group_on key xs. length g) = length xs"
  using sum_keys [of "remdups (map key xs)" key xs] by (simp add: group_on_def o_def)

lemma group_counts: "(\<Sum>(k, g)\<leftarrow>group_on key xs. length (filter P g)) = length (filter P xs)"
proof -
  have "(\<Sum>(k, g)\<leftarrow>group_on key xs. length (filter P g)) =
      (\<Sum>k\<leftarrow>remdups (map key xs). length (filter (\<lambda>x. key x = k) (filter P xs)))"
    by (simp add: group_on_def o_def conj_commute)
  also have "\<dots> = length (filter P xs)" by (rule sum_keys) auto
  finally show ?thesis .
qed

subsection \<open>Counts and averages\<close>

definition sql_qualified :: "lead \<Rightarrow> bool" where
  \<comment> \<open>the literal list of the aggregate statements\<close>
  "sql_qualified l \<longleftrightarrow> l_qual l \<in> {''QUALIFIED'', ''QUALIFIED_CHAT'', ''QUALIFIED_CALL'', ''PAID'', ''ORGANIC''}"

lemma sql_qualified_now: "sql_qualified l = qualified_now l"
  by (auto simp: sql_qualified_def qualified_now_def assignableQualificationCodes_def qual_defs)

fun somes :: "'a option list \<Rightarrow> 'a list" where
  \<comment> \<open>the non-null values\<close>
  "somes [] = []"
| "somes (x # xs) = (case x of None \<Rightarrow> somes xs | Some a \<Rightarrow> a # somes xs)"

definition sql_avg :: "rat list \<Rightarrow> rat option" where
  \<comment> \<open>AVG, NULL over no value\<close>
  "sql_avg xs = (if xs = [] then None else Some (sum_list xs / of_nat (length xs)))"

definition go_round :: "rat \<Rightarrow> int" where
  \<comment> \<open>\<open>math.Round\<close>: half away from zero\<close>
  "go_round x = (if x \<ge> 0 then \<lfloor>x + 1 / 2\<rfloor> else \<lceil>x - 1 / 2\<rceil>)"

definition nullable_int :: "int option \<Rightarrow> rat option" where
  "nullable_int x = map_option rat_of_int x"

definition avg_score :: "lead list \<Rightarrow> rat option" where
  "avg_score ls = sql_avg (somes (map (\<lambda>l. nullable_int (l_score l)) ls))"

definition avg_response :: "lead list \<Rightarrow> rat option" where
  "avg_response ls = sql_avg (somes (map (\<lambda>l. nullable_int (l_respMinutes l)) ls))"

definition sql_sum :: "rat option list \<Rightarrow> rat" where
  \<comment> \<open>\<open>COALESCE(SUM(x), 0)\<close>\<close>
  "sql_sum xs = sum_list (somes xs)"

definition labelled :: "string \<Rightarrow> string option \<Rightarrow> string" where
  \<comment> \<open>\<open>COALESCE(NULLIF(BTRIM(x), ''), label)\<close>\<close>
  "labelled label x = (case x of None \<Rightarrow> label | Some s \<Rightarrow> if btrim s = [] then label else btrim s)"

record named_count =
  nc_name :: string
  nc_count :: nat

definition more_first :: "named_count \<Rightarrow> named_count \<Rightarrow> bool" where
  \<comment> \<open>ORDER BY 2 DESC\<close>
  "more_first a b \<longleftrightarrow> nc_count b \<le> nc_count a"

definition more_then_name :: "(string \<Rightarrow> 'k::linorder) \<Rightarrow> named_count \<Rightarrow> named_count \<Rightarrow> bool" where
  \<comment> \<open>ORDER BY 2 DESC, 1 ASC\<close>
  "more_then_name coll a b \<longleftrightarrow> (Desc (nc_count a), coll (nc_name a)) \<le> (Desc (nc_count b), coll (nc_name b))"

definition namedCountsArgs :: "(named_count \<Rightarrow> named_count \<Rightarrow> bool) \<Rightarrow> (db \<Rightarrow> string list) \<Rightarrow> named_count list op" where
  \<comment> \<open>a statement \<open>SELECT name, COUNT(*) ... GROUP BY 1 ORDER BY ...\<close>, given by the name of each row\<close>
  "namedCountsArgs le names = query (\<lambda>d. order_by le
     (map (\<lambda>(k, g). \<lparr>nc_name = k, nc_count = length g\<rparr>) (group_on (\<lambda>x. x) (names d))))"

lemma namedCounts_total:
  assumes "namedCountsArgs le names w = (Inr cs, w')"
  shows "(\<Sum>c\<leftarrow>cs. nc_count c) = length (names (tables w))"
proof -
  have cs: "cs = order_by le (map (\<lambda>(k, g). \<lparr>nc_name = k, nc_count = length g\<rparr>) (group_on (\<lambda>x. x) (names (tables w))))"
    using assms by (auto simp: namedCountsArgs_def query_def sql_def split: if_splits list.splits option.splits)
  have "(\<Sum>c\<leftarrow>cs. nc_count c) = (\<Sum>(k, g)\<leftarrow>group_on (\<lambda>x. x) (names (tables w)). length g)"
    unfolding cs sum_order_by by (simp add: case_prod_unfold o_def)
  then show ?thesis by (simp only: group_totals)
qed

end
