(* ===== verification/KpiTargets.thy ===== *)
theory KpiTargets
  imports Users "HOL-Library.Product_Lexorder"
begin

section \<open>KPI targets (kpi_targets.go)\<close>

text \<open>
  The table of targets: the seeding at start-up, which owns the texts of the seven canonical KPIs and
  leaves their edited numbers alone, the listing, and the update by a superadmin in one transaction.
  Numbers are rationals in place of \<open>float64\<close>.
\<close>

definition times_sign :: string where
  "times_sign = [CHR 0xD7]"

definition minus_sign :: string where
  \<comment> \<open>U+2212, written as the C1 control U+0094\<close>
  "minus_sign = [CHR 0x94]"

definition canonicalKpiKeys :: "string list" where
  "canonicalKpiKeys = [''lead_data_accuracy'', ''first_response_time'', ''qualified_conversion'',
     ''ineligibility_rejection'', ''quality_score'', ''report_accuracy'', ''team_attrition'']"

record kpi_seed =
  ks_key :: string
  ks_label :: string
  ks_description :: string
  ks_formula :: string
  ks_unit :: string
  ks_direction :: string
  ks_target :: "rat option"
  ks_benchmark :: "rat option"
  ks_teamW :: "rat option"
  ks_supW :: "rat option"
  ks_teamAligned :: bool
  ks_supAligned :: bool
  ks_order :: int

definition defaultKpiTargetSeeds :: "kpi_seed list" where
  "defaultKpiTargetSeeds = [
     \<lparr>ks_key = ''lead_data_accuracy'', ks_label = ''Lead Data Accuracy'',
        ks_description = ''Percentage of leads with complete and accurate information as per qualifying criteria (Quality hygiene audit)'',
        ks_formula = (''Leads qualified correctly / Total leads qualified '' @ times_sign @ '' 100''), ks_unit = ''percent'', ks_direction = ''higher_better'',
        ks_target = Some 95, ks_benchmark = Some (171 / 2), ks_teamW = Some 20, ks_supW = Some 20, ks_teamAligned = True, ks_supAligned = True, ks_order = 10\<rparr>,
     \<lparr>ks_key = ''first_response_time'', ks_label = ''Agent First Response Time'',
        ks_description = ''Average time to reply to the first customer message (business hours)'',
        ks_formula = (''First agent reply '' @ minus_sign @ '' first client message''), ks_unit = ''minutes'', ks_direction = ''lower_better'',
        ks_target = Some 5, ks_benchmark = Some (11 / 2), ks_teamW = Some 20, ks_supW = Some 20, ks_teamAligned = True, ks_supAligned = True, ks_order = 20\<rparr>,
     \<lparr>ks_key = ''qualified_conversion'', ks_label = ''Lead Conversion Rate to Sales'',
        ks_description = ''Percentage of qualified leads that convert to sales'',
        ks_formula = (''Qualified leads converted / Total leads qualified '' @ times_sign @ '' 100''), ks_unit = ''percent'', ks_direction = ''higher_better'',
        ks_target = Some 25, ks_benchmark = Some (45 / 2), ks_teamW = Some 20, ks_supW = Some 15, ks_teamAligned = True, ks_supAligned = True, ks_order = 30\<rparr>,
     \<lparr>ks_key = ''ineligibility_rejection'', ks_label = ''Lead Rejection Rate Post Qualify'',
        ks_description = ''Percentage of leads rejected by sales due to ineligibility'',
        ks_formula = (''Leads closed lost after qualify / Total leads qualified '' @ times_sign @ '' 100''), ks_unit = ''percent'', ks_direction = ''lower_better'',
        ks_target = Some 5, ks_benchmark = Some (11 / 2), ks_teamW = Some 20, ks_supW = Some 15, ks_teamAligned = True, ks_supAligned = True, ks_order = 40\<rparr>,
     \<lparr>ks_key = ''quality_score'', ks_label = ''Quality Score'',
        ks_description = ''Aggregate quality score as per audit / lead score'',
        ks_formula = ''AVG(leadScore)'', ks_unit = ''score'', ks_direction = ''higher_better'',
        ks_target = Some 95, ks_benchmark = Some (171 / 2), ks_teamW = Some 20, ks_supW = Some 15, ks_teamAligned = True, ks_supAligned = True, ks_order = 50\<rparr>,
     \<lparr>ks_key = ''report_accuracy'', ks_label = ''Reporting and Analytics'',
        ks_description = ''Complete reporting with accuracy and insights (weekly)'',
        ks_formula = (''Process score '' @ em_dash @ '' 100% accurate report with minimal re-work''), ks_unit = ''percent'', ks_direction = ''higher_better'',
        ks_target = Some 100, ks_benchmark = Some 90, ks_teamW = None, ks_supW = Some 10, ks_teamAligned = False, ks_supAligned = True, ks_order = 60\<rparr>,
     \<lparr>ks_key = ''team_attrition'', ks_label = ''Team Attrition'',
        ks_description = ''Team members left / total team headcount (YTD)'',
        ks_formula = (''Members left / Total team HC '' @ times_sign @ '' 100''), ks_unit = ''percent'', ks_direction = ''lower_better'',
        ks_target = Some 10, ks_benchmark = Some 11, ks_teamW = None, ks_supW = Some 5, ks_teamAligned = False, ks_supAligned = True, ks_order = 70\<rparr>]"

subsection \<open>Seeding\<close>

definition seed_insert :: "kpi_seed \<Rightarrow> int \<Rightarrow> kpi_target" where
  \<comment> \<open>the row of the INSERT\<close>
  "seed_insert s t = \<lparr>kt_key = ks_key s, kt_label = ks_label s, kt_description = ks_description s,
     kt_formula = ks_formula s, kt_unit = ks_unit s, kt_direction = ks_direction s, kt_target = ks_target s,
     kt_benchmark = ks_benchmark s, kt_teamWeight = ks_teamW s, kt_supWeight = ks_supW s,
     kt_teamAligned = ks_teamAligned s, kt_supAligned = ks_supAligned s, kt_order = ks_order s, kt_updatedAt = t\<rparr>"

definition seed_update :: "kpi_seed \<Rightarrow> kpi_target \<Rightarrow> kpi_target" where
  \<comment> \<open>\<open>ON CONFLICT (key) DO UPDATE\<close>: the numbers and \<open>updatedAt\<close> stay\<close>
  "seed_update s r = r\<lparr>kt_label := ks_label s, kt_description := ks_description s, kt_formula := ks_formula s,
     kt_unit := ks_unit s, kt_direction := ks_direction s, kt_teamAligned := ks_teamAligned s,
     kt_supAligned := ks_supAligned s, kt_order := ks_order s\<rparr>"

definition upsert_seed :: "kpi_seed \<Rightarrow> int \<Rightarrow> db \<Rightarrow> db" where
  "upsert_seed s t d = d\<lparr>kpi_targets :=
     (if list_ex (\<lambda>r. kt_key r = ks_key s) (kpi_targets d)
      then upd_where (\<lambda>r. kt_key r = ks_key s) (seed_update s) (kpi_targets d)
      else kpi_targets d @ [seed_insert s t])\<rparr>"

definition wrapped :: "string \<Rightarrow> err \<Rightarrow> err" where
  \<comment> \<open>\<open>fmt.Errorf("...: %w", err)\<close>\<close>
  "wrapped prefix e = ErrMsg (prefix @ '': '' @ (case e of ErrMsg m \<Rightarrow> m | ErrPg c m \<Rightarrow> m | _ \<Rightarrow> []))"

fun seed_each :: "int \<Rightarrow> kpi_seed list \<Rightarrow> unit op" where
  "seed_each t [] = ret ()"
| "seed_each t (s # ss) = seqE (map_err (wrapped (''seed KpiTarget '' @ ks_key s)) (exec (upsert_seed s t))) (seed_each t ss)"

definition prune_targets :: "db \<Rightarrow> db" where
  \<comment> \<open>the legacy KPIs go\<close>
  "prune_targets d = d\<lparr>kpi_targets := del_where (\<lambda>r. kt_key r \<notin> set canonicalKpiKeys) (kpi_targets d)\<rparr>"

definition SeedKpiTargets :: "unit op" where
  "SeedKpiTargets = bindE get_now (\<lambda>t. seqE (seed_each t defaultKpiTargetSeeds)
     (bindE (attempt (exec prune_targets)) (\<lambda>_. ret ())))"

subsection \<open>Listing and updating\<close>

definition ListKpiTargets :: "(string \<Rightarrow> 'k::linorder) \<Rightarrow> kpi_target list op" where
  "ListKpiTargets coll = query (\<lambda>d. order_by (\<lambda>a b. (kt_order a, coll (kt_key a)) \<le> (kt_order b, coll (kt_key b)))
     (filter (\<lambda>r. kt_key r \<in> set canonicalKpiKeys) (kpi_targets d)))"

definition MapKpiTargets :: "(string \<Rightarrow> 'k::linorder) \<Rightarrow> (string \<rightharpoonup> kpi_target) op" where
  "MapKpiTargets coll = bindE (ListKpiTargets coll) (\<lambda>ts. ret (map_of (map (\<lambda>t. (kt_key t, t)) (rev ts))))"

record kpi_update =
  ku_key :: string
  ku_target :: "rat option"
  ku_benchmark :: "rat option"
  ku_teamWeight :: "rat option"
  ku_supWeight :: "rat option"

definition out_of_range :: "rat option \<Rightarrow> bool" where
  "out_of_range w = (case w of None \<Rightarrow> False | Some x \<Rightarrow> x < 0 \<or> x > 100)"

definition set_target :: "kpi_update \<Rightarrow> int \<Rightarrow> kpi_target \<Rightarrow> kpi_target" where
  "set_target u t r = r\<lparr>kt_target := ku_target u, kt_benchmark := ku_benchmark u, kt_teamWeight := ku_teamWeight u,
     kt_supWeight := ku_supWeight u, kt_updatedAt := t\<rparr>"

fun update_each :: "int \<Rightarrow> kpi_update list \<Rightarrow> unit op" where
  "update_each t [] = ret ()"
| "update_each t (u # us) = (let key = trim (ku_key u); unknown = ErrMsg (''unknown KPI target key: '' @ key) in
     if key = [] then throw (ErrMsg ''target key is required'')
     else if key \<notin> set canonicalKpiKeys then throw unknown
     else if out_of_range (ku_teamWeight u) then throw (ErrMsg (key @ '': teamWeight must be between 0 and 100''))
     else if out_of_range (ku_supWeight u) then throw (ErrMsg (key @ '': supervisorWeight must be between 0 and 100''))
     else bindE (exec_tag (\<lambda>d. count_where (\<lambda>r. kt_key r = key) (kpi_targets d))
         (\<lambda>d. d\<lparr>kpi_targets := upd_where (\<lambda>r. kt_key r = key) (set_target u t) (kpi_targets d)\<rparr>)) (\<lambda>n.
       if n = 0 then throw unknown else update_each t us))"

definition UpdateKpiTargets :: "kpi_update list \<Rightarrow> unit op" where
  "UpdateKpiTargets updates = (if updates = [] then throw (ErrMsg ''no targets to update'')
     else in_tx (bindE get_now (\<lambda>t. update_each t updates)))"

subsection \<open>What seeding does\<close>

definition target_of :: "string \<Rightarrow> db \<Rightarrow> kpi_target option" where
  "target_of k d = find (\<lambda>r. kt_key r = k) (kpi_targets d)"

definition seed_of :: "string \<Rightarrow> kpi_seed option" where
  "seed_of k = find (\<lambda>s. ks_key s = k) defaultKpiTargetSeeds"

definition seeded_row :: "kpi_seed \<Rightarrow> int \<Rightarrow> kpi_target option \<Rightarrow> kpi_target" where
  "seeded_row s t r = (case r of None \<Rightarrow> seed_insert s t | Some x \<Rightarrow> seed_update s x)"

lemma seed_rows [simp]: "kt_key (seed_update s r) = kt_key r" "kt_key (seed_insert s t) = ks_key s"
  "kt_key (set_target u t r) = kt_key r"
  by (simp_all add: seed_update_def seed_insert_def set_target_def)

lemma target_of_key: "target_of k d = Some x \<Longrightarrow> kt_key x = k"
  by (auto simp: target_of_def find_Some_iff)

lemma target_of_upsert:
  "target_of k (upsert_seed s t d) = (if k = ks_key s then Some (seeded_row s t (target_of k d)) else target_of k d)"
proof (cases "list_ex (\<lambda>r. kt_key r = ks_key s) (kpi_targets d)")
  case True
  then have ne: "find (\<lambda>r. kt_key r = ks_key s) (kpi_targets d) \<noteq> None" by (simp only: find_None_ex not_not)
  have m: "target_of k (upsert_seed s t d) = map_option (\<lambda>x. if kt_key x = ks_key s then seed_update s x else x) (target_of k d)"
    using True by (simp add: target_of_def upsert_seed_def find_upd_where)
  show ?thesis
  proof (cases "target_of k d")
    case None
    then show ?thesis using ne m by (auto simp: target_of_def)
  next
    case (Some x)
    then have "kt_key x = k" by (rule target_of_key)
    then show ?thesis using m Some by (cases "k = ks_key s") (simp_all add: seeded_row_def)
  qed
next
  case False
  then have "find (\<lambda>r. kt_key r = ks_key s) (kpi_targets d) = None" by (simp only: find_None_ex not_not simp_thms)
  then show ?thesis using False
    by (auto simp: target_of_def upsert_seed_def find_append seeded_row_def split: option.split)
qed

definition keyed_once :: "db \<Rightarrow> bool" where
  "keyed_once d \<longleftrightarrow> distinct (map kt_key (kpi_targets d))"

lemma keyed_once_upsert: "keyed_once d \<Longrightarrow> keyed_once (upsert_seed s t d)"
  by (auto simp: keyed_once_def upsert_seed_def map_upd_where list_ex_iff)

lemma target_of_seeds:
  "distinct (map ks_key ss) \<Longrightarrow> target_of k (fold (\<lambda>s. upsert_seed s t) ss d) =
     (case find (\<lambda>s. ks_key s = k) ss of None \<Rightarrow> target_of k d | Some s \<Rightarrow> Some (seeded_row s t (target_of k d)))"
proof (induction ss arbitrary: d)
  case (Cons s ss)
  have "find (\<lambda>s'. ks_key s' = ks_key s) ss = None" using Cons.prems by (auto simp: find_None_iff image_iff)
  then show ?case using Cons by (auto simp: target_of_upsert split: option.split)
qed simp

lemma seeds_distinct: "distinct (map ks_key defaultKpiTargetSeeds)" "map ks_key defaultKpiTargetSeeds = canonicalKpiKeys"
  by (simp_all add: defaultKpiTargetSeeds_def canonicalKpiKeys_def)

lemma keyed_once_seeds: "keyed_once d \<Longrightarrow> keyed_once (fold (\<lambda>s. upsert_seed s t) ss d)"
  by (induction ss arbitrary: d) (simp_all add: keyed_once_upsert)

lemma seed_each_done:
  "seed_each t ss w = (Inr a, w') \<Longrightarrow> tables w' = fold (\<lambda>s. upsert_seed s t) ss (tables w)"
proof (induction ss arbitrary: w)
  case (Cons s ss)
  then show ?case
    by (auto simp: seqE_def bindE_def map_err_def dest: exec_result split: prod.splits sum.splits)
qed (simp add: ret_def)

lemma calm_seed_each: "calm w \<Longrightarrow> \<exists>w'. seed_each t ss w = (Inr (), w') \<and> calm w'"
proof (induction ss arbitrary: w)
  case (Cons s ss)
  obtain w1 where w1: "exec (upsert_seed s t) w = (Inr (), w1)" "calm w1" using calm_exec [OF Cons.prems] by blast
  then show ?case using Cons.IH [OF w1(2)] by (simp add: seqE_def bindE_def map_err_def)
qed (simp add: ret_def)

definition texts_of_seed :: "kpi_target \<Rightarrow> bool" where
  \<comment> \<open>the texts of a row are those of the code\<close>
  "texts_of_seed r \<longleftrightarrow> (\<exists>s. seed_of (kt_key r) = Some s \<and> seed_update s r = r)"

definition numbers :: "kpi_target \<Rightarrow> rat option \<times> rat option \<times> rat option \<times> rat option \<times> int" where
  \<comment> \<open>what a superadmin edits, and when it was\<close>
  "numbers r = (kt_target r, kt_benchmark r, kt_teamWeight r, kt_supWeight r, kt_updatedAt r)"

lemma seed_of_key: "seed_of k = Some s \<Longrightarrow> ks_key s = k"
  by (auto simp: seed_of_def find_Some_iff)

lemma seed_of_canonical: "seed_of k \<noteq> None \<longleftrightarrow> k \<in> set canonicalKpiKeys"
  unfolding seed_of_def seeds_distinct(2) [symmetric] by (auto simp: find_None_iff)

lemma texts_of_seeded: "seed_of k = Some s \<Longrightarrow> (\<And>x. r = Some x \<Longrightarrow> kt_key x = k) \<Longrightarrow> texts_of_seed (seeded_row s t r)"
  using seed_of_key [of k s]
  by (auto simp: texts_of_seed_def seeded_row_def seed_insert_def seed_update_def split: option.split)

lemma numbers_seed_update [simp]: "numbers (seed_update s x) = numbers x"
  by (simp add: numbers_def seed_update_def)

lemma keyed_once_in: "keyed_once d \<Longrightarrow> r \<in> set (kpi_targets d) \<longleftrightarrow> target_of (kt_key r) d = Some r"
proof
  assume d: "keyed_once d" and r: "r \<in> set (kpi_targets d)"
  then obtain x where x: "target_of (kt_key r) d = Some x"
    by (cases "target_of (kt_key r) d") (auto simp: target_of_def find_None_iff)
  then have "x \<in> set (kpi_targets d)" "kt_key x = kt_key r" by (auto simp: target_of_def find_Some_iff)
  then show "target_of (kt_key r) d = Some r" using distinct_key_inj d r x unfolding keyed_once_def by metis
next
  assume "target_of (kt_key r) d = Some r"
  then show "r \<in> set (kpi_targets d)" by (auto simp: target_of_def find_Some_iff)
qed

definition seeded :: "int \<Rightarrow> db \<Rightarrow> db" where
  "seeded t d = fold (\<lambda>s. upsert_seed s t) defaultKpiTargetSeeds d"

lemma target_of_seeded: "target_of k (seeded t d) =
    (case seed_of k of None \<Rightarrow> target_of k d | Some s \<Rightarrow> Some (seeded_row s t (target_of k d)))"
  unfolding seeded_def seed_of_def by (rule target_of_seeds [OF seeds_distinct(1)])

lemma target_of_prune: "target_of k (prune_targets d) = (if k \<in> set canonicalKpiKeys then target_of k d else None)"
proof (cases "k \<in> set canonicalKpiKeys")
  case True
  then show ?thesis by (simp add: target_of_def prune_targets_def find_del_where)
next
  case False
  then show ?thesis by (auto simp: target_of_def prune_targets_def del_where_def find_None_iff)
qed

lemma SeedKpiTargets_done:
  assumes "SeedKpiTargets w = (Inr u, w')"
  shows "tables w' \<in> {seeded (now w) (tables w), prune_targets (seeded (now w) (tables w))}"
proof -
  obtain w1 where w1: "seed_each (now w) defaultKpiTargetSeeds w = (Inr (), w1)"
    and w': "w' = snd (exec prune_targets w1)"
    using assms unfolding SeedKpiTargets_def bindE_def get_now_def seqE_def attempt_def ret_def
    by (cases "seed_each (now w) defaultKpiTargetSeeds w"; cases "fst (seed_each (now w) defaultKpiTargetSeeds w)")
       (auto split: prod.splits)
  have t1: "tables w1 = seeded (now w) (tables w)" unfolding seeded_def by (rule seed_each_done [OF w1])
  obtain r w2 where e: "exec prune_targets w1 = (r, w2)" by force
  show ?thesis
  proof (cases r)
    case (Inl x)
    show ?thesis using exec_failed [OF e [unfolded Inl]] e w' t1 by simp
  next
    case (Inr x)
    show ?thesis using exec_result [OF e [unfolded Inr]] e w' t1 by simp
  qed
qed

lemma SeedKpiTargets_calm:
  assumes "calm w"
  shows "\<exists>w'. SeedKpiTargets w = (Inr (), w') \<and> calm w' \<and> tables w' = prune_targets (seeded (now w) (tables w))"
proof -
  obtain w1 where w1: "seed_each (now w) defaultKpiTargetSeeds w = (Inr (), w1)" "calm w1"
    using calm_seed_each [OF assms] by blast
  obtain w2 where w2: "exec prune_targets w1 = (Inr (), w2)" "calm w2" "tables w2 = prune_targets (tables w1)"
    using calm_exec [OF w1(2)] by blast
  have "SeedKpiTargets w = (Inr (), w2)"
    using w1 w2 by (simp add: SeedKpiTargets_def bindE_def get_now_def seqE_def attempt_def ret_def)
  then show ?thesis using w2 seed_each_done [OF w1(1)] by (simp add: seeded_def)
qed

text \<open>C33. After a start-up that seeds the targets, every canonical KPI has a row with the texts of the
  code; a row that was there keeps the numbers a superadmin gave it, a new row has the defaults. When
  no statement fails there is no other row; seeding again changes nothing more.\<close>

theorem seeding_keeps_edits:
  assumes "SeedKpiTargets w = (Inr u, w')"
  shows "(\<forall>k \<in> set canonicalKpiKeys. \<exists>s r. seed_of k = Some s \<and> target_of k (tables w') = Some r \<and> texts_of_seed r \<and>
      numbers r = (case target_of k (tables w) of None \<Rightarrow> numbers (seed_insert s (now w)) | Some x \<Rightarrow> numbers x)) \<and>
    (calm w \<longrightarrow> (\<forall>k. target_of k (tables w') \<noteq> None \<longleftrightarrow> k \<in> set canonicalKpiKeys) \<and>
      (\<forall>w2 k. calm w2 \<longrightarrow> tables w2 = tables w' \<longrightarrow>
         target_of k (tables (snd (SeedKpiTargets w2))) = target_of k (tables w')))"
proof -
  have row: "target_of k (tables w') = Some (seeded_row s (now w) (target_of k (tables w)))" if "seed_of k = Some s" for k s
  proof -
    have "k \<in> set canonicalKpiKeys" using that seed_of_canonical [of k] by simp
    moreover have "tables w' = seeded (now w) (tables w) \<or> tables w' = prune_targets (seeded (now w) (tables w))"
      using SeedKpiTargets_done [OF assms] by blast
    ultimately show ?thesis by (elim disjE) (simp_all add: target_of_seeded target_of_prune that)
  qed
  have kept: "\<exists>s r. seed_of k = Some s \<and> target_of k (tables w') = Some r \<and> texts_of_seed r \<and>
      numbers r = (case target_of k (tables w) of None \<Rightarrow> numbers (seed_insert s (now w)) | Some x \<Rightarrow> numbers x)"
    if canon: "k \<in> set canonicalKpiKeys" for k
  proof -
    obtain s where s: "seed_of k = Some s" using canon seed_of_canonical [of k] by (cases "seed_of k") simp_all
    have "texts_of_seed (seeded_row s (now w) (target_of k (tables w)))"
      by (rule texts_of_seeded [OF s]) (rule target_of_key)
    then show ?thesis using s row [OF s] by (auto simp: seeded_row_def split: option.split)
  qed
  have calm: "tables w' = prune_targets (seeded (now w) (tables w))" if "calm w"
    using SeedKpiTargets_calm [OF that] assms by auto
  have none: "target_of k (tables w') \<noteq> None \<longleftrightarrow> k \<in> set canonicalKpiKeys" if "calm w" for k
    using kept [of k] calm [OF that] by (auto simp: target_of_prune)
  have again: "target_of k (tables (snd (SeedKpiTargets w2))) = target_of k (tables w')"
    if "calm w" "calm w2" "tables w2 = tables w'" for w2 k
  proof (cases "k \<in> set canonicalKpiKeys")
    case False
    then show ?thesis using SeedKpiTargets_calm [OF that(2)] none [OF that(1), of k] by (auto simp: target_of_prune)
  next
    case True
    then obtain s r where s: "seed_of k = Some s" "target_of k (tables w') = Some r" "texts_of_seed r" using kept by blast
    have "seed_update s r = r" using s target_of_key [OF s(2)] by (auto simp: texts_of_seed_def)
    then show ?thesis using SeedKpiTargets_calm [OF that(2)] True s that(3)
      by (auto simp: target_of_prune target_of_seeded seeded_row_def)
  qed
  show ?thesis using kept none again by blast
qed

theorem seeding_keeps_edits_witness:
  "\<exists>w'. SeedKpiTargets (calm_world empty_db) = (Inr (), w') \<and>
     (\<forall>k. target_of k (tables w') \<noteq> None \<longleftrightarrow> k \<in> set canonicalKpiKeys)"
proof -
  have c: "calm (calm_world empty_db)" by (simp add: calm_def calm_world_def)
  obtain w' where w': "SeedKpiTargets (calm_world empty_db) = (Inr (), w')" using SeedKpiTargets_calm [OF c] by blast
  show ?thesis using seeding_keeps_edits [OF w'] c w' by blast
qed

subsection \<open>What an update does\<close>

definition acceptable :: "db \<Rightarrow> kpi_update \<Rightarrow> bool" where
  "acceptable d u \<longleftrightarrow> trim (ku_key u) \<in> set canonicalKpiKeys \<and> \<not> out_of_range (ku_teamWeight u) \<and>
     \<not> out_of_range (ku_supWeight u) \<and> target_of (trim (ku_key u)) d \<noteq> None"

definition updated_row :: "kpi_update list \<Rightarrow> int \<Rightarrow> kpi_target \<Rightarrow> kpi_target" where
  \<comment> \<open>the last update of the key counts\<close>
  "updated_row us t r = (case find (\<lambda>u. trim (ku_key u) = kt_key r) (rev us) of None \<Rightarrow> r | Some u \<Rightarrow> set_target u t r)"

lemma updated_row_Cons:
  "updated_row us t (if kt_key r = trim (ku_key u) then set_target u t r else r) = updated_row (u # us) t r"
  by (auto simp: updated_row_def find_append set_target_def split: option.split)

lemma acceptable_after: "acceptable (d\<lparr>kpi_targets := upd_where (\<lambda>r. kt_key r = key) (set_target u t) (kpi_targets d)\<rparr>) v \<longleftrightarrow>
    acceptable d v"
  by (simp add: acceptable_def target_of_def find_upd_where)

lemma update_each_triple:
  "triple (\<lambda>d. d = d0) (update_each t us)
     (\<lambda>_ d. (\<forall>u \<in> set us. acceptable d0 u) \<and> d = d0\<lparr>kpi_targets := map (updated_row us t) (kpi_targets d0)\<rparr>) (\<lambda>_. True)"
proof (induction us arbitrary: d0)
  case Nil
  have "map (updated_row [] t) xs = xs" for xs by (simp add: updated_row_def map_idI)
  then show ?case by (simp add: triple_ret)
next
  case (Cons u us)
  let ?key = "trim (ku_key u)"
  let ?d1 = "d0\<lparr>kpi_targets := upd_where (\<lambda>r. kt_key r = ?key) (set_target u t) (kpi_targets d0)\<rparr>"
  let ?bad = "?key = [] \<or> ?key \<notin> set canonicalKpiKeys \<or> out_of_range (ku_teamWeight u) \<or> out_of_range (ku_supWeight u)"
  show ?case
  proof (cases ?bad)
    case True
    then show ?thesis by (auto simp: Let_def intro: triple_throw)
  next
    case False
    have rows: "map (updated_row us t) (kpi_targets ?d1) = map (updated_row (u # us) t) (kpi_targets d0)"
      by (simp add: upd_where_def updated_row_Cons)
    have found: "target_of ?key d0 \<noteq> None" if "count_where (\<lambda>r. kt_key r = ?key) (kpi_targets d0) \<noteq> 0"
      using that by (auto simp: target_of_def find_None_iff count_where_0)
    have rest: "triple (\<lambda>d. d = ?d1 \<and> n = count_where (\<lambda>r. kt_key r = ?key) (kpi_targets d0))
        (if n = 0 then throw (ErrMsg (''unknown KPI target key: '' @ ?key)) else update_each t us)
        (\<lambda>_ d. (\<forall>v \<in> set (u # us). acceptable d0 v) \<and> d = d0\<lparr>kpi_targets := map (updated_row (u # us) t) (kpi_targets d0)\<rparr>)
        (\<lambda>_. True)" for n
    proof (cases "n = 0")
      case True
      then show ?thesis by (simp add: triple_throw)
    next
      case n: False
      show ?thesis unfolding if_not_P [OF n]
      proof (rule triple_assume, rule triple_weaken [OF Cons.IH [of ?d1]])
        fix a d assume n': "n = count_where (\<lambda>r. kt_key r = ?key) (kpi_targets d0)"
          and post: "(\<forall>v \<in> set us. acceptable ?d1 v) \<and> d = ?d1\<lparr>kpi_targets := map (updated_row us t) (kpi_targets ?d1)\<rparr>"
        have "acceptable d0 u" using False found n n' by (simp add: acceptable_def)
        then show "(\<forall>v \<in> set (u # us). acceptable d0 v) \<and> d = d0\<lparr>kpi_targets := map (updated_row (u # us) t) (kpi_targets d0)\<rparr>"
          using post unfolding rows acceptable_after by simp
      qed simp_all
    qed
    have step: "update_each t (u # us) = bindE (exec_tag (\<lambda>d. count_where (\<lambda>r. kt_key r = ?key) (kpi_targets d))
         (\<lambda>d. d\<lparr>kpi_targets := upd_where (\<lambda>r. kt_key r = ?key) (set_target u t) (kpi_targets d)\<rparr>)) (\<lambda>n.
       if n = 0 then throw (ErrMsg (''unknown KPI target key: '' @ ?key)) else update_each t us)"
      using False by (simp only: update_each.simps Let_def de_Morgan_disj not_not if_False simp_thms)
    show ?thesis unfolding step
      by (rule triple_bind [OF _ rest]) (rule triple_exec_tag; simp)
  qed
qed

text \<open>An update of the targets either fails and changes nothing, or it is a list of acceptable
  updates - canonical keys with a row, weights between 0 and 100 - and every row then has the numbers
  of the last update of its key, the other rows being as before.\<close>

theorem target_updates_exact:
  "case UpdateKpiTargets us w of
     (Inl e, w') \<Rightarrow> tables w' = tables w
   | (Inr u, w') \<Rightarrow> us \<noteq> [] \<and> (\<forall>u \<in> set us. acceptable (tables w) u) \<and>
       (\<exists>t. tables w' = (tables w)\<lparr>kpi_targets := map (updated_row us t) (kpi_targets (tables w))\<rparr>)"
proof (cases "us = []")
  case True
  then show ?thesis by (simp add: UpdateKpiTargets_def throw_def)
next
  case False
  let ?Q = "\<lambda>d. (\<forall>u \<in> set us. acceptable (tables w) u) \<and>
      (\<exists>t. d = (tables w)\<lparr>kpi_targets := map (updated_row us t) (kpi_targets (tables w))\<rparr>)"
  have "triple (\<lambda>d. d = tables w) (bindE get_now (\<lambda>t. update_each t us)) (\<lambda>_. ?Q) (\<lambda>_. True)"
    by (rule triple_then_read [OF readonly_get_now]) (rule triple_weaken [OF update_each_triple], auto)
  then have t: "triple (\<lambda>d. d = tables w) (in_tx (bindE get_now (\<lambda>t. update_each t us))) (\<lambda>_. ?Q) (\<lambda>d. d = tables w)"
    by (rule triple_in_tx) simp
  obtain r w' where r: "in_tx (bindE get_now (\<lambda>t. update_each t us)) w = (r, w')" by force
  have up: "UpdateKpiTargets us w = (r, w')" by (simp add: UpdateKpiTargets_def False r)
  show ?thesis
  proof (cases r)
    case (Inl e)
    show ?thesis using tripleE [OF t refl r [unfolded Inl]] by (simp only: up Inl prod.case sum.case)
  next
    case (Inr a)
    show ?thesis unfolding up Inr prod.case sum.case using tripleD [OF t refl r [unfolded Inr]] False by blast
  qed
qed

definition one_target :: db where
  "one_target = empty_db\<lparr>kpi_targets := [seed_insert (hd defaultKpiTargetSeeds) 0]\<rparr>"

definition one_update :: kpi_update where
  "one_update = \<lparr>ku_key = ''lead_data_accuracy'', ku_target = Some 90, ku_benchmark = None, ku_teamWeight = Some 30, ku_supWeight = None\<rparr>"

theorem target_updates_exact_witness:
  "\<exists>u w'. UpdateKpiTargets [one_update] (calm_world one_target) = (Inr u, w') \<and> acceptable one_target one_update \<and>
     (\<exists>t. kpi_targets (tables w') = map (updated_row [one_update] t) (kpi_targets one_target))"
proof -
  have e: "case fst (UpdateKpiTargets [one_update] (calm_world one_target)) of Inl e \<Rightarrow> False | Inr u \<Rightarrow> True" by code_simp
  have w: "tables (calm_world one_target) = one_target" by (simp add: calm_world_def)
  obtain r w' where r: "UpdateKpiTargets [one_update] (calm_world one_target) = (r, w')" by force
  with e obtain u where "r = Inr u" by (cases r) simp_all
  then show ?thesis using target_updates_exact [where us = "[one_update]" and w = "calm_world one_target"] r w by auto
qed

definition weights_in_range :: "db \<Rightarrow> bool" where
  "weights_in_range d \<longleftrightarrow> (\<forall>r \<in> set (kpi_targets d). \<not> out_of_range (kt_teamWeight r) \<and> \<not> out_of_range (kt_supWeight r))"

definition kpi_table_ok :: "db \<Rightarrow> bool" where
  "kpi_table_ok d \<longleftrightarrow> keyed_once d \<and> weights_in_range d"

lemma seeds_in_range: "s \<in> set defaultKpiTargetSeeds \<Longrightarrow> \<not> out_of_range (ks_teamW s) \<and> \<not> out_of_range (ks_supW s)"
  by (auto simp: defaultKpiTargetSeeds_def out_of_range_def)

lemma upsert_keeps: "s \<in> set defaultKpiTargetSeeds \<Longrightarrow> kpi_table_ok d \<Longrightarrow> kpi_table_ok (upsert_seed s t d)"
  using seeds_in_range [of s] keyed_once_upsert [of d s t]
  by (cases "list_ex (\<lambda>r. kt_key r = ks_key s) (kpi_targets d)")
     (auto simp: kpi_table_ok_def weights_in_range_def upsert_seed_def in_upd_where seed_update_def seed_insert_def split: if_splits)

lemma seed_each_keeps: "set ss \<subseteq> set defaultKpiTargetSeeds \<Longrightarrow> keeps kpi_table_ok (seed_each t ss)"
  by (induction ss) (auto intro!: keeps_intros upsert_keeps)

lemma prune_keeps: "kpi_table_ok d \<Longrightarrow> kpi_table_ok (prune_targets d)"
  by (auto simp: kpi_table_ok_def keyed_once_def weights_in_range_def prune_targets_def del_where_def distinct_map_filter)

lemma set_target_keeps: "\<not> out_of_range (ku_teamWeight u) \<Longrightarrow> \<not> out_of_range (ku_supWeight u) \<Longrightarrow> kpi_table_ok d \<Longrightarrow>
    kpi_table_ok (d\<lparr>kpi_targets := upd_where (\<lambda>r. kt_key r = key) (set_target u t) (kpi_targets d)\<rparr>)"
  by (auto simp: kpi_table_ok_def keyed_once_def weights_in_range_def map_upd_where in_upd_where set_target_def split: if_splits)

lemma update_each_keeps: "keeps kpi_table_ok (update_each t us)"
proof (induction us)
  case (Cons u us)
  let ?key = "trim (ku_key u)"
  show ?case
  proof (cases "out_of_range (ku_teamWeight u) \<or> out_of_range (ku_supWeight u)")
    case True
    then show ?thesis by (elim disjE) (simp_all add: Let_def keeps_throw)
  next
    case False
    have "keeps kpi_table_ok (exec_tag (\<lambda>d. count_where (\<lambda>r. kt_key r = ?key) (kpi_targets d))
       (\<lambda>d. d\<lparr>kpi_targets := upd_where (\<lambda>r. kt_key r = ?key) (set_target u t) (kpi_targets d)\<rparr>))"
      by (rule keeps_exec_tag) (use False in \<open>simp add: set_target_keeps\<close>)
    then show ?thesis unfolding update_each.simps Let_def
      by (intro keeps_if keeps_throw keeps_bindE Cons.IH)
  qed
qed (simp add: keeps_ret)

text \<open>C34. Seeding and updating keep the table of targets well-formed, whatever statement fails: one row
  per key, and every weight between 0 and 100.\<close>

theorem kpi_table_stays_ok:
  "kpi_table_ok empty_db \<and> keeps kpi_table_ok SeedKpiTargets \<and> keeps kpi_table_ok (UpdateKpiTargets us)"
proof -
  have "keeps kpi_table_ok SeedKpiTargets" unfolding SeedKpiTargets_def
    by (intro keeps_bindE keeps_seqE keeps_get_now keeps_attempt keeps_exec keeps_ret seed_each_keeps prune_keeps subset_refl)
  moreover have "keeps kpi_table_ok (UpdateKpiTargets us)" unfolding UpdateKpiTargets_def
    by (intro keeps_if keeps_throw keeps_in_tx keeps_bindE keeps_get_now update_each_keeps)
  ultimately show ?thesis by (simp add: kpi_table_ok_def keyed_once_def weights_in_range_def empty_db_def)
qed

end
