(* ===== verification/Kpi.thy ===== *)
theory Kpi
  imports Aggregate KpiTargets
begin

section \<open>The KPI snapshot (kpi.go)\<close>

text \<open>
  \<open>LeadStore.KPI\<close>: seven items in a fixed order, computed from one aggregate statement over the leads
  in scope and decorated with the stored targets. \<open>float64\<close> values are exact rationals.
\<close>

record kpi_item =
  ki_id :: string
  ki_label :: string
  ki_description :: string
  ki_formula :: string
  ki_available :: bool
  ki_unavailable :: string
  ki_numerator :: "int option"
  ki_denominator :: "int option"
  ki_rate :: "rat option"
  ki_value :: "rat option"
  ki_unit :: string
  ki_direction :: string
  ki_target :: "rat option"
  ki_benchmark :: "rat option"
  ki_teamWeight :: "rat option"
  ki_supWeight :: "rat option"
  ki_teamAligned :: bool
  ki_supAligned :: bool
  ki_metTarget :: "bool option"
  ki_metBenchmark :: "bool option"

record kpi_snapshot =
  kp_items :: "kpi_item list"
  kp_notAppropriate :: int

definition zero_item :: kpi_item where
  \<comment> \<open>the zero value of the struct\<close>
  "zero_item = \<lparr>ki_id = [], ki_label = [], ki_description = [], ki_formula = [], ki_available = False,
     ki_unavailable = [], ki_numerator = None, ki_denominator = None, ki_rate = None, ki_value = None,
     ki_unit = [], ki_direction = [], ki_target = None, ki_benchmark = None, ki_teamWeight = None,
     ki_supWeight = None, ki_teamAligned = False, ki_supAligned = False, ki_metTarget = None,
     ki_metBenchmark = None\<rparr>"

definition kpiActual :: "kpi_item \<Rightarrow> rat option" where
  "kpiActual item =
     (if \<not> ki_available item then None
      else if ki_rate item \<noteq> None then ki_rate item
      else if ki_value item \<noteq> None then ki_value item
      else if ki_numerator item \<noteq> None \<and> (ki_unit item = ''count'' \<or> ki_unit item = []) then nullable_int (ki_numerator item)
      else None)"

definition kpi_tolerance :: rat where
  "kpi_tolerance = 1 / 10 ^ 9"

definition kpiMeets :: "string \<Rightarrow> rat \<Rightarrow> rat \<Rightarrow> bool" where
  "kpiMeets direction actual threshold =
     (if direction = ''lower_better'' then actual \<le> threshold + kpi_tolerance
      else if direction = ''higher_better'' then actual + kpi_tolerance \<ge> threshold
      else False)"

definition met_flag :: "string \<Rightarrow> rat option \<Rightarrow> rat option \<Rightarrow> bool option \<Rightarrow> bool option" where
  \<comment> \<open>\<open>if actual != nil && threshold != nil && direction != "info" { met := ... }\<close>\<close>
  "met_flag direction actual threshold before =
     (case (actual, threshold) of
        (Some a, Some x) \<Rightarrow> if direction \<noteq> ''info'' then Some (kpiMeets direction a x) else before
      | _ \<Rightarrow> before)"

definition attachKpiTarget :: "kpi_item \<Rightarrow> kpi_target option \<Rightarrow> kpi_item" where
  \<comment> \<open>a missing entry of the Go map is the zero configuration, whose key is empty\<close>
  "attachKpiTarget item0 tgt = (case tgt of
      None \<Rightarrow> item0
    | Some t \<Rightarrow> if kt_key t = [] then item0 else
       (let item1 = item0\<lparr>ki_label := (if ki_label item0 = [] then kt_label t else ki_label item0),
              ki_description := (if ki_description item0 = [] then kt_description t else ki_description item0),
              ki_formula := (if ki_formula item0 = [] then kt_formula t else ki_formula item0),
              ki_unit := (if ki_unit item0 = [] then kt_unit t else ki_unit item0),
              ki_direction := kt_direction t,
              ki_target := kt_target t,
              ki_benchmark := kt_benchmark t,
              ki_teamWeight := kt_teamWeight t,
              ki_supWeight := kt_supWeight t,
              ki_teamAligned := kt_teamAligned t,
              ki_supAligned := kt_supAligned t\<rparr>;
            actual = kpiActual item1
        in item1\<lparr>ki_metTarget := met_flag (kt_direction t) actual (kt_target t) (ki_metTarget item1),
             ki_metBenchmark := met_flag (kt_direction t) actual (kt_benchmark t) (ki_metBenchmark item1)\<rparr>))"

definition round_tenth :: "rat \<Rightarrow> rat" where
  \<comment> \<open>\<open>math.Round(x*10) / 10\<close>\<close>
  "round_tenth x = of_int (go_round (x * 10)) / 10"

definition kpiFirstResponse :: "rat option \<Rightarrow> nat \<Rightarrow> kpi_item" where
  "kpiFirstResponse avg samples =
     (let ok = (samples > 0 \<and> avg \<noteq> None);
          item = zero_item\<lparr>ki_id := ''first_response_time'', ki_label := ''Agent First Response Time'',
            ki_description := ''Average time to reply to the first customer message'',
            ki_formula := ''First agent reply '' @ minus_sign @ '' first client message'',
            ki_available := ok, ki_unit := ''minutes'', ki_direction := ''lower_better'',
            ki_denominator := Some (int samples)\<rparr>
      in if \<not> ok then item\<lparr>ki_unavailable := ''No first-response times recorded yet '' @ em_dash @
             '' add client & agent message times on the lead form''\<rparr>
         else item\<lparr>ki_value := map_option round_tenth avg\<rparr>)"

definition kpiRatio :: "string \<Rightarrow> string \<Rightarrow> string \<Rightarrow> string \<Rightarrow> nat \<Rightarrow> nat \<Rightarrow> string \<Rightarrow> kpi_item" where
  "kpiRatio i label description formula num den direction0 =
     (let direction = (if direction0 = [] then ''higher_better'' else direction0);
          item = zero_item\<lparr>ki_id := i, ki_label := label, ki_description := description, ki_formula := formula,
            ki_available := True, ki_numerator := Some (int num), ki_denominator := Some (int den),
            ki_unit := ''percent'', ki_direction := direction\<rparr>
      in if den > 0 then item\<lparr>ki_rate := Some (of_int (go_round (of_nat num / of_nat den * 1000)) / 10)\<rparr> else item)"

definition kpiQualityScore :: "rat option \<Rightarrow> nat \<Rightarrow> kpi_item" where
  "kpiQualityScore avg samples =
     (let ok = (samples > 0 \<and> avg \<noteq> None);
          item = zero_item\<lparr>ki_id := ''quality_score'', ki_label := ''Quality Score'',
            ki_description := ''Aggregate quality score as per audit / lead score'', ki_formula := ''AVG(leadScore)'',
            ki_available := ok, ki_unit := ''score'', ki_direction := ''higher_better'',
            ki_denominator := Some (int samples)\<rparr>
      in if \<not> ok then item\<lparr>ki_unavailable := ''No lead scores recorded yet''\<rparr>
         else item\<lparr>ki_value := map_option round_tenth avg\<rparr>)"

subsection \<open>The snapshot\<close>

record kpi_counts =
  kc_qualified :: nat
  kc_converted :: nat
  kc_lost :: nat
  kc_avgScore :: "rat option"
  kc_scores :: nat
  kc_avgFirst :: "rat option"
  kc_firsts :: nat
  kc_notAppr :: nat

definition kpi_counts_of :: "lead list \<Rightarrow> kpi_counts" where
  \<comment> \<open>the aggregate statement\<close>
  "kpi_counts_of ls = \<lparr>kc_qualified = length (filter sql_qualified ls),
     kc_converted = length (filter (\<lambda>l. sql_qualified l \<and> l_stage l = ''CLOSED_WON'') ls),
     kc_lost = length (filter (\<lambda>l. sql_qualified l \<and> l_stage l = ''CLOSED_LOST'') ls),
     kc_avgScore = avg_score ls,
     kc_scores = length (filter (\<lambda>l. l_score l \<noteq> None) ls),
     kc_avgFirst = avg_response ls,
     kc_firsts = length (filter (\<lambda>l. l_respMinutes l \<noteq> None) ls),
     kc_notAppr = length (filter l_notAppr ls)\<rparr>"

definition kpi_raw :: "kpi_counts \<Rightarrow> int \<Rightarrow> kpi_item list" where
  "kpi_raw c teamHC = [
     zero_item\<lparr>ki_id := ''lead_data_accuracy'', ki_label := ''Lead Data Accuracy'',
       ki_description := ''Percentage of leads with complete and accurate information as per qualifying criteria'',
       ki_formula := ''Leads qualified correctly / Total leads qualified '' @ times_sign @ '' 100'',
       ki_unavailable := ''Needs Quality Department hygiene-audit correct/incorrect marking on leads'',
       ki_denominator := Some (int (kc_qualified c)), ki_unit := ''percent''\<rparr>,
     kpiFirstResponse (kc_avgFirst c) (kc_firsts c),
     kpiRatio ''qualified_conversion'' ''Lead Conversion Rate to Sales''
       ''Percentage of qualified leads that convert to sales''
       (''Qualified leads converted / Total leads qualified '' @ times_sign @ '' 100'')
       (kc_converted c) (kc_qualified c) ''higher_better'',
     kpiRatio ''ineligibility_rejection'' ''Lead Rejection Rate Post Qualify''
       ''Percentage of leads rejected by sales after qualify (closed lost)''
       (''Closed-lost qualified leads / Total leads qualified '' @ times_sign @ '' 100'')
       (kc_lost c) (kc_qualified c) ''lower_better'',
     kpiQualityScore (kc_avgScore c) (kc_scores c),
     zero_item\<lparr>ki_id := ''report_accuracy'', ki_label := ''Reporting and Analytics'',
       ki_description := ''Complete reporting with accuracy and insights (weekly)'',
       ki_formula := ''Process score '' @ em_dash @ '' 100% accurate report with minimal re-work'',
       ki_unavailable := ''Process goal '' @ em_dash @ '' not stored as a measurable count in the CRM'',
       ki_unit := ''percent''\<rparr>,
     zero_item\<lparr>ki_id := ''team_attrition'', ki_label := ''Team Attrition'',
       ki_description := ''Team members left / total team headcount (YTD)'',
       ki_formula := ''Members left / Total team HC '' @ times_sign @ '' 100'',
       ki_unavailable := ''No offboarding / left-date tracking on users yet'',
       ki_denominator := Some teamHC, ki_unit := ''percent''\<rparr>]"

definition KPI :: "(string \<Rightarrow> 'k::linorder) \<Rightarrow> zone \<Rightarrow> lead_params \<Rightarrow> int \<Rightarrow> kpi_snapshot op" where
  "KPI coll zone ps teamHC =
     bindE (MapKpiTargets coll) (\<lambda>targets.
     bindE (query (\<lambda>d. kpi_counts_of (scoped (leadScopeWhere zone ps True) [] d))) (\<lambda>c.
       ret \<lparr>kp_items = map (\<lambda>item. attachKpiTarget item (targets (ki_id item))) (kpi_raw c teamHC),
            kp_notAppropriate = int (kc_notAppr c)\<rparr>))"

subsection \<open>What the snapshot shows\<close>

lemma KPI_result:
  assumes "KPI coll zone ps teamHC w = (Inr s, w')"
  shows "\<exists>targets. s = \<lparr>kp_items = map (\<lambda>item. attachKpiTarget item (targets (ki_id item)))
      (kpi_raw (kpi_counts_of (scope_rows zone ps True (tables w))) teamHC),
    kp_notAppropriate = int (length (filter l_notAppr (scope_rows zone ps True (tables w))))\<rparr>"
proof -
  obtain targets w1 where m: "MapKpiTargets coll w = (Inr targets, w1)" and
    r: "bindE (query (\<lambda>d. kpi_counts_of (scoped (leadScopeWhere zone ps True) [] d))) (\<lambda>c.
       ret \<lparr>kp_items = map (\<lambda>item. attachKpiTarget item (targets (ki_id item))) (kpi_raw c teamHC),
            kp_notAppropriate = int (kc_notAppr c)\<rparr>) w1 = (Inr s, w')"
    using assms unfolding KPI_def bindE_def [of "MapKpiTargets coll"] by (auto split: prod.splits sum.splits)
  have t1: "tables w1 = tables w"
    using m unfolding MapKpiTargets_def ListKpiTargets_def bindE_def
    by (auto simp: ret_def dest: query_result split: prod.splits sum.splits)
  from r obtain c w2 where c: "query (\<lambda>d. kpi_counts_of (scoped (leadScopeWhere zone ps True) [] d)) w1 = (Inr c, w2)"
    "s = \<lparr>kp_items = map (\<lambda>item. attachKpiTarget item (targets (ki_id item))) (kpi_raw c teamHC),
            kp_notAppropriate = int (kc_notAppr c)\<rparr>"
    unfolding bindE_def by (auto simp: ret_def split: prod.splits sum.splits)
  from query_result [OF c(1)] have "c = kpi_counts_of (scope_rows zone ps True (tables w))" by (simp add: t1)
  then show ?thesis using c(2) by (auto simp: kpi_counts_of_def)
qed

lemma attach_simps [simp]:
  "ki_id (attachKpiTarget i t) = ki_id i" "ki_available (attachKpiTarget i t) = ki_available i"
  "ki_rate (attachKpiTarget i t) = ki_rate i" "ki_value (attachKpiTarget i t) = ki_value i"
  "ki_numerator (attachKpiTarget i t) = ki_numerator i" "ki_denominator (attachKpiTarget i t) = ki_denominator i"
  by (simp_all add: attachKpiTarget_def Let_def split: option.split)

definition undecorated :: "kpi_item \<Rightarrow> bool" where
  "undecorated i \<longleftrightarrow> ki_target i = None \<and> ki_benchmark i = None \<and> ki_metTarget i = None \<and> ki_metBenchmark i = None \<and>
     ki_unit i \<noteq> []"

definition flag_means :: "kpi_item \<Rightarrow> rat option \<Rightarrow> bool option \<Rightarrow> bool" where
  \<comment> \<open>a flag is shown when there is a number and a threshold, and then says which side of it the number is\<close>
  "flag_means i threshold flag \<longleftrightarrow>
     flag = (case (kpiActual i, threshold) of
        (Some a, Some x) \<Rightarrow> if ki_direction i = ''info'' then None else Some (kpiMeets (ki_direction i) a x)
      | _ \<Rightarrow> None)"

lemma attach_unit: "ki_unit i \<noteq> [] \<Longrightarrow> ki_unit (attachKpiTarget i t) = ki_unit i"
  by (simp add: attachKpiTarget_def Let_def split: option.split)

lemma kpiActual_attach:
  "ki_unit i \<noteq> [] \<Longrightarrow> kpiActual (attachKpiTarget i t) = kpiActual i"
  by (simp add: kpiActual_def attach_unit)

lemma attach_fields:
  assumes "ki_unit i \<noteq> []" "kt_key t \<noteq> []"
  shows "ki_direction (attachKpiTarget i (Some t)) = kt_direction t" "ki_target (attachKpiTarget i (Some t)) = kt_target t"
    "ki_benchmark (attachKpiTarget i (Some t)) = kt_benchmark t"
    "ki_metTarget (attachKpiTarget i (Some t)) = met_flag (kt_direction t) (kpiActual i) (kt_target t) (ki_metTarget i)"
    "ki_metBenchmark (attachKpiTarget i (Some t)) = met_flag (kt_direction t) (kpiActual i) (kt_benchmark t) (ki_metBenchmark i)"
  using assms by (simp_all add: attachKpiTarget_def Let_def kpiActual_def)

lemma attach_flags:
  assumes "undecorated i"
  shows "flag_means (attachKpiTarget i c) (ki_target (attachKpiTarget i c)) (ki_metTarget (attachKpiTarget i c)) \<and>
    flag_means (attachKpiTarget i c) (ki_benchmark (attachKpiTarget i c)) (ki_metBenchmark (attachKpiTarget i c))"
proof -
  have u: "ki_unit i \<noteq> []" "ki_target i = None" "ki_benchmark i = None" "ki_metTarget i = None" "ki_metBenchmark i = None"
    using assms by (simp_all add: undecorated_def)
  have same: ?thesis if "attachKpiTarget i c = i"
    unfolding that flag_means_def u by (simp split: option.split)
  show ?thesis
  proof (cases c)
    case None
    then show ?thesis by (intro same) (simp add: attachKpiTarget_def)
  next
    case (Some t)
    show ?thesis
    proof (cases "kt_key t = []")
      case True
      then show ?thesis by (intro same) (simp add: attachKpiTarget_def Some)
    next
      case False
      show ?thesis unfolding Some flag_means_def kpiActual_attach [OF u(1)] attach_fields [OF u(1) False] met_flag_def u
        by (simp split: option.split)
    qed
  qed
qed

lemma built_undecorated: "undecorated (kpiFirstResponse a n)" "undecorated (kpiRatio i b c f num den dir)"
  "undecorated (kpiQualityScore a n)"
  by (simp_all add: undecorated_def zero_item_def kpiFirstResponse_def kpiRatio_def kpiQualityScore_def Let_def)

lemma raw_undecorated: "i \<in> set (kpi_raw c hc) \<Longrightarrow> undecorated i"
  unfolding kpi_raw_def by (auto simp: built_undecorated) (simp_all add: undecorated_def zero_item_def)

lemma raw_ids: "map ki_id (kpi_raw c hc) = canonicalKpiKeys"
  by (simp add: kpi_raw_def canonicalKpiKeys_def kpiFirstResponse_def kpiRatio_def kpiQualityScore_def Let_def)

lemma go_round_bounds: "0 \<le> x \<Longrightarrow> x \<le> of_int n \<Longrightarrow> 0 \<le> go_round x \<and> go_round x \<le> n"
  unfolding go_round_def by (simp add: floor_le_iff le_floor_iff)

lemma ratio_bounds:
  fixes num den :: nat
  assumes "num \<le> den" "0 < den"
  shows "0 \<le> of_int (go_round (of_nat num / of_nat den * 1000)) / (10::rat) \<and>
    of_int (go_round (of_nat num / of_nat den * 1000)) / (10::rat) \<le> 100"
proof -
  have "(of_nat num :: rat) / of_nat den * 1000 \<le> of_int 1000" using assms by (simp add: divide_le_eq)
  then have "0 \<le> go_round (of_nat num / of_nat den * 1000)" "go_round (of_nat num / of_nat den * 1000) \<le> 1000"
    using go_round_bounds [of "of_nat num / of_nat den * 1000" 1000] by auto
  then show ?thesis by simp
qed

lemma kpiRatio_rate: "num \<le> den \<Longrightarrow> ki_rate (kpiRatio i a b c num den dir) = Some r \<Longrightarrow> 0 \<le> r \<and> r \<le> 100"
  using ratio_bounds [of num den] by (auto simp: kpiRatio_def zero_item_def Let_def split: if_splits)

lemma raw_rates:
  assumes "kc_converted c \<le> kc_qualified c" "kc_lost c \<le> kc_qualified c" "i \<in> set (kpi_raw c hc)" "ki_rate i = Some r"
  shows "0 \<le> r \<and> r \<le> 100"
proof -
  have "ki_rate (kpiFirstResponse a n) = None" "ki_rate (kpiQualityScore a n) = None" for a n
    by (simp_all add: kpiFirstResponse_def kpiQualityScore_def zero_item_def Let_def)
  then show ?thesis using assms kpiRatio_rate by (auto simp: kpi_raw_def zero_item_def)
qed

lemma counts_le:
  "kc_converted (kpi_counts_of ls) + kc_lost (kpi_counts_of ls) \<le> kc_qualified (kpi_counts_of ls)"
  by (induction ls) (auto simp: kpi_counts_of_def)



end
