(* ===== verification/Summary.thy ===== *)
theory Summary
  imports Aggregate
begin

section \<open>Summaries of the leads in scope (leads.go)\<close>

text \<open>
  The dashboard counts: the summary with its small mixes, the pipeline board, and the mixes with many
  values, which are served in pages by LIMIT and OFFSET. Counts are natural numbers, percentages and
  amounts exact rationals.
\<close>

record team_lead_count =
  tc_id :: string
  tc_name :: string
  tc_count :: nat

record attribution =
  at_name :: string
  at_total :: nat
  at_won :: nat
  at_conversion :: rat

record lead_summary =
  sm_total :: nat
  sm_irrelevant :: nat
  sm_qualified :: nat
  sm_notQualified :: nat
  sm_passed :: nat
  sm_withTeamLeads :: nat
  sm_withSalesExecs :: nat
  sm_lost :: nat
  sm_revenue :: rat
  sm_won :: nat
  sm_noResponse :: nat
  sm_open :: nat
  sm_dealSum :: rat
  sm_last7 :: nat
  sm_mix :: "named_count list"
  sm_teamMix :: "team_lead_count list"
  sm_sourceMix :: "attribution list"

record pipeline_summary =
  pl_assigned :: nat
  pl_inProgress :: nat
  pl_won :: nat
  pl_lost :: nat
  pl_total :: nat

definition count_rows :: "('a \<Rightarrow> bool) \<Rightarrow> 'a list \<Rightarrow> nat" where
  \<comment> \<open>\<open>COUNT(*) FILTER (WHERE P)\<close>\<close>
  "count_rows P ls = length (filter P ls)"

definition stage_is :: "string list \<Rightarrow> lead \<Rightarrow> bool" where
  "stage_is ss l \<longleftrightarrow> l_stage l \<in> set ss"

definition in_progress_stages :: "string list" where
  "in_progress_stages = [''NOT_CONNECTED'', ''IN_NEGOTIATION'', ''NO_RESPONSE_FROM_CLIENT'']"

subsection \<open>The pipeline board\<close>

definition PipelineSummary :: "zone \<Rightarrow> lead_params \<Rightarrow> pipeline_summary op" where
  "PipelineSummary zone ps0 =
     (let ps = ps0\<lparr>lp_filter := ''pipeline'', lp_stage := [], lp_status := []\<rparr>; b = leadScopeWhere zone ps True
      in query (\<lambda>d. let ls = scoped b [] d in
        \<lparr>pl_assigned = count_rows (stage_is [''WITH_TEAM_LEAD'', ''WITH_EXECUTIVE'']) ls,
         pl_inProgress = count_rows (stage_is in_progress_stages) ls,
         pl_won = count_rows (stage_is [''CLOSED_WON'']) ls,
         pl_lost = count_rows (stage_is [''CLOSED_LOST'']) ls,
         pl_total = length ls\<rparr>))"

subsection \<open>The summary\<close>

definition scope_and :: "(lead \<Rightarrow> bool) \<Rightarrow> builder \<Rightarrow> builder" where
  \<comment> \<open>the condition, then AND a clause without arguments\<close>
  "scope_and P b = push_where (\<lambda>as d l. P l) b"

definition leadScopeWhereAssignedToTeam :: "zone \<Rightarrow> lead_params \<Rightarrow> builder" where
  "leadScopeWhereAssignedToTeam zone ps = scope_and (\<lambda>l. l_team l \<noteq> None) (leadScopeWhere zone ps True)"

definition leadScopeWhereAssignedToSalesExec :: "zone \<Rightarrow> lead_params \<Rightarrow> builder" where
  "leadScopeWhereAssignedToSalesExec zone ps = scope_and (\<lambda>l. l_se l \<noteq> None) (leadScopeWhere zone ps True)"

definition passed_leads :: "builder \<Rightarrow> db \<Rightarrow> string list" where
  \<comment> \<open>the distinct leads of the handoffs joined with the leads in scope; \<open>$1\<close> and \<open>$2\<close> are the actions\<close>
  "passed_leads b d = remdups (concat (map (\<lambda>h. map l_id (filter (\<lambda>l. l_id l = ho_lead h \<and>
       one_of (snd b) [1, 2] (ho_action h) \<and> holds_all b (snd b) d l) (leads d))) (handoffs d)))"

definition with_team :: "db \<Rightarrow> lead list \<Rightarrow> (lead \<times> team) list" where
  \<comment> \<open>\<open>INNER JOIN "Team" t ON t.id = l."teamId"\<close>\<close>
  "with_team d ls = somes (map (\<lambda>l. case l_team l of None \<Rightarrow> None | Some i \<Rightarrow> map_option (Pair l) (team_by_id i d)) ls)"

definition teamLeadCounts :: "(string \<Rightarrow> 'k::linorder) \<Rightarrow> zone \<Rightarrow> lead_params \<Rightarrow> team_lead_count list op" where
  \<comment> \<open>the loop skips an empty id\<close>
  "teamLeadCounts coll zone ps = query (\<lambda>d. filter (\<lambda>c. tc_id c \<noteq> [])
     (order_by (\<lambda>a b. (Desc (tc_count a), coll (tc_name a)) \<le> (Desc (tc_count b), coll (tc_name b)))
       (map (\<lambda>(k, g). \<lparr>tc_id = fst k, tc_name = labelled ''Unnamed'' (Some (snd k)), tc_count = length g\<rparr>)
         (group_on (\<lambda>(l, t). (t_id t, t_name t))
           (with_team d (scoped (leadScopeWhereAssignedToTeam zone ps) [] d))))))"

definition attribution_of :: "string \<times> lead list \<Rightarrow> attribution" where
  \<comment> \<open>one row of the grouped statement, and the percentage the loop adds\<close>
  "attribution_of kg = (case kg of (k, g) \<Rightarrow>
     (let won = count_rows (stage_is [''CLOSED_WON'']) g in
       \<lparr>at_name = k, at_total = length g, at_won = won,
        at_conversion = (if length g > 0 then of_nat won * 100 / of_nat (length g) else 0)\<rparr>))"

definition attribution_groups :: "(string \<Rightarrow> 'k::linorder) \<Rightarrow> (lead \<Rightarrow> string option) \<Rightarrow> lead list \<Rightarrow> attribution list" where
  \<comment> \<open>GROUP BY 1 ORDER BY 2 DESC, 1 ASC\<close>
  "attribution_groups coll col ls = order_by
     (\<lambda>a b. (Desc (at_total a), coll (at_name a)) \<le> (Desc (at_total b), coll (at_name b)))
     (map attribution_of (group_on (\<lambda>l. labelled ''Unassigned'' (col l)) ls))"

definition attributionMix ::
  "(string \<Rightarrow> 'k::linorder) \<Rightarrow> zone \<Rightarrow> lead_params \<Rightarrow> (lead \<Rightarrow> string option) \<Rightarrow> attribution list op" where
  "attributionMix coll zone ps col =
     query (\<lambda>d. attribution_groups coll col (scoped (leadScopeWhere zone ps True) [] d))"

definition is_open :: "lead \<Rightarrow> bool" where
  "is_open l \<longleftrightarrow> l_closedAt l = None \<and> l_stage l \<notin> {''CLOSED_WON'', ''CLOSED_LOST''}"

definition summary_counts :: "int \<Rightarrow> nat \<Rightarrow> lead list \<Rightarrow> lead_summary" where
  \<comment> \<open>the aggregate statement over the leads in scope, at the given time\<close>
  "summary_counts t passed ls =
     \<lparr>sm_total = length ls,
      sm_irrelevant = count_rows (\<lambda>l. l_qual l = ''IRRELEVANT'') ls,
      sm_qualified = count_rows sql_qualified ls,
      sm_notQualified = count_rows (\<lambda>l. l_qual l = ''NOT_QUALIFIED'') ls,
      sm_passed = passed,
      sm_withTeamLeads = count_rows (\<lambda>l. l_stage l = ''WITH_TEAM_LEAD'' \<and> sql_qualified l) ls,
      sm_withSalesExecs = count_rows (\<lambda>l. l_stage l = ''WITH_EXECUTIVE'' \<and> sql_qualified l) ls,
      sm_lost = count_rows (stage_is [''CLOSED_LOST'']) ls,
      sm_revenue = sql_sum (map l_revenue ls),
      sm_won = count_rows (stage_is [''CLOSED_WON'']) ls,
      sm_noResponse = count_rows (stage_is [''NO_RESPONSE_FROM_CLIENT'']) ls,
      sm_open = count_rows is_open ls,
      sm_dealSum = sql_sum (map l_deal (filter is_open ls)),
      sm_last7 = count_rows (\<lambda>l. l_createdAt l > t - 7 * day_ms) ls,
      sm_mix = [], sm_teamMix = [], sm_sourceMix = []\<rparr>"

definition pass_args :: "arg list" where
  "pass_args = [AText ''DIRECT_ASSIGNED_TO_EXECUTIVE_BY_ATL'', AText ''ASSIGNED_TO_EXECUTIVE'']"

definition pass_where :: "zone \<Rightarrow> lead_params \<Rightarrow> builder" where
  \<comment> \<open>the facets, after the two arguments already in \<open>passArgs\<close>\<close>
  "pass_where zone ps = appendLeadFacets zone ps
     (if trim (lp_status ps) = [] then appendLeadFilter (normalizeLeadFilter (lp_filter ps)) ([], pass_args) else ([], pass_args))"

definition Summary :: "(string \<Rightarrow> 'k::linorder) \<Rightarrow> zone \<Rightarrow> lead_params \<Rightarrow> lead_summary op" where
  "Summary coll zone ps =
     (let b = leadScopeWhere zone ps True
      in bindE (query (\<lambda>d. length (passed_leads (pass_where zone ps) d))) (\<lambda>passed.
         bindE get_now (\<lambda>t.
         bindE (query (\<lambda>d. summary_counts t passed (scoped b [] d))) (\<lambda>out.
         bindE (namedCountsArgs more_first (\<lambda>d. map l_qual (scoped b [] d))) (\<lambda>mix.
         bindE (teamLeadCounts coll zone ps) (\<lambda>teamMix.
         bindE (attributionMix coll zone ps (\<lambda>l. Some (l_source l))) (\<lambda>sourceMix.
           ret (out\<lparr>sm_mix := mix, sm_teamMix := teamMix, sm_sourceMix := sourceMix\<rparr>))))))))"

subsection \<open>Pages of buckets\<close>

record analyst_stats =
  as_id :: string
  as_name :: string
  as_email :: string
  as_total :: nat
  as_qualified :: nat
  as_notQualified :: nat
  as_irrelevant :: nat

record exec_outcome =
  eo_id :: string
  eo_name :: string
  eo_assigned :: int
  eo_withTeamLead :: int
  eo_withRep :: int
  eo_inProgress :: int
  eo_won :: int
  eo_lost :: int
  eo_other :: int

record reason_count =
  rc_status :: string
  rc_reason :: string
  rc_count :: nat

datatype bucket_items =
    ReasonItems "reason_count list"
  | AttributionItems "attribution list"
  | AnalystItems "analyst_stats list"
  | ExecItems "exec_outcome list"

record bucket_page =
  bp_dimension :: string
  bp_offset :: int
  bp_limit :: int
  bp_more :: bool
  bp_count :: nat
  bp_leads :: nat
  bp_won :: nat
  bp_items :: bucket_items

definition clampSummaryBucketLimit :: "int \<Rightarrow> int" where
  "clampSummaryBucketLimit limit = (if limit \<le> 0 then 50 else if limit > 200 then 200 else limit)"

definition clampSummaryBucketOffset :: "int \<Rightarrow> int" where
  "clampSummaryBucketOffset offset = (if offset < 0 then 0 else if offset > 5000 then 5000 else offset)"

definition completeSalesExecOutcome :: "exec_outcome \<Rightarrow> exec_outcome" where
  "completeSalesExecOutcome item0 =
     (let item = (if eo_id item0 = [] then item0\<lparr>eo_name := ''Unnamed''\<rparr> else item0);
          accounted = eo_withTeamLead item + eo_withRep item + eo_inProgress item + eo_won item + eo_lost item;
          other = eo_assigned item - accounted
      in item\<lparr>eo_other := (if other < 0 then 0 else other)\<rparr>)"

definition limit_offset :: "int \<Rightarrow> int \<Rightarrow> 'a list \<Rightarrow> 'a list" where
  \<comment> \<open>LIMIT n OFFSET m\<close>
  "limit_offset n m xs = take (nat n) (drop (nat m) xs)"

definition bucket_rows :: "string \<Rightarrow> int \<Rightarrow> int \<Rightarrow> nat \<times> nat \<times> nat \<Rightarrow> ('a list \<Rightarrow> bucket_items) \<Rightarrow> 'a list \<Rightarrow> bucket_page" where
  \<comment> \<open>the end of the four functions: one row more than the limit was asked for\<close>
  "bucket_rows dimension offset limit meta con out =
     (let more = (int (length out) > limit) in
       \<lparr>bp_dimension = dimension, bp_offset = offset, bp_limit = limit, bp_more = more, bp_count = fst meta,
        bp_leads = fst (snd meta), bp_won = snd (snd meta),
        bp_items = con (if more then take (nat limit) out else out)\<rparr>)"

definition in_reason_pool :: "lead \<Rightarrow> bool" where
  \<comment> \<open>\<open>statusPool\<close>\<close>
  "in_reason_pool l \<longleftrightarrow> l_qual l \<in> {''IRRELEVANT'', ''NOT_QUALIFIED''}"

definition reason_rows :: "string \<Rightarrow> nat \<Rightarrow> builder \<Rightarrow> arg list \<Rightarrow> db \<Rightarrow> lead list" where
  \<comment> \<open>\<open>FROM raw WHERE TRUE AND status = $n\<close>, the last only for a known status\<close>
  "reason_rows status n b as d = filter (\<lambda>l. status = [] \<or> text_at as n (\<lambda>x. l_qual l = x)) (filter (holds_all b as d) (leads d))"

definition reason_row :: "(string \<times> string) \<times> lead list \<Rightarrow> reason_count" where
  "reason_row kg = (case kg of (k, g) \<Rightarrow> \<lparr>rc_status = fst k, rc_reason = snd k, rc_count = length g\<rparr>)"

definition reason_groups :: "lead list \<Rightarrow> reason_count list" where
  "reason_groups ls = map reason_row (group_on (\<lambda>l. (l_qual l, lead_reason l)) ls)"

definition reason_order :: "(string \<Rightarrow> 'k::linorder) \<Rightarrow> reason_count \<Rightarrow> reason_count \<Rightarrow> bool" where
  "reason_order coll a b \<longleftrightarrow> (Desc (rc_count a), coll (rc_reason a), coll (rc_status a)) \<le>
     (Desc (rc_count b), coll (rc_reason b), coll (rc_status b))"

definition paginatedQualificationReasons ::
  "(string \<Rightarrow> 'k::linorder) \<Rightarrow> zone \<Rightarrow> lead_params \<Rightarrow> string \<Rightarrow> int \<Rightarrow> int \<Rightarrow> bucket_page op" where
  "paginatedQualificationReasons coll zone ps status0 offset limit =
     (let status1 = to_upper (trim status0);
          b = scope_and in_reason_pool (leadScopeWhere zone ps True);
          known = (status1 = ''IRRELEVANT'' \<or> status1 = ''NOT_QUALIFIED'');
          args = (if known then snd b @ [AText status1] else snd b);
          n = length args;
          status = (if known then status1 else [])
      in bindE (query (\<lambda>d. let bs = reason_groups (reason_rows status n b args d) in (length bs, sum_list (map rc_count bs)))) (\<lambda>m.
         bindE (query (\<lambda>d. limit_offset (limit + 1) offset (order_by (reason_order coll)
             (reason_groups (reason_rows status n b (args @ [ACount (limit + 1), ACount offset]) d))))) (\<lambda>out.
           ret (bucket_rows ''reasons'' offset limit (fst m, snd m, 0) ReasonItems out))))"

definition paginatedAttributionMix ::
  "(string \<Rightarrow> 'k::linorder) \<Rightarrow> zone \<Rightarrow> lead_params \<Rightarrow> (lead \<Rightarrow> string option) \<Rightarrow> string \<Rightarrow> int \<Rightarrow> int \<Rightarrow> bucket_page op" where
  "paginatedAttributionMix coll zone ps col dimension offset limit =
     (let b = leadScopeWhere zone ps True
      in bindE (query (\<lambda>d. let bs = map attribution_of (group_on (\<lambda>l. labelled ''Unassigned'' (col l)) (scoped b [] d)) in
           (length bs, sum_list (map at_total bs), sum_list (map at_won bs)))) (\<lambda>m.
         bindE (query (\<lambda>d. limit_offset (limit + 1) offset
           (attribution_groups coll col (scoped b [ACount (limit + 1), ACount offset] d)))) (\<lambda>out.
           ret (bucket_rows dimension offset limit m AttributionItems out))))"

definition creator_of :: "db \<Rightarrow> lead \<Rightarrow> user option" where
  \<comment> \<open>\<open>LEFT JOIN "User" u ON u.id = l."createdById"\<close>\<close>
  "creator_of d l = (case l_createdBy l of None \<Rightarrow> None | Some i \<Rightarrow> user_by_id i d)"

definition analyst_row :: "user option \<times> lead list \<Rightarrow> analyst_stats" where
  \<comment> \<open>one row of the grouped statement and the fallbacks of the loop\<close>
  "analyst_row kg = (case kg of (u, g) \<Rightarrow>
     (let item = \<lparr>as_id = (case u of None \<Rightarrow> [] | Some x \<Rightarrow> u_id x),
            as_name = labelled ''Unassigned'' (map_option u_name u),
            as_email = labelled em_dash (map_option u_email u),
            as_total = length g,
            as_qualified = count_rows sql_qualified g,
            as_notQualified = count_rows (\<lambda>l. l_qual l = ''NOT_QUALIFIED'') g,
            as_irrelevant = count_rows (\<lambda>l. l_qual l = ''IRRELEVANT'') g\<rparr>
      in if as_id item = [] then item\<lparr>as_name := ''Unassigned'',
           as_email := (if as_email item = [] then em_dash else as_email item)\<rparr> else item))"

definition analyst_groups :: "(string \<Rightarrow> 'k::linorder) \<Rightarrow> db \<Rightarrow> lead list \<Rightarrow> analyst_stats list" where
  "analyst_groups coll d ls = order_by
     (\<lambda>a b. (Desc (as_total a), coll (as_name a)) \<le> (Desc (as_total b), coll (as_name b)))
     (map analyst_row (group_on (creator_of d) ls))"

definition paginatedAnalystLeadStats ::
  "(string \<Rightarrow> 'k::linorder) \<Rightarrow> zone \<Rightarrow> lead_params \<Rightarrow> int \<Rightarrow> int \<Rightarrow> bucket_page op" where
  "paginatedAnalystLeadStats coll zone ps offset limit =
     (let b = leadScopeWhere zone ps True
      in bindE (query (\<lambda>d. let gs = group_on (\<lambda>l. map_option u_id (creator_of d l)) (scoped b [] d) in
           (length gs, sum_list (map (\<lambda>(k, g). length g) gs)))) (\<lambda>m.
         bindE (query (\<lambda>d. limit_offset (limit + 1) offset
           (analyst_groups coll d (scoped b [ACount (limit + 1), ACount offset] d)))) (\<lambda>out.
           ret (bucket_rows ''analyst'' offset limit (fst m, snd m, 0) AnalystItems out))))"

definition with_exec :: "db \<Rightarrow> lead list \<Rightarrow> (lead \<times> user) list" where
  \<comment> \<open>\<open>INNER JOIN "User" u ON u.id = l."assignedSalesExecId"\<close>\<close>
  "with_exec d ls = somes (map (\<lambda>l. case l_se l of None \<Rightarrow> None | Some i \<Rightarrow> map_option (Pair l) (user_by_id i d)) ls)"

definition exec_row :: "user \<times> (lead \<times> user) list \<Rightarrow> exec_outcome" where
  \<comment> \<open>\<open>salesExecOutcomeCountSQL\<close>\<close>
  "exec_row kg = (case kg of (u, g) \<Rightarrow> (let ls = map fst g in completeSalesExecOutcome
     \<lparr>eo_id = u_id u, eo_name = labelled ''Unnamed'' (Some (u_name u)),
      eo_assigned = int (length ls),
      eo_withTeamLead = int (count_rows (stage_is [''WITH_TEAM_LEAD'']) ls),
      eo_withRep = int (count_rows (stage_is [''WITH_EXECUTIVE'']) ls),
      eo_inProgress = int (count_rows (stage_is in_progress_stages) ls),
      eo_won = int (count_rows (stage_is [''CLOSED_WON'']) ls),
      eo_lost = int (count_rows (stage_is [''CLOSED_LOST'']) ls),
      eo_other = 0\<rparr>))"

definition exec_groups :: "(string \<Rightarrow> 'k::linorder) \<Rightarrow> (lead \<times> user) list \<Rightarrow> exec_outcome list" where
  "exec_groups coll ls = order_by
     (\<lambda>a b. (Desc (eo_assigned a), coll (eo_name a)) \<le> (Desc (eo_assigned b), coll (eo_name b)))
     (map exec_row (group_on snd ls))"

definition paginatedSalesExecOutcomes ::
  "(string \<Rightarrow> 'k::linorder) \<Rightarrow> zone \<Rightarrow> lead_params \<Rightarrow> int \<Rightarrow> int \<Rightarrow> bucket_page op" where
  "paginatedSalesExecOutcomes coll zone ps offset limit =
     (let b = leadScopeWhereAssignedToSalesExec zone ps
      in bindE (query (\<lambda>d. let gs = group_on (\<lambda>x. u_id (snd x)) (with_exec d (scoped b [] d)) in
           (length gs, sum_list (map (\<lambda>(k, g). length g) gs)))) (\<lambda>m.
         bindE (query (\<lambda>d. limit_offset (limit + 1) offset
           (exec_groups coll (with_exec d (scoped b [ACount (limit + 1), ACount offset] d))))) (\<lambda>out.
           ret (bucket_rows ''salesExec'' offset limit (fst m, snd m, 0) ExecItems out))))"

definition SummaryBuckets ::
  "(string \<Rightarrow> 'k::linorder) \<Rightarrow> zone \<Rightarrow> (string \<Rightarrow> string) \<Rightarrow> string \<Rightarrow> lead_params \<Rightarrow> string \<Rightarrow> int \<Rightarrow> int \<Rightarrow> bucket_page op" where
  \<comment> \<open>\<open>quoted\<close> is the \<open>%q\<close> of the error text\<close>
  "SummaryBuckets coll zone quoted dimension0 ps status offset0 limit0 =
     (let limit = clampSummaryBucketLimit limit0; offset = clampSummaryBucketOffset offset0;
          dimension = to_lower (trim dimension0)
      in if dimension \<in> {''reasons'', ''qualificationreasons'', ''qualification-reasons''}
         then paginatedQualificationReasons coll zone ps status offset limit
         else if dimension \<in> {''portal'', ''website''} then paginatedAttributionMix coll zone ps l_portal ''portal'' offset limit
         else if dimension \<in> {''metaprofile'', ''meta-profile'', ''meta_profile''}
         then paginatedAttributionMix coll zone ps l_metaProfile ''metaProfile'' offset limit
         else if dimension = ''source'' then paginatedAttributionMix coll zone ps (\<lambda>l. Some (l_source l)) ''source'' offset limit
         else if dimension \<in> {''analyst'', ''analysts''} then paginatedAnalystLeadStats coll zone ps offset limit
         else if dimension \<in> {''salesexec'', ''sales-exec'', ''sales_exec'', ''salesexecoutcomes''}
         then paginatedSalesExecOutcomes coll zone ps offset limit
         else throw (ErrMsg (''unknown summary dimension '' @ quoted dimension)))"

end
