(* ===== verification/SummarySafety.thy ===== *)
theory SummarySafety
  imports Summary
begin

section \<open>What the summaries show\<close>

text \<open>
  The counts of a summary partition the leads in scope, the buckets of a dimension add up to its
  leads, and walking the pages of buckets shows each of them once - as long as there are at most
  5000, since the offset is clamped there.
\<close>

subsection \<open>Running queries\<close>

lemma calm_calm_world: "calm (calm_world d)" "tables (calm_world d) = d"
  by (simp_all add: calm_world_def calm_def)

lemma bind_result: "bindE m f w = (Inr r, w') \<Longrightarrow> \<exists>a w1. m w = (Inr a, w1) \<and> f a w1 = (Inr r, w')"
  by (auto simp: bindE_def split: prod.splits sum.splits)

lemma bind_query_result:
  "bindE (query q) f w = (Inr r, w') \<Longrightarrow> \<exists>w1. f (q (tables w)) w1 = (Inr r, w') \<and> tables w1 = tables w"
  using query_result bind_result by metis

lemma bind_now_result: "bindE get_now f w = (Inr r, w') \<Longrightarrow> f (now w) w = (Inr r, w')"
  by (simp add: bindE_def get_now_def)

lemma two_queries_result:
  "bindE (query q) (\<lambda>m. bindE (query r) (\<lambda>out. ret (f m out))) w = (Inr p, w') \<Longrightarrow>
     p = f (q (tables w)) (r (tables w))"
  by (auto simp: ret_def dest!: bind_query_result)

lemma sum_labels: "(\<Sum>x\<leftarrow>map f (group_on key xs). g x) = (\<Sum>(k, ys)\<leftarrow>group_on key xs. g (f (k, ys)))"
  by (simp add: case_prod_unfold o_def)

subsection \<open>The summary\<close>

lemma scope_and_exact: "holds_all (scope_and P (leadScopeWhere zone ps True)) (snd (scope_and P (leadScopeWhere zone ps True)) @ rest) d l
    \<longleftrightarrow> P l \<and> scope_means zone ps True d l"
proof -
  have "holds_all (push_where (\<lambda>as d l. P l) b) as d l \<longleftrightarrow> P l \<and> holds_all b as d l" for b as
    by (auto simp: holds_all_def push_where_def)
  moreover have "snd (scope_and P b) = snd b" for b by (simp add: scope_and_def push_where_def)
  ultimately show ?thesis unfolding scope_and_def by (simp add: scope_where_exact push_where_def)
qed

lemma scoped_and: "scoped (scope_and P (leadScopeWhere zone ps True)) rest d = filter P (scope_rows zone ps True d)"
  using scope_and_exact [of P zone ps rest d] by (simp add: scoped_def scope_rows_def conj_commute cong: filter_cong)

definition was_passed :: "db \<Rightarrow> lead \<Rightarrow> bool" where
  \<comment> \<open>handed to an executive, by the handoff log\<close>
  "was_passed d l \<longleftrightarrow> (\<exists>h \<in> set (handoffs d). ho_lead h = l_id l \<and>
     (ho_action h = ''DIRECT_ASSIGNED_TO_EXECUTIVE_BY_ATL'' \<or> ho_action h = ''ASSIGNED_TO_EXECUTIVE''))"

lemma pass_where_exact:
  "holds_all (pass_where zone ps) (snd (pass_where zone ps)) d l \<longleftrightarrow> scope_means zone ps True d l"
  "\<exists>as. snd (pass_where zone ps) = pass_args @ as"
proof -
  let ?g = "\<lambda>b. appendLeadFacets zone ps (if True \<and> trim (lp_status ps) = [] then appendLeadFilter (normalizeLeadFilter (lp_filter ps)) b else b)"
  have s: "adds ?g (scope_means zone ps True)" by (rule adds_scope)
  obtain ws as where g: "?g ([], pass_args) = (ws, pass_args @ as)" using s unfolding adds_def by fastforce
  have pw: "pass_where zone ps = ?g ([], pass_args)" by (simp add: pass_where_def)
  show "\<exists>as. snd (pass_where zone ps) = pass_args @ as" unfolding pw g by simp
  have "pass_args @ drop (length pass_args) (snd (?g ([], pass_args))) @ [] = snd (?g ([], pass_args))"
    by (simp only: g snd_conv append_Nil2 append_eq_conv_conj drop_append) simp
  then show "holds_all (pass_where zone ps) (snd (pass_where zone ps)) d l \<longleftrightarrow> scope_means zone ps True d l"
    unfolding pw using adds_holds [OF s, of pass_args pass_args "[]" d l] by (simp only:)
qed

lemma passed_exact:
  "set (passed_leads (pass_where zone ps) d) = l_id ` {l \<in> set (scope_rows zone ps True d). was_passed d l}"
proof -
  have o: "one_of (snd (pass_where zone ps)) [1, 2] v \<longleftrightarrow>
      v = ''DIRECT_ASSIGNED_TO_EXECUTIVE_BY_ATL'' \<or> v = ''ASSIGNED_TO_EXECUTIVE''" for v
    using pass_where_exact(2) [of zone ps] by (auto simp: one_of_def text_at_def arg_at_def pass_args_def)
  have joined: "set (remdups (concat (map (\<lambda>h. map l_id (filter (\<lambda>l. l_id l = ho_lead h \<and> Q (ho_action h) \<and> S l) ls)) hs))) =
      l_id ` {l \<in> set (filter S ls). \<exists>h \<in> set hs. ho_lead h = l_id l \<and> Q (ho_action h)}" for Q S ls hs
    by (auto simp: image_iff) metis+
  show ?thesis unfolding passed_leads_def was_passed_def scope_rows_def o pass_where_exact(1) by (rule joined)
qed

lemma attribution_sums:
  "(\<Sum>a\<leftarrow>map attribution_of (group_on key ls). at_total a) = length ls"
  "(\<Sum>a\<leftarrow>map attribution_of (group_on key ls). at_won a) = count_rows (stage_is [''CLOSED_WON'']) ls"
  unfolding sum_labels
  by (simp_all add: attribution_of_def Let_def group_totals count_rows_def group_counts)

lemma conversion_bounds: "a \<in> set (attribution_groups coll col ls) \<Longrightarrow> 0 \<le> at_conversion a \<and> at_conversion a \<le> 100"
proof -
  assume "a \<in> set (attribution_groups coll col ls)"
  then obtain k g where a: "a = attribution_of (k, g)" by (auto simp: attribution_groups_def set_order_by)
  have "count_rows P g \<le> length g" for P :: "lead \<Rightarrow> bool" by (simp add: count_rows_def)
  then have "(of_nat (count_rows (stage_is [''CLOSED_WON'']) g) :: rat) * 100 \<le> of_nat (length g) * 100" by simp
  then show ?thesis by (simp add: a attribution_of_def Let_def divide_le_eq)
qed

lemma teamLeadCounts_result:
  assumes "teamLeadCounts coll zone ps w = (Inr ts, w')"
  shows "(\<Sum>t\<leftarrow>ts. tc_count t) = count_rows (\<lambda>l. \<exists>i t. l_team l = Some i \<and> team_by_id i (tables w) = Some t \<and> t_id t \<noteq> [])
    (scope_rows zone ps True (tables w)) \<and> tables w' = tables w"
proof -
  have joined: "length (filter (\<lambda>(l, t). t_id t \<noteq> []) (somes (map (\<lambda>l. case l_team l of None \<Rightarrow> None
      | Some i \<Rightarrow> map_option (Pair l) (team_by_id i d)) (filter (\<lambda>l. l_team l \<noteq> None) ls)))) =
    length (filter (\<lambda>l. \<exists>i t. l_team l = Some i \<and> team_by_id i d = Some t \<and> t_id t \<noteq> []) ls)" for d ls
    by (induction ls) (auto split: option.split)
  let ?d = "tables w" let ?rows = "scope_rows zone ps True ?d"
  let ?J = "with_team ?d (filter (\<lambda>l. l_team l \<noteq> None) ?rows)"
  let ?row = "\<lambda>(k, g). \<lparr>tc_id = fst k, tc_name = labelled ''Unnamed'' (Some (snd k)), tc_count = length g\<rparr>"
  have ts: "ts = filter (\<lambda>c. tc_id c \<noteq> []) (order_by (\<lambda>a b. (Desc (tc_count a), coll (tc_name a)) \<le> (Desc (tc_count b), coll (tc_name b)))
      (map ?row (group_on (\<lambda>(l, t). (t_id t, t_name t)) ?J)))"
    using query_result [OF assms [unfolded teamLeadCounts_def]]
    by (simp add: leadScopeWhereAssignedToTeam_def scoped_and)
  have "(\<Sum>t\<leftarrow>ts. tc_count t) = (\<Sum>t\<leftarrow>map ?row (group_on (\<lambda>(l, t). (t_id t, t_name t)) ?J). if tc_id t \<noteq> [] then tc_count t else 0)"
    unfolding ts sum_list_map_filter' sum_order_by ..
  also have "\<dots> = (\<Sum>(k, g)\<leftarrow>group_on (\<lambda>(l, t). (t_id t, t_name t)) ?J. length (filter (\<lambda>(l, t). t_id t \<noteq> []) g))"
    unfolding sum_labels
  proof (intro arg_cong [where f = sum_list] map_cong refl)
    fix x assume "x \<in> set (group_on (\<lambda>(l, t). (t_id t, t_name t)) ?J)"
    moreover obtain k g where x: "x = (k, g)" by (cases x)
    ultimately have g: "g = filter (\<lambda>x. (case x of (l, t) \<Rightarrow> (t_id t, t_name t)) = k) ?J" by (simp add: group_member)
    have "filter (\<lambda>(l, t). t_id t \<noteq> []) g = (if fst k \<noteq> [] then g else [])" unfolding g
      by (auto simp: filter_empty_conv intro!: filter_cong)
    then show "(case x of (k, ys) \<Rightarrow> if tc_id (?row (k, ys)) \<noteq> [] then tc_count (?row (k, ys)) else 0) =
      (case x of (k, g) \<Rightarrow> length (filter (\<lambda>(l, t). t_id t \<noteq> []) g))" by (simp add: x)
  qed
  also have "\<dots> = length (filter (\<lambda>(l, t). t_id t \<noteq> []) ?J)" by (rule group_counts)
  also have "\<dots> = count_rows (\<lambda>l. \<exists>i t. l_team l = Some i \<and> team_by_id i ?d = Some t \<and> t_id t \<noteq> []) ?rows"
    unfolding count_rows_def with_team_def by (rule joined)
  finally show ?thesis using query_result [OF assms [unfolded teamLeadCounts_def]] by simp
qed

lemma Summary_result:
  assumes "Summary coll zone ps w = (Inr s, w')"
  defines "rows \<equiv> scope_rows zone ps True (tables w)"
  shows "\<exists>t mix teamMix w1 w2.
    s = (summary_counts t (length (passed_leads (pass_where zone ps) (tables w))) rows)\<lparr>sm_mix := mix, sm_teamMix := teamMix,
      sm_sourceMix := attribution_groups coll (\<lambda>l. Some (l_source l)) rows\<rparr> \<and>
    (\<Sum>c\<leftarrow>mix. nc_count c) = length rows \<and> tables w1 = tables w \<and> teamLeadCounts coll zone ps w1 = (Inr teamMix, w2)"
proof -
  note s = assms(1) [unfolded Summary_def Let_def]
  obtain w1 where 1: "tables w1 = tables w" and b1: "bindE get_now (\<lambda>t.
         bindE (query (\<lambda>d. summary_counts t (length (passed_leads (pass_where zone ps) (tables w))) (scoped (leadScopeWhere zone ps True) [] d))) (\<lambda>out.
         bindE (namedCountsArgs more_first (\<lambda>d. map l_qual (scoped (leadScopeWhere zone ps True) [] d))) (\<lambda>mix.
         bindE (teamLeadCounts coll zone ps) (\<lambda>teamMix.
         bindE (attributionMix coll zone ps (\<lambda>l. Some (l_source l))) (\<lambda>sourceMix.
           ret (out\<lparr>sm_mix := mix, sm_teamMix := teamMix, sm_sourceMix := sourceMix\<rparr>)))))) w1 = (Inr s, w')"
    using bind_query_result [OF s] by blast
  define out where "out = summary_counts (now w1) (length (passed_leads (pass_where zone ps) (tables w))) rows"
  obtain w2 where 2: "tables w2 = tables w1" and b2: "bindE (namedCountsArgs more_first (\<lambda>d. map l_qual (scoped (leadScopeWhere zone ps True) [] d))) (\<lambda>mix.
         bindE (teamLeadCounts coll zone ps) (\<lambda>teamMix.
         bindE (attributionMix coll zone ps (\<lambda>l. Some (l_source l))) (\<lambda>sourceMix.
           ret (out\<lparr>sm_mix := mix, sm_teamMix := teamMix, sm_sourceMix := sourceMix\<rparr>)))) w2 = (Inr s, w')"
    using bind_query_result [OF bind_now_result [OF b1]] by (auto simp: 1 out_def rows_def)
  obtain mix w3 where m: "namedCountsArgs more_first (\<lambda>d. map l_qual (scoped (leadScopeWhere zone ps True) [] d)) w2 = (Inr mix, w3)"
    and b3: "bindE (teamLeadCounts coll zone ps) (\<lambda>teamMix.
         bindE (attributionMix coll zone ps (\<lambda>l. Some (l_source l))) (\<lambda>sourceMix.
           ret (out\<lparr>sm_mix := mix, sm_teamMix := teamMix, sm_sourceMix := sourceMix\<rparr>))) w3 = (Inr s, w')"
    using bind_result [OF b2] by blast
  have ms: "(\<Sum>c\<leftarrow>mix. nc_count c) = length rows" using namedCounts_total [OF m] by (simp add: 1 2 rows_def)
  have 3: "tables w3 = tables w2" using query_result [OF m [unfolded namedCountsArgs_def]] by blast
  obtain teamMix w4 where tm: "teamLeadCounts coll zone ps w3 = (Inr teamMix, w4)"
    and b4: "bindE (attributionMix coll zone ps (\<lambda>l. Some (l_source l))) (\<lambda>sourceMix.
           ret (out\<lparr>sm_mix := mix, sm_teamMix := teamMix, sm_sourceMix := sourceMix\<rparr>)) w4 = (Inr s, w')"
    using bind_result [OF b3] by blast
  have 4: "tables w4 = tables w3" using teamLeadCounts_result [OF tm] by blast
  have "s = out\<lparr>sm_mix := mix, sm_teamMix := teamMix, sm_sourceMix := attribution_groups coll (\<lambda>l. Some (l_source l)) rows\<rparr>"
    using bind_query_result [OF b4 [unfolded attributionMix_def]] by (auto simp: ret_def 1 2 3 4 rows_def)
  then show ?thesis using ms tm 1 2 3 by (metis out_def)
qed

text \<open>C26. A summary partitions the leads in the actor's scope: the qualification mix and the source
  mix each add up to all of them, the wins of the sources to the wins, every conversion is between 0
  and 100, the three qualification classes and the three outcomes do not overlap, the team mix counts
  the leads of existing teams, and the passed leads are the distinct leads of the scope with a handoff
  to an executive.\<close>

theorem summary_counts_exact:
  assumes "Summary coll zone ps w = (Inr s, w')"
  shows "let rows = scope_rows zone ps True (tables w) in
    sm_total s = length rows \<and> (\<Sum>c\<leftarrow>sm_mix s. nc_count c) = length rows \<and>
    (\<Sum>a\<leftarrow>sm_sourceMix s. at_total a) = length rows \<and> (\<Sum>a\<leftarrow>sm_sourceMix s. at_won a) = sm_won s \<and>
    (\<forall>a \<in> set (sm_sourceMix s). 0 \<le> at_conversion a \<and> at_conversion a \<le> 100) \<and>
    sm_irrelevant s + sm_qualified s + sm_notQualified s \<le> sm_total s \<and>
    sm_won s + sm_lost s + sm_open s \<le> sm_total s \<and>
    (\<Sum>t\<leftarrow>sm_teamMix s. tc_count t) = count_rows (\<lambda>l. \<exists>i t. l_team l = Some i \<and> team_by_id i (tables w) = Some t \<and> t_id t \<noteq> []) rows \<and>
    sm_passed s = card (l_id ` {l \<in> set rows. was_passed (tables w) l})"
proof -
  let ?rows = "scope_rows zone ps True (tables w)"
  obtain t mix teamMix w1 w2 where s: "s = (summary_counts t (length (passed_leads (pass_where zone ps) (tables w))) ?rows)
      \<lparr>sm_mix := mix, sm_teamMix := teamMix, sm_sourceMix := attribution_groups coll (\<lambda>l. Some (l_source l)) ?rows\<rparr>"
    and mix: "(\<Sum>c\<leftarrow>mix. nc_count c) = length ?rows"
    and tm: "tables w1 = tables w" "teamLeadCounts coll zone ps w1 = (Inr teamMix, w2)"
    using Summary_result [OF assms] by blast
  have d: "distinct (passed_leads (pass_where zone ps) (tables w))" by (simp add: passed_leads_def)
  have p: "length (passed_leads (pass_where zone ps) (tables w)) = card (l_id ` {l \<in> set ?rows. was_passed (tables w) l})"
    using distinct_card [OF d] by (simp only: passed_exact)
  have classes: "count_rows (\<lambda>l. l_qual l = ''IRRELEVANT'') ls + count_rows sql_qualified ls + count_rows (\<lambda>l. l_qual l = ''NOT_QUALIFIED'') ls \<le> length ls"
    "count_rows (stage_is [''CLOSED_WON'']) ls + count_rows (stage_is [''CLOSED_LOST'']) ls + count_rows is_open ls \<le> length ls" for ls
    by (induction ls) (auto simp: count_rows_def sql_qualified_def stage_is_def is_open_def)
  have f: "sm_total s = length ?rows" "sm_won s = count_rows (stage_is [''CLOSED_WON'']) ?rows"
    "sm_lost s = count_rows (stage_is [''CLOSED_LOST'']) ?rows" "sm_open s = count_rows is_open ?rows"
    "sm_irrelevant s = count_rows (\<lambda>l. l_qual l = ''IRRELEVANT'') ?rows" "sm_qualified s = count_rows sql_qualified ?rows"
    "sm_notQualified s = count_rows (\<lambda>l. l_qual l = ''NOT_QUALIFIED'') ?rows" "sm_mix s = mix" "sm_teamMix s = teamMix"
    "sm_sourceMix s = attribution_groups coll (\<lambda>l. Some (l_source l)) ?rows"
    "sm_passed s = length (passed_leads (pass_where zone ps) (tables w))"
    by (simp_all add: s summary_counts_def)
  have sums: "(\<Sum>a\<leftarrow>sm_sourceMix s. at_total a) = length ?rows" "(\<Sum>a\<leftarrow>sm_sourceMix s. at_won a) = sm_won s"
    unfolding f attribution_groups_def sum_order_by attribution_sums by simp_all
  have team: "(\<Sum>t\<leftarrow>sm_teamMix s. tc_count t) = count_rows (\<lambda>l. \<exists>i t. l_team l = Some i \<and> team_by_id i (tables w) = Some t \<and> t_id t \<noteq> []) ?rows"
    using teamLeadCounts_result [OF tm(2)] unfolding f tm(1) by blast
  show ?thesis unfolding Let_def using sums team
    by (intro conjI ballI conversion_bounds conversion_bounds [THEN conjunct1] conversion_bounds [THEN conjunct2])
       (use mix p classes [of ?rows] in \<open>simp_all only: f\<close>)
qed

definition mixed_leads :: db where
  \<comment> \<open>a won and an open lead of one source, and a rejected one\<close>
  "mixed_leads = empty_db\<lparr>leads := [(blank_lead ''l1'')\<lparr>l_source := ''Meta'', l_qual := ''QUALIFIED'', l_stage := ''CLOSED_WON''\<rparr>,
     (blank_lead ''l2'')\<lparr>l_source := '' Meta'', l_qual := ''QUALIFIED'', l_stage := ''WITH_EXECUTIVE''\<rparr>,
     (blank_lead ''l3'')\<lparr>l_qual := ''IRRELEVANT'', l_stage := ''PRE_SALES''\<rparr>],
     handoffs := [\<lparr>ho_id = ''h1'', ho_at = 0, ho_lead = ''l2'', ho_action = ''ASSIGNED_TO_EXECUTIVE'', ho_actor = [], ho_detail = []\<rparr>,
       \<lparr>ho_id = ''h2'', ho_at = 1, ho_lead = ''l2'', ho_action = ''ASSIGNED_TO_EXECUTIVE'', ho_actor = [], ho_detail = []\<rparr>]\<rparr>"

theorem summary_counts_exact_witness:
  "\<exists>s w'. Summary (\<lambda>s. s) kathmandu (plain_params ''newest'') (calm_world mixed_leads) = (Inr s, w') \<and>
     (\<Sum>a\<leftarrow>sm_sourceMix s. at_total a) = 3 \<and> (\<Sum>a\<leftarrow>sm_sourceMix s. at_won a) = 1"
proof -
  have e: "case fst (Summary (\<lambda>s. s) kathmandu (plain_params ''newest'') (calm_world mixed_leads)) of
      Inl e \<Rightarrow> False | Inr s \<Rightarrow> sm_total s = 3 \<and> sm_won s = 1 \<and> sm_passed s = 1" by code_simp
  obtain r w' where r: "Summary (\<lambda>s. s) kathmandu (plain_params ''newest'') (calm_world mixed_leads) = (r, w')" by force
  with e obtain s where s: "r = Inr s" "sm_total s = 3" "sm_won s = 1" by (cases r) simp_all
  show ?thesis using summary_counts_exact [OF r [unfolded s(1)]] s r by (simp add: Let_def)
qed

subsection \<open>The pipeline board\<close>

text \<open>The four cards of the pipeline board are disjoint parts of the qualified leads in scope:
  together with the leads in another stage they make up the total.\<close>

theorem pipeline_board_partition:
  assumes "PipelineSummary zone ps w = (Inr s, w')"
  shows "let ps' = ps\<lparr>lp_filter := ''pipeline'', lp_stage := [], lp_status := []\<rparr>; rows = scope_rows zone ps' True (tables w) in
    (\<forall>l \<in> set rows. qualified_now l) \<and> pl_total s = length rows \<and>
    pl_assigned s + pl_inProgress s + pl_won s + pl_lost s +
      count_rows (\<lambda>l. \<not> stage_is [''WITH_TEAM_LEAD'', ''WITH_EXECUTIVE'', ''CLOSED_WON'', ''CLOSED_LOST''] l \<and>
        \<not> stage_is in_progress_stages l) rows = pl_total s"
proof -
  let ?ps = "ps\<lparr>lp_filter := ''pipeline'', lp_stage := [], lp_status := []\<rparr>"
  let ?rows = "scope_rows zone ?ps True (tables w)"
  have s: "s = \<lparr>pl_assigned = count_rows (stage_is [''WITH_TEAM_LEAD'', ''WITH_EXECUTIVE'']) ?rows,
         pl_inProgress = count_rows (stage_is in_progress_stages) ?rows, pl_won = count_rows (stage_is [''CLOSED_WON'']) ?rows,
         pl_lost = count_rows (stage_is [''CLOSED_LOST'']) ?rows, pl_total = length ?rows\<rparr>"
    using query_result [OF assms [unfolded PipelineSummary_def Let_def]] by (simp only: scoped_rows)
  have f: "normalizeLeadFilter ''pipeline'' = ''pipeline''" by code_simp
  have "filter_means ''pipeline'' d l \<longleftrightarrow> qualified_now l" for d l by (simp add: filter_means_def)
  moreover have "trim [] = []" by code_simp
  ultimately have q: "\<forall>l \<in> set ?rows. qualified_now l" by (simp add: scope_rows_def scope_means_def f)
  have "count_rows (stage_is [''WITH_TEAM_LEAD'', ''WITH_EXECUTIVE'']) ls + count_rows (stage_is in_progress_stages) ls +
      count_rows (stage_is [''CLOSED_WON'']) ls + count_rows (stage_is [''CLOSED_LOST'']) ls +
      count_rows (\<lambda>l. \<not> stage_is [''WITH_TEAM_LEAD'', ''WITH_EXECUTIVE'', ''CLOSED_WON'', ''CLOSED_LOST''] l \<and>
        \<not> stage_is in_progress_stages l) ls = length ls" for ls
    by (induction ls) (auto simp: count_rows_def stage_is_def in_progress_stages_def)
  then show ?thesis using q by (simp only: Let_def s pipeline_summary.select_convs simp_thms)
qed

end
