(* ===== verification/Trends.thy ===== *)
theory Trends
  imports SummarySafety
begin

section \<open>Leads over time and by place (leads.go)\<close>

text \<open>
  The series of added leads by business day or month, and the counts by country and city. The day of
  an instant in the business zone is a parameter, \<open>day_of\<close>, a number of days since 1970; the first
  instant of a day is that of the zone. Calendar months are computed as PostgreSQL does, in the
  proleptic Gregorian calendar.
\<close>

subsection \<open>Days and months\<close>

definition day_start :: "zone \<Rightarrow> int \<Rightarrow> int" where
  \<comment> \<open>\<open>d::timestamp AT TIME ZONE tz\<close>, in milliseconds\<close>
  "day_start zone n = zone (n * day_ms * 1000000) div 1000000"

definition month_start :: "int \<Rightarrow> int" where
  \<comment> \<open>the first day of a month, counted from January of the year 0\<close>
  "month_start k = days_from_civil (k div 12) (k mod 12 + 1) 1"

definition march_year :: "int \<Rightarrow> int" where
  \<comment> \<open>days from 1 March of the year 0 to 1 March of the year y\<close>
  "march_year y = 365 * y + y div 4 - y div 100 + y div 400"

definition month_of :: "int \<Rightarrow> int" where
  \<comment> \<open>\<open>date_trunc('month', d)\<close>\<close>
  "month_of n = (let m = n + 719468; g = 400 * m div 146097;
       y = (if march_year (g + 1) \<le> m then g + 1 else g)
     in 12 * y + (5 * (m - march_year y) + 2) div 153 + 2)"

lemma div_bounds: "0 < c \<Longrightarrow> c * (a div c) \<le> a" "0 < c \<Longrightarrow> a < c * (a div c) + c" for a c :: int
  using mult_div_mod_eq [of c a] pos_mod_bound [of c a] pos_mod_sign [of c a] by linarith+

lemma div_next: "(a + 1) div c = a div c \<or> (a + 1) div c = a div c + 1" if "0 < c" for a c :: int
proof -
  have "c * ((a + 1) div c) < c * (a div c + 2)" using div_bounds [OF that, of a] div_bounds [OF that, of "a + 1"] that
    by (simp add: distrib_left)
  then have "(a + 1) div c < a div c + 2" using that by simp
  moreover have "a div c \<le> (a + 1) div c" using that by (simp add: zdiv_mono1)
  ultimately show ?thesis by linarith
qed

lemma div_mod_unique: "a = c * q + r \<Longrightarrow> 0 \<le> r \<Longrightarrow> r < c \<Longrightarrow> a div c = q \<and> a mod c = r" for a c q r :: int
  using int_div_pos_eq [of a c q r] int_mod_pos_eq [of a c q r] by simp

lemma le_div: "0 < c \<Longrightarrow> c * q \<le> a \<Longrightarrow> q \<le> a div c" for a c q :: int
  using div_bounds(2) [of c a] mult_less_cancel_left_pos [of c q "a div c + 1"] by (simp add: distrib_left)

lemma div_le: "0 < c \<Longrightarrow> a < c * q + c \<Longrightarrow> a div c \<le> q" for a c q :: int
  using div_bounds(1) [of c a] mult_less_cancel_left_pos [of c "a div c" "q + 1"] by (simp add: distrib_left)

lemma month_days: "(153 * p + 2) div 5 < (153 * (p + 1) + 2) div (5::int)"
  "153 * p \<le> 5 * e + 2 \<Longrightarrow> (153 * p + 2) div (5::int) \<le> e"
  "5 * e + 2 < 153 * p + 153 \<Longrightarrow> e < (153 * (p + 1) + 2) div (5::int)"
proof -
  have "(153 * p + 2) div 5 + 1 \<le> (153 * (p + 1) + 2) div (5::int)"
    by (rule le_div) (use div_bounds(1) [of 5 "153 * p + 2", OF zero_less_numeral] in \<open>simp_all add: distrib_left\<close>)
  then show "(153 * p + 2) div 5 < (153 * (p + 1) + 2) div (5::int)" by simp
  show "153 * p \<le> 5 * e + 2 \<Longrightarrow> (153 * p + 2) div (5::int) \<le> e" by (rule div_le) simp_all
  have "e + 1 \<le> (153 * (p + 1) + 2) div (5::int)" if "5 * e + 2 < 153 * p + 153" by (rule le_div) (use that in simp_all)
  then show "5 * e + 2 < 153 * p + 153 \<Longrightarrow> e < (153 * (p + 1) + 2) div (5::int)" by simp
qed

lemma march_year_era: "march_year y = y div 400 * 146097 + ((y - y div 400 * 400) * 365 + (y - y div 400 * 400) div 4 - (y - y div 400 * 400) div 100)"
proof -
  define q where "q = y div 400"
  define r where "r = y - q * 400"
  have "y = r + (100 * q) * 4" "y = r + (4 * q) * 100" by (simp_all add: r_def)
  then have "y div 4 = 100 * q + r div 4" "y div 100 = 4 * q + r div 100" by (metis add.commute div_mult_self1 zero_neq_numeral)+
  then show ?thesis by (simp add: march_year_def q_def [symmetric] r_def [symmetric]) (simp add: r_def algebra_simps)
qed

lemma march_year_nested: "march_year y = 365 * y + y div 4 - y div 4 div 25 + y div 4 div 25 div 4"
proof -
  have "y div 100 = y div 4 div 25" "y div 400 = y div 4 div 25 div 4" by (simp_all add: div_mult2_eq [symmetric])
  then show ?thesis by (simp add: march_year_def)
qed

lemma march_year_step: "march_year y + 365 \<le> march_year (y + 1)" "march_year (y + 1) \<le> march_year y + 366"
proof -
  define a where "a = y div 4"
  define a' where "a' = (y + 1) div 4"
  have 1: "a' = a \<or> a' = a + 1" unfolding a_def a'_def by (rule div_next) simp
  define b where "b = a div 25"
  define b' where "b' = a' div 25"
  have 2: "b' = b \<and> a' = a \<or> (b' = b \<or> b' = b + 1) \<and> a' = a + 1" using 1 div_next [of 25 a] unfolding b_def b'_def by auto
  define c where "c = b div 4"
  define c' where "c' = b' div 4"
  have 3: "c' = c \<and> b' = b \<or> (c' = c \<or> c' = c + 1) \<and> b' = b + 1" using 2 div_next [of 4 b] unfolding c_def c'_def by auto
  have m: "march_year y = 365 * y + a - b + c" "march_year (y + 1) = 365 * (y + 1) + a' - b' + c'"
    by (simp_all only: march_year_nested a_def a'_def b_def b'_def c_def c'_def)
  have "march_year y + 365 \<le> march_year (y + 1) \<and> march_year (y + 1) \<le> march_year y + 366"
    unfolding m using 2 3 by auto
  then show "march_year y + 365 \<le> march_year (y + 1)" "march_year (y + 1) \<le> march_year y + 366" by blast+
qed

lemma month_start_march: "month_start k = march_year ((k - 2) div 12) + (153 * ((k - 2) mod 12) + 2) div 5 - 719468"
proof -
  define m where "m = k mod 12 + 1"
  define y where "y = (if m \<le> 2 then k div 12 - 1 else k div 12)"
  define p where "p = (if m > 2 then m - 3 else m + 9)"
  have m: "1 \<le> m" "m \<le> 12" "k = 12 * (k div 12) + m - 1" by (simp_all add: m_def)
  have "(k - 2) div 12 = y \<and> (k - 2) mod 12 = p"
    by (rule div_mod_unique) (use m in \<open>auto simp: y_def p_def\<close>)
  moreover have "month_start k = y div 400 * 146097 + ((y - y div 400 * 400) * 365 + (y - y div 400 * 400) div 4 - (y - y div 400 * 400) div 100 +
      ((153 * p + 2) div 5 + 1 - 1)) - 719468"
    unfolding month_start_def days_from_civil_def Let_def m_def [symmetric] y_def [symmetric] p_def [symmetric] ..
  ultimately show ?thesis unfolding march_year_era by simp
qed

lemma month_start_mono: "month_start k < month_start (k + 1)"
proof -
  define y where "y = (k - 2) div 12"
  define p where "p = (k - 2) mod 12"
  have p: "0 \<le> p" "p < 12" "k - 2 = 12 * y + p" by (simp_all add: y_def p_def)
  show ?thesis
  proof (cases "p = 11")
    case True
    then have "(k + 1 - 2) div 12 = y + 1 \<and> (k + 1 - 2) mod 12 = 0" by (intro div_mod_unique) (use p in simp_all)
    then show ?thesis using march_year_step(1) [of y] True by (simp add: month_start_march y_def [symmetric] p_def [symmetric])
  next
    case False
    then have "(k + 1 - 2) div 12 = y \<and> (k + 1 - 2) mod 12 = p + 1" by (intro div_mod_unique) (use p in simp_all)
    moreover note month_days(1) [of p]
    ultimately show ?thesis by (simp add: month_start_march y_def [symmetric] p_def [symmetric])
  qed
qed

lemma march_year_bounds: "400 * march_year y \<le> 146097 * y + 396 \<and> 146097 * y - 699 \<le> 400 * march_year y"
  unfolding march_year_def using div_bounds [of 4 y, OF zero_less_numeral] div_bounds [of 100 y, OF zero_less_numeral] div_bounds [of 400 y, OF zero_less_numeral] by simp

lemma month_of_bounds: "month_start (month_of n) \<le> n \<and> n < month_start (month_of n + 1)"
proof -
  define m where "m = n + 719468"
  define g where "g = 400 * m div 146097"
  define y where "y = (if march_year (g + 1) \<le> m then g + 1 else g)"
  have g: "146097 * g \<le> 400 * m" "400 * m < 146097 * g + 146097" unfolding g_def by (rule div_bounds; simp)+
  have lo: "march_year g \<le> m" and hi: "m < march_year (g + 1 + 1)"
    using march_year_bounds [of g] march_year_bounds [of "g + 1 + 1"] g by (simp_all add: distrib_left)
  then have y: "march_year y \<le> m" "m < march_year (y + 1)" by (auto simp: y_def)
  define e where "e = m - march_year y"
  define p where "p = (5 * e + 2) div 153"
  have e: "0 \<le> e" "e < 366" using y march_year_step(2) [of y] by (simp_all add: e_def)
  have q: "153 * p \<le> 5 * e + 2" "5 * e + 2 < 153 * p + 153" unfolding p_def by (rule div_bounds; simp)+
  then have p: "0 \<le> p" "p \<le> 11" using e by simp_all
  note d = month_days(2) [OF q(1)] month_days(3) [OF q(2)]
  have k: "month_of n = 12 * y + p + 2"
    unfolding month_of_def Let_def m_def [symmetric] g_def [symmetric] y_def [symmetric] e_def [symmetric] p_def [symmetric] ..
  have "(12 * y + p + 2 - 2) div 12 = y \<and> (12 * y + p + 2 - 2) mod 12 = p" by (rule div_mod_unique) (use p in simp_all)
  then have s: "month_start (month_of n) \<le> n" using d(1) by (simp add: k month_start_march e_def m_def)
  show ?thesis
  proof (cases "p = 11")
    case True
    then have "(12 * y + p + 2 + 1 - 2) div 12 = y + 1 \<and> (12 * y + p + 2 + 1 - 2) mod 12 = 0" by (intro div_mod_unique) simp_all
    then show ?thesis using s y(2) by (simp add: k month_start_march m_def)
  next
    case False
    then have "(12 * y + p + 2 + 1 - 2) div 12 = y \<and> (12 * y + p + 2 + 1 - 2) mod 12 = p + 1" using p by (intro div_mod_unique) simp_all
    then show ?thesis using s d(2) by (simp add: k month_start_march e_def m_def)
  qed
qed

subsection \<open>The series of added leads\<close>

record time_bucket =
  tb_key :: string
  tb_label :: string
  tb_count :: nat

record added_series =
  ad_granularity :: string
  ad_items :: "time_bucket list"
  ad_total :: nat
  ad_peak :: nat
  ad_average :: rat

definition month_names :: "string list" where
  "month_names = [''Jan'', ''Feb'', ''Mar'', ''Apr'', ''May'', ''Jun'', ''Jul'', ''Aug'', ''Sep'', ''Oct'', ''Nov'', ''Dec'']"

definition month_name :: "int \<Rightarrow> string" where
  \<comment> \<open>\<open>to_char(d, 'Mon')\<close>, of a month counted from the year 0\<close>
  "month_name k = month_names ! nat (k mod 12)"

definition month_key :: "int \<Rightarrow> string" where
  \<comment> \<open>\<open>to_char(d, 'YYYY-MM')\<close>, for a year of four digits\<close>
  "month_key k = pad4 (k div 12) @ ''-'' @ pad2 (k mod 12 + 1)"

definition day_in_month :: "int \<Rightarrow> int" where
  "day_in_month n = n - month_start (month_of n) + 1"

definition in_days :: "zone \<Rightarrow> int \<Rightarrow> int \<Rightarrow> lead \<Rightarrow> bool" where
  \<comment> \<open>leadCreatedAtInBusinessDateRangeSQL\<close>
  "in_days zone a b l \<longleftrightarrow> day_start zone a \<le> l_createdAt l \<and> l_createdAt l < day_start zone b"

definition bucket_counts :: "zone \<Rightarrow> (int \<Rightarrow> string) \<Rightarrow> (int \<Rightarrow> string) \<Rightarrow> (int \<Rightarrow> int \<times> int) \<Rightarrow> int list \<Rightarrow> lead list \<Rightarrow> time_bucket list" where
  \<comment> \<open>the buckets joined with the leads of their days, in order\<close>
  "bucket_counts zone key label days bs ls = map (\<lambda>b. \<lparr>tb_key = key b, tb_label = label b,
     tb_count = count_rows (in_days zone (fst (days b)) (snd (days b))) ls\<rparr>) bs"

definition series_month :: "string \<Rightarrow> bool" where
  "series_month granularity \<longleftrightarrow> to_lower (trim granularity) = ''month''"

definition AddedSeries :: "zone \<Rightarrow> (int \<Rightarrow> int) \<Rightarrow> string \<Rightarrow> lead_params \<Rightarrow> added_series op" where
  "AddedSeries zone day_of granularity ps =
     (let b = leadScopeWhere zone ps True in
      bindE get_now (\<lambda>t. let today = day_of t in
      bindE (query (\<lambda>d. let ls = scoped b [] d in
        if series_month granularity
        then bucket_counts zone month_key (\<lambda>m. month_name m @ '' '' @ pad4 (m div 12)) (\<lambda>m. (month_start m, month_start (m + 1)))
               [month_of today - 11 .. month_of today] ls
        else bucket_counts zone (\<lambda>n. month_key (month_of n) @ ''-'' @ pad2 (day_in_month n))
               (\<lambda>n. month_name (month_of n) @ '' '' @ pad2 (day_in_month n)) (\<lambda>n. (n, n + 1)) [today - 29 .. today] ls)) (\<lambda>items.
        let total = sum_list (map tb_count items) in
        ret \<lparr>ad_granularity = (if series_month granularity then ''month'' else ''day''), ad_items = items,
          ad_total = total, ad_peak = foldr max (map tb_count items) 0,
          ad_average = (if items \<noteq> [] then of_nat total / of_nat (length items) else 0)\<rparr>)))"

subsection \<open>Countries and cities\<close>

definition geo_rows :: "geo_filter \<Rightarrow> db \<Rightarrow> lead list" where
  \<comment> \<open>\<open>FROM "Lead" WHERE\<close> the clause of the filter\<close>
  "geo_rows f d = filter (\<lambda>l. list_all (\<lambda>c. c (snd (leadClause f 0)) d l) (fst (leadClause f 0))) (leads d)"

definition GeographyMix :: "(string \<Rightarrow> 'k::linorder) \<Rightarrow> geo_filter \<Rightarrow> named_count list op" where
  "GeographyMix coll f = namedCountsArgs (more_then_name coll) (\<lambda>d. map (\<lambda>l. normalizedCountry (l_country l)) (geo_rows f d))"

definition ListCountries :: "(string \<Rightarrow> 'k::linorder) \<Rightarrow> geo_filter \<Rightarrow> named_count list op" where
  "ListCountries coll f = namedCountsArgs (more_then_name coll) (\<lambda>d. map (\<lambda>l. normalizedCountry (l_country l)) (geo_rows f d))"

definition city_name :: "string option \<Rightarrow> string" where
  "city_name c = (case c of None \<Rightarrow> ''Unknown''
     | Some s \<Rightarrow> if btrim s = [] \<or> to_lower (btrim s) = ''unknown'' then ''Unknown'' else btrim s)"

definition ListCities :: "(string \<Rightarrow> 'k::linorder) \<Rightarrow> geo_filter \<Rightarrow> named_count list op" where
  \<comment> \<open>\<open>LIMIT 500\<close> after the same ordering\<close>
  "ListCities coll f = query (\<lambda>d. take 500 (order_by (more_then_name coll)
     (map (\<lambda>(k, g). \<lparr>nc_name = k, nc_count = length g\<rparr>)
       (group_on (\<lambda>x. x) (map (\<lambda>l. city_name (l_city l)) (geo_rows f d))))))"

subsection \<open>Statements no route uses\<close>

definition exec_of :: "db \<Rightarrow> lead \<Rightarrow> user option" where
  \<comment> \<open>\<open>LEFT JOIN "User" u ON u.id = l."assignedSalesExecId"\<close>\<close>
  "exec_of d l = (case l_se l of None \<Rightarrow> None | Some i \<Rightarrow> user_by_id i d)"

definition salesExecLeadCounts :: "(string \<Rightarrow> 'k::linorder) \<Rightarrow> geo_filter \<Rightarrow> team_lead_count list op" where
  "salesExecLeadCounts coll f = query (\<lambda>d. map (\<lambda>c. if tc_id c = [] then c\<lparr>tc_name := ''Unassigned''\<rparr> else c)
     (order_by (\<lambda>a b. (Desc (tc_count a), coll (tc_name a)) \<le> (Desc (tc_count b), coll (tc_name b)))
       (map (\<lambda>(u, g). \<lparr>tc_id = (case u of None \<Rightarrow> [] | Some x \<Rightarrow> u_id x),
            tc_name = labelled ''Unassigned'' (map_option u_name u), tc_count = length g\<rparr>)
         (group_on (exec_of d) (geo_rows f d)))))"

definition analystLeadStats :: "(string \<Rightarrow> 'k::linorder) \<Rightarrow> geo_filter \<Rightarrow> analyst_stats list op" where
  "analystLeadStats coll f = query (\<lambda>d. analyst_groups coll d (geo_rows f d))"

definition params_of_geo :: "geo_filter \<Rightarrow> lead_params" where
  \<comment> \<open>\<open>LeadListParams{Country: ..., AnalystTeamName: ...}\<close>, the other fields empty\<close>
  "params_of_geo f = \<lparr>lp_filter = [], lp_sort = [], lp_query = [], lp_field = [], lp_cursor = [], lp_limit = 0,
     lp_country = gf_country f, lp_city = gf_city f, lp_team = gf_team f, lp_analyst = gf_createdBy f, lp_se = gf_se f,
     lp_manager = [], lp_atl = gf_atl f, lp_atlTeam = gf_atlTeam f, lp_source = [], lp_portal = [], lp_metaProfile = [],
     lp_status = [], lp_stage = [], lp_serviceLine = [], lp_reason = [], lp_addedFrom = [], lp_addedTo = []\<rparr>"

definition salesExecOutcomes :: "(string \<Rightarrow> 'k::linorder) \<Rightarrow> zone \<Rightarrow> geo_filter \<Rightarrow> exec_outcome list op" where
  "salesExecOutcomes coll zone f = (let b = leadScopeWhereAssignedToSalesExec zone (params_of_geo f)
     in query (\<lambda>d. exec_groups coll (with_exec d (scoped b [] d))))"

definition qualificationReasons :: "(string \<Rightarrow> 'k::linorder) \<Rightarrow> zone \<Rightarrow> geo_filter \<Rightarrow> reason_count list op" where
  "qualificationReasons coll zone f = bindE (paginatedQualificationReasons coll zone (params_of_geo f) [] 0 200)
     (\<lambda>page. ret (case bp_items page of ReasonItems rs \<Rightarrow> rs | _ \<Rightarrow> []))"

subsection \<open>What the series counts\<close>

definition clock_agrees :: "zone \<Rightarrow> (int \<Rightarrow> int) \<Rightarrow> bool" where
  \<comment> \<open>the two conversions of \<open>AT TIME ZONE\<close>: a day has begun when the local date is not before it\<close>
  "clock_agrees zone day_of \<longleftrightarrow> (\<forall>n t. day_start zone n \<le> t \<longleftrightarrow> n \<le> day_of t)"

lemma clock_kathmandu: "clock_agrees kathmandu (\<lambda>t. (t + 20700000) div day_ms)"
proof -
  have "day_start kathmandu n = n * 86400000 - 20700000" for n
  proof -
    have "n * day_ms * 1000000 - 20700 * 1000000000 = (n * 86400000 - 20700000) * 1000000" by (simp add: day_ms_def)
    then show ?thesis unfolding day_start_def kathmandu_def by simp
  qed
  moreover have "n * 86400000 - 20700000 \<le> t \<longleftrightarrow> n \<le> (t + 20700000) div 86400000" for n t :: int
    using le_div [of 86400000 n "t + 20700000"] div_bounds(1) [of 86400000 "t + 20700000"]
      mult_left_mono [of n "(t + 20700000) div 86400000" 86400000] by (auto simp: mult.commute)
  ultimately show ?thesis by (simp add: clock_agrees_def day_ms_def)
qed

lemma in_days_iff: "clock_agrees zone day_of \<Longrightarrow> in_days zone a b l \<longleftrightarrow> a \<le> day_of (l_createdAt l) \<and> day_of (l_createdAt l) < b"
  by (auto simp: in_days_def clock_agrees_def not_le [symmetric])

lemma consecutive_total:
  fixes f :: "int \<Rightarrow> int"
  assumes mono: "\<And>k. f k \<le> f (k + 1)" and le: "a \<le> b + 1"
  shows "(\<Sum>k\<leftarrow>[a..b]. count_rows (\<lambda>l. f k \<le> g l \<and> g l < f (k + 1)) ls) = count_rows (\<lambda>l. f a \<le> g l \<and> g l < f (b + 1)) ls"
  using le
proof (induction "nat (b + 1 - a)" arbitrary: a)
  case 0
  then show ?case by (simp add: count_rows_def)
next
  case (Suc n)
  then have ab: "a \<le> b" by simp
  have up: "f (a + 1) \<le> f (b + 1)" using ab
    by (induction b rule: int_ge_induct) (use mono order_trans in \<open>blast intro: order_trans mono\<close>)+
  have "count_rows (\<lambda>l. f a \<le> g l \<and> g l < f (a + 1)) ls + count_rows (\<lambda>l. f (a + 1) \<le> g l \<and> g l < f (b + 1)) ls =
      count_rows (\<lambda>l. f a \<le> g l \<and> g l < f (b + 1)) ls"
    using up mono [of a] by (induction ls) (auto simp: count_rows_def)
  then show ?case using Suc ab by (simp add: upto_rec1)
qed

definition series_start :: "bool \<Rightarrow> int \<Rightarrow> int \<Rightarrow> int" where
  \<comment> \<open>the first day of the bucket i places after the first\<close>
  "series_start monthly today i = (if monthly then month_start (month_of today - 11 + i) else today - 29 + i)"

lemma series_start_mono: "series_start monthly today i < series_start monthly today (i + 1)"
  using month_start_mono [of "month_of today - 11 + i"] by (simp add: series_start_def add.assoc)

lemma AddedSeries_result:
  assumes "clock_agrees zone day_of" "AddedSeries zone day_of granularity ps w = (Inr s, w')"
  defines "start \<equiv> series_start (series_month granularity) (day_of (now w))"
    and "n \<equiv> (if series_month granularity then 12 else 30)" and "rows \<equiv> scope_rows zone ps True (tables w)"
  shows "map tb_count (ad_items s) = map (\<lambda>i. count_rows (\<lambda>l. start i \<le> day_of (l_createdAt l) \<and> day_of (l_createdAt l) < start (i + 1)) rows) [0..n - 1] \<and>
    ad_total s = sum_list (map tb_count (ad_items s)) \<and> ad_peak s = foldr max (map tb_count (ad_items s)) 0 \<and>
    ad_average s = of_nat (ad_total s) / of_int n"
proof -
  have len: "length (ad_items s) = nat n" if "map tb_count (ad_items s) = map h [0..n - 1]" for h :: "int \<Rightarrow> nat"
    using arg_cong [OF that, of length] by simp
  have shift: "map (\<lambda>x. h (x :: int)) [c - m .. c] = map (\<lambda>i. h (c - m + i)) [0..m]" for c m :: int and h :: "int \<Rightarrow> nat"
  proof -
    have "[c - m .. c] = map (\<lambda>i. c - m + i) [0..m]" by (rule nth_equalityI) simp_all
    then show ?thesis by simp
  qed
  note f = bind_query_result [OF bind_now_result [OF assms(2) [unfolded AddedSeries_def Let_def]], unfolded scoped_rows]
  have counts: "map tb_count (ad_items s) = map (\<lambda>i. count_rows (\<lambda>l. start i \<le> day_of (l_createdAt l) \<and> day_of (l_createdAt l) < start (i + 1)) rows) [0..n - 1]"
  proof (cases "series_month granularity")
    case True
    then have "map tb_count (ad_items s) = map (\<lambda>m. count_rows (in_days zone (month_start m) (month_start (m + 1))) rows) [month_of (day_of (now w)) - 11 .. month_of (day_of (now w))]"
      using f by (auto simp: ret_def bucket_counts_def rows_def o_def)
    then show ?thesis unfolding shift by (simp add: True start_def n_def series_start_def in_days_iff [OF assms(1), THEN ext] add.assoc)
  next
    case False
    then have "map tb_count (ad_items s) = map (\<lambda>m. count_rows (in_days zone m (m + 1)) rows) [day_of (now w) - 29 .. day_of (now w)]"
      using f by (auto simp: ret_def bucket_counts_def rows_def o_def)
    then show ?thesis unfolding shift by (simp add: False start_def n_def series_start_def in_days_iff [OF assms(1), THEN ext] add.assoc)
  qed
  have "ad_total s = sum_list (map tb_count (ad_items s)) \<and> ad_peak s = foldr max (map tb_count (ad_items s)) 0 \<and>
      ad_average s = (if ad_items s \<noteq> [] then of_nat (ad_total s) / of_nat (length (ad_items s)) else 0)"
    using f by (auto simp: ret_def)
  moreover have "ad_items s \<noteq> []" "length (ad_items s) = nat n" "0 < n" using len [OF counts] by (auto simp: n_def split: if_splits)
  ultimately show ?thesis using counts by simp
qed

text \<open>C28. The series of added leads has 30 days or 12 months, of which the last contains today; each
  bucket counts the leads in scope whose business day falls into it, so every lead of the period is
  counted once: the total is the number of leads added from the first day on through the last bucket,
  the peak is the largest count and the average the mean.\<close>

theorem added_series_exact:
  assumes "clock_agrees zone day_of" "AddedSeries zone day_of granularity ps w = (Inr s, w')"
  shows "let start = series_start (series_month granularity) (day_of (now w)); n = (if series_month granularity then 12 else 30);
      rows = scope_rows zone ps True (tables w) in
    map tb_count (ad_items s) = map (\<lambda>i. count_rows (\<lambda>l. start i \<le> day_of (l_createdAt l) \<and> day_of (l_createdAt l) < start (i + 1)) rows) [0..n - 1] \<and>
    ad_total s = count_rows (\<lambda>l. start 0 \<le> day_of (l_createdAt l) \<and> day_of (l_createdAt l) < start n) rows \<and>
    start (n - 1) \<le> day_of (now w) \<and> day_of (now w) < start n \<and>
    ad_average s * of_int n = of_nat (ad_total s) \<and> (\<forall>i \<in> set (ad_items s). tb_count i \<le> ad_peak s)"
proof -
  define n :: int where "n = (if series_month granularity then 12 else 30)"
  let ?start = "series_start (series_month granularity) (day_of (now w))" and ?rows = "scope_rows zone ps True (tables w)"
  let ?g = "\<lambda>l. day_of (l_createdAt l)"
  note r = AddedSeries_result [OF assms, folded n_def]
  have total: "ad_total s = count_rows (\<lambda>l. ?start 0 \<le> ?g l \<and> ?g l < ?start n) ?rows"
    using r consecutive_total [of ?start 0 "n - 1" ?g ?rows] less_imp_le [OF series_start_mono] by (simp add: n_def)
  have peak: "x \<le> foldr max xs 0" if "x \<in> set xs" for x :: nat and xs
    using that by (induction xs) (auto simp: le_max_iff_disj)
  have "ad_peak s = foldr max (map tb_count (ad_items s)) 0" using r by blast
  then have "\<forall>i \<in> set (ad_items s). tb_count i \<le> ad_peak s" using peak [of _ "map tb_count (ad_items s)"] by simp
  moreover have "?start (n - 1) \<le> day_of (now w) \<and> day_of (now w) < ?start n"
    using month_of_bounds [of "day_of (now w)"] by (auto simp: n_def series_start_def add.commute)
  ultimately show ?thesis using r total by (simp add: Let_def n_def)
qed

lemma AddedSeries_calm: "calm w \<Longrightarrow> \<exists>s w'. AddedSeries zone day_of granularity ps w = (Inr s, w')"
  unfolding AddedSeries_def Let_def bindE_def get_now_def prod.case sum.case
  by (drule calm_query [where q = "\<lambda>d. if series_month granularity
        then bucket_counts zone month_key (\<lambda>m. month_name m @ '' '' @ pad4 (m div 12)) (\<lambda>m. (month_start m, month_start (m + 1)))
               [month_of (day_of (now w)) - 11 .. month_of (day_of (now w))] (scoped (leadScopeWhere zone ps True) [] d)
        else bucket_counts zone (\<lambda>n. month_key (month_of n) @ ''-'' @ pad2 (day_in_month n))
               (\<lambda>n. month_name (month_of n) @ '' '' @ pad2 (day_in_month n)) (\<lambda>n. (n, n + 1)) [day_of (now w) - 29 .. day_of (now w)]
               (scoped (leadScopeWhere zone ps True) [] d)"]) (auto simp: ret_def)

theorem added_series_exact_witness:
  "\<exists>s w'. AddedSeries kathmandu (\<lambda>t. (t + 20700000) div day_ms) '' Month'' (plain_params ''newest'') (calm_world three_leads) = (Inr s, w') \<and>
     ad_total s = 3 \<and> ad_average s * 12 = 3"
proof -
  let ?day = "\<lambda>t. (t + 20700000) div day_ms"
  obtain s w' where r: "AddedSeries kathmandu ?day '' Month'' (plain_params ''newest'') (calm_world three_leads) = (Inr s, w')"
    using AddedSeries_calm [OF calm_calm_world(1)] by blast
  have m: "series_month '' Month''" by code_simp
  have rows: "map l_createdAt (scope_rows kathmandu (plain_params ''newest'') True three_leads) = [30, 20, 10]" by code_simp
  have count: "count_rows (\<lambda>l. P (l_createdAt l)) ls = length (filter P (map l_createdAt ls))" for P ls
    by (simp add: count_rows_def filter_map o_def)
  have t: "now (calm_world three_leads) = 1000" "tables (calm_world three_leads) = three_leads" by (simp_all add: calm_world_def)
  have d: "?day 1000 = 0" "?day 30 = 0" "?day 20 = 0" "?day 10 = 0" by (simp_all add: day_ms_def)
  have s: "series_start True 0 0 = -334" "series_start True 0 12 = 31" by code_simp+
  have three: "count_rows (\<lambda>l. - 334 \<le> ?day (l_createdAt l) \<and> ?day (l_createdAt l) < 31)
      (scope_rows kathmandu (plain_params ''newest'') True three_leads) = 3"
    unfolding count [of "\<lambda>x. - 334 \<le> ?day x \<and> ?day x < 31"] rows by (simp add: day_ms_def)
  show ?thesis using added_series_exact [OF clock_kathmandu r] r m
    by (simp only: Let_def t if_True d s three) simp
qed

subsection \<open>The lists of places\<close>

definition places :: db where
  \<comment> \<open>one country in two spellings, a city called none and one that is missing\<close>
  "places = empty_db\<lparr>leads := [(blank_lead ''l1'')\<lparr>l_country := Some ''Nepal'', l_city := Some ''none''\<rparr>,
     (blank_lead ''l2'')\<lparr>l_country := Some ''nepal''\<rparr>]\<rparr>"

definition everywhere :: geo_filter where
  "everywhere = \<lparr>gf_country = [], gf_city = [], gf_createdBy = [], gf_team = [], gf_se = [], gf_atl = [], gf_atlTeam = []\<rparr>"

definition counts_of :: "(err + named_count list) \<times> world \<Rightarrow> (string \<times> nat) list" where
  "counts_of r = (case fst r of Inl e \<Rightarrow> [] | Inr cs \<Rightarrow> map (\<lambda>c. (nc_name c, nc_count c)) cs)"

lemma dropWhile_prefix: "dropWhile P (xs @ ys) = xs @ ys \<Longrightarrow> dropWhile P xs = xs"
  unfolding dropWhile_eq_self_iff by (cases xs) simp_all

lemma btrim_btrim: "btrim (btrim s) = btrim s"
proof -
  let ?p = "\<lambda>c. c = CHR '' ''"
  let ?a = "dropWhile ?p s"
  have "?a = rev (dropWhile ?p (rev ?a)) @ rev (takeWhile ?p (rev ?a))"
    by (metis rev_append rev_rev_ident takeWhile_dropWhile_id)
  moreover have "dropWhile ?p ?a = ?a" by simp
  ultimately have "dropWhile ?p (rev (dropWhile ?p (rev ?a))) = rev (dropWhile ?p (rev ?a))" by (metis dropWhile_prefix)
  then show ?thesis by (simp add: btrim_def)
qed

text \<open>The countries of a filter partition its leads, and every listed country that is not a label
  for a missing one is found again when it is chosen as the filter: at least the counted leads match. They can be more: spellings that differ
  in case are listed apart and filtered together, and the city list keeps apart names that the filter
  takes for a missing city.\<close>

theorem places_and_filters:
  "(\<forall>coll f w cs w'. GeographyMix (coll :: string \<Rightarrow> string) f w = (Inr cs, w') \<longrightarrow>
      (\<Sum>c\<leftarrow>cs. nc_count c) = length (geo_rows f (tables w)) \<and>
      (\<forall>c \<in> set cs. nc_name c = ''Unknown'' \<or> \<not> isBlankGeoLabel (nc_name c) \<longrightarrow> nc_count c \<le> count_rows (\<lambda>l. geo_name (nc_name c) (l_country l)) (geo_rows f (tables w)))) \<and>
   counts_of (GeographyMix (\<lambda>s. s) everywhere (calm_world places)) = [(''Nepal'', 1), (''nepal'', 1)] \<and>
   length (geo_rows (everywhere\<lparr>gf_country := ''Nepal''\<rparr>) places) = 2 \<and>
   counts_of (ListCities (\<lambda>s. s) everywhere (calm_world places)) = [(''Unknown'', 1), (''none'', 1)] \<and>
   length (geo_rows (everywhere\<lparr>gf_city := ''none''\<rparr>) places) = 2"
proof -
  have listed: "(\<Sum>c\<leftarrow>cs. nc_count c) = length (geo_rows f (tables w)) \<and>
      (\<forall>c \<in> set cs. nc_name c = ''Unknown'' \<or> \<not> isBlankGeoLabel (nc_name c) \<longrightarrow> nc_count c \<le> count_rows (\<lambda>l. geo_name (nc_name c) (l_country l)) (geo_rows f (tables w)))"
    if g: "GeographyMix coll f w = (Inr cs, w')" for coll :: "string \<Rightarrow> string" and f w cs w'
  proof
    show "(\<Sum>c\<leftarrow>cs. nc_count c) = length (geo_rows f (tables w))"
      using namedCounts_total [OF g [unfolded GeographyMix_def]] by simp
    have found: "geo_name (normalizedCountry x) x" if n: "normalizedCountry x = ''Unknown'' \<or> \<not> isBlankGeoLabel (normalizedCountry x)" for x
    proof (cases "blankGeo x")
      case True
      then have "normalizedCountry x = ''Unknown''" by (simp add: normalizedCountry_def)
      moreover have "isBlankGeoLabel ''Unknown''" by code_simp
      ultimately show ?thesis using True by (simp add: geo_name_def)
    next
      case False
      then obtain s where s: "x = Some s" "btrim s \<noteq> []" "to_lower (btrim s) \<noteq> ''unknown''" by (cases x) (auto simp: blankGeo_def)
      have "to_lower ''Unknown'' = ''unknown''" by code_simp
      then have v: "normalizedCountry x = btrim s" "btrim s \<noteq> ''Unknown''" using False s by (auto simp: normalizedCountry_def)
      then show ?thesis using n s by (simp add: geo_name_def same_text_def btrim_btrim)
    qed
    show "\<forall>c \<in> set cs. nc_name c = ''Unknown'' \<or> \<not> isBlankGeoLabel (nc_name c) \<longrightarrow> nc_count c \<le> count_rows (\<lambda>l. geo_name (nc_name c) (l_country l)) (geo_rows f (tables w))"
    proof (intro ballI impI)
      fix c assume c: "c \<in> set cs" "nc_name c = ''Unknown'' \<or> \<not> isBlankGeoLabel (nc_name c)"
      obtain k where k: "c = \<lparr>nc_name = k, nc_count = length (filter (\<lambda>x. x = k) (map (\<lambda>l. normalizedCountry (l_country l)) (geo_rows f (tables w))))\<rparr>"
        using query_result [OF g [unfolded GeographyMix_def namedCountsArgs_def]] c(1)
        by (auto simp: set_order_by group_on_def)
      have "geo_name k x" if "normalizedCountry x = k" for x using found [of x] that c(2) k by auto
      then have "count_rows (\<lambda>l. normalizedCountry (l_country l) = k) ls \<le> count_rows (\<lambda>l. geo_name k (l_country l)) ls" for ls
        by (induction ls) (auto simp: count_rows_def)
      then show "nc_count c \<le> count_rows (\<lambda>l. geo_name (nc_name c) (l_country l)) (geo_rows f (tables w))"
        by (simp add: k filter_map o_def count_rows_def)
    qed
  qed
  have "counts_of (GeographyMix (\<lambda>s. s) everywhere (calm_world places)) = [(''Nepal'', 1), (''nepal'', 1)]"
    "length (geo_rows (everywhere\<lparr>gf_country := ''Nepal''\<rparr>) places) = 2"
    "counts_of (ListCities (\<lambda>s. s) everywhere (calm_world places)) = [(''Unknown'', 1), (''none'', 1)]"
    "length (geo_rows (everywhere\<lparr>gf_city := ''none''\<rparr>) places) = 2" by code_simp+
  then show ?thesis using listed by blast
qed

end
