(* ===== verification/Transfers.thy ===== *)
theory Transfers
  imports SummarySafety
begin

section \<open>Transfer logs (transfers.go)\<close>

text \<open>
  The log of lead handoffs and of executives changing teams: totals, the mix of actions and the two
  lists in pages by keyset cursors. A cursor is modelled by what its text decodes to; a time in it is
  missing, unreadable or an instant.
\<close>

subsection \<open>Rows, cursors and arguments\<close>

datatype targ = TTexts "string list" | TText string | TTime int | TCount int

datatype cursor_time = NoTime | BadTime | At_time int

datatype transfer_cursor_text = NoTransferCursor | BadTransferCursor | TransferCursor cursor_time string

type_synonym 'r tbuilder = "(targ list \<Rightarrow> 'r \<Rightarrow> bool) list \<times> targ list"

definition targ_at :: "targ list \<Rightarrow> nat \<Rightarrow> targ option" where
  "targ_at as n = (if 1 \<le> n \<and> n \<le> length as then Some (as ! (n - 1)) else None)"

definition ttext_at :: "targ list \<Rightarrow> nat \<Rightarrow> (string \<Rightarrow> bool) \<Rightarrow> bool" where
  "ttext_at as n P = (case targ_at as n of Some (TText s) \<Rightarrow> P s | _ \<Rightarrow> False)"

definition tany_at :: "targ list \<Rightarrow> nat \<Rightarrow> string \<Rightarrow> bool" where
  \<comment> \<open>\<open>v = ANY($n)\<close>\<close>
  "tany_at as n v = (case targ_at as n of Some (TTexts xs) \<Rightarrow> v \<in> set xs | _ \<Rightarrow> False)"

definition tpush :: "targ list \<Rightarrow> (nat \<Rightarrow> targ list \<Rightarrow> 'r \<Rightarrow> bool) \<Rightarrow> 'r tbuilder \<Rightarrow> 'r tbuilder" where
  \<comment> \<open>append the arguments, then a clause over \<open>len(args)\<close>\<close>
  "tpush xs c b = (let as = snd b @ xs in (fst b @ [c (length as)], as))"

definition tpush_if :: "bool \<Rightarrow> targ list \<Rightarrow> (nat \<Rightarrow> targ list \<Rightarrow> 'r \<Rightarrow> bool) \<Rightarrow> 'r tbuilder \<Rightarrow> 'r tbuilder" where
  "tpush_if p xs c b = (if p then tpush xs c b else b)"

definition tholds :: "'r tbuilder \<Rightarrow> targ list \<Rightarrow> 'r \<Rightarrow> bool" where
  \<comment> \<open>the clauses joined by AND, under the arguments sent, the limit last\<close>
  "tholds b rest r = list_all (\<lambda>c. c (snd b @ rest) r) (fst b)"

definition leadTransferActions :: "string list" where
  "leadTransferActions = [''DIRECT_ASSIGNED_TO_EXECUTIVE_BY_ATL'', ''ASSIGNED_TO_EXECUTIVE'', ''UNASSIGNED_BY_ATL'', ''ROUTED_TO_MAIN_TEAM'']"

definition leadTransferActionLabels :: "(string \<times> string) list" where
  "leadTransferActionLabels = [(''DIRECT_ASSIGNED_TO_EXECUTIVE_BY_ATL'', ''Assigned by ATL''),
     (''ASSIGNED_TO_EXECUTIVE'', ''Assigned to executive''), (''UNASSIGNED_BY_ATL'', ''Unassigned by ATL''),
     (''ROUTED_TO_MAIN_TEAM'', ''Routed to main team'')]"

definition action_label :: "string \<Rightarrow> string" where
  \<comment> \<open>the label, or the action itself\<close>
  "action_label a = (case map_of leadTransferActionLabels a of Some label \<Rightarrow> label | None \<Rightarrow> a)"

definition clampTransferLimit :: "int \<Rightarrow> int" where
  "clampTransferLimit limit = (if limit \<le> 0 then 40 else if limit > 100 then 100 else limit)"

definition decodeTransferCursor :: "transfer_cursor_text \<Rightarrow> (cursor_time \<times> string) option" where
  "decodeTransferCursor c = (case c of NoTransferCursor \<Rightarrow> Some (NoTime, []) | BadTransferCursor \<Rightarrow> None
     | TransferCursor t i \<Rightarrow> Some (t, i))"

definition coalesce :: "string option \<Rightarrow> string \<Rightarrow> string" where
  "coalesce x d = (case x of None \<Rightarrow> d | Some s \<Rightarrow> s)"

definition tlike :: "string option list \<Rightarrow> nat \<Rightarrow> targ list \<Rightarrow> bool" where
  \<comment> \<open>\<open>lower(COALESCE(x, '')) LIKE $n OR ...\<close>\<close>
  "tlike xs n as \<longleftrightarrow> list_ex (\<lambda>x. ttext_at as n (\<lambda>p. like p (to_lower (coalesce x [])))) xs"

definition before :: "(string \<Rightarrow> 'k::linorder) \<Rightarrow> nat \<Rightarrow> targ list \<Rightarrow> int \<Rightarrow> string \<Rightarrow> bool" where
  \<comment> \<open>\<open>(createdAt, id) < ($n-1, $n)\<close>\<close>
  "before coll n as t i = (case (targ_at as (n - 1), targ_at as n) of
     (Some (TTime u), Some (TText j)) \<Rightarrow> t < u \<or> t = u \<and> coll i < coll j | _ \<Rightarrow> False)"

definition newer :: "(string \<Rightarrow> 'k::linorder) \<Rightarrow> int \<times> string \<Rightarrow> int \<times> string \<Rightarrow> bool" where
  \<comment> \<open>ORDER BY createdAt DESC, id DESC\<close>
  "newer coll a b \<longleftrightarrow> (Desc (fst a), Desc (coll (snd a))) \<le> (Desc (fst b), Desc (coll (snd b)))"

definition keyset_page :: "int \<Rightarrow> ('r \<Rightarrow> int \<times> string) \<Rightarrow> 'r list \<Rightarrow> 'r list \<times> transfer_cursor_text option \<times> bool" where
  \<comment> \<open>the end of both lists: one row more than the limit was asked for; the next cursor is that of the last row shown\<close>
  "keyset_page limit key out =
     (let more = (int (length out) > limit); shown = (if more then take (nat limit) out else out)
      in (shown, if more \<and> shown \<noteq> [] then Some (TransferCursor (At_time (fst (key (last shown)))) (snd (key (last shown)))) else None, more))"

subsection \<open>Totals and the mix of actions\<close>

record transfer_totals =
  tt_leads :: nat
  tt_execs :: nat

definition touches_team :: "string \<Rightarrow> se_transfer \<Rightarrow> bool" where
  "touches_team team s \<longleftrightarrow> st_from s = Some team \<or> st_to s = team"

definition handoff_lead :: "db \<Rightarrow> handoff \<Rightarrow> lead option" where
  \<comment> \<open>\<open>JOIN "Lead" l ON l.id = h."leadId"\<close>\<close>
  "handoff_lead d h = lead_by_id (ho_lead h) d"

definition listed_action :: "handoff \<Rightarrow> bool" where
  "listed_action h \<longleftrightarrow> ho_action h \<in> set leadTransferActions"

definition lead_has :: "(lead \<Rightarrow> string option) \<Rightarrow> string \<Rightarrow> db \<Rightarrow> handoff \<Rightarrow> bool" where
  \<comment> \<open>INNER JOIN and an equation on a column of the lead\<close>
  "lead_has col v d h = (case handoff_lead d h of None \<Rightarrow> False | Some l \<Rightarrow> col l = Some v)"

definition Transfer_Totals :: "string \<Rightarrow> string \<Rightarrow> transfer_totals op" where
  "Transfer_Totals createdByID teamID =
     (let owner = trim createdByID; team = trim teamID
      in if team \<noteq> [] then query (\<lambda>d. \<lparr>tt_leads = count_rows (\<lambda>h. listed_action h \<and> lead_has l_team team d h) (handoffs d),
             tt_execs = count_rows (touches_team team) (se_transfers d)\<rparr>)
         else if owner = [] then query (\<lambda>d. \<lparr>tt_leads = count_rows listed_action (handoffs d), tt_execs = length (se_transfers d)\<rparr>)
         else query (\<lambda>d. \<lparr>tt_leads = count_rows (\<lambda>h. listed_action h \<and> lead_has l_createdBy owner d h) (handoffs d), tt_execs = 0\<rparr>))"

record action_mix =
  am_action :: string
  am_label :: string
  am_count :: nat

definition LeadActionMix :: "string \<Rightarrow> string \<Rightarrow> action_mix list op" where
  "LeadActionMix createdByID teamID =
     (let owner = trim createdByID; team = trim teamID;
          extra = (\<lambda>d h. if team \<noteq> [] then lead_has l_team team d h
                         else if owner \<noteq> [] then lead_has l_createdBy owner d h else True)
      in query (\<lambda>d. map (\<lambda>c. \<lparr>am_action = nc_name c, am_label = action_label (nc_name c), am_count = nc_count c\<rparr>)
           (order_by more_first (map (\<lambda>(k, g). \<lparr>nc_name = k, nc_count = length g\<rparr>)
             (group_on (\<lambda>x. x) (map ho_action (filter (\<lambda>h. listed_action h \<and> extra d h) (handoffs d))))))))"

subsection \<open>Executives changing teams\<close>

record se_transfer_log =
  sl_id :: string
  sl_se :: string
  sl_seName :: string
  sl_from :: "string option"
  sl_fromName :: "string option"
  sl_to :: string
  sl_toName :: string
  sl_by :: string
  sl_byName :: string
  sl_at :: int

definition user_name :: "db \<Rightarrow> string \<Rightarrow> string option" where
  "user_name d i = map_option u_name (user_by_id i d)"

definition team_title :: "db \<Rightarrow> string option \<Rightarrow> string option" where
  "team_title d i = (case i of None \<Rightarrow> None | Some x \<Rightarrow> map_option t_name (team_by_id x d))"

definition se_log_of :: "db \<Rightarrow> se_transfer \<Rightarrow> se_transfer_log" where
  \<comment> \<open>a row with its LEFT JOINs\<close>
  "se_log_of d s = \<lparr>sl_id = st_id s, sl_se = st_se s, sl_seName = coalesce (user_name d (st_se s)) ''Unknown'',
     sl_from = st_from s, sl_fromName = team_title d (st_from s), sl_to = st_to s,
     sl_toName = coalesce (team_title d (Some (st_to s))) ''Unknown'', sl_by = st_by s,
     sl_byName = coalesce (user_name d (st_by s)) ''Unknown'', sl_at = st_at s\<rparr>"

definition se_where :: "string \<Rightarrow> string \<Rightarrow> db \<Rightarrow> se_transfer tbuilder" where
  \<comment> \<open>\<open>countWhere\<close>, and \<open>where\<close> up to the cursor\<close>
  "se_where q team d =
     tpush_if (q \<noteq> []) [TText (anywhere (to_lower q))] (\<lambda>n as s. tlike [user_name d (st_se s), team_title d (st_from s),
        team_title d (Some (st_to s)), user_name d (st_by s)] n as)
     (tpush_if (team \<noteq> []) [TText team] (\<lambda>n as s. ttext_at as n (\<lambda>t. st_from s = Some t) \<or> ttext_at as n (\<lambda>t. st_to s = t)) ([], []))"

definition ListSalesExecTeamTransfers :: "(string \<Rightarrow> 'k::linorder) \<Rightarrow> string \<Rightarrow> transfer_cursor_text \<Rightarrow> int \<Rightarrow> string \<Rightarrow>
    ((se_transfer_log list \<times> transfer_cursor_text option \<times> bool) \<times> nat) op" where
  "ListSalesExecTeamTransfers coll query0 cursorRaw limit0 teamID =
     (let limit = clampTransferLimit limit0; q = trim query0; team = trim teamID in
      bindE (query (\<lambda>d. count_rows (tholds (se_where q team d) []) (se_transfers d))) (\<lambda>n.
      case decodeTransferCursor cursorRaw of None \<Rightarrow> throw (ErrMsg ''invalid cursor'')
      | Some (t, i) \<Rightarrow> if t = BadTime \<and> i \<noteq> [] then throw (ErrMsg ''invalid cursor'') else
        let page = (\<lambda>d. tpush_if (t \<noteq> NoTime \<and> i \<noteq> []) [TTime (case t of At_time u \<Rightarrow> u | _ \<Rightarrow> 0), TText i]
              (\<lambda>n as s. before coll n as (st_at s) (st_id s)) (se_where q team d))
        in bindE (query (\<lambda>d. map (se_log_of d) (take (nat (limit + 1)) (order_by
              (\<lambda>a b. newer coll (st_at a, st_id a) (st_at b, st_id b))
              (filter (tholds (page d) [TCount (limit + 1)]) (se_transfers d)))))) (\<lambda>out.
             ret (keyset_page limit (\<lambda>r. (sl_at r, sl_id r)) out, n))))"

subsection \<open>Handoffs of leads\<close>

record lead_transfer_log =
  lt_id :: string
  lt_lead :: string
  lt_leadName :: string
  lt_action :: string
  lt_label :: string
  lt_actor :: string
  lt_actorName :: "string option"
  lt_detail :: string
  lt_at :: int

definition lead_log_of :: "db \<Rightarrow> handoff \<Rightarrow> lead_transfer_log" where
  \<comment> \<open>a row with its LEFT JOINs, and the label the loop adds\<close>
  "lead_log_of d h = \<lparr>lt_id = ho_id h, lt_lead = ho_lead h,
     lt_leadName = labelled ''Unknown lead'' (map_option l_name (handoff_lead d h)), lt_action = ho_action h,
     lt_label = action_label (ho_action h), lt_actor = ho_actor h, lt_actorName = user_name d (ho_actor h),
     lt_detail = ho_detail h, lt_at = ho_at h\<rparr>"

definition lead_where :: "string \<Rightarrow> string \<Rightarrow> string \<Rightarrow> string \<Rightarrow> db \<Rightarrow> handoff tbuilder" where
  \<comment> \<open>\<open>countWhere\<close>, and \<open>where\<close> up to the cursor\<close>
  "lead_where q action owner team d =
     tpush_if (q \<noteq> []) [TText (anywhere (to_lower q))] (\<lambda>n as h. tlike [map_option l_name (handoff_lead d h), user_name d (ho_actor h),
        Some (ho_detail h), Some (ho_action h)] n as)
     (tpush_if (action \<noteq> []) [TText action] (\<lambda>n as h. ttext_at as n (\<lambda>a. ho_action h = a))
     (if team \<noteq> [] then tpush [TText team] (\<lambda>n as h. ttext_at as n (\<lambda>t. lead_has l_team t d h))
          (tpush [TTexts leadTransferActions] (\<lambda>n as h. tany_at as n (ho_action h)) ([], []))
      else if owner \<noteq> [] then tpush [TText owner] (\<lambda>n as h. ttext_at as n (\<lambda>t. lead_has l_createdBy t d h))
          (tpush [TTexts leadTransferActions] (\<lambda>n as h. tany_at as n (ho_action h)) ([], []))
      else tpush [TTexts leadTransferActions] (\<lambda>n as h. tany_at as n (ho_action h)) ([], [])))"

definition ListLeadTransfers :: "(string \<Rightarrow> 'k::linorder) \<Rightarrow> string \<Rightarrow> string \<Rightarrow> transfer_cursor_text \<Rightarrow> int \<Rightarrow> string \<Rightarrow> string \<Rightarrow>
    ((lead_transfer_log list \<times> transfer_cursor_text option \<times> bool) \<times> nat) op" where
  "ListLeadTransfers coll query0 action0 cursorRaw limit0 createdByID teamID =
     (let limit = clampTransferLimit limit0; q = trim query0; action1 = trim action0;
          named = (action1 \<noteq> [] \<and> action1 \<noteq> ''all''); action = (if named then action1 else []);
          owner = trim createdByID; team = trim teamID in
      if named \<and> map_of leadTransferActionLabels action1 = None then throw (ErrMsg ''invalid action'')
      else case decodeTransferCursor cursorRaw of None \<Rightarrow> throw (ErrMsg ''invalid cursor'')
      | Some (t, i) \<Rightarrow> if t = BadTime \<and> i \<noteq> [] then throw (ErrMsg ''invalid cursor'') else
        let page = (\<lambda>d. tpush_if (t \<noteq> NoTime \<and> i \<noteq> []) [TTime (case t of At_time u \<Rightarrow> u | _ \<Rightarrow> 0), TText i]
              (\<lambda>n as h. before coll n as (ho_at h) (ho_id h)) (lead_where q action owner team d))
        in bindE (query (\<lambda>d. count_rows (tholds (lead_where q action owner team d) []) (handoffs d))) (\<lambda>n.
           bindE (query (\<lambda>d. map (lead_log_of d) (take (nat (limit + 1)) (order_by
              (\<lambda>a b. newer coll (ho_at a, ho_id a) (ho_at b, ho_id b))
              (filter (tholds (page d) [TCount (limit + 1)]) (handoffs d)))))) (\<lambda>out.
             ret (keyset_page limit (\<lambda>r. (lt_at r, lt_id r)) out, n))))"

end
