(* ===== verification/Dashboard.thy ===== *)
theory Dashboard
  imports Aggregate
begin

section \<open>The legacy dashboard (dashboard.go)\<close>

text \<open>
  The aggregate the old dashboard shows: counts over whole tables, the latest leads, every team with
  its sizes and the latest notifications. None of the statements has a scope.
\<close>

record overview =
  ov_leads :: nat
  ov_week :: nat
  ov_users :: nat
  ov_teams :: nat
  ov_notifs :: nat
  ov_unread :: nat
  ov_handoffs :: nat
  ov_qualification :: "named_count list"
  ov_stages :: "named_count list"
  ov_sources :: "named_count list"
  ov_roles :: "named_count list"

record dash_lead =
  dl_id :: string
  dl_name :: string
  dl_phone :: "string option"
  dl_email :: "string option"
  dl_country :: "string option"
  dl_city :: "string option"
  dl_source :: string
  dl_qual :: string
  dl_score :: "int option"
  dl_stage :: string
  dl_portal :: "string option"
  dl_currency :: string
  dl_createdAt :: int
  dl_updatedAt :: int

record dash_team =
  dt_id :: string
  dt_name :: string
  dt_createdAt :: int
  dt_leads :: nat
  dt_users :: nat

record dash_notif =
  dn_id :: string
  dn_kind :: string
  dn_title :: string
  dn_body :: "string option"
  dn_read :: bool
  dn_createdAt :: int

record dashboard =
  da_overview :: overview
  da_leads :: "dash_lead list"
  da_teams :: "dash_team list"
  da_users :: "public_user list"
  da_notifs :: "dash_notif list"

definition namedCounts :: "(db \<Rightarrow> string list) \<Rightarrow> named_count list op" where
  "namedCounts names = namedCountsArgs more_first names"

definition week_ms :: int where
  "week_ms = 7 * 24 * 60 * 60 * 1000"

definition Overview :: "overview op" where
  "Overview =
     bindE (query (\<lambda>d. length (leads d))) (\<lambda>nl.
     bindE get_now (\<lambda>t.
     bindE (query (\<lambda>d. count_where (\<lambda>l. l_createdAt l > t - week_ms) (leads d))) (\<lambda>nw.
     bindE (query (\<lambda>d. length (users d))) (\<lambda>nu.
     bindE (query (\<lambda>d. length (teams d))) (\<lambda>nt.
     bindE (query (\<lambda>d. length (notifs d))) (\<lambda>nn.
     bindE (query (\<lambda>d. count_where (\<lambda>n. \<not> n_read n) (notifs d))) (\<lambda>un.
     bindE (query (\<lambda>d. length (handoffs d))) (\<lambda>nh.
     bindE (namedCounts (\<lambda>d. map l_qual (leads d))) (\<lambda>qs.
     bindE (namedCounts (\<lambda>d. map l_stage (leads d))) (\<lambda>ss.
     bindE (query (\<lambda>d. take 8 (order_by more_first (map (\<lambda>(k, g). \<lparr>nc_name = k, nc_count = length g\<rparr>)
              (group_on (\<lambda>x. x) (map l_source (leads d))))))) (\<lambda>sources.
     bindE (namedCounts (\<lambda>d. map u_role (users d))) (\<lambda>rs.
       ret \<lparr>ov_leads = nl, ov_week = nw, ov_users = nu, ov_teams = nt, ov_notifs = nn, ov_unread = un,
            ov_handoffs = nh, ov_qualification = qs, ov_stages = ss, ov_sources = sources, ov_roles = rs\<rparr>))))))))))))"

definition dash_lead_of :: "lead \<Rightarrow> dash_lead" where
  "dash_lead_of l = \<lparr>dl_id = l_id l, dl_name = l_name l, dl_phone = l_phone l, dl_email = l_email l,
     dl_country = l_country l, dl_city = l_city l, dl_source = l_source l, dl_qual = l_qual l,
     dl_score = l_score l, dl_stage = l_stage l, dl_portal = l_portal l, dl_currency = l_currency l,
     dl_createdAt = l_createdAt l, dl_updatedAt = l_updatedAt l\<rparr>"

definition RecentLeads :: "nat \<Rightarrow> dash_lead list op" where
  "RecentLeads limit = query (\<lambda>d. map dash_lead_of (take limit (order_by (\<lambda>a b. l_updatedAt b \<le> l_updatedAt a) (leads d))))"

definition Dashboard_Teams :: "(string \<Rightarrow> 'k::linorder) \<Rightarrow> dash_team list op" where
  "Dashboard_Teams coll = query (\<lambda>d. map (\<lambda>t. \<lparr>dt_id = t_id t, dt_name = t_name t, dt_createdAt = t_createdAt t,
       dt_leads = count_where (\<lambda>l. l_team l = Some (t_id t)) (leads d),
       dt_users = count_where (\<lambda>u. u_teamId u = Some (t_id t)) (users d)\<rparr>)
     (order_by (\<lambda>a b. coll (t_name a) \<le> coll (t_name b)) (teams d)))"

definition Dashboard_Notifications :: "nat \<Rightarrow> dash_notif list op" where
  "Dashboard_Notifications limit = query (\<lambda>d. map (\<lambda>n. \<lparr>dn_id = n_id n, dn_kind = n_kind n, dn_title = n_title n,
       dn_body = n_body n, dn_read = n_read n, dn_createdAt = n_at n\<rparr>)
     (take limit (order_by (\<lambda>a b. n_at b \<le> n_at a) (notifs d))))"

end
