(* ===== verification/Analytics.thy ===== *)
theory Analytics
  imports ListHandlers Kpi SummarySafety Trends Transfers Dashboard
begin

section \<open>The reading endpoints (handlers_analytics.go)\<close>

text \<open>
  The handlers of the summary, the KPIs and their targets, the pipeline board, the bucket pages, the
  geography, the series of added leads, the legacy dashboard and the transfer logs. Each answer is a value of
  \<open>analytic\<close>; its encoding (\<open>json.Marshal\<close>) is a parameter, and so are the collation of the
  database, the zone and the clock of the business day, and the decoding of a transfer cursor.
\<close>

record geo_answer =
  ga_items :: "named_count list"
  ga_total :: nat
  ga_country :: string
  ga_city :: string

datatype transfer_items =
    LeadItems "lead_transfer_log list"
  | SalesExecItems "se_transfer_log list"

record transfer_list =
  tl_type :: string
  tl_items :: transfer_items
  tl_total :: nat
  tl_limit :: int
  tl_next :: "transfer_cursor_text option"
  tl_more :: bool
  tl_query :: string
  tl_action :: string
  tl_totals :: transfer_totals
  tl_mix :: "action_mix list"

datatype analytic =
    ASummary lead_summary nat            \<comment> \<open>with \<open>activeUsers\<close>\<close>
  | AKpi kpi_snapshot
  | ATargets "kpi_target list"
  | AOk
  | APipeline pipeline_summary
  | ABuckets bucket_page
  | AGeography geo_answer
  | ASeries added_series
  | ACities string "named_count list"
  | ACountries "named_count list"
  | ADashboard dashboard
  | ATransfers transfer_list

record 'k analytics_env =
  ae_zone :: zone
  ae_coll :: "string \<Rightarrow> 'k"
  ae_day :: "int \<Rightarrow> int"             \<comment> \<open>the business day of a time\<close>
  ae_quoted :: "string \<Rightarrow> string"
  ae_marshal :: "analytic \<Rightarrow> string"
  ae_cursor :: "string \<Rightarrow> transfer_cursor_text"

subsection \<open>Shared steps\<close>

definition get_only :: "request \<Rightarrow> unit act" where
  "get_only r = require (rq_method r = ''GET'') method_not_allowed"

definition load :: "'a op \<Rightarrow> string \<Rightarrow> 'a act" where
  \<comment> \<open>a failed store call is logged and answered with 500\<close>
  "load m msg = andThen (store m) (\<lambda>x. case x of Inl e \<Rightarrow> reply (failure 500 msg) | Inr a \<Rightarrow> pass a)"

definition int_param :: "string \<Rightarrow> int \<Rightarrow> int" where
  \<comment> \<open>\<open>strconv.Atoi\<close>, the default when there is no number\<close>
  "int_param raw dflt = (if raw = [] then dflt else case atoi raw of None \<Rightarrow> dflt | Some n \<Rightarrow> n)"

subsection \<open>Summaries\<close>

definition handleLeadsSummary :: "('k::linorder) analytics_env \<Rightarrow> request \<Rightarrow> string \<Rightarrow> string \<Rightarrow> auth_user \<Rightarrow> response act" where
  "handleLeadsSummary env r path rawQuery actor = andThen0 (get_only r) (andThen0 (requireLeadDataAccess (Some actor))
     (let key = cached_req r path rawQuery actor; ps = leadListParamsFromRequest (Some actor) (rq_query r);
          hideActive = (actorLeadOwnerID (Some actor) \<noteq> [] \<or> actorLeadSalesExecID (Some actor) \<noteq> []) in
      andThen0 (serve_cached key)
      (andThen (load (Summary (ae_coll env) (ae_zone env) ps) ''failed to load leads summary'') (\<lambda>summary.
       andThen hub_get (\<lambda>h.
         write_cached key (ae_marshal env (ASummary summary (if hideActive then 0 else online_count (lp_team ps) h))) 15000)))))"

definition handleKPI :: "('k::linorder) analytics_env \<Rightarrow> request \<Rightarrow> string \<Rightarrow> string \<Rightarrow> auth_user option \<Rightarrow> response act" where
  "handleKPI env r path rawQuery auth = andThen0 (get_only r) (case auth of None \<Rightarrow> reply (failure 401 ''unauthorized'')
     | Some actor \<Rightarrow>
       andThen0 (require (canViewLeadData (a_role actor) \<and> \<not> isSalesExecutive (a_role actor))
         (failure 403 ''KPI is not available for this role''))
       (let key = cached_req r path rawQuery actor; ps = leadListParamsFromRequest auth (rq_query r);
            hc0 = trim (lp_team ps); hcTeam = (if hc0 = [] \<or> hc0 = ''none'' then actorLeadTeamID auth else hc0) in
        andThen0 (serve_cached key)
        (andThen (load (CountTeamHeadcount hcTeam) ''failed to load KPI'') (\<lambda>teamHC.
         andThen (load (KPI (ae_coll env) (ae_zone env) ps (int teamHC)) ''failed to load KPI'') (\<lambda>snapshot.
           write_cached key (ae_marshal env (AKpi snapshot)) 15000)))))"

definition handleKPITargets ::
  "('k::linorder) analytics_env \<Rightarrow> request \<Rightarrow> auth_user option \<Rightarrow> kpi_update list option \<Rightarrow> response act" where
  \<comment> \<open>the body as \<open>decodeJSON\<close> leaves it, \<open>None\<close> when it does not decode\<close>
  "handleKPITargets env r auth body = (case auth of None \<Rightarrow> reply (failure 401 ''unauthorized'')
     | Some actor \<Rightarrow>
       if rq_method r = ''GET'' then
         andThen0 (require (canViewLeadData (a_role actor) \<and> \<not> isSalesExecutive (a_role actor)) (failure 403 ''forbidden''))
         (andThen (load (ListKpiTargets (ae_coll env)) ''failed to load KPI targets'') (\<lambda>targets.
           pass (json 200 (PBytes (ae_marshal env (ATargets targets))))))
       else if rq_method r = ''PUT'' then
         andThen0 (require (a_role actor = RoleSuperadmin) (failure 403 ''only Superadmin can edit KPI targets''))
         (case body of None \<Rightarrow> reply (failure 400 ''invalid JSON body'')
          | Some items \<Rightarrow> andThen0 (require (items \<noteq> []) (failure 400 ''items are required''))
            (andThen (store (UpdateKpiTargets items)) (\<lambda>x. case x of Inl e \<Rightarrow> reply (failure 400 (err_text e))
             | Inr _ \<Rightarrow> andThen0 cache_clear (andThen (store (ListKpiTargets (ae_coll env))) (\<lambda>y. case y of
                  Inl _ \<Rightarrow> pass (json 200 (PBytes (ae_marshal env AOk)))
                | Inr targets \<Rightarrow> pass (json 200 (PBytes (ae_marshal env (ATargets targets)))))))))
       else reply method_not_allowed)"

definition handleLeadsPipelineSummary ::
  "('k::linorder) analytics_env \<Rightarrow> request \<Rightarrow> string \<Rightarrow> string \<Rightarrow> auth_user \<Rightarrow> response act" where
  "handleLeadsPipelineSummary env r path rawQuery actor = andThen0 (get_only r) (andThen0 (requireLeadDataAccess (Some actor))
     (let key = cached_req r path rawQuery actor in
      andThen0 (serve_cached key)
      (andThen (load (PipelineSummary (ae_zone env) (leadListParamsFromRequest (Some actor) (rq_query r)))
          ''failed to load pipeline summary'') (\<lambda>summary.
        write_cached key (ae_marshal env (APipeline summary)) 15000))))"

definition handleLeadsSummaryBuckets ::
  "('k::linorder) analytics_env \<Rightarrow> request \<Rightarrow> string \<Rightarrow> string \<Rightarrow> auth_user \<Rightarrow> response act" where
  "handleLeadsSummaryBuckets env r path rawQuery actor = andThen0 (get_only r) (andThen0 (requireLeadDataAccess (Some actor))
     (let key = cached_req r path rawQuery actor; q = rq_query r; dimension = trim (qget q ''dimension'');
          offset = int_param (trim (qget q ''offset'')) 0; limit = int_param (trim (qget q ''limit'')) 0 in
      andThen0 (serve_cached key)
      (andThen0 (require (dimension \<noteq> []) (failure 400 ''dimension is required''))
      (andThen (store (SummaryBuckets (ae_coll env) (ae_zone env) (ae_quoted env) dimension
          (leadListParamsFromRequest (Some actor) q) (qget q ''status'') offset limit)) (\<lambda>x. case x of
         Inl e \<Rightarrow> if contains (err_text e) ''unknown summary dimension'' then reply (failure 400 (err_text e))
                  else reply (failure 500 ''failed to load summary buckets'')
       | Inr page \<Rightarrow> write_cached key (ae_marshal env (ABuckets page)) 15000)))))"

subsection \<open>Geography and series\<close>

definition handleLeadsGeography ::
  "('k::linorder) analytics_env \<Rightarrow> request \<Rightarrow> string \<Rightarrow> string \<Rightarrow> auth_user \<Rightarrow> response act" where
  "handleLeadsGeography env r path rawQuery actor = andThen0 (get_only r) (andThen0 (requireLeadDataAccess (Some actor))
     (let key = cached_req r path rawQuery actor; f = geoFilterFromRequest (Some actor) (rq_query r) in
      andThen0 (serve_cached key)
      (andThen (load (GeographyMix (ae_coll env) f) ''failed to load geography'') (\<lambda>items.
        write_cached key (ae_marshal env (AGeography \<lparr>ga_items = items, ga_total = sum_list (map nc_count items),
          ga_country = gf_country f, ga_city = gf_city f\<rparr>)) 30000))))"

definition handleLeadsAddedSeries ::
  "('k::linorder) analytics_env \<Rightarrow> request \<Rightarrow> string \<Rightarrow> string \<Rightarrow> auth_user \<Rightarrow> response act" where
  "handleLeadsAddedSeries env r path rawQuery actor = andThen0 (get_only r) (andThen0 (requireLeadDataAccess (Some actor))
     (let key = cached_req r path rawQuery actor; granularity = to_lower (trim (qget (rq_query r) ''granularity'')) in
      andThen0 (serve_cached key)
      (andThen (load (AddedSeries (ae_zone env) (ae_day env) granularity (leadListParamsFromRequest (Some actor) (rq_query r)))
          ''failed to load added series'') (\<lambda>res.
        write_cached key (ae_marshal env (ASeries res)) 30000))))"

definition handleLeadsGeoOptions ::
  "('k::linorder) analytics_env \<Rightarrow> request \<Rightarrow> string \<Rightarrow> string \<Rightarrow> auth_user \<Rightarrow> response act" where
  "handleLeadsGeoOptions env r path rawQuery actor = andThen0 (get_only r) (andThen0 (requireLeadDataAccess (Some actor))
     (let key = cached_req r path rawQuery actor; kind = trim (to_lower (qget (rq_query r) ''type''));
          f = geoFilterFromRequest (Some actor) (rq_query r) in
      andThen0 (serve_cached key)
      (if kind = ''cities'' \<or> gf_country f \<noteq> [] then
         andThen (load (ListCities (ae_coll env) f) ''failed to load cities'') (\<lambda>cities.
           write_cached key (ae_marshal env (ACities (gf_country f) cities)) 60000)
       else andThen (load (ListCountries (ae_coll env) f) ''failed to load countries'') (\<lambda>countries.
           write_cached key (ae_marshal env (ACountries countries)) 60000))))"

subsection \<open>The dashboard\<close>

definition handleDashboard :: "('k::linorder) analytics_env \<Rightarrow> request \<Rightarrow> string \<Rightarrow> string \<Rightarrow> auth_user option \<Rightarrow> response act" where
  "handleDashboard env r path rawQuery auth = andThen0 (get_only r) (case auth of None \<Rightarrow> reply (failure 401 ''authentication required'')
     | Some actor \<Rightarrow>
       andThen0 (require (a_role actor = RoleSuperadmin \<or> a_role actor = RoleAnalystTeamLead)
         (failure 403 ''dashboard aggregate is not available for this role''))
       (let key = cached_req r path rawQuery actor in
        andThen0 (serve_cached key)
        (andThen (load Overview ''failed to load overview'') (\<lambda>ov.
         andThen (load (RecentLeads 25) ''failed to load leads'') (\<lambda>ls.
         andThen (load (Dashboard_Teams (ae_coll env)) ''failed to load teams'') (\<lambda>ts.
         andThen (load (ListUsers 40) ''failed to load users'') (\<lambda>us.
         andThen (load (Dashboard_Notifications 20) ''failed to load notifications'') (\<lambda>ns.
           write_cached key (ae_marshal env (ADashboard \<lparr>da_overview = ov, da_leads = ls, da_teams = ts,
             da_users = us, da_notifs = ns\<rparr>)) 15000))))))))"

subsection \<open>Transfer logs\<close>

definition transfers_barred :: "auth_user option \<Rightarrow> bool" where
  "transfers_barred auth = (case auth of None \<Rightarrow> False | Some u \<Rightarrow> isLeadAnalyst (a_role u) \<or> isSalesExecutive (a_role u))"

definition transfer_team :: "auth_user option \<Rightarrow> string" where
  "transfer_team auth = (let t = actorLeadTeamID auth in if t = [] \<and> actor_is_mtl auth then no_team else t)"

definition handleTransfers :: "('k::linorder) analytics_env \<Rightarrow> request \<Rightarrow> auth_user option \<Rightarrow> response act" where
  "handleTransfers env r auth = andThen0 (get_only r)
     (andThen0 (require (\<not> transfers_barred auth) (failure 403 ''transfer logs are not available for this role''))
     (let q = rq_query r; type0 = trim (qget q ''type''); typeParam = (if type0 = [] then ''leads'' else type0) in
      andThen0 (require (typeParam = ''leads'' \<or> typeParam = ''sales-exec'') (failure 400 ''type must be leads or sales-exec''))
      (let limit = clampTransferLimit (int_param (qget q ''limit'') 40); cursor = ae_cursor env (qget q ''cursor'');
           search = qget q ''q''; action = qget q ''action''; owner = actorLeadOwnerID auth; team = transfer_team auth in
       andThen (load (Transfer_Totals owner team) ''failed to load transfers'') (\<lambda>totals.
       let out = \<lparr>tl_type = typeParam, tl_items = LeadItems [], tl_total = 0, tl_limit = limit, tl_next = None,
             tl_more = False, tl_query = trim search, tl_action = [], tl_totals = totals, tl_mix = []\<rparr> in
       if typeParam = ''sales-exec'' then
         if owner \<noteq> [] then pass (json 200 (PBytes (ae_marshal env (ATransfers (out\<lparr>tl_items := SalesExecItems []\<rparr>)))))
         else andThen (store (ListSalesExecTeamTransfers (ae_coll env) search cursor limit team)) (\<lambda>x. case x of
             Inl e \<Rightarrow> if contains (err_text e) ''invalid cursor'' then reply (failure 400 ''invalid cursor'')
                      else reply (failure 500 ''failed to load sales executive transfers'')
           | Inr ((items, nxt, has_more), n) \<Rightarrow> pass (json 200 (PBytes (ae_marshal env (ATransfers (out\<lparr>
                 tl_items := SalesExecItems items, tl_total := n, tl_next := nxt, tl_more := has_more\<rparr>))))))
       else andThen (store (ListLeadTransfers (ae_coll env) search action cursor limit owner team)) (\<lambda>x. case x of
             Inl e \<Rightarrow> if contains (err_text e) ''invalid cursor'' then reply (failure 400 ''invalid cursor'')
                      else if contains (err_text e) ''invalid action'' then reply (failure 400 ''invalid action'')
                      else reply (failure 500 ''failed to load lead transfers'')
           | Inr ((items, nxt, has_more), n) \<Rightarrow>
               andThen (load (LeadActionMix owner team) ''failed to load lead transfers'') (\<lambda>mix.
                 pass (json 200 (PBytes (ae_marshal env (ATransfers (out\<lparr>tl_items := LeadItems items, tl_total := n,
                   tl_next := nxt, tl_more := has_more, tl_action := trim action, tl_mix := mix\<rparr>)))))))))))"

end
