(* ===== verification/AnalyticsSafety.thy ===== *)
theory AnalyticsSafety
  imports Analytics
begin

section \<open>What a reader can learn\<close>

text \<open>
  Two servers that differ only in leads an actor may not see answer the actor alike: the summaries, the KPIs, the
  pipeline board, the bucket pages, the geography, the series and the list show nothing of the
  others. The proof is compositional: an operation respects the relation of the two tables when it
  gives the same result on both, and the steps of the handlers preserve that.
\<close>

subsection \<open>Operations that give the same result on related tables\<close>

definition agree :: "(db \<Rightarrow> db \<Rightarrow> bool) \<Rightarrow> world \<Rightarrow> world \<Rightarrow> bool" where
  "agree R w1 w2 \<longleftrightarrow> (\<exists>d. R (tables w1) d \<and> w2 = w1\<lparr>tables := d\<rparr>)"

definition same_on :: "(db \<Rightarrow> db \<Rightarrow> bool) \<Rightarrow> 'a op \<Rightarrow> bool" where
  "same_on R m \<longleftrightarrow> (\<forall>w1 w2. agree R w1 w2 \<longrightarrow> fst (m w1) = fst (m w2) \<and> agree R (snd (m w1)) (snd (m w2)))"

named_theorems same_on_intros

lemma agree_now: "agree R w1 w2 \<Longrightarrow> now w1 = now w2"
  by (auto simp: agree_def)

lemma same_on_query [same_on_intros]: "(\<And>d1 d2. R d1 d2 \<Longrightarrow> q d1 = q d2) \<Longrightarrow> same_on R (query q)"
proof -
  assume q: "\<And>d1 d2. R d1 d2 \<Longrightarrow> q d1 = q d2"
  have "fst (query q w1) = fst (query q w2) \<and> agree R (snd (query q w1)) (snd (query q w2))" if w: "agree R w1 w2" for w1 w2
  proof -
    obtain d where d: "w2 = w1\<lparr>tables := d\<rparr>" "R (tables w1) d" using w by (auto simp: agree_def)
    show ?thesis using q [OF d(2)] d(2) unfolding d(1)
      by (auto simp: query_def sql_def agree_def split: list.splits option.splits)
  qed
  then show ?thesis by (simp add: same_on_def)
qed

lemma same_on_ret [same_on_intros]: "same_on R (ret a)"
  by (simp add: same_on_def ret_def)

lemma same_on_throw [same_on_intros]: "same_on R (throw e)"
  by (simp add: same_on_def throw_def)

lemma same_on_now [same_on_intros]: "same_on R get_now"
  unfolding same_on_def get_now_def using agree_now by auto

lemma same_on_bindE [same_on_intros]:
  assumes "same_on R m" "\<And>a. same_on R (f a)"
  shows "same_on R (bindE m f)"
  unfolding same_on_def
proof (intro allI impI)
  fix w1 w2 assume w: "agree R w1 w2"
  obtain x w1' where m1: "m w1 = (x, w1')" by force
  obtain y w2' where m2: "m w2 = (y, w2')" by force
  have y: "y = x" and w': "agree R w1' w2'" using assms(1) w m1 m2 unfolding same_on_def by fastforce+
  show "fst (bindE m f w1) = fst (bindE m f w2) \<and> agree R (snd (bindE m f w1)) (snd (bindE m f w2))"
    using assms(2) w' by (cases x) (simp_all add: bindE_def m1 m2 y same_on_def)
qed

lemma same_on_if [same_on_intros]: "same_on R m \<Longrightarrow> same_on R n \<Longrightarrow> same_on R (if b then m else n)"
  by simp

lemma same_on_attempt [same_on_intros]: "same_on R m \<Longrightarrow> same_on R (attempt m)"
  by (fastforce simp: same_on_def attempt_def split: prod.splits)

subsection \<open>Handlers\<close>

definition sagree :: "(db \<Rightarrow> db \<Rightarrow> bool) \<Rightarrow> server \<Rightarrow> server \<Rightarrow> bool" where
  "sagree R s1 s2 \<longleftrightarrow> (\<exists>w. agree R (s_world s1) w \<and> s2 = s1\<lparr>s_world := w\<rparr>)"

definition blind :: "(db \<Rightarrow> db \<Rightarrow> bool) \<Rightarrow> 'a act \<Rightarrow> bool" where
  "blind R h \<longleftrightarrow> (\<forall>s1 s2. sagree R s1 s2 \<longrightarrow> fst (h s1) = fst (h s2) \<and> sagree R (snd (h s1)) (snd (h s2)))"

named_theorems blind_intros

lemma blind_pass [blind_intros]: "blind R (pass a)"
  by (simp add: blind_def pass_def)

lemma blind_reply [blind_intros]: "blind R (reply r)"
  by (simp add: blind_def reply_def)

lemma blind_andThen [blind_intros]:
  assumes "blind R m" "\<And>a. blind R (f a)"
  shows "blind R (andThen m f)"
  unfolding blind_def
proof (intro allI impI)
  fix s1 s2 assume s: "sagree R s1 s2"
  obtain x s1' where m1: "m s1 = (x, s1')" by force
  obtain y s2' where m2: "m s2 = (y, s2')" by force
  have y: "y = x" and s': "sagree R s1' s2'" using assms(1) s m1 m2 unfolding blind_def by fastforce+
  show "fst (andThen m f s1) = fst (andThen m f s2) \<and> sagree R (snd (andThen m f s1)) (snd (andThen m f s2))"
    using assms(2) s' by (cases x) (simp_all add: andThen_def m1 m2 y blind_def)
qed

lemma blind_andThen0 [blind_intros]: "blind R m \<Longrightarrow> blind R n \<Longrightarrow> blind R (andThen0 m n)"
  unfolding andThen0_def by (rule blind_andThen)

lemma blind_if [blind_intros]: "blind R m \<Longrightarrow> blind R n \<Longrightarrow> blind R (if b then m else n)"
  by simp

lemma blind_require [blind_intros]: "blind R (require b r)"
  unfolding require_def by (intro blind_intros)

lemma blind_store [blind_intros]:
  assumes "same_on R m"
  shows "blind R (store m)"
  unfolding blind_def
proof (intro allI impI)
  fix s1 s2 assume s: "sagree R s1 s2"
  then obtain w where w: "agree R (s_world s1) w" and s2: "s2 = s1\<lparr>s_world := w\<rparr>" by (auto simp: sagree_def)
  obtain x w1 where m1: "m (s_world s1) = (x, w1)" by force
  obtain y w2 where m2: "m w = (y, w2)" by force
  have "x = y" "agree R w1 w2" using assms w m1 m2 unfolding same_on_def by fastforce+
  then show "fst (store m s1) = fst (store m s2) \<and> sagree R (snd (store m s1)) (snd (store m s2))"
    by (auto simp: store_def m1 m2 s2 sagree_def)
qed

lemma blind_sum [blind_intros]: "(\<And>e. blind R (f e)) \<Longrightarrow> (\<And>a. blind R (g a)) \<Longrightarrow> blind R (case x of Inl e \<Rightarrow> f e | Inr a \<Rightarrow> g a)"
  by (cases x) simp_all

lemma blind_load [blind_intros]: "same_on R m \<Longrightarrow> blind R (load m msg)"
  unfolding load_def by (intro blind_intros)

lemma sagree_parts: "sagree R s1 s2 \<Longrightarrow> now (s_world s2) = now (s_world s1) \<and> s_cache s2 = s_cache s1 \<and> s_hub s2 = s_hub s1"
  by (auto simp: sagree_def agree_def)

lemma sagree_cache: "sagree R s1 s2 \<Longrightarrow> sagree R (s1\<lparr>s_cache := c\<rparr>) (s2\<lparr>s_cache := c\<rparr>)"
  by (auto simp: sagree_def)

lemma blind_serve [blind_intros]: "blind R (serve_cached q)"
  by (auto simp: blind_def serve_cached_def dest: sagree_parts split: option.split)

lemma blind_write [blind_intros]: "blind R (write_cached q v ttl)"
  unfolding blind_def
proof (intro allI impI)
  fix s1 s2 assume s: "sagree R s1 s2"
  obtain body c where wc: "writeCachedJSON (now (s_world s1)) q v ttl (Some (s_cache s1)) = (body, c)" by force
  show "fst (write_cached q v ttl s1) = fst (write_cached q v ttl s2) \<and>
      sagree R (snd (write_cached q v ttl s1)) (snd (write_cached q v ttl s2))"
    using sagree_parts [OF s] sagree_cache [OF s, of "s_cache s1"] sagree_cache [OF s, of "the c"]
    by (cases c) (simp_all add: write_cached_def wc)
qed

lemma blind_hub [blind_intros]: "blind R hub_get"
  by (auto simp: blind_def hub_get_def dest: sagree_parts)

lemma blind_access [blind_intros]: "blind R (requireLeadDataAccess a)"
  unfolding requireLeadDataAccess_def by (cases a) (simp_all add: blind_reply blind_require)

lemma blind_get_only [blind_intros]: "blind R (get_only r)"
  unfolding get_only_def by (rule blind_require)

subsection \<open>Tables that differ in hidden leads\<close>

definition same_view :: "auth_user \<Rightarrow> db \<Rightarrow> db \<Rightarrow> bool" where
  \<comment> \<open>the second tables have other leads, but the same ones the actor may see, in the same order\<close>
  "same_view actor d1 d2 \<longleftrightarrow> d2 = d1\<lparr>leads := leads d2\<rparr> \<and> proper_actor d1 actor \<and> proper_actor d2 actor \<and>
     filter (may_see d1 actor) (leads d1) = filter (may_see d1 actor) (leads d2)"

lemma rows_unmoved:
  "user_by_id i (d\<lparr>leads := ls\<rparr>) = user_by_id i d" "team_by_id i (d\<lparr>leads := ls\<rparr>) = team_by_id i d"
  "users (d\<lparr>leads := ls\<rparr>) = users d" "teams (d\<lparr>leads := ls\<rparr>) = teams d" "handoffs (d\<lparr>leads := ls\<rparr>) = handoffs d"
  by (simp_all add: user_by_id_def team_by_id_def)

lemma unmoved_by_leads:
  "in_analyst_scope (d\<lparr>leads := ls\<rparr>) = in_analyst_scope d" "filter_means f (d\<lparr>leads := ls\<rparr>) = filter_means f d"
  "manager_facet v (d\<lparr>leads := ls\<rparr>) = manager_facet v d" "creator_of (d\<lparr>leads := ls\<rparr>) = creator_of d"
  "with_exec (d\<lparr>leads := ls\<rparr>) = with_exec d" "with_team (d\<lparr>leads := ls\<rparr>) = with_team d"
  "was_passed (d\<lparr>leads := ls\<rparr>) = was_passed d" "row_of (d\<lparr>leads := ls\<rparr>) = row_of d"
  "creator_key (d\<lparr>leads := ls\<rparr>) = creator_key d" "found p q fld (d\<lparr>leads := ls\<rparr>) = found p q fld d"
  by (intro ext, simp only: in_analyst_scope_def filter_means_def manager_facet_def creator_of_def with_exec_def
      with_team_def was_passed_def row_of_def last_handoff_def creator_name_def creator_key_def found_def searched_texts_def handoff_texts_def
      rows_unmoved Let_def)+

lemma more_unmoved:
  "may_see (d\<lparr>leads := ls\<rparr>) = may_see d" "facets_mean zone ps (d\<lparr>leads := ls\<rparr>) = facets_mean zone ps d"
  "scope_means zone ps preset (d\<lparr>leads := ls\<rparr>) = scope_means zone ps preset d"
  "geo_matches f (d\<lparr>leads := ls\<rparr>) = geo_matches f d" "lead_matches p zone ps (d\<lparr>leads := ls\<rparr>) = lead_matches p zone ps d"
  "ordered coll (d\<lparr>leads := ls\<rparr>) = ordered coll d"
  by (simp_all add: fun_eq_iff may_see_def facets_mean_def scope_means_def geo_matches_def lead_matches_def ordered_def
      unmoved_by_leads)

lemma comes_after_unmoved: "comes_after coll srt cur (d\<lparr>leads := ls\<rparr>) = comes_after coll srt cur d"
  by (intro ext) (simp only: comes_after_def unmoved_by_leads)

lemma same_view_leads: "same_view actor d1 d2 \<Longrightarrow> \<exists>ls. d2 = d1\<lparr>leads := ls\<rparr>"
  unfolding same_view_def by blast

lemma seen_rows:
  assumes v: "same_view actor d1 d2"
    and seen: "\<And>d l. proper_actor d actor \<Longrightarrow> l \<in> set (leads d) \<Longrightarrow> P d l \<Longrightarrow> may_see d actor l"
    and P: "\<And>d ls. P (d\<lparr>leads := ls\<rparr>) = P d"
  shows "filter (P d1) (leads d1) = filter (P d2) (leads d2)"
proof -
  obtain ls where d2: "d2 = d1\<lparr>leads := ls\<rparr>" using same_view_leads [OF v] by blast
  have p: "proper_actor d1 actor" "proper_actor d2 actor"
    and f: "filter (may_see d1 actor) (leads d1) = filter (may_see d1 actor) (leads d2)" using v by (simp_all add: same_view_def)
  have same: "P d2 = P d1" "may_see d2 = may_see d1" unfolding d2 by (rule P, rule more_unmoved)
  have "filter (P d) (filter (may_see d actor) (leads d)) = filter (P d) (leads d)" if "proper_actor d actor" for d
    using seen [OF that] by (auto simp: filter_filter intro!: filter_cong)
  from this [OF p(1)] this [OF p(2)] f same show ?thesis by metis
qed

lemma scope_seen:
  assumes "same_view actor d1 d2"
    and "lp_team ps = lp_team (leadListParamsFromRequest (Some actor) q)"
    and "lp_analyst ps = lp_analyst (leadListParamsFromRequest (Some actor) q)"
    and "lp_se ps = lp_se (leadListParamsFromRequest (Some actor) q)"
    and "lp_atl ps = lp_atl (leadListParamsFromRequest (Some actor) q)"
    and "lp_atlTeam ps = lp_atlTeam (leadListParamsFromRequest (Some actor) q)"
  shows "scope_rows zone ps preset d1 = scope_rows zone ps preset d2"
  unfolding scope_rows_def
proof (rule seen_rows [OF assms(1)])
  fix d l assume "proper_actor d actor" "l \<in> set (leads d)" "scope_means zone ps preset d l"
  then show "may_see d actor l"
    using forced_facets [of d actor l q] assms(2-6) unfolding scope_means_def facets_mean_def by simp
qed (rule more_unmoved)

lemma request_scope_seen:
  assumes "same_view actor d1 d2"
  shows "scope_rows zone (leadListParamsFromRequest (Some actor) q) preset d1 =
    scope_rows zone (leadListParamsFromRequest (Some actor) q) preset d2"
  by (rule scope_seen [OF assms refl refl refl refl refl])

lemma geo_seen:
  assumes "same_view actor d1 d2"
  shows "geo_rows (geoFilterFromRequest (Some actor) q) d1 = geo_rows (geoFilterFromRequest (Some actor) q) d2"
  unfolding geo_rows_def leadClause_0
proof (rule seen_rows [OF assms])
  fix d l assume a: "proper_actor d actor" "l \<in> set (leads d)" "geo_matches (geoFilterFromRequest (Some actor) q) d l"
  let ?f = "geoFilterFromRequest (Some actor) q"
  have f: "geo_id False (gf_createdBy ?f) (l_createdBy l)" "geo_id True (gf_team ?f) (l_team l)" "geo_id True (gf_se ?f) (l_se l)"
    "trim (gf_atl ?f) \<noteq> [] \<Longrightarrow> in_analyst_scope d (trim (gf_atl ?f)) (trim (gf_atlTeam ?f)) l"
    using a(3) unfolding geo_matches_def by blast+
  have p: "trim (a_id actor) \<noteq> []" "\<not> is_nobody (trim (a_id actor))" "\<not> is_nobody (trimmed (a_team actor))" "l_team l \<noteq> Some no_team"
    using a(1,2) by (simp_all add: proper_actor_def)
  have none: "is_nobody ''none''" "no_team \<noteq> ''none''" by code_simp+
  then have n: "trim (a_id actor) \<noteq> ''none''" "trimmed (a_team actor) \<noteq> ''none''" using p by metis+
  note g = geoFilterFromRequest_def parseGeoFilter_def scope_defs actor_is_mtl_def isMainTeamLead_def roles_distinct Let_def
  consider "a_role actor = RoleSuperadmin" | "a_role actor = RoleLeadAnalyst" | "a_role actor = RoleSalesExecutive"
    | "a_role actor = RoleAnalystTeamLead" | "a_role actor = RoleMainTeamLead"
    using a(1) valid_role_cases unfolding proper_actor_def by blast
  then show "may_see d actor l"
  proof cases
    case 1
    then show ?thesis by (simp add: may_see_def)
  next
    case 2
    then have "gf_createdBy ?f = trim (a_id actor)" by (simp add: g)
    then show ?thesis using f(1) p 2 by (simp add: geo_id_def may_see_def roles_distinct)
  next
    case 3
    then have "gf_se ?f = trim (a_id actor)" by (simp add: g)
    then show ?thesis using f(3) p n 3 by (simp add: geo_id_def may_see_def roles_distinct)
  next
    case 4
    then have "gf_atl ?f = trim (a_id actor)" "gf_atlTeam ?f = derefTeamName (a_analystTeam actor)" using p(1) by (simp_all add: g)
    then show ?thesis using f(4) p 4 by (simp add: may_see_def roles_distinct)
  next
    case 5
    then have "gf_team ?f = (if trimmed (a_team actor) = [] then no_team else trimmed (a_team actor))" by (simp add: g)
    then show ?thesis using f(2) p n none(2) 5 no_team_facts
      by (cases "a_team actor") (auto simp: geo_id_def may_see_def roles_distinct split: if_splits)
  qed
qed (rule more_unmoved)

subsection \<open>The operations of the reading endpoints\<close>

lemma same_on_scoped:
  assumes "\<And>d1 d2. same_view actor d1 d2 \<Longrightarrow> q d1 = q d2"
  shows "same_on (same_view actor) (query q)"
  using assms by (rule same_on_query)

lemma named_seen: "(\<And>d1 d2. same_view actor d1 d2 \<Longrightarrow> names d1 = names d2) \<Longrightarrow> same_on (same_view actor) (namedCountsArgs le names)"
  unfolding namedCountsArgs_def by (rule same_on_query) simp

lemma passed_seen:
  assumes "same_view actor d1 d2"
  shows "length (passed_leads (pass_where zone (leadListParamsFromRequest (Some actor) q)) d1) =
    length (passed_leads (pass_where zone (leadListParamsFromRequest (Some actor) q)) d2)"
proof -
  let ?P = "leadListParamsFromRequest (Some actor) q"
  have len: "length (passed_leads b d) = card (set (passed_leads b d))" for b d
    by (simp add: passed_leads_def length_remdups_card_conv)
  obtain ls where d2: "d2 = d1\<lparr>leads := ls\<rparr>" using same_view_leads [OF assms] by blast
  have "was_passed d2 = was_passed d1" unfolding d2 by (rule unmoved_by_leads)
  then show ?thesis by (simp only: len passed_exact request_scope_seen [OF assms])
qed

lemma Summary_seen: "same_on (same_view actor) (Summary coll zone (leadListParamsFromRequest (Some actor) q))"
  unfolding Summary_def teamLeadCounts_def attributionMix_def leadScopeWhereAssignedToTeam_def scoped_rows scoped_and Let_def
proof (intro same_on_intros named_seen)
  fix d1 d2 assume v: "same_view actor d1 d2"
  obtain ls where d2: "d2 = d1\<lparr>leads := ls\<rparr>" using same_view_leads [OF v] by blast
  have t: "with_team d2 = with_team d1" unfolding d2 by (rule unmoved_by_leads)
  note s = request_scope_seen [OF v]
  show "length (passed_leads (pass_where zone (leadListParamsFromRequest (Some actor) q)) d1) =
    length (passed_leads (pass_where zone (leadListParamsFromRequest (Some actor) q)) d2)" by (rule passed_seen [OF v])
  show "summary_counts a b (scope_rows zone (leadListParamsFromRequest (Some actor) q) True d1) =
     summary_counts a b (scope_rows zone (leadListParamsFromRequest (Some actor) q) True d2)" for a b by (simp only: s)
qed (auto simp: request_scope_seen dest!: same_view_leads simp: unmoved_by_leads)

lemma same_view_tables: "same_view actor d1 d2 \<Longrightarrow> users d2 = users d1 \<and> kpi_targets d2 = kpi_targets d1"
  by (auto dest!: same_view_leads)

lemma KPI_seen: "same_on (same_view actor) (KPI coll zone (leadListParamsFromRequest (Some actor) q) hc)"
  unfolding KPI_def MapKpiTargets_def ListKpiTargets_def scoped_rows
  by (intro same_on_intros) (simp_all add: same_view_tables request_scope_seen)

lemma headcount_seen: "same_on (same_view actor) (CountTeamHeadcount team)"
  unfolding CountTeamHeadcount_def Let_def by (intro same_on_intros) (simp_all add: same_view_tables)

lemma Pipeline_seen: "same_on (same_view actor) (PipelineSummary zone (leadListParamsFromRequest (Some actor) q))"
proof -
  have "scope_rows zone (leadListParamsFromRequest (Some actor) q\<lparr>lp_filter := f, lp_stage := [], lp_status := []\<rparr>) True d1 =
      scope_rows zone (leadListParamsFromRequest (Some actor) q\<lparr>lp_filter := f, lp_stage := [], lp_status := []\<rparr>) True d2"
    if v: "same_view actor d1 d2" for f d1 d2
    by (rule scope_seen [OF v]) simp_all
  then show ?thesis unfolding PipelineSummary_def Let_def scoped_rows by (intro same_on_query) simp
qed

lemma reasons_seen: "same_view actor d1 d2 \<Longrightarrow>
    reason_rows status n (scope_and P (leadScopeWhere zone (leadListParamsFromRequest (Some actor) q) True)) (snd (scope_and P (leadScopeWhere zone (leadListParamsFromRequest (Some actor) q) True)) @ rest) d1 =
    reason_rows status n (scope_and P (leadScopeWhere zone (leadListParamsFromRequest (Some actor) q) True)) (snd (scope_and P (leadScopeWhere zone (leadListParamsFromRequest (Some actor) q) True)) @ rest) d2"
  using scoped_and [of P zone "leadListParamsFromRequest (Some actor) q" rest d1]
    scoped_and [of P zone "leadListParamsFromRequest (Some actor) q" rest d2] request_scope_seen [of actor d1 d2 zone q True]
  by (simp add: reason_rows_def scoped_def)

lemma Buckets_seen:
  "same_on (same_view actor) (SummaryBuckets coll zone quoted dim0 (leadListParamsFromRequest (Some actor) q) status offset limit)"
proof -
  have t: "creator_of d1 = creator_of d2 \<and> with_exec d1 = with_exec d2" if v: "same_view actor d1 d2" for d1 d2
    using same_view_leads [OF v] unmoved_by_leads(4,5) by metis
  note s = request_scope_seen
  let ?ps = "leadListParamsFromRequest (Some actor) q"
  have "same_on (same_view actor) (paginatedQualificationReasons coll zone ?ps st off lim)" for st off lim
    unfolding paginatedQualificationReasons_def Let_def
    by (intro same_on_intros) (cases "to_upper (trim st) = ''IRRELEVANT'' \<or> to_upper (trim st) = ''NOT_QUALIFIED''";
        simp add: reasons_seen reasons_seen [where rest = "[]", simplified])+
  moreover have "same_on (same_view actor) (paginatedAttributionMix coll zone ?ps col dn off lim)" for col dn off lim
    unfolding paginatedAttributionMix_def Let_def scoped_rows by (intro same_on_intros) (simp_all add: s)
  moreover have "same_on (same_view actor) (paginatedAnalystLeadStats coll zone ?ps off lim)" for off lim
    unfolding paginatedAnalystLeadStats_def Let_def scoped_rows analyst_groups_def by (intro same_on_intros) (simp_all add: s t)
  moreover have "same_on (same_view actor) (paginatedSalesExecOutcomes coll zone ?ps off lim)" for off lim
    unfolding paginatedSalesExecOutcomes_def leadScopeWhereAssignedToSalesExec_def Let_def scoped_and
    by (intro same_on_intros) (simp_all add: s t)
  ultimately show ?thesis unfolding SummaryBuckets_def Let_def by (intro same_on_if same_on_throw)
qed

lemma geography_seen:
  "same_on (same_view actor) (GeographyMix coll (geoFilterFromRequest (Some actor) q))"
  "same_on (same_view actor) (ListCountries coll (geoFilterFromRequest (Some actor) q))"
  "same_on (same_view actor) (ListCities coll (geoFilterFromRequest (Some actor) q))"
  unfolding GeographyMix_def ListCountries_def ListCities_def
  by (intro named_seen same_on_query; simp add: geo_seen)+

lemma series_seen: "same_on (same_view actor) (AddedSeries zone day gran (leadListParamsFromRequest (Some actor) q))"
  unfolding AddedSeries_def Let_def scoped_rows by (intro same_on_intros) (simp add: request_scope_seen)

lemma list_seen: "same_on (same_view actor) (ListLeads p tx zone coll (list_params actor q) c)"
proof -
  let ?ps = "normal_params (list_params actor q)"
  let ?srt = "lp_sort ?ps"
  have rows: "filter (\<lambda>l. lead_matches p zone ?ps d1 l \<and> Q d1 l) (leads d1) = filter (\<lambda>l. lead_matches p zone ?ps d2 l \<and> Q d2 l) (leads d2)"
    if v: "same_view actor d1 d2" and Q: "\<And>d ls. Q (d\<lparr>leads := ls\<rparr>) = Q d" for Q d1 d2
  proof (rule seen_rows [OF v, where P = "\<lambda>d l. lead_matches p zone ?ps d l \<and> Q d l"])
    fix d l assume "proper_actor d actor" "l \<in> set (leads d)" "lead_matches p zone ?ps d l \<and> Q d l"
    then show "may_see d actor l" using forced_scope [of d actor l zone q] unfolding lead_matches_def by blast
  qed (simp only: more_unmoved Q)
  have cnt: "count_where (lead_matches p zone ?ps d1) (leads d1) = count_where (lead_matches p zone ?ps d2) (leads d2)"
    if v: "same_view actor d1 d2" for d1 d2
    using rows [OF v, of "\<lambda>_ _. True"] by (simp add: count_where_def)
  have page: "lead_rows coll ?srt (appendCursor coll ?srt cur (buildLeadListWhere p zone ?ps 0)) lim d1 =
      lead_rows coll ?srt (appendCursor coll ?srt cur (buildLeadListWhere p zone ?ps 0)) lim d2"
    if v: "same_view actor d1 d2" for cur lim d1 d2
  proof -
    obtain ls where d2: "d2 = d1\<lparr>leads := ls\<rparr>" using same_view_leads [OF v] by blast
    have "ordered coll d2 = ordered coll d1" "row_of d2 = row_of d1" unfolding d2 by (rule more_unmoved, rule unmoved_by_leads)
    then show ?thesis
      unfolding lead_rows_def built_page [unfolded Let_def, THEN ext] using rows [OF v, of "comes_after coll ?srt cur", OF comes_after_unmoved] by simp
  qed
  show ?thesis unfolding ListLeads_def Let_def built_where [THEN ext]
    by (cases "decodeLeadCursor c")
       (auto intro!: same_on_intros cnt page split: sum.split)
qed

subsection \<open>The endpoints\<close>

definition reading_routes ::
  "('k::linorder) analytics_env \<Rightarrow> 'k list_env \<Rightarrow> request \<Rightarrow> string \<Rightarrow> string \<Rightarrow> auth_user \<Rightarrow> response act list" where
  "reading_routes env lenv r path rawQuery actor =
     [listLeads lenv r path rawQuery actor, handleLeadsSummary env r path rawQuery actor,
      handleKPI env r path rawQuery (Some actor), handleLeadsPipelineSummary env r path rawQuery actor,
      handleLeadsSummaryBuckets env r path rawQuery actor, handleLeadsGeography env r path rawQuery actor,
      handleLeadsAddedSeries env r path rawQuery actor, handleLeadsGeoOptions env r path rawQuery actor]"

lemma handlers_blind:
  "blind (same_view actor) (listLeads lenv r path rawQuery actor)"
  "blind (same_view actor) (handleLeadsSummary env r path rawQuery actor)"
  "blind (same_view actor) (handleKPI env r path rawQuery (Some actor))"
  "blind (same_view actor) (handleLeadsPipelineSummary env r path rawQuery actor)"
  "blind (same_view actor) (handleLeadsSummaryBuckets env r path rawQuery actor)"
  "blind (same_view actor) (handleLeadsGeography env r path rawQuery actor)"
  "blind (same_view actor) (handleLeadsAddedSeries env r path rawQuery actor)"
  "blind (same_view actor) (handleLeadsGeoOptions env r path rawQuery actor)"
  unfolding listLeads_def handleLeadsSummary_def handleKPI_def handleLeadsPipelineSummary_def
    handleLeadsSummaryBuckets_def handleLeadsGeography_def handleLeadsAddedSeries_def handleLeadsGeoOptions_def
    Let_def option.case
  by (intro blind_intros list_seen Summary_seen KPI_seen headcount_seen Pipeline_seen Buckets_seen geography_seen series_seen)+

lemma routes_blind: "h \<in> set (reading_routes env lenv r path rawQuery actor) \<Longrightarrow> blind (same_view actor) h"
  unfolding reading_routes_def using handlers_blind by fastforce

lemma run_blind: "blind R h \<Longrightarrow> sagree R s1 s2 \<Longrightarrow>
    fst (run_handler h s1) = fst (run_handler h s2) \<and> sagree R (snd (run_handler h s1)) (snd (run_handler h s2))"
proof -
  assume h: "blind R h" "sagree R s1 s2"
  obtain x s1' where 1: "h s1 = (x, s1')" by force
  obtain y s2' where 2: "h s2 = (y, s2')" by force
  have "y = x" "sagree R s1' s2'" using h 1 2 unfolding blind_def by fastforce+
  then show ?thesis by (cases x) (simp_all add: run_handler_def 1 2)
qed

text \<open>C4. Whatever an actor asks of the list, the summary, the KPIs, the pipeline board, the bucket
  pages, the geography and the series, leads the actor may not see do not influence the answer: two
  servers that differ only in such leads give the same response, and still differ only in them afterwards, so
  that the same holds for every later request.\<close>

theorem hidden_leads_never_show:
  assumes "sagree (same_view actor) s1 s2" "h \<in> set (reading_routes env lenv r path rawQuery actor)"
  shows "fst (run_handler h s1) = fst (run_handler h s2) \<and>
    sagree (same_view actor) (snd (run_handler h s1)) (snd (run_handler h s2))"
  by (rule run_blind [OF routes_blind [OF assms(2)] assms(1)])

definition fewer_leads :: db where
  \<comment> \<open>only the lead ann may see is left\<close>
  "fewer_leads = three_leads\<lparr>leads := filter (may_see three_leads ann) (leads three_leads)\<rparr>"

definition toy_analytics :: "string analytics_env" where
  "toy_analytics = \<lparr>ae_zone = kathmandu, ae_coll = (\<lambda>s. s), ae_day = (\<lambda>t. 0), ae_quoted = (\<lambda>s. s),
     ae_marshal = (\<lambda>a. case a of ASummary s n \<Rightarrow> format_int (int (sm_total s)) | _ \<Rightarrow> []), ae_cursor = (\<lambda>_. NoTransferCursor)\<rparr>"

lemma ann_view: "same_view ann three_leads fewer_leads" "leads fewer_leads \<noteq> leads three_leads"
proof -
  have "list_all (\<lambda>l. l_team l \<noteq> Some no_team) (leads fewer_leads)" by code_simp
  then have "proper_actor fewer_leads ann" using ann_proper by (simp add: proper_actor_def list_all_iff)
  moreover have "may_see fewer_leads ann = may_see three_leads ann" by (simp only: fewer_leads_def more_unmoved)
  ultimately show "same_view ann three_leads fewer_leads"
    using ann_proper by (simp add: same_view_def fewer_leads_def)
  have "length (leads fewer_leads) \<noteq> length (leads three_leads)" by code_simp
  then show "leads fewer_leads \<noteq> leads three_leads" by metis
qed

theorem hidden_leads_never_show_witness:
  "fst (run_handler (handleLeadsSummary toy_analytics list_request ''/api/leads/summary'' [] ann) (fresh_server three_leads)) =
   fst (run_handler (handleLeadsSummary toy_analytics list_request ''/api/leads/summary'' [] ann) (fresh_server fewer_leads)) \<and>
   leads fewer_leads \<noteq> leads three_leads"
proof -
  have w: "s_world (fresh_server d) = calm_world d" "fresh_server d = (fresh_server d')\<lparr>s_world := calm_world d\<rparr>" for d d'
    by (simp_all add: fresh_server_def)
  have "calm_world fewer_leads = calm_world three_leads\<lparr>tables := fewer_leads\<rparr>" by (simp add: calm_world_def)
  then have "agree (same_view ann) (calm_world three_leads) (calm_world fewer_leads)"
    using ann_view(1) unfolding agree_def by (intro exI [of _ fewer_leads]) (simp add: calm_world_def)
  then have s: "sagree (same_view ann) (fresh_server three_leads) (fresh_server fewer_leads)"
    unfolding sagree_def using w by metis
  show ?thesis
    using hidden_leads_never_show [OF s, of "handleLeadsSummary toy_analytics list_request ''/api/leads/summary'' [] ann"
        toy_analytics toy_env list_request "''/api/leads/summary''" "[]"] ann_view(2)
    by (simp add: reading_routes_def)
qed

subsection \<open>The dashboard is not scoped\<close>

definition atl_actor :: auth_user where
  "atl_actor = root_actor\<lparr>a_id := ''atl'', a_role := RoleAnalystTeamLead\<rparr>"

definition no_leads :: db where
  "no_leads = three_leads\<lparr>leads := filter (may_see three_leads atl_actor) (leads three_leads)\<rparr>"

definition counting :: "string analytics_env" where
  "counting = toy_analytics\<lparr>ae_marshal := (\<lambda>a. case a of ADashboard x \<Rightarrow> format_int (int (ov_leads (da_overview x))) | _ \<Rightarrow> [])\<rparr>"

lemma calm_world_query: "query q (calm_world d) = (Inr (q d), calm_world d)"
  by (simp add: query_def sql_def calm_world_def)

lemma Overview_calm: "\<exists>x. Overview (calm_world d) = (Inr x, calm_world d) \<and> ov_leads x = length (leads d)"
  by (simp add: Overview_def namedCounts_def namedCountsArgs_def bindE_def get_now_def ret_def calm_world_query)

lemma dashboard_body:
  "r_body (fst (run_handler (handleDashboard counting list_request ''/api/dashboard'' [] (Some atl_actor)) (fresh_server d))) =
    PBytes (format_int (int (length (leads d))))"
proof -
  have c: "serveFromCache 1000 (cached_req list_request ''/api/dashboard'' [] atl_actor) (Some NewResponseCache) = None"
    "a_role atl_actor = RoleAnalystTeamLead" "rq_method list_request = ''GET''" by code_simp+
  have s: "s_world (fresh_server d) = calm_world d" "s_cache (fresh_server d) = NewResponseCache" "now (calm_world d) = 1000"
    by (simp_all add: fresh_server_def calm_world_def)
  obtain x where x: "Overview (calm_world d) = (Inr x, calm_world d)" "ov_leads x = length (leads d)" using Overview_calm by blast
  show ?thesis
    by (simp add: handleDashboard_def get_only_def require_def andThen0_def andThen_def pass_def serve_cached_def c s load_def store_def x
        RecentLeads_def Dashboard_Teams_def ListUsers_def Dashboard_Notifications_def calm_world_query Let_def
        write_cached_def writeCachedJSON_def run_handler_def json_def counting_def)
qed

text \<open>The legacy dashboard is the exception: an analyst team lead without analysts, to whom the list and
  the summaries show no lead, reads the number of all leads there (and the latest 25 of them).\<close>

theorem dashboard_shows_hidden_leads:
  "same_view atl_actor three_leads no_leads \<and>
   r_body (fst (run_handler (handleDashboard counting list_request ''/api/dashboard'' [] (Some atl_actor)) (fresh_server three_leads))) = PBytes ''3'' \<and>
   r_body (fst (run_handler (handleDashboard counting list_request ''/api/dashboard'' [] (Some atl_actor)) (fresh_server no_leads))) = PBytes ''0''"
proof -
  have n: "length (leads three_leads) = 3" "length (leads no_leads) = 0" "format_int 3 = ''3''" "format_int 0 = ''0''" by code_simp+
  have "isValidRole (a_role atl_actor) \<and> trim (a_id atl_actor) \<noteq> [] \<and> \<not> is_nobody (trim (a_id atl_actor)) \<and>
     \<not> is_nobody (trimmed (a_team atl_actor)) \<and> list_all (\<lambda>l. l_team l \<noteq> Some no_team) (leads three_leads) \<and>
     list_all (\<lambda>l. l_team l \<noteq> Some no_team) (leads no_leads)" by code_simp
  then have "proper_actor three_leads atl_actor" "proper_actor no_leads atl_actor" by (simp_all add: proper_actor_def list_all_iff)
  moreover have "may_see no_leads atl_actor = may_see three_leads atl_actor" by (simp only: no_leads_def more_unmoved)
  ultimately have "same_view atl_actor three_leads no_leads" by (simp add: same_view_def no_leads_def)
  then show ?thesis unfolding dashboard_body n(1,2) by (simp add: n(3,4))
qed

end
