(* ===== verification/SummaryPages.thy ===== *)
theory SummaryPages
  imports SummarySafety
begin

section \<open>Pages of buckets\<close>

text \<open>
  What \<open>SummaryBuckets\<close> answers, for every dimension at once: the buckets of the dimension as one list,
  of which a request shows a segment. The walk through the pages is an instance of the locale of
  paging.
\<close>

subsection \<open>Operations that compute a function of the tables\<close>

definition computes :: "'a op \<Rightarrow> (db \<Rightarrow> 'a) \<Rightarrow> bool" where
  \<comment> \<open>an answer is the value, and without faults there is an answer\<close>
  "computes m F \<longleftrightarrow> (\<forall>w r w'. m w = (Inr r, w') \<longrightarrow> r = F (tables w)) \<and>
     (\<forall>w. calm w \<longrightarrow> (\<exists>w'. m w = (Inr (F (tables w)), w') \<and> calm w' \<and> tables w' = tables w))"

lemma computes_two_queries:
  "computes (bindE (query q) (\<lambda>m. bindE (query r) (\<lambda>out. ret (f m out)))) (\<lambda>d. f (q d) (r d))"
  unfolding computes_def
proof (intro conjI allI impI)
  fix w p w' assume "bindE (query q) (\<lambda>m. bindE (query r) (\<lambda>out. ret (f m out))) w = (Inr p, w')"
  then show "p = f (q (tables w)) (r (tables w))" by (rule two_queries_result)
next
  fix w :: world assume "calm w"
  then obtain w1 where 1: "query q w = (Inr (q (tables w)), w1)" "calm w1" "tables w1 = tables w" using calm_query by blast
  obtain w2 where 2: "query r w1 = (Inr (r (tables w1)), w2)" "calm w2" "tables w2 = tables w1" using calm_query [OF 1(2)] by blast
  then show "\<exists>w'. bindE (query q) (\<lambda>m. bindE (query r) (\<lambda>out. ret (f m out))) w = (Inr (f (q (tables w)) (r (tables w))), w') \<and>
      calm w' \<and> tables w' = tables w"
    using 1 2 by (simp add: bindE_def ret_def)
qed

subsection \<open>The buckets of a dimension\<close>

datatype bucket = ReasonBucket reason_count | AttributionBucket attribution | AnalystBucket analyst_stats | ExecBucket exec_outcome

fun item_list :: "bucket_items \<Rightarrow> bucket list" where
  "item_list (ReasonItems xs) = map ReasonBucket xs"
| "item_list (AttributionItems xs) = map AttributionBucket xs"
| "item_list (AnalystItems xs) = map AnalystBucket xs"
| "item_list (ExecItems xs) = map ExecBucket xs"

fun bucket_size :: "bucket \<Rightarrow> nat" where
  "bucket_size (ReasonBucket x) = rc_count x"
| "bucket_size (AttributionBucket x) = at_total x"
| "bucket_size (AnalystBucket x) = as_total x"
| "bucket_size (ExecBucket x) = nat (eo_assigned x)"

datatype dimension = Reasons | Portals | MetaProfiles | Sources | Analysts | Executives

definition dimension_named :: "string \<Rightarrow> dimension option" where
  "dimension_named s =
     (if s \<in> {''reasons'', ''qualificationreasons'', ''qualification-reasons''} then Some Reasons
      else if s \<in> {''portal'', ''website''} then Some Portals
      else if s \<in> {''metaprofile'', ''meta-profile'', ''meta_profile''} then Some MetaProfiles
      else if s = ''source'' then Some Sources
      else if s \<in> {''analyst'', ''analysts''} then Some Analysts
      else if s \<in> {''salesexec'', ''sales-exec'', ''sales_exec'', ''salesexecoutcomes''} then Some Executives
      else None)"

definition reason_leads :: "string \<Rightarrow> lead list \<Rightarrow> lead list" where
  \<comment> \<open>rejected leads, of one status when a known one is asked for\<close>
  "reason_leads status ls = (let s = to_upper (trim status) in
     filter (\<lambda>l. (s = ''IRRELEVANT'' \<or> s = ''NOT_QUALIFIED'') \<longrightarrow> l_qual l = s) (filter in_reason_pool ls))"

fun bucket_leads :: "zone \<Rightarrow> lead_params \<Rightarrow> string \<Rightarrow> dimension \<Rightarrow> db \<Rightarrow> lead list" where
  "bucket_leads zone ps status Reasons d = reason_leads status (scope_rows zone ps True d)"
| "bucket_leads zone ps status Executives d = map fst (with_exec d (filter (\<lambda>l. l_se l \<noteq> None) (scope_rows zone ps True d)))"
| "bucket_leads zone ps status D d = scope_rows zone ps True d"

fun all_buckets :: "(string \<Rightarrow> 'k::linorder) \<Rightarrow> zone \<Rightarrow> lead_params \<Rightarrow> string \<Rightarrow> dimension \<Rightarrow> db \<Rightarrow> bucket list" where
  "all_buckets coll zone ps status Reasons d = map ReasonBucket (order_by (reason_order coll)
     (reason_groups (reason_leads status (scope_rows zone ps True d))))"
| "all_buckets coll zone ps status Portals d = map AttributionBucket (attribution_groups coll l_portal (scope_rows zone ps True d))"
| "all_buckets coll zone ps status MetaProfiles d = map AttributionBucket (attribution_groups coll l_metaProfile (scope_rows zone ps True d))"
| "all_buckets coll zone ps status Sources d = map AttributionBucket (attribution_groups coll (\<lambda>l. Some (l_source l)) (scope_rows zone ps True d))"
| "all_buckets coll zone ps status Analysts d = map AnalystBucket (analyst_groups coll d (scope_rows zone ps True d))"
| "all_buckets coll zone ps status Executives d = map ExecBucket
     (exec_groups coll (with_exec d (filter (\<lambda>l. l_se l \<noteq> None) (scope_rows zone ps True d))))"

definition page_exact :: "int \<Rightarrow> int \<Rightarrow> bucket list \<Rightarrow> lead list \<Rightarrow> bucket_page \<Rightarrow> bool" where
  "page_exact offset limit all ls p \<longleftrightarrow>
     item_list (bp_items p) = take (nat limit) (drop (nat offset) all) \<and>
     (bp_more p \<longleftrightarrow> offset + limit < int (length all)) \<and>
     bp_count p = length all \<and> bp_leads p = length ls \<and> (\<Sum>b\<leftarrow>all. bucket_size b) = length ls \<and>
     bp_offset p = offset \<and> bp_limit p = limit"

lemma bucket_rows_exact:
  assumes "0 < limit" "0 \<le> offset" "\<And>xs. item_list (con xs) = map c xs" "m = (length xs, length ls, k)"
    and "(\<Sum>x\<leftarrow>xs. bucket_size (c x)) = length ls"
  shows "page_exact offset limit (map c xs) ls (bucket_rows dimension offset limit m con (limit_offset (limit + 1) offset xs))"
proof -
  let ?tail = "drop (nat offset) xs"
  have l: "nat (limit + 1) = Suc (nat limit)" using assms(1) by simp
  have more: "int (length (take (Suc (nat limit)) ?tail)) > limit \<longleftrightarrow> offset + limit < int (length xs)"
    using assms(1,2) by auto
  have "(if offset + limit < int (length xs) then take (nat limit) (take (Suc (nat limit)) ?tail) else take (Suc (nat limit)) ?tail) =
      take (nat limit) ?tail" using assms(1,2) by (auto simp: take_all)
  then show ?thesis using assms(5)
    by (simp only: page_exact_def bucket_rows_def Let_def limit_offset_def l more assms(3,4) bucket_page.select_convs
      fst_conv snd_conv take_map drop_map length_map map_map o_def simp_thms)
qed

lemma clamp_limit_pos: "0 < clampSummaryBucketLimit n" "clampSummaryBucketLimit n \<le> 200"
  by (simp_all add: clampSummaryBucketLimit_def)

lemma clamp_offset_range: "0 \<le> clampSummaryBucketOffset n" "clampSummaryBucketOffset n \<le> 5000"
  by (simp_all add: clampSummaryBucketOffset_def)

lemma reason_total: "(\<Sum>r\<leftarrow>reason_groups ls. rc_count r) = length ls"
  unfolding reason_groups_def sum_labels by (simp add: reason_row_def group_totals)

lemma analyst_row_total [simp]: "as_total (analyst_row (k, g)) = length g"
  by (simp add: analyst_row_def Let_def)

lemma exec_row_total [simp]: "eo_assigned (exec_row (u, g)) = int (length g)"
  by (simp add: exec_row_def completeSalesExecOutcome_def Let_def)

lemma analyst_total: "(\<Sum>r\<leftarrow>map analyst_row (group_on key ls). as_total r) = length ls"
  unfolding sum_labels by (simp add: group_totals)

lemma exec_total: "(\<Sum>r\<leftarrow>map exec_row (group_on key ls). nat (eo_assigned r)) = length ls"
  unfolding sum_labels by (simp add: group_totals)

lemma same_groups:
  assumes "inj_on f (key ` set xs)"
  shows "length (group_on (\<lambda>x. f (key x)) xs) = length (group_on key xs)"
proof -
  have "length (remdups (map (\<lambda>x. f (key x)) xs)) = card (f ` key ` set xs)"
    by (simp add: length_remdups_card_conv image_image)
  also have "\<dots> = card (key ` set xs)" by (rule card_image [OF assms])
  finally show ?thesis by (simp add: group_on_def length_remdups_card_conv)
qed

lemma user_by_own_id: "user_by_id i d = Some u \<Longrightarrow> user_by_id (u_id u) d = Some u"
  using user_by_id_Some [of i d u] by simp

lemma creators_by_id: "length (group_on (\<lambda>l. map_option u_id (creator_of d l)) ls) = length (group_on (creator_of d) ls)"
proof (rule same_groups, rule inj_on_inverseI)
  fix u assume "u \<in> creator_of d ` set ls"
  then show "Option.bind (map_option u_id u) (\<lambda>i. user_by_id i d) = u"
    by (cases u) (auto simp: creator_of_def dest!: sym [of "Some _"] dest: user_by_own_id split: option.splits)
qed

lemma in_somes: "x \<in> set (somes xs) \<longleftrightarrow> Some x \<in> set xs"
  by (induction xs) (auto split: option.split)

lemma in_with_exec: "(l, u) \<in> set (with_exec d ls) \<Longrightarrow> l \<in> set ls \<and> (\<exists>i. l_se l = Some i \<and> user_by_id i d = Some u)"
  by (auto simp: with_exec_def in_somes split: option.splits) (metis Pair_inject map_option_eq_Some)+

lemma execs_by_id: "length (group_on (\<lambda>x. u_id (snd x)) (with_exec d ls)) = length (group_on snd (with_exec d ls))"
proof (rule same_groups, rule inj_on_inverseI)
  fix u assume "u \<in> snd ` set (with_exec d ls)"
  then show "the (user_by_id (u_id u) d) = u"
    by (auto dest!: in_with_exec dest: user_by_own_id)
qed

lemma reason_rows_exact:
  defines "b \<equiv> \<lambda>zone ps. scope_and in_reason_pool (leadScopeWhere zone ps True)"
  shows "\<not> known \<Longrightarrow> reason_rows [] n (b zone ps) (snd (b zone ps) @ rest) d = filter in_reason_pool (scope_rows zone ps True d)"
    and "s \<noteq> [] \<Longrightarrow> n = Suc (length (snd (b zone ps))) \<Longrightarrow>
      reason_rows s n (b zone ps) (snd (b zone ps) @ AText s # rest) d = filter (\<lambda>l. l_qual l = s) (filter in_reason_pool (scope_rows zone ps True d))"
  unfolding b_def reason_rows_def
  by (simp_all add: scope_and_exact [THEN ext] scope_rows_def text_at_def arg_at_def nth_append conj_commute conj_left_commute eq_commute [of s])

definition answers_pages :: "bucket_page op \<Rightarrow> int \<Rightarrow> int \<Rightarrow> (db \<Rightarrow> bucket list) \<Rightarrow> (db \<Rightarrow> lead list) \<Rightarrow> bool" where
  "answers_pages m offset limit all ls \<longleftrightarrow> (\<exists>F. computes m F \<and> (\<forall>d. page_exact offset limit (all d) (ls d) (F d)))"

lemma answers_two_queries:
  assumes "0 < limit" "0 \<le> offset" "\<And>xs. item_list (con xs) = map c xs"
    and "\<And>d. meta (q d) = (length (xs d), length (ls d), k d)" "\<And>d. (\<Sum>x\<leftarrow>xs d. bucket_size (c x)) = length (ls d)"
  shows "answers_pages (bindE (query q) (\<lambda>m. bindE (query (\<lambda>d. limit_offset (limit + 1) offset (xs d))) (\<lambda>out.
      ret (bucket_rows dimension offset limit (meta m) con out)))) offset limit (\<lambda>d. map c (xs d)) ls"
  unfolding answers_pages_def
proof (intro exI conjI allI)
  show "computes (bindE (query q) (\<lambda>m. bindE (query (\<lambda>d. limit_offset (limit + 1) offset (xs d))) (\<lambda>out.
      ret (bucket_rows dimension offset limit (meta m) con out))))
    (\<lambda>d. bucket_rows dimension offset limit (meta (q d)) con (limit_offset (limit + 1) offset (xs d)))"
    by (rule computes_two_queries)
  show "page_exact offset limit (map c (xs d)) (ls d)
      (bucket_rows dimension offset limit (meta (q d)) con (limit_offset (limit + 1) offset (xs d)))" for d
    by (rule bucket_rows_exact [OF assms(1-4) assms(5)])
qed

lemma attribution_answers:
  assumes "0 < limit" "0 \<le> offset"
  shows "answers_pages (paginatedAttributionMix coll zone ps col dimension offset limit) offset limit
    (\<lambda>d. map AttributionBucket (attribution_groups coll col (scope_rows zone ps True d))) (scope_rows zone ps True)"
  unfolding paginatedAttributionMix_def Let_def scoped_rows
  by (rule answers_two_queries [OF assms, where meta = "\<lambda>m. m"])
     (simp_all add: attribution_groups_def sum_order_by attribution_sums [unfolded map_map o_def] o_def)

lemma analyst_answers:
  assumes "0 < limit" "0 \<le> offset"
  shows "answers_pages (paginatedAnalystLeadStats coll zone ps offset limit) offset limit
    (\<lambda>d. map AnalystBucket (analyst_groups coll d (scope_rows zone ps True d))) (scope_rows zone ps True)"
  unfolding paginatedAnalystLeadStats_def Let_def scoped_rows
  by (rule answers_two_queries [OF assms, where meta = "\<lambda>m. (fst m, snd m, 0)"])
     (simp_all add: analyst_groups_def sum_order_by analyst_total [unfolded map_map o_def] group_totals creators_by_id o_def)

lemma exec_answers:
  assumes "0 < limit" "0 \<le> offset"
  shows "answers_pages (paginatedSalesExecOutcomes coll zone ps offset limit) offset limit
    (all_buckets coll zone ps status Executives) (bucket_leads zone ps status Executives)"
  unfolding paginatedSalesExecOutcomes_def Let_def leadScopeWhereAssignedToSalesExec_def scoped_and all_buckets.simps [abs_def] bucket_leads.simps [abs_def]
  by (rule answers_two_queries [OF assms, where meta = "\<lambda>m. (fst m, snd m, 0)"])
     (simp_all add: exec_groups_def sum_order_by exec_total [unfolded map_map o_def] group_totals execs_by_id o_def)

lemma reason_answers:
  assumes "0 < limit" "0 \<le> offset"
  shows "answers_pages (paginatedQualificationReasons coll zone ps status offset limit) offset limit
    (all_buckets coll zone ps status Reasons) (bucket_leads zone ps status Reasons)"
proof (cases "to_upper (trim status) = ''IRRELEVANT'' \<or> to_upper (trim status) = ''NOT_QUALIFIED''")
  case True
  then have ne: "to_upper (trim status) \<noteq> []" by auto
  have len: "length (xs @ [x]) = Suc (length xs)" for xs :: "arg list" and x by simp
  have all: "all_buckets coll zone ps status Reasons = (\<lambda>d. map ReasonBucket (order_by (reason_order coll)
      (reason_groups (filter (\<lambda>l. l_qual l = to_upper (trim status)) (filter in_reason_pool (scope_rows zone ps True d))))))"
    "bucket_leads zone ps status Reasons = (\<lambda>d. filter (\<lambda>l. l_qual l = to_upper (trim status)) (filter in_reason_pool (scope_rows zone ps True d)))"
    using True by (auto simp: reason_leads_def Let_def fun_eq_iff)
  show ?thesis
    unfolding paginatedQualificationReasons_def Let_def if_P [OF True] all append.assoc append_Cons append_Nil
      reason_rows_exact(2) [OF ne len]
    by (rule answers_two_queries [OF assms, where meta = "\<lambda>m. (fst m, snd m, 0)"]) (simp_all add: sum_order_by reason_total)
next
  case False
  have all: "all_buckets coll zone ps status Reasons = (\<lambda>d. map ReasonBucket (order_by (reason_order coll)
      (reason_groups (filter in_reason_pool (scope_rows zone ps True d)))))"
    "bucket_leads zone ps status Reasons = (\<lambda>d. filter in_reason_pool (scope_rows zone ps True d))"
    using False by (auto simp: reason_leads_def Let_def fun_eq_iff)
  note rows = reason_rows_exact(1) [of False, OF FalseE]
  have r: "reason_rows [] n (scope_and in_reason_pool (leadScopeWhere zone ps True)) (snd (scope_and in_reason_pool (leadScopeWhere zone ps True)) @ rest) d =
      filter in_reason_pool (scope_rows zone ps True d)"
    "reason_rows [] n (scope_and in_reason_pool (leadScopeWhere zone ps True)) (snd (scope_and in_reason_pool (leadScopeWhere zone ps True))) d =
      filter in_reason_pool (scope_rows zone ps True d)" for n rest d
    using reason_rows_exact(1) [of False n zone ps rest d] reason_rows_exact(1) [of False n zone ps "[]" d] by simp_all
  show ?thesis
    unfolding paginatedQualificationReasons_def Let_def if_not_P [OF False] all r
    by (rule answers_two_queries [OF assms, where meta = "\<lambda>m. (fst m, snd m, 0)"]) (simp_all add: sum_order_by reason_total)
qed

lemma SummaryBuckets_of:
  "SummaryBuckets coll zone quoted dimension ps status offset limit =
    (let o' = clampSummaryBucketOffset offset; n = clampSummaryBucketLimit limit in
     case dimension_named (to_lower (trim dimension)) of
       None \<Rightarrow> throw (ErrMsg (''unknown summary dimension '' @ quoted (to_lower (trim dimension))))
     | Some D \<Rightarrow> (case D of Reasons \<Rightarrow> paginatedQualificationReasons coll zone ps status o' n
         | Portals \<Rightarrow> paginatedAttributionMix coll zone ps l_portal ''portal'' o' n
         | MetaProfiles \<Rightarrow> paginatedAttributionMix coll zone ps l_metaProfile ''metaProfile'' o' n
         | Sources \<Rightarrow> paginatedAttributionMix coll zone ps (\<lambda>l. Some (l_source l)) ''source'' o' n
         | Analysts \<Rightarrow> paginatedAnalystLeadStats coll zone ps o' n
         | Executives \<Rightarrow> paginatedSalesExecOutcomes coll zone ps o' n))"
  unfolding SummaryBuckets_def dimension_named_def Let_def
  by (simp only: if_distrib [of "case_option _ _"] option.case dimension.case cong: if_cong)

lemma SummaryBuckets_answers:
  assumes "dimension_named (to_lower (trim dimension)) = Some D"
  shows "answers_pages (SummaryBuckets coll zone quoted dimension ps status offset limit)
    (clampSummaryBucketOffset offset) (clampSummaryBucketLimit limit) (all_buckets coll zone ps status D) (bucket_leads zone ps status D)"
proof -
  note c = clamp_limit_pos(1) [of limit] clamp_offset_range(1) [of offset]
  show ?thesis unfolding SummaryBuckets_of assms Let_def option.case
  proof (cases D)
    case Reasons
    then show "answers_pages (case D of Reasons \<Rightarrow> paginatedQualificationReasons coll zone ps status (clampSummaryBucketOffset offset) (clampSummaryBucketLimit limit)
         | Portals \<Rightarrow> paginatedAttributionMix coll zone ps l_portal ''portal'' (clampSummaryBucketOffset offset) (clampSummaryBucketLimit limit)
         | MetaProfiles \<Rightarrow> paginatedAttributionMix coll zone ps l_metaProfile ''metaProfile'' (clampSummaryBucketOffset offset) (clampSummaryBucketLimit limit)
         | Sources \<Rightarrow> paginatedAttributionMix coll zone ps (\<lambda>l. Some (l_source l)) ''source'' (clampSummaryBucketOffset offset) (clampSummaryBucketLimit limit)
         | Analysts \<Rightarrow> paginatedAnalystLeadStats coll zone ps (clampSummaryBucketOffset offset) (clampSummaryBucketLimit limit)
         | Executives \<Rightarrow> paginatedSalesExecOutcomes coll zone ps (clampSummaryBucketOffset offset) (clampSummaryBucketLimit limit))
        (clampSummaryBucketOffset offset) (clampSummaryBucketLimit limit) (all_buckets coll zone ps status D) (bucket_leads zone ps status D)"
      by (simp only: dimension.case reason_answers [OF c])
  qed (simp_all only: dimension.case all_buckets.simps [abs_def] bucket_leads.simps [abs_def]
      attribution_answers [OF c] analyst_answers [OF c] exec_answers [OF c, unfolded all_buckets.simps [abs_def] bucket_leads.simps [abs_def]])
qed

lemma SummaryBuckets_unknown:
  "dimension_named (to_lower (trim dimension)) = None \<Longrightarrow>
    SummaryBuckets coll zone quoted dimension ps status offset limit w =
      (Inl (ErrMsg (''unknown summary dimension '' @ quoted (to_lower (trim dimension)))), w)"
  by (simp add: SummaryBuckets_of throw_def)

lemma exec_row_partition:
  "eo_assigned (exec_row x) = eo_withTeamLead (exec_row x) + eo_withRep (exec_row x) + eo_inProgress (exec_row x) +
     eo_won (exec_row x) + eo_lost (exec_row x) + eo_other (exec_row x) \<and> eo_other (exec_row x) \<ge> 0"
proof -
  have "count_rows (stage_is [''WITH_TEAM_LEAD'']) ls + count_rows (stage_is [''WITH_EXECUTIVE'']) ls +
      count_rows (stage_is in_progress_stages) ls + count_rows (stage_is [''CLOSED_WON'']) ls + count_rows (stage_is [''CLOSED_LOST'']) ls \<le> length ls" for ls
    by (induction ls) (auto simp: count_rows_def stage_is_def in_progress_stages_def)
  from this [of "map fst (snd x)"] show ?thesis
    by (cases x) (auto simp: exec_row_def completeSalesExecOutcome_def Let_def)
qed

text \<open>Every page of a high-cardinality mix is exactly the requested segment of the buckets of its
  dimension, and says whether more follow; its bucket count and lead total are those of the whole mix,
  whose buckets add up to the leads of the dimension; the outcomes of an executive add up to the leads
  assigned. An unknown dimension is an error.\<close>

theorem bucket_page_exact:
  "case SummaryBuckets coll zone quoted dimension ps status offset limit w of
     (Inl e, w') \<Rightarrow> calm w \<longrightarrow> dimension_named (to_lower (trim dimension)) = None
   | (Inr p, w') \<Rightarrow> (\<exists>D. dimension_named (to_lower (trim dimension)) = Some D \<and>
       page_exact (clampSummaryBucketOffset offset) (clampSummaryBucketLimit limit)
         (all_buckets coll zone ps status D (tables w)) (bucket_leads zone ps status D (tables w)) p \<and>
       (\<forall>e. ExecBucket e \<in> set (item_list (bp_items p)) \<longrightarrow> eo_assigned e = eo_withTeamLead e + eo_withRep e +
          eo_inProgress e + eo_won e + eo_lost e + eo_other e \<and> eo_other e \<ge> 0))"
proof (cases "dimension_named (to_lower (trim dimension))")
  case None
  then show ?thesis by (simp add: SummaryBuckets_unknown)
next
  case (Some D)
  obtain F where F: "computes (SummaryBuckets coll zone quoted dimension ps status offset limit) F"
    "page_exact (clampSummaryBucketOffset offset) (clampSummaryBucketLimit limit)
         (all_buckets coll zone ps status D (tables w)) (bucket_leads zone ps status D (tables w)) (F (tables w))"
    using SummaryBuckets_answers [OF Some] unfolding answers_pages_def by blast
  have "ExecBucket e \<in> set (all_buckets coll zone ps status D (tables w)) \<Longrightarrow> \<exists>x. e = exec_row x" for e
    by (cases D) (auto simp: exec_groups_def set_order_by)
  then have parts: "ExecBucket e \<in> set (item_list (bp_items (F (tables w)))) \<Longrightarrow> \<exists>x. e = exec_row x" for e
    using F(2) in_set_takeD in_set_dropD unfolding page_exact_def by metis
  obtain r w' where r: "SummaryBuckets coll zone quoted dimension ps status offset limit w = (r, w')" by force
  show ?thesis
  proof (cases r)
    case (Inl e)
    have "\<not> calm w" using F(1) r Inl unfolding computes_def by fastforce
    then show ?thesis by (simp add: r Inl)
  next
    case (Inr p)
    then have "p = F (tables w)" using F(1) r unfolding computes_def by blast
    then show ?thesis using Some F(2) parts exec_row_partition by (auto simp: r Inr)
  qed
qed

theorem bucket_page_exact_witness:
  "\<exists>p w'. SummaryBuckets (\<lambda>s. s) kathmandu (\<lambda>s. s) ''analysts'' (plain_params ''newest'') [] 1 1 (calm_world three_leads) = (Inr p, w') \<and>
     bp_count p = 2 \<and> bp_leads p = 3 \<and> \<not> bp_more p"
proof -
  have D: "dimension_named (to_lower (trim ''analysts'')) = Some Analysts" by code_simp
  have c: "clampSummaryBucketOffset 1 = 1" "clampSummaryBucketLimit 1 = 1" by code_simp+
  have n: "length (all_buckets (\<lambda>s. s) kathmandu (plain_params ''newest'') [] Analysts three_leads) = 2"
    "length (bucket_leads kathmandu (plain_params ''newest'') [] Analysts three_leads) = 3" by code_simp+
  obtain r w' where r: "SummaryBuckets (\<lambda>s. s) kathmandu (\<lambda>s. s) ''analysts'' (plain_params ''newest'') [] 1 1 (calm_world three_leads) = (r, w')"
    by force
  show ?thesis
    using bucket_page_exact [where coll = "\<lambda>s. s" and zone = kathmandu and quoted = "\<lambda>s. s" and dimension = "''analysts''" and
        ps = "plain_params ''newest''" and status = "[]" and offset = 1 and limit = 1 and w = "calm_world three_leads"] n
    unfolding r c D calm_calm_world by (cases r) (simp_all add: calm_calm_world page_exact_def)
qed

subsection \<open>Walking the pages\<close>

definition bucket_step :: "(string \<Rightarrow> 'k::linorder) \<Rightarrow> zone \<Rightarrow> (string \<Rightarrow> string) \<Rightarrow> string \<Rightarrow> lead_params \<Rightarrow> string \<Rightarrow> int \<Rightarrow>
    int \<times> world \<Rightarrow> (bucket list \<times> (int \<times> world) option) option" where
  \<comment> \<open>a request and what a client does with its answer: on to the next offset while there is more\<close>
  "bucket_step coll zone quoted dimension ps status limit x = (case x of (offset, w) \<Rightarrow>
     case SummaryBuckets coll zone quoted dimension ps status offset limit w of
       (Inl e, w') \<Rightarrow> None
     | (Inr p, w') \<Rightarrow> Some (item_list (bp_items p), if bp_more p then Some (bp_offset p + bp_limit p, w') else None))"

definition bucket_stands :: "(string \<Rightarrow> 'k::linorder) \<Rightarrow> zone \<Rightarrow> string \<Rightarrow> lead_params \<Rightarrow> string \<Rightarrow> db \<Rightarrow>
    int \<times> world \<Rightarrow> bucket list \<Rightarrow> bool" where
  \<comment> \<open>the buckets from the offset on, when there are not too many\<close>
  "bucket_stands coll zone dimension ps status d x bs = (case x of (offset, w) \<Rightarrow> calm w \<and> tables w = d \<and>
     0 \<le> offset \<and> offset \<le> 5000 \<and> (\<exists>D. dimension_named (to_lower (trim dimension)) = Some D \<and>
        length (all_buckets coll zone ps status D d) \<le> 5000 \<and> bs = drop (nat offset) (all_buckets coll zone ps status D d)))"

lemma bucket_step_page:
  fixes offset limit :: int
  assumes "calm w" "dimension_named (to_lower (trim dimension)) = Some D"
  defines "o' \<equiv> clampSummaryBucketOffset offset" and "n \<equiv> clampSummaryBucketLimit limit"
  shows "\<exists>w'. calm w' \<and> tables w' = tables w \<and> bucket_step coll zone quoted dimension ps status limit (offset, w) =
    Some (take (nat n) (drop (nat o') (all_buckets coll zone ps status D (tables w))),
      if o' + n < int (length (all_buckets coll zone ps status D (tables w))) then Some (o' + n, w') else None)"
proof -
  obtain F where F: "computes (SummaryBuckets coll zone quoted dimension ps status offset limit) F"
    "page_exact o' n (all_buckets coll zone ps status D (tables w)) (bucket_leads zone ps status D (tables w)) (F (tables w))"
    using SummaryBuckets_answers [OF assms(2)] unfolding answers_pages_def assms(3-4) by blast
  obtain w' where "SummaryBuckets coll zone quoted dimension ps status offset limit w = (Inr (F (tables w)), w')"
    "calm w'" "tables w' = tables w" using F(1) assms(1) unfolding computes_def by blast
  then show ?thesis using F(2) by (auto simp: bucket_step_def page_exact_def)
qed

interpretation bucket_pages: paging "bucket_step coll zone quoted dimension ps status limit"
    "nat (clampSummaryBucketLimit limit)" "bucket_stands coll zone dimension ps status d"
  for coll :: "string \<Rightarrow> 'k::linorder" and zone quoted dimension ps status limit d
proof
  show "nat (clampSummaryBucketLimit limit) > 0" using clamp_limit_pos(1) [of limit] by simp
next
  fix x :: "int \<times> world" and bs
  assume s: "bucket_stands coll zone dimension ps status d x bs" "length bs \<le> nat (clampSummaryBucketLimit limit)"
  obtain offset w D where x: "x = (offset, w)" "calm w" "tables w = d" "0 \<le> offset" "offset \<le> 5000"
    "dimension_named (to_lower (trim dimension)) = Some D" "bs = drop (nat offset) (all_buckets coll zone ps status D d)"
    using s(1) by (cases x) (auto simp: bucket_stands_def)
  have c: "clampSummaryBucketOffset offset = offset" using x(4,5) by (simp add: clampSummaryBucketOffset_def)
  show "bucket_step coll zone quoted dimension ps status limit x = Some (bs, None)"
    using bucket_step_page [OF x(2,6), where offset = offset and limit = limit and coll = coll and zone = zone and ps = ps and status = status and quoted = quoted]
      s(2) x(3,4) clamp_limit_pos(1) [of limit] by (auto simp: x(1,7) c)
next
  fix x :: "int \<times> world" and bs
  assume s: "bucket_stands coll zone dimension ps status d x bs" "length bs > nat (clampSummaryBucketLimit limit)"
  let ?n = "clampSummaryBucketLimit limit"
  obtain offset w D where x: "x = (offset, w)" "calm w" "tables w = d" "0 \<le> offset" "offset \<le> 5000"
    "dimension_named (to_lower (trim dimension)) = Some D" "length (all_buckets coll zone ps status D d) \<le> 5000"
    "bs = drop (nat offset) (all_buckets coll zone ps status D d)"
    using s(1) by (cases x) (auto simp: bucket_stands_def)
  have c: "clampSummaryBucketOffset offset = offset" using x(4,5) by (simp add: clampSummaryBucketOffset_def)
  have more: "offset + ?n < int (length (all_buckets coll zone ps status D d))"
    using s(2) x(4,8) clamp_limit_pos(1) [of limit] by auto
  obtain w' where w': "calm w'" "tables w' = d" "bucket_step coll zone quoted dimension ps status limit x = Some (take (nat ?n) bs, Some (offset + ?n, w'))"
    using bucket_step_page [OF x(2,6), where offset = offset and limit = limit and coll = coll and zone = zone and ps = ps and status = status and quoted = quoted]
      more x(3) by (auto simp: x(1,8) c)
  have "drop (nat ?n) bs = drop (nat (offset + ?n)) (all_buckets coll zone ps status D d)"
    using x(4) clamp_limit_pos(1) [of limit] by (simp add: x(8) nat_add_distrib add.commute)
  then have "bucket_stands coll zone dimension ps status d (offset + ?n, w') (drop (nat ?n) bs)"
    using w'(1,2) x(4,6,7) more clamp_limit_pos(1) [of limit] by (auto simp: bucket_stands_def)
  then show "\<exists>x'. bucket_step coll zone quoted dimension ps status limit x = Some (take (nat ?n) bs, Some x') \<and>
      bucket_stands coll zone dimension ps status d x' (drop (nat ?n) bs)"
    using w'(3) by blast
qed



text \<open>The offset is clamped to 5000 while the answer still announces more: with more buckets than
  5000 and a page, the walk never ends, and no request shows the buckets after that page.\<close>

theorem bucket_pages_stuck:
  assumes "calm w" "dimension_named (to_lower (trim dimension)) = Some D"
    and "5000 + clampSummaryBucketLimit limit < int (length (all_buckets coll zone ps status D (tables w)))"
  shows "walk n (bucket_step coll zone quoted dimension ps status limit) (0, w) = None \<and>
    (\<forall>offset p w'. SummaryBuckets coll zone quoted dimension ps status offset limit w = (Inr p, w') \<longrightarrow>
       bp_more p \<and> set (item_list (bp_items p)) \<subseteq> set (take 5200 (all_buckets coll zone ps status D (tables w))))"
proof -
  let ?all = "all_buckets coll zone ps status D (tables w)" and ?n = "clampSummaryBucketLimit limit"
  have more: "clampSummaryBucketOffset offset + ?n < int (length ?all)" for offset
    using assms(3) clamp_offset_range(2) [of offset] by linarith
  have stuck: "walk n (bucket_step coll zone quoted dimension ps status limit) (offset, v) = None"
    if "calm v" "tables v = tables w" for v offset
    using that
  proof (induction n arbitrary: v offset)
    case (Suc n)
    then obtain v' where v': "calm v'" "tables v' = tables w" "bucket_step coll zone quoted dimension ps status limit (offset, v) =
      Some (take (nat ?n) (drop (nat (clampSummaryBucketOffset offset)) ?all), Some (clampSummaryBucketOffset offset + ?n, v'))"
      using bucket_step_page [OF Suc.prems(1) assms(2), where offset = offset and limit = limit and coll = coll and zone = zone and ps = ps and status = status and quoted = quoted]
        more by auto
    then show ?case using Suc.IH [OF v'(1,2)] by simp
  qed simp
  have page: "bp_more p \<and> set (item_list (bp_items p)) \<subseteq> set (take 5200 ?all)"
    if answer: "SummaryBuckets coll zone quoted dimension ps status offset limit w = (Inr p, w')" for offset p w'
  proof -
    obtain F where "computes (SummaryBuckets coll zone quoted dimension ps status offset limit) F"
      "page_exact (clampSummaryBucketOffset offset) ?n ?all (bucket_leads zone ps status D (tables w)) (F (tables w))"
      using SummaryBuckets_answers [OF assms(2)] unfolding answers_pages_def by blast
    then have "page_exact (clampSummaryBucketOffset offset) ?n ?all (bucket_leads zone ps status D (tables w)) p"
      using answer unfolding computes_def by blast
    moreover have "set (take (nat ?n) (drop (nat (clampSummaryBucketOffset offset)) ?all)) \<subseteq> set (take 5200 ?all)"
    proof -
      have "nat (clampSummaryBucketOffset offset) + nat ?n \<le> 5200"
        using clamp_offset_range [of offset] clamp_limit_pos [of limit] by linarith
      then show ?thesis by (metis drop_take le_add_diff_inverse set_drop_subset set_take_subset_set_take subset_trans take_drop add.commute)
    qed
    ultimately show ?thesis using more [of offset] by (simp add: page_exact_def)
  qed
  show ?thesis using stuck [OF assms(1) refl] page by blast
qed

definition crowd :: db where
  \<comment> \<open>5300 leads, each from a source of its own\<close>
  "crowd = empty_db\<lparr>leads := map (\<lambda>i. (blank_lead (replicate i CHR ''x''))\<lparr>l_source := replicate (Suc i) CHR ''x''\<rparr>) [0..<5300]\<rparr>"

lemma btrim_x: "btrim (replicate n CHR ''x'') = replicate n CHR ''x''"
proof -
  have "dropWhile (\<lambda>c. c = CHR '' '') (replicate m CHR ''x'') = replicate m CHR ''x''" for m by (cases m) simp_all
  then show ?thesis by (simp add: btrim_def)
qed

lemma crowd_sources: "length (all_buckets coll kathmandu (plain_params ''newest'') [] Sources crowd) = 5300"
proof -
  have all: "normalizeLeadFilter [] = ''all''" "added_range kathmandu [] [] = (None, None)" "trim [] = []" "to_upper [] = []" by code_simp+
  have pp: "plain_params ''newest'' = \<lparr>lp_filter = [], lp_sort = ''newest'', lp_query = [], lp_field = [], lp_cursor = [],
     lp_limit = 2, lp_country = [], lp_city = [], lp_team = [], lp_analyst = [], lp_se = [], lp_manager = [], lp_atl = [],
     lp_atlTeam = [], lp_source = [], lp_portal = [], lp_metaProfile = [], lp_status = [], lp_stage = [],
     lp_serviceLine = [], lp_reason = [], lp_addedFrom = [], lp_addedTo = []\<rparr>" by code_simp
  have "scope_means kathmandu (plain_params ''newest'') True d l" for d l
    unfolding scope_means_def facets_mean_def pp lead_params.select_convs all geo_facet_def id_facet_def text_facet_def
      manager_facet_def line_facet_def reason_facet_def added_facet_def by (simp add: filter_means_def)
  then have rows: "scope_rows kathmandu (plain_params ''newest'') True crowd = leads crowd" by (simp add: scope_rows_def)
  have "labelled ''Unassigned'' (Some (replicate (Suc i) CHR ''x'')) = replicate (Suc i) CHR ''x''" for i
    using btrim_x [of "Suc i"] by (simp add: labelled_def)
  then have "map (\<lambda>l. labelled ''Unassigned'' (Some (l_source l))) (leads crowd) = map (\<lambda>i. replicate (Suc i) CHR ''x'') [0..<5300]"
    by (simp add: crowd_def o_def del: replicate_Suc)
  moreover have "distinct (map (\<lambda>i. replicate (Suc i) CHR ''x'') [0..<5300])"
    unfolding distinct_map by (intro conjI inj_onI) (simp, metis length_replicate nat.inject)
  ultimately show ?thesis
    by (simp add: rows attribution_groups_def group_on_def distinct_remdups_id del: replicate_Suc upt_Suc)
qed

theorem bucket_pages_stuck_witness:
  "\<forall>n. walk n (bucket_step (\<lambda>s. s) kathmandu (\<lambda>s. s) ''source'' (plain_params ''newest'') [] 50) (0, calm_world crowd) = None"
proof -
  have D: "dimension_named (to_lower (trim ''source'')) = Some Sources" by code_simp
  have "clampSummaryBucketLimit 50 = 50" by code_simp
  then have "5000 + clampSummaryBucketLimit 50 < int (length (all_buckets (\<lambda>s. s) kathmandu (plain_params ''newest'') [] Sources (tables (calm_world crowd))))"
    by (simp only: calm_calm_world crowd_sources)
  then show ?thesis
    using bucket_pages_stuck [OF calm_calm_world(1) D, where quoted = "\<lambda>s. s"] by blast
qed

end
