(* ===== verification/TransferPages.thy ===== *)
theory TransferPages
  imports Transfers
begin

section \<open>What the transfer logs show\<close>

text \<open>
  The conditions of the two lists mean what the request asks for, and following their cursors shows
  every matching entry once. Keyset paging is a locale of its own, a case of the locale of paging:
  its laws are proved for the two orders here.
\<close>

subsection \<open>Keyset paging\<close>

definition keyset_step :: "nat \<Rightarrow> ('c \<Rightarrow> 'a list) \<Rightarrow> ('a \<Rightarrow> 'c) \<Rightarrow> 'c \<Rightarrow> ('a list \<times> 'c option) option" where
  \<comment> \<open>the rows after a cursor, cut to the limit, and the cursor of the last one when rows are left\<close>
  "keyset_step limit rows cur c = Some (take limit (rows c),
     if length (rows c) > limit then Some (cur (last (take limit (rows c)))) else None)"

locale keyset =
  fixes all :: "'a list"
    and after :: "'c \<Rightarrow> 'a \<Rightarrow> bool"
    and cur :: "'a \<Rightarrow> 'c"
    and limit :: nat
  assumes positive: "limit > 0"
    and cuts: "all = ys @ x # zs \<Longrightarrow> filter (after (cur x)) all = zs"

sublocale keyset \<subseteq> paging "keyset_step limit (\<lambda>c. filter (after c) all) cur" limit
    "\<lambda>c xs. xs = filter (after c) all \<and> (\<exists>us. all = us @ xs)"
proof
  show "limit > 0" by (rule positive)
next
  fix c xs assume "xs = filter (after c) all \<and> (\<exists>us. all = us @ xs)" "length xs \<le> limit"
  then show "keyset_step limit (\<lambda>c. filter (after c) all) cur c = Some (xs, None)" by (auto simp: keyset_step_def)
next
  fix c xs assume s: "xs = filter (after c) all \<and> (\<exists>us. all = us @ xs)" "length xs > limit"
  then obtain us where us: "all = us @ xs" by blast
  have ne: "take limit xs \<noteq> []" using s(2) positive by auto
  have "all = (us @ butlast (take limit xs)) @ last (take limit xs) # drop limit xs"
    using us append_butlast_last_id [OF ne] append_take_drop_id [of limit xs] by (metis append.assoc append_Cons append_Nil)
  from cuts [OF this] have "drop limit xs = filter (after (cur (last (take limit xs)))) all" ..
  moreover have "\<exists>us'. all = us' @ drop limit xs" using us by (metis append.assoc append_take_drop_id)
  ultimately show "\<exists>c'. keyset_step limit (\<lambda>c. filter (after c) all) cur c = Some (take limit xs, Some c') \<and>
      drop limit xs = filter (after c') all \<and> (\<exists>us. all = us @ drop limit xs)"
    using s by (auto simp: keyset_step_def)
qed

context keyset
begin

lemma keyset_walk: "filter (after c) all = all \<Longrightarrow> length all < n \<Longrightarrow>
    walk n (keyset_step limit (\<lambda>c. filter (after c) all) cur) c = Some all"
  by (rule walk_all) auto

end

subsection \<open>The order of the logs\<close>

definition log_all :: "(string \<Rightarrow> 'k::linorder) \<Rightarrow> ('r \<Rightarrow> int \<times> string) \<Rightarrow> ('r \<Rightarrow> bool) \<Rightarrow> 'r list \<Rightarrow> 'r list" where
  \<comment> \<open>the matching rows, newest first\<close>
  "log_all coll key P rows = order_by (\<lambda>a b. newer coll (key a) (key b)) (filter P rows)"

definition log_after :: "(string \<Rightarrow> 'k::linorder) \<Rightarrow> ('r \<Rightarrow> int \<times> string) \<Rightarrow> transfer_cursor_text \<Rightarrow> 'r \<Rightarrow> bool" where
  "log_after coll key c r = (case c of TransferCursor (At_time u) i \<Rightarrow>
     i \<noteq> [] \<longrightarrow> fst (key r) < u \<or> fst (key r) = u \<and> coll (snd (key r)) < coll i | _ \<Rightarrow> True)"

definition log_cursor :: "('r \<Rightarrow> int \<times> string) \<Rightarrow> 'r \<Rightarrow> transfer_cursor_text" where
  "log_cursor key r = TransferCursor (At_time (fst (key r))) (snd (key r))"

definition log_ready :: "(string \<Rightarrow> 'k::linorder) \<Rightarrow> ('r \<Rightarrow> int \<times> string) \<Rightarrow> 'r list \<Rightarrow> bool" where
  \<comment> \<open>the collation tells ids apart, ids are unique and not empty\<close>
  "log_ready coll key rows \<longleftrightarrow> inj coll \<and> distinct (map (\<lambda>r. snd (key r)) rows) \<and> (\<forall>r \<in> set rows. snd (key r) \<noteq> [])"

lemma log_ordered:
  assumes "log_ready coll key rows"
  shows "well_ordered_by (\<lambda>a b. newer coll (key a) (key b)) (filter P rows)"
proof (rule well_ordered_key)
  show "newer coll (key a) (key b) \<longleftrightarrow> (Desc (fst (key a)), Desc (coll (snd (key a)))) \<le> (Desc (fst (key b)), Desc (coll (snd (key b))))" for a b
    by (simp add: newer_def)
  have "inj_on (\<lambda>r. snd (key r)) (set rows)" "inj coll" "distinct rows" using assms by (auto simp: log_ready_def distinct_map)
  then show "distinct (filter P rows)" "inj_on (\<lambda>r. (Desc (fst (key r)), Desc (coll (snd (key r))))) (set (filter P rows))"
    by (auto simp: inj_on_def inj_def)
qed

lemma log_cuts:
  assumes r: "log_ready coll key rows" and s: "log_all coll key P rows = ys @ x # zs"
  shows "filter (log_after coll key (log_cursor key x)) (log_all coll key P rows) = zs"
proof -
  let ?le = "\<lambda>a b. newer coll (key a) (key b)"
  have "set (log_all coll key P rows) \<subseteq> set rows" by (auto simp: log_all_def set_order_by)
  then have "snd (key x) \<noteq> []" using r s by (auto simp: log_ready_def)
  then have "log_after coll key (log_cursor key x) = strictly ?le x"
    by (auto simp: fun_eq_iff log_after_def log_cursor_def strictly_def newer_def less_eq_desc_def)
  then show ?thesis using log_ordered [OF r, of P] s unfolding well_ordered_by_def log_all_def by metis
qed

lemma log_page:
  assumes "log_ready coll key rows"
  shows "order_by (\<lambda>a b. newer coll (key a) (key b)) (filter (\<lambda>r. P r \<and> Q r) rows) = filter Q (log_all coll key P rows)"
proof -
  have "filter (\<lambda>r. P r \<and> Q r) rows = filter Q (filter P rows)" by (simp add: filter_filter)
  then show ?thesis using log_ordered [OF assms, of P] by (simp add: well_ordered_by_def log_all_def)
qed

subsection \<open>The conditions\<close>

definition tmeans :: "'r tbuilder \<Rightarrow> ('r \<Rightarrow> bool) \<Rightarrow> bool" where
  "tmeans b P \<longleftrightarrow> (\<forall>rest r. tholds b rest r \<longleftrightarrow> P r)"

lemma tmeans_Nil: "tmeans ([], as) (\<lambda>r. True)"
  by (simp add: tmeans_def tholds_def)

lemma tmeans_push:
  assumes "tmeans b P" "\<And>rest r. c (length (snd b @ xs)) (snd b @ xs @ rest) r \<longleftrightarrow> Q r"
  shows "tmeans (tpush xs c b) (\<lambda>r. P r \<and> Q r)"
  using assms by (simp add: tmeans_def tholds_def tpush_def Let_def)

lemma tmeans_if:
  assumes "tmeans b P" "\<And>rest r. p \<Longrightarrow> c (length (snd b @ xs)) (snd b @ xs @ rest) r \<longleftrightarrow> Q r"
  shows "tmeans (tpush_if p xs c b) (\<lambda>r. P r \<and> (p \<longrightarrow> Q r))"
  using tmeans_push [of b P c xs Q] assms by (cases p) (simp_all add: tpush_if_def)

lemma args_end: "targ_at (as @ x # rest) (Suc (length as)) = Some x" "targ_at (as @ y # x # rest) (Suc (Suc (length as))) = Some x"
  by (simp_all add: targ_at_def nth_append)

definition found_in :: "string \<Rightarrow> string option list \<Rightarrow> bool" where
  "found_in q xs \<longleftrightarrow> list_ex (\<lambda>x. like (anywhere (to_lower q)) (to_lower (coalesce x []))) xs"

lemma tlike_end: "tlike xs (Suc (length as)) (as @ TText (anywhere (to_lower q)) # rest) \<longleftrightarrow> found_in q xs"
  by (simp add: tlike_def ttext_at_def args_end found_in_def)

definition se_matches :: "string \<Rightarrow> string \<Rightarrow> db \<Rightarrow> se_transfer \<Rightarrow> bool" where
  \<comment> \<open>of the team, and the search text in one of the four names\<close>
  "se_matches q team d s \<longleftrightarrow> (team \<noteq> [] \<longrightarrow> touches_team team s) \<and>
     (q \<noteq> [] \<longrightarrow> found_in q [user_name d (st_se s), team_title d (st_from s), team_title d (Some (st_to s)), user_name d (st_by s)])"

lemma se_where_means: "tmeans (se_where q team d) (se_matches q team d)"
proof -
  have "tmeans (se_where q team d) (\<lambda>s. (True \<and> (team \<noteq> [] \<longrightarrow> touches_team team s)) \<and>
      (q \<noteq> [] \<longrightarrow> found_in q [user_name d (st_se s), team_title d (st_from s), team_title d (Some (st_to s)), user_name d (st_by s)]))"
    unfolding se_where_def
    by (intro tmeans_if tmeans_Nil) (simp_all add: tlike_end, simp add: ttext_at_def targ_at_def touches_team_def)
  then show ?thesis by (simp add: se_matches_def [abs_def])
qed

definition lead_log_matches :: "string \<Rightarrow> string \<Rightarrow> string \<Rightarrow> string \<Rightarrow> db \<Rightarrow> handoff \<Rightarrow> bool" where
  \<comment> \<open>a listed action, of the team or else of the owner, of the action asked for, and the search text in one of four texts\<close>
  "lead_log_matches q action owner team d h \<longleftrightarrow> listed_action h \<and>
     (team \<noteq> [] \<longrightarrow> lead_has l_team team d h) \<and> (team = [] \<and> owner \<noteq> [] \<longrightarrow> lead_has l_createdBy owner d h) \<and>
     (action \<noteq> [] \<longrightarrow> ho_action h = action) \<and>
     (q \<noteq> [] \<longrightarrow> found_in q [map_option l_name (handoff_lead d h), user_name d (ho_actor h), Some (ho_detail h), Some (ho_action h)])"

lemma lead_where_means: "tmeans (lead_where q action owner team d) (lead_log_matches q action owner team d)"
proof -
  let ?b = "tpush [TTexts leadTransferActions] (\<lambda>n as h. tany_at as n (ho_action h)) ([], [])"
  have a: "tmeans ?b listed_action"
  proof -
    have "tmeans ?b (\<lambda>r. True \<and> listed_action r)"
      by (rule tmeans_push [OF tmeans_Nil]) (simp add: tany_at_def targ_at_def listed_action_def)
    then show ?thesis by simp
  qed
  let ?c = "if team \<noteq> [] then tpush [TText team] (\<lambda>n as h. ttext_at as n (\<lambda>t. lead_has l_team t d h)) ?b
      else if owner \<noteq> [] then tpush [TText owner] (\<lambda>n as h. ttext_at as n (\<lambda>t. lead_has l_createdBy t d h)) ?b else ?b"
  have l: "snd ?b = [TTexts leadTransferActions]" by (simp add: tpush_def)
  have t: "ttext_at (TTexts xs # TText v # rest) (Suc (Suc 0)) Q = Q v" for xs v rest Q by (simp add: ttext_at_def targ_at_def)
  have c: "tmeans ?c (\<lambda>h. listed_action h \<and> (team \<noteq> [] \<longrightarrow> lead_has l_team team d h) \<and> (team = [] \<and> owner \<noteq> [] \<longrightarrow> lead_has l_createdBy owner d h))"
  proof (cases "team \<noteq> []")
    case True
    show ?thesis using tmeans_push [OF a, of "\<lambda>n as h. ttext_at as n (\<lambda>t. lead_has l_team t d h)" "[TText team]" "lead_has l_team team d"] True
      by (simp add: l t)
  next
    case False
    show ?thesis using a tmeans_push [OF a, of "\<lambda>n as h. ttext_at as n (\<lambda>t. lead_has l_createdBy t d h)" "[TText owner]" "lead_has l_createdBy owner d"] False
      by (simp add: l t)
  qed
  have "tmeans (lead_where q action owner team d) (\<lambda>h. ((listed_action h \<and> (team \<noteq> [] \<longrightarrow> lead_has l_team team d h) \<and>
      (team = [] \<and> owner \<noteq> [] \<longrightarrow> lead_has l_createdBy owner d h)) \<and> (action \<noteq> [] \<longrightarrow> ho_action h = action)) \<and>
      (q \<noteq> [] \<longrightarrow> found_in q [map_option l_name (handoff_lead d h), user_name d (ho_actor h), Some (ho_detail h), Some (ho_action h)]))"
    unfolding lead_where_def by (intro tmeans_if c) (simp_all add: tlike_end ttext_at_def args_end)
  then show ?thesis by (simp add: lead_log_matches_def [abs_def])
qed

subsection \<open>The pages of both lists\<close>

definition good_cursor :: "transfer_cursor_text \<Rightarrow> bool" where
  \<comment> \<open>the empty cursor, or one the server gave\<close>
  "good_cursor c \<longleftrightarrow> c = NoTransferCursor \<or> (\<exists>u i. c = TransferCursor (At_time u) i)"

lemma walk_map:
  assumes "\<And>c. good c \<Longrightarrow> step' c = map_option (\<lambda>(xs, n). (map f xs, n)) (step c)"
    and "\<And>c xs c'. good c \<Longrightarrow> step c = Some (xs, Some c') \<Longrightarrow> good c'"
  shows "good c \<Longrightarrow> walk n step' c = map_option (map f) (walk n step c)"
proof (induction n arbitrary: c)
  case (Suc n)
  show ?case
  proof (cases "step c")
    case None
    then show ?thesis using assms(1) [OF Suc.prems] by simp
  next
    case (Some p)
    obtain xs nx where p: "p = (xs, nx)" by force
    show ?thesis using assms(1) [OF Suc.prems] assms(2) [OF Suc.prems, of xs] Suc.IH Some p
      by (cases nx) (auto simp: option.map_comp o_def)
  qed
qed simp

lemma keyset_page_step:
  assumes "0 < limit" "\<And>r. key' (f r) = key r"
  shows "(case keyset_page limit key' (map f (take (nat (limit + 1)) rows)) of (xs, nx, _) \<Rightarrow> (xs, nx)) =
    (map f (take (nat limit) rows), if length rows > nat limit then Some (log_cursor key (last (take (nat limit) rows))) else None)"
proof -
  have l: "nat (limit + 1) = Suc (nat limit)" "limit < int n \<longleftrightarrow> nat limit < n" for n using assms(1) by auto
  have m: "nat limit < length (take (Suc (nat limit)) rows) \<longleftrightarrow> nat limit < length rows" by auto
  show ?thesis
  proof (cases "nat limit < length rows")
    case True
    then have "take (nat limit) rows \<noteq> []" using assms(1) by auto
    then show ?thesis using True
      by (simp add: keyset_page_def Let_def l m [simplified] take_map last_map assms(2) log_cursor_def min_def)
  next
    case False
    then show ?thesis by (simp add: keyset_page_def Let_def l)
  qed
qed

definition se_step :: "(string \<Rightarrow> 'k::linorder) \<Rightarrow> string \<Rightarrow> int \<Rightarrow> string \<Rightarrow> world \<Rightarrow> transfer_cursor_text \<Rightarrow>
    (se_transfer_log list \<times> transfer_cursor_text option) option" where
  \<comment> \<open>one request for the team changes of executives\<close>
  "se_step coll q limit team w c = (case ListSalesExecTeamTransfers coll q c limit team w of
     (Inl e, w') \<Rightarrow> None | (Inr (page, n), w') \<Rightarrow> Some (case page of (xs, nx, _) \<Rightarrow> (xs, nx)))"

definition lead_log_step :: "(string \<Rightarrow> 'k::linorder) \<Rightarrow> string \<Rightarrow> string \<Rightarrow> int \<Rightarrow> string \<Rightarrow> string \<Rightarrow> world \<Rightarrow> transfer_cursor_text \<Rightarrow>
    (lead_transfer_log list \<times> transfer_cursor_text option) option" where
  \<comment> \<open>one request for the handoffs of leads\<close>
  "lead_log_step coll q action limit owner team w c = (case ListLeadTransfers coll q action c limit owner team w of
     (Inl e, w') \<Rightarrow> None | (Inr (page, n), w') \<Rightarrow> Some (case page of (xs, nx, _) \<Rightarrow> (xs, nx)))"

lemma cursor_clause:
  assumes "tmeans b P" "good_cursor c" "decodeTransferCursor c = Some (t, i)"
  shows "tholds (tpush_if (t \<noteq> NoTime \<and> i \<noteq> []) [TTime (case t of At_time u \<Rightarrow> u | _ \<Rightarrow> 0), TText i]
      (\<lambda>n as s. before coll n as (fst (key s)) (snd (key s))) b) rest r \<longleftrightarrow> P r \<and> log_after coll key c r"
    and "t \<noteq> BadTime"
proof -
  show "t \<noteq> BadTime" using assms(2,3) by (auto simp: good_cursor_def decodeTransferCursor_def)
  have "tmeans (tpush_if (t \<noteq> NoTime \<and> i \<noteq> []) [TTime (case t of At_time u \<Rightarrow> u | _ \<Rightarrow> 0), TText i]
      (\<lambda>n as s. before coll n as (fst (key s)) (snd (key s))) b)
    (\<lambda>r. P r \<and> (t \<noteq> NoTime \<and> i \<noteq> [] \<longrightarrow> (case t of At_time u \<Rightarrow> fst (key r) < u \<or> fst (key r) = u \<and> coll (snd (key r)) < coll i | _ \<Rightarrow> True)))"
    by (rule tmeans_if [OF assms(1)]) (use assms(2,3) in \<open>auto simp: before_def targ_at_def nth_append good_cursor_def decodeTransferCursor_def\<close>)
  then show "tholds (tpush_if (t \<noteq> NoTime \<and> i \<noteq> []) [TTime (case t of At_time u \<Rightarrow> u | _ \<Rightarrow> 0), TText i]
      (\<lambda>n as s. before coll n as (fst (key s)) (snd (key s))) b) rest r \<longleftrightarrow> P r \<and> log_after coll key c r"
    using assms(2,3) unfolding tmeans_def
    by (auto simp: good_cursor_def decodeTransferCursor_def log_after_def)
qed

lemma clamp_transfer: "0 < clampTransferLimit n"
  by (simp add: clampTransferLimit_def)

lemma se_step_keyset:
  fixes w :: world
  defines "d \<equiv> tables w"
  assumes "calm w" "log_ready coll (\<lambda>s. (st_at s, st_id s)) (se_transfers d)" "good_cursor c"
  shows "se_step coll q limit team w c = map_option (\<lambda>(xs, n). (map (se_log_of d) xs, n))
    (keyset_step (nat (clampTransferLimit limit)) (\<lambda>c. filter (log_after coll (\<lambda>s. (st_at s, st_id s)) c)
       (log_all coll (\<lambda>s. (st_at s, st_id s)) (se_matches (trim q) (trim team) d) (se_transfers d))) (log_cursor (\<lambda>s. (st_at s, st_id s))) c)"
proof -
  let ?key = "\<lambda>s. (st_at s, st_id s)" and ?P = "se_matches (trim q) (trim team) d" and ?lim = "clampTransferLimit limit"
  obtain t i where ti: "decodeTransferCursor c = Some (t, i)" using assms(4) by (auto simp: good_cursor_def decodeTransferCursor_def)
  have clause: "tholds (tpush_if (t \<noteq> NoTime \<and> i \<noteq> []) [TTime (case t of At_time u \<Rightarrow> u | _ \<Rightarrow> 0), TText i]
      (\<lambda>n as s. before coll n as (st_at s) (st_id s)) (se_where (trim q) (trim team) d)) rest r \<longleftrightarrow> ?P r \<and> log_after coll ?key c r" for rest r
    using cursor_clause(1) [OF se_where_means assms(4) ti, where key = ?key and coll = coll] by simp
  obtain w1 where w1: "query (\<lambda>d. count_rows (tholds (se_where (trim q) (trim team) d) []) (se_transfers d)) w =
      (Inr (count_rows (tholds (se_where (trim q) (trim team) d) []) (se_transfers d)), w1)" "calm w1" "tables w1 = d"
    using calm_query [OF assms(2)] unfolding d_def by blast
  define rows where "rows = filter (log_after coll ?key c) (log_all coll ?key ?P (se_transfers d))"
  define f where "f = (\<lambda>d. map (se_log_of d) (take (nat (?lim + 1)) (order_by (\<lambda>a b. newer coll (st_at a, st_id a) (st_at b, st_id b))
      (filter (tholds (tpush_if (t \<noteq> NoTime \<and> i \<noteq> []) [TTime (case t of At_time u \<Rightarrow> u | _ \<Rightarrow> 0), TText i]
         (\<lambda>n as s. before coll n as (st_at s) (st_id s)) (se_where (trim q) (trim team) d)) [TCount (?lim + 1)]) (se_transfers d)))))"
  have f: "f d = map (se_log_of d) (take (nat (?lim + 1)) rows)"
    unfolding f_def rows_def clause [THEN ext] log_page [OF assms(3)] ..
  obtain w2 where w2: "query f w1 = (Inr (f d), w2)" using calm_query [OF w1(2), of f] w1(3) by auto
  have "ListSalesExecTeamTransfers coll q c limit team w =
      (Inr (keyset_page ?lim (\<lambda>r. (sl_at r, sl_id r)) (f d), count_rows (tholds (se_where (trim q) (trim team) d) []) (se_transfers d)), w2)"
    using w1 w2 cursor_clause(2) [OF se_where_means assms(4) ti]
    by (simp add: ListSalesExecTeamTransfers_def Let_def bindE_def ti ret_def f_def)
  then show ?thesis unfolding se_step_def
    using keyset_page_step [OF clamp_transfer, of "\<lambda>r. (sl_at r, sl_id r)" "se_log_of d" ?key limit rows]
    by (simp add: f keyset_step_def rows_def se_log_of_def)
qed

definition named_action :: "string \<Rightarrow> string" where
  \<comment> \<open>the action asked for, empty for all\<close>
  "named_action a = (if trim a \<noteq> [] \<and> trim a \<noteq> ''all'' then trim a else [])"

lemma lead_log_step_keyset:
  fixes w :: world and action :: string
  defines "d \<equiv> tables w" and "act \<equiv> named_action action"
  assumes "calm w" "log_ready coll (\<lambda>h. (ho_at h, ho_id h)) (handoffs d)" "good_cursor c"
    and known: "act = [] \<or> map_of leadTransferActionLabels act \<noteq> None"
  shows "lead_log_step coll q action limit owner team w c = map_option (\<lambda>(xs, n). (map (lead_log_of d) xs, n))
    (keyset_step (nat (clampTransferLimit limit)) (\<lambda>c. filter (log_after coll (\<lambda>h. (ho_at h, ho_id h)) c)
       (log_all coll (\<lambda>h. (ho_at h, ho_id h)) (lead_log_matches (trim q) act (trim owner) (trim team) d) (handoffs d))) (log_cursor (\<lambda>h. (ho_at h, ho_id h))) c)"
proof -
  let ?key = "\<lambda>h. (ho_at h, ho_id h)" and ?P = "lead_log_matches (trim q) act (trim owner) (trim team) d" and ?lim = "clampTransferLimit limit"
  let ?where = "lead_where (trim q) act (trim owner) (trim team)"
  obtain t i where ti: "decodeTransferCursor c = Some (t, i)" using assms(5) by (auto simp: good_cursor_def decodeTransferCursor_def)
  have clause: "tholds (tpush_if (t \<noteq> NoTime \<and> i \<noteq> []) [TTime (case t of At_time u \<Rightarrow> u | _ \<Rightarrow> 0), TText i]
      (\<lambda>n as h. before coll n as (ho_at h) (ho_id h)) (?where d)) rest r \<longleftrightarrow> ?P r \<and> log_after coll ?key c r" for rest r
    using cursor_clause(1) [OF lead_where_means assms(5) ti, where key = ?key and coll = coll] by simp
  obtain w1 where w1: "query (\<lambda>d. count_rows (tholds (?where d) []) (handoffs d)) w =
      (Inr (count_rows (tholds (?where d) []) (handoffs d)), w1)" "calm w1" "tables w1 = d"
    using calm_query [OF assms(3)] unfolding d_def by blast
  define rows where "rows = filter (log_after coll ?key c) (log_all coll ?key ?P (handoffs d))"
  define f where "f = (\<lambda>d. map (lead_log_of d) (take (nat (?lim + 1)) (order_by (\<lambda>a b. newer coll (ho_at a, ho_id a) (ho_at b, ho_id b))
      (filter (tholds (tpush_if (t \<noteq> NoTime \<and> i \<noteq> []) [TTime (case t of At_time u \<Rightarrow> u | _ \<Rightarrow> 0), TText i]
         (\<lambda>n as h. before coll n as (ho_at h) (ho_id h)) (?where d)) [TCount (?lim + 1)]) (handoffs d)))))"
  have f: "f d = map (lead_log_of d) (take (nat (?lim + 1)) rows)"
    unfolding f_def rows_def clause [THEN ext] log_page [OF assms(4)] ..
  obtain w2 where w2: "query f w1 = (Inr (f d), w2)" using calm_query [OF w1(2), of f] w1(3) by auto
  have named: "\<not> ((trim action \<noteq> [] \<and> trim action \<noteq> ''all'') \<and> map_of leadTransferActionLabels (trim action) = None)"
    using known unfolding act_def named_action_def by (auto split: if_splits)
  have "ListLeadTransfers coll q action c limit owner team w =
      (Inr (keyset_page ?lim (\<lambda>r. (lt_at r, lt_id r)) (f d), count_rows (tholds (?where d) []) (handoffs d)), w2)"
    using w1 w2 cursor_clause(2) [OF lead_where_means assms(5) ti] unfolding ListLeadTransfers_def Let_def if_not_P [OF named] act_def [unfolded named_action_def, symmetric]
    by (simp add: bindE_def ti ret_def f_def)
  then show ?thesis unfolding lead_log_step_def
    using keyset_page_step [OF clamp_transfer, of "\<lambda>r. (lt_at r, lt_id r)" "lead_log_of d" ?key limit rows]
    by (simp add: f keyset_step_def rows_def lead_log_of_def)
qed

definition ready_log :: "(string \<Rightarrow> 'k::linorder) \<Rightarrow> ('r \<Rightarrow> int \<times> string) \<Rightarrow> ('r \<Rightarrow> bool) \<Rightarrow> 'r list \<Rightarrow> 'r list" where
  "ready_log coll key P rows = (if log_ready coll key rows then log_all coll key P rows else [])"

interpretation log_pages: keyset "ready_log coll key P rows" "log_after coll key" "log_cursor key" "nat (clampTransferLimit limit)"
  for coll :: "string \<Rightarrow> 'k::linorder" and key P rows limit
proof
  show "nat (clampTransferLimit limit) > 0" using clamp_transfer [of limit] by simp
  fix ys x zs assume a: "ready_log coll key P rows = ys @ x # zs"
  have r: "log_ready coll key rows" using a by (auto simp: ready_log_def split: if_splits)
  show "filter (log_after coll key (log_cursor key x)) (ready_log coll key P rows) = zs"
    unfolding ready_log_def if_P [OF r] by (rule log_cuts [OF r a [unfolded ready_log_def if_P [OF r]]])
qed

lemma log_cursors_good: "keyset_step n rows (log_cursor key) c = Some (xs, Some c') \<Longrightarrow> good_cursor c'"
  by (auto simp: keyset_step_def log_cursor_def good_cursor_def split: if_splits)

lemma log_walk:
  assumes ready: "log_ready coll key rows" and n: "length (filter P rows) < n"
    and step: "\<And>c. good_cursor c \<Longrightarrow> step c = map_option (\<lambda>(xs, n). (map f xs, n))
      (keyset_step (nat (clampTransferLimit limit)) (\<lambda>c. filter (log_after coll key c) (log_all coll key P rows)) (log_cursor key) c)"
  shows "walk n step NoTransferCursor = Some (map f (log_all coll key P rows))"
proof -
  have r: "ready_log coll key P rows = log_all coll key P rows" using ready by (simp add: ready_log_def)
  have "walk n (keyset_step (nat (clampTransferLimit limit)) (\<lambda>c. filter (log_after coll key c) (log_all coll key P rows)) (log_cursor key)) NoTransferCursor =
      Some (log_all coll key P rows)"
    unfolding r [symmetric] by (rule log_pages.keyset_walk) (use n in \<open>simp_all add: r log_after_def log_all_def\<close>)
  moreover have "good_cursor NoTransferCursor" by (simp add: good_cursor_def)
  moreover have "good_cursor c \<Longrightarrow> walk n step c = map_option (map f) (walk n
      (keyset_step (nat (clampTransferLimit limit)) (\<lambda>c. filter (log_after coll key c) (log_all coll key P rows)) (log_cursor key)) c)" for c
    by (rule walk_map [where good = good_cursor]) (erule step, erule log_cursors_good)
  ultimately show ?thesis by simp
qed

lemma log_all_facts:
  "set (log_all coll key P rows) = {r \<in> set rows. P r}"
  "log_ready coll key rows \<Longrightarrow> distinct (log_all coll key P rows) \<and> sorted_wrt (\<lambda>a b. newer coll (key a) (key b)) (log_all coll key P rows)"
  using log_ordered [of coll key rows P] by (auto simp: log_all_def set_order_by well_ordered_by_def)

text \<open>C31. Following the cursors of either transfer log ends and shows every matching entry exactly
  once, newest first, whatever the page size: the team changes of executives that touch the team asked
  for, or the listed handoffs of the leads of the team or owner, with the search text in one of the
  shown names; provided ids are unique and not empty and the collation tells them apart.\<close>

theorem transfer_logs_complete:
  assumes "calm w" "log_ready coll (\<lambda>s. (st_at s, st_id s)) (se_transfers (tables w))" "log_ready coll (\<lambda>h. (ho_at h, ho_id h)) (handoffs (tables w))"
    and "named_action action = [] \<or> map_of leadTransferActionLabels (named_action action) \<noteq> None"
    and "length (se_transfers (tables w)) < n" "length (handoffs (tables w)) < n"
  shows "(\<exists>shown. walk n (se_step coll q limit team w) NoTransferCursor = Some (map (se_log_of (tables w)) shown) \<and>
      set shown = {s \<in> set (se_transfers (tables w)). se_matches (trim q) (trim team) (tables w) s} \<and> distinct shown \<and>
      sorted_wrt (\<lambda>a b. newer coll (st_at a, st_id a) (st_at b, st_id b)) shown) \<and>
    (\<exists>shown. walk n (lead_log_step coll q action limit owner team w) NoTransferCursor = Some (map (lead_log_of (tables w)) shown) \<and>
      set shown = {h \<in> set (handoffs (tables w)). lead_log_matches (trim q) (named_action action) (trim owner) (trim team) (tables w) h} \<and>
      distinct shown \<and> sorted_wrt (\<lambda>a b. newer coll (ho_at a, ho_id a) (ho_at b, ho_id b)) shown)"
proof -
  have n: "length (filter P (se_transfers (tables w))) < n" "length (filter Q (handoffs (tables w))) < n" for P Q
    using assms(5,6) length_filter_le [of P "se_transfers (tables w)"] length_filter_le [of Q "handoffs (tables w)"] by linarith+
  have "walk n (se_step coll q limit team w) NoTransferCursor = Some (map (se_log_of (tables w))
      (log_all coll (\<lambda>s. (st_at s, st_id s)) (se_matches (trim q) (trim team) (tables w)) (se_transfers (tables w))))"
    by (rule log_walk [OF assms(2) n(1)]) (rule se_step_keyset [OF assms(1,2)])
  moreover have "walk n (lead_log_step coll q action limit owner team w) NoTransferCursor = Some (map (lead_log_of (tables w))
      (log_all coll (\<lambda>h. (ho_at h, ho_id h)) (lead_log_matches (trim q) (named_action action) (trim owner) (trim team) (tables w)) (handoffs (tables w))))"
    by (rule log_walk [OF assms(3) n(2)]) (rule lead_log_step_keyset [OF assms(1,3) _ assms(4)])
  ultimately show ?thesis using log_all_facts(2) [OF assms(2)] log_all_facts(2) [OF assms(3)]
    by (intro conjI exI) (assumption | simp add: log_all_facts(1))+
qed

definition logs :: db where
  \<comment> \<open>three team changes and a handoff\<close>
  "logs = empty_db\<lparr>users := [(blank_user ''se'')\<lparr>u_name := ''Sita''\<rparr>],
     se_transfers := map (\<lambda>(i, t). \<lparr>st_id = i, st_se = ''se'', st_from = None, st_to = ''t1'', st_by = ''u'', st_at = t\<rparr>)
       [(''a'', 1), (''b'', 2), (''c'', 2)],
     handoffs := [\<lparr>ho_id = ''h'', ho_at = 5, ho_lead = ''l'', ho_action = ''ASSIGNED_TO_EXECUTIVE'', ho_actor = ''se'', ho_detail = ''d''\<rparr>]\<rparr>"

theorem transfer_logs_complete_witness:
  "\<exists>shown. walk 4 (se_step (\<lambda>s. s) ''SITA'' 2 [] (calm_world logs)) NoTransferCursor = Some (map (se_log_of logs) shown) \<and>
     st_id ` set shown = {''a'', ''b'', ''c''}"
proof -
  have t: "tables (calm_world logs) = logs" by (rule calm_calm_world)
  have r: "log_ready (\<lambda>s. s) (\<lambda>s. (st_at s, st_id s)) (se_transfers logs)" "log_ready (\<lambda>s. s) (\<lambda>h. (ho_at h, ho_id h)) (handoffs logs)"
    by (simp_all add: log_ready_def logs_def)
  have n: "length (se_transfers logs) < 4" "length (handoffs logs) < 4" by (simp_all add: logs_def)
  have a: "named_action [] = []" by code_simp
  have m: "list_all (se_matches (trim ''SITA'') (trim []) logs) (se_transfers logs)" by code_simp
  have ids: "st_id ` set (se_transfers logs) = {''a'', ''b'', ''c''}" by (simp add: logs_def)
  obtain shown where s: "walk 4 (se_step (\<lambda>s. s) ''SITA'' 2 [] (calm_world logs)) NoTransferCursor = Some (map (se_log_of logs) shown)"
    "set shown = {s \<in> set (se_transfers logs). se_matches (trim ''SITA'') (trim []) logs s}"
    using transfer_logs_complete [of "calm_world logs" "\<lambda>s. s" "[]" 4 "''SITA''" 2 "[]"] calm_calm_world(1) [of logs] r n a
    unfolding t by blast
  have "set shown = set (se_transfers logs)" using m unfolding s(2) by (auto simp: list_all_iff)
  then show ?thesis using s(1) ids by (intro exI [of _ shown]) simp
qed

text \<open>The search text is bound into the LIKE pattern as it is: an underscore matches any character, so
  it finds names that do not contain it.\<close>

lemma transfer_search_wildcard: "found_in ''_'' [Some ''Sita''] \<and> found_in ''s%a'' [Some ''Sita''] \<and> \<not> found_in ''_'' [None]"
  by code_simp

end
