(* ===== verification/Cors.thy ===== *)
theory Cors
  imports AuthHandlers
begin

section \<open>Cross-origin requests (cors.go)\<close>

text \<open>
  The list of origins the deployment allows and the wrapper \<open>withCORS\<close> around every route. An answer
  carries the headers the wrapper sets; the handler behind it is run only when the wrapper lets the
  request through. \<open>CORSConfig\<close> is the list of its map's keys, \<open>None\<close> the nil pointer.
\<close>

definition trim_end_slashes :: "string \<Rightarrow> string" where
  \<comment> \<open>\<open>strings.TrimRight(s, "/")\<close>\<close>
  "trim_end_slashes s = rev (dropWhile (\<lambda>c. c = CHR ''/'') (rev s))"

definition loadCORSConfig :: "(string \<Rightarrow> string) \<Rightarrow> string list" where
  "loadCORSConfig env = map trim_end_slashes
     (filter (\<lambda>origin. origin \<noteq> []) (map trim (split_on CHR '','' (envOr env ''CORS_ORIGINS'' []))))"

definition allows :: "string list option \<Rightarrow> string \<Rightarrow> bool" where
  "allows c origin = (case c of None \<Rightarrow> False
     | Some allowed \<Rightarrow> origin \<noteq> [] \<and> trim_end_slashes origin \<in> set allowed)"

type_synonym headers = "(string \<times> string) list"

definition cors_headers :: "string \<Rightarrow> headers" where
  "cors_headers origin =
     [(''Access-Control-Allow-Origin'', origin), (''Access-Control-Allow-Credentials'', ''true''), (''Vary'', ''Origin''),
      (''Access-Control-Allow-Methods'', ''GET, POST, PUT, PATCH, DELETE, OPTIONS''),
      (''Access-Control-Allow-Headers'', ''Content-Type, Authorization, X-LeadFlow-Session''),
      (''Access-Control-Max-Age'', ''86400'')]"

definition applyCORS :: "string list option \<Rightarrow> string \<Rightarrow> string \<Rightarrow> bool \<times> headers" where
  \<comment> \<open>given the Origin header and the method; \<open>False\<close> after a 403 was written\<close>
  "applyCORS c origin0 meth = (let origin = trim origin0 in
     if origin = [] then (True, [])
     else if \<not> allows c origin then (meth \<noteq> ''OPTIONS'', [])
     else (True, cors_headers origin))"

record answer =
  an_status :: nat
  an_headers :: headers
  an_body :: "response option"   \<comment> \<open>what the handler wrote, when it was run\<close>

definition withCORS :: "string list option \<Rightarrow> string \<Rightarrow> request \<Rightarrow> response act \<Rightarrow> server \<Rightarrow> answer \<times> server" where
  "withCORS c origin r next s = (case applyCORS c origin (rq_method r) of
     (ok, hs) \<Rightarrow>
       if \<not> ok then (\<lparr>an_status = 403, an_headers = hs, an_body = None\<rparr>, s)
       else if rq_method r = ''OPTIONS'' then (\<lparr>an_status = 204, an_headers = hs, an_body = None\<rparr>, s)
       else case run_handler next s of
         (resp, s') \<Rightarrow> (\<lparr>an_status = r_status resp, an_headers = hs, an_body = Some resp\<rparr>, s'))"

definition may_read :: "answer \<Rightarrow> string \<Rightarrow> bool" where
  \<comment> \<open>a browser lets a page of the origin read a credentialed answer\<close>
  "may_read a origin \<longleftrightarrow> map_of (an_headers a) ''Access-Control-Allow-Origin'' = Some origin"

lemma map_of_cors_headers [simp]: "map_of (cors_headers origin) ''Access-Control-Allow-Origin'' = Some origin"
  by (simp add: cors_headers_def)

lemma withCORS_headers: "an_headers (fst (withCORS c origin r next s)) = snd (applyCORS c origin (rq_method r))"
  by (simp add: withCORS_def split: prod.split)

lemma end_slashes_gone: "trim_end_slashes (trim_end_slashes s) = trim_end_slashes s"
  by (simp add: trim_end_slashes_def dropWhile_idem)

lemma loaded_origin: "trim_end_slashes v \<in> set (loadCORSConfig env) \<longleftrightarrow>
    (\<exists>part \<in> set (split_on CHR '','' (envOr env ''CORS_ORIGINS'' [])). trim part \<noteq> [] \<and> trim_end_slashes (trim part) = trim_end_slashes v)"
  by (auto simp: loadCORSConfig_def image_iff)

text \<open>C35. A page may read the answers of the server only from an origin that the deployment lists in
  \<open>CORS_ORIGINS\<close> (up to final slashes), and it may then; a preflight request never reaches the
  handler and leaves the state of the server alone.\<close>

theorem only_listed_origins_read:
  "let a = fst (withCORS (Some (loadCORSConfig env)) origin r next s) in
     (may_read a v \<longleftrightarrow> v \<noteq> [] \<and> v = trim origin \<and>
       (\<exists>part \<in> set (split_on CHR '','' (envOr env ''CORS_ORIGINS'' [])).
          trim part \<noteq> [] \<and> trim_end_slashes (trim part) = trim_end_slashes v)) \<and>
     (rq_method r = ''OPTIONS'' \<longrightarrow> an_body a = None \<and> an_status a \<in> {204, 403} \<and>
        snd (withCORS (Some (loadCORSConfig env)) origin r next s) = s)"
proof -
  let ?c = "Some (loadCORSConfig env)"
  have "may_read (fst (withCORS ?c origin r next s)) v \<longleftrightarrow> v = trim origin \<and> allows ?c v"
    by (auto simp: may_read_def withCORS_headers applyCORS_def Let_def allows_def)
  moreover have "rq_method r = ''OPTIONS'' \<Longrightarrow> an_body (fst (withCORS ?c origin r next s)) = None \<and>
      an_status (fst (withCORS ?c origin r next s)) \<in> {204, 403} \<and> snd (withCORS ?c origin r next s) = s"
    by (simp add: withCORS_def split: prod.split)
  ultimately show ?thesis by (auto simp: Let_def allows_def loaded_origin)
qed

definition cors_env :: "string \<Rightarrow> string" where
  "cors_env k = (if k = ''CORS_ORIGINS'' then ''https://app.x/, https://b.y'' else [])"

definition options_request :: request where
  "options_request = \<lparr>rq_method = ''OPTIONS'', rq_authorization = [], rq_cookie = None, rq_session = [], rq_query = [],
     rq_forwarded = [], rq_realIP = [], rq_remote = [], rq_host = None\<rparr>"

theorem only_listed_origins_read_witness:
  "may_read (fst (withCORS (Some (loadCORSConfig cors_env)) ''https://app.x'' options_request
     (reply method_not_allowed) (fresh_server empty_db))) ''https://app.x''"
proof -
  have "trim ''https://app.x'' = ''https://app.x'' \<and>
      list_ex (\<lambda>part. trim part \<noteq> [] \<and> trim_end_slashes (trim part) = trim_end_slashes ''https://app.x'')
        (split_on CHR '','' (envOr cors_env ''CORS_ORIGINS'' []))" by code_simp
  then show ?thesis
    using only_listed_origins_read [of cors_env "''https://app.x''" options_request "reply method_not_allowed"
        "fresh_server empty_db" "''https://app.x''"]
    by (auto simp: Let_def list_ex_iff)
qed

end
