(* ===== verification/Migrate.thy ===== *)
theory Migrate
  imports Prelude
begin

section \<open>Schema migrations (migrate.go)\<close>

text \<open>
  The splitting of a migration file into statements and the loop that applies the files not yet
  recorded. What a statement does to the schema is a parameter, \<open>ddl\<close>, as PostgreSQL decides it; the
  rows of \<open>schema_migrations\<close> are part of the state, and any statement may fail. An entry of the
  embedded directory is its name, whether it is a directory, and its content.
\<close>

subsection \<open>Statements of a file\<close>

definition new_line :: char where
  "new_line = CHR 0x0A"

definition has_suffix :: "string \<Rightarrow> string \<Rightarrow> bool" where
  \<comment> \<open>strings.HasSuffix\<close>
  "has_suffix s p = has_prefix (rev s) (rev p)"

definition trim_suffix :: "string \<Rightarrow> string \<Rightarrow> string" where
  \<comment> \<open>strings.TrimSuffix\<close>
  "trim_suffix s p = (if has_suffix s p then take (length s - length p) s else s)"

definition statement_text :: "string \<Rightarrow> string" where
  \<comment> \<open>the trimmed statement without its semicolon\<close>
  "statement_text b = trim (trim_suffix (trim b) '';'')"

fun split_lines :: "string list \<Rightarrow> string \<Rightarrow> string list" where
  \<comment> \<open>the loop over the lines, with the builder\<close>
  "split_lines [] b = (let rest = trim b in if rest \<noteq> [] then [trim_suffix rest '';''] else [])"
| "split_lines (line # ls) b =
     (let t = trim line in
      if t = [] \<or> has_prefix t ''--'' then split_lines ls b
      else let b' = b @ line @ [new_line] in
        if has_suffix t '';'' then
          (if statement_text b' \<noteq> [] then [statement_text b'] else []) @ split_lines ls []
        else split_lines ls b')"

definition splitSQLStatements :: "string \<Rightarrow> string list" where
  "splitSQLStatements body = split_lines (split_on new_line body) []"

subsection \<open>Applying the files\<close>

record 's schema_db =
  sd_schema :: 's
  sd_versions :: "string list"          \<comment> \<open>the rows of schema_migrations\<close>
  sd_faults :: "string option list"     \<comment> \<open>the next statement fails with the message\<close>

definition statement :: "('s schema_db \<Rightarrow> string + 'a \<times> 's schema_db) \<Rightarrow> 's schema_db \<Rightarrow> (string + 'a) \<times> 's schema_db" where
  "statement f s = (case sd_faults s of
     Some m # fs \<Rightarrow> (Inl m, s\<lparr>sd_faults := fs\<rparr>)
   | fs \<Rightarrow> (case f s of Inl m \<Rightarrow> (Inl m, s\<lparr>sd_faults := tl fs\<rparr>)
            | Inr (a, s') \<Rightarrow> (Inr a, s'\<lparr>sd_faults := tl fs\<rparr>)))"

definition run_ddl :: "(string \<Rightarrow> 's \<Rightarrow> string + 's) \<Rightarrow> string \<Rightarrow> 's schema_db \<Rightarrow> (string + unit) \<times> 's schema_db" where
  "run_ddl ddl q = statement (\<lambda>s. case ddl q (sd_schema s) of Inl m \<Rightarrow> Inl m | Inr x \<Rightarrow> Inr ((), s\<lparr>sd_schema := x\<rparr>))"

definition soft :: "string \<Rightarrow> bool" where
  \<comment> \<open>managed databases may refuse the trigram extension and its indexes\<close>
  "soft q \<longleftrightarrow> contains (to_lower q) ''pg_trgm'' \<or> contains (to_lower q) ''gin_trgm_ops''"

fun exec_statements :: "(string \<Rightarrow> 's \<Rightarrow> string + 's) \<Rightarrow> string list \<Rightarrow> 's schema_db \<Rightarrow> (string + unit) \<times> 's schema_db" where
  "exec_statements ddl [] s = (Inr (), s)"
| "exec_statements ddl (q # qs) s = (case run_ddl ddl q s of
     (Inr _, s') \<Rightarrow> exec_statements ddl qs s'
   | (Inl m, s') \<Rightarrow> if soft q then exec_statements ddl qs s' else (Inl m, s'))"

definition execMigrationSQL :: "(string \<Rightarrow> 's \<Rightarrow> string + 's) \<Rightarrow> string \<Rightarrow> 's schema_db \<Rightarrow> (string + unit) \<times> 's schema_db" where
  "execMigrationSQL ddl body = exec_statements ddl (splitSQLStatements body)"

definition record_version :: "string \<Rightarrow> 's schema_db \<Rightarrow> (string + unit) \<times> 's schema_db" where
  \<comment> \<open>the version is the primary key\<close>
  "record_version v = statement (\<lambda>s. if v \<in> set (sd_versions s) then Inl ''duplicate key''
     else Inr ((), s\<lparr>sd_versions := sd_versions s @ [v]\<rparr>))"

fun migrate_each :: "(string \<Rightarrow> 's \<Rightarrow> string + 's) \<Rightarrow> (string \<times> string) list \<Rightarrow> 's schema_db \<Rightarrow> (string + unit) \<times> 's schema_db" where
  "migrate_each ddl [] s = (Inr (), s)"
| "migrate_each ddl ((v, body) # fs) s = (case statement (\<lambda>s. Inr (v \<in> set (sd_versions s), s)) s of
     (Inl m, s1) \<Rightarrow> (Inl (''check migration '' @ v @ '': '' @ m), s1)
   | (Inr True, s1) \<Rightarrow> migrate_each ddl fs s1
   | (Inr False, s1) \<Rightarrow> (case execMigrationSQL ddl body s1 of
        (Inl m, s2) \<Rightarrow> (Inl (''apply '' @ v @ '': '' @ m), s2)
      | (Inr _, s2) \<Rightarrow> (case record_version v s2 of
           (Inl m, s3) \<Rightarrow> (Inl (''record '' @ v @ '': '' @ m), s3)
         | (Inr _, s3) \<Rightarrow> migrate_each ddl fs s3)))"

type_synonym dir_entry = "string \<times> bool \<times> string"

definition up_sql :: string where
  "up_sql = ''.up.sql''"

definition migration_files :: "dir_entry list \<Rightarrow> (string \<times> string) list" where
  \<comment> \<open>the files of the directory by name, as version and content\<close>
  "migration_files entries = map (\<lambda>(name, _, body). (trim_suffix name up_sql, body))
     (sort_key fst (filter (\<lambda>(name, is_dir, _). \<not> is_dir \<and> has_suffix name up_sql) entries))"

definition RunCRMMigrations :: "(string \<Rightarrow> 's \<Rightarrow> string + 's) \<Rightarrow> dir_entry list \<Rightarrow> 's schema_db \<Rightarrow> (string + unit) \<times> 's schema_db" where
  \<comment> \<open>\<open>CREATE TABLE IF NOT EXISTS schema_migrations\<close> first\<close>
  "RunCRMMigrations ddl entries s = (case statement (\<lambda>s. Inr ((), s)) s of
     (Inl m, s1) \<Rightarrow> (Inl (''create schema_migrations: '' @ m), s1)
   | (Inr _, s1) \<Rightarrow> migrate_each ddl (migration_files entries) s1)"

subsection \<open>What the splitter finds\<close>

definition code_line :: "string \<Rightarrow> bool" where
  \<comment> \<open>neither blank nor a comment\<close>
  "code_line l \<longleftrightarrow> trim l \<noteq> [] \<and> \<not> has_prefix (trim l) ''--''"

definition ends_statement :: "string \<Rightarrow> bool" where
  "ends_statement l \<longleftrightarrow> has_suffix (trim l) '';''"

definition statement_lines :: "string list \<Rightarrow> bool" where
  \<comment> \<open>the lines of one statement: a semicolon ends the last one, and no other\<close>
  "statement_lines ls \<longleftrightarrow> ls \<noteq> [] \<and> list_all code_line ls \<and> ends_statement (last ls) \<and>
     list_all (\<lambda>l. \<not> ends_statement l) (butlast ls)"

definition lines_text :: "string list \<Rightarrow> string" where
  "lines_text ls = concat (map (\<lambda>l. l @ [new_line]) ls)"

lemma split_on_no_sep: "d \<notin> set l \<Longrightarrow> split_on d l = [l]"
  by (induction l) auto

lemma split_on_append: "d \<notin> set l \<Longrightarrow> split_on d (l @ d # rest) = l # split_on d rest"
  by (induction l) auto

lemma split_on_join: "ls \<noteq> [] \<Longrightarrow> list_all (\<lambda>l. d \<notin> set l) ls \<Longrightarrow> split_on d (join [d] ls) = ls"
  by (induction ls rule: induct_list012) (simp_all add: split_on_no_sep split_on_append)

lemma split_lines_code: "split_lines ls b = split_lines (filter code_line ls) b"
  by (induction ls b rule: split_lines.induct) (auto simp: code_line_def Let_def)

lemma split_lines_statement:
  "list_all code_line ms \<Longrightarrow> list_all (\<lambda>l. \<not> ends_statement l) ms \<Longrightarrow> code_line l \<Longrightarrow> ends_statement l \<Longrightarrow>
   split_lines (ms @ l # rest) b = (let t = statement_text (b @ lines_text (ms @ [l])) in if t \<noteq> [] then [t] else []) @ split_lines rest []"
proof (induction ms arbitrary: b)
  case Nil
  then show ?case by (simp add: code_line_def ends_statement_def lines_text_def Let_def)
next
  case (Cons m ms)
  have "split_lines ((m # ms) @ l # rest) b = split_lines (ms @ l # rest) (b @ m @ [new_line])"
    using Cons.prems by (simp add: code_line_def ends_statement_def Let_def)
  then show ?case using Cons.IH [of "b @ m @ [new_line]"] Cons.prems by (simp add: lines_text_def)
qed

lemma split_lines_statements:
  "list_all statement_lines blocks \<Longrightarrow> split_lines (concat blocks) [] =
     filter (\<lambda>t. t \<noteq> []) (map (\<lambda>ls. statement_text (lines_text ls)) blocks)"
proof (induction blocks)
  case (Cons ls blocks)
  have s: "statement_lines ls" using Cons.prems by simp
  then have ls: "ls = butlast ls @ [last ls]" by (simp add: statement_lines_def)
  have all: "list_all code_line (butlast ls)" "code_line (last ls)"
    using s unfolding statement_lines_def list_all_iff by (auto dest: in_set_butlastD)
  have "split_lines (concat (ls # blocks)) [] = split_lines (butlast ls @ last ls # concat blocks) []"
    using ls by (metis append_Cons append_Nil append_assoc concat.simps(2))
  also have "\<dots> = (let t = statement_text ([] @ lines_text (butlast ls @ [last ls])) in if t \<noteq> [] then [t] else []) @ split_lines (concat blocks) []"
    by (rule split_lines_statement) (use s all in \<open>simp_all add: statement_lines_def\<close>)
  finally show ?case using Cons ls [symmetric] by (simp add: Let_def)
qed simp

text \<open>A file is split into its statements: whatever blank lines and comment lines stand between and
  within them, if the other lines are those of statements of which each ends with a semicolon at the end
  of a line and has none at the end of another, the result is the text of each in order.\<close>

theorem statements_found:
  assumes "lines \<noteq> []" "list_all (\<lambda>l. new_line \<notin> set l) lines"
    and "filter code_line lines = concat blocks" "list_all statement_lines blocks"
  shows "splitSQLStatements (join [new_line] lines) =
    filter (\<lambda>t. t \<noteq> []) (map (\<lambda>ls. statement_text (lines_text ls)) blocks)"
  using split_lines_statements [OF assms(4)]
  by (simp add: splitSQLStatements_def split_on_join [OF assms(1,2)] split_lines_code [of lines] assms(3))

definition kpi_script :: "string list" where
  "kpi_script = [''-- targets'', ''CREATE TABLE t ('', '''', ''  key TEXT'', '');'', ''DROP TABLE u;'']"

theorem statements_found_witness:
  "splitSQLStatements (join [new_line] kpi_script) =
     [''CREATE TABLE t ('' @ [new_line] @ ''  key TEXT'' @ [new_line] @ '')'', ''DROP TABLE u'']"
proof -
  let ?blocks = "[[''CREATE TABLE t ('', ''  key TEXT'', '');''], [''DROP TABLE u;'']]"
  have "kpi_script \<noteq> []" "list_all (\<lambda>l. new_line \<notin> set l) kpi_script" "filter code_line kpi_script = concat ?blocks"
    "list_all statement_lines ?blocks" by code_simp+
  note r = statements_found [OF this]
  show ?thesis unfolding r by code_simp
qed

subsection \<open>What a run does\<close>

definition pending :: "dir_entry list \<Rightarrow> 's schema_db \<Rightarrow> (string \<times> string) list" where
  \<comment> \<open>the migrations not recorded yet, in order\<close>
  "pending entries s = filter (\<lambda>(v, _). v \<notin> set (sd_versions s)) (migration_files entries)"

lemma trim_suffix_inj: "has_suffix a p \<Longrightarrow> has_suffix b p \<Longrightarrow> trim_suffix a p = trim_suffix b p \<Longrightarrow> a = b"
proof -
  have pre: "has_prefix x y \<Longrightarrow> x = y @ drop (length y) x" for x y by (induction x y rule: has_prefix.induct) auto
  have "a = trim_suffix a p @ p" if "has_suffix a p" for a
  proof -
    have "rev a = rev p @ drop (length p) (rev a)" using pre [of "rev a" "rev p"] that by (simp add: has_suffix_def)
    then have "a = rev (drop (length p) (rev a)) @ p" by (metis rev_append rev_rev_ident)
    moreover have "rev (drop (length p) (rev a)) = take (length a - length p) a" by (simp add: rev_drop)
    ultimately show ?thesis using that by (simp add: trim_suffix_def)
  qed
  then show "has_suffix a p \<Longrightarrow> has_suffix b p \<Longrightarrow> trim_suffix a p = trim_suffix b p \<Longrightarrow> a = b" by metis
qed

lemma versions_distinct: "distinct (map fst entries) \<Longrightarrow> distinct (map fst (migration_files entries))"
proof -
  assume d: "distinct (map fst entries)"
  let ?es = "sort_key fst (filter (\<lambda>(name, is_dir, _). \<not> is_dir \<and> has_suffix name up_sql) entries)"
  have f: "distinct (map fst (filter P entries))" for P using d by (simp add: distinct_map_filter)
  have "distinct (map fst ?es)"
    using f [of "\<lambda>(name, is_dir, _). \<not> is_dir \<and> has_suffix name up_sql"] unfolding distinct_map set_sort distinct_sort .
  moreover have "inj_on (\<lambda>n. trim_suffix n up_sql) (set (map fst ?es))"
    by (rule inj_onI) (auto intro: trim_suffix_inj)
  ultimately have "distinct (map (\<lambda>n. trim_suffix n up_sql) (map fst ?es))" by (simp only: distinct_map)
  then show ?thesis by (simp add: migration_files_def case_prod_unfold o_def)
qed

lemma statement_value: "statement (\<lambda>s. Inr (f s, s)) s = (Inr a, s') \<Longrightarrow> a = f s"
  by (auto simp: statement_def split: list.splits option.splits)

lemma statement_versions: "statement (\<lambda>s. Inr (f s, s)) s = (x, s') \<Longrightarrow> sd_versions s' = sd_versions s \<and> sd_schema s' = sd_schema s"
  by (auto simp: statement_def split: list.splits option.splits)

lemma run_ddl_versions: "run_ddl ddl q s = (x, s') \<Longrightarrow> sd_versions s' = sd_versions s"
  by (auto simp: run_ddl_def statement_def split: list.splits option.splits sum.splits prod.splits)

lemma exec_statements_versions: "exec_statements ddl qs s = (x, s') \<Longrightarrow> sd_versions s' = sd_versions s"
  by (induction ddl qs s rule: exec_statements.induct) (auto dest!: run_ddl_versions split: prod.splits sum.splits if_splits)

lemma record_version_done: "record_version v s = (x, s') \<Longrightarrow>
    (case x of Inl m \<Rightarrow> sd_versions s' = sd_versions s | Inr _ \<Rightarrow> sd_versions s' = sd_versions s @ [v])"
  by (auto simp: record_version_def statement_def split: list.splits option.splits if_splits)

lemma none_done:
  "sd_versions s' = sd_versions s \<Longrightarrow> r \<noteq> Inr () \<Longrightarrow>
   \<exists>don rest. L = don @ rest \<and> sd_versions s' = sd_versions s @ map fst don \<and> (r = Inr () \<longrightarrow> rest = [])"
  by (intro exI [of _ "[]"] exI [of _ L]) simp

lemma migrate_each_versions:
  "distinct (map fst fs) \<Longrightarrow> migrate_each ddl fs s = (r, s') \<Longrightarrow>
   \<exists>don rest. filter (\<lambda>(v, _). v \<notin> set (sd_versions s)) fs = don @ rest \<and>
     sd_versions s' = sd_versions s @ map fst don \<and> (r = Inr () \<longrightarrow> rest = [])"
proof (induction fs arbitrary: s)
  case (Cons f fs)
  obtain v body where f: "f = (v, body)" by force
  have d: "distinct (map fst fs)" "v \<notin> fst ` set fs" using Cons.prems(1) f by auto
  obtain x s1 where x: "statement (\<lambda>s. Inr (v \<in> set (sd_versions s), s)) s = (x, s1)" by force
  note s1 = statement_versions [OF x]
  show ?case
  proof (cases x)
    case (Inl m)
    then show ?thesis using Cons.prems(2) s1 by (intro none_done) (auto simp: f x)
  next
    case Inr: (Inr known)
    have known: "known = (v \<in> set (sd_versions s))" by (rule statement_value [OF x [unfolded Inr]])
    show ?thesis
    proof (cases known)
      case True
      then have "migrate_each ddl fs s1 = (r, s')" "v \<in> set (sd_versions s)" using Cons.prems(2) known by (simp_all add: f x Inr)
      then show ?thesis using Cons.IH [OF d(1), of s1] s1 by (simp add: f)
    next
      case False
      then have v: "v \<notin> set (sd_versions s)" using known by simp
      obtain y s2 where y: "execMigrationSQL ddl body s1 = (y, s2)" by force
      have s2: "sd_versions s2 = sd_versions s" using exec_statements_versions y s1 by (metis execMigrationSQL_def)
      obtain z s3 where z: "record_version v s2 = (z, s3)" by force
      have pend: "filter (\<lambda>(w, _). w \<notin> set (sd_versions s @ [v])) fs = filter (\<lambda>(w, _). w \<notin> set (sd_versions s)) fs"
        by (rule filter_cong) (use d(2) in \<open>force simp: image_iff\<close>)+
      show ?thesis
      proof (cases "\<exists>a b. y = Inr a \<and> z = Inr b")
        case True
        then obtain a b where yz: "y = Inr a" "z = Inr b" by blast
        have s3: "sd_versions s3 = sd_versions s @ [v]" using record_version_done [OF z] s2 by (simp add: yz)
        have "migrate_each ddl fs s3 = (r, s')" using Cons.prems(2) False by (simp add: f x Inr y z yz)
        then obtain don rest where "filter (\<lambda>(w, _). w \<notin> set (sd_versions s)) fs = don @ rest"
          "sd_versions s' = sd_versions s3 @ map fst don" "r = Inr () \<longrightarrow> rest = []" using Cons.IH [OF d(1), of s3] s3 pend by auto
        then show ?thesis using v s3 by (intro exI [of _ "(v, body) # don"] exI [of _ rest]) (simp add: f)
      next
        case no: False
        then have "sd_versions s' = sd_versions s \<and> r \<noteq> Inr ()"
          using Cons.prems(2) False s2 record_version_done [OF z]
          by (cases y; cases z) (auto simp: f x Inr y z split: unit.splits)
        then show ?thesis by (intro none_done) auto
      qed
    qed
  qed
qed simp

lemma migrate_each_known:
  "\<forall>f \<in> set fs. fst f \<in> set (sd_versions s) \<Longrightarrow> sd_schema (snd (migrate_each ddl fs s)) = sd_schema s"
proof (induction fs arbitrary: s)
  case (Cons f fs)
  obtain v body where f: "f = (v, body)" by force
  obtain x s1 where x: "statement (\<lambda>s. Inr (v \<in> set (sd_versions s), s)) s = (x, s1)" by force
  note s1 = statement_versions [OF x]
  show ?case
  proof (cases x)
    case (Inl m)
    then show ?thesis using s1 by (simp add: f x)
  next
    case (Inr known)
    have "known" using statement_value [OF x [unfolded Inr]] Cons.prems f by simp
    then show ?thesis using Cons.IH [of s1] Cons.prems s1 by (simp add: f x Inr)
  qed
qed simp

lemma pure_statements:
  "list_all (\<lambda>f. f = None) (sd_faults s) \<Longrightarrow> \<exists>s'. exec_statements (\<lambda>q x. Inr (g q x)) qs s = (Inr (), s') \<and>
     list_all (\<lambda>f. f = None) (sd_faults s') \<and> sd_schema s' = fold g qs (sd_schema s) \<and> sd_versions s' = sd_versions s"
proof (induction qs arbitrary: s)
  case (Cons q qs)
  obtain s1 where "run_ddl (\<lambda>q x. Inr (g q x)) q s = (Inr (), s1)" "list_all (\<lambda>f. f = None) (sd_faults s1)"
    "sd_schema s1 = g q (sd_schema s)" "sd_versions s1 = sd_versions s"
    using Cons.prems by (cases "sd_faults s") (auto simp: run_ddl_def statement_def)
  then show ?case using Cons.IH [of s1] by simp
qed simp

lemma pure_migrations:
  "list_all (\<lambda>f. f = None) (sd_faults s) \<Longrightarrow> distinct (map fst fs) \<Longrightarrow>
   \<exists>s'. migrate_each (\<lambda>q x. Inr (g q x)) fs s = (Inr (), s') \<and>
     sd_schema s' = fold g (concat (map (\<lambda>(_, body). splitSQLStatements body) (filter (\<lambda>(v, _). v \<notin> set (sd_versions s)) fs))) (sd_schema s)"
proof (induction fs arbitrary: s)
  case (Cons f fs)
  obtain v body where f: "f = (v, body)" by force
  have d: "distinct (map fst fs)" "v \<notin> fst ` set fs" using Cons.prems(2) f by auto
  obtain s1 where x: "statement (\<lambda>s. Inr (v \<in> set (sd_versions s), s)) s = (Inr (v \<in> set (sd_versions s)), s1)"
    and s1: "list_all (\<lambda>f. f = None) (sd_faults s1)" "sd_schema s1 = sd_schema s" "sd_versions s1 = sd_versions s"
    using Cons.prems(1) by (cases "sd_faults s") (auto simp: statement_def)
  show ?case
  proof (cases "v \<in> set (sd_versions s)")
    case True
    then show ?thesis using Cons.IH [OF s1(1) d(1)] s1 by (simp add: f x)
  next
    case False
    obtain s2 where y: "execMigrationSQL (\<lambda>q x. Inr (g q x)) body s1 = (Inr (), s2)" "list_all (\<lambda>f. f = None) (sd_faults s2)"
      "sd_schema s2 = fold g (splitSQLStatements body) (sd_schema s1)" "sd_versions s2 = sd_versions s1"
      using pure_statements [OF s1(1)] unfolding execMigrationSQL_def by blast
    obtain s3 where z: "record_version v s2 = (Inr (), s3)" "list_all (\<lambda>f. f = None) (sd_faults s3)"
      "sd_schema s3 = sd_schema s2" "sd_versions s3 = sd_versions s @ [v]"
      using y(2,4) False s1 by (cases "sd_faults s2") (auto simp: record_version_def statement_def)
    have pend: "filter (\<lambda>(w, _). w \<notin> set (sd_versions s @ [v])) fs = filter (\<lambda>(w, _). w \<notin> set (sd_versions s)) fs"
      by (rule filter_cong) (use d(2) in \<open>force simp: image_iff\<close>)+
    show ?thesis using Cons.IH [OF z(2) d(1)] y z s1 False pend by (simp add: f x)
  qed
qed simp

lemma run_records:
  assumes "distinct (map fst entries)" "RunCRMMigrations ddl entries s = (r, s')"
  shows "\<exists>don rest. pending entries s = don @ rest \<and> sd_versions s' = sd_versions s @ map fst don \<and>
    pending entries s' = rest \<and> (r = Inr () \<longrightarrow> rest = [])"
proof -
  let ?fs = "migration_files entries"
  have d: "distinct (map fst ?fs)" by (rule versions_distinct [OF assms(1)])
  obtain x s1 where x: "statement (\<lambda>s. Inr ((), s)) s = (x, s1)" by force
  note s1 = statement_versions [OF x]
  have "\<exists>don rest. pending entries s = don @ rest \<and> sd_versions s' = sd_versions s @ map fst don \<and> (r = Inr () \<longrightarrow> rest = [])"
  proof (cases x)
    case (Inl m)
    then show ?thesis using assms(2) s1 by (intro none_done) (auto simp: RunCRMMigrations_def x)
  next
    case (Inr u)
    then have "migrate_each ddl ?fs s1 = (r, s')" using assms(2) by (simp add: RunCRMMigrations_def x)
    then show ?thesis using migrate_each_versions [OF d] s1 unfolding pending_def by metis
  qed
  then obtain don rest where dr: "pending entries s = don @ rest" "sd_versions s' = sd_versions s @ map fst don" "r = Inr () \<longrightarrow> rest = []" by blast
  have "distinct (map fst (don @ rest))" using d unfolding dr(1) [symmetric] pending_def by (rule distinct_map_filter)
  then have "\<forall>f \<in> set rest. fst f \<notin> set (map fst don)" by (auto simp: image_iff)
  then have "filter (\<lambda>(v, _). v \<notin> set (map fst don)) rest = rest" by (force simp: filter_id_conv)
  moreover have "filter (\<lambda>(v, _). v \<notin> set (map fst don)) don = []" by (force simp: filter_empty_conv)
  moreover have "pending entries s' = filter (\<lambda>(v, _). v \<notin> set (map fst don)) (pending entries s)"
    unfolding pending_def dr(2) by (auto simp: filter_filter intro!: filter_cong)
  ultimately have "pending entries s' = rest" unfolding dr(1) by simp
  then show ?thesis using dr by blast
qed

lemma nothing_pending:
  assumes "pending entries s = []" "sd_versions s2 = sd_versions s"
  shows "sd_schema (snd (RunCRMMigrations ddl entries s2)) = sd_schema s2"
proof -
  obtain y t1 where y: "statement (\<lambda>s. Inr ((), s)) s2 = (y, t1)" by force
  have "\<forall>f \<in> set (migration_files entries). fst f \<in> set (sd_versions t1)" using assms statement_versions [OF y]
    by (auto simp: pending_def filter_empty_conv)
  from migrate_each_known [OF this] show ?thesis using statement_versions [OF y] by (cases y) (simp_all add: RunCRMMigrations_def y)
qed

lemma run_pure:
  assumes "distinct (map fst entries)" "list_all (\<lambda>f. f = None) (sd_faults s)"
    and "RunCRMMigrations (\<lambda>q x. Inr (g q x)) entries s = (r, s')"
  shows "r = Inr () \<and> sd_schema s' = fold g (concat (map (\<lambda>(_, body). splitSQLStatements body) (pending entries s))) (sd_schema s)"
proof -
  obtain x s1 where x: "statement (\<lambda>s. Inr ((), s)) s = (x, s1)" by force
  note s1 = statement_versions [OF x]
  have x': "x = Inr ()" and c1: "list_all (\<lambda>f. f = None) (sd_faults s1)" using x assms(2) by (cases "sd_faults s"; auto simp: statement_def)+
  have "migrate_each (\<lambda>q x. Inr (g q x)) (migration_files entries) s1 = (r, s')" using assms(3) x' by (simp add: RunCRMMigrations_def x)
  then show ?thesis using pure_migrations [OF c1 versions_distinct [OF assms(1)], of g] s1 unfolding pending_def by auto
qed


definition two_files :: "dir_entry list" where
  "two_files = [(''2.up.sql'', False, ''B;''), (''README'', False, []), (''1.up.sql'', False, ''A;'')]"

definition logged :: "string \<Rightarrow> string list \<Rightarrow> string list" where
  \<comment> \<open>a schema that is the list of the statements executed\<close>
  "logged q x = x @ [q]"


end
