(* ===== verification/Uploads.thy ===== *)
theory Uploads
  imports Access Display
begin

section \<open>Proof uploads (uploads.go)\<close>

text \<open>
  The store of proof images and its two handlers. The upload directory is a map from full paths to
  nodes; a byte is a character. The multipart form arrives parsed, as \<open>ParseMultipartForm\<close> and
  \<open>FormFile\<close> of the standard library leave it; whether the reads and writes of the file succeed is part of
  \<open>file_io\<close>. Of \<open>http.DetectContentType\<close> the signatures of the three image types matter: every
  other type is refused alike.
\<close>

type_synonym bytes = string

datatype node = FileNode bytes | DirNode

type_synonym file_system = "string \<rightharpoonup> node"

definition maxProofUploadBytes :: int where
  "maxProofUploadBytes = 5 * 2 ^ 20"

definition firstResponseSubdir :: string where
  "firstResponseSubdir = ''first-response''"

definition allowedProofMIME :: "(string \<times> string) list" where
  "allowedProofMIME = [(''image/jpeg'', ''.jpg''), (''image/png'', ''.png''), (''image/webp'', ''.webp'')]"

subsection \<open>The store\<close>

definition path_join :: "string \<Rightarrow> string \<Rightarrow> string" where
  \<comment> \<open>\<open>filepath.Join\<close> of a clean absolute path and one element\<close>
  "path_join dir name = (if dir = ''/'' then ''/'' @ name else dir @ ''/'' @ name)"

definition NewUploadStore :: "(string \<Rightarrow> string option) \<Rightarrow> (string \<Rightarrow> bool) \<Rightarrow> string \<Rightarrow> string option" where
  \<comment> \<open>the root, given \<open>filepath.Abs\<close> and the success of \<open>MkdirAll\<close>\<close>
  "NewUploadStore absolute mkdir raw = (let r = trim raw; base = (if r = [] then ''uploads'' else r) in
     case absolute base of None \<Rightarrow> None | Some a \<Rightarrow> if mkdir (path_join a firstResponseSubdir) then Some a else None)"

definition firstResponseDir :: "string \<Rightarrow> string" where
  "firstResponseDir base = path_join base firstResponseSubdir"

subsection \<open>Uploading\<close>

definition image_type :: "bytes \<Rightarrow> string option" where
  \<comment> \<open>the image signatures of \<open>http.DetectContentType\<close> the code allows\<close>
  "image_type b =
     (if has_prefix b [CHR 0xFF, CHR 0xD8, CHR 0xFF] then Some ''image/jpeg''
      else if has_prefix b [CHR 0x89, CHR ''P'', CHR ''N'', CHR ''G'', CHR 0x0D, CHR 0x0A, CHR 0x1A, CHR 0x0A] then Some ''image/png''
      else if has_prefix b ''RIFF'' \<and> has_prefix (drop 8 b) ''WEBPVP'' then Some ''image/webp''
      else None)"

datatype upload_form =
    BadForm              \<comment> \<open>\<open>ParseMultipartForm\<close> fails, also on a body above the limit\<close>
  | NoFile
  | AFile bytes

record file_io =
  io_read :: bool
  io_seek :: bool
  io_create :: bool
  io_copy :: "nat option"   \<comment> \<open>copying fails after so many bytes\<close>
  io_remove :: bool

datatype upload_answer =
    Refused response
  | Stored string string string int   \<comment> \<open>201 with path, filename, mime and size\<close>
  | Served string bytes               \<comment> \<open>200 with content type and content\<close>

definition handleUploadFirstResponseProof ::
  "string \<Rightarrow> auth_user option \<Rightarrow> string option \<Rightarrow> file_io \<Rightarrow> string \<Rightarrow> upload_form \<Rightarrow> file_system \<Rightarrow> upload_answer \<times> file_system" where
  \<comment> \<open>the arguments: method, user, root of the store, outcome of the I/O, the fresh UUID and the form\<close>
  "handleUploadFirstResponseProof meth auth uploads io uuid form fs =
     (let no = (\<lambda>st msg. (Refused (failure st msg), fs)) in
      if meth \<noteq> ''POST'' then no 405 ''method not allowed''
      else case auth of None \<Rightarrow> no 401 ''authentication required''
      | Some u \<Rightarrow>
        if \<not> canCreateLeads (a_role u) \<and> \<not> canEditLeadProfile (a_role u) then no 403 ''you do not have permission to upload proof''
        else case uploads of None \<Rightarrow> no 500 ''upload storage is not available''
        | Some base \<Rightarrow>
          (case form of BadForm \<Rightarrow> no 400 ''file too large (max 5 MB)''
           | NoFile \<Rightarrow> no 400 ''file is required''
           | AFile content \<Rightarrow>
             if int (length content) > maxProofUploadBytes then no 400 ''file too large (max 5 MB)''
             else if \<not> io_read io then no 400 ''failed to read file''
             else case image_type (take 512 content) of None \<Rightarrow> no 400 ''only JPEG, PNG, or WebP images are allowed''
             | Some mime \<Rightarrow>
               (case map_of allowedProofMIME mime of None \<Rightarrow> no 400 ''only JPEG, PNG, or WebP images are allowed''
                | Some ext \<Rightarrow>
                  if \<not> io_seek io then no 500 ''failed to process file''
                  else let filename = uuid @ ext; dest = path_join (firstResponseDir base) filename in
                    if \<not> io_create io \<or> fs dest \<noteq> None then no 500 ''failed to store file''
                    else let written = take (nat (maxProofUploadBytes + 1)) content;
                      remove = (\<lambda>fs'. if io_remove io then fs'(dest := None) else fs') in
                      (case io_copy io of Some k \<Rightarrow>
                        (Refused (failure 500 ''failed to store file''), remove (fs(dest \<mapsto> FileNode (take k written))))
                      | None \<Rightarrow> if int (length written) > maxProofUploadBytes
                      then (Refused (failure 400 ''file too large (max 5 MB)''), remove (fs(dest \<mapsto> FileNode written)))
                      else (Stored (proofPublicPath filename) filename mime (int (length written)), fs(dest \<mapsto> FileNode written))))))"

subsection \<open>Serving\<close>

definition lead_data_refusal :: "auth_user option \<Rightarrow> response option" where
  "lead_data_refusal auth = (case auth of None \<Rightarrow> Some (failure 401 ''authentication required'')
     | Some u \<Rightarrow> if canViewLeadData (a_role u) then None else Some (failure 403 ''lead data is not available for this role''))"

lemma requireLeadDataAccess_refusal:
  "requireLeadDataAccess auth s = (case lead_data_refusal auth of None \<Rightarrow> (Inr (), s) | Some r \<Rightarrow> (Inl r, s))"
  by (auto simp: requireLeadDataAccess_def lead_data_refusal_def require_def reply_def pass_def split: option.split)

definition trim_prefix :: "string \<Rightarrow> string \<Rightarrow> string" where
  "trim_prefix s p = (if has_prefix s p then drop (length p) s else s)"

definition trim_slashes :: "string \<Rightarrow> string" where
  \<comment> \<open>\<open>strings.Trim(s, "/")\<close>\<close>
  "trim_slashes s = rev (dropWhile (\<lambda>c. c = CHR ''/'') (rev (dropWhile (\<lambda>c. c = CHR ''/'') s)))"

definition filepath_ext :: "string \<Rightarrow> string" where
  \<comment> \<open>from the last dot of the last element\<close>
  "filepath_ext p = (let elem = rev (takeWhile (\<lambda>c. c \<noteq> CHR ''/'') (rev p)) in
     if CHR ''.'' \<in> set elem then rev (takeWhile (\<lambda>c. c \<noteq> CHR ''.'') (rev elem) @ ''.'') else [])"

definition content_type :: "string \<Rightarrow> string" where
  "content_type ext = (if ext = ''.jpg'' \<or> ext = ''.jpeg'' then ''image/jpeg''
     else if ext = ''.png'' then ''image/png'' else if ext = ''.webp'' then ''image/webp''
     else ''application/octet-stream'')"

definition handleServeFirstResponseProof ::
  "string \<Rightarrow> auth_user option \<Rightarrow> string option \<Rightarrow> string \<Rightarrow> file_system \<Rightarrow> upload_answer" where
  \<comment> \<open>for a request without range or condition, which \<open>http.ServeContent\<close> answers with the whole content\<close>
  "handleServeFirstResponseProof meth auth uploads path fs =
     (if meth \<noteq> ''GET'' then Refused (failure 405 ''method not allowed'')
      else case lead_data_refusal auth of Some r \<Rightarrow> Refused r
      | None \<Rightarrow> (case uploads of None \<Rightarrow> Refused (failure 500 ''upload storage is not available'')
        | Some base \<Rightarrow>
          let name = trim_slashes (trim_prefix path ''/api/uploads/first-response/'') in
          if name = [] \<or> CHR ''/'' \<in> set name then Refused (failure 404 ''not found'')
          else case resolveFirstResponse (firstResponseDir base) name of None \<Rightarrow> Refused (failure 404 ''not found'')
          | Some full \<Rightarrow> (case fs full of Some (FileNode b) \<Rightarrow> Served (content_type (to_lower (filepath_ext full))) b
              | _ \<Rightarrow> Refused (failure 404 ''not found''))))"

subsection \<open>What is stored, and what comes back\<close>

definition uuid_text :: "string \<Rightarrow> bool" where
  \<comment> \<open>lower-case hexadecimal digits and dashes\<close>
  "uuid_text u \<longleftrightarrow> u \<noteq> [] \<and> list_all (\<lambda>c. c \<in> set ''0123456789abcdef-'') u"

lemma mime_image: "image_type b = Some mime \<Longrightarrow> \<exists>ext. map_of allowedProofMIME mime = Some ext"
  by (auto simp: image_type_def allowedProofMIME_def split: if_splits)

lemma ext_mime: "map_of allowedProofMIME mime = Some ext \<Longrightarrow>
    (ext = ''.jpg'' \<or> ext = ''.png'' \<or> ext = ''.webp'') \<and> content_type ext = mime"
  by (auto simp: allowedProofMIME_def content_type_def split: if_splits)

lemma upload_cases:
  assumes "handleUploadFirstResponseProof meth auth uploads io uuid form fs = (a, fs')"
  shows "(\<exists>r. a = Refused r \<and> (io_copy io = None \<or> io_remove io \<longrightarrow> fs' = fs)) \<or>
    (\<exists>u base content mime ext. meth = ''POST'' \<and> auth = Some u \<and> (canCreateLeads (a_role u) \<or> canEditLeadProfile (a_role u)) \<and>
       uploads = Some base \<and> form = AFile content \<and> int (length content) \<le> maxProofUploadBytes \<and>
       image_type (take 512 content) = Some mime \<and> map_of allowedProofMIME mime = Some ext \<and>
       fs (path_join (firstResponseDir base) (uuid @ ext)) = None \<and>
       a = Stored (proofPublicPath (uuid @ ext)) (uuid @ ext) mime (int (length content)) \<and>
       fs' = fs(path_join (firstResponseDir base) (uuid @ ext) \<mapsto> FileNode content))"
proof -
  have whole: "take (nat (maxProofUploadBytes + 1)) c = c" if "int (length c) \<le> maxProofUploadBytes" for c :: bytes
    using that by simp
  have undo: "fs(p := None) = fs" if "fs p = None" for p using that by (auto simp: fun_upd_idem)
  show ?thesis using assms unfolding handleUploadFirstResponseProof_def Let_def
    by (auto simp: failure_def json_def whole undo not_less split: option.splits upload_form.splits if_splits)
qed

text \<open>C36. An upload stores exactly one new file, directly inside the upload directory, or changes
  nothing: a stored file is an image of at most 5 MiB sent by a role that may create or edit leads, and a
  refusal leaves the directory as it was, also after a failed write unless removing the partial file fails too.\<close>

theorem upload_all_or_nothing:
  assumes "handleUploadFirstResponseProof meth auth uploads io uuid form fs = (a, fs')"
  shows "(\<exists>r. a = Refused r \<and> (io_copy io = None \<or> io_remove io \<longrightarrow> fs' = fs)) \<or>
    (\<exists>u base content name mime. auth = Some u \<and> (canCreateLeads (a_role u) \<or> canEditLeadProfile (a_role u)) \<and> uploads = Some base \<and>
       form = AFile content \<and> a = Stored (proofPublicPath name) name mime (int (length content)) \<and>
       image_type (take 512 content) = Some mime \<and> int (length content) \<le> 5 * 2 ^ 20 \<and>
       fs (path_join (firstResponseDir base) name) = None \<and>
       fs' = fs(path_join (firstResponseDir base) name \<mapsto> FileNode content))"
  using upload_cases [OF assms] unfolding maxProofUploadBytes_def by blast

lemma has_prefix_append: "has_prefix (p @ s) p"
  by (induction p) simp_all

lemma dropWhile_none: "(\<And>c. c \<in> set s \<Longrightarrow> \<not> P c) \<Longrightarrow> dropWhile P s = s"
  by (cases s) auto

lemma base_plain: "s \<noteq> [] \<Longrightarrow> CHR ''/'' \<notin> set s \<Longrightarrow> filepath_base s = s"
proof -
  assume s: "s \<noteq> []" "CHR ''/'' \<notin> set s"
  have d: "dropWhile (\<lambda>c. c = CHR ''/'') (rev s) = rev s" using s(2) by (intro dropWhile_none) auto
  have t: "takeWhile (\<lambda>c. c \<noteq> CHR ''/'') (rev s) = rev s" using s(2) by (subst takeWhile_eq_all_conv) auto
  show ?thesis unfolding filepath_base_def Let_def d rev_rev_ident t using s(1) by simp
qed

lemma trim_slashes_plain: "CHR ''/'' \<notin> set s \<Longrightarrow> trim_slashes s = s"
proof -
  assume s: "CHR ''/'' \<notin> set s"
  have "dropWhile (\<lambda>c. c = CHR ''/'') s = s" "dropWhile (\<lambda>c. c = CHR ''/'') (rev s) = rev s"
    using s by (auto intro!: dropWhile_none)
  then show ?thesis by (simp only: trim_slashes_def rev_rev_ident)
qed

lemma takeWhile_stop: "(\<And>x. x \<in> set xs \<Longrightarrow> P x) \<Longrightarrow> \<not> P y \<Longrightarrow> takeWhile P (xs @ y # ys) = xs"
  by (simp add: takeWhile_append2)

lemma ext_of_name:
  assumes "CHR ''/'' \<notin> set u" "CHR ''/'' \<notin> set x" "CHR ''.'' \<notin> set x"
  shows "filepath_ext (dir @ ''/'' @ u @ CHR ''.'' # x) = CHR ''.'' # x"
proof -
  have "takeWhile (\<lambda>c. c \<noteq> CHR ''/'') ((rev x @ CHR ''.'' # rev u) @ CHR ''/'' # rev dir) = rev x @ CHR ''.'' # rev u"
    by (rule takeWhile_stop) (use assms in auto)
  then have elem: "rev (takeWhile (\<lambda>c. c \<noteq> CHR ''/'') (rev (dir @ ''/'' @ u @ CHR ''.'' # x))) = u @ CHR ''.'' # x" by simp
  have "takeWhile (\<lambda>c. c \<noteq> CHR ''.'') (rev x @ CHR ''.'' # rev u) = rev x"
    by (rule takeWhile_stop) (use assms in auto)
  then show ?thesis unfolding filepath_ext_def elem Let_def by simp
qed

lemma uuid_chars: "uuid_text u \<Longrightarrow> c \<in> set u \<Longrightarrow> \<not> is_space c \<and> c \<noteq> CHR ''/''"
proof -
  have "list_all (\<lambda>c. \<not> is_space c \<and> c \<noteq> CHR ''/'') ''0123456789abcdef-''" by code_simp
  then show "uuid_text u \<Longrightarrow> c \<in> set u \<Longrightarrow> \<not> is_space c \<and> c \<noteq> CHR ''/''"
    unfolding uuid_text_def list_all_iff by blast
qed

lemma ext_chars: "map_of allowedProofMIME mime = Some ext \<Longrightarrow>
    \<exists>x. ext = CHR ''.'' # x \<and> length x > 2 \<and> list_all (\<lambda>c. \<not> is_space c \<and> c \<noteq> CHR ''/'' \<and> c \<noteq> CHR ''.'') x \<and> to_lower ext = ext"
proof -
  have "list_all (\<lambda>e. \<exists>x. e = CHR ''.'' # x \<and> length x > 2 \<and> list_all (\<lambda>c. \<not> is_space c \<and> c \<noteq> CHR ''/'' \<and> c \<noteq> CHR ''.'') x \<and> to_lower e = e)
      [''.jpg'', ''.png'', ''.webp'']"
    by (simp add: is_space_def to_lower_def lower_char_def char_code_def)
  then show "map_of allowedProofMIME mime = Some ext \<Longrightarrow> ?thesis" unfolding allowedProofMIME_def by (auto split: if_splits)
qed

text \<open>C37. What was uploaded is served: everyone with access to lead data who asks for the path that the upload
  answered gets the bytes that were sent, with the content type that was detected.\<close>

theorem uploads_come_back:
  assumes "handleUploadFirstResponseProof meth auth uploads io uuid form fs = (Stored path name mime n, fs')"
    and "uuid_text uuid" "canViewLeadData (a_role reader)"
  shows "\<exists>content. form = AFile content \<and> n = int (length content) \<and>
    handleServeFirstResponseProof ''GET'' (Some reader) uploads path fs' = Served mime content"
proof -
  obtain base content ext where u: "uploads = Some base" "form = AFile content" "map_of allowedProofMIME mime = Some ext"
    "path = proofPublicPath (uuid @ ext)" "name = uuid @ ext" "n = int (length content)"
    "fs' = fs(path_join (firstResponseDir base) name \<mapsto> FileNode content)"
    using upload_cases [OF assms(1)] by auto
  note e = ext_mime [OF u(3)]
  obtain x where x: "ext = CHR ''.'' # x" "length x > 2" "\<And>c. c \<in> set x \<Longrightarrow> \<not> is_space c \<and> c \<noteq> CHR ''/'' \<and> c \<noteq> CHR ''.''"
    "to_lower ext = ext" using ext_chars [OF u(3)] unfolding list_all_iff by blast
  have dot: "\<not> is_space CHR ''.''" by code_simp
  have chars: "\<not> is_space c \<and> c \<noteq> CHR ''/''" if "c \<in> set name" for c
    using that uuid_chars [OF assms(2), of c] x(3) [of c] dot unfolding u(5) x(1) by auto
  have uuid: "uuid \<noteq> []" "CHR ''/'' \<notin> set uuid" using assms(2) uuid_chars [OF assms(2)] by (auto simp: uuid_text_def)
  have plain: "name \<noteq> []" "CHR ''/'' \<notin> set name" "length name > 3" using chars x(1,2) u(5) uuid(1) by auto
  have "trim name = name" using chars by (intro trim_no_space) blast
  moreover have "name \<noteq> ''.''" "name \<noteq> ''..''" "name \<noteq> ''/''" using plain(3) by auto
  ultimately have full: "resolveFirstResponse (firstResponseDir base) name = Some (firstResponseDir base @ ''/'' @ name)"
    using plain by (simp add: resolveFirstResponse_def base_plain)
  have dir: "path_join (firstResponseDir base) name = firstResponseDir base @ ''/'' @ name"
    by (simp add: path_join_def firstResponseDir_def firstResponseSubdir_def)
  have "trim_slashes (trim_prefix path ''/api/uploads/first-response/'') = name"
    unfolding u(4) proofPublicPath_def trim_prefix_def using has_prefix_append u(5) trim_slashes_plain [OF plain(2)] by simp
  moreover have "filepath_ext (firstResponseDir base @ ''/'' @ name) = ext"
    unfolding u(5) x(1) by (rule ext_of_name) (use uuid x(3) in auto)
  then have "to_lower (filepath_ext (firstResponseDir base @ ''/'' @ name)) = ext" using x(4) by simp
  ultimately show ?thesis using plain u(1,2,6,7) full dir e assms(3)
    by (simp add: handleServeFirstResponseProof_def lead_data_refusal_def)
qed

definition uploader :: auth_user where
  "uploader = \<lparr>a_id = ''ann'', a_email = [], a_name = ''Ann'', a_role = RoleLeadAnalyst, a_team = None, a_analystTeam = None, a_sid = []\<rparr>"

definition calm_io :: file_io where
  "calm_io = \<lparr>io_read = True, io_seek = True, io_create = True, io_copy = None, io_remove = True\<rparr>"

definition tiny_jpeg :: bytes where
  "tiny_jpeg = [CHR 0xFF, CHR 0xD8, CHR 0xFF, CHR 0xE0]"

lemma tiny_upload:
  "fst (handleUploadFirstResponseProof ''POST'' (Some uploader) (Some ''/srv'') calm_io ''7a-1'' (AFile tiny_jpeg) Map.empty) =
     Stored ''/api/uploads/first-response/7a-1.jpg'' ''7a-1.jpg'' ''image/jpeg'' 4"
  by (simp add: handleUploadFirstResponseProof_def uploader_def canCreateLeads_def tiny_jpeg_def calm_io_def image_type_def
      allowedProofMIME_def proofPublicPath_def maxProofUploadBytes_def Let_def)

theorem upload_all_or_nothing_witness:
  "\<exists>fs' content. handleUploadFirstResponseProof ''POST'' (Some uploader) (Some ''/srv'') calm_io ''7a-1'' (AFile tiny_jpeg) Map.empty =
     (Stored ''/api/uploads/first-response/7a-1.jpg'' ''7a-1.jpg'' ''image/jpeg'' 4, fs') \<and>
     fs' = [path_join (firstResponseDir ''/srv'') ''7a-1.jpg'' \<mapsto> FileNode content]"
proof -
  obtain a fs' where r: "handleUploadFirstResponseProof ''POST'' (Some uploader) (Some ''/srv'') calm_io ''7a-1'' (AFile tiny_jpeg) Map.empty = (a, fs')"
    by force
  then show ?thesis using upload_all_or_nothing [OF r] tiny_upload by auto
qed

theorem uploads_come_back_witness:
  "\<exists>fs'. handleServeFirstResponseProof ''GET'' (Some uploader) (Some ''/srv'') ''/api/uploads/first-response/7a-1.jpg'' fs' =
     Served ''image/jpeg'' tiny_jpeg"
proof -
  obtain a fs' where r: "handleUploadFirstResponseProof ''POST'' (Some uploader) (Some ''/srv'') calm_io ''7a-1'' (AFile tiny_jpeg) Map.empty = (a, fs')"
    by force
  then have a: "a = Stored ''/api/uploads/first-response/7a-1.jpg'' ''7a-1.jpg'' ''image/jpeg'' 4" using tiny_upload by simp
  have "uuid_text ''7a-1''" "canViewLeadData (a_role uploader)" by code_simp+
  from uploads_come_back [OF r [unfolded a] this] show ?thesis by auto
qed

end
