(* ===== verification/ExportDoc.thy ===== *)
theory ExportDoc
  imports LeadList
begin

section \<open>The document of an export (leads_export.go)\<close>

text \<open>
  The texts of an exported lead, the description of the filters, and the document as the sequence of
  drawing calls the code makes. The PDF library is a parameter, a canvas: how it translates a text,
  where the pen stands after some calls, and the file it makes of them. Sizes are the decimal numbers of the code, as
  rationals.
\<close>

subsection \<open>One lead\<close>

record lead_export_row =
  er_name :: string
  er_phone :: string
  er_email :: string
  er_location :: string
  er_source :: string
  er_portal :: string
  er_qualification :: string
  er_salesStatus :: string
  er_added :: string
  er_deal :: string
  er_team :: string
  er_exec :: string
  er_analyst :: string
  er_tag :: string

definition emptyDash :: "string \<Rightarrow> string" where
  "emptyDash s = (if trim s = [] \<or> s = em_dash then em_dash else trim s)"

definition scanLeadExportRow :: "texts \<Rightarrow> lead_row \<Rightarrow> lead_export_row" where
  "scanLeadExportRow tx r = (let l = lr_lead r in
     \<lparr>er_name = emptyDash (l_name l), er_phone = displayOrDash (l_phone l), er_email = displayOrDash (l_email l),
      er_location = formatLocation (l_city l) (l_country l), er_source = emptyDash (l_source l),
      er_portal = displayOrDash (l_portal l), er_qualification = qualificationDisplay (l_qual l),
      er_salesStatus = salesStageDisplay (l_stage l), er_added = tx_day tx (l_createdAt l),
      er_deal = formatDealValue tx (if l_revenue l \<noteq> None then l_revenue l else l_deal l) (l_currency l),
      er_team = emptyDash (lr_team r), er_exec = emptyDash (lr_exec r), er_analyst = emptyDash (lr_creator r),
      er_tag = (if l_notAppr l then ''Not appropriate'' else em_dash)\<rparr>)"

definition exportOrderSQL :: "(string \<Rightarrow> 'k::linorder) \<Rightarrow> db \<Rightarrow> string \<Rightarrow> lead \<Rightarrow> lead \<Rightarrow> bool" where
  \<comment> \<open>\<open>a\<close> may stand before \<open>b\<close>\<close>
  "exportOrderSQL coll d srt a b = (let newest = newest_key coll a \<le> newest_key coll b in
     if srt = ''name'' then coll (to_lower (l_name a)) < coll (to_lower (l_name b)) \<or>
       (coll (to_lower (l_name a)) = coll (to_lower (l_name b)) \<and> coll (l_id a) \<le> coll (l_id b))
     else if srt = ''oldest'' then l_createdAt a < l_createdAt b \<or> (l_createdAt a = l_createdAt b \<and> coll (l_id a) \<le> coll (l_id b))
     else if srt = ''recent'' then l_updatedAt a > l_updatedAt b \<or> (l_updatedAt a = l_updatedAt b \<and> coll (l_id a) \<ge> coll (l_id b))
     else if srt = ''status'' then coll (l_qual a) < coll (l_qual b) \<or> (coll (l_qual a) = coll (l_qual b) \<and> newest)
     else if srt = ''stage'' then coll (l_stage a) < coll (l_stage b) \<or> (coll (l_stage a) = coll (l_stage b) \<and> newest)
     else if srt = ''value'' then (case (l_deal a, l_deal b) of
         (Some x, Some y) \<Rightarrow> x > y \<or> (x = y \<and> newest) | (Some x, None) \<Rightarrow> True
       | (None, Some y) \<Rightarrow> False | (None, None) \<Rightarrow> newest)
     else if srt = ''analyst'' then coll (creator_key d a) < coll (creator_key d b) \<or>
       (coll (creator_key d a) = coll (creator_key d b) \<and> newest)
     else newest)"

lemma lex_le: "(a, b) \<le> (c, d) \<longleftrightarrow> a < c \<or> (a = c \<and> b \<le> d)" for a c :: "'a::linorder" and b d :: "'b::linorder"
  by (auto simp: less_eq_prod_def)

lemma deal_order: "(deal_key a, x) \<le> (deal_key b, y) \<longleftrightarrow> (case (l_deal a, l_deal b) of
    (Some v, Some w) \<Rightarrow> v > w \<or> (v = w \<and> x \<le> y) | (Some v, None) \<Rightarrow> True | (None, Some w) \<Rightarrow> False | (None, None) \<Rightarrow> x \<le> y)"
  for x y :: "'k::linorder"
  by (cases "l_deal a"; cases "l_deal b") (auto simp: deal_key_def less_eq_prod_def less_prod_def)

text \<open>The exports and the pages of the list are ordered alike.\<close>

lemma exportOrderSQL_ordered: "exportOrderSQL coll d srt = ordered coll d srt"
  unfolding exportOrderSQL_def ordered_def Let_def deal_order by (intro ext) (simp only: lex_le Desc_less desc.inject)

subsection \<open>The description of the filters\<close>

record export_meta =
  em_by :: string
  em_role :: string
  em_scope :: string
  em_filters :: "string list"
  em_generated :: int

definition exportFilterLabel :: "string \<Rightarrow> string" where
  "exportFilterLabel f =
     (if f \<in> {''new'', ''not_qualified''} then ''Not qualified''
      else if f = ''qualified'' then ''Qualified''
      else if f = ''irrelevant'' then ''Irrelevant''
      else if f = ''not_appropriate'' then ''Not appropriate''
      else if f = ''open'' then ''Open''
      else if f \<in> {''contacted'', ''in_progress''} then ''In progress''
      else if f = ''converted'' then ''Closed''
      else if f = ''lost'' then ''Lost''
      else if f \<in> {''passed'', ''assigned'', ''passed_se_tl''} then ''Passed to SE/TLs''
      else if f = ''not_passed'' then ''Not passed''
      else if f = ''with_team_lead'' then ''With team lead''
      else if f = ''with_sales_exec'' then ''With executive''
      else humanizeEnum f)"

definition chip :: "string \<Rightarrow> string \<Rightarrow> string list" where
  \<comment> \<open>the label and the trimmed value, when there is one\<close>
  "chip label v = (if trim v = [] then [] else [label @ trim v])"

definition id_chip :: "string \<Rightarrow> string \<Rightarrow> string list" where
  "id_chip what v = (if trim v = [] then [] else if trim v = ''none'' then [what @ '': Unassigned''] else [what @ '' filter applied''])"

definition describeLeadExportFilters :: "lead_params \<Rightarrow> string list" where
  "describeLeadExportFilters ps =
     (let f = normalizeLeadFilter (lp_filter ps); q = trim (lp_query ps); field = trim (lp_field ps);
          since = trim (lp_addedFrom ps); until = trim (lp_addedTo ps);
          chips = (if f \<noteq> [] \<and> f \<noteq> ''all'' then [exportFilterLabel f] else [])
            @ (if q = [] then [] else if field \<noteq> [] then [''Search '' @ field @ '': '' @ q] else [''Search: '' @ q])
            @ chip ''Country: '' (lp_country ps) @ chip ''City: '' (lp_city ps)
            @ (if trim (lp_status ps) = [] then [] else [''Qualification: '' @ qualificationDisplay (trim (lp_status ps))])
            @ (if trim (lp_stage ps) = [] then [] else [''Sales status: '' @ salesStageDisplay (trim (lp_stage ps))])
            @ chip ''Source: '' (lp_source ps) @ chip ''Portal: '' (lp_portal ps) @ chip ''Meta: '' (lp_metaProfile ps)
            @ chip ''Service: '' (lp_serviceLine ps) @ chip ''Reason: '' (lp_reason ps)
            @ id_chip ''Team'' (lp_team ps) @ id_chip ''Analyst'' (lp_analyst ps) @ id_chip ''Sales exec'' (lp_se ps)
            @ (if since \<noteq> [] \<and> until \<noteq> [] then [''Added: '' @ since @ '' '' @ arrow @ '' '' @ until]
               else if since \<noteq> [] then [''Added from: '' @ since]
               else if until \<noteq> [] then [''Added to: '' @ until] else [])
      in if chips = [] then [''All leads in your current access scope''] else chips)"

definition exportScopeNote :: "string \<Rightarrow> string" where
  "exportScopeNote role =
     (if isSalesExecutive role then ''Sales Executive scope '' @ em_dash @ '' assigned leads only''
      else if isLeadAnalyst role then ''Lead Analyst scope '' @ em_dash @ '' leads you created''
      else if isMainTeamLead role then ''Main Team Lead scope '' @ em_dash @ '' your team only''
      else if isAnalystTeamLead role then ''Analyst Team Lead scope '' @ em_dash @ '' leads added by your Lead Analysts''
      else ''Workspace scope'')"

subsection \<open>Numbers and clipped texts\<close>

definition fields_of :: "string \<Rightarrow> string list" where
  \<comment> \<open>strings.Fields\<close>
  "fields_of s = filter (\<lambda>w. w \<noteq> []) (split_on CHR '' '' (map (\<lambda>c. if is_space c then CHR '' '' else c) s))"

definition clipPDF :: "string \<Rightarrow> nat \<Rightarrow> string" where
  "clipPDF s0 m = (let s = join '' '' (fields_of (trim s0)) in
     if s = [] then em_dash else if length s \<le> m then s else take (m - 1) s @ ellipsis)"

fun comma_groups :: "string \<Rightarrow> string" where
  \<comment> \<open>the loop that appends groups of three\<close>
  "comma_groups [] = []"
| "comma_groups (a # s) = CHR '','' # a # take 2 s @ comma_groups (drop 2 s)"

definition formatInt64 :: "int \<Rightarrow> string" where
  "formatInt64 n = (let s = format_int n in
     if n < 1000 \<and> n > -1000 then s
     else let neg = (if n < 0 then ''-'' else []); digits = (if n < 0 then tl s else s);
              left = (if length digits mod 3 = 0 then 3 else length digits mod 3)
          in neg @ take left digits @ comma_groups (drop left digits))"

subsection \<open>The document\<close>

datatype draw =
    NewPage
  | Margins rat rat rat
  | NoPageBreak
  | PagesAlias string
  | Footer "nat \<Rightarrow> draw list"
  | FillColor int int int
  | TextColor int int int
  | Font string string rat
  | Cell rat rat string string nat string bool   \<comment> \<open>width, height, text, border, ln, align, fill\<close>
  | Gap rat
  | PosY rat

record canvas =
  cv_tr :: "string \<Rightarrow> string"                \<comment> \<open>UnicodeTranslatorFromDescriptor\<close>
  cv_y :: "draw list \<Rightarrow> rat"                 \<comment> \<open>GetY after the calls\<close>
  cv_output :: "draw list \<Rightarrow> string option"  \<comment> \<open>the bytes of the file\<close>
  cv_when :: "int \<Rightarrow> string"                 \<comment> \<open>the time as day, month, hour and zone\<close>

record export_doc =
  ed_ops :: "draw list"
  ed_meta :: export_meta
  ed_total :: int
  ed_written :: nat

definition sep_dot :: string where
  "sep_dot = ''  '' @ mid_dot @ ''  ''"

definition exportTableCols :: "(string \<times> rat) list" where
  "exportTableCols = [(''#'', 8), (''Name'', 32), (''Phone'', 26), (''Email'', 38), (''Location'', 26), (''Source'', 24),
     (''Portal'', 30), (''Qualification'', 24), (''Sales status'', 26), (''Added'', 16), (''Deal'', 17)]"

definition page_footer :: "(string \<Rightarrow> string) \<Rightarrow> nat \<Rightarrow> draw list" where
  "page_footer tr page = [PosY (- 8), Font ''Helvetica'' [] 7, TextColor 108 117 125,
     Cell 0 6 (tr (''LeadFlow confidential'' @ sep_dot @ ''Page '' @ format_int (int page) @ '' of {nb}'')) [] 0 ''C'' False]"

definition writeTitle :: "canvas \<Rightarrow> export_meta \<Rightarrow> int \<Rightarrow> bool \<Rightarrow> draw list" where
  "writeTitle cv meta mt whole = (let tr = cv_tr cv in
     [FillColor 33 37 41, TextColor 255 255 255, Font ''Helvetica'' ''B'' 13,
      Cell 70 9 (tr ''LeadFlow'') ''0'' 0 ''L'' True, Font ''Helvetica'' [] 11,
      Cell 0 9 (tr ''Leads export'') ''0'' 1 ''R'' True,
      FillColor 232 104 18, Cell 0 (6/5) [] ''0'' 1 [] True, Gap 3] @
     (if \<not> whole then
       [TextColor 73 80 87, Font ''Helvetica'' [] 8,
        Cell 0 5 (tr (em_scope meta @ sep_dot @ formatInt64 mt @ '' leads'')) [] 1 ''L'' False, Gap 1]
      else
       [TextColor 33 37 41, Font ''Helvetica'' ''B'' 9,
        Cell 0 5 (tr (''Exported by '' @ em_by meta @ '' ('' @ em_role meta @ '')'' @ sep_dot @ cv_when cv (em_generated meta))) [] 1 ''L'' False,
        Font ''Helvetica'' [] 8, TextColor 73 80 87, Cell 0 (9/2) (tr (em_scope meta)) [] 1 ''L'' False,
        Cell 0 (9/2) (tr (''Filters: '' @ join sep_dot (em_filters meta))) [] 1 ''L'' False,
        Font ''Helvetica'' ''B'' 8, TextColor 33 37 41,
        Cell 0 5 (tr (if mt = 0 then ''0 matching leads'' else formatInt64 mt @ '' matching leads'')) [] 1 ''L'' False,
        Gap 2]))"

definition writeTableHeader :: "canvas \<Rightarrow> draw list" where
  "writeTableHeader cv = [FillColor 33 37 41, TextColor 255 255 255, Font ''Helvetica'' ''B'' 7] @
     map (\<lambda>(label, width). Cell width 7 (cv_tr cv label) ''0'' 0 ''L'' True) exportTableCols @ [Gap 7]"

definition newLeadExportDoc :: "canvas \<Rightarrow> export_meta \<Rightarrow> int \<Rightarrow> export_doc" where
  "newLeadExportDoc cv meta mt =
     \<lparr>ed_ops = [Margins 10 10 10, NoPageBreak, PagesAlias ''{nb}'', Footer (page_footer (cv_tr cv)), NewPage]
        @ writeTitle cv meta mt True @ writeTableHeader cv
        @ (if mt = 0 then [TextColor 108 117 125, Font ''Helvetica'' [] 10, Gap 8,
             Cell 0 8 (cv_tr cv ''No leads match the current filters.'') [] 1 ''C'' False] else []),
      ed_meta = meta, ed_total = mt, ed_written = 0\<rparr>"

definition rowH :: rat where
  "rowH = 33 / 5"

definition pageBottom :: rat where
  "pageBottom = 198"

definition row_values :: "nat \<Rightarrow> lead_export_row \<Rightarrow> string list" where
  "row_values k row = [format_int (int k), er_name row, er_phone row, er_email row, er_location row, er_source row,
     er_portal row, er_qualification row, er_salesStatus row, er_added row, er_deal row]"

definition row_draws :: "canvas \<Rightarrow> nat \<Rightarrow> lead_export_row \<Rightarrow> draw list" where
  "row_draws cv written row =
     [if written mod 2 = 0 then FillColor 248 249 250 else FillColor 255 255 255, TextColor 33 37 41, Font ''Helvetica'' [] (13/2)] @
     map (\<lambda>(ci, v, (label, width)). Cell width rowH (cv_tr cv (clipPDF v 42)) ''0'' 0 (if ci = 0 then ''R'' else ''L'') True)
       (enumerate 0 (zip (row_values (written + 1) row) exportTableCols)) @ [Gap rowH]"

definition add_row :: "canvas \<Rightarrow> lead_export_row \<Rightarrow> export_doc \<Rightarrow> export_doc" where
  \<comment> \<open>\<open>leadExportDoc.Add\<close>\<close>
  "add_row cv row doc =
     (let ops = (if cv_y cv (ed_ops doc) + rowH > pageBottom
          then ed_ops doc @ [NewPage] @ writeTitle cv (ed_meta doc) (ed_total doc) False @ writeTableHeader cv
          else ed_ops doc)
      in doc\<lparr>ed_ops := ops @ row_draws cv (ed_written doc) row, ed_written := ed_written doc + 1\<rparr>)"

definition doc_bytes :: "canvas \<Rightarrow> export_doc \<Rightarrow> string option" where
  \<comment> \<open>\<open>leadExportDoc.Bytes\<close>\<close>
  "doc_bytes cv doc = cv_output cv (ed_ops doc)"

definition draw_export :: "canvas \<Rightarrow> export_meta \<Rightarrow> int \<Rightarrow> lead_export_row list \<Rightarrow> export_doc" where
  \<comment> \<open>the loop over the rows\<close>
  "draw_export cv meta mt rows = fold (add_row cv) rows (newLeadExportDoc cv meta mt)"

definition buildLeadsExportPDF :: "canvas \<Rightarrow> int \<Rightarrow> lead_export_row list \<Rightarrow> export_meta \<Rightarrow> string option" where
  "buildLeadsExportPDF cv matchTotal rows meta =
     doc_bytes cv (draw_export cv meta (if matchTotal = 0 then int (length rows) else matchTotal) rows)"

subsection \<open>What the document shows\<close>

definition table_texts :: "draw list \<Rightarrow> string list" where
  \<comment> \<open>the texts in the rows of the table, which alone are of height \<open>rowH\<close>\<close>
  "table_texts ops = concat (map (\<lambda>x. case x of Cell w h s b br al f \<Rightarrow> if h = rowH then [s] else [] | _ \<Rightarrow> []) ops)"

lemma table_texts_append [simp]: "table_texts (xs @ ys) = table_texts xs @ table_texts ys"
  by (simp add: table_texts_def)

lemma rows_unlike: "rowH \<noteq> 9" "rowH \<noteq> 6/5" "rowH \<noteq> 5" "rowH \<noteq> 9/2" "rowH \<noteq> 7" "rowH \<noteq> 8"
  by (simp_all add: rowH_def)

lemma no_rows_in_heads [simp]: "table_texts (writeTitle cv meta n whole) = []" "table_texts (writeTableHeader cv) = []"
  using rows_unlike by (auto simp: table_texts_def writeTitle_def Let_def writeTableHeader_def)

lemma table_texts_Cons [simp]: "table_texts [] = []" "table_texts (x # y # xs) = table_texts [x] @ table_texts (y # xs)"
  by (simp_all add: table_texts_def)

lemma table_texts_other [simp]: "table_texts [NewPage] = []" "table_texts [Margins a b c] = []" "table_texts [NoPageBreak] = []"
  "table_texts [PagesAlias s] = []" "table_texts [Footer g] = []" "table_texts [TextColor i j k] = []"
  "table_texts [Font s u v] = []" "table_texts [Gap h] = []"
  by (simp_all add: table_texts_def)

lemma no_rows_at_first: "table_texts (ed_ops (newLeadExportDoc cv meta n)) = []"
proof -
  have "table_texts [Cell 0 8 s [] 1 ''C'' False] = []" for s using rows_unlike by (simp add: table_texts_def)
  then show ?thesis unfolding newLeadExportDoc_def by (simp only: table_texts_append table_texts_other append_Nil append_Nil2
      table_texts_Cons no_rows_in_heads if_distrib [of table_texts] if_cancel export_doc.simps)
qed

lemma row_texts: "table_texts (row_draws cv k row) = map (\<lambda>v. cv_tr cv (clipPDF v 42)) (row_values (k + 1) row)"
  by (simp add: table_texts_def row_draws_def row_values_def exportTableCols_def)

definition table_of :: "canvas \<Rightarrow> nat \<Rightarrow> lead_export_row list \<Rightarrow> string list" where
  \<comment> \<open>what the table should hold: the rows in order, numbered from \<open>k\<close>\<close>
  "table_of cv k rows = concat (map (\<lambda>(i, row). map (\<lambda>v. cv_tr cv (clipPDF v 42)) (row_values i row)) (enumerate k rows))"

lemma add_row_simps:
  "ed_ops (add_row cv row doc) = (if cv_y cv (ed_ops doc) + rowH > pageBottom
      then ed_ops doc @ [NewPage] @ writeTitle cv (ed_meta doc) (ed_total doc) False @ writeTableHeader cv
      else ed_ops doc) @ row_draws cv (ed_written doc) row"
  "ed_written (add_row cv row doc) = ed_written doc + 1"
  by (simp_all add: add_row_def)

lemma add_rows: "table_texts (ed_ops (fold (add_row cv) rows doc)) = table_texts (ed_ops doc) @ table_of cv (ed_written doc + 1) rows \<and>
    ed_written (fold (add_row cv) rows doc) = ed_written doc + length rows"
proof (induction rows arbitrary: doc)
  case Nil
  then show ?case by (simp add: table_of_def)
next
  case (Cons row rows)
  have one: "table_texts (ed_ops (add_row cv row doc)) =
      table_texts (ed_ops doc) @ map (\<lambda>v. cv_tr cv (clipPDF v 42)) (row_values (ed_written doc + 1) row)"
    "ed_written (add_row cv row doc) = ed_written doc + 1"
    by (simp_all only: add_row_simps if_distrib [of table_texts] table_texts_append row_texts
        no_rows_in_heads table_texts_other append_Nil append_Nil2 if_cancel)
  show ?case using Cons.IH [of "add_row cv row doc"] by (simp add: one table_of_def)
qed

lemma drawn_rows: "table_texts (ed_ops (draw_export cv meta n rows)) = table_of cv 1 rows"
  "ed_written (draw_export cv meta n rows) = length rows"
  using add_rows [of cv rows "newLeadExportDoc cv meta n"] no_rows_at_first
  by (simp_all add: draw_export_def newLeadExportDoc_def)

text \<open>The table of an export holds every row exactly once, in order and numbered from one, whatever
  page breaks the positions of the pen cause, and the count the response announces is the number of rows.\<close>

theorem export_draws_every_row:
  "table_texts (ed_ops (draw_export cv meta n rows)) = table_of cv 1 rows \<and>
   ed_written (draw_export cv meta n rows) = length rows"
  by (simp only: drawn_rows simp_thms)

subsection \<open>Numbers\<close>

lemma digits_no_comma: "list_all (\<lambda>c. c \<noteq> CHR '','') (dec_digits n)"
proof (induction n rule: dec_digits.induct)
  case (1 n)
  have d: "list_all (\<lambda>k. char_of (48 + k) \<noteq> CHR '','') [0..<10]" by code_simp
  have "char_of (48 + k) \<noteq> CHR '',''" if "k < 10" for k :: nat
    using that d unfolding list_all_iff by simp
  then show ?case using 1 by (subst dec_digits.simps) simp
qed

lemma groups_read_back: "list_all (\<lambda>c. c \<noteq> CHR '','') s \<Longrightarrow> filter (\<lambda>c. c \<noteq> CHR '','') (comma_groups s) = s"
proof (induction s rule: comma_groups.induct)
  case (2 a s)
  have "list_all (\<lambda>c. c \<noteq> CHR '','') (take 2 s)" "list_all (\<lambda>c. c \<noteq> CHR '','') (drop 2 s)"
    using "2.prems" by (auto simp: list_all_iff dest: in_set_takeD in_set_dropD)
  moreover have "filter (\<lambda>c. c \<noteq> CHR '','') (take 2 s) = take 2 s" using calculation(1) by (simp add: list_all_iff filter_id_conv)
  ultimately show ?case using 2 by simp
qed simp

text \<open>A number with separators reads as the number: without its commas it is the decimal text.\<close>

theorem separators_read_back: "filter (\<lambda>c. c \<noteq> CHR '','') (formatInt64 n) = format_int n"
proof -
  have keep: "filter (\<lambda>c. c \<noteq> CHR '','') s = s" if "list_all (\<lambda>c. c \<noteq> CHR '','') s" for s
    using that by (simp add: list_all_iff filter_id_conv)
  have parts: "filter (\<lambda>c. c \<noteq> CHR '','') (take k s) @ filter (\<lambda>c. c \<noteq> CHR '','') (comma_groups (drop k s)) = s"
    if "list_all (\<lambda>c. c \<noteq> CHR '','') s" for s k
  proof -
    have "list_all (\<lambda>c. c \<noteq> CHR '','') (take k s)" "list_all (\<lambda>c. c \<noteq> CHR '','') (drop k s)"
      using that by (auto simp: list_all_iff dest: in_set_takeD in_set_dropD)
    then show ?thesis by (simp add: keep groups_read_back)
  qed
  show ?thesis unfolding formatInt64_def Let_def format_int_def
    by (simp add: keep digits_no_comma parts)
qed

subsection \<open>Where the rows stand\<close>

definition pen_step :: "draw \<Rightarrow> rat \<Rightarrow> rat" where
  \<comment> \<open>how the calls used in the flow of a page move the pen down, as the library documents it\<close>
  "pen_step x y = (case x of NewPage \<Rightarrow> 10 | Gap h \<Rightarrow> y + h
     | Cell w h s b br al f \<Rightarrow> if br = 1 then y + h else y | _ \<Rightarrow> y)"

definition fpdf_pen :: "canvas \<Rightarrow> bool" where
  "fpdf_pen cv \<longleftrightarrow> (\<forall>ops. cv_y cv ops = fold pen_step ops 0)"

fun rows_fit :: "(draw list \<Rightarrow> rat) \<Rightarrow> draw list \<Rightarrow> draw list \<Rightarrow> bool" where
  \<comment> \<open>after \<open>pre\<close>, every row of the table ends above the bottom of its page\<close>
  "rows_fit y pre [] = True"
| "rows_fit y pre (x # xs) = ((table_texts [x] \<noteq> [] \<longrightarrow> y pre + rowH \<le> pageBottom) \<and> rows_fit y (pre @ [x]) xs)"

lemma rows_fit_append: "rows_fit y pre (xs @ ys) \<longleftrightarrow> rows_fit y pre xs \<and> rows_fit y (pre @ xs) ys"
  by (induction xs arbitrary: pre) auto

lemma rows_fit_none: "table_texts xs = [] \<Longrightarrow> rows_fit y pre xs"
proof (induction xs arbitrary: pre)
  case (Cons x xs)
  have "table_texts [x] @ table_texts xs = []" using Cons.prems by (simp flip: table_texts_append)
  then show ?case using Cons.IH by simp
qed simp

lemma rows_fit_level:
  "fpdf_pen cv \<Longrightarrow> list_all (\<lambda>x. \<forall>v. pen_step x v = v) xs \<Longrightarrow> cv_y cv pre + rowH \<le> pageBottom \<Longrightarrow> rows_fit (cv_y cv) pre xs"
  by (induction xs arbitrary: pre) (simp_all add: fpdf_pen_def)

lemma new_page_height: "fpdf_pen cv \<Longrightarrow>
    cv_y cv (ops @ [NewPage] @ writeTitle cv meta n False @ writeTableHeader cv) = 181 / 5"
  by (simp add: fpdf_pen_def writeTitle_def writeTableHeader_def exportTableCols_def pen_step_def Let_def)

lemma row_levels: "row_draws cv k row = butlast (row_draws cv k row) @ [Gap rowH] \<and>
    list_all (\<lambda>x. \<forall>v. pen_step x v = v) (butlast (row_draws cv k row))"
  by (simp add: row_draws_def row_values_def exportTableCols_def pen_step_def)

lemma row_fits:
  assumes "fpdf_pen cv" "cv_y cv ops + rowH \<le> pageBottom"
  shows "rows_fit (cv_y cv) ops (row_draws cv k row)"
proof -
  note lv = row_levels [of cv k row]
  have "rows_fit (cv_y cv) ops (butlast (row_draws cv k row))"
    by (rule rows_fit_level [OF assms(1) conjunct2 [OF lv] assms(2)])
  moreover have "rows_fit (cv_y cv) (ops @ butlast (row_draws cv k row)) [Gap rowH]" by (rule rows_fit_none) simp
  ultimately show ?thesis using conjunct1 [OF lv] by (metis rows_fit_append)
qed

lemma add_row_fits:
  assumes "fpdf_pen cv" "rows_fit (cv_y cv) [] (ed_ops doc)"
  shows "rows_fit (cv_y cv) [] (ed_ops (add_row cv row doc))"
proof -
  let ?head = "[NewPage] @ writeTitle cv (ed_meta doc) (ed_total doc) False @ writeTableHeader cv"
  have "table_texts ?head = []" by (simp only: table_texts_append no_rows_in_heads table_texts_other append_Nil)
  then have head: "rows_fit (cv_y cv) pre ?head" for pre by (rule rows_fit_none)
  show ?thesis
  proof (cases "cv_y cv (ed_ops doc) + rowH > pageBottom")
    case True
    have "cv_y cv (ed_ops doc @ ?head) + rowH \<le> pageBottom"
      unfolding new_page_height [OF assms(1)] by (simp add: rowH_def pageBottom_def)
    from row_fits [OF assms(1) this] head assms(2) show ?thesis
      unfolding add_row_simps if_P [OF True] by (simp only: rows_fit_append append_Nil simp_thms)
  next
    case False
    then have "cv_y cv (ed_ops doc) + rowH \<le> pageBottom" by simp
    from row_fits [OF assms(1) this] assms(2) show ?thesis
      unfolding add_row_simps if_not_P [OF False] by (simp only: rows_fit_append append_Nil simp_thms)
  qed
qed

text \<open>No row of an export leaves its page: with the pen of the library, every row of the table ends
  at most 198 mm below the top of its page, above the footer.\<close>

theorem rows_stay_on_the_page:
  assumes "fpdf_pen cv"
  shows "rows_fit (cv_y cv) [] (ed_ops (draw_export cv meta n rows))"
proof -
  have "rows_fit (cv_y cv) [] (ed_ops doc) \<Longrightarrow> rows_fit (cv_y cv) [] (ed_ops (fold (add_row cv) rows doc))" for doc
    by (induction rows arbitrary: doc) (simp_all add: add_row_fits [OF assms])
  then show ?thesis unfolding draw_export_def by (simp add: rows_fit_none no_rows_at_first)
qed

definition plain_canvas :: canvas where
  \<comment> \<open>texts unchanged; the file is the texts of its table\<close>
  "plain_canvas = \<lparr>cv_tr = (\<lambda>s. s), cv_y = (\<lambda>ops. fold pen_step ops 0),
     cv_output = (\<lambda>ops. Some (join '','' (table_texts ops))), cv_when = format_int\<rparr>"

theorem rows_stay_on_the_page_witness:
  "rows_fit (cv_y plain_canvas) [] (ed_ops (draw_export plain_canvas meta 100 (replicate 100 row)))"
  by (rule rows_stay_on_the_page) (simp add: fpdf_pen_def plain_canvas_def)

end
