(* ===== verification/Export.thy ===== *)
theory Export
  imports ExportDoc ListHandlers LeadPages
begin

section \<open>Exports of leads (leads_export.go, handlers_leads_export.go)\<close>

text \<open>
  The lock that allows one export per user at a time, the statements of an export and its
  handler. Exports of different requests run at the same time; how they share the lock is a
  step relation. The lock is a map from users to the start of their export, times are milliseconds.
\<close>

subsection \<open>The lock\<close>

type_synonym flights = "string \<rightharpoonup> int"

definition ten_minutes :: int where
  "ten_minutes = 600000"

definition acquire :: "int \<Rightarrow> string \<Rightarrow> flights \<Rightarrow> bool \<times> flights" where
  "acquire t uid active = (case active uid of
     Some started \<Rightarrow> if t - started < ten_minutes then (False, active) else (True, active(uid \<mapsto> t))
   | None \<Rightarrow> (True, active(uid \<mapsto> t)))"

definition release :: "string \<Rightarrow> flights \<Rightarrow> flights" where
  "release uid active = active(uid := None)"

subsection \<open>The statements\<close>

record export_result =
  ex_total :: int
  ex_written :: nat
  ex_filter :: string
  ex_sort :: string
  ex_query :: string

definition export_rows :: "(string \<Rightarrow> 'k::linorder) \<Rightarrow> string \<Rightarrow> builder \<Rightarrow> db \<Rightarrow> lead_row list" where
  \<comment> \<open>the list statement of an export\<close>
  "export_rows coll srt b d = map (row_of d) (order_by (exportOrderSQL coll d srt) (filter (holds_all b (snd b) d) (leads d)))"

definition ExportLeadsPDF :: "pg \<Rightarrow> texts \<Rightarrow> zone \<Rightarrow> (string \<Rightarrow> 'k::linorder) \<Rightarrow> canvas \<Rightarrow> lead_params \<Rightarrow> export_meta \<Rightarrow> (string \<times> export_result) op" where
  \<comment> \<open>\<open>SET LOCAL statement_timeout\<close>, the count and the rows in one transaction, then the file\<close>
  "ExportLeadsPDF p tx zone coll cv ps0 meta =
     (let ps = normal_params ps0; b = buildLeadListWhere p zone ps 0 in
      bindE (in_tx (seqE (exec (\<lambda>d. d))
        (bindE (query (\<lambda>d. count_where (holds_all b (snd b) d) (leads d))) (\<lambda>n.
         bindE (query (export_rows coll (lp_sort ps) b)) (\<lambda>rows. ret (n, rows)))))) (\<lambda>(n, rows).
      let doc = draw_export cv meta (int n) (map (scanLeadExportRow tx) rows) in
      bindE (the_or (ErrMsg ''pdf output failed'') (doc_bytes cv doc)) (\<lambda>pdf.
      ret (pdf, \<lparr>ex_total = int n, ex_written = ed_written doc, ex_filter = lp_filter ps, ex_sort = lp_sort ps,
        ex_query = lp_query ps\<rparr>))))"

subsection \<open>The handler\<close>

definition is_letter :: "char \<Rightarrow> bool" where
  \<comment> \<open>unicode.IsLetter on U+0000..U+00FF\<close>
  "is_letter c \<longleftrightarrow> is_ascii_letter c \<or> c \<in> {CHR 0xAA, CHR 0xB5, CHR 0xBA} \<or>
     (char_code c \<ge> 192 \<and> c \<noteq> CHR 0xD7 \<and> c \<noteq> CHR 0xF7)"

definition sanitizeFilenamePart :: "string \<Rightarrow> string" where
  \<comment> \<open>the length is in bytes: on texts beyond ASCII the code may cut earlier, and within a character\<close>
  "sanitizeFilenamePart s =
     (let dash = (\<lambda>c. c = CHR ''-'');
          b = map (\<lambda>c. if is_letter c \<or> is_digit c then c else CHR ''-'') (to_lower (trim s));
          out = rev (dropWhile dash (rev (dropWhile dash b)))
      in if out = [] then ''custom'' else take 32 out)"

definition leadExportFilename :: "(int \<Rightarrow> string) \<Rightarrow> lead_params \<Rightarrow> int \<Rightarrow> string" where
  \<comment> \<open>given the business day of an instant\<close>
  "leadExportFilename day ps t =
     (let f = normalizeLeadFilter (lp_filter ps) in
      ''leadflow-leads-'' @ day t
      @ (if f \<noteq> [] \<and> f \<noteq> ''all'' then ''-'' @ sanitizeFilenamePart f else [])
      @ (if trim (lp_query ps) \<noteq> [] then ''-search'' else [])
      @ (if trim (lp_country ps) \<noteq> [] \<or> trim (lp_status ps) \<noteq> [] \<or> trim (lp_stage ps) \<noteq> [] \<or> trim (lp_source ps) \<noteq> []
           \<or> trim (lp_portal ps) \<noteq> [] \<or> trim (lp_addedFrom ps) \<noteq> [] \<or> trim (lp_addedTo ps) \<noteq> [] then ''-filtered'' else [])
      @ ''.pdf'')"

record 'k export_env =
  xe_pg :: pg
  xe_texts :: texts
  xe_zone :: zone
  xe_coll :: "string \<Rightarrow> 'k"
  xe_canvas :: canvas
  xe_timed_out :: bool      \<comment> \<open>whether the three minutes passed, when the export fails\<close>

record export_file =
  ef_name :: string
  ef_count :: nat
  ef_total :: int
  ef_pdf :: string

definition export_params :: "auth_user \<Rightarrow> (string \<times> string) list \<Rightarrow> lead_params" where
  "export_params actor q = (leadListParamsFromRequest (Some actor) q)\<lparr>lp_sort := qget q ''sort'',
     lp_query := qget q ''q'', lp_field := qget q ''field''\<rparr>"

definition meta_for :: "auth_user \<Rightarrow> lead_params \<Rightarrow> int \<Rightarrow> export_meta" where
  "meta_for actor ps t = \<lparr>em_by = firstNonEmpty [a_name actor, a_email actor, ''Unknown user''],
     em_role = roleLabel (a_role actor), em_scope = exportScopeNote (a_role actor),
     em_filters = describeLeadExportFilters ps, em_generated = t\<rparr>"

definition export_work :: "('k::linorder) export_env \<Rightarrow> request \<Rightarrow> auth_user \<Rightarrow> export_file act" where
  \<comment> \<open>the handler between acquiring and releasing the lock\<close>
  "export_work env r actor = andThen clock (\<lambda>t. let ps = export_params actor (rq_query r); meta = meta_for actor ps t in
     andThen (store (ExportLeadsPDF (xe_pg env) (xe_texts env) (xe_zone env) (xe_coll env) (xe_canvas env) ps meta)) (\<lambda>x.
       case x of Inl e \<Rightarrow> if xe_timed_out env then reply (failure 504 (''export timed out '' @ em_dash @ '' try again''))
                          else reply (failure 500 ''failed to export leads'')
       | Inr (pdf, res) \<Rightarrow> pass \<lparr>ef_name = leadExportFilename (tx_day (xe_texts env)) ps (em_generated meta),
           ef_count = ex_written res, ef_total = ex_total res, ef_pdf = pdf\<rparr>))"

definition handleLeadsExport :: "('k::linorder) export_env \<Rightarrow> request \<Rightarrow> auth_user option \<Rightarrow> server \<times> flights \<Rightarrow> (response + export_file) \<times> server \<times> flights" where
  "handleLeadsExport env r auth sf = (case sf of (s, fl) \<Rightarrow>
     if rq_method r \<noteq> ''GET'' then (Inl method_not_allowed, s, fl)
     else case requireLeadDataAccess auth s of (Inl resp, s') \<Rightarrow> (Inl resp, s', fl)
     | (Inr _, s1) \<Rightarrow> (case auth of None \<Rightarrow> (Inl (failure 401 ''authentication required''), s1, fl)
       | Some actor \<Rightarrow> (case acquire (now (s_world s1)) (a_id actor) fl of
           (False, fl1) \<Rightarrow> (Inl (failure 429 (''an export is already running '' @ em_dash @ '' wait for it to finish'')), s1, fl1)
         | (True, fl1) \<Rightarrow> (case export_work env r actor s1 of (x, s2) \<Rightarrow> (x, s2, release (a_id actor) fl1)))))"

subsection \<open>What is exported\<close>

definition two_reads :: "(db \<Rightarrow> 'a) \<Rightarrow> (db \<Rightarrow> 'b) \<Rightarrow> ('a \<times> 'b) op" where
  \<comment> \<open>the transaction of an export\<close>
  "two_reads q r = in_tx (seqE (exec (\<lambda>d. d)) (bindE (query q) (\<lambda>n. bindE (query r) (\<lambda>rows. ret (n, rows)))))"

lemma sql_tables: "sql (\<lambda>d. (f d, d)) w = (x, w') \<Longrightarrow> tables w' = tables w \<and> now w' = now w \<and> (\<forall>a. x = Inr a \<longrightarrow> a = f (tables w))"
  by (auto simp: sql_def split: if_splits list.splits option.splits)

lemma two_reads_result:
  assumes "two_reads q r w = (x, w')"
  shows "tables w' = tables w \<and> (\<forall>a. x = Inr a \<longrightarrow> a = (q (tables w), r (tables w)))"
  using assms unfolding two_reads_def in_tx_def seqE_def bindE_def exec_def query_def ret_def tx_end_def
  by (auto split: prod.splits sum.splits dest!: sql_tables)

definition fair :: "world \<Rightarrow> bool" where
  \<comment> \<open>no statement fails; a transaction may be open\<close>
  "fair w \<longleftrightarrow> (\<forall>f \<in> set (faults w). f = None) \<and> \<not> aborted w"

lemma sql_fair: "fair w \<Longrightarrow> \<exists>w'. sql (\<lambda>d. (f d, d)) w = (Inr (f (tables w)), w') \<and> fair w' \<and> tables w' = tables w"
  by (cases "faults w") (auto simp: fair_def sql_def split: option.split)

lemma two_reads_fair:
  assumes "calm w"
  shows "\<exists>a w'. two_reads q r w = (Inr a, w')"
proof -
  have "fair w" using assms by (simp add: calm_def fair_def)
  then obtain w1 where w1: "sql (\<lambda>d. ((), d)) w = (Inr (), w1)" "fair w1" using sql_fair [of w "\<lambda>_. ()"] by auto
  have "fair (w1\<lparr>intx := True\<rparr>)" using w1(2) by (simp add: fair_def)
  then obtain w2 where w2: "sql (\<lambda>d. ((), d)) (w1\<lparr>intx := True\<rparr>) = (Inr (), w2)" "fair w2" using sql_fair [of _ "\<lambda>_. ()"] by auto
  obtain w3 where w3: "sql (\<lambda>d. (q d, d)) w2 = (Inr (q (tables w2)), w3)" "fair w3" using sql_fair [OF w2(2)] by blast
  obtain w4 where w4: "sql (\<lambda>d. (r d, d)) w3 = (Inr (r (tables w3)), w4)" "fair w4" using sql_fair [OF w3(2)] by blast
  obtain w5 where w5: "sql (\<lambda>d. ((), d)) w4 = (Inr (), w5)" using sql_fair [OF w4(2), of "\<lambda>_. ()"] by auto
  show ?thesis unfolding two_reads_def in_tx_def seqE_def bindE_def exec_def query_def ret_def
    by (simp add: w1 w2 w3 w4 w5)
qed

definition export_leads :: "pg \<Rightarrow> zone \<Rightarrow> (string \<Rightarrow> 'k::linorder) \<Rightarrow> lead_params \<Rightarrow> db \<Rightarrow> lead list" where
  \<comment> \<open>the leads of the request in the order of the list\<close>
  "export_leads p zone coll ps d = sorted_matches p zone coll ps d"

lemma built_holds: "holds_all (buildLeadListWhere p zone ps 0) (snd (buildLeadListWhere p zone ps 0)) d = lead_matches p zone ps d"
  by (rule ext) (rule built_where)

lemma export_rows_matches:
  "export_rows coll (lp_sort (normal_params ps)) (buildLeadListWhere p zone (normal_params ps) 0) d =
   map (row_of d) (export_leads p zone coll ps d)"
  by (simp only: export_rows_def exportOrderSQL_ordered export_leads_def sorted_matches_def matching_def built_holds)
     (simp add: normal_params_def)

lemma export_count: "count_where (holds_all (buildLeadListWhere p zone (normal_params ps) 0)
    (snd (buildLeadListWhere p zone (normal_params ps) 0)) d) (leads d) = length (export_leads p zone coll ps d)"
  by (simp only: count_where_def built_holds export_leads_def sorted_matches_def matching_def length_order_by)

lemma export_scope:
  assumes "proper_actor d actor" "l \<in> set (export_leads p zone coll (export_params actor q) d)"
  shows "l \<in> set (leads d) \<and> may_see d actor l"
proof -
  have l: "l \<in> set (leads d)" "facets_mean zone (normal_params (export_params actor q)) d l"
    using assms(2) by (auto simp: export_leads_def sorted_matches_def set_order_by matching_def lead_matches_def)
  have "may_see d actor l"
    by (rule forced_facets [OF assms(1) l(1), of q])
      (use l(2) in \<open>simp_all add: facets_mean_def normal_params_def export_params_def\<close>)
  then show ?thesis using l(1) by simp
qed

lemma ExportLeadsPDF_result:
  assumes "ExportLeadsPDF p tx zone coll cv ps meta w = (x, w')"
  shows "tables w' = tables w" "x = Inr (pdf, res) \<Longrightarrow>
      (let rows = export_leads p zone coll ps (tables w);
           doc = draw_export cv meta (int (length rows)) (map (scanLeadExportRow tx \<circ> row_of (tables w)) rows) in
       doc_bytes cv doc = Some pdf \<and> ex_total res = int (length rows) \<and> ex_written res = length rows)"
    and "calm w \<Longrightarrow> (\<forall>ops. cv_output cv ops \<noteq> None) \<Longrightarrow> \<exists>y. x = Inr y"
proof -
  let ?b = "buildLeadListWhere p zone (normal_params ps) 0"
  let ?q = "\<lambda>d. count_where (holds_all ?b (snd ?b) d) (leads d)" and ?r = "export_rows coll (lp_sort (normal_params ps)) ?b"
  obtain y w1 where t: "two_reads ?q ?r w = (y, w1)" by force
  note tr = two_reads_result [OF t]
  note run = assms [unfolded ExportLeadsPDF_def Let_def, folded two_reads_def, unfolded bindE_def t prod.case]
  show "tables w' = tables w" using run tr
    by (auto simp: the_or_def throw_def ret_def split: sum.splits option.splits)
  show "let rows = export_leads p zone coll ps (tables w);
      doc = draw_export cv meta (int (length rows)) (map (scanLeadExportRow tx \<circ> row_of (tables w)) rows) in
    doc_bytes cv doc = Some pdf \<and> ex_total res = int (length rows) \<and> ex_written res = length rows" if x: "x = Inr (pdf, res)"
  proof -
    have y: "y = Inr (length (export_leads p zone coll ps (tables w)), map (row_of (tables w)) (export_leads p zone coll ps (tables w)))"
      using run x tr by (cases y) (auto simp: export_rows_matches export_count [of _ _ _ _ coll])
    show ?thesis using run x unfolding y
      by (auto simp: the_or_def throw_def ret_def Let_def drawn_rows split: option.splits)
  qed
  show "\<exists>y. x = Inr y" if c: "calm w" "\<forall>ops. cv_output cv ops \<noteq> None"
  proof -
    obtain n rows where y: "y = Inr (n, rows)" using two_reads_fair [OF c(1), of ?q ?r] t by (metis prod.exhaust prod.inject)
    have g: "\<exists>v. cv_output cv ops = Some v" for ops using spec [OF c(2), of ops] by (simp only: not_None_eq)
    obtain v where v: "cv_output cv (ed_ops (draw_export cv meta (int n) (map (scanLeadExportRow tx) rows))) = Some v" using g by blast
    show ?thesis using run unfolding y by (auto simp: the_or_def ret_def doc_bytes_def v)
  qed
qed

lemma acquire_release: "snd (acquire t uid fl) = fl1 \<Longrightarrow> release uid fl1 = release uid fl \<and> (\<not> fst (acquire t uid fl) \<longrightarrow> fl1 = fl)"
  by (auto simp: acquire_def release_def split: option.splits if_splits)

lemma requireLeadDataAccess_cases:
  "requireLeadDataAccess (Some a) s = (if canViewLeadData (a_role a) then (Inr (), s)
     else (Inl (failure 403 ''lead data is not available for this role''), s))"
  by (simp add: requireLeadDataAccess_def require_def pass_def reply_def)

lemma export_work_cases:
  assumes "export_work env r actor s = (x, s')"
  shows "\<exists>y w'. ExportLeadsPDF (xe_pg env) (xe_texts env) (xe_zone env) (xe_coll env) (xe_canvas env) (export_params actor (rq_query r))
      (meta_for actor (export_params actor (rq_query r)) (now (s_world s))) (s_world s) = (y, w') \<and> s_world s' = w' \<and>
    (\<forall>pf. x = Inr pf \<longrightarrow> (\<exists>res. y = Inr (ef_pdf pf, res) \<and> ef_count pf = ex_written res \<and> ef_total pf = ex_total res)) \<and>
    ((\<exists>pf. x = Inr pf) \<longleftrightarrow> (\<exists>z. y = Inr z))"
  using assms unfolding export_work_def andThen_def clock_def store_def Let_def
  by (auto simp: reply_def pass_def split: prod.splits sum.splits if_splits)

definition export_shows :: "('k::linorder) export_env \<Rightarrow> request \<Rightarrow> auth_user \<Rightarrow> db \<Rightarrow> lead list \<Rightarrow> draw list \<Rightarrow> export_file \<Rightarrow> bool" where
  \<comment> \<open>the file made of the drawing calls shows these leads, those of the request in the order of the list\<close>
  "export_shows env r actor d ls ops pf \<longleftrightarrow>
     ls = sorted_matches (xe_pg env) (xe_zone env) (xe_coll env) (export_params actor (rq_query r)) d \<and>
     ef_count pf = length ls \<and> ef_total pf = int (length ls) \<and> cv_output (xe_canvas env) ops = Some (ef_pdf pf) \<and>
     table_texts ops = table_of (xe_canvas env) 1 (map (scanLeadExportRow (xe_texts env) \<circ> row_of d) ls)"

lemma export_work_result:
  assumes "export_work env r actor s = (y, s')"
  shows "tables (s_world s') = tables (s_world s)"
    and "y = Inr pf \<Longrightarrow> \<exists>ops. export_shows env r actor (tables (s_world s))
      (sorted_matches (xe_pg env) (xe_zone env) (xe_coll env) (export_params actor (rq_query r)) (tables (s_world s))) ops pf"
    and "calm (s_world s) \<Longrightarrow> \<forall>ops. cv_output (xe_canvas env) ops \<noteq> None \<Longrightarrow> \<exists>pf. y = Inr pf"
proof -
  let ?ps = "export_params actor (rq_query r)"
  from export_work_cases [OF assms] obtain z w' where z:
    "ExportLeadsPDF (xe_pg env) (xe_texts env) (xe_zone env) (xe_coll env) (xe_canvas env) ?ps (meta_for actor ?ps (now (s_world s))) (s_world s) = (z, w')"
    "s_world s' = w'"
    "\<And>pf. y = Inr pf \<Longrightarrow> \<exists>res. z = Inr (ef_pdf pf, res) \<and> ef_count pf = ex_written res \<and> ef_total pf = ex_total res"
    "(\<exists>pf. y = Inr pf) \<longleftrightarrow> (\<exists>z'. z = Inr z')" by blast
  note ex = ExportLeadsPDF_result [OF z(1)]
  show "tables (s_world s') = tables (s_world s)" using ex(1) z(2) by simp
  show "\<exists>ops. export_shows env r actor (tables (s_world s)) (sorted_matches (xe_pg env) (xe_zone env) (xe_coll env) ?ps (tables (s_world s))) ops pf"
    if y: "y = Inr pf"
  proof -
    from z(3) [OF y] obtain res where res: "z = Inr (ef_pdf pf, res)" "ef_count pf = ex_written res" "ef_total pf = ex_total res" by blast
    show ?thesis using ex(2) [OF res(1)] drawn_rows(1) res(2,3) unfolding Let_def doc_bytes_def export_leads_def export_shows_def by auto
  qed
  show "\<exists>pf. y = Inr pf" if "calm (s_world s)" "\<forall>ops. cv_output (xe_canvas env) ops \<noteq> None"
    using ex(3) [OF that] z(4) by simp
qed

text \<open>C39. An export shows what the list shows. Its table holds the leads the request matches, each once
  and in the order of the list, none of them hidden from the actor, and the announced count and total are
  their number. It changes no table and leaves the lock of the user free. An actor with access to leads
  whose export is not running gets the file when no statement fails.\<close>

theorem export_is_the_list:
  assumes "proper_actor (tables (s_world s)) actor" "handleLeadsExport env r (Some actor) (s, fl) = (x, s', fl')"
  shows "tables (s_world s') = tables (s_world s) \<and> (fl' = fl \<or> fl' = release (a_id actor) fl) \<and>
    (\<forall>pf. x = Inr pf \<longrightarrow> (\<exists>shown ops. export_shows env r actor (tables (s_world s)) shown ops pf \<and>
      set shown = {l \<in> set (leads (tables (s_world s))). lead_matches (xe_pg env) (xe_zone env)
        (normal_params (export_params actor (rq_query r))) (tables (s_world s)) l} \<and>
      (\<forall>l \<in> set shown. may_see (tables (s_world s)) actor l))) \<and>
    (rq_method r = ''GET'' \<and> fst (acquire (now (s_world s)) (a_id actor) fl) \<and> calm (s_world s) \<and>
     (\<forall>ops. cv_output (xe_canvas env) ops \<noteq> None) \<longrightarrow> (\<exists>pf. x = Inr pf))"
proof -
  let ?d = "tables (s_world s)" and ?ps = "export_params actor (rq_query r)" and ?t = "now (s_world s)"
  let ?shown = "sorted_matches (xe_pg env) (xe_zone env) (xe_coll env) ?ps ?d"
  have view: "canViewLeadData (a_role actor)" using assms(1) by (simp add: proper_actor_def canViewLeadData_def)
  obtain ok fl1 where a: "acquire ?t (a_id actor) fl = (ok, fl1)" by force
  note ar = acquire_release [of ?t "a_id actor" fl fl1, unfolded a fst_conv snd_conv, OF refl]
  note run = assms(2) [unfolded handleLeadsExport_def prod.case requireLeadDataAccess_cases if_P [OF view] sum.case option.case a]
  show ?thesis
  proof (cases "rq_method r = ''GET'' \<and> ok")
    case False
    then show ?thesis using run ar by (auto simp: a split: if_splits)
  next
    case True
    obtain y s2 where w: "export_work env r actor s = (y, s2)" by force
    have out: "x = y" "s' = s2" "fl' = release (a_id actor) fl1" using run True by (simp_all add: w)
    have "set ?shown = {l \<in> set (leads ?d). lead_matches (xe_pg env) (xe_zone env) (normal_params ?ps) ?d l}"
      by (auto simp: sorted_matches_def set_order_by matching_def)
    moreover have "\<forall>l \<in> set ?shown. may_see ?d actor l" using export_scope [OF assms(1)] unfolding export_leads_def by blast
    ultimately show ?thesis using export_work_result [OF w] ar unfolding out by blast
  qed
qed

definition toy_export :: "string export_env" where
  "toy_export = \<lparr>xe_pg = no_pg, xe_texts = no_texts, xe_zone = kathmandu, xe_coll = (\<lambda>s. s), xe_canvas = plain_canvas, xe_timed_out = False\<rparr>"

theorem export_is_the_list_witness:
  "\<exists>pf s'. handleLeadsExport toy_export list_request (Some ann) (fresh_server three_leads, Map.empty) = (Inr pf, s', Map.empty) \<and>
     ef_count pf = length (sorted_matches no_pg kathmandu (\<lambda>s. s) (export_params ann (rq_query list_request)) three_leads)"
proof -
  let ?s = "fresh_server three_leads"
  have t: "tables (s_world ?s) = three_leads" by (simp add: fresh_server_def calm_world_def)
  obtain x s' fl' where r: "handleLeadsExport toy_export list_request (Some ann) (?s, Map.empty) = (x, s', fl')" using prod_cases3 by blast
  have p: "proper_actor (tables (s_world ?s)) ann" unfolding t by (rule ann_proper)
  note e = export_is_the_list [OF p r]
  have "rq_method list_request = ''GET''" "fst (acquire (now (s_world ?s)) (a_id ann) Map.empty)" "calm (s_world ?s)"
    by (simp_all add: list_request_def acquire_def fresh_server_def calm_world_def calm_def)
  moreover have "\<forall>ops. cv_output (xe_canvas toy_export) ops \<noteq> None" by (simp add: toy_export_def plain_canvas_def)
  ultimately obtain pf where f: "x = Inr pf" using e by blast
  have "fl' = Map.empty" using e by (auto simp: release_def)
  then show ?thesis using r e f unfolding t by (auto simp: toy_export_def export_shows_def)
qed

subsection \<open>The name of the file\<close>

lemma filter_parts: "list_all (\<lambda>f. list_all (\<lambda>c. is_ascii_letter c \<or> c = CHR ''-'') (sanitizeFilenamePart f)) (''all'' # map fst filter_names)"
  by code_simp

text \<open>The name of the file needs no escaping in its header: whatever the request holds, beside the date
  it is letters, dashes and one dot.\<close>

theorem file_name_is_plain:
  assumes "c \<in> set (leadExportFilename (\<lambda>_. []) ps t)"
  shows "is_ascii_letter c \<or> c = CHR ''-'' \<or> c = CHR ''.''"
proof -
  have "normalizeLeadFilter (lp_filter ps) \<in> set (''all'' # map fst filter_names)"
    using case_lookup_in unfolding normalizeLeadFilter_def by fastforce
  then have part: "list_all (\<lambda>c. is_ascii_letter c \<or> c = CHR ''-'') (sanitizeFilenamePart (normalizeLeadFilter (lp_filter ps)))"
    using filter_parts unfolding list_all_iff by blast
  have words: "list_all (\<lambda>c. is_ascii_letter c \<or> c = CHR ''-'' \<or> c = CHR ''.'') (''leadflow-leads-'' @ ''-search'' @ ''-filtered'' @ ''.pdf'')"
    by code_simp
  show ?thesis using assms part words unfolding leadExportFilename_def Let_def list_all_iff by (auto split: if_splits)
qed

theorem file_name_is_plain_witness: "is_ascii_letter CHR ''q''"
  using file_name_is_plain [of "CHR ''q''" "(export_params ann [(''filter'', ''qualified'')])" 0] by code_simp

subsection \<open>Exports at the same time\<close>

record export_state =
  es_now :: int
  es_active :: flights
  es_running :: "(string \<times> int) list"  \<comment> \<open>user and start of the exports between acquire and release\<close>

definition no_exports :: "int \<Rightarrow> export_state" where
  "no_exports t = \<lparr>es_now = t, es_active = Map.empty, es_running = []\<rparr>"

inductive export_step :: "int \<Rightarrow> export_state \<Rightarrow> export_state \<Rightarrow> bool" for limit where
  \<comment> \<open>no running export gets older than the limit\<close>
  wait: "es_now s \<le> t \<Longrightarrow> list_all (\<lambda>(u, t0). t - t0 < limit) (es_running s) \<Longrightarrow> export_step limit s (s\<lparr>es_now := t\<rparr>)"
| begins: "acquire (es_now s) u (es_active s) = (True, a) \<Longrightarrow>
    export_step limit s (s\<lparr>es_active := a, es_running := (u, es_now s) # es_running s\<rparr>)"
| refused: "acquire (es_now s) u (es_active s) = (False, a) \<Longrightarrow> export_step limit s (s\<lparr>es_active := a\<rparr>)"
| finishes: "(u, t0) \<in> set (es_running s) \<Longrightarrow>
    export_step limit s (s\<lparr>es_active := release u (es_active s), es_running := remove1 (u, t0) (es_running s)\<rparr>)"

inductive exports_reach :: "int \<Rightarrow> export_state \<Rightarrow> bool" for limit where
  start: "exports_reach limit (no_exports t)"
| step: "exports_reach limit s \<Longrightarrow> export_step limit s s' \<Longrightarrow> exports_reach limit s'"

definition lock_holds :: "int \<Rightarrow> export_state \<Rightarrow> bool" where
  "lock_holds limit s \<longleftrightarrow> distinct (map fst (es_running s)) \<and> es_active s = map_of (es_running s) \<and>
     list_all (\<lambda>(u, t0). es_now s - t0 < limit) (es_running s)"

lemma map_of_without: "distinct (map fst xs) \<Longrightarrow> (u, t) \<in> set xs \<Longrightarrow> map_of (remove1 (u, t) xs) = (map_of xs)(u := None)"
  by (induction xs) (force simp: map_of_eq_None_iff)+

lemma distinct_without: "distinct (map fst xs) \<Longrightarrow> distinct (map fst (remove1 x xs))"
proof (induction xs)
  case (Cons y xs)
  then show ?case using set_remove1_subset [of x xs] by (auto simp: image_iff)
qed simp

lemma lock_step:
  assumes "export_step limit s s'" "lock_holds limit s" "0 < limit" "limit \<le> ten_minutes"
  shows "lock_holds limit s'"
  using assms(1)
proof cases
  case (wait t)
  then show ?thesis using assms(2) by (simp add: lock_holds_def)
next
  case (begins u a)
  have "es_active s u = None"
  proof (rule ccontr)
    assume "es_active s u \<noteq> None"
    then obtain t0 where t0: "es_active s u = Some t0" by blast
    have "map_of (es_running s) u = Some t0" using t0 assms(2) unfolding lock_holds_def by metis
    then have "(u, t0) \<in> set (es_running s)" by (rule map_of_SomeD)
    then have "es_now s - t0 < ten_minutes" using assms(2,4) unfolding lock_holds_def list_all_iff by force
    then show False using begins t0 by (simp add: acquire_def)
  qed
  then have "a = (es_active s)(u \<mapsto> es_now s)" "u \<notin> fst ` set (es_running s)"
    using begins assms(2) by (simp_all add: acquire_def lock_holds_def map_of_eq_None_iff)
  then show ?thesis using begins(1) assms(2,3) by (simp add: lock_holds_def)
next
  case (refused u a)
  then have "a = es_active s" by (auto simp: acquire_def split: option.splits if_splits)
  then show ?thesis using refused assms(2) by (simp add: lock_holds_def)
next
  case (finishes u t0)
  have d: "distinct (map fst (es_running s))" "es_active s = map_of (es_running s)" using assms(2) by (simp_all add: lock_holds_def)
  have "list_all (\<lambda>(u, t0). es_now s - t0 < limit) (remove1 (u, t0) (es_running s))"
    using assms(2) set_remove1_subset [of "(u, t0)" "es_running s"] unfolding lock_holds_def list_all_iff by blast
  then show ?thesis using finishes(1) distinct_without [OF d(1)] map_of_without [OF d(1) finishes(2)] d(2)
    by (simp add: lock_holds_def release_def)
qed

text \<open>C40. One export of a user runs at a time, provided none takes ten minutes or more: the lock table then lists
  exactly the running exports, and a user is refused exactly while an export of theirs runs.\<close>

theorem one_export_per_user:
  assumes "0 < limit" "limit \<le> ten_minutes" "exports_reach limit s"
  shows "distinct (map fst (es_running s)) \<and> es_active s = map_of (es_running s) \<and>
    (fst (acquire (es_now s) u (es_active s)) \<longleftrightarrow> u \<notin> fst ` set (es_running s))"
proof -
  have h: "lock_holds limit s" using assms(3)
    by induction (use lock_step assms(1,2) in \<open>auto simp: lock_holds_def no_exports_def\<close>)
  then have d: "distinct (map fst (es_running s))" "es_active s = map_of (es_running s)" by (simp_all add: lock_holds_def)
  have "es_now s - t0 < ten_minutes" if "map_of (es_running s) u = Some t0" for t0
    using map_of_SomeD [OF that] h assms(2) by (auto simp: lock_holds_def list_all_iff)
  then have "fst (acquire (es_now s) u (es_active s)) \<longleftrightarrow> map_of (es_running s) u = None"
    by (auto simp: acquire_def d(2) split: option.split)
  then show ?thesis using d by (simp add: map_of_eq_None_iff)
qed

theorem one_export_per_user_witness:
  "\<exists>s. exports_reach 180000 s \<and> es_running s = [(''ann'', 0)] \<and> \<not> fst (acquire (es_now s) ''ann'' (es_active s))"
proof -
  let ?s = "\<lparr>es_now = 0, es_active = [''ann'' \<mapsto> 0], es_running = [(''ann'', 0)]\<rparr>"
  have "export_step 180000 (no_exports 0) ((no_exports 0)\<lparr>es_active := [''ann'' \<mapsto> 0], es_running := (''ann'', es_now (no_exports 0)) # es_running (no_exports 0)\<rparr>)"
    by (rule begins) (simp add: no_exports_def acquire_def)
  then have r: "exports_reach 180000 ?s" using exports_reach.step [OF exports_reach.start] by (simp add: no_exports_def)
  then show ?thesis using one_export_per_user [OF _ _ r, of "''ann''"] by (intro exI [of _ ?s]) (simp add: ten_minutes_def)
qed

text \<open>An export may take longer: no timeout bounds the writing of the answer. Then a second one starts
  when ten minutes have passed, the end of the first frees the lock of the second, and two exports of
  a user run together although neither is old.\<close>

theorem late_export_frees_the_lock:
  "\<exists>s. exports_reach (ten_minutes + 1) s \<and> es_running s = [(''ann'', ten_minutes), (''ann'', ten_minutes)] \<and> es_now s = ten_minutes"
proof -
  let ?a = "[''ann'' \<mapsto> (0::int)]" and ?b = "[''ann'' \<mapsto> ten_minutes]" and ?l = "ten_minutes + 1"
  let ?st = "\<lambda>t a rs. \<lparr>es_now = t, es_active = a, es_running = rs\<rparr>"
  have s0: "exports_reach ?l (?st 0 Map.empty [])" using exports_reach.start [of ?l 0] by (simp add: no_exports_def)
  have s1: "exports_reach ?l (?st 0 ?a [(''ann'', 0)])"
    using exports_reach.step [OF s0 begins [of _ "''ann''" ?a]] by (simp add: acquire_def)
  have s2: "exports_reach ?l (?st ten_minutes ?a [(''ann'', 0)])"
    using exports_reach.step [OF s1 wait [of _ ten_minutes]] by (simp add: ten_minutes_def)
  have s3: "exports_reach ?l (?st ten_minutes ?b [(''ann'', ten_minutes), (''ann'', 0)])"
    using exports_reach.step [OF s2 begins [of _ "''ann''" ?b]] by (simp add: acquire_def)
  have s4: "exports_reach ?l (?st ten_minutes Map.empty [(''ann'', ten_minutes)])"
    using exports_reach.step [OF s3 finishes [of "''ann''" 0]] by (simp add: release_def ten_minutes_def)
  have "exports_reach ?l (?st ten_minutes ?b [(''ann'', ten_minutes), (''ann'', ten_minutes)])"
    using exports_reach.step [OF s4 begins [of _ "''ann''" ?b]] by (simp add: acquire_def)
  then show ?thesis by (intro exI [of _ "?st ten_minutes ?b [(''ann'', ten_minutes), (''ann'', ten_minutes)]"]) simp
qed

end
