(* ===== verification/Classify.thy ===== *)
theory Classify
  imports Aggregate
begin

section \<open>Classification of notes and keyword lists (report.go)\<close>

text \<open>
  The report sorts notes into classes by regular expressions of PostgreSQL (\<open>~*\<close>, the case of letters
  aside). The patterns are kept as the texts of the code; they are read and searched as the manual of
  PostgreSQL describes for the constructs they use: alternatives, groups, optional items, any character
  and escapes. An escaped \<open>b\<close> is the backspace character there.
\<close>

subsection \<open>Regular expressions\<close>

datatype re = Blank | Sym char | AnyChar | Cat re re | Alt re re | Opt re

fun rests :: "re \<Rightarrow> string \<Rightarrow> string list" where
  \<comment> \<open>what may be left after a match at the start of the text\<close>
  "rests Blank s = [s]"
| "rests (Sym c) s = (case s of [] \<Rightarrow> [] | x # s' \<Rightarrow> if lower_char x = lower_char c then [s'] else [])"
| "rests AnyChar s = (case s of [] \<Rightarrow> [] | x # s' \<Rightarrow> [s'])"
| "rests (Cat a b) s = concat (map (rests b) (rests a s))"
| "rests (Alt a b) s = rests a s @ rests b s"
| "rests (Opt a) s = rests a s @ [s]"

fun re_found :: "re \<Rightarrow> string \<Rightarrow> bool" where
  \<comment> \<open>the expression matches somewhere\<close>
  "re_found r [] = (rests r [] \<noteq> [])"
| "re_found r (c # s) = (rests r (c # s) \<noteq> [] \<or> re_found r s)"

definition bslash :: string where
  "bslash = [CHR 0x5C]"

definition branch :: "re list \<Rightarrow> re" where
  \<comment> \<open>the items of a branch, the last first\<close>
  "branch items = fold (\<lambda>x r. Cat x r) items Blank"

definition close_group :: "re list \<times> re list \<Rightarrow> re" where
  \<comment> \<open>the finished branches, the last first, and the items of the current one\<close>
  "close_group f = (case f of (alts, items) \<Rightarrow> fold (\<lambda>a r. Alt a r) alts (branch items))"

fun parse_re :: "bool \<Rightarrow> (re list \<times> re list) list \<Rightarrow> string \<Rightarrow> re option" where
  \<comment> \<open>whether the last character was a backslash, the open groups and the rest of the pattern\<close>
  "parse_re esc [] s = None"
| "parse_re esc (f # fs) [] = (if esc \<or> fs \<noteq> [] then None else Some (close_group f))"
| "parse_re esc ((alts, items) # fs) (c # s) =
     (if esc then parse_re False ((alts, Sym (if c = CHR ''b'' then CHR 0x08 else c) # items) # fs) s
      else if [c] = bslash then parse_re True ((alts, items) # fs) s
      else if c = CHR ''('' then parse_re False (([], []) # (alts, items) # fs) s
      else if c = CHR '')'' then (case fs of [] \<Rightarrow> None
        | (alts', items') # fs' \<Rightarrow> parse_re False ((alts', close_group (alts, items) # items') # fs') s)
      else if c = CHR ''|'' then parse_re False ((branch items # alts, []) # fs) s
      else if c = CHR ''?'' then (case items of [] \<Rightarrow> None | x # xs \<Rightarrow> parse_re False ((alts, Opt x # xs) # fs) s)
      else if c = CHR ''.'' then parse_re False ((alts, AnyChar # items) # fs) s
      else parse_re False ((alts, Sym c # items) # fs) s)"

definition pattern_found :: "string \<Rightarrow> string \<Rightarrow> bool" where
  \<comment> \<open>\<open>s ~* pat\<close>\<close>
  "pattern_found pat s = (case parse_re False [([], [])] pat of None \<Rightarrow> False | Some r \<Rightarrow> re_found r s)"

type_synonym classifier = "(string \<times> string) list \<times> string"

fun first_class :: "(string \<times> string) list \<Rightarrow> string \<Rightarrow> string \<Rightarrow> string" where
  \<comment> \<open>\<open>CASE WHEN s ~* pat THEN label ... ELSE dflt END\<close>\<close>
  "first_class [] dflt s = dflt"
| "first_class ((pat, label) # rs) dflt s = (if pattern_found pat s then label else first_class rs dflt s)"

definition classify :: "classifier \<Rightarrow> string option \<Rightarrow> string" where
  \<comment> \<open>of \<open>COALESCE(notes, '')\<close>\<close>
  "classify cl notes = first_class (fst cl) (snd cl) (deref notes)"

subsection \<open>The classes of the report\<close>

definition irrelevantPatternSQL :: classifier where
  "irrelevantPatternSQL = ([
    (''spam|scam|fake|bot'', ''Spam / fake enquiries''),
    (''student|studying|bachelor|university|college'', ''Students''),
    (''wrong occupation|not engineer|unrelated|wrong service|not cdr|job search|looking for job'', ''Wrong occupation / unrelated services''),
    (''no response|no reply|no reponse|not responding|didn.?t reply|did not reply|no answer'', ''No response after outreach''),
    (''ad(s)?'' @ bslash @ ''b|advert|clicked|auto.?msg|auto.?click'', ''Ad curiosity / auto-click''),
    (''eligib|not eligible|skill assessment'', ''Eligibility mismatch'')],
    ''Other / unspecified'')"

definition irrelevantPatternLabels :: "string list" where
  "irrelevantPatternLabels = [''No response after outreach'', ''Ad curiosity / auto-click'', ''Spam / fake enquiries'', ''Students'', ''Wrong occupation / unrelated services'', ''Eligibility mismatch'', ''Other / unspecified'']"

definition lostOpportunityFactorSQL :: classifier where
  "lostOpportunityFactorSQL = ([
    (''price|expensive|cheap|costly|cost|discount|quote|AUD|'' @ bslash @ ''$'', ''Price''),
    (''competitor|another (company|agency|writer)|other (company|agency)|already (started|done|working)|went with'', ''Competitor comparison''),
    (''document|transcript|certificate|waiting for|docs'', ''Waiting for documents''),
    (''eligib|not eligible|engineers australia|skill assessment|anzsco|visa'', ''Engineers Australia eligibility uncertainty''),
    (''financ|money|budget|afford|no fund|payment|cash'', ''Financial constraints'')],
    ''Other'')"

definition lostOpportunityFactorLabels :: "string list" where
  "lostOpportunityFactorLabels = [''Price'', ''Competitor comparison'', ''Waiting for documents'', ''Engineers Australia eligibility uncertainty'', ''Financial constraints'', ''Other'']"

definition cclIrrelevantPatternSQL :: classifier where
  "cclIrrelevantPatternSQL = ([
    (''spam|scam|fake|bot|duplicate'', ''Spam / duplicate''),
    (''visa|wrong visa|student visa|partner visa'', ''Wrong visa category''),
    (''unsupported language|language not|no (language|course)|not available'', ''Unsupported language''),
    (''overseas|outside|not in australia|not australia|abroad'', ''Overseas / outside target market''),
    (''no response|no reply|no reponse|not responding|didn.?t reply|did not reply|no answer'', ''No response after outreach''),
    (''not interested|doesn.?t need|dont need|don.?t need'', ''Not interested''),
    (''ad(s)?'' @ bslash @ ''b|advert|clicked|auto.?msg|auto.?click|insta|fb msg'', ''Ad curiosity / auto-click'')],
    ''Other / unspecified'')"

definition cclIrrelevantPatternLabels :: "string list" where
  "cclIrrelevantPatternLabels = [''No response after outreach'', ''Not interested'', ''Ad curiosity / auto-click'', ''Spam / duplicate'', ''Wrong visa category'', ''Unsupported language'', ''Overseas / outside target market'', ''Other / unspecified'']"

definition cclLostOpportunityFactorSQL :: classifier where
  "cclLostOpportunityFactorSQL = ([
    (''price|expensive|budget|cost|afford'', ''Pricing''),
    (''competitor|another|somewhere else|other (institute|se|company|agency)|already enrolled|already taking|repeated client'', ''Comparing competitors''),
    (''postpon|already taken|already given|done with|has materials|doesn.?t need'', ''Exam postponed''),
    (''confidence|nervous|scared|not ready'', ''Lack of confidence''),
    (''migration|visa|pr point|skill assessment'', ''Waiting for migration process''),
    (''time|busy|later|not now|doesn.?t want to do it now|delay'', ''Time constraints''),
    (''trust|scam|fake|not sure'', ''Trust'')],
    ''Other'')"

definition cclLostOpportunityFactorLabels :: "string list" where
  "cclLostOpportunityFactorLabels = [''Pricing'', ''Comparing competitors'', ''Exam postponed'', ''Lack of confidence'', ''Waiting for migration process'', ''Time constraints'', ''Trust'', ''Other'']"

definition pteIrrelevantPatternSQL :: classifier where
  "pteIrrelevantPatternSQL = ([
    (''ielts'', ''Looking for IELTS instead of PTE''),
    (''free (study )?material|free mock|free test|study material only'', ''Free study material only''),
    (''wrong country|not for (australia|canada|uk|nz)|country requirement'', ''Wrong country requirements''),
    (''wrong course|another course|live class|physical class|1-1|one.on.one|tutor'', ''Wrong course expectation''),
    (''spam|scam|fake|bot|duplicate'', ''Spam''),
    (''no response|no reply|no reponse|not responding|didn.?t reply|did not reply|no answer'', ''No response after outreach''),
    (''not interested'', ''Not interested''),
    (''ad(s)?'' @ bslash @ ''b|advert|clicked|auto.?msg|auto.?click|previous (conversation|msg|message)'', ''Ad curiosity / auto-click'')],
    ''Other / unspecified'')"

definition pteIrrelevantPatternLabels :: "string list" where
  "pteIrrelevantPatternLabels = [''Looking for IELTS instead of PTE'', ''Free study material only'', ''Wrong country requirements'', ''Wrong course expectation'', ''Spam'', ''No response after outreach'', ''Not interested'', ''Ad curiosity / auto-click'', ''Other / unspecified'']"

definition pteLostOpportunityFactorSQL :: classifier where
  "pteLostOpportunityFactorSQL = ([
    (''price|expensive|budget|cost|afford|financial'', ''Price''),
    (''competitor|another|somewhere else|other (institute|company|agency)|comparing'', ''Comparing competitors''),
    (''confidence|nervous|scared|not ready|demo'', ''Lack of confidence''),
    (''book|exam|waiting to book'', ''Waiting to book the exam''),
    (''time|busy|later|not now|delay'', ''Time constraints''),
    (''money|financ|payment|cash'', ''Financial reasons'')],
    ''Other'')"

definition pteLostOpportunityFactorLabels :: "string list" where
  "pteLostOpportunityFactorLabels = [''Price'', ''Comparing competitors'', ''Lack of confidence'', ''Waiting to book the exam'', ''Time constraints'', ''Financial reasons'', ''Other'']"

definition acsIrrelevantPatternSQL :: classifier where
  "acsIrrelevantPatternSQL = ([
    (''spam|scam|fake|bot|duplicate'', ''Spam / fake enquiries''),
    (''student|studying|bachelor|university|college'', ''Students''),
    (''non.?it|not it|not (an )?it|non technical|unrelated|wrong service|looking for job|job search'', ''Non-IT / unrelated services''),
    (''wrong visa|incorrect visa|visa pathway|canada (visa|pr|application)'', ''Incorrect visa pathways''),
    (''no response|no reply|no reponse|not responding|didn.?t reply|did not reply|no answer'', ''No response after outreach''),
    (''ad(s)?'' @ bslash @ ''b|advert|clicked|auto.?msg|auto.?click|previous (conversation|msg|message)'', ''Ad curiosity / auto-click''),
    (''not interested|doesn.?t need|dont need|don.?t need'', ''Not interested'')],
    ''Other / unspecified'')"

definition acsIrrelevantPatternLabels :: "string list" where
  "acsIrrelevantPatternLabels = [''No response after outreach'', ''Ad curiosity / auto-click'', ''Spam / fake enquiries'', ''Students'', ''Non-IT / unrelated services'', ''Incorrect visa pathways'', ''Not interested'', ''Other / unspecified'']"

definition acsLostOpportunityFactorSQL :: classifier where
  "acsLostOpportunityFactorSQL = ([
    (''price|expensive|budget|cost|afford|free'', ''Pricing concerns''),
    (''document|employment|reference|waiting for|docs'', ''Waiting for employment documents''),
    (''eligib|not eligible|skill assessment|acs assessment'', ''ACS eligibility uncertainty''),
    (''experience|fresh|no work|lack of work'', ''Lack of work experience''),
    (''competitor|another|other agent|already (started|closed|working)|went with|garima'', ''Competitor comparison''),
    (''financ|money|payment|cash'', ''Financial constraints'')],
    ''Other'')"

definition acsLostOpportunityFactorLabels :: "string list" where
  "acsLostOpportunityFactorLabels = [''Pricing concerns'', ''Waiting for employment documents'', ''ACS eligibility uncertainty'', ''Lack of work experience'', ''Competitor comparison'', ''Financial constraints'', ''Other'']"

subsection \<open>Keywords\<close>

definition ilike :: "string \<Rightarrow> string \<Rightarrow> bool" where
  \<comment> \<open>\<open>s ILIKE p\<close>\<close>
  "ilike p s = like (to_lower p) (to_lower s)"

definition cdrServiceDefs :: "(string \<times> string) list" where
  "cdrServiceDefs = [
    (''Career Episodes Report Writing'', ''%career episode%''),
    (''Complete CDR Report Writing'', ''%complete cdr%''),
    (''Summary Statement Report Writing'', ''%summary statement%''),
    (''CPD (Continuing Professional Development)'', ''%cpd%''),
    (''Engineering CV / Resume Writing'', ''%resume%'')]"

definition cclLanguageDefs :: "(string \<times> string) list" where
  "cclLanguageDefs = [
    (''Nepali'', ''%nepali%''),
    (''Hindi'', ''%hindi%''),
    (''Punjabi'', ''%punjabi%''),
    (''Urdu'', ''%urdu%''),
    (''Bengali'', ''%bengali%''),
    (''Tamil'', ''%tamil%''),
    (''Telugu'', ''%telugu%''),
    (''Malayalam'', ''%malayalam%''),
    (''Sinhala'', ''%sinhala%''),
    (''Gujarati'', ''%gujarati%''),
    (''Marathi'', ''%marathi%''),
    (''Kannada'', ''%kannada%''),
    (''Dari'', ''%dari%''),
    (''Persian'', ''%persian%''),
    (''Arabic'', ''%arabic%''),
    (''Mandarin'', ''%mandarin%''),
    (''Cantonese'', ''%cantonese%''),
    (''Korean'', ''%korean%''),
    (''Japanese'', ''%japanese%''),
    (''Vietnamese'', ''%vietnamese%''),
    (''Spanish'', ''%spanish%''),
    (''French'', ''%french%''),
    (''Indonesian'', ''%indonesian%''),
    (''Tagalog'', ''%tagalog%''),
    (''Thai'', ''%thai%''),
    (''Pashto'', ''%pashto%'')]"

definition cclPackageDefs :: "(string \<times> string) list" where
  "cclPackageDefs = [
    (''NAATI CCL Course Package'', ''%course package%''),
    (''Free NAATI Mock Test'', ''%mock test%''),
    (''NAATI CCL Test Samples'', ''%test sample%''),
    (''NAATI CCL Vocabulary'', ''%vocab%''),
    (''PTE Online Course'', ''%pte%''),
    (''Crash Course'', ''%crash course%''),
    (''Premium Package'', ''%premium%''),
    (''Unlimited Package'', ''%unlimited%''),
    (''Recent Exam Dialogues & Packages'', ''%dialogue%'')]"

definition ptePackageDefs :: "(string \<times> string) list" where
  "ptePackageDefs = [
    (''Comprehensive Package ($399)'', ''%comprehensive%''),
    (''Premium Package ($249)'', ''%premium package%''),
    (''Essential Package ($149)'', ''%essential%''),
    (''Basic Package ($49)'', ''%basic package%''),
    (''Starter Package ($29)'', ''%starter%''),
    (''Coaching Intensive Package ($599)'', ''%coaching intensive%''),
    (''Basic Mock Test Bundle'', ''%basic mock%''),
    (''Standard Mock Test Bundle'', ''%standard mock%''),
    (''Premium Mock Test Bundle'', ''%premium mock%'')]"

definition ptePromoDefs :: "(string \<times> string) list" where
  "ptePromoDefs = [
    (''Discount / promotional offer'', ''%discount%''),
    (''Save 20% PTE HUB offer'', ''%save 20%''),
    (''Promo / offer mention'', ''%promo%''),
    (''Offer mention'', ''%offer%'')]"

definition acsServiceDefs :: "(string \<times> string) list" where
  "acsServiceDefs = [
    (''Complete RPL Report Writing'', ''%rpl report%''),
    (''Employment Reference Letter'', ''%reference letter%''),
    (''Project Report Writing'', ''%project report%''),
    (''Key Areas of Knowledge (KAO) Writing'', ''%kao%''),
    (''RPL Plagiarism Removal'', ''%plagiarism removal%''),
    (''RPL Editing & Proofreading'', ''%rpl editing%''),
    (''Project Arrangement'', ''%project arrangement%''),
    (''Resume Writing'', ''%resume%''),
    (''RPL Proofreading'', ''%proofread%''),
    (''RPL Plagiarism Check'', ''%plagiarism check%'')]"

subsection \<open>Searching is exact\<close>

fun re_lang :: "re \<Rightarrow> string set" where
  \<comment> \<open>the texts an expression stands for\<close>
  "re_lang Blank = {[]}"
| "re_lang (Sym c) = {[x] | x. lower_char x = lower_char c}"
| "re_lang AnyChar = {[x] | x. True}"
| "re_lang (Cat a b) = {u @ v | u v. u \<in> re_lang a \<and> v \<in> re_lang b}"
| "re_lang (Alt a b) = re_lang a \<union> re_lang b"
| "re_lang (Opt a) = insert [] (re_lang a)"

lemma rests_lang: "w \<in> set (rests r s) \<longleftrightarrow> (\<exists>v \<in> re_lang r. s = v @ w)"
proof (induction r arbitrary: s w)
  case (Cat a b)
  have "w \<in> set (rests (Cat a b) s) \<longleftrightarrow> (\<exists>m. m \<in> set (rests a s) \<and> w \<in> set (rests b m))" by auto
  also have "\<dots> \<longleftrightarrow> (\<exists>u \<in> re_lang a. \<exists>v \<in> re_lang b. s = u @ v @ w)" unfolding Cat.IH by blast
  also have "\<dots> \<longleftrightarrow> (\<exists>x \<in> re_lang (Cat a b). s = x @ w)" by fastforce
  finally show ?case .
qed (auto split: list.splits)

lemma rests_some: "rests r s \<noteq> [] \<longleftrightarrow> (\<exists>v w. s = v @ w \<and> v \<in> re_lang r)"
proof -
  have "rests r s \<noteq> [] \<longleftrightarrow> (\<exists>w. w \<in> set (rests r s))" by (cases "rests r s") auto
  then show ?thesis unfolding rests_lang by blast
qed

lemma found_in_tail: "re_found r s \<longleftrightarrow> (\<exists>u t. s = u @ t \<and> rests r t \<noteq> [])"
proof (induction s)
  case (Cons c s)
  have "(\<exists>u t. c # s = u @ t \<and> P t) \<longleftrightarrow> P (c # s) \<or> (\<exists>u t. s = u @ t \<and> P t)" for P
    by (auto simp: Cons_eq_append_conv)
  then show ?case using Cons.IH by simp
qed simp

text \<open>The search is exact: an expression is found in a text if and only if some part of the text is one of
  the texts the expression stands for, the case of letters aside.\<close>

theorem regex_search_exact: "re_found r s \<longleftrightarrow> (\<exists>u v w. s = u @ v @ w \<and> v \<in> re_lang r)"
  unfolding found_in_tail rests_some by blast

subsection \<open>Every class has its label\<close>

definition class_labels :: "classifier \<Rightarrow> string list" where
  "class_labels cl = map snd (fst cl) @ [snd cl]"

lemma classify_label: "classify cl notes \<in> set (class_labels cl)"
proof -
  have "first_class rs dflt s \<in> insert dflt (snd ` set rs)" for rs dflt s
    by (induction rs dflt s rule: first_class.induct) auto
  then show ?thesis by (auto simp: classify_def class_labels_def)
qed

definition labelled_by :: "classifier \<Rightarrow> string list \<Rightarrow> bool" where
  \<comment> \<open>the labels listed are those of the classes, each once\<close>
  "labelled_by cl ls \<longleftrightarrow> distinct ls \<and> list_all (\<lambda>x. x \<in> set ls) (class_labels cl) \<and>
     list_all (\<lambda>(pat, _). parse_re False [([], [])] pat \<noteq> None) (fst cl)"

lemma irrelevantPattern_labelled: "labelled_by irrelevantPatternSQL irrelevantPatternLabels"
  by code_simp

lemma lostOpportunityFactor_labelled: "labelled_by lostOpportunityFactorSQL lostOpportunityFactorLabels"
  by code_simp

lemma cclIrrelevantPattern_labelled: "labelled_by cclIrrelevantPatternSQL cclIrrelevantPatternLabels"
  by code_simp

lemma cclLostOpportunityFactor_labelled: "labelled_by cclLostOpportunityFactorSQL cclLostOpportunityFactorLabels"
  by code_simp

lemma pteIrrelevantPattern_labelled: "labelled_by pteIrrelevantPatternSQL pteIrrelevantPatternLabels"
  by code_simp

lemma pteLostOpportunityFactor_labelled: "labelled_by pteLostOpportunityFactorSQL pteLostOpportunityFactorLabels"
  by code_simp

lemma acsIrrelevantPattern_labelled: "labelled_by acsIrrelevantPatternSQL acsIrrelevantPatternLabels"
  by code_simp

lemma acsLostOpportunityFactor_labelled: "labelled_by acsLostOpportunityFactorSQL acsLostOpportunityFactorLabels"
  by code_simp

lemmas labels_complete = irrelevantPattern_labelled lostOpportunityFactor_labelled cclIrrelevantPattern_labelled cclLostOpportunityFactor_labelled pteIrrelevantPattern_labelled pteLostOpportunityFactor_labelled acsIrrelevantPattern_labelled acsLostOpportunityFactor_labelled

text \<open>The boundary the pattern of the advertisements asks for is a backspace, so notes that mention ads are
  not classified as such, while parts of other words decide: \<open>both\<close> contains \<open>bot\<close>.\<close>

theorem ads_are_not_found: "classify irrelevantPatternSQL (Some ''Saw our ads'') = ''Other / unspecified''"
  by code_simp

theorem both_is_spam: "classify irrelevantPatternSQL (Some ''Wants both'') = ''Spam / fake enquiries''"
  by code_simp

theorem saudi_is_price: "classify lostOpportunityFactorSQL (Some ''Moved to Saudi Arabia'') = ''Price''"
  by code_simp

end
