(* ===== verification/Report.thy ===== *)
theory Report
  imports Classify Trends AnalyticsSafety
begin

section \<open>The report (report.go)\<close>

text \<open>
  The monthly report: totals, rankings, trends, reasons and keyword demand over the leads in scope. The
  statements use the zone Asia/Kathmandu whatever the zone of the deployment; the zone of the database
  session decides where the trend begins. Rows that a statement leaves unordered come in the order
  \<open>tie\<close>, a parameter. Averages and amounts are rationals.
\<close>

subsection \<open>The parts of a report\<close>

record report_bucket =
  rb_name :: string
  rb_total :: nat
  rb_qualified :: nat
  rb_notQualified :: nat
  rb_irrelevant :: nat
  rb_won :: nat
  rb_lost :: nat
  rb_revenue :: "rat option"

record report_trend =
  rt_key :: string
  rt_label :: string
  rt_total :: nat
  rt_qualified :: nat
  rt_won :: nat

record report_reason =
  rr_reason :: string
  rr_count :: nat

record report_totals =
  ro_leads :: nat
  ro_qualified :: nat
  ro_notQualified :: nat
  ro_irrelevant :: nat
  ro_won :: nat
  ro_lost :: nat
  ro_revenue :: rat
  ro_timeToClose :: "int option"
  ro_firstResponse :: "rat option"

record service_demand =
  sd_name :: string
  sd_enquiries :: nat
  sd_qualified :: nat
  sd_won :: nat
  sd_revenue :: rat
  sd_captured :: bool

record language_trend =
  lt_name :: string
  lt_recent :: nat
  lt_prior :: nat
  lt_total18 :: nat
  lt_growth :: "rat option"

record report =
  rp_totals :: report_totals
  rp_serviceLines :: "report_bucket list"
  rp_qualifiedCountries :: "report_bucket list"
  rp_qualifiedCities :: "report_bucket list"
  rp_irrelevantCountries :: "report_bucket list"
  rp_irrelevantCities :: "report_bucket list"
  rp_exclusionCountries :: "report_bucket list"
  rp_exclusionCities :: "report_bucket list"
  rp_sources :: "report_bucket list"
  rp_portals :: "report_bucket list"
  rp_trend :: "report_trend list"
  rp_irrelevantReasons :: "report_reason list"
  rp_irrelevantPatterns :: "report_reason list"
  rp_lostReasons :: "report_reason list"
  rp_lostFactors :: "report_reason list"
  rp_services :: "service_demand list"
  rp_languages :: "service_demand list"
  rp_languageTrend :: "language_trend list"
  rp_promos :: "service_demand list"

record 'k report_env =
  re_zone :: zone                 \<comment> \<open>of the deployment, for the facets\<close>
  re_session :: zone              \<comment> \<open>of the database session\<close>
  re_coll :: "string \<Rightarrow> 'k"
  re_tie :: "string \<Rightarrow> 'k"

subsection \<open>Rankings\<close>

definition serviceLineSQL :: "lead \<Rightarrow> string" where
  "serviceLineSQL l =
     (if portal_like ''%CCL%'' l \<or> portal_like ''%NAATI%'' l then ''NAATI CCL''
      else if portal_like ''%PTE%'' l then ''PTE''
      else if portal_like ''%ACS%'' l then ''ACS RPL''
      else if portal_like ''%CDR%'' l then ''CDR''
      else if l_portal l = None \<or> btrim (deref (l_portal l)) = [] then ''No portal recorded''
      else ''Other portals'')"

definition won_lead :: "lead \<Rightarrow> bool" where
  "won_lead l \<longleftrightarrow> l_stage l = ''CLOSED_WON''"

definition won_revenue :: "lead list \<Rightarrow> rat" where
  "won_revenue ls = sql_sum (map l_revenue (filter won_lead ls))"

definition report_row :: "string \<Rightarrow> lead list \<Rightarrow> report_bucket" where
  \<comment> \<open>reportAggColumns, and the scan into a row\<close>
  "report_row name ls = \<lparr>rb_name = name, rb_total = length ls, rb_qualified = count_rows sql_qualified ls,
     rb_notQualified = count_rows (\<lambda>l. l_qual l = ''NOT_QUALIFIED'') ls,
     rb_irrelevant = count_rows (\<lambda>l. l_qual l = ''IRRELEVANT'') ls, rb_won = count_rows won_lead ls,
     rb_lost = count_rows (\<lambda>l. l_stage l = ''CLOSED_LOST'') ls,
     rb_revenue = (if won_revenue ls > 0 then Some (won_revenue ls) else None)\<rparr>"

type_synonym lead_group = "string option \<times> lead list"

definition ranked :: "(string \<Rightarrow> 'k::linorder) \<Rightarrow> (lead list \<Rightarrow> nat desc \<times> nat desc) \<Rightarrow> lead_group \<Rightarrow> lead_group \<Rightarrow> bool" where
  \<comment> \<open>ORDER BY the counts, then as the database happens to order\<close>
  "ranked tie key a b \<longleftrightarrow> (key (snd a), tie (deref (fst a))) \<le> (key (snd b), tie (deref (fst b)))"

definition most_leads :: "lead list \<Rightarrow> nat desc \<times> nat desc" where
  \<comment> \<open>\<open>2 DESC\<close>\<close>
  "most_leads ls = (Desc (length ls), Desc 0)"

definition most_qualified :: "lead list \<Rightarrow> nat desc \<times> nat desc" where
  \<comment> \<open>\<open>3 DESC, 2 DESC\<close>\<close>
  "most_qualified ls = (Desc (count_rows sql_qualified ls), Desc (length ls))"

definition most_irrelevant :: "lead list \<Rightarrow> nat desc \<times> nat desc" where
  \<comment> \<open>\<open>5 DESC\<close>\<close>
  "most_irrelevant ls = (Desc (count_rows (\<lambda>l. l_qual l = ''IRRELEVANT'') ls), Desc 0)"

definition sql_min :: "(string \<Rightarrow> 'k::linorder) \<Rightarrow> string option list \<Rightarrow> string option" where
  "sql_min coll xs = (case somes xs of [] \<Rightarrow> None | y # ys \<Rightarrow> Some (fold (\<lambda>a b. if coll a < coll b then a else b) ys y))"

definition named_place :: "(string \<Rightarrow> 'k::linorder) \<Rightarrow> (lead \<Rightarrow> string option) \<Rightarrow> lead list \<Rightarrow> bool" where
  \<comment> \<open>namedCountry, namedCity\<close>
  "named_place coll col ls \<longleftrightarrow>
     to_lower (case sql_min coll (map col ls) of None \<Rightarrow> [] | Some s \<Rightarrow> btrim s) \<notin> {[], ''unknown''}"

definition excludable :: "nat \<Rightarrow> lead list \<Rightarrow> bool" where
  \<comment> \<open>enough volume, and less than half a percent qualified\<close>
  "excludable volume ls \<longleftrightarrow> length ls \<ge> volume \<and> rat_of_nat (count_rows sql_qualified ls) / rat_of_nat (length ls) < 5 / 1000"

definition has_qualified :: "lead list \<Rightarrow> bool" where
  "has_qualified ls \<longleftrightarrow> count_rows sql_qualified ls > 0"

definition has_irrelevant :: "lead list \<Rightarrow> bool" where
  "has_irrelevant ls \<longleftrightarrow> count_rows (\<lambda>l. l_qual l = ''IRRELEVANT'') ls > 0"

definition reportBuckets :: "(string \<Rightarrow> 'k::linorder) \<Rightarrow> builder \<Rightarrow> (lead \<Rightarrow> string option) \<Rightarrow> (lead list \<Rightarrow> nat desc \<times> nat desc) \<Rightarrow>
    (lead list \<Rightarrow> bool) \<Rightarrow> nat \<Rightarrow> report_bucket list op" where
  \<comment> \<open>a group without name does not scan into a string\<close>
  "reportBuckets tie b dimen key having limit =
     bindE (query (\<lambda>d. take limit (order_by (ranked tie key) (filter (\<lambda>(k, g). having g) (group_on dimen (scoped b [] d)))))) (\<lambda>gs.
       if list_ex (\<lambda>(k, g). k = None) gs then throw (ErrMsg ''cannot scan NULL into *string'')
       else ret (map (\<lambda>(k, g). report_row (deref k) g) gs))"

definition country_dim :: "lead \<Rightarrow> string option" where
  "country_dim l = Some (labelled ''Unknown'' (l_country l))"

definition city_dim :: "lead \<Rightarrow> string option" where
  "city_dim l = (case l_city l of None \<Rightarrow> None | Some s \<Rightarrow> nullif_empty (btrim s))"

definition source_dim :: "lead \<Rightarrow> string option" where
  "source_dim l = Some (labelled ''none'' (Some (l_source l)))"

definition portal_dim :: "lead \<Rightarrow> string option" where
  "portal_dim l = Some (labelled ''No portal recorded'' (l_portal l))"

subsection \<open>Reasons and classes\<close>

definition irrelevant_lead :: "lead \<Rightarrow> bool" where
  "irrelevant_lead l \<longleftrightarrow> l_qual l = ''IRRELEVANT''"

definition explained_loss :: "lead \<Rightarrow> bool" where
  "explained_loss l \<longleftrightarrow> l_stage l = ''CLOSED_LOST'' \<and> l_lostNotes l \<noteq> None \<and> btrim (deref (l_lostNotes l)) \<noteq> []"

definition lostReasonSQL :: "lead \<Rightarrow> string option" where
  "lostReasonSQL l = (case l_lostNotes l of None \<Rightarrow> None
     | Some notes \<Rightarrow> nullif_empty (take 160 (btrim (takeWhile (\<lambda>c. c \<noteq> newline) notes))))"

definition reason_of_group :: "string \<times> 'a list \<Rightarrow> report_reason" where
  "reason_of_group kg = (case kg of (k, g) \<Rightarrow> \<lparr>rr_reason = k, rr_count = length g\<rparr>)"

definition reason_first :: "(string \<Rightarrow> 'k::linorder) \<Rightarrow> report_reason \<Rightarrow> report_reason \<Rightarrow> bool" where
  \<comment> \<open>\<open>cnt DESC, reason ASC\<close>\<close>
  "reason_first coll a b \<longleftrightarrow> (Desc (rr_count a), coll (rr_reason a)) \<le> (Desc (rr_count b), coll (rr_reason b))"

definition reportReasons :: "(string \<Rightarrow> 'k::linorder) \<Rightarrow> builder \<Rightarrow> (lead \<Rightarrow> bool) \<Rightarrow> (lead \<Rightarrow> string option) \<Rightarrow> nat \<Rightarrow> report_reason list op" where
  "reportReasons coll b extra reason limit = query (\<lambda>d. take limit (order_by (reason_first coll) (map reason_of_group
     (group_on (\<lambda>r. r) (filter (\<lambda>r. r \<noteq> no_reason)
       (map (\<lambda>l. case reason l of None \<Rightarrow> no_reason | Some r \<Rightarrow> r) (filter extra (scoped b [] d))))))))"

definition reportClassifiedBuckets :: "builder \<Rightarrow> (lead \<Rightarrow> bool) \<Rightarrow> (lead \<Rightarrow> string) \<Rightarrow> string list \<Rightarrow> report_reason list op" where
  \<comment> \<open>sorted by count, then by label\<close>
  "reportClassifiedBuckets b extra cls labels =
     bindE (query (\<lambda>d. map reason_of_group (group_on cls (filter extra (scoped b [] d))))) (\<lambda>rows.
       let counts = map_of (map (\<lambda>r. (rr_reason r, rr_count r)) rows) in
       ret (order_by (reason_first (\<lambda>s. s)) (map (\<lambda>label. \<lparr>rr_reason = label, rr_count = (case counts label of None \<Rightarrow> 0 | Some n \<Rightarrow> n)\<rparr>) labels)))"

subsection \<open>Demand\<close>

definition keyword_rows :: "builder \<Rightarrow> string \<Rightarrow> db \<Rightarrow> lead list" where
  \<comment> \<open>the condition with the pattern as its last argument, numbered after those of the scope\<close>
  "keyword_rows b pat d = (let n = length (snd b) + 1; as = snd b @ [AText pat] in
     filter (\<lambda>l. text_at as n (\<lambda>p. ilike p (deref (l_notes l))) \<or> text_at as n (\<lambda>p. ilike p (deref (l_profile l))))
       (scoped b [AText pat] d))"

definition demand_row :: "string \<Rightarrow> lead list \<Rightarrow> service_demand" where
  "demand_row name ls = \<lparr>sd_name = name, sd_enquiries = length ls, sd_qualified = count_rows sql_qualified ls,
     sd_won = count_rows won_lead ls, sd_revenue = won_revenue ls, sd_captured = (length ls > 0)\<rparr>"

fun each_keyword :: "(string \<times> string) list \<Rightarrow> (string \<Rightarrow> string \<Rightarrow> 'a op) \<Rightarrow> 'a list op" where
  "each_keyword [] f = ret []"
| "each_keyword ((name, pat) # defs) f = bindE (f name pat) (\<lambda>x. bindE (each_keyword defs f) (\<lambda>xs. ret (x # xs)))"

definition reportKeywordDemand :: "builder \<Rightarrow> (string \<times> string) list \<Rightarrow> service_demand list op" where
  "reportKeywordDemand b defs =
     bindE (each_keyword defs (\<lambda>name pat. query (\<lambda>d. demand_row name (keyword_rows b pat d)))) (\<lambda>out.
       ret (order_by (\<lambda>x y. sd_enquiries x \<ge> sd_enquiries y) out))"

definition reportDemandByLine :: "builder \<Rightarrow> string \<Rightarrow> (service_demand list \<times> service_demand list \<times> service_demand list) op" where
  \<comment> \<open>services, languages, promotions\<close>
  "reportDemandByLine b line =
     (if line = ''CDR'' \<or> line = [] then bindE (reportKeywordDemand b cdrServiceDefs) (\<lambda>s. ret (s, [], []))
      else if line = ''CCL'' then bindE (reportKeywordDemand b cclLanguageDefs) (\<lambda>l.
        bindE (reportKeywordDemand b cclPackageDefs) (\<lambda>s. ret (s, l, [])))
      else if line = ''PTE'' then bindE (reportKeywordDemand b ptePackageDefs) (\<lambda>s.
        bindE (reportKeywordDemand b ptePromoDefs) (\<lambda>p. ret (s, [], p)))
      else if line = ''ACS'' then bindE (reportKeywordDemand b acsServiceDefs) (\<lambda>s. ret (s, [], []))
      else ret ([], [], []))"

subsection \<open>Time\<close>

definition kathmandu_day :: "int \<Rightarrow> int" where
  \<comment> \<open>\<open>timezone('Asia/Kathmandu', t)::date\<close>, since 1986\<close>
  "kathmandu_day t = (t + 20700000) div day_ms"

definition months_before :: "int \<Rightarrow> int \<Rightarrow> int" where
  \<comment> \<open>\<open>d - INTERVAL 'n months'\<close>: the same day of the month, or its last\<close>
  "months_before n day = (let m = month_of day - n in
     min (month_start m + (day - month_start (month_of day))) (month_start (m + 1) - 1))"

definition trend_start :: "zone \<Rightarrow> int \<Rightarrow> int" where
  \<comment> \<open>\<open>date_trunc\<close> makes a time with zone of the date, in the zone of the session\<close>
  "trend_start session t = day_start session (month_start (month_of (kathmandu_day t) - 17))"

definition lead_month :: "lead \<Rightarrow> int" where
  "lead_month l = month_of (kathmandu_day (l_createdAt l))"

definition trend_row :: "int \<times> lead list \<Rightarrow> report_trend" where
  "trend_row kg = (case kg of (m, g) \<Rightarrow> \<lparr>rt_key = month_key m, rt_label = month_name m @ '' '' @ pad4 (m div 12),
     rt_total = length g, rt_qualified = count_rows sql_qualified g, rt_won = count_rows won_lead g\<rparr>)"

definition monthlyTrend :: "(string \<Rightarrow> 'k::linorder) \<Rightarrow> zone \<Rightarrow> builder \<Rightarrow> report_trend list op" where
  "monthlyTrend coll session b = bindE get_now (\<lambda>t. query (\<lambda>d.
     order_by (\<lambda>x y. coll (rt_key x) \<le> coll (rt_key y)) (map trend_row
       (group_on lead_month (filter (\<lambda>l. l_createdAt l \<ge> trend_start session t) (scoped b [] d))))))"

definition language_row :: "string \<Rightarrow> int \<Rightarrow> lead list \<Rightarrow> language_trend" where
  "language_row name today ls =
     (let recent = count_rows (\<lambda>l. kathmandu_day (l_createdAt l) \<ge> months_before 9 today) ls;
          prior = count_rows (\<lambda>l. kathmandu_day (l_createdAt l) \<ge> months_before 18 today \<and>
            kathmandu_day (l_createdAt l) < months_before 9 today) ls
      in \<lparr>lt_name = name, lt_recent = recent, lt_prior = prior, lt_total18 = recent + prior,
          lt_growth = (if prior > 0 then Some ((of_nat recent - of_nat prior) / of_nat prior * 100)
                       else if recent > 0 then Some 100 else None)\<rparr>)"

definition rising_first :: "language_trend \<Rightarrow> language_trend \<Rightarrow> bool" where
  "rising_first a b \<longleftrightarrow> (let g = (\<lambda>x. case lt_growth x of None \<Rightarrow> - 9999 | Some y \<Rightarrow> y) in
     (Desc (g a), Desc (lt_recent a)) \<le> (Desc (g b), Desc (lt_recent b)))"

definition reportLanguageTrend :: "builder \<Rightarrow> service_demand list \<Rightarrow> language_trend list op" where
  "reportLanguageTrend b languages =
     (let defs = somes (map (\<lambda>x. if sd_enquiries x = 0 then None else find (\<lambda>(name, _). name = sd_name x) cclLanguageDefs) languages) in
      bindE (each_keyword defs (\<lambda>name pat. bindE get_now (\<lambda>t.
        query (\<lambda>d. language_row name (kathmandu_day t) (keyword_rows b pat d))))) (\<lambda>out0.
      let out = order_by rising_first out0;
          rising = filter (\<lambda>r. (case lt_growth r of None \<Rightarrow> False | Some g \<Rightarrow> g > 0) \<and> lt_recent r > 0) out
      in ret (if rising \<noteq> [] then take 10 rising else take 10 out)))"

subsection \<open>The whole report\<close>

definition close_minutes :: "lead \<Rightarrow> rat option" where
  "close_minutes l = (case l_closedAt l of None \<Rightarrow> None
     | Some t \<Rightarrow> if t \<ge> l_createdAt l then Some (of_int (t - l_createdAt l) / 60000) else None)"

definition go_int :: "rat \<Rightarrow> int" where
  \<comment> \<open>the conversion truncates\<close>
  "go_int x = (if x \<ge> 0 then \<lfloor>x\<rfloor> else \<lceil>x\<rceil>)"

definition totals_of :: "lead list \<Rightarrow> report_totals" where
  "totals_of ls = \<lparr>ro_leads = length ls, ro_qualified = count_rows sql_qualified ls,
     ro_notQualified = count_rows (\<lambda>l. l_qual l = ''NOT_QUALIFIED'') ls, ro_irrelevant = count_rows irrelevant_lead ls,
     ro_won = count_rows won_lead ls, ro_lost = count_rows (\<lambda>l. l_stage l = ''CLOSED_LOST'') ls,
     ro_revenue = won_revenue ls,
     ro_timeToClose = map_option (\<lambda>x. go_int (x + 1 / 2)) (sql_avg (somes (map close_minutes ls))),
     ro_firstResponse = avg_response ls\<rparr>"

definition pattern_of_line :: "string \<Rightarrow> classifier \<times> string list" where
  "pattern_of_line line = (if line = ''CCL'' then (cclIrrelevantPatternSQL, cclIrrelevantPatternLabels)
     else if line = ''PTE'' then (pteIrrelevantPatternSQL, pteIrrelevantPatternLabels)
     else if line = ''ACS'' then (acsIrrelevantPatternSQL, acsIrrelevantPatternLabels)
     else (irrelevantPatternSQL, irrelevantPatternLabels))"

definition factor_of_line :: "string \<Rightarrow> classifier \<times> string list" where
  "factor_of_line line = (if line = ''CCL'' then (cclLostOpportunityFactorSQL, cclLostOpportunityFactorLabels)
     else if line = ''PTE'' then (pteLostOpportunityFactorSQL, pteLostOpportunityFactorLabels)
     else if line = ''ACS'' then (acsLostOpportunityFactorSQL, acsLostOpportunityFactorLabels)
     else (lostOpportunityFactorSQL, lostOpportunityFactorLabels))"

definition wrap :: "string \<Rightarrow> 'a op \<Rightarrow> 'a op" where
  \<comment> \<open>\<open>fmt.Errorf("msg: %w", err)\<close>\<close>
  "wrap msg = map_err (\<lambda>e. ErrMsg (msg @ '': '' @ err_text e))"

definition Report :: "('k::linorder) report_env \<Rightarrow> lead_params \<Rightarrow> report op" where
  "Report env ps =
     (let b = leadScopeWhere (re_zone env) ps False; coll = re_coll env; line = to_upper (trim (lp_serviceLine ps));
          bucket = (\<lambda>dimen key having limit. wrap ''report buckets'' (reportBuckets (re_tie env) b dimen key having limit));
          country = named_place coll l_country; city = named_place coll l_city;
          pats = pattern_of_line line; facts = factor_of_line line in
      bindE (wrap ''report totals'' (query (\<lambda>d. totals_of (scoped b [] d)))) (\<lambda>totals.
      bindE (bucket (\<lambda>l. Some (serviceLineSQL l)) most_leads (\<lambda>g. True) 8) (\<lambda>lines.
      bindE (bucket country_dim most_qualified (\<lambda>g. has_qualified g \<and> country g) 10) (\<lambda>qualifiedCountries.
      bindE (bucket city_dim most_qualified (\<lambda>g. has_qualified g \<and> city g) 10) (\<lambda>qualifiedCities.
      bindE (bucket country_dim most_irrelevant (\<lambda>g. has_irrelevant g \<and> country g) 10) (\<lambda>irrelevantCountries.
      bindE (bucket city_dim most_irrelevant (\<lambda>g. has_irrelevant g \<and> city g) 10) (\<lambda>irrelevantCities.
      bindE (bucket country_dim most_leads (\<lambda>g. excludable 150 g \<and> country g) 10) (\<lambda>exclusionCountries.
      bindE (bucket city_dim most_leads (\<lambda>g. excludable 80 g \<and> city g) 10) (\<lambda>exclusionCities.
      bindE (bucket source_dim most_leads (\<lambda>g. True) 30) (\<lambda>sources.
      bindE (bucket portal_dim most_leads (\<lambda>g. True) 15) (\<lambda>portals.
      bindE (wrap ''report trend'' (monthlyTrend coll (re_session env) b)) (\<lambda>trend.
      bindE (wrap ''report irrelevant reasons'' (reportReasons coll b irrelevant_lead rawQualificationReason 12)) (\<lambda>reasons.
      bindE (wrap ''report irrelevant patterns'' (reportClassifiedBuckets b irrelevant_lead (\<lambda>l. classify (fst pats) (l_notes l)) (snd pats))) (\<lambda>patterns.
      bindE (wrap ''report lost reasons'' (reportReasons coll b explained_loss lostReasonSQL 10)) (\<lambda>lost.
      bindE (wrap ''report lost opportunity factors'' (reportClassifiedBuckets b explained_loss (\<lambda>l. classify (fst facts) (l_lostNotes l)) (snd facts))) (\<lambda>factors.
      bindE (wrap ''report service demand'' (reportDemandByLine b line)) (\<lambda>demand.
      bindE (if line = ''CCL'' then wrap ''report language trend'' (reportLanguageTrend b (fst (snd demand))) else ret []) (\<lambda>languageTrend.
        ret \<lparr>rp_totals = totals, rp_serviceLines = lines, rp_qualifiedCountries = qualifiedCountries, rp_qualifiedCities = qualifiedCities,
          rp_irrelevantCountries = irrelevantCountries, rp_irrelevantCities = irrelevantCities,
          rp_exclusionCountries = exclusionCountries, rp_exclusionCities = exclusionCities, rp_sources = sources, rp_portals = portals,
          rp_trend = trend, rp_irrelevantReasons = reasons, rp_irrelevantPatterns = patterns, rp_lostReasons = lost,
          rp_lostFactors = factors, rp_services = fst demand, rp_languages = fst (snd demand),
          rp_languageTrend = languageTrend, rp_promos = snd (snd demand)\<rparr>))))))))))))))))))"

definition handleReport :: "('k::linorder) report_env \<Rightarrow> (report \<Rightarrow> string) \<Rightarrow> request \<Rightarrow> string \<Rightarrow> string \<Rightarrow> auth_user \<Rightarrow> response act" where
  "handleReport env marshal r path rawQuery actor = andThen0 (get_only r) (andThen0 (requireLeadDataAccess (Some actor))
     (let key = cached_req r path rawQuery actor in
      andThen0 (serve_cached key)
      (andThen (load (Report env (leadListParamsFromRequest (Some actor) (rq_query r))) ''failed to load report'') (\<lambda>rep.
        write_cached key (marshal rep) 30000))))"

end
