(* ===== verification/ReportSafety.thy ===== *)
theory ReportSafety
  imports Report Export
begin

section \<open>What the report says\<close>

text \<open>
  The counts of a report add up: its service lines, its classes and its months partition the leads they
  are about. And a report does not depend on leads the actor may not see.
\<close>

subsection \<open>Operations that read\<close>

definition reads :: "db \<Rightarrow> int \<Rightarrow> 'a op \<Rightarrow> ('a \<Rightarrow> bool) \<Rightarrow> bool" where
  \<comment> \<open>on these tables at this time, which stay as they are, a result satisfies the predicate\<close>
  "reads D T m Q \<longleftrightarrow> (\<forall>w a w'. tables w = D \<longrightarrow> now w = T \<longrightarrow> m w = (Inr a, w') \<longrightarrow> tables w' = D \<and> now w' = T \<and> Q a)"

named_theorems reads_intros

lemma reads_ret: "Q a \<Longrightarrow> reads D T (ret a) Q"
  by (simp add: reads_def ret_def)

lemma reads_throw [reads_intros]: "reads D T (throw e) Q"
  by (simp add: reads_def throw_def)

lemma reads_query: "Q (q D) \<Longrightarrow> reads D T (query q) Q"
  unfolding reads_def query_def by (blast dest: sql_tables)

lemma reads_now: "Q T \<Longrightarrow> reads D T get_now Q"
  by (simp add: reads_def get_now_def)

lemma reads_bind: "reads D T m P \<Longrightarrow> (\<And>a. P a \<Longrightarrow> reads D T (f a) Q) \<Longrightarrow> reads D T (bindE m f) Q"
  unfolding reads_def by (blast dest: bind_result)

lemma reads_if [reads_intros]: "reads D T m Q \<Longrightarrow> reads D T n Q \<Longrightarrow> reads D T (if c then m else n) Q"
  by simp

lemma reads_wrap: "reads D T m Q \<Longrightarrow> reads D T (wrap msg m) Q"
proof -
  have "wrap msg m w = (Inr a, w') \<Longrightarrow> m w = (Inr a, w')" for w a w'
    by (cases "m w"; cases "fst (m w)") (simp_all add: wrap_def map_err_def)
  then show "reads D T m Q \<Longrightarrow> reads D T (wrap msg m) Q" unfolding reads_def by blast
qed

text \<open>Of an operation whose result does not matter only that it reads is kept.\<close>

abbreviation just_reads :: "db \<Rightarrow> int \<Rightarrow> 'a op \<Rightarrow> bool" where
  "just_reads D T m \<equiv> reads D T m (\<lambda>_. True)"

lemma just_reads_steps [reads_intros]: "just_reads D T (ret a)" "just_reads D T (query q)" "just_reads D T get_now"
  by (simp_all add: reads_ret reads_query reads_now)

lemma just_reads_bind [reads_intros]: "just_reads D T m \<Longrightarrow> (\<And>a. just_reads D T (f a)) \<Longrightarrow> just_reads D T (bindE m f)"
  by (rule reads_bind)

lemma just_reads_each: "(\<And>name pat. just_reads D T (f name pat)) \<Longrightarrow> just_reads D T (each_keyword defs f)"
  by (induction defs f rule: each_keyword.induct) (auto intro!: reads_intros)

lemma report_parts_read:
  "just_reads D T (reportBuckets tie b dimen key having limit)" "just_reads D T (reportReasons coll b extra reason limit)"
  "just_reads D T (reportKeywordDemand b defs)" "just_reads D T (reportDemandByLine b line)" "just_reads D T (reportLanguageTrend b ls)"
  unfolding reportBuckets_def reportReasons_def reportKeywordDemand_def reportDemandByLine_def reportLanguageTrend_def Let_def
  by (intro reads_intros just_reads_each)+

subsection \<open>Counts\<close>

lemma count_group: "(\<Sum>(k, g)\<leftarrow>group_on key ls. count_rows P g) = count_rows P ls"
  by (simp add: count_rows_def group_counts)

lemma few_keys: "finite A \<Longrightarrow> key ` set xs \<subseteq> A \<Longrightarrow> length (group_on key xs) \<le> card A"
  by (simp add: group_on_def length_remdups_card_conv card_mono)

definition service_lines :: "string list" where
  "service_lines = [''NAATI CCL'', ''PTE'', ''ACS RPL'', ''CDR'', ''No portal recorded'', ''Other portals'']"

lemma service_line_in: "serviceLineSQL l \<in> set service_lines"
  by (simp add: serviceLineSQL_def service_lines_def)

definition lines_add_up :: "lead list \<Rightarrow> report_bucket list \<Rightarrow> bool" where
  \<comment> \<open>the service lines count every lead once, and by qualification and outcome too\<close>
  "lines_add_up ls bs \<longleftrightarrow> (\<Sum>b\<leftarrow>bs. rb_total b) = length ls \<and> (\<Sum>b\<leftarrow>bs. rb_qualified b) = count_rows sql_qualified ls \<and>
     (\<Sum>b\<leftarrow>bs. rb_irrelevant b) = count_rows irrelevant_lead ls \<and> (\<Sum>b\<leftarrow>bs. rb_won b) = count_rows won_lead ls \<and>
     set (map rb_name bs) \<subseteq> set service_lines \<and> distinct (map rb_name bs)"

lemma lines_read: "reads D T (reportBuckets tie (leadScopeWhere zone ps False) (\<lambda>l. Some (serviceLineSQL l)) key (\<lambda>g. True) 8)
    (lines_add_up (scope_rows zone ps False D))"
  unfolding reportBuckets_def
proof (rule reads_bind [OF reads_query])
  let ?ls = "scope_rows zone ps False D" and ?key = "\<lambda>l. Some (serviceLineSQL l)"
  let ?gs = "group_on ?key ?ls"
  have "?key ` set ?ls \<subseteq> Some ` set service_lines" using service_line_in by auto
  from few_keys [OF _ this] have "length ?gs \<le> card (Some ` set service_lines)" by simp
  also have "\<dots> \<le> 6" by (simp add: card_image service_lines_def)
  finally have short: "length ?gs \<le> 8" by simp
  then show "take 8 (order_by (ranked tie key) (filter (\<lambda>(k, g). True) (group_on ?key (scoped (leadScopeWhere zone ps False) [] D)))) =
    order_by (ranked tie key) ?gs" by simp
next
  fix gs assume gs: "gs = order_by (ranked tie key) (group_on (\<lambda>l. Some (serviceLineSQL l)) (scope_rows zone ps False D))"
  let ?ls = "scope_rows zone ps False D" and ?key = "\<lambda>l. Some (serviceLineSQL l)"
  have m: "mset gs = mset (group_on ?key ?ls)" unfolding gs by simp
  then have s: "set gs = set (group_on ?key ?ls)" by (rule mset_eq_setD)
  have named: "\<not> list_ex (\<lambda>(k, g). k = None) gs" using s by (auto simp: list_ex_iff group_on_def)
  have tot: "(\<Sum>b\<leftarrow>map (\<lambda>(k, g). report_row (deref k) g) gs. F b) = (\<Sum>(k, g)\<leftarrow>group_on ?key ?ls. F (report_row (deref k) g))" for F :: "report_bucket \<Rightarrow> nat"
    unfolding gs by (simp add: sum_order_by case_prod_unfold o_def)
  have names: "map rb_name (map (\<lambda>(k, g). report_row (deref k) g) gs) = map deref (map fst gs)"
    by (simp add: report_row_def case_prod_unfold)
  have keys: "distinct (map fst gs)" "set (map fst gs) \<subseteq> Some ` set service_lines"
    using m group_keys [of ?key ?ls] service_line_in by (metis distinct_remdups mset_eq_imp_distinct_iff mset_map)
      (use s in \<open>auto simp: group_on_def service_line_in\<close>)
  have "inj_on deref (Some ` A)" for A :: "string set" by (rule inj_onI) auto
  then have d: "distinct (map deref (map fst gs))" unfolding distinct_map [of deref] using keys inj_on_subset by blast
  have "lines_add_up ?ls (map (\<lambda>(k, g). report_row (deref k) g) gs)"
    unfolding lines_add_up_def tot names using keys(2) d
    by (auto simp: report_row_def group_totals count_group irrelevant_lead_def [abs_def])
  then show "reads D T (if list_ex (\<lambda>(k, g). k = None) gs then throw (ErrMsg ''cannot scan NULL into *string'')
      else ret (map (\<lambda>(k, g). report_row (deref k) g) gs)) (lines_add_up ?ls)" using named by (simp add: reads_ret)
qed

definition classes_add_up :: "lead list \<Rightarrow> (lead \<Rightarrow> string) \<Rightarrow> string list \<Rightarrow> report_reason list \<Rightarrow> bool" where
  \<comment> \<open>every label is listed once with the number of its leads, and every lead has one\<close>
  "classes_add_up xs cls labels rs \<longleftrightarrow> set (map rr_reason rs) = set labels \<and> distinct (map rr_reason rs) \<and>
     (\<forall>r \<in> set rs. rr_count r = count_rows (\<lambda>l. cls l = rr_reason r) xs) \<and> (\<Sum>r\<leftarrow>rs. rr_count r) = length xs"

lemma counts_of_groups:
  "(case map_of (map (\<lambda>r. (rr_reason r, rr_count r)) (map reason_of_group (group_on cls xs))) k of None \<Rightarrow> 0 | Some n \<Rightarrow> n) =
   count_rows (\<lambda>l. cls l = k) xs"
proof -
  have "map (\<lambda>r. (rr_reason r, rr_count r)) (map reason_of_group (group_on cls xs)) =
      map (\<lambda>k. (k, count_rows (\<lambda>l. cls l = k) xs)) (remdups (map cls xs))"
    by (simp add: group_on_def reason_of_group_def count_rows_def)
  moreover have "count_rows (\<lambda>l. cls l = k) xs = 0" if "k \<notin> cls ` set xs"
    using that by (auto simp: count_rows_def filter_empty_conv)
  ultimately show ?thesis by (simp add: map_of_map_restrict restrict_map_def)
qed

lemma classes_permuted:
  assumes "mset rs = mset rs'" "classes_add_up xs cls labels rs'"
  shows "classes_add_up xs cls labels rs"
proof -
  have "set rs = set rs'" "mset (map rr_reason rs) = mset (map rr_reason rs')" "(\<Sum>r\<leftarrow>rs. rr_count r) = (\<Sum>r\<leftarrow>rs'. rr_count r)"
    using assms(1) by (rule mset_eq_setD, simp, metis assms(1) mset_map sum_mset_sum_list)
  then show ?thesis using assms(2) mset_eq_imp_distinct_iff unfolding classes_add_up_def by (metis set_map)
qed

lemma classes_read:
  assumes "distinct labels" "\<And>l. cls l \<in> set labels"
  shows "reads D T (reportClassifiedBuckets (leadScopeWhere zone ps False) extra cls labels)
    (classes_add_up (filter extra (scope_rows zone ps False D)) cls labels)"
  unfolding reportClassifiedBuckets_def Let_def
proof (rule reads_bind [OF reads_query], rule refl, rule reads_ret)
  let ?xs = "filter extra (scope_rows zone ps False D)"
  fix rows assume rows: "rows = map reason_of_group (group_on cls (filter extra (scoped (leadScopeWhere zone ps False) [] D)))"
  let ?out = "map (\<lambda>label. \<lparr>rr_reason = label, rr_count = count_rows (\<lambda>l. cls l = label) ?xs\<rparr>) labels"
  have "(\<Sum>k\<leftarrow>labels. length (filter (\<lambda>l. cls l = k) ?xs)) = length ?xs" by (rule sum_keys) (use assms in auto)
  then have "classes_add_up ?xs cls labels ?out" using assms(1)
    by (simp add: classes_add_up_def count_rows_def o_def)
  moreover have "mset (order_by le ?out) = mset ?out" for le by simp
  ultimately have "classes_add_up ?xs cls labels (order_by le ?out)" for le
    using classes_permuted by blast
  then show "classes_add_up ?xs cls labels (order_by (reason_first (\<lambda>s. s)) (map (\<lambda>label. \<lparr>rr_reason = label,
      rr_count = (case map_of (map (\<lambda>r. (rr_reason r, rr_count r)) rows) label of None \<Rightarrow> 0 | Some n \<Rightarrow> n)\<rparr>) labels))"
    unfolding rows counts_of_groups scoped_rows .
qed

lemma class_tables: "labelled_by (fst (pattern_of_line line)) (snd (pattern_of_line line))"
  "labelled_by (fst (factor_of_line line)) (snd (factor_of_line line))"
  by (simp_all add: pattern_of_line_def factor_of_line_def labels_complete)

lemma labelled_in: "labelled_by cl ls \<Longrightarrow> distinct ls \<and> classify cl s \<in> set ls"
  using classify_label [of cl s] by (auto simp: labelled_by_def list_all_iff)

definition months_add_up :: "zone \<Rightarrow> int \<Rightarrow> lead list \<Rightarrow> report_trend list \<Rightarrow> bool" where
  \<comment> \<open>the months count every lead since the start of the trend once\<close>
  "months_add_up session t ls ms \<longleftrightarrow> (let recent = filter (\<lambda>l. l_createdAt l \<ge> trend_start session t) ls in
     (\<Sum>m\<leftarrow>ms. rt_total m) = length recent \<and> (\<Sum>m\<leftarrow>ms. rt_qualified m) = count_rows sql_qualified recent \<and>
     (\<Sum>m\<leftarrow>ms. rt_won m) = count_rows won_lead recent)"

lemma months_read: "reads D T (monthlyTrend coll session (leadScopeWhere zone ps False))
    (months_add_up session T (scope_rows zone ps False D))"
  unfolding monthlyTrend_def
proof (rule reads_bind [OF reads_now], rule refl, rule reads_query)
  fix t assume "t = T"
  then show "months_add_up session T (scope_rows zone ps False D) (order_by (\<lambda>x y. coll (rt_key x) \<le> coll (rt_key y))
      (map trend_row (group_on lead_month (filter (\<lambda>l. trend_start session t \<le> l_createdAt l) (scoped (leadScopeWhere zone ps False) [] D)))))"
    unfolding months_add_up_def Let_def sum_order_by scoped_rows sum_labels
    by (simp add: trend_row_def group_totals count_group)
qed

text \<open>C29. The counts of a report add up. Its service lines count every lead in scope exactly once, also by
  qualification and by won deals, and agree with the totals; the patterns of the irrelevant leads and the factors of the
  explained losses list every label once and sum to the number of these leads; the months count every
  lead since the start of the trend once.\<close>

theorem report_adds_up:
  assumes "Report env ps w = (Inr rep, w')"
  defines "ls \<equiv> scope_rows (re_zone env) ps False (tables w)" and "line \<equiv> to_upper (trim (lp_serviceLine ps))"
  shows "rp_totals rep = totals_of ls \<and> lines_add_up ls (rp_serviceLines rep) \<and>
    (\<Sum>b\<leftarrow>rp_serviceLines rep. rb_total b) = ro_leads (rp_totals rep) \<and>
    classes_add_up (filter irrelevant_lead ls) (\<lambda>l. classify (fst (pattern_of_line line)) (l_notes l)) (snd (pattern_of_line line)) (rp_irrelevantPatterns rep) \<and>
    (\<Sum>r\<leftarrow>rp_irrelevantPatterns rep. rr_count r) = ro_irrelevant (rp_totals rep) \<and>
    classes_add_up (filter explained_loss ls) (\<lambda>l. classify (fst (factor_of_line line)) (l_lostNotes l)) (snd (factor_of_line line)) (rp_lostFactors rep) \<and>
    months_add_up (re_session env) (now w) ls (rp_trend rep)"
proof -
  let ?D = "tables w" and ?T = "now w"
  let ?cls = "\<lambda>l. classify (fst (pattern_of_line line)) (l_notes l)" and ?fac = "\<lambda>l. classify (fst (factor_of_line line)) (l_lostNotes l)"
  let ?good = "\<lambda>rep. rp_totals rep = totals_of ls \<and> lines_add_up ls (rp_serviceLines rep) \<and>
    classes_add_up (filter irrelevant_lead ls) ?cls (snd (pattern_of_line line)) (rp_irrelevantPatterns rep) \<and>
    classes_add_up (filter explained_loss ls) ?fac (snd (factor_of_line line)) (rp_lostFactors rep) \<and>
    months_add_up (re_session env) ?T ls (rp_trend rep)"
  note skip = reads_bind [OF reads_wrap [OF report_parts_read(1)]]
  have tot: "reads ?D ?T (query (\<lambda>d. totals_of (scoped (leadScopeWhere (re_zone env) ps False) [] d))) (\<lambda>t. t = totals_of ls)"
    by (rule reads_query) (simp add: ls_def)
  have pat: "reads ?D ?T (reportClassifiedBuckets (leadScopeWhere (re_zone env) ps False) irrelevant_lead ?cls (snd (pattern_of_line line)))
      (classes_add_up (filter irrelevant_lead ls) ?cls (snd (pattern_of_line line)))"
    unfolding ls_def by (rule classes_read) (use labelled_in class_tables(1) in blast)+
  have fac: "reads ?D ?T (reportClassifiedBuckets (leadScopeWhere (re_zone env) ps False) explained_loss ?fac (snd (factor_of_line line)))
      (classes_add_up (filter explained_loss ls) ?fac (snd (factor_of_line line)))"
    unfolding ls_def by (rule classes_read) (use labelled_in class_tables(2) in blast)+
  have "reads ?D ?T (Report env ps) ?good"
    unfolding Report_def Let_def line_def [symmetric]
    by (rule reads_bind [OF reads_wrap [OF tot]], rule reads_bind [OF reads_wrap [OF lines_read]], (rule skip)+,
        rule reads_bind [OF reads_wrap [OF months_read]], rule reads_bind [OF reads_wrap [OF report_parts_read(2)]],
        rule reads_bind [OF reads_wrap [OF pat]], rule reads_bind [OF reads_wrap [OF report_parts_read(2)]],
        rule reads_bind [OF reads_wrap [OF fac]], rule reads_bind [OF reads_wrap [OF report_parts_read(4)]],
        rule reads_bind, rule reads_if [OF reads_wrap [OF report_parts_read(5)] just_reads_steps(1)], rule reads_ret)
      (simp add: ls_def)
  then have "?good rep" using assms(1) unfolding reads_def by blast
  then show ?thesis by (simp add: lines_add_up_def classes_add_up_def totals_of_def count_rows_def)
qed

definition toy_report :: "string report_env" where
  "toy_report = \<lparr>re_zone = kathmandu, re_session = (\<lambda>w. w), re_coll = (\<lambda>s. s), re_tie = (\<lambda>s. s)\<rparr>"

lemma toy_report_ok:
  "(case fst (Report toy_report (leadListParamsFromRequest (Some ann) []) (calm_world three_leads)) of
     Inl _ \<Rightarrow> [] | Inr rep \<Rightarrow> map rb_total (rp_serviceLines rep)) = [1]"
  by code_simp

theorem report_adds_up_witness:
  "\<exists>rep :: report. map rb_total (rp_serviceLines rep) = [1] \<and>
     lines_add_up (scope_rows kathmandu (leadListParamsFromRequest (Some ann) []) False three_leads) (rp_serviceLines rep)"
proof -
  let ?r = "Report toy_report (leadListParamsFromRequest (Some ann) []) (calm_world three_leads)"
  obtain x w' where r: "?r = (x, w')" by force
  then obtain rep where x: "x = Inr rep" "map rb_total (rp_serviceLines rep) = [1]"
    using toy_report_ok by (cases x) simp_all
  have "lines_add_up (scope_rows kathmandu (leadListParamsFromRequest (Some ann) []) False three_leads) (rp_serviceLines rep)"
    using report_adds_up [OF r [unfolded x(1)]] by (simp add: toy_report_def calm_calm_world)
  then show ?thesis using x(2) by (intro exI conjI)
qed

subsection \<open>Hidden leads\<close>

lemma same_on_wrap [same_on_intros]: "same_on R m \<Longrightarrow> same_on R (wrap msg m)"
  unfolding same_on_def wrap_def map_err_def by (fastforce split: prod.splits sum.splits)

lemma same_on_each: "(\<And>name pat. same_on R (f name pat)) \<Longrightarrow> same_on R (each_keyword defs f)"
  by (induction defs f rule: each_keyword.induct) (auto intro!: same_on_intros)

lemma keywords_seen: "same_view actor d1 d2 \<Longrightarrow>
    keyword_rows (leadScopeWhere zone (leadListParamsFromRequest (Some actor) q) False) pat d1 =
    keyword_rows (leadScopeWhere zone (leadListParamsFromRequest (Some actor) q) False) pat d2"
  unfolding keyword_rows_def Let_def scoped_rows by (simp add: request_scope_seen)

lemma report_parts_seen:
  fixes actor q zone
  defines "b \<equiv> leadScopeWhere zone (leadListParamsFromRequest (Some actor) q) False"
  shows "same_on (same_view actor) (reportBuckets tie b dimen key having limit)"
    "same_on (same_view actor) (reportReasons coll b extra reason limit)"
    "same_on (same_view actor) (reportClassifiedBuckets b extra cls labels)"
    "same_on (same_view actor) (monthlyTrend coll session b)"
    "same_on (same_view actor) (reportKeywordDemand b defs)"
    "same_on (same_view actor) (reportLanguageTrend b ls)"
  unfolding reportBuckets_def reportReasons_def reportClassifiedBuckets_def monthlyTrend_def reportKeywordDemand_def
    reportLanguageTrend_def b_def scoped_rows Let_def
  by (intro same_on_intros same_on_each; simp add: request_scope_seen keywords_seen)+

lemma demand_seen: "same_on (same_view actor) (reportDemandByLine (leadScopeWhere zone (leadListParamsFromRequest (Some actor) q) False) line)"
  unfolding reportDemandByLine_def by (intro same_on_intros report_parts_seen)

lemma Report_seen: "same_on (same_view actor) (Report env (leadListParamsFromRequest (Some actor) q))"
  unfolding Report_def Let_def scoped_rows
  by (intro same_on_intros report_parts_seen demand_seen; simp add: request_scope_seen)

text \<open>C30. The report does not depend on leads the actor may not see: two servers that differ only in such
  leads give the same report, and differ only in them afterwards.\<close>

theorem report_hides_leads:
  assumes "sagree (same_view actor) s1 s2"
  shows "fst (run_handler (handleReport env marshal r path rawQuery actor) s1) =
      fst (run_handler (handleReport env marshal r path rawQuery actor) s2) \<and>
    sagree (same_view actor) (snd (run_handler (handleReport env marshal r path rawQuery actor) s1))
      (snd (run_handler (handleReport env marshal r path rawQuery actor) s2))"
proof (rule run_blind [OF _ assms])
  show "blind (same_view actor) (handleReport env marshal r path rawQuery actor)"
    unfolding handleReport_def Let_def by (intro blind_intros Report_seen)
qed

theorem report_hides_leads_witness:
  "fst (run_handler (handleReport toy_report (\<lambda>rep. format_int (int (ro_leads (rp_totals rep)))) list_request ''/api/report'' [] ann) (fresh_server three_leads)) =
   fst (run_handler (handleReport toy_report (\<lambda>rep. format_int (int (ro_leads (rp_totals rep)))) list_request ''/api/report'' [] ann) (fresh_server fewer_leads)) \<and>
   leads fewer_leads \<noteq> leads three_leads"
proof -
  have "agree (same_view ann) (calm_world three_leads) (calm_world fewer_leads)"
    using ann_view(1) by (auto simp: agree_def calm_world_def)
  then have "sagree (same_view ann) (fresh_server three_leads) (fresh_server fewer_leads)"
    by (auto simp: sagree_def fresh_server_def)
  from report_hides_leads [OF this] show ?thesis using ann_view(2) by blast
qed

subsection \<open>Where the trend begins\<close>

text \<open>The first month of the trend is whole only when the database session is in the zone of the statement:
  a session in UTC leaves out the first five hours and 45 minutes of it.\<close>

theorem trend_misses_hours: "trend_start (\<lambda>w. w) t = trend_start kathmandu t + 20700000"
  by (simp add: trend_start_def day_start_def kathmandu_def day_ms_def)

end
