(* ===== verification/Spec2Isabelle.thy ===== *)
theory Spec2Isabelle
  imports Sse Limiter Validate Cache UserFlows LeadSafety AssignSafety AdminSafety CacheSafety AnalyticsSafety
    SummaryPages TransferPages Cors Migrate Uploads Export ReportSafety
begin

text \<open>
  A verification development of the LeadFlow server, an HTTP API in Go over PostgreSQL that keeps the
  leads of a sales organisation. Users have one of five roles: superadmin, analyst team lead, lead
  analyst, main team lead, sales executive. Analysts create leads, qualified leads are assigned to
  the main team lead of a team and to its executives, who record the outcome.

  \<^bold>\<open>How the program is modelled.\<close> The tables are records of lists (Db); a store method is an
  operation \<open>'a op\<close> (Effects) on a world of tables, clock, identifier source and a list of faults: the
  next SQL statement fails when the next fault says so, a transaction rolls back, and an error is a
  value. A handler is an action \<open>'a act\<close> (Server) on the state of the server - world, realtime hub,
  response cache, login limiter - that ends with a response. Bodies arrive as the JSON value they
  hold (Json). Text is a list of characters, one for each code point below U+0100 (Prelude). An SQL
  statement is translated to the function on the tables that it denotes.

  \<^bold>\<open>Theories and code.\<close>
  \<^item> Prelude, Effects, Db: text, tables, effects; rules for operations that do not write
    (\<open>readonly\<close>), change nothing when they fail (\<open>atomic\<close>), keep an invariant (\<open>keeps\<close>), and
    pre- and postconditions (\<open>triple\<close>).
  \<^item> Roles (roles.go), Qualification (qualification.go), Validate (validate.go), Session (session.go),
    Limiter (ratelimit.go), Cache (response_cache.go, redis_cache.go), Display (labels of leads.go,
    paths of uploads.go), Times (business_tz.go and the dates of requests).
  \<^item> Hub, Sse (realtime.go): the hub, and the life of event streams as a step relation over it.
  \<^item> Users, UserMoves (users.go), with UserSafety and UserFlows: accounts, sessions, deletion,
    transfers.
  \<^item> LeadOps, LeadChanges (leads.go, qualification_log.go), Assign (assign.go), with LeadSafety and
    AssignSafety: creating, changing, assigning and deleting leads.
  \<^item> Search (search.go), LeadFilter, LeadList, LeadPages (leads.go, geo_filter.go): the conditions,
    sorts, cursors and pages of the lead list.
  \<^item> Aggregate, Summary, SummarySafety, SummaryPages, Trends (the aggregate queries of leads.go,
    business_tz.go, geo_filter.go): the scope every aggregate shares, the summary, its pages of buckets,
    the series of added leads and the geography.
  \<^item> Kpi, KpiTargets (kpi.go, kpi_targets.go); Transfers, TransferPages (transfers.go); Dashboard
    (dashboard.go); Analytics, AnalyticsSafety (handlers_analytics.go).
  \<^item> Classify, Report, ReportSafety (report.go): the classes of notes by regular expressions, and the
    report with its rankings, reasons, demand and trends.
  \<^item> ExportDoc, Export (leads_export.go, handlers_leads_export.go): the PDF export as the calls that draw
    it, and the lock of running exports.
  \<^item> Uploads (uploads.go) over a map of files, Migrate (migrate.go), Cors (cors.go), Notify
    (notifications.go).
  \<^item> Server, Access, AuthHandlers, UserHandlers, LeadHandlers, ListHandlers: the handlers of
    handlers.go, httpx.go, auth.go, cookie_auth.go, handlers_auth.go, handlers_users.go,
    user_admin.go and handlers_leads_http.go, with AuthSafety, AdminSafety, LeadGuard and CacheSafety.

  \<^bold>\<open>What is shown.\<close> Store: deletion and transfer of users, bulk assignment and deletion of leads happen
  entirely or not at all and have exactly the stated effect; closed leads stay consistent; the last
  superadmin is not deleted or deactivated; passwords and sessions are checked as stated. Handlers:
  a request needs the live session of an active account; accounts and leads change only by those who
  may; only superadmins make superadmins; a successful change empties the response cache, but for the
  two transfers, which never do. Lists: the generated WHERE clause with its numbered arguments means
  what the request asks for; following the cursors ends and shows every match once, except in the two
  cases named there; a list stays in the scope of the actor. Aggregates: two servers that differ only in
  leads the actor may not see answer the list, the summary, the KPIs, the pipeline, the buckets, the
  geography, the series and the report alike, while the legacy dashboard shows hidden leads; the mixes
  of a summary, the series and the parts of a report partition the leads they are about; walking the
  pages of buckets and of the transfer logs ends and shows everything once, up to the clamp of the
  bucket offset. KPIs: a snapshot is in range and its flags say whether a threshold is reached; seeding
  keeps edited targets and the table well-formed. Files: an upload stores one image or nothing and is
  served as it was sent; an export draws exactly the list of the request and runs once per user while it
  is short; migrations run in order and are not applied again. Cross-origin: only listed origins read
  answers. Realtime: locked operations never panic, the unlocked initial send can. Components: the
  limiter refines a reference and grants no more than its limit; the cache serves live entries only;
  matching of emails, qualifications and dates is exact; a search with a regular expression finds
  exactly the parts the expression stands for; the zone name in SQL texts is quoted.

  \<^bold>\<open>Interfaces.\<close> The contract of a response cache (\<open>response_cacher\<close>) is interpreted on the in-memory
  cache and on the Redis client without a server; the contract of pages (\<open>paging\<close>) on \<open>LeadStore.List\<close>
  and on the pages of buckets.

  \<^bold>\<open>Bounds.\<close> No recursion of the program needs fuel but following pages: \<open>walk n\<close> requests at most
  \<open>n\<close> pages, and one more than the number of matching rows is enough, since a page shows at least one
  row. Numbers are integers except in \<open>itoa\<close>, which is on 64-bit words; amounts, averages and
  percentages are rationals in place of float64.

  \<^bold>\<open>Parameters.\<close> bcrypt, SHA-256 and JWT signing; the time zones of the deployment and of the database
  session; the collation of PostgreSQL, the order of rows a statement leaves unordered, and the texts it
  makes of dates and numbers; what a migration statement does to the schema; the answers of Redis;
  \<open>json.Marshal\<close> of an answer; the outcome of file operations, the form of an upload and the detection
  of its content type; the canvas of the PDF library.

  \<^bold>\<open>Not modelled.\<close> Start-up and shutdown (main.go) and reading of environment files and zone tables, which are
  I/O; the wire format and the heartbeat of an event stream; the rendering of a PDF by its library; the
  programs under cmd, which are run by hand against a deployment (load tests, seeding, index tuning).
  Deadlines of requests appear only as statements that fail.
\<close>

end
